(* ===== verification/Prelude.thy ===== *)
theory Prelude
  imports Main "HOL-Library.Word" "HOL-Library.AList"
begin

text \<open>
  Shared base of the development: the values every service passes around.

  \<^item> errors: Go's sentinel errors of each package and the wrapping done by
    \<^verbatim>\<open>fmt.Errorf("...%w...")\<close>, with \<^verbatim>\<open>errors.Is\<close> as a recursive test;
  \<^item> identifiers: \<^verbatim>\<open>uuid.UUID\<close>, a 16 byte array, as a 128 bit word read big endian,
    with its binary and textual forms;
  \<^item> instants: \<^verbatim>\<open>time.Time\<close> as nanoseconds since the Unix epoch (time zones and
    the monotonic reading are not part of the value);
  \<^item> Go strings as byte strings.
\<close>

section \<open>Errors\<close>

text \<open>The packages that declare sentinel errors, and the names they give to them.\<close>

datatype pkg =
    P_event | P_peer | P_user | P_session | P_confa | P_talk | P_room | P_record
  | P_profile | P_tracker | P_web | P_context | P_mongo | P_twirp | P_beanstalk
  | P_bcrypt | P_http | P_auth | P_minio

datatype ekind =
    ErrValidation | ErrNotFound | ErrUnexpectedResult | ErrCursorClosed | ErrShuttingDown
  | ErrUnknownEvent | ErrDuplicateEntry | ErrAmbiguousLookup | ErrPermissionDenied
  | ErrWrongState | ErrClosed | ErrUnknownMessage | Canceled | DeadlineExceeded
  | ErrNoDocuments | DuplicateKey | ErrMismatchedHashAndPassword | ErrNoCookie | ErrJobFinished

text \<open>
  \<open>New t\<close> is \<^verbatim>\<open>errors.New(t)\<close>; \<open>Wrap t e\<close> is \<^verbatim>\<open>fmt.Errorf("t: %w", e)\<close>;
  \<open>WrapS e c\<close> is \<^verbatim>\<open>fmt.Errorf("%w: %s", e, c)\<close>, which wraps \<open>e\<close> only;
  \<open>Foreign n\<close> is an error of code outside the repository.
\<close>

datatype go_error =
    Sentinel pkg ekind
  | New string
  | Wrap string go_error
  | WrapS go_error go_error
  | Foreign nat

fun errors_Is :: "go_error \<Rightarrow> pkg \<Rightarrow> ekind \<Rightarrow> bool" where
  "errors_Is (Sentinel p k) p' k' = (p = p' \<and> k = k')"
| "errors_Is (Wrap t e) p' k' = errors_Is e p' k'"
| "errors_Is (WrapS e c) p' k' = errors_Is e p' k'"
| "errors_Is (New t) p' k' = False"
| "errors_Is (Foreign n) p' k' = False"

type_synonym 'a res = "go_error + 'a"

text \<open>A Go \<^verbatim>\<open>error\<close> result with no value: \<open>None\<close> is \<^verbatim>\<open>nil\<close>.\<close>

type_synonym err = "go_error option"

definition is_ok :: "'a res \<Rightarrow> bool" where
  "is_ok r = (case r of Inl _ \<Rightarrow> False | Inr _ \<Rightarrow> True)"

lemma is_ok_simps [simp]: "\<not> is_ok (Inl e)" "is_ok (Inr x)"
  by (simp_all add: is_ok_def)

lemma is_ok_iff: "is_ok r \<longleftrightarrow> (\<exists>x. r = Inr x)"
  by (cases r) auto

named_theorems model_defs \<open>definitions of guards and small helpers\<close>

section \<open>Identifiers\<close>

type_synonym byte = "8 word"
type_synonym uuid = "128 word"

definition uuid_Nil :: uuid where
  "uuid_Nil = 0"

text \<open>The big-endian digits in base 256, most significant first.\<close>

fun be_bytes :: "nat \<Rightarrow> nat \<Rightarrow> byte list" where
  "be_bytes 0 n = []"
| "be_bytes (Suc k) n = be_bytes k (n div 256) @ [word_of_nat n]"

definition be_nat :: "byte list \<Rightarrow> nat" where
  "be_nat bs = foldl (\<lambda>a b. a * 256 + unat b) 0 bs"

lemma be_nat_simps [simp]:
  "be_nat [] = 0"
  "be_nat (bs @ [b]) = be_nat bs * 256 + unat b"
  by (simp_all add: be_nat_def)

lemma length_be_bytes [simp]: "length (be_bytes k n) = k"
  by (induction k arbitrary: n) simp_all

lemma be_nat_be_bytes: "be_nat (be_bytes k n) = n mod 256 ^ k"
proof (induction k arbitrary: n)
  case 0
  then show ?case by simp
next
  case (Suc k)
  have "n mod 256 ^ Suc k = (n div 256 mod 256 ^ k) * 256 + n mod 256"
    by (simp add: mod_mult2_eq mult.commute)
  with Suc show ?case
    by (simp add: unat_of_nat)
qed

lemma byte_256: "(256 :: byte) = 0"
  by simp

lemma byte_bound: "unat (b :: byte) < 256"
  using unsigned_less [of b] by simp

lemma uuid_bound: "unat (u :: uuid) < 256 ^ 16"
  using unsigned_less [of u] by simp

lemma be_nat_less: "be_nat bs < 256 ^ length bs"
proof (induction bs rule: rev_induct)
  case Nil
  then show ?case by simp
next
  case (snoc b bs)
  have "unat b < 256"
    by (rule byte_bound)
  with snoc show ?case
    by simp
qed

lemma be_bytes_be_nat: "be_bytes (length bs) (be_nat bs) = bs"
proof (induction bs rule: rev_induct)
  case Nil
  then show ?case by simp
next
  case (snoc b bs)
  have b: "unat b < 256"
    by (rule byte_bound)
  then have "(be_nat bs * 256 + unat b) div 256 = be_nat bs"
    by simp
  moreover have "(word_of_nat (be_nat bs * 256 + unat b) :: byte) = b"
    by (simp add: byte_256)
  ultimately show ?case
    using snoc by simp
qed

definition uuid_MarshalBinary :: "uuid \<Rightarrow> byte list" where
  "uuid_MarshalBinary u = be_bytes 16 (unat u)"

text \<open>
  \<^verbatim>\<open>UnmarshalBinary\<close> of \<^verbatim>\<open>google/uuid\<close> rejects every length but 16.  The services
  drop its error (\<^verbatim>\<open>_ = id.UnmarshalBinary(b)\<close>) and go on with the zero value;
  \<open>uuid_of_bin\<close> is that idiom.
\<close>

definition uuid_UnmarshalBinary :: "byte list \<Rightarrow> uuid res" where
  "uuid_UnmarshalBinary bs =
     (if length bs \<noteq> 16 then Inl (New ''invalid UUID'') else Inr (word_of_nat (be_nat bs)))"

definition uuid_of_bin :: "byte list \<Rightarrow> uuid" where
  "uuid_of_bin bs = (case uuid_UnmarshalBinary bs of Inl _ \<Rightarrow> uuid_Nil | Inr u \<Rightarrow> u)"

lemma length_MarshalBinary [simp]: "length (uuid_MarshalBinary u) = 16"
  by (simp add: uuid_MarshalBinary_def)

lemma uuid_roundtrip [simp]: "uuid_UnmarshalBinary (uuid_MarshalBinary u) = Inr u"
proof -
  have "unat u < 256 ^ 16"
    by (rule uuid_bound)
  then show ?thesis
    by (simp add: uuid_UnmarshalBinary_def uuid_MarshalBinary_def be_nat_be_bytes)
qed

lemma uuid_of_bin_Marshal [simp]: "uuid_of_bin (uuid_MarshalBinary u) = u"
  by (simp add: uuid_of_bin_def)

lemma uuid_Unmarshal_Marshal:
  assumes "uuid_UnmarshalBinary bs = Inr u"
  shows "uuid_MarshalBinary u = bs"
proof -
  from assms have l: "length bs = 16" and u: "u = word_of_nat (be_nat bs)"
    by (auto simp: uuid_UnmarshalBinary_def split: if_splits)
  have "be_nat bs < 2 ^ 128"
    using be_nat_less [of bs] l by simp
  then have "unat u = be_nat bs"
    by (simp add: u unat_of_nat)
  with l show ?thesis
    using be_bytes_be_nat [of bs] by (simp add: uuid_MarshalBinary_def)
qed

lemma uuid_MarshalBinary_inj: "uuid_MarshalBinary u = uuid_MarshalBinary v \<Longrightarrow> u = v"
  by (metis uuid_of_bin_Marshal)

text \<open>The textual form: lower case hexadecimal digits in groups of 8-4-4-4-12.\<close>

definition hex_digit :: "nat \<Rightarrow> char" where
  "hex_digit n = (if n < 10 then char_of (48 + n) else char_of (87 + n))"

definition hex_byte :: "byte \<Rightarrow> string" where
  "hex_byte b = [hex_digit (unat b div 16), hex_digit (unat b mod 16)]"

definition hex_Encode :: "byte list \<Rightarrow> string" where
  "hex_Encode bs = concat (map hex_byte bs)"

definition uuid_String :: "uuid \<Rightarrow> string" where
  "uuid_String u = (let b = uuid_MarshalBinary u in
     hex_Encode (take 4 b) @ ''-'' @ hex_Encode (take 2 (drop 4 b)) @ ''-'' @
     hex_Encode (take 2 (drop 6 b)) @ ''-'' @ hex_Encode (take 2 (drop 8 b)) @ ''-'' @
     hex_Encode (drop 10 b))"

definition hex_char :: "char \<Rightarrow> bool" where
  "hex_char c = (let n = (of_char c :: nat) in (48 \<le> n \<and> n \<le> 57) \<or> (97 \<le> n \<and> n \<le> 102))"

lemma hex_digit_code:
  "n < 16 \<Longrightarrow> (of_char (hex_digit n) :: nat) = (if n < 10 then 48 + n else 87 + n)"
  by (simp add: hex_digit_def)

lemma hex_digit_inj: "m < 16 \<Longrightarrow> n < 16 \<Longrightarrow> hex_digit m = hex_digit n \<Longrightarrow> m = n"
  by (drule arg_cong [where f = "of_char :: char \<Rightarrow> nat"])
    (simp only: hex_digit_code, simp split: if_splits)

lemma hex_char_digit: "n < 16 \<Longrightarrow> hex_char (hex_digit n)"
  by (auto simp: hex_char_def Let_def hex_digit_code)

lemma hex_char_byte: "list_all hex_char (hex_byte b)"
proof -
  have "unat b div 16 < 16"
    using byte_bound [of b] by simp
  then show ?thesis
    by (simp add: hex_byte_def hex_char_digit)
qed

lemma hex_byte_inj: "hex_byte a = hex_byte b \<Longrightarrow> a = b"
proof -
  assume "hex_byte a = hex_byte b"
  then have "unat a div 16 = unat b div 16" "unat a mod 16 = unat b mod 16"
    using byte_bound [of a] byte_bound [of b]
    by (auto simp: hex_byte_def intro!: hex_digit_inj)
  then have "unat a = unat b"
    by (metis div_mult_mod_eq)
  then show ?thesis
    by (simp add: word_unat_eq_iff)
qed

lemma length_hex_byte [simp]: "length (hex_byte b) = 2"
  by (simp add: hex_byte_def)

lemma hex_Encode_simps [simp]:
  "hex_Encode [] = []"
  "hex_Encode (b # bs) = hex_byte b @ hex_Encode bs"
  by (simp_all add: hex_Encode_def)

lemma length_hex_Encode [simp]: "length (hex_Encode bs) = 2 * length bs"
  by (induction bs) simp_all

lemma hex_char_Encode: "list_all hex_char (hex_Encode bs)"
  by (induction bs) (simp_all add: hex_char_byte)

lemma hex_Encode_inj: "hex_Encode as = hex_Encode bs \<Longrightarrow> as = bs"
proof (induction as arbitrary: bs)
  case Nil
  then show ?case by (cases bs) (auto simp: hex_byte_def)
next
  case (Cons a as)
  then obtain b bs' where bs: "bs = b # bs'"
    by (cases bs) (auto simp: hex_byte_def)
  with Cons.prems have "hex_byte a = hex_byte b" "hex_Encode as = hex_Encode bs'"
    by simp_all
  with Cons.IH bs show ?case
    by (auto dest: hex_byte_inj)
qed

lemma length_uuid_String [simp]: "length (uuid_String u) = 36"
  by (simp add: uuid_String_def Let_def)

lemma groups_split:
  "w = take 4 w @ take 2 (drop 4 w) @ take 2 (drop 6 w) @ take 2 (drop 8 w) @ drop 10 w"
proof -
  have "drop 4 w = take 2 (drop 4 w) @ drop 6 w" "drop 6 w = take 2 (drop 6 w) @ drop 8 w"
    "drop 8 w = take 2 (drop 8 w) @ drop 10 w"
    using append_take_drop_id [of 2 "drop 4 w"] append_take_drop_id [of 2 "drop 6 w"]
      append_take_drop_id [of 2 "drop 8 w"] by simp_all
  then show ?thesis by (metis append_take_drop_id)
qed

lemma uuid_String_inj:
  assumes "uuid_String u = uuid_String v"
  shows "u = v"
proof -
  let ?b = "uuid_MarshalBinary u" and ?c = "uuid_MarshalBinary v"
  have "hex_Encode (take 4 ?b) = hex_Encode (take 4 ?c) \<and>
     hex_Encode (take 2 (drop 4 ?b)) = hex_Encode (take 2 (drop 4 ?c)) \<and>
     hex_Encode (take 2 (drop 6 ?b)) = hex_Encode (take 2 (drop 6 ?c)) \<and>
     hex_Encode (take 2 (drop 8 ?b)) = hex_Encode (take 2 (drop 8 ?c)) \<and>
     hex_Encode (drop 10 ?b) = hex_Encode (drop 10 ?c)"
    using assms by (simp add: uuid_String_def Let_def)
  then have "?b = ?c"
    using groups_split [of ?b] groups_split [of ?c] by (metis hex_Encode_inj)
  then show ?thesis
    by (rule uuid_MarshalBinary_inj)
qed

section \<open>Instants and durations\<close>

text \<open>Both are counted in nanoseconds; the zero \<^verbatim>\<open>time.Time\<close> is 1 January of year 1.\<close>

type_synonym time = int
type_synonym duration = int

definition time_zero :: time where
  "time_zero = - 62135596800 * 1000000000"

definition IsZero :: "time \<Rightarrow> bool" where
  "IsZero t = (t = time_zero)"

definition Millisecond :: duration where "Millisecond = 1000000"
definition Second :: duration where "Second = 1000000000"
definition Minute :: duration where "Minute = 60 * 1000000000"
definition Hour :: duration where "Hour = 60 * 60 * 1000000000"

lemmas duration_defs = Millisecond_def Second_def Minute_def Hour_def

definition UnixMilli :: "time \<Rightarrow> int" where
  "UnixMilli t = t div 1000000"

definition of_UnixMilli :: "int \<Rightarrow> time" where
  "of_UnixMilli m = m * 1000000"

text \<open>
  \<^verbatim>\<open>t.Round(time.Millisecond)\<close> rounds half up, counting from the zero time; the
  repositories stamp documents with \<^verbatim>\<open>time.Now().UTC().Round(time.Millisecond)\<close>.
\<close>

definition mongoNow :: "time \<Rightarrow> time" where
  "mongoNow t = time_zero + ((t - time_zero + 500000) div 1000000) * 1000000"

lemma UnixMilli_of_UnixMilli [simp]: "UnixMilli (of_UnixMilli m) = m"
  by (simp add: UnixMilli_def of_UnixMilli_def)

lemma mongoNow_millis: "of_UnixMilli (UnixMilli (mongoNow t)) = mongoNow t"
  by (simp add: of_UnixMilli_def UnixMilli_def mongoNow_def time_zero_def)

lemma mongoNow_close: "\<bar>mongoNow t - t\<bar> \<le> 500000"
proof -
  define d where "d = t - time_zero + 500000"
  have "d = (d div 1000000) * 1000000 + d mod 1000000" by simp
  moreover have "0 \<le> d mod 1000000" "d mod 1000000 < 1000000" by simp_all
  moreover have "mongoNow t - t = (d div 1000000) * 1000000 - d + 500000"
    by (simp add: mongoNow_def d_def)
  ultimately show ?thesis by linarith
qed

section \<open>Strings\<close>

text \<open>\<^verbatim>\<open>strings.Split\<close> with a separator of one byte.\<close>

fun split_on :: "char \<Rightarrow> string \<Rightarrow> string list" where
  "split_on c [] = [[]]"
| "split_on c (x # xs) =
     (if x = c then [] # split_on c xs
      else (case split_on c xs of [] \<Rightarrow> [[x]] | p # ps \<Rightarrow> (x # p) # ps))"

lemma split_on_no: "c \<notin> set a \<Longrightarrow> split_on c a = [a]"
  by (induction a) auto

lemma split_on_append: "c \<notin> set a \<Longrightarrow> split_on c (a @ c # b) = a # split_on c b"
  by (induction a) auto

lemma split_on_nonempty [simp]: "split_on c s \<noteq> []"
  by (induction s) (auto split: list.splits)

lemma hex_no_dash: "list_all hex_char s \<Longrightarrow> CHR ''-'' \<notin> set s"
  by (auto simp: list_all_iff hex_char_def Let_def)

lemma split_uuid_String:
  "split_on CHR ''-'' (uuid_String u) =
     (let b = uuid_MarshalBinary u in
      [hex_Encode (take 4 b), hex_Encode (take 2 (drop 4 b)), hex_Encode (take 2 (drop 6 b)),
       hex_Encode (take 2 (drop 8 b)), hex_Encode (drop 10 b)])"
proof -
  note no = hex_no_dash [OF hex_char_Encode]
  show ?thesis
    by (simp add: uuid_String_def Let_def split_on_append [OF no] split_on_no [OF no])
qed

definition ascii :: "char \<Rightarrow> bool" where
  "ascii c = ((of_char c :: nat) < 128)"

definition lower_char :: "char \<Rightarrow> char" where
  "lower_char c = (let n = (of_char c :: nat) in
     if 65 \<le> n \<and> n \<le> 90 then char_of (n + 32) else c)"

text \<open>
  \<^verbatim>\<open>strings.ToLower\<close> maps an ASCII string byte by byte; for any other string it goes
  through the Unicode tables, which are a parameter.
\<close>

definition strings_ToLower :: "(string \<Rightarrow> string) \<Rightarrow> string \<Rightarrow> string" where
  "strings_ToLower ulower s = (if list_all ascii s then map lower_char s else ulower s)"

lemma char_code_eqI: "(of_char a :: nat) = of_char b \<Longrightarrow> a = b"
  by (metis char_of_char)

lemma lower_char_code:
  "(of_char (lower_char c) :: nat) =
     (let n = (of_char c :: nat) in if 65 \<le> n \<and> n \<le> 90 then n + 32 else n)"
  unfolding lower_char_def Let_def by (simp only: if_split of_char_of) simp

lemma lower_char_idem: "lower_char (lower_char c) = lower_char c"
  by (rule char_code_eqI) (simp only: lower_char_code Let_def split: if_split, simp)

lemma ascii_lower: "ascii (lower_char c) = ascii c"
  by (simp only: ascii_def lower_char_code Let_def) (simp split: if_split)

lemma ToLower_ascii_idem:
  "list_all ascii s \<Longrightarrow> strings_ToLower f (strings_ToLower f s) = strings_ToLower f s"
  by (simp add: strings_ToLower_def list_all_iff ascii_lower lower_char_idem)

section \<open>Texts\<close>

text \<open>\<^verbatim>\<open>strconv.Itoa\<close>, and \<^verbatim>\<open>fmt\<close> of an integer; \<^verbatim>\<open>strings.Join\<close> with a slash.\<close>

fun nat_digits :: "nat \<Rightarrow> string" where
  "nat_digits n = (if n < 10 then [char_of (48 + n)] else nat_digits (n div 10) @ [char_of (48 + n mod 10)])"

declare nat_digits.simps [simp del]

definition Sprint_int :: "int \<Rightarrow> string" where
  "Sprint_int i = (if i < 0 then CHR ''-'' # nat_digits (nat (- i)) else nat_digits (nat i))"

fun join_slash :: "string list \<Rightarrow> string" where
  "join_slash [] = []"
| "join_slash [p] = p"
| "join_slash (p # ps) = p @ CHR ''/'' # join_slash ps"

end
