(* ===== verification/Regexp.thy ===== *)
theory Regexp
  imports Prelude
begin

text \<open>
  The fragment of Go's \<^verbatim>\<open>regexp\<close> the validators use.  Every pattern of the services is
  anchored at both ends, so \<^verbatim>\<open>MatchString\<close> asks whether the whole text is in the
  language of the pattern.  Go matches runes, so the text is first decoded from UTF-8,
  an invalid byte counting as the rune U+FFFD.

  Matching is by Brzozowski derivatives (\<open>rx_match\<close>), and \<open>rx_match_lang\<close> shows
  that it decides the language \<open>lang\<close>.
\<close>

section \<open>Runes\<close>

definition cont :: "nat \<Rightarrow> bool" where
  "cont b = (128 \<le> b \<and> b \<le> 191)"

text \<open>Length of the rune that starts the bytes (the table of \<^verbatim>\<open>utf8.DecodeRune\<close>).\<close>

fun rune_width :: "nat list \<Rightarrow> nat" where
  "rune_width (a # b # c # d # _) =
     (if 194 \<le> a \<and> a \<le> 223 \<and> cont b then 2
      else if (if a = 224 then 160 \<le> b \<and> b \<le> 191 else if a = 237 then 128 \<le> b \<and> b \<le> 159
               else 225 \<le> a \<and> a \<le> 239 \<and> cont b) \<and> cont c then 3
      else if (if a = 240 then 144 \<le> b \<and> b \<le> 191 else if a = 244 then 128 \<le> b \<and> b \<le> 143
               else 241 \<le> a \<and> a \<le> 243 \<and> cont b) \<and> cont c \<and> cont d then 4
      else 1)"
| "rune_width [a, b, c] =
     (if 194 \<le> a \<and> a \<le> 223 \<and> cont b then 2
      else if (if a = 224 then 160 \<le> b \<and> b \<le> 191 else if a = 237 then 128 \<le> b \<and> b \<le> 159
               else 225 \<le> a \<and> a \<le> 239 \<and> cont b) \<and> cont c then 3
      else 1)"
| "rune_width [a, b] = (if 194 \<le> a \<and> a \<le> 223 \<and> cont b then 2 else 1)"
| "rune_width _ = 1"

definition rune_error :: nat where
  "rune_error = 65533"

definition first_rune :: "nat list \<Rightarrow> nat" where
  "first_rune bs = (let w = rune_width bs in
     if w = 1 then (if hd bs < 128 then hd bs else rune_error)
     else if w = 2 then (bs ! 0 mod 32) * 64 + bs ! 1 mod 64
     else if w = 3 then (bs ! 0 mod 16) * 4096 + (bs ! 1 mod 64) * 64 + bs ! 2 mod 64
     else (bs ! 0 mod 8) * 262144 + (bs ! 1 mod 64) * 4096 + (bs ! 2 mod 64) * 64 + bs ! 3 mod 64)"

lemma rune_width_pos: "0 < rune_width bs"
  by (induction bs rule: rune_width.induct) simp_all

lemma rune_width_le: "bs \<noteq> [] \<Longrightarrow> rune_width bs \<le> length bs"
  by (induction bs rule: rune_width.induct) simp_all

function decode_runes :: "nat list \<Rightarrow> nat list" where
  "decode_runes bs =
     (if bs = [] then [] else first_rune bs # decode_runes (drop (rune_width bs) bs))"
  by pat_completeness auto
termination
  by (relation "measure length") (auto simp: rune_width_pos)

declare decode_runes.simps [simp del]

definition runes :: "string \<Rightarrow> nat list" where
  "runes s = decode_runes (map of_char s)"

lemma rune_width_ascii: "a < 128 \<Longrightarrow> rune_width (a # bs) = 1"
proof -
  assume a: "a < 128"
  show ?thesis
  proof (cases bs)
    case Nil
    then show ?thesis by simp
  next
    case (Cons b cs)
    with a show ?thesis
      by (cases cs; cases "tl cs") auto
  qed
qed

lemma decode_runes_Nil [simp]: "decode_runes [] = []"
  by (simp add: decode_runes.simps)

lemma decode_runes_ascii:
  "a < 128 \<Longrightarrow> decode_runes (a # bs) = a # decode_runes bs"
  by (subst decode_runes.simps) (simp add: rune_width_ascii first_rune_def)

lemma runes_ascii: "list_all ascii s \<Longrightarrow> runes s = map of_char s"
  by (induction s) (auto simp: runes_def ascii_def decode_runes_ascii)

lemma length_decode_runes: "length (decode_runes bs) \<le> length bs"
proof (induction bs rule: decode_runes.induct)
  case (1 bs)
  show ?case
  proof (cases "bs = []")
    case False
    with 1 have "length (decode_runes (drop (rune_width bs) bs)) \<le> length bs - rune_width bs"
      by simp
    moreover have "0 < rune_width bs" "rune_width bs \<le> length bs"
      using False by (simp_all add: rune_width_pos rune_width_le)
    ultimately have "Suc (length (decode_runes (drop (rune_width bs) bs))) \<le> length bs"
      by linarith
    with False show ?thesis
      by (subst decode_runes.simps) simp
  qed simp
qed

lemma length_runes: "length (runes s) \<le> length s"
  using length_decode_runes [of "map of_char s"] by (simp add: runes_def)

section \<open>Patterns and their language\<close>

text \<open>A character class is a predicate on runes.\<close>

datatype rx =
    Void
  | Eps
  | Cls "nat \<Rightarrow> bool"
  | Seq rx rx
  | Alt rx rx
  | Star rx

inductive in_lang :: "rx \<Rightarrow> nat list \<Rightarrow> bool" where
  eps: "in_lang Eps []"
| cls: "p c \<Longrightarrow> in_lang (Cls p) [c]"
| seq: "in_lang r u \<Longrightarrow> in_lang s v \<Longrightarrow> in_lang (Seq r s) (u @ v)"
| altL: "in_lang r u \<Longrightarrow> in_lang (Alt r s) u"
| altR: "in_lang s u \<Longrightarrow> in_lang (Alt r s) u"
| starN: "in_lang (Star r) []"
| starC: "in_lang r u \<Longrightarrow> in_lang (Star r) v \<Longrightarrow> in_lang (Star r) (u @ v)"

inductive_simps in_lang_simps [simp]:
  "in_lang Void w"
  "in_lang Eps w"
  "in_lang (Cls p) w"
  "in_lang (Alt r s) w"

inductive_simps in_lang_Seq: "in_lang (Seq r s) w"

inductive_cases in_lang_StarE: "in_lang (Star r) w"

fun nullable :: "rx \<Rightarrow> bool" where
  "nullable Void = False"
| "nullable Eps = True"
| "nullable (Cls p) = False"
| "nullable (Seq r s) = (nullable r \<and> nullable s)"
| "nullable (Alt r s) = (nullable r \<or> nullable s)"
| "nullable (Star r) = True"

fun deriv :: "nat \<Rightarrow> rx \<Rightarrow> rx" where
  "deriv c Void = Void"
| "deriv c Eps = Void"
| "deriv c (Cls p) = (if p c then Eps else Void)"
| "deriv c (Seq r s) =
     (if nullable r then Alt (Seq (deriv c r) s) (deriv c s) else Seq (deriv c r) s)"
| "deriv c (Alt r s) = Alt (deriv c r) (deriv c s)"
| "deriv c (Star r) = Seq (deriv c r) (Star r)"

fun rx_match :: "rx \<Rightarrow> nat list \<Rightarrow> bool" where
  "rx_match r [] = nullable r"
| "rx_match r (c # cs) = rx_match (deriv c r) cs"

lemma nullable_lang: "nullable r \<longleftrightarrow> in_lang r []"
  by (induction r) (auto simp: in_lang_Seq intro: starN)

lemma star_Cons_split:
  assumes "in_lang q w" and "q = Star r" and "w = c # cs"
  shows "\<exists>u v. cs = u @ v \<and> in_lang r (c # u) \<and> in_lang (Star r) v"
  using assms
proof (induction arbitrary: cs rule: in_lang.induct)
  case (starC r' u v)
  show ?case
  proof (cases u)
    case Nil
    with starC show ?thesis by auto
  next
    case (Cons d u')
    with starC have "cs = u' @ v" "in_lang r (c # u')" "in_lang (Star r) v"
      by auto
    then show ?thesis by blast
  qed
qed simp_all

lemma in_lang_Star_Cons:
  "in_lang (Star r) (c # cs) \<longleftrightarrow>
     (\<exists>u v. cs = u @ v \<and> in_lang r (c # u) \<and> in_lang (Star r) v)"
  by (auto dest: star_Cons_split dest!: starC [of r "c # _"])

lemma in_lang_Seq_Cons:
  "in_lang (Seq r s) (c # cs) \<longleftrightarrow>
     (\<exists>u v. cs = u @ v \<and> in_lang r (c # u) \<and> in_lang s v) \<or>
     (in_lang r [] \<and> in_lang s (c # cs))"
  by (auto simp: in_lang_Seq Cons_eq_append_conv)

lemma deriv_lang: "in_lang (deriv c r) cs \<longleftrightarrow> in_lang r (c # cs)"
proof (induction r arbitrary: cs)
  case (Seq r s)
  show ?case
    unfolding in_lang_Seq_Cons by (auto simp: in_lang_Seq nullable_lang Seq.IH)
next
  case (Star r)
  show ?case
    unfolding in_lang_Star_Cons by (simp add: in_lang_Seq Star.IH)
qed auto

theorem rx_match_lang: "rx_match r w \<longleftrightarrow> in_lang r w"
  by (induction w arbitrary: r) (simp_all add: nullable_lang deriv_lang)

section \<open>Repetition and classes\<close>

definition Opt :: "rx \<Rightarrow> rx" where
  "Opt r = Alt r Eps"

definition Plus :: "rx \<Rightarrow> rx" where
  "Plus r = Seq r (Star r)"

text \<open>\<open>Rep m n r\<close> is \<^verbatim>\<open>r{m,n}\<close>.\<close>

fun UpTo :: "nat \<Rightarrow> rx \<Rightarrow> rx" where
  "UpTo 0 r = Eps"
| "UpTo (Suc n) r = Opt (Seq r (UpTo n r))"

fun Exactly :: "nat \<Rightarrow> rx \<Rightarrow> rx" where
  "Exactly 0 r = Eps"
| "Exactly (Suc n) r = Seq r (Exactly n r)"

definition Rep :: "nat \<Rightarrow> nat \<Rightarrow> rx \<Rightarrow> rx" where
  "Rep m n r = Seq (Exactly m r) (UpTo (n - m) r)"

lemma in_lang_Seq_Cls:
  "in_lang (Seq (Cls p) r) w \<longleftrightarrow> (\<exists>c cs. w = c # cs \<and> p c \<and> in_lang r cs)"
proof
  assume "\<exists>c cs. w = c # cs \<and> p c \<and> in_lang r cs"
  then obtain c cs where "w = [c] @ cs" "in_lang (Cls p) [c]" "in_lang r cs"
    by auto
  then show "in_lang (Seq (Cls p) r) w"
    by (simp only: in_lang.seq)
qed (auto simp: in_lang_Seq)

lemma in_lang_Opt [simp]: "in_lang (Opt r) w \<longleftrightarrow> in_lang r w \<or> w = []"
  by (auto simp: Opt_def)

lemma in_lang_UpTo_Cls: "in_lang (UpTo n (Cls p)) w \<longleftrightarrow> length w \<le> n \<and> list_all p w"
proof (induction n arbitrary: w)
  case (Suc n)
  then show ?case
    by (cases w) (auto simp: in_lang_Seq_Cls)
qed auto

lemma in_lang_Exactly_Cls: "in_lang (Exactly n (Cls p)) w \<longleftrightarrow> length w = n \<and> list_all p w"
proof (induction n arbitrary: w)
  case (Suc n)
  then show ?case
    by (cases w) (auto simp: in_lang_Seq_Cls)
qed auto

lemma in_lang_Rep_Cls:
  assumes "m \<le> n"
  shows "in_lang (Rep m n (Cls p)) w \<longleftrightarrow> m \<le> length w \<and> length w \<le> n \<and> list_all p w"
    (is "?l \<longleftrightarrow> ?r")
proof
  assume ?l
  with assms show ?r
    by (auto simp: Rep_def in_lang_Seq in_lang_Exactly_Cls in_lang_UpTo_Cls)
next
  assume r: ?r
  have "w = take m w @ drop m w" by simp
  moreover have "in_lang (Exactly m (Cls p)) (take m w)"
    using r by (auto simp: in_lang_Exactly_Cls list_all_iff dest: in_set_takeD)
  moreover have "in_lang (UpTo (n - m) (Cls p)) (drop m w)"
    using r by (auto simp: in_lang_UpTo_Cls list_all_iff dest: in_set_dropD)
  ultimately show ?l
    unfolding Rep_def in_lang_Seq by blast
qed

lemma in_lang_Star_Cls: "in_lang (Star (Cls p)) w \<longleftrightarrow> list_all p w"
proof (induction w)
  case Nil
  then show ?case by (simp add: starN)
next
  case (Cons c cs)
  then show ?case by (auto simp: in_lang_Star_Cons)
qed

lemma in_lang_Plus_Cls: "in_lang (Plus (Cls p)) w \<longleftrightarrow> w \<noteq> [] \<and> list_all p w"
  by (cases w) (auto simp: Plus_def in_lang_Seq_Cls in_lang_Star_Cls)

text \<open>\<^verbatim>\<open>regexp.MatchString\<close> for a pattern anchored at both ends.\<close>

definition MatchString :: "rx \<Rightarrow> string \<Rightarrow> bool" where
  "MatchString r s = rx_match r (runes s)"

lemma MatchString_lang: "MatchString r s \<longleftrightarrow> in_lang r (runes s)"
  by (simp add: MatchString_def rx_match_lang)

definition between :: "nat \<Rightarrow> nat \<Rightarrow> nat \<Rightarrow> bool" where
  "between lo hi c = (lo \<le> c \<and> c \<le> hi)"

definition is_digit :: "nat \<Rightarrow> bool" where
  "is_digit c = between 48 57 c"

definition is_lower :: "nat \<Rightarrow> bool" where
  "is_lower c = between 97 122 c"

definition is_upper :: "nat \<Rightarrow> bool" where
  "is_upper c = between 65 90 c"

definition is_word :: "nat \<Rightarrow> bool" where
  "is_word c = (is_digit c \<or> is_lower c \<or> is_upper c \<or> c = 95)"

lemmas class_defs = between_def is_digit_def is_lower_def is_upper_def is_word_def

text \<open>
  The tables of Unicode the Go library carries, which the patterns and
  \<^verbatim>\<open>strings.ToLower\<close> consult: membership in \<^verbatim>\<open>\p{L}\<close> and the lower-case mapping
  of a text that is not ASCII.
\<close>

record unicode =
  isL :: "nat \<Rightarrow> bool"
  ulower :: "string \<Rightarrow> string"

section \<open>The patterns\<close>

text \<open>
  \<open>handle_rx\<close> is \<^verbatim>\<open>^[a-z0-9-]{4,64}$\<close>, declared alike by \<^verbatim>\<open>confa\<close>, \<^verbatim>\<open>talk\<close>
  and \<^verbatim>\<open>profile\<close>.
\<close>

definition handle_char :: "nat \<Rightarrow> bool" where
  "handle_char c = (is_lower c \<or> is_digit c \<or> c = 45)"

definition validHandle :: rx where
  "validHandle = Rep 4 64 (Cls handle_char)"

lemma validHandle_iff:
  "MatchString validHandle s \<longleftrightarrow>
     4 \<le> length (runes s) \<and> length (runes s) \<le> 64 \<and> list_all handle_char (runes s)"
  by (simp add: MatchString_lang validHandle_def in_lang_Rep_Cls)

text \<open>
  A text whose runes are all ASCII has ASCII bytes only: a byte that starts or continues a
  longer rune, or is invalid, decodes to a rune of at least 128.
\<close>

lemma rune_width_2: "rune_width bs = 2 \<Longrightarrow> 194 \<le> bs ! 0 \<and> bs ! 0 \<le> 223"
  by (cases bs rule: rune_width.cases) (simp_all split: if_splits)

lemma rune_width_3:
  "rune_width bs = 3 \<Longrightarrow> bs ! 0 = 224 \<and> 160 \<le> bs ! 1 \<and> bs ! 1 \<le> 191 \<or>
     225 \<le> bs ! 0 \<and> bs ! 0 \<le> 239"
  by (cases bs rule: rune_width.cases) (simp_all split: if_splits)

lemma rune_width_4:
  "rune_width bs = 4 \<Longrightarrow> bs ! 0 = 240 \<and> 144 \<le> bs ! 1 \<and> bs ! 1 \<le> 191 \<or>
     241 \<le> bs ! 0 \<and> bs ! 0 \<le> 244"
  by (cases bs rule: rune_width.cases) (simp_all split: if_splits)

lemma rune_width_range: "rune_width bs \<in> {1, 2, 3, 4}"
  by (cases bs rule: rune_width.cases) simp_all

lemma mod_block:
  assumes "k * m \<le> a" and "a < k * m + m"
  shows "a mod m = a - k * (m :: nat)"
proof -
  from assms(1) obtain x where a: "a = k * m + x"
    using le_Suc_ex by blast
  with assms(2) show ?thesis by simp
qed

lemma first_rune_wide:
  assumes "rune_width bs \<noteq> 1"
  shows "128 \<le> first_rune bs"
proof -
  have b3: "160 \<le> b \<and> b \<le> 191 \<Longrightarrow> 32 \<le> b mod 64" for b :: nat
    using mod_block [of 2 64 b] by linarith
  have b4: "144 \<le> b \<and> b \<le> 191 \<Longrightarrow> 16 \<le> b mod 64" for b :: nat
    using mod_block [of 2 64 b] by linarith
  have a2: "194 \<le> a \<and> a \<le> 223 \<Longrightarrow> 2 \<le> a mod 32" for a :: nat
    using mod_block [of 6 32 a] by linarith
  have a3: "225 \<le> a \<and> a \<le> 239 \<Longrightarrow> 1 \<le> a mod 16" for a :: nat
    using mod_block [of 14 16 a] by linarith
  have a4: "241 \<le> a \<and> a \<le> 244 \<Longrightarrow> 1 \<le> a mod 8" for a :: nat
    using mod_block [of 30 8 a] by linarith
  from assms rune_width_range [of bs]
  consider "rune_width bs = 2" | "rune_width bs = 3" | "rune_width bs = 4" by auto
  then show ?thesis
  proof cases
    case 1
    have "2 \<le> bs ! 0 mod 32"
      using rune_width_2 [OF 1] by (rule a2)
    with 1 show ?thesis
      by (simp add: first_rune_def)
  next
    case 2
    have "32 \<le> bs ! 1 mod 64 \<or> 1 \<le> bs ! 0 mod 16"
      using rune_width_3 [OF 2] b3 a3 by metis
    with 2 show ?thesis
      by (auto simp: first_rune_def)
  next
    case 3
    have "16 \<le> bs ! 1 mod 64 \<or> 1 \<le> bs ! 0 mod 8"
      using rune_width_4 [OF 3] b4 a4 by metis
    with 3 show ?thesis
      by (auto simp: first_rune_def)
  qed
qed

lemma first_rune_ascii: "first_rune bs < 128 \<Longrightarrow> hd bs < 128 \<and> rune_width bs = 1"
  using first_rune_wide [of bs]
  by (cases "rune_width bs = 1") (auto simp: first_rune_def rune_error_def split: if_splits)

lemma decode_runes_all_ascii:
  "list_all (\<lambda>c. c < 128) (decode_runes bs) \<Longrightarrow> list_all (\<lambda>b. b < 128) bs"
proof (induction bs rule: decode_runes.induct)
  case (1 bs)
  show ?case
  proof (cases bs)
    case (Cons a r)
    have e: "decode_runes bs = first_rune bs # decode_runes (drop (rune_width bs) bs)"
      using Cons by (subst decode_runes.simps) simp
    with "1.prems" have "hd bs < 128 \<and> rune_width bs = 1"
      using first_rune_ascii [of bs] Cons by simp
    with e 1 Cons show ?thesis by simp
  qed simp
qed

lemma runes_all_ascii: "list_all (\<lambda>c. c < 128) (runes s) \<Longrightarrow> list_all ascii s"
  using decode_runes_all_ascii [of "map of_char s"]
  by (simp add: runes_def ascii_def list_all_iff)

lemma handle_char_ascii: "handle_char c \<Longrightarrow> c < 128"
  by (auto simp: handle_char_def class_defs)

lemma validHandle_ascii: "MatchString validHandle s \<Longrightarrow> list_all ascii s"
  by (rule runes_all_ascii) (auto simp: validHandle_iff list_all_iff dest: handle_char_ascii)

lemma validHandle_bytes:
  "MatchString validHandle s \<longleftrightarrow>
     4 \<le> length s \<and> length s \<le> 64 \<and> list_all (\<lambda>c. handle_char (of_char c)) s"
    (is "?l \<longleftrightarrow> ?r")
proof
  assume ?l
  with validHandle_ascii have "list_all ascii s" by blast
  with \<open>?l\<close> show ?r
    by (simp add: validHandle_iff runes_ascii list_all_iff)
next
  assume r: ?r
  then have "list_all ascii s"
    by (auto simp: list_all_iff ascii_def dest: handle_char_ascii)
  with r show ?l
    by (simp add: validHandle_iff runes_ascii list_all_iff)
qed

text \<open>
  The default handle of a new confa or talk, \<^verbatim>\<open>strings.Split(id.String(), "-")[4]\<close>:
  the last group of the identifier, always a valid handle.
\<close>

definition default_handle :: "uuid \<Rightarrow> string" where
  "default_handle u = split_on CHR ''-'' (uuid_String u) ! 4"

lemma default_handle_eq: "default_handle u = hex_Encode (drop 10 (uuid_MarshalBinary u))"
  by (simp add: default_handle_def split_uuid_String Let_def)

lemma default_handle_valid: "MatchString validHandle (default_handle u)"
proof -
  have "list_all hex_char (default_handle u)"
    by (simp add: default_handle_eq hex_char_Encode)
  then have "list_all (\<lambda>c. handle_char (of_char c)) (default_handle u)"
    by (auto simp: list_all_iff hex_char_def handle_char_def class_defs Let_def)
  then show ?thesis
    by (simp add: validHandle_bytes default_handle_eq)
qed

end
