(* ===== verification/Wire_Json.thy ===== *)
theory Wire_Json
  imports Regexp "HOL-Library.List_Lexorder"
begin

text \<open>
  The JSON that errors of the rpc services travel in: what \<^verbatim>\<open>encoding/json\<close> of Go does with the
  struct \<^verbatim>\<open>twerrJSON\<close> of \<^verbatim>\<open>internal/proto/*/*.twirp.go\<close>.  Texts are byte strings that need
  not be UTF-8: the encoder replaces what is not, and escapes the characters of HTML; the
  strict decoder reads one object with the fields \<^verbatim>\<open>code\<close>, \<^verbatim>\<open>msg\<close> and \<^verbatim>\<open>meta\<close>, in any letter
  case and any order, and refuses every other value.  The main lemma is the round trip:
  what was encoded is decoded again, up to the replaced bytes.
\<close>

section \<open>UTF-8\<close>

definition in_bytes :: "nat \<Rightarrow> nat \<Rightarrow> char \<Rightarrow> bool" where
  "in_bytes lo hi c = (lo \<le> of_char c \<and> of_char c \<le> hi)"

text \<open>The bytes of the first character, zero when it is not well-formed.\<close>

definition rune_len :: "string \<Rightarrow> nat" where
  "rune_len s = (let n = rune_width (map of_char s) in
     if s = [] \<or> n = 1 \<and> 128 \<le> (of_char (hd s) :: nat) then 0 else n)"

definition error_rune :: string where
  "error_rune = [CHR 0xEF, CHR 0xBF, CHR 0xBD]"

text \<open>\<^verbatim>\<open>utf8.EncodeRune\<close>.\<close>

definition encode_rune :: "nat \<Rightarrow> string" where
  "encode_rune n = (if n < 0x80 then [char_of n]
     else if n < 0x800 then [char_of (0xC0 + n div 64), char_of (0x80 + n mod 64)]
     else if 0x10FFFF < n \<or> 0xD800 \<le> n \<and> n \<le> 0xDFFF then error_rune
     else if n < 0x10000 then [char_of (0xE0 + n div 4096), char_of (0x80 + n div 64 mod 64), char_of (0x80 + n mod 64)]
     else [char_of (0xF0 + n div 262144), char_of (0x80 + n div 4096 mod 64), char_of (0x80 + n div 64 mod 64),
       char_of (0x80 + n mod 64)])"

text \<open>What is left of a text that goes through an encoder of UTF-8.\<close>

fun sanitize :: "string \<Rightarrow> string" where
  "sanitize [] = []"
| "sanitize (c # s) = (let n = rune_len (c # s) in
     if n = 0 then error_rune @ sanitize s else take n (c # s) @ sanitize (drop (n - 1) s))"

lemma rune_len_ascii [simp]: "(of_char c :: nat) < 0x80 \<Longrightarrow> rune_len (c # s) = 1"
  by (simp add: rune_len_def rune_width_ascii)

lemma rune_len_le: "rune_len s \<le> length s"
  using rune_width_le [of "map of_char s"] by (cases "s = []") (simp_all add: rune_len_def Let_def)

text \<open>Whether a character is well-formed is decided by its own bytes.\<close>

lemma rune_width_take: "rune_width bs \<noteq> 1 \<Longrightarrow> rune_width (take (rune_width bs) bs @ t) = rune_width bs"
proof (induction bs rule: rune_width.induct)
  case (1 a b c d bs)
  then show ?case
    by (cases t; cases "tl t") (auto split: if_splits)
next
  case (2 a b c)
  then show ?case
    by (cases t; cases "tl t") (auto split: if_splits)
next
  case (3 a b)
  then show ?case
    by (cases t; cases "tl t") (auto split: if_splits)
qed auto

lemma rune_len_append: "rune_len s \<noteq> 0 \<Longrightarrow> rune_len (take (rune_len s) s @ t) = rune_len s"
proof (cases s)
  case (Cons c r)
  assume n: "rune_len s \<noteq> 0"
  show ?thesis
  proof (cases "(of_char c :: nat) < 128")
    case True
    with Cons show ?thesis
      by simp
  next
    case False
    with n Cons have w: "rune_width (map of_char s) \<noteq> 1" "rune_len s = rune_width (map of_char s)"
      by (auto simp: rune_len_def Let_def)
    moreover have "s \<noteq> []"
      using Cons by simp
    ultimately show ?thesis
      using rune_width_take [OF w(1), of "map of_char t"] rune_width_pos [of "map of_char s"]
      by (simp add: rune_len_def Let_def take_map [symmetric])
  qed
qed (simp add: rune_len_def)

lemma sanitize_ascii: "\<forall>c \<in> set s. (of_char c :: nat) < 0x80 \<Longrightarrow> sanitize s = s"
  by (induction s) auto

section \<open>Strings\<close>

definition quote :: char where "quote = CHR 0x22"
definition backslash :: char where "backslash = CHR 0x5C"

lemmas quote_defs = quote_def backslash_def

definition hexdigit :: "nat \<Rightarrow> char" where
  "hexdigit n = ''0123456789abcdef'' ! n"

definition html_safe :: "char \<Rightarrow> bool" where
  "html_safe c = (0x20 \<le> (of_char c :: nat) \<and> (of_char c :: nat) < 0x80 \<and> c \<notin> {quote, backslash, CHR ''&'', CHR ''<'', CHR ''>''})"

definition escape_ascii :: "char \<Rightarrow> string" where
  "escape_ascii c = (if html_safe c then [c]
     else if c = quote \<or> c = backslash then [backslash, c]
     else if c = CHR 0x0A then [backslash, CHR ''n'']
     else if c = CHR 0x0D then [backslash, CHR ''r'']
     else if c = CHR 0x09 then [backslash, CHR ''t'']
     else [backslash, CHR ''u'', CHR ''0'', CHR ''0'', hexdigit (of_char c div 16), hexdigit (of_char c mod 16)])"

text \<open>The body of a quoted string; the line separators U+2028 and U+2029 are escaped as well.\<close>

fun escape :: "string \<Rightarrow> string" where
  "escape [] = []"
| "escape (c # s) = (let n = rune_len (c # s) in
     if (of_char c :: nat) < 0x80 then escape_ascii c @ escape s
     else if n = 0 then backslash # ''ufffd'' @ escape s
     else if take n (c # s) = [CHR 0xE2, CHR 0x80, CHR 0xA8] then backslash # ''u2028'' @ escape (drop (n - 1) s)
     else if take n (c # s) = [CHR 0xE2, CHR 0x80, CHR 0xA9] then backslash # ''u2029'' @ escape (drop (n - 1) s)
     else take n (c # s) @ escape (drop (n - 1) s))"

definition json_string :: "string \<Rightarrow> string" where
  "json_string s = quote # escape s @ [quote]"

definition hexval :: "char \<Rightarrow> nat option" where
  "hexval c = (let n = of_char c in
     if 48 \<le> n \<and> n \<le> 57 then Some (n - 48) else if 97 \<le> n \<and> n \<le> 102 then Some (n - 87)
     else if 65 \<le> n \<and> n \<le> 70 then Some (n - 55) else None)"

definition getu4 :: "string \<Rightarrow> nat option" where
  "getu4 s = (case s of a # b # c # d # _ \<Rightarrow>
       (case (hexval a, hexval b, hexval c, hexval d) of
          (Some i, Some j, Some k, Some l) \<Rightarrow> Some (((i * 16 + j) * 16 + k) * 16 + l)
        | _ \<Rightarrow> None)
     | _ \<Rightarrow> None)"

definition simple_escape :: "char \<Rightarrow> char option" where
  "simple_escape c = (if c = quote \<or> c = backslash \<or> c = CHR ''/'' then Some c
     else if c = CHR ''b'' then Some (CHR 0x08) else if c = CHR ''f'' then Some (CHR 0x0C)
     else if c = CHR ''n'' then Some (CHR 0x0A) else if c = CHR ''r'' then Some (CHR 0x0D)
     else if c = CHR ''t'' then Some (CHR 0x09) else None)"

text \<open>
  The text of a \<^verbatim>\<open>\u\<close> escape and the bytes after its digits that belong to it: six when a high
  surrogate is followed by the escape of a low one, none otherwise.
\<close>

definition rune_escape :: "nat \<Rightarrow> string \<Rightarrow> string \<times> nat" where
  "rune_escape r s = (if 0xD800 \<le> r \<and> r \<le> 0xDFFF
     then (case s of b # u # s' \<Rightarrow>
         (if b = backslash \<and> u = CHR ''u'' then (case getu4 s' of
             Some r1 \<Rightarrow> if r < 0xDC00 \<and> 0xDC00 \<le> r1 \<and> r1 \<le> 0xDFFF
               then (encode_rune (0x10000 + (r - 0xD800) * 1024 + (r1 - 0xDC00)), 6) else (error_rune, 0)
           | None \<Rightarrow> (error_rune, 0))
          else (error_rune, 0))
       | _ \<Rightarrow> (error_rune, 0))
     else (encode_rune r, 0))"

definition prepend :: "string \<Rightarrow> (string \<times> string) option \<Rightarrow> (string \<times> string) option" where
  "prepend b r = map_option (apfst ((@) b)) r"

lemma prepend_simps [simp]: "prepend b None = None" "prepend b (Some (t, r)) = Some (b @ t, r)"
  by (simp_all add: prepend_def)

text \<open>The text up to the closing quote, and what follows the quote.\<close>

fun unquote :: "string \<Rightarrow> (string \<times> string) option" where
  "unquote [] = None"
| "unquote (c # s) = (if c = quote then Some ([], s)
     else if c = backslash then (case s of [] \<Rightarrow> None
       | e # s1 \<Rightarrow> if e = CHR ''u''
           then (case getu4 s1 of None \<Rightarrow> None
             | Some r \<Rightarrow> prepend (fst (rune_escape r (drop 4 s1))) (unquote (drop (4 + snd (rune_escape r (drop 4 s1))) s1)))
           else (case simple_escape e of None \<Rightarrow> None | Some b \<Rightarrow> prepend [b] (unquote s1)))
     else if (of_char c :: nat) < 0x20 then None
     else (let n = rune_len (c # s) in
       if n = 0 then prepend error_rune (unquote s) else prepend (take n (c # s)) (unquote (drop (n - 1) s))))"

declare unquote.simps(2) [simp del]

lemma quote_neq [simp]: "quote \<noteq> backslash" "backslash \<noteq> quote"
  by (simp_all add: quote_defs)

text \<open>The four ways a string goes on.\<close>

lemma unquote_quote [simp]: "unquote (quote # s) = Some ([], s)"
  by (simp add: unquote.simps(2))

lemma unquote_simple: "e \<noteq> CHR ''u'' \<Longrightarrow> unquote (backslash # e # s) =
    (case simple_escape e of None \<Rightarrow> None | Some b \<Rightarrow> prepend [b] (unquote s))"
  by (simp add: unquote.simps(2))

lemma unquote_u: "unquote (backslash # CHR ''u'' # s) = (case getu4 s of None \<Rightarrow> None
    | Some r \<Rightarrow> prepend (fst (rune_escape r (drop 4 s))) (unquote (drop (4 + snd (rune_escape r (drop 4 s))) s)))"
  by (simp add: unquote.simps(2))

lemma unquote_plain: "c \<noteq> quote \<Longrightarrow> c \<noteq> backslash \<Longrightarrow> unquote (c # s) =
    (if (of_char c :: nat) < 0x20 then None else let n = rune_len (c # s) in
       if n = 0 then prepend error_rune (unquote s) else prepend (take n (c # s)) (unquote (drop (n - 1) s)))"
  by (simp add: unquote.simps(2))

lemma prepend_Some: "prepend b r = Some (t, s) \<Longrightarrow> \<exists>t'. r = Some (t', s)"
  by (auto simp: prepend_def)

lemma unquote_shorter: "unquote s = Some (t, r) \<Longrightarrow> length r < length s"
proof (induction "length s" arbitrary: s t r rule: less_induct)
  case less
  have step: "length r < length s" if "prepend b (unquote u) = Some (t, r)" "length u < length s" for b u
    using prepend_Some [OF that(1)] less(1) [OF that(2)] that(2) by fastforce
  obtain c s' where s: "s = c # s'"
    using less(2) by (cases s) auto
  consider "c = quote" | (esc) "c = backslash" | (plain) "c \<noteq> quote" "c \<noteq> backslash"
    by blast
  then show ?case
  proof cases
    case 1
    with less(2) s show ?thesis by simp
  next
    case esc
    then obtain e s1 where s': "s' = e # s1"
      using less(2) s by (cases s') (auto simp: unquote.simps(2))
    show ?thesis
    proof (cases "e = CHR ''u''")
      case True
      with less(2) s s' esc obtain b k where "prepend b (unquote (drop k s1)) = Some (t, r)"
        by (auto simp: unquote_u split: option.splits)
      then show ?thesis
        by (rule step) (simp add: s s')
    next
      case False
      with less(2) s s' esc obtain b where "prepend b (unquote s1) = Some (t, r)"
        by (auto simp: unquote_simple split: option.splits)
      then show ?thesis
        by (rule step) (simp add: s s')
    qed
  next
    case plain
    with less(2) s obtain b k where "prepend b (unquote (drop k s')) = Some (t, r)"
      by (auto simp: unquote_plain Let_def split: if_splits dest: meta_mp [where P = "\<exists>k. k = (0 :: nat)"]) (metis drop0)
    then show ?thesis
      by (rule step) (simp add: s)
  qed
qed

lemma hexval_hexdigit [simp]: "n < 16 \<Longrightarrow> hexval (hexdigit n) = Some n"
proof -
  have "\<forall>n \<in> set [0..<16]. hexval (hexdigit n) = Some n"
    by code_simp
  then show "n < 16 \<Longrightarrow> hexval (hexdigit n) = Some n"
    by simp
qed

lemma hexval_0 [simp]: "hexval CHR ''0'' = Some 0"
  by code_simp

lemma getu4_byte: "n < 128 \<Longrightarrow> getu4 (CHR ''0'' # CHR ''0'' # hexdigit (n div 16) # hexdigit (n mod 16) # s) = Some n"
  by (simp add: getu4_def)

lemma escape_control:
  "escape_ascii (CHR 0x0A) = [backslash, CHR ''n'']" "simple_escape (CHR ''n'') = Some (CHR 0x0A)"
  "escape_ascii (CHR 0x0D) = [backslash, CHR ''r'']" "simple_escape (CHR ''r'') = Some (CHR 0x0D)"
  "escape_ascii (CHR 0x09) = [backslash, CHR ''t'']" "simple_escape (CHR ''t'') = Some (CHR 0x09)"
  by (simp_all add: escape_ascii_def html_safe_def simple_escape_def quote_defs)

lemma unquote_escape_ascii:
  assumes "(of_char c :: nat) < 0x80"
  shows "unquote (escape_ascii c @ s) = prepend [c] (unquote s)"
proof (cases "html_safe c")
  case True
  with assms show ?thesis
    by (simp add: escape_ascii_def html_safe_def unquote_plain)
next
  case False
  have r: "rune_escape (of_char c) s = ([c], 0)"
    using assms by (simp add: rune_escape_def encode_rune_def)
  consider "c = quote \<or> c = backslash" | "c \<in> {CHR 0x0A, CHR 0x0D, CHR 0x09}"
    | (u) "c \<noteq> quote" "c \<noteq> backslash" "c \<notin> {CHR 0x0A, CHR 0x0D, CHR 0x09}"
    by blast
  then show ?thesis
  proof cases
    case 1
    have "quote \<noteq> CHR ''u''" "backslash \<noteq> CHR ''u''"
      by (simp_all add: quote_defs)
    with 1 False show ?thesis
      by (auto simp: escape_ascii_def unquote_simple simple_escape_def)
  next
    case 2
    then show ?thesis
      by (auto simp: escape_control unquote_simple)
  next
    case u
    then have e: "escape_ascii c = [backslash, CHR ''u'', CHR ''0'', CHR ''0'', hexdigit (of_char c div 16),
        hexdigit (of_char c mod 16)]"
      using False by (simp add: escape_ascii_def)
    have "getu4 (CHR ''0'' # CHR ''0'' # hexdigit (of_char c div 16) # hexdigit (of_char c mod 16) # s) = Some (of_char c)"
      using assms by (intro getu4_byte) simp
    with e r show ?thesis
      by (simp add: unquote_u)
  qed
qed

lemma unquote_u4: "getu4 (a # b # c # d # s) = Some r \<Longrightarrow> r < 0xD800 \<or> 0xDFFF < r \<Longrightarrow>
    unquote (backslash # CHR ''u'' # a # b # c # d # s) = prepend (encode_rune r) (unquote s)"
  by (auto simp: unquote_u rune_escape_def)

lemma getu4_separators [simp]:
  "getu4 (CHR ''f'' # CHR ''f'' # CHR ''f'' # CHR ''d'' # s) = Some 0xFFFD"
  "getu4 (CHR ''2'' # CHR ''0'' # CHR ''2'' # CHR ''8'' # s) = Some 0x2028"
  "getu4 (CHR ''2'' # CHR ''0'' # CHR ''2'' # CHR ''9'' # s) = Some 0x2029"
  by (simp_all add: getu4_def hexval_def)

lemma char_lits: "char_of (239 :: nat) = CHR 0xEF" "char_of (191 :: nat) = CHR 0xBF" "char_of (189 :: nat) = CHR 0xBD"
  "char_of (226 :: nat) = CHR 0xE2" "char_of (128 :: nat) = CHR 0x80" "char_of (168 :: nat) = CHR 0xA8"
  "char_of (169 :: nat) = CHR 0xA9"
  by (rule of_char_eq_iff [where 'a = nat, THEN iffD1], simp)+

lemma encode_separators [simp]:
  "encode_rune 0xFFFD = error_rune"
  "encode_rune 0x2028 = [CHR 0xE2, CHR 0x80, CHR 0xA8]"
  "encode_rune 0x2029 = [CHR 0xE2, CHR 0x80, CHR 0xA9]"
  by (simp_all add: encode_rune_def error_rune_def char_lits)

text \<open>The round trip of a string: what the encoder cannot write comes back as U+FFFD.\<close>

lemma unquote_escape: "unquote (escape s @ quote # r) = Some (sanitize s, r)"
proof (induction s rule: escape.induct)
  case (2 c s)
  let ?n = "rune_len (c # s)"
  show ?case
  proof (cases "(of_char c :: nat) < 0x80")
    case True
    with 2(1) show ?thesis
      by (simp add: unquote_escape_ascii)
  next
    case big: False
    then have nq: "c \<noteq> quote" "c \<noteq> backslash" "\<not> (of_char c :: nat) < 0x20"
      by (auto simp: quote_defs)
    show ?thesis
    proof (cases "?n = 0")
      case True
      with big 2(2) show ?thesis
        by (simp add: unquote_u4 [where r = "0xFFFD"])
    next
      case n: False
      let ?rest = "escape (drop (?n - 1) s) @ quote # r"
      consider "take ?n (c # s) = [CHR 0xE2, CHR 0x80, CHR 0xA8]" | "take ?n (c # s) = [CHR 0xE2, CHR 0x80, CHR 0xA9]"
        | (other) "take ?n (c # s) \<noteq> [CHR 0xE2, CHR 0x80, CHR 0xA8]" "take ?n (c # s) \<noteq> [CHR 0xE2, CHR 0x80, CHR 0xA9]"
        by blast
      then show ?thesis
      proof cases
        case 1
        with big n 2(3) [OF refl] show ?thesis
          by (simp add: unquote_u4 [where r = "0x2028"])
      next
        case 2
        with big n "2.IH"(4) [OF refl] show ?thesis
          by (simp add: unquote_u4 [where r = "0x2029"])
      next
        case other
        have len: "rune_len (take ?n (c # s) @ ?rest) = ?n"
          using n by (rule rune_len_append)
        have tk: "take ?n (c # s) = c # take (?n - 1) s" "length (take ?n (c # s)) = ?n"
          using n rune_len_le [of "c # s"] by (simp_all add: take_Cons')
        from len have "rune_len (c # take (?n - 1) s @ ?rest) = ?n"
          unfolding tk(1) by simp
        moreover have "length (take (?n - 1) s) = ?n - 1"
          using tk by simp
        ultimately have "unquote (c # take (?n - 1) s @ ?rest) = prepend (c # take (?n - 1) s) (unquote ?rest)"
          using nq n by (simp add: unquote_plain Let_def take_Cons')
        then have "unquote ((c # take (?n - 1) s) @ ?rest) = Some (sanitize (c # s), r)"
          using big n other "2.IH"(5) [OF refl] by (simp add: tk(1) Let_def del: take_Suc_Cons)
        moreover have "escape (c # s) = (c # take (?n - 1) s) @ escape (drop (?n - 1) s)"
          unfolding tk(1) [symmetric] escape.simps Let_def using big n other by (simp only: if_False)
        ultimately show ?thesis
          by simp
      qed
    qed
  qed
qed simp

section \<open>The errors of the wire\<close>

text \<open>A Go map of texts: an association list with no key twice.\<close>

type_synonym text_map = "(string \<times> string) list"

record twerrJSON =
  tj_Code :: string
  tj_Msg :: string
  tj_Meta :: text_map

definition member :: "string \<times> string \<Rightarrow> string" where
  "member kv = json_string (fst kv) @ CHR '':'' # json_string (snd kv)"

text \<open>\<^verbatim>\<open>encoding/json\<close> writes the keys of a map in the order of their bytes.\<close>

definition by_key :: "text_map \<Rightarrow> text_map" where
  "by_key m = sort_key (\<lambda>kv. map of_char (fst kv) :: nat list) m"

fun members :: "text_map \<Rightarrow> string" where
  "members [] = []"
| "members [kv] = member kv"
| "members (kv # m) = member kv @ CHR '','' # members m"

text \<open>\<^verbatim>\<open>json.Marshal\<close> of the struct, \<^verbatim>\<open>omitempty\<close> for the map.\<close>

definition json_Marshal :: "twerrJSON \<Rightarrow> string" where
  "json_Marshal t = CHR ''{'' # json_string ''code'' @ CHR '':'' # json_string (tj_Code t) @
     CHR '','' # json_string ''msg'' @ CHR '':'' # json_string (tj_Msg t) @
     (if tj_Meta t = [] then [] else CHR '','' # json_string ''meta'' @ CHR '':'' # CHR ''{'' # members (by_key (tj_Meta t)) @ ''}'') @
     ''}''"

text \<open>
  The tokens a decoder of this struct gets to see; \<open>TBad\<close> stands for every other value, and for
  bytes that are no JSON.  What follows the first value is never asked for.
\<close>

datatype tok = TLBrace | TRBrace | TColon | TComma | TNull | TStr string | TBad

definition json_space :: "char \<Rightarrow> bool" where
  "json_space c = (c = CHR '' '' \<or> c = CHR 0x09 \<or> c = CHR 0x0A \<or> c = CHR 0x0D)"

function tokens :: "string \<Rightarrow> tok list" where
  "tokens [] = []"
| "tokens (c # s) = (if json_space c then tokens s
     else if c = CHR ''{'' then TLBrace # tokens s
     else if c = CHR ''}'' then TRBrace # tokens s
     else if c = CHR '':'' then TColon # tokens s
     else if c = CHR '','' then TComma # tokens s
     else if c = quote then (case unquote s of None \<Rightarrow> [TBad] | Some (t, r) \<Rightarrow> TStr t # tokens r)
     else if c = CHR ''n'' \<and> take 3 s = ''ull'' then TNull # tokens (drop 3 s)
     else [TBad])"
  by pat_completeness auto
termination
  by (relation "measure length") (auto dest: unquote_shorter)

text \<open>The members of the map, after its opening brace or a comma; \<^verbatim>\<open>null\<close> is the empty text.\<close>

fun meta_value :: "tok \<Rightarrow> string option" where
  "meta_value (TStr v) = Some v"
| "meta_value TNull = Some ''''"
| "meta_value _ = None"

fun decode_meta :: "text_map \<Rightarrow> tok list \<Rightarrow> (text_map \<times> tok list) option" where
  "decode_meta m (TStr k # TColon # v # t # ts) = (case meta_value v of None \<Rightarrow> None
     | Some x \<Rightarrow> if t = TComma then decode_meta (AList.update k x m) ts
         else if t = TRBrace then Some (AList.update k x m, ts) else None)"
| "decode_meta m ts = None"

lemma decode_meta_shorter: "decode_meta m ts = Some (m', ts') \<Longrightarrow> length ts' < length ts"
  by (induction m ts rule: decode_meta.induct) (force split: option.splits if_splits)+

text \<open>Field names match in any case of their letters; the long s of Unicode counts as an s.\<close>

fun fold_name :: "string \<Rightarrow> string" where
  "fold_name [] = []"
| "fold_name (c # s) = (if c = CHR 0xC5 \<and> take 1 s = [CHR 0xBF] then CHR ''s'' # fold_name (drop 1 s)
     else (if in_bytes 65 90 c then char_of ((of_char c :: nat) + 32) else c) # fold_name s)"

text \<open>One field: its value into the struct, with the tokens that are left.\<close>

definition decode_text :: "tok list \<Rightarrow> string \<Rightarrow> (string \<times> tok list) option" where
  "decode_text ts old = (case ts of TStr v # ts' \<Rightarrow> Some (v, ts') | TNull # ts' \<Rightarrow> Some (old, ts') | _ \<Rightarrow> None)"

definition decode_field :: "string \<Rightarrow> twerrJSON \<Rightarrow> tok list \<Rightarrow> (twerrJSON \<times> tok list) option" where
  "decode_field k t ts =
     (if fold_name k = ''code'' then map_option (apfst (\<lambda>v. t\<lparr>tj_Code := v\<rparr>)) (decode_text ts (tj_Code t))
      else if fold_name k = ''msg'' then map_option (apfst (\<lambda>v. t\<lparr>tj_Msg := v\<rparr>)) (decode_text ts (tj_Msg t))
      else if fold_name k = ''meta'' then (case ts of
          TNull # ts' \<Rightarrow> Some (t\<lparr>tj_Meta := []\<rparr>, ts')
        | TLBrace # TRBrace # ts' \<Rightarrow> Some (t, ts')
        | TLBrace # ts' \<Rightarrow> map_option (apfst (\<lambda>m. t\<lparr>tj_Meta := m\<rparr>)) (decode_meta (tj_Meta t) ts')
        | _ \<Rightarrow> None)
      else None)"

lemma decode_text_shorter: "decode_text ts old = Some (v, ts') \<Longrightarrow> length ts' < length ts"
  by (auto simp: decode_text_def split: list.splits tok.splits)

lemma decode_field_shorter: "decode_field k t ts = Some (t', ts') \<Longrightarrow> length ts' < length ts"
  by (fastforce simp: decode_field_def dest: decode_text_shorter decode_meta_shorter split: if_splits list.splits tok.splits)

function decode_members :: "twerrJSON \<Rightarrow> tok list \<Rightarrow> twerrJSON option" where
  "decode_members t ts = (case ts of
      TStr k # TColon # ts1 \<Rightarrow> (case decode_field k t ts1 of
          Some (t', TComma # ts2) \<Rightarrow> decode_members t' ts2
        | Some (t', TRBrace # ts2) \<Rightarrow> Some t'
        | _ \<Rightarrow> None)
    | _ \<Rightarrow> None)"
  by auto
termination
  by (relation "measure (\<lambda>(t, ts). length ts)") (auto dest: decode_field_shorter)

definition twerrJSON_zero :: twerrJSON where
  "twerrJSON_zero = \<lparr>tj_Code = '''', tj_Msg = '''', tj_Meta = []\<rparr>"

text \<open>\<^verbatim>\<open>json.Decoder.Decode\<close> into the struct, after \<^verbatim>\<open>DisallowUnknownFields\<close>.\<close>

definition json_Decode :: "string \<Rightarrow> twerrJSON option" where
  "json_Decode s = (case tokens s of
      TNull # _ \<Rightarrow> Some twerrJSON_zero
    | TLBrace # TRBrace # _ \<Rightarrow> Some twerrJSON_zero
    | TLBrace # ts \<Rightarrow> decode_members twerrJSON_zero ts
    | _ \<Rightarrow> None)"

section \<open>The round trip\<close>

declare tokens.simps(2) [simp del] decode_members.simps [simp del]

lemma tokens_punctuation [simp]:
  "tokens (CHR ''{'' # s) = TLBrace # tokens s" "tokens (CHR ''}'' # s) = TRBrace # tokens s"
  "tokens (CHR '':'' # s) = TColon # tokens s" "tokens (CHR '','' # s) = TComma # tokens s"
  by (simp_all add: tokens.simps(2) json_space_def)

lemma tokens_string [simp]: "tokens (json_string s @ r) = TStr (sanitize s) # tokens r"
proof -
  have "\<not> json_space quote" "quote \<notin> {CHR ''{'', CHR ''}'', CHR '':'', CHR '',''}"
    by (simp_all add: json_space_def quote_def)
  moreover have "unquote (escape s @ quote # r) = Some (sanitize s, r)"
    by (rule unquote_escape)
  ultimately show ?thesis
    by (simp add: json_string_def tokens.simps(2))
qed

lemma fold_names [simp]: "fold_name ''code'' = ''code''" "fold_name ''msg'' = ''msg''" "fold_name ''meta'' = ''meta''"
  "sanitize ''code'' = ''code''" "sanitize ''msg'' = ''msg''" "sanitize ''meta'' = ''meta''"
  by (simp_all add: in_bytes_def sanitize_ascii)

definition sanitized :: "text_map \<Rightarrow> text_map" where
  "sanitized m = fold (\<lambda>kv. AList.update (sanitize (fst kv)) (sanitize (snd kv))) m []"

lemma decode_meta_members:
  "m \<noteq> [] \<Longrightarrow> decode_meta acc (tokens (members m @ CHR ''}'' # r)) =
     Some (fold (\<lambda>kv. AList.update (sanitize (fst kv)) (sanitize (snd kv))) m acc, tokens r)"
  by (induction m arbitrary: acc rule: members.induct) (simp_all add: member_def)

lemma members_tokens: "m \<noteq> [] \<Longrightarrow> \<exists>k ts. tokens (members m @ s) = TStr k # ts"
  by (induction m rule: members.induct) (simp_all add: member_def)

lemma by_key_Nil [simp]: "by_key m = [] \<longleftrightarrow> m = []"
  by (metis by_key_def set_empty set_sort)

declare fold_name.simps(2) [simp del] sanitize.simps(2) [simp del]

lemma decode_text_field [simp]: "decode_text (TStr v # ts) old = Some (v, ts)"
  by (simp add: decode_text_def)

lemma decode_fields [simp]:
  "decode_field ''code'' t (TStr v # ts) = Some (t\<lparr>tj_Code := v\<rparr>, ts)"
  "decode_field ''msg'' t (TStr v # ts) = Some (t\<lparr>tj_Msg := v\<rparr>, ts)"
  "decode_field ''meta'' t (TLBrace # TStr k # ts) =
     map_option (apfst (\<lambda>m. t\<lparr>tj_Meta := m\<rparr>)) (decode_meta (tj_Meta t) (TStr k # ts))"
  by (simp_all add: decode_field_def)

lemma json_Decode_Marshal:
  "json_Decode (json_Marshal t) =
     Some \<lparr>tj_Code = sanitize (tj_Code t), tj_Msg = sanitize (tj_Msg t), tj_Meta = sanitized (by_key (tj_Meta t))\<rparr>"
proof (cases "tj_Meta t = []")
  case True
  then show ?thesis
    by (simp add: json_Marshal_def json_Decode_def decode_members.simps
        twerrJSON_zero_def sanitized_def by_key_def)
next
  case False
  then have n: "by_key (tj_Meta t) \<noteq> []"
    by simp
  from members_tokens [OF n] obtain k ts where m: "tokens (members (by_key (tj_Meta t)) @ ''}}'') = TStr k # ts"
    by blast
  with decode_meta_members [OF n, of "[]" "''}''"] have
    "decode_meta [] (TStr k # ts) = Some (sanitized (by_key (tj_Meta t)), [TRBrace])"
    by (simp add: sanitized_def)
  with False m show ?thesis
    by (simp add: json_Marshal_def json_Decode_def decode_members.simps
        twerrJSON_zero_def del: decode_meta.simps)
qed

end
