(* ===== verification/Twirp.thy ===== *)
theory Twirp
  imports Wire_Json
begin

text \<open>
  The layer every rpc between the services goes through: what twirp generates for a service
  (\<^verbatim>\<open>internal/proto/rtc/rtc.twirp.go\<close>, and the same text for the other two services) over the
  errors of its library (\<^verbatim>\<open>twirp/errors.go\<close>).  The operations here are the generated ones with
  the names of the method and of its messages as arguments; \<open>Twirp_Services\<close> has the methods of
  the three services.

  Protocol buffers, URLs and quoted texts of messages are the record \<open>rpc_lib\<close> of library
  functions.  The context of a request and everything a hook derives from it are part of the
  state \<open>'w\<close>; whether it is done is asked of the state at the points the code asks.
\<close>

section \<open>Errors\<close>

datatype ErrorCode =
    T_Canceled | T_Unknown | T_InvalidArgument | T_Malformed | T_DeadlineExceeded | T_NotFound | T_BadRoute
  | T_AlreadyExists | T_PermissionDenied | T_Unauthenticated | T_ResourceExhausted | T_FailedPrecondition
  | T_Aborted | T_OutOfRange | T_Unimplemented | T_Internal | T_Unavailable | T_DataLoss | T_NoError

fun code_string :: "ErrorCode \<Rightarrow> string" where
  "code_string T_Canceled = ''canceled''"
| "code_string T_Unknown = ''unknown''"
| "code_string T_InvalidArgument = ''invalid_argument''"
| "code_string T_Malformed = ''malformed''"
| "code_string T_DeadlineExceeded = ''deadline_exceeded''"
| "code_string T_NotFound = ''not_found''"
| "code_string T_BadRoute = ''bad_route''"
| "code_string T_AlreadyExists = ''already_exists''"
| "code_string T_PermissionDenied = ''permission_denied''"
| "code_string T_Unauthenticated = ''unauthenticated''"
| "code_string T_ResourceExhausted = ''resource_exhausted''"
| "code_string T_FailedPrecondition = ''failed_precondition''"
| "code_string T_Aborted = ''aborted''"
| "code_string T_OutOfRange = ''out_of_range''"
| "code_string T_Unimplemented = ''unimplemented''"
| "code_string T_Internal = ''internal''"
| "code_string T_Unavailable = ''unavailable''"
| "code_string T_DataLoss = ''data_loss''"
| "code_string T_NoError = ''''"

fun ServerHTTPStatusFromErrorCode :: "ErrorCode \<Rightarrow> int" where
  "ServerHTTPStatusFromErrorCode T_Canceled = 408"
| "ServerHTTPStatusFromErrorCode T_Unknown = 500"
| "ServerHTTPStatusFromErrorCode T_InvalidArgument = 400"
| "ServerHTTPStatusFromErrorCode T_Malformed = 400"
| "ServerHTTPStatusFromErrorCode T_DeadlineExceeded = 408"
| "ServerHTTPStatusFromErrorCode T_NotFound = 404"
| "ServerHTTPStatusFromErrorCode T_BadRoute = 404"
| "ServerHTTPStatusFromErrorCode T_AlreadyExists = 409"
| "ServerHTTPStatusFromErrorCode T_PermissionDenied = 403"
| "ServerHTTPStatusFromErrorCode T_Unauthenticated = 401"
| "ServerHTTPStatusFromErrorCode T_ResourceExhausted = 429"
| "ServerHTTPStatusFromErrorCode T_FailedPrecondition = 412"
| "ServerHTTPStatusFromErrorCode T_Aborted = 409"
| "ServerHTTPStatusFromErrorCode T_OutOfRange = 400"
| "ServerHTTPStatusFromErrorCode T_Unimplemented = 501"
| "ServerHTTPStatusFromErrorCode T_Internal = 500"
| "ServerHTTPStatusFromErrorCode T_Unavailable = 503"
| "ServerHTTPStatusFromErrorCode T_DataLoss = 500"
| "ServerHTTPStatusFromErrorCode T_NoError = 200"

text \<open>The code of a text; \<^verbatim>\<open>IsValidErrorCode\<close> is that there is one.\<close>

definition all_codes :: "ErrorCode list" where
  "all_codes = [T_Canceled, T_Unknown, T_InvalidArgument, T_Malformed, T_DeadlineExceeded, T_NotFound, T_BadRoute,
     T_AlreadyExists, T_PermissionDenied, T_Unauthenticated, T_ResourceExhausted, T_FailedPrecondition, T_Aborted,
     T_OutOfRange, T_Unimplemented, T_Internal, T_Unavailable, T_DataLoss, T_NoError]"

definition valid_code :: "string \<Rightarrow> ErrorCode option" where
  "valid_code s = find (\<lambda>c. code_string c = s) all_codes"

text \<open>
  An error as the layer sees it: its text, the name of its dynamic type, what it unwraps to, and
  for the errors of twirp their code, message and metadata.  \<open>TwWrapped\<close> is \<^verbatim>\<open>twirp.WrapError\<close>
  and \<open>InternalWithCause\<close> the error of a panic; both unwrap to their cause.
\<close>

datatype rpc_err =
    Plain string string
  | Wrapping string string rpc_err
  | Twerr ErrorCode string text_map
  | TwWrapped ErrorCode string text_map rpc_err
  | InternalWithCause string rpc_err

definition twirp_text :: "ErrorCode \<Rightarrow> string \<Rightarrow> string" where
  "twirp_text c m = ''twirp error '' @ code_string c @ '': '' @ m"

fun err_text :: "rpc_err \<Rightarrow> string" where
  "err_text (Plain t ty) = t"
| "err_text (Wrapping t ty e) = t"
| "err_text (Twerr c m d) = twirp_text c m"
| "err_text (TwWrapped c m d e) = twirp_text c m"
| "err_text (InternalWithCause m e) = m @ '': '' @ err_text e"

fun err_type :: "rpc_err \<Rightarrow> string" where
  "err_type (Plain t ty) = ty"
| "err_type (Wrapping t ty e) = ty"
| "err_type (Twerr c m d) = ''*twirp.twerr''"
| "err_type (TwWrapped c m d e) = ''*twirp.wrappedErr''"
| "err_type (InternalWithCause m e) = ''*internalWithCause''"

text \<open>\<^verbatim>\<open>errors.As(err, &twerr)\<close>: the first error of twirp in the chain.\<close>

fun As_twirp :: "rpc_err \<Rightarrow> rpc_err option" where
  "As_twirp (Plain t ty) = None"
| "As_twirp (Wrapping t ty e) = As_twirp e"
| "As_twirp e = Some e"

text \<open>\<^verbatim>\<open>err.(twirp.Error)\<close>.\<close>

fun is_twirp :: "rpc_err \<Rightarrow> bool" where
  "is_twirp (Plain t ty) = False"
| "is_twirp (Wrapping t ty e) = False"
| "is_twirp e = True"

fun tw_code :: "rpc_err \<Rightarrow> ErrorCode" where
  "tw_code (Twerr c m d) = c"
| "tw_code (TwWrapped c m d e) = c"
| "tw_code _ = T_Internal"

fun tw_msg :: "rpc_err \<Rightarrow> string" where
  "tw_msg (Twerr c m d) = m"
| "tw_msg (TwWrapped c m d e) = m"
| "tw_msg (InternalWithCause m e) = m"
| "tw_msg _ = ''''"

fun tw_meta :: "rpc_err \<Rightarrow> text_map" where
  "tw_meta (Twerr c m d) = d"
| "tw_meta (TwWrapped c m d e) = d"
| "tw_meta _ = []"

fun WithMeta :: "string \<Rightarrow> string \<Rightarrow> rpc_err \<Rightarrow> rpc_err" where
  "WithMeta k v (Twerr c m d) = Twerr c m (AList.update k v d)"
| "WithMeta k v (TwWrapped c m d e) = TwWrapped c m (AList.update k v d) e"
| "WithMeta k v e = e"

definition NewError :: "ErrorCode \<Rightarrow> string \<Rightarrow> rpc_err" where
  "NewError code msg = Twerr code msg []"

definition InternalError :: "string \<Rightarrow> rpc_err" where
  "InternalError msg = NewError T_Internal msg"

definition WrapError :: "rpc_err \<Rightarrow> rpc_err \<Rightarrow> rpc_err" where
  "WrapError twerr err = TwWrapped (tw_code twerr) (tw_msg twerr) (tw_meta twerr) err"

definition InternalErrorWith :: "rpc_err \<Rightarrow> rpc_err" where
  "InternalErrorWith err = WrapError (WithMeta ''cause'' (err_type err) (NewError T_Internal (err_text err))) err"

text \<open>The errors a finished context has.\<close>

datatype ctx_err = CtxCanceled | CtxDeadlineExceeded

fun ctx_error :: "ctx_err \<Rightarrow> rpc_err" where
  "ctx_error CtxCanceled = Plain ''context canceled'' ''*errors.errorString''"
| "ctx_error CtxDeadlineExceeded = Plain ''context deadline exceeded'' ''context.deadlineExceededError''"

section \<open>The library\<close>

text \<open>
  Functions of the libraries, over messages \<open>'m\<close>: protocol buffers in binary and as JSON (whose
  flags are \<^verbatim>\<open>UseProtoNames\<close> and \<^verbatim>\<open>EmitUnpopulated\<close>), the first JSON value of a stream that ends
  in an error or not, the Go type of a message, URLs, the Unicode tables of \<^verbatim>\<open>strings\<close>, and texts
  that only messages are built from.  The decoders take the type of the message they fill;
  \<open>wl_BadURL\<close> is the error of \<^verbatim>\<open>http.NewRequest\<close>.
\<close>

record url =
  ur_Scheme :: string
  ur_Rest :: string

record 'm rpc_lib =
  wl_Marshal :: "'m \<Rightarrow> rpc_err + string"
  wl_Unmarshal :: "string \<Rightarrow> string \<Rightarrow> rpc_err + 'm"
  wl_MarshalJSON :: "bool \<Rightarrow> bool \<Rightarrow> 'm \<Rightarrow> rpc_err + string"
  wl_UnmarshalJSON :: "string \<Rightarrow> string \<Rightarrow> rpc_err + 'm"
  wl_RawValue :: "string \<Rightarrow> rpc_err option \<Rightarrow> rpc_err + string"
  wl_TypeName :: "'m \<Rightarrow> string"
  wl_ParseURL :: "string \<Rightarrow> url option"
  wl_URLString :: "url \<Rightarrow> string"
  wl_BadURL :: "string \<Rightarrow> rpc_err option"
  wl_ULower :: "string \<Rightarrow> string"
  wl_UTrim :: "string \<Rightarrow> string"
  wl_Quote :: "string \<Rightarrow> string"
  wl_StatusText :: "int \<Rightarrow> string"

definition ascii_space :: "char \<Rightarrow> bool" where
  "ascii_space c = (c = CHR '' '' \<or> in_bytes 9 13 c)"

definition strings_TrimSpace :: "(string \<Rightarrow> string) \<Rightarrow> string \<Rightarrow> string" where
  "strings_TrimSpace utrim s =
     (if list_all ascii s then rev (dropWhile ascii_space (rev (dropWhile ascii_space s))) else utrim s)"

text \<open>
  \<^verbatim>\<open>path.Join\<close> of a list whose first element is the root: empty elements are skipped, \<^verbatim>\<open>.\<close> is
  dropped and \<^verbatim>\<open>..\<close> takes back the element before it.
\<close>

fun path_step :: "string \<Rightarrow> string list \<Rightarrow> string list" where
  "path_step p acc = (if p = [] \<or> p = ''.'' then acc else if p = ''..'' then butlast acc else acc @ [p])"

definition path_Join_root :: "string list \<Rightarrow> string" where
  "path_Join_root ps = CHR ''/'' # join_slash (fold path_step (concat (map (split_on CHR ''/'') ps)) [])"

text \<open>Headers by their canonical names, each with the list of its values; \<^verbatim>\<open>Get\<close> is the first.\<close>

type_synonym header = "(string \<times> string list) list"

definition header_Get :: "header \<Rightarrow> string \<Rightarrow> string" where
  "header_Get h k = (case map_of h k of Some (v # vs) \<Rightarrow> v | _ \<Rightarrow> [])"

definition header_Set :: "string \<Rightarrow> string \<Rightarrow> header \<Rightarrow> header" where
  "header_Set k v h = AList.update k [v] h"

text \<open>A body: its bytes and the error they end with, none at a proper end.\<close>

record body =
  bd_Data :: string
  bd_Err :: "rpc_err option"

definition ReadAll :: "body \<Rightarrow> rpc_err + string" where
  "ReadAll b = (case bd_Err b of None \<Rightarrow> Inr (bd_Data b) | Some e \<Rightarrow> Inl e)"

text \<open>A request; the target is the URL at the client and the path of it at the server.\<close>

record http_request =
  hq_Method :: string
  hq_Target :: string
  hq_Header :: header
  hq_Body :: body

record http_response =
  hp_Status :: int
  hp_Header :: header
  hp_Body :: body
  hp_Close :: "rpc_err option"

text \<open>What a server writes.\<close>

record server_response =
  sr_Status :: int
  sr_Header :: header
  sr_Body :: string

text \<open>
  The result of a method: a message and an error, each possibly nil, or a panic with an error
  or another value.
\<close>

datatype panic_value = PanicError rpc_err | PanicValue string

datatype 'm called = Returned "'m option" "rpc_err option" | Panicked panic_value

type_synonym ('m, 'w) rpc_method = "'m \<Rightarrow> 'w \<Rightarrow> 'w \<times> 'm called"
type_synonym ('m, 'w) interceptor = "('m, 'w) rpc_method \<Rightarrow> ('m, 'w) rpc_method"

section \<open>Hooks and interceptors\<close>

record 'w server_hooks =
  sh_RequestReceived :: "('w \<Rightarrow> 'w \<times> rpc_err option) option"
  sh_RequestRouted :: "('w \<Rightarrow> 'w \<times> rpc_err option) option"
  sh_ResponsePrepared :: "('w \<Rightarrow> 'w) option"
  sh_ResponseSent :: "('w \<Rightarrow> 'w) option"
  sh_Error :: "(rpc_err \<Rightarrow> 'w \<Rightarrow> 'w) option"

record 'w client_hooks =
  ch_RequestPrepared :: "(http_request \<Rightarrow> 'w \<Rightarrow> 'w \<times> http_request \<times> rpc_err option) option"
  ch_ResponseReceived :: "('w \<Rightarrow> 'w) option"
  ch_Error :: "(rpc_err \<Rightarrow> 'w \<Rightarrow> 'w) option"

definition callRequestReceived :: "'w server_hooks option \<Rightarrow> 'w \<Rightarrow> 'w \<times> rpc_err option" where
  "callRequestReceived h w = (case Option.bind h sh_RequestReceived of None \<Rightarrow> (w, None) | Some f \<Rightarrow> f w)"

definition callRequestRouted :: "'w server_hooks option \<Rightarrow> 'w \<Rightarrow> 'w \<times> rpc_err option" where
  "callRequestRouted h w = (case Option.bind h sh_RequestRouted of None \<Rightarrow> (w, None) | Some f \<Rightarrow> f w)"

definition callResponsePrepared :: "'w server_hooks option \<Rightarrow> 'w \<Rightarrow> 'w" where
  "callResponsePrepared h w = (case Option.bind h sh_ResponsePrepared of None \<Rightarrow> w | Some f \<Rightarrow> f w)"

definition callResponseSent :: "'w server_hooks option \<Rightarrow> 'w \<Rightarrow> 'w" where
  "callResponseSent h w = (case Option.bind h sh_ResponseSent of None \<Rightarrow> w | Some f \<Rightarrow> f w)"

definition callError :: "'w server_hooks option \<Rightarrow> rpc_err \<Rightarrow> 'w \<Rightarrow> 'w" where
  "callError h err w = (case Option.bind h sh_Error of None \<Rightarrow> w | Some f \<Rightarrow> f err w)"

definition callClientResponseReceived :: "'w client_hooks option \<Rightarrow> 'w \<Rightarrow> 'w" where
  "callClientResponseReceived h w = (case Option.bind h ch_ResponseReceived of None \<Rightarrow> w | Some f \<Rightarrow> f w)"

definition callClientRequestPrepared ::
  "'w client_hooks option \<Rightarrow> http_request \<Rightarrow> 'w \<Rightarrow> 'w \<times> http_request \<times> rpc_err option" where
  "callClientRequestPrepared h req w = (case Option.bind h ch_RequestPrepared of None \<Rightarrow> (w, req, None) | Some f \<Rightarrow> f req w)"

definition callClientError :: "'w client_hooks option \<Rightarrow> rpc_err \<Rightarrow> 'w \<Rightarrow> 'w" where
  "callClientError h err w = (case Option.bind h ch_Error of None \<Rightarrow> w | Some f \<Rightarrow> f err w)"

lemmas hook_defs = callRequestReceived_def callRequestRouted_def callResponsePrepared_def callResponseSent_def
  callError_def callClientResponseReceived_def callClientRequestPrepared_def callClientError_def

lemma no_hooks [simp]:
  "callRequestReceived None w = (w, None)" "callRequestRouted None w = (w, None)"
  "callResponsePrepared None w = w" "callResponseSent None w = w" "callError None err w = w"
  "callClientResponseReceived None w = w" "callClientRequestPrepared None req w = (w, req, None)"
  "callClientError None err w = w"
  by (simp_all add: hook_defs)

text \<open>
  A method behind an interceptor, which takes and gives untyped values: the requests and the
  answers are asserted to have their types \<open>T\<close> and \<open>U\<close> again.  A typed nil answer is nil here.
\<close>

definition failed_assertion :: "string \<Rightarrow> string \<Rightarrow> rpc_err" where
  "failed_assertion v T = InternalError (''failed type assertion '' @ v @ ''.(*'' @ T @ '') when calling interceptor'')"

definition intercepted ::
  "'m rpc_lib \<Rightarrow> string \<Rightarrow> string \<Rightarrow> ('m, 'w) interceptor option \<Rightarrow> ('m, 'w) rpc_method \<Rightarrow> ('m, 'w) rpc_method" where
  "intercepted L T U icpt f = (case icpt of
      None \<Rightarrow> f
    | Some i \<Rightarrow> (\<lambda>req w. case i (\<lambda>r w'. if wl_TypeName L r = T then f r w'
            else (w', Returned None (Some (failed_assertion ''req'' T)))) req w of
        (w1, Returned (Some r) e) \<Rightarrow>
          (w1, if wl_TypeName L r = U then Returned (Some r) e else Returned None (Some (failed_assertion ''resp'' U)))
      | (w1, Returned None e) \<Rightarrow> (w1, Returned None e)
      | (w1, Panicked v) \<Rightarrow> (w1, Panicked v)))"

lemma intercepted_None [simp]: "intercepted L T U None f = f"
  by (simp add: intercepted_def)

text \<open>\<^verbatim>\<open>twirp.ChainInterceptors\<close>; nil ones are left out.\<close>

definition ChainInterceptors :: "('m, 'w) interceptor option list \<Rightarrow> ('m, 'w) interceptor option" where
  "ChainInterceptors is = (case List.map_filter id is of
      [] \<Rightarrow> None
    | fs \<Rightarrow> Some (\<lambda>f. foldr (\<lambda>i g. i g) fs f))"

section \<open>Errors on the wire\<close>

definition isHTTPRedirect :: "int \<Rightarrow> bool" where
  "isHTTPRedirect status = (300 \<le> status \<and> status \<le> 399)"

definition malformedRequestError :: "string \<Rightarrow> rpc_err" where
  "malformedRequestError msg = NewError T_Malformed msg"

definition badRouteError :: "string \<Rightarrow> string \<Rightarrow> string \<Rightarrow> rpc_err" where
  "badRouteError msg meth url = WithMeta ''twirp_invalid_route'' (meth @ '' '' @ url) (NewError T_BadRoute msg)"

definition wrapInternal :: "rpc_err \<Rightarrow> string \<Rightarrow> rpc_err" where
  "wrapInternal err prefix = InternalErrorWith (Wrapping (prefix @ '': '' @ err_text err) ''*wrappedError'' err)"

definition errFromPanic :: "panic_value \<Rightarrow> rpc_err" where
  "errFromPanic p = (case p of PanicError e \<Rightarrow> e | PanicValue v \<Rightarrow> Plain (''panic: '' @ v) ''*errors.errorString'')"

text \<open>The encoder cannot fail on texts, so the fallback of the code is never taken.\<close>

definition marshalErrorToJSON :: "rpc_err \<Rightarrow> string" where
  "marshalErrorToJSON twerr = json_Marshal \<lparr>tj_Code = code_string (tw_code twerr), tj_Msg = take 1000000 (tw_msg twerr),
     tj_Meta = tw_meta twerr\<rparr>"

definition twirpErrorFromIntermediary :: "int \<Rightarrow> string \<Rightarrow> string \<Rightarrow> rpc_err" where
  "twirpErrorFromIntermediary status msg bodyOrLocation =
     (let code = (if isHTTPRedirect status then T_Internal
            else if status = 400 then T_Internal
            else if status = 401 then T_Unauthenticated
            else if status = 403 then T_PermissionDenied
            else if status = 404 then T_BadRoute
            else if status = 429 then T_ResourceExhausted
            else if status = 502 \<or> status = 503 \<or> status = 504 then T_Unavailable
            else T_Unknown)
      in WithMeta (if isHTTPRedirect status then ''location'' else ''body'') bodyOrLocation
           (WithMeta ''status_code'' (Sprint_int status)
             (WithMeta ''http_error_from_intermediary'' ''true'' (NewError code msg))))"

definition errorFromResponse :: "'m rpc_lib \<Rightarrow> http_response \<Rightarrow> rpc_err" where
  "errorFromResponse L resp =
     (let status = hp_Status resp; text = wl_Quote L (wl_StatusText L status) in
      if isHTTPRedirect status
      then (let location = header_Get (hp_Header resp) ''Location'' in
        twirpErrorFromIntermediary status (''unexpected HTTP status code '' @ Sprint_int status @ '' '' @ text @
          '' received, Location='' @ wl_Quote L location) location)
      else (case ReadAll (hp_Body resp) of
          Inl e \<Rightarrow> wrapInternal e ''failed to read server error response body''
        | Inr bytes \<Rightarrow>
            (let intermediary = twirpErrorFromIntermediary status
                   (''Error from intermediary with HTTP status code '' @ Sprint_int status @ '' '' @ text) bytes in
             case json_Decode bytes of
               None \<Rightarrow> intermediary
             | Some tj \<Rightarrow>
                 if tj_Code tj = [] then intermediary
                 else (case valid_code (tj_Code tj) of
                     None \<Rightarrow> WithMeta ''body'' bytes
                       (InternalError (''invalid type returned from server error response: '' @ tj_Code tj))
                   | Some code \<Rightarrow> fold (\<lambda>kv. WithMeta (fst kv) (snd kv)) (tj_Meta tj) (NewError code (tj_Msg tj))))))"

section \<open>The server\<close>

record ('m, 'w) server_options =
  so_Hooks :: "'w server_hooks option"
  so_Interceptors :: "('m, 'w) interceptor option list"
  so_pathPrefix :: "string option"
  so_jsonSkipDefaults :: "bool option"
  so_jsonCamelCase :: "bool option"

datatype ('m, 'w) server_opt =
    ServerOption "('m, 'w) server_options \<Rightarrow> ('m, 'w) server_options"
  | ServerHooks "'w server_hooks option"
  | NilOption
  | OtherOption

text \<open>An option of another type panics: \<open>None\<close>.\<close>

fun apply_server_opts :: "('m, 'w) server_opt list \<Rightarrow> ('m, 'w) server_options \<Rightarrow> ('m, 'w) server_options option" where
  "apply_server_opts [] so = Some so"
| "apply_server_opts (ServerOption f # opts) so = apply_server_opts opts (f so)"
| "apply_server_opts (ServerHooks h # opts) so = apply_server_opts opts (so\<lparr>so_Hooks := h\<rparr>)"
| "apply_server_opts (NilOption # opts) so = apply_server_opts opts so"
| "apply_server_opts (OtherOption # opts) so = None"

definition newServerOpts :: "('m, 'w) server_opt list \<Rightarrow> ('m, 'w) server_options option" where
  "newServerOpts opts = apply_server_opts opts \<lparr>so_Hooks = None, so_Interceptors = [], so_pathPrefix = None,
     so_jsonSkipDefaults = None, so_jsonCamelCase = None\<rparr>"

record ('m, 'w) rpc_server =
  sv_hooks :: "'w server_hooks option"
  sv_interceptor :: "('m, 'w) interceptor option"
  sv_pathPrefix :: string
  sv_jsonSkipDefaults :: bool
  sv_jsonCamelCase :: bool

definition or_default :: "'a option \<Rightarrow> 'a \<Rightarrow> 'a" where
  "or_default x d = (case x of None \<Rightarrow> d | Some y \<Rightarrow> y)"

definition new_server :: "('m, 'w) server_opt list \<Rightarrow> ('m, 'w) rpc_server option" where
  "new_server opts = map_option (\<lambda>so. \<lparr>sv_hooks = so_Hooks so, sv_interceptor = ChainInterceptors (so_Interceptors so),
     sv_pathPrefix = or_default (so_pathPrefix so) ''/twirp'', sv_jsonSkipDefaults = or_default (so_jsonSkipDefaults so) False,
     sv_jsonCamelCase = or_default (so_jsonCamelCase so) False\<rparr>) (newServerOpts opts)"

text \<open>
  The writer of a response: the bytes written and the error of a broken connection.  Every path
  of a server writes one response; after a panic of the method it panics again.
\<close>

type_synonym 'w response_writer = "server_response \<Rightarrow> 'w \<Rightarrow> 'w \<times> (nat \<times> string) option"

datatype served = Served server_response | ServedPanic server_response panic_value

fun written :: "served \<Rightarrow> server_response" where
  "written (Served r) = r"
| "written (ServedPanic r v) = r"

type_synonym 'w http_handler = "http_request \<Rightarrow> 'w \<Rightarrow> 'w \<times> served"

definition plain_response :: "int \<Rightarrow> string \<Rightarrow> string \<Rightarrow> server_response" where
  "plain_response status ctype b = \<lparr>sr_Status = status,
     sr_Header = header_Set ''Content-Length'' (Sprint_int (int (length b))) (header_Set ''Content-Type'' ctype []), sr_Body = b\<rparr>"

definition writeError ::
  "'w response_writer \<Rightarrow> 'w server_hooks option \<Rightarrow> rpc_err \<Rightarrow> 'w \<Rightarrow> 'w \<times> served" where
  "writeError wr hooks err w =
     (let twerr = (case As_twirp err of Some t \<Rightarrow> t | None \<Rightarrow> InternalErrorWith err);
          resp = plain_response (ServerHTTPStatusFromErrorCode (tw_code twerr)) ''application/json'' (marshalErrorToJSON twerr);
          w1 = callError hooks twerr w;
          w2 = fst (wr resp w1)
      in (callResponseSent hooks w2, Served resp))"

definition handleRequestBodyError ::
  "('w \<Rightarrow> ctx_err option) \<Rightarrow> 'w response_writer \<Rightarrow> 'w server_hooks option \<Rightarrow> string \<Rightarrow> rpc_err \<Rightarrow> 'w \<Rightarrow> 'w \<times> served" where
  "handleRequestBodyError ctx wr hooks msg err w = (case ctx w of
      Some CtxCanceled \<Rightarrow> writeError wr hooks (NewError T_Canceled ''failed to read request: context canceled'') w
    | Some CtxDeadlineExceeded \<Rightarrow>
        writeError wr hooks (NewError T_DeadlineExceeded ''failed to read request: deadline exceeded'') w
    | None \<Rightarrow> writeError wr hooks (WrapError (malformedRequestError msg) err) w)"

text \<open>The response of a panic; the panic itself goes on to the HTTP server.\<close>

definition ensurePanicResponses ::
  "'w response_writer \<Rightarrow> 'w server_hooks option \<Rightarrow> panic_value \<Rightarrow> 'w \<Rightarrow> 'w \<times> served" where
  "ensurePanicResponses wr hooks v w =
     (case writeError wr hooks (InternalWithCause ''Internal service panic'' (errFromPanic v)) w of
        (w1, r) \<Rightarrow> (w1, ServedPanic (written r) v))"

text \<open>
  From the call of the service on, which the binary and the JSON variant of every method have in
  common: \<open>marshal\<close> is the encoder and \<open>ctype\<close> the content type of the answer.
\<close>

definition serve_call ::
  "'m rpc_lib \<Rightarrow> 'w response_writer \<Rightarrow> ('m, 'w) rpc_server \<Rightarrow> string \<Rightarrow> string \<Rightarrow> string \<Rightarrow> ('m, 'w) rpc_method \<Rightarrow>
   ('m \<Rightarrow> rpc_err + string) \<Rightarrow> string \<Rightarrow> string \<Rightarrow> 'm \<Rightarrow> 'w \<Rightarrow> 'w \<times> served" where
  "serve_call L wr s meth T U f marshal ctype failed req w =
     (let hooks = sv_hooks s in
      case intercepted L T U (sv_interceptor s) f req w of
        (w1, Panicked v) \<Rightarrow> ensurePanicResponses wr hooks v w1
      | (w1, Returned r (Some err)) \<Rightarrow> writeError wr hooks err w1
      | (w1, Returned None None) \<Rightarrow> writeError wr hooks (InternalError (''received a nil *'' @ U @
          '' and nil error while calling '' @ meth @ ''. nil responses are not supported'')) w1
      | (w1, Returned (Some m) None) \<Rightarrow>
          (let w2 = callResponsePrepared hooks w1 in
           case marshal m of
             Inl e \<Rightarrow> writeError wr hooks (wrapInternal e failed) w2
           | Inr b \<Rightarrow>
               (let resp = plain_response 200 ctype b in
                case wr resp w2 of
                  (w3, None) \<Rightarrow> (callResponseSent hooks w3, Served resp)
                | (w3, Some (n, e)) \<Rightarrow>
                    (callResponseSent hooks (callError hooks (NewError T_Unknown (''failed to write response, '' @
                        Sprint_int (int n) @ '' of '' @ Sprint_int (int (length b)) @ '' bytes written: '' @ e)) w3), Served resp))))"

definition serveJSON ::
  "'m rpc_lib \<Rightarrow> ('w \<Rightarrow> ctx_err option) \<Rightarrow> 'w response_writer \<Rightarrow> ('m, 'w) rpc_server \<Rightarrow> string \<Rightarrow> string \<Rightarrow> string \<Rightarrow>
   ('m, 'w) rpc_method \<Rightarrow> 'w http_handler" where
  "serveJSON L ctx wr s meth T U f req w =
     (let hooks = sv_hooks s; failed = handleRequestBodyError ctx wr hooks ''the json request could not be decoded'' in
      case callRequestRouted hooks w of
        (w1, Some err) \<Rightarrow> writeError wr hooks err w1
      | (w1, None) \<Rightarrow> (case wl_RawValue L (bd_Data (hq_Body req)) (bd_Err (hq_Body req)) of
          Inl e \<Rightarrow> failed e w1
        | Inr raw \<Rightarrow> (case wl_UnmarshalJSON L T raw of
            Inl e \<Rightarrow> failed e w1
          | Inr m \<Rightarrow> serve_call L wr s meth T U f (wl_MarshalJSON L (\<not> sv_jsonCamelCase s) (\<not> sv_jsonSkipDefaults s))
              ''application/json'' ''failed to marshal json response'' m w1)))"

definition serveProtobuf ::
  "'m rpc_lib \<Rightarrow> ('w \<Rightarrow> ctx_err option) \<Rightarrow> 'w response_writer \<Rightarrow> ('m, 'w) rpc_server \<Rightarrow> string \<Rightarrow> string \<Rightarrow> string \<Rightarrow>
   ('m, 'w) rpc_method \<Rightarrow> 'w http_handler" where
  "serveProtobuf L ctx wr s meth T U f req w =
     (let hooks = sv_hooks s in
      case callRequestRouted hooks w of
        (w1, Some err) \<Rightarrow> writeError wr hooks err w1
      | (w1, None) \<Rightarrow> (case ReadAll (hq_Body req) of
          Inl e \<Rightarrow> handleRequestBodyError ctx wr hooks ''failed to read request body'' e w1
        | Inr buf \<Rightarrow> (case wl_Unmarshal L T buf of
            Inl e \<Rightarrow> writeError wr hooks (malformedRequestError ''the protobuf request could not be decoded'') w1
          | Inr m \<Rightarrow> serve_call L wr s meth T U f (wl_Marshal L) ''application/protobuf'' ''failed to marshal proto response''
              m w1)))"

text \<open>The choice by the content type.\<close>

definition media_type :: "'m rpc_lib \<Rightarrow> string \<Rightarrow> string" where
  "media_type L h = strings_TrimSpace (wl_UTrim L) (strings_ToLower (wl_ULower L) (takeWhile (\<lambda>c. c \<noteq> CHR '';'') h))"

definition serve_method ::
  "'m rpc_lib \<Rightarrow> 'w response_writer \<Rightarrow> ('m, 'w) rpc_server \<Rightarrow> 'w http_handler \<Rightarrow> 'w http_handler \<Rightarrow> 'w http_handler" where
  "serve_method L wr s json protobuf req w =
     (let h = header_Get (hq_Header req) ''Content-Type'' in
      if media_type L h = ''application/json'' then json req w
      else if media_type L h = ''application/protobuf'' then protobuf req w
      else writeError wr (sv_hooks s)
        (badRouteError (''unexpected Content-Type: '' @ wl_Quote L h) (hq_Method req) (hq_Target req)) w)"

definition parseTwirpPath :: "string \<Rightarrow> string \<times> string \<times> string" where
  "parseTwirpPath path = (let parts = split_on CHR ''/'' path; n = length parts in
     if n < 2 then ([], [], []) else (join_slash (take (n - 2) parts), parts ! (n - 2), parts ! (n - 1)))"

text \<open>\<open>route\<close> is the switch over the names of the methods.\<close>

definition serve_HTTP ::
  "'m rpc_lib \<Rightarrow> 'w response_writer \<Rightarrow> ('m, 'w) rpc_server \<Rightarrow> string \<Rightarrow> (string \<Rightarrow> 'w http_handler option) \<Rightarrow> 'w http_handler" where
  "serve_HTTP L wr s service route req w =
     (let hooks = sv_hooks s; path = hq_Target req;
          badRoute = (\<lambda>msg. writeError wr hooks (badRouteError msg (hq_Method req) path));
          noHandler = ''no handler for path '' @ wl_Quote L path in
      case callRequestReceived hooks w of
        (w1, Some err) \<Rightarrow> writeError wr hooks err w1
      | (w1, None) \<Rightarrow>
          if hq_Method req \<noteq> ''POST''
          then badRoute (''unsupported method '' @ wl_Quote L (hq_Method req) @ '' (only POST is allowed)'') w1
          else (case parseTwirpPath path of (prefix, pkgService, meth) \<Rightarrow>
            if pkgService \<noteq> service then badRoute noHandler w1
            else if prefix \<noteq> sv_pathPrefix s then badRoute (''invalid path prefix '' @ wl_Quote L prefix @ '', expected '' @
              wl_Quote L (sv_pathPrefix s) @ '', on path '' @ wl_Quote L path) w1
            else (case route meth of Some h \<Rightarrow> h req w1 | None \<Rightarrow> badRoute noHandler w1)))"

section \<open>The client\<close>

definition sanitizeBaseURL :: "'m rpc_lib \<Rightarrow> string \<Rightarrow> string" where
  "sanitizeBaseURL L baseURL = (case wl_ParseURL L baseURL of
      None \<Rightarrow> baseURL
    | Some u \<Rightarrow> wl_URLString L (if ur_Scheme u = [] then u\<lparr>ur_Scheme := ''http''\<rparr> else u))"

definition baseServicePath :: "string \<Rightarrow> string \<Rightarrow> string \<Rightarrow> string" where
  "baseServicePath prefix pkg service =
     path_Join_root [prefix, if pkg \<noteq> [] then pkg @ ''.'' @ service else service] @ ''/''"

text \<open>
  The client a request is done with: the one of the standard library with its redirect policy,
  or another.  A policy may act on the state and says whether the last response is used.
\<close>

type_synonym 'w do_fun = "http_request \<Rightarrow> 'w \<Rightarrow> 'w \<times> (rpc_err + http_response)"

datatype redirect = FollowRedirect | UseLastResponse | RefuseRedirect

datatype 'w http_client = StdClient "('w \<Rightarrow> 'w \<times> redirect) option" | CustomClient "'w do_fun"

fun withoutRedirects :: "'w http_client \<Rightarrow> 'w http_client" where
  "withoutRedirects (StdClient policy) = StdClient (Some (\<lambda>w.
     ((case policy of None \<Rightarrow> w | Some f \<Rightarrow> fst (f w)), UseLastResponse)))"
| "withoutRedirects (CustomClient d) = CustomClient d"

record ('m, 'w) client_options =
  co_Hooks :: "'w client_hooks option"
  co_Interceptors :: "('m, 'w) interceptor option list"
  co_pathPrefix :: "string option"

record ('m, 'w) rpc_client =
  tc_client :: "'w http_client"
  tc_urls :: "string list"
  tc_interceptor :: "('m, 'w) interceptor option"
  tc_hooks :: "'w client_hooks option"

definition new_client ::
  "'m rpc_lib \<Rightarrow> string \<Rightarrow> string list \<Rightarrow> string \<Rightarrow> 'w http_client \<Rightarrow>
   (('m, 'w) client_options \<Rightarrow> ('m, 'w) client_options) list \<Rightarrow> ('m, 'w) rpc_client" where
  "new_client L service methods baseURL client opts =
     (let co = fold (\<lambda>f. f) opts \<lparr>co_Hooks = None, co_Interceptors = [], co_pathPrefix = None\<rparr>;
          serviceURL = sanitizeBaseURL L baseURL @ baseServicePath (or_default (co_pathPrefix co) ''/twirp'') [] service
      in \<lparr>tc_client = withoutRedirects client, tc_urls = map ((@) serviceURL) methods,
          tc_interceptor = ChainInterceptors (co_Interceptors co), tc_hooks = co_Hooks co\<rparr>)"

text \<open>
  The context of a call: when it is done and the headers set in it.  A network is how the
  client of the standard library does requests, and the state after a body was read.
\<close>

record 'w call_context =
  cx_Err :: "'w \<Rightarrow> ctx_err option"
  cx_Headers :: "header option"

record 'w network =
  nw_Do :: "('w \<Rightarrow> 'w \<times> redirect) option \<Rightarrow> 'w do_fun"
  nw_Read :: "http_response \<Rightarrow> 'w \<Rightarrow> 'w"

fun client_Do :: "'w network \<Rightarrow> 'w http_client \<Rightarrow> 'w do_fun" where
  "client_Do N (StdClient policy) = nw_Do N policy"
| "client_Do N (CustomClient d) = d"

definition getCustomHTTPReqHeaders :: "'w call_context \<Rightarrow> header option" where
  "getCustomHTTPReqHeaders ctx = cx_Headers ctx"

definition twirp_newRequest :: "'m rpc_lib \<Rightarrow> 'w call_context \<Rightarrow> string \<Rightarrow> string \<Rightarrow> string \<Rightarrow> rpc_err + http_request" where
  "twirp_newRequest L ctx url reqBody contentType = (case wl_BadURL L url of
      Some e \<Rightarrow> Inl e
    | None \<Rightarrow> Inr \<lparr>hq_Method = ''POST'', hq_Target = url,
        hq_Header = header_Set ''Twirp-Version'' ''v8.1.0'' (header_Set ''Content-Type'' contentType
          (header_Set ''Accept'' contentType (or_default (getCustomHTTPReqHeaders ctx) []))),
        hq_Body = \<lparr>bd_Data = reqBody, bd_Err = None\<rparr>\<rparr>)"

definition aborted :: "ctx_err \<Rightarrow> rpc_err" where
  "aborted e = wrapInternal (ctx_error e) ''aborted because context was done''"

text \<open>The deferred close: its error counts when there is no other.\<close>

definition closing :: "http_response \<Rightarrow> rpc_err + 'a \<Rightarrow> rpc_err + 'a" where
  "closing resp r = (case (r, hp_Close resp) of
      (Inr _, Some e) \<Rightarrow> Inl (wrapInternal e ''failed to close response body'')
    | _ \<Rightarrow> r)"

text \<open>
  What both kinds of requests do up to the response of status 200, whose body is left to
  \<open>finish\<close>; it is called in the state after the body was read.
\<close>

definition do_request ::
  "'m rpc_lib \<Rightarrow> 'w network \<Rightarrow> 'w call_context \<Rightarrow> ('m, 'w) rpc_client \<Rightarrow> string \<Rightarrow> string \<Rightarrow> string \<Rightarrow>
   (http_response \<Rightarrow> 'w \<Rightarrow> rpc_err + 'm) \<Rightarrow> 'w \<Rightarrow> 'w \<times> (rpc_err + 'm)" where
  "do_request L N ctx c url ctype reqBody finish w = (case cx_Err ctx w of
      Some e \<Rightarrow> (w, Inl (aborted e))
    | None \<Rightarrow> (case twirp_newRequest L ctx url reqBody ctype of
        Inl e \<Rightarrow> (w, Inl (wrapInternal e ''could not build request''))
      | Inr req \<Rightarrow> (case callClientRequestPrepared (tc_hooks c) req w of
          (w1, req', Some e) \<Rightarrow> (w1, Inl e)
        | (w1, req', None) \<Rightarrow> (case client_Do N (tc_client c) req' w1 of
            (w2, Inl e) \<Rightarrow> (w2, Inl (wrapInternal e ''failed to do request''))
          | (w2, Inr resp) \<Rightarrow>
              (case cx_Err ctx w2 of
                Some e \<Rightarrow> (w2, closing resp (Inl (aborted e)))
              | None \<Rightarrow>
                  (let w3 = nw_Read N resp w2 in
                   (w3, closing resp (if hp_Status resp \<noteq> 200 then Inl (errorFromResponse L resp) else finish resp w3))))))))"

definition doProtobufRequest ::
  "'m rpc_lib \<Rightarrow> 'w network \<Rightarrow> 'w call_context \<Rightarrow> ('m, 'w) rpc_client \<Rightarrow> string \<Rightarrow> string \<Rightarrow> 'm \<Rightarrow> 'w \<Rightarrow>
   'w \<times> (rpc_err + 'm)" where
  "doProtobufRequest L N ctx c url U m w = (case wl_Marshal L m of
      Inl e \<Rightarrow> (w, Inl (wrapInternal e ''failed to marshal proto request''))
    | Inr reqBody \<Rightarrow> do_request L N ctx c url ''application/protobuf'' reqBody (\<lambda>resp w3. case ReadAll (hp_Body resp) of
          Inl e \<Rightarrow> Inl (wrapInternal e ''failed to read response body'')
        | Inr bytes \<Rightarrow> (case cx_Err ctx w3 of
            Some e \<Rightarrow> Inl (aborted e)
          | None \<Rightarrow> (case wl_Unmarshal L U bytes of
              Inl e \<Rightarrow> Inl (wrapInternal e ''failed to unmarshal proto response'')
            | Inr out \<Rightarrow> Inr out))) w)"

definition doJSONRequest ::
  "'m rpc_lib \<Rightarrow> 'w network \<Rightarrow> 'w call_context \<Rightarrow> ('m, 'w) rpc_client \<Rightarrow> string \<Rightarrow> string \<Rightarrow> 'm \<Rightarrow> 'w \<Rightarrow>
   'w \<times> (rpc_err + 'm)" where
  "doJSONRequest L N ctx c url U m w = (case wl_MarshalJSON L True False m of
      Inl e \<Rightarrow> (w, Inl (wrapInternal e ''failed to marshal json request''))
    | Inr reqBody \<Rightarrow> do_request L N ctx c url ''application/json'' reqBody (\<lambda>resp w3.
        case wl_RawValue L (bd_Data (hp_Body resp)) (bd_Err (hp_Body resp)) of
          Inl e \<Rightarrow> Inl (wrapInternal e ''failed to unmarshal json response'')
        | Inr raw \<Rightarrow> (case wl_UnmarshalJSON L U raw of
            Inl e \<Rightarrow> Inl (wrapInternal e ''failed to unmarshal json response'')
          | Inr out \<Rightarrow> (case cx_Err ctx w3 of
              Some e \<Rightarrow> Inl (aborted e)
            | None \<Rightarrow> Inr out))) w)"

text \<open>A method of a client after its request, \<open>call<Method>\<close> of the code.\<close>

definition finish_call :: "('m, 'w) rpc_client \<Rightarrow> 'w \<times> (rpc_err + 'm) \<Rightarrow> 'w \<times> 'm called" where
  "finish_call c r = (case r of
      (w, Inl err) \<Rightarrow>
        (callClientError (tc_hooks c) (if is_twirp err then err else InternalErrorWith err) w, Returned None (Some err))
    | (w, Inr out) \<Rightarrow> (callClientResponseReceived (tc_hooks c) w, Returned (Some out) None))"

section \<open>What an error looks like from the other side\<close>

definition twirp_of :: "rpc_err \<Rightarrow> rpc_err" where
  "twirp_of err = (case As_twirp err of Some t \<Rightarrow> t | None \<Rightarrow> InternalErrorWith err)"

text \<open>
  The code, the message and the metadata survive, up to bytes that are no UTF-8 and the length of
  the message; what the error wrapped does not.
\<close>

definition remote_error :: "rpc_err \<Rightarrow> rpc_err" where
  "remote_error err = (let t = twirp_of err in
     Twerr (tw_code t) (sanitize (take 1000000 (tw_msg t))) (sanitized (by_key (tw_meta t))))"

definition received :: "server_response \<Rightarrow> http_response" where
  "received r = \<lparr>hp_Status = sr_Status r, hp_Header = sr_Header r, hp_Body = \<lparr>bd_Data = sr_Body r, bd_Err = None\<rparr>,
     hp_Close = None\<rparr>"

lemma valid_code_string [simp]: "valid_code (code_string c) = Some c"
  by (cases c) (simp_all add: valid_code_def all_codes_def)

lemma valid_codeD: "valid_code s = Some c \<Longrightarrow> code_string c = s"
  by (auto simp: valid_code_def find_Some_iff)

lemma sanitize_code [simp]: "sanitize (code_string c) = code_string c"
  by (rule sanitize_ascii) (cases c; simp)

lemma code_string_Nil [simp]: "code_string c = [] \<longleftrightarrow> c = T_NoError"
  by (cases c) simp_all

lemma error_status: "c \<noteq> T_NoError \<Longrightarrow> ServerHTTPStatusFromErrorCode c \<noteq> 200 \<and> \<not> isHTTPRedirect (ServerHTTPStatusFromErrorCode c)"
  by (cases c) (simp_all add: isHTTPRedirect_def)

lemma fold_WithMeta: "fold (\<lambda>kv. WithMeta (fst kv) (snd kv)) kvs (Twerr c m d) =
    Twerr c m (fold (\<lambda>kv. AList.update (fst kv) (snd kv)) kvs d)"
  by (induction kvs arbitrary: d) auto

lemma update_new: "k \<notin> fst ` set m \<Longrightarrow> AList.update k v m = m @ [(k, v)]"
  by (induction m) auto

lemma fold_update_distinct:
  "distinct (map fst kvs) \<Longrightarrow> fst ` set kvs \<inter> fst ` set m = {} \<Longrightarrow>
    fold (\<lambda>kv. AList.update (fst kv) (snd kv)) kvs m = m @ kvs"
proof (induction kvs arbitrary: m)
  case (Cons kv kvs)
  then show ?case
    by (cases kv) (auto simp: update_new)
qed simp

lemma distinct_sanitized: "distinct (map fst (sanitized m))"
proof -
  have "distinct (map fst (fold (\<lambda>kv. AList.update (sanitize (fst kv)) (sanitize (snd kv))) m acc))"
    if "distinct (map fst acc)" for acc
    using that by (induction m arbitrary: acc) (auto simp: distinct_update)
  then show ?thesis
    by (simp add: sanitized_def)
qed

lemma errorFromResponse_remote:
  assumes "tw_code t \<noteq> T_NoError"
  shows "errorFromResponse L (received (plain_response (ServerHTTPStatusFromErrorCode (tw_code t)) ctype (marshalErrorToJSON t))) =
    Twerr (tw_code t) (sanitize (take 1000000 (tw_msg t))) (sanitized (by_key (tw_meta t)))"
  using assms error_status [OF assms]
  by (simp add: errorFromResponse_def received_def plain_response_def Let_def ReadAll_def marshalErrorToJSON_def
      json_Decode_Marshal NewError_def fold_WithMeta fold_update_distinct distinct_sanitized)

text \<open>
  An error that an intermediary made up, a proxy without the service, say, is never taken for
  the NotFound of a handler: only a body in the format of twirp gives that code.
\<close>

lemma tw_code_WithMeta [simp]: "tw_code (WithMeta k v e) = tw_code e"
  by (cases e) simp_all

lemma tw_code_intermediary: "tw_code (twirpErrorFromIntermediary st msg b) \<noteq> T_NotFound"
  by (simp add: twirpErrorFromIntermediary_def Let_def NewError_def)

lemma is_twirp_WithMeta [simp]: "is_twirp (WithMeta k v e) = is_twirp e"
  by (cases e) simp_all

lemma tw_code_fold [simp]: "tw_code (fold (\<lambda>kv. WithMeta (fst kv) (snd kv)) kvs e) = tw_code e"
  by (induction kvs arbitrary: e) simp_all

lemma is_twirp_fold [simp]: "is_twirp (fold (\<lambda>kv. WithMeta (fst kv) (snd kv)) kvs e) = is_twirp e"
  by (induction kvs arbitrary: e) simp_all

lemma InternalErrorWith_facts [simp]:
  "is_twirp (InternalErrorWith e)" "tw_code (InternalErrorWith e) = T_Internal"
  "is_twirp (wrapInternal e p)" "tw_code (wrapInternal e p) = T_Internal"
  by (simp_all add: InternalErrorWith_def WrapError_def NewError_def wrapInternal_def)

lemma is_twirp_response: "is_twirp (errorFromResponse L resp)"
  by (simp add: errorFromResponse_def Let_def twirpErrorFromIntermediary_def NewError_def InternalError_def
      split: sum.split option.split)

lemma NotFound_from_twirp:
  assumes "tw_code (errorFromResponse L resp) = T_NotFound"
  shows "\<not> isHTTPRedirect (hp_Status resp) \<and>
    (\<exists>bytes tj. ReadAll (hp_Body resp) = Inr bytes \<and> json_Decode bytes = Some tj \<and> tj_Code tj = ''not_found'')"
  using assms tw_code_intermediary
  by (auto simp: errorFromResponse_def Let_def NewError_def InternalError_def split: if_splits sum.splits option.splits
      dest: valid_codeD)

section \<open>A call and its handler\<close>

text \<open>A network that takes every request to one server and its response back.\<close>

definition via :: "string \<Rightarrow> 'w http_handler \<Rightarrow> 'w do_fun" where
  "via base serve req w = (case serve (req\<lparr>hq_Target := drop (length base) (hq_Target req)\<rparr>) w of
     (w', r) \<Rightarrow> (w', Inr (received (written r))))"

definition reaches :: "'w network \<Rightarrow> 'w http_client \<Rightarrow> string \<Rightarrow> 'w http_handler \<Rightarrow> bool" where
  "reaches N cl base serve = (\<forall>req w. take (length base) (hq_Target req) = base \<longrightarrow>
     client_Do N (withoutRedirects cl) req w = via base serve req w)"

text \<open>The server as the services build it, with no options.\<close>

definition plain_server :: "('m, 'w) rpc_server" where
  "plain_server = \<lparr>sv_hooks = None, sv_interceptor = None, sv_pathPrefix = ''/twirp'', sv_jsonSkipDefaults = False,
     sv_jsonCamelCase = False\<rparr>"

lemma new_server_plain: "new_server [] = Some plain_server"
  by (simp add: new_server_def newServerOpts_def plain_server_def or_default_def ChainInterceptors_def map_filter_simps)

text \<open>What the caller gets for a result of the handler.\<close>

fun remote :: "string \<Rightarrow> string \<Rightarrow> 'm called \<Rightarrow> 'm called" where
  "remote U meth (Returned r (Some e)) = Returned None (Some (remote_error e))"
| "remote U meth (Returned (Some m) None) = Returned (Some m) None"
| "remote U meth (Returned None None) = Returned None (Some (remote_error (InternalError (''received a nil *'' @ U @
      '' and nil error while calling '' @ meth @ ''. nil responses are not supported''))))"
| "remote U meth (Panicked v) = Returned None (Some (remote_error (InternalWithCause ''Internal service panic'' (errFromPanic v))))"

definition encodes :: "'m rpc_lib \<Rightarrow> string \<Rightarrow> 'm \<Rightarrow> bool" where
  "encodes L T m = (\<exists>b. wl_Marshal L m = Inr b \<and> wl_Unmarshal L T b = Inr m)"

text \<open>No error of a result has the code that says there is none.\<close>

fun has_code :: "'m called \<Rightarrow> bool" where
  "has_code (Returned r (Some e)) = (tw_code (twirp_of e) \<noteq> T_NoError)"
| "has_code _ = True"

lemma header_Get_Set [simp]: "header_Get (header_Set k v h) k = v"
  "k \<noteq> k' \<Longrightarrow> header_Get (header_Set k' v h) k = header_Get h k"
  by (simp_all add: header_Get_def header_Set_def update_conv')

lemma media_type_protobuf [simp]: "media_type L ''application/protobuf'' = ''application/protobuf''"
  by (simp add: media_type_def strings_ToLower_def strings_TrimSpace_def ascii_def lower_char_def ascii_space_def in_bytes_def)

lemma parse_method_path:
  assumes "CHR ''/'' \<notin> set service" and "CHR ''/'' \<notin> set meth"
  shows "parseTwirpPath (''/twirp/'' @ service @ ''/'' @ meth) = (''/twirp'', service, meth)"
proof -
  have "split_on CHR ''/'' (''/twirp/'' @ service @ ''/'' @ meth) = [[], ''twirp'', service, meth]"
    using split_on_append [of "CHR ''/''" "[]" "''twirp/'' @ service @ ''/'' @ meth"]
      split_on_append [of "CHR ''/''" "''twirp''" "service @ ''/'' @ meth"]
      split_on_append [OF assms(1), of meth] split_on_no [OF assms(2)]
    by simp
  then show ?thesis
    by (simp add: parseTwirpPath_def)
qed

text \<open>
  The contract of one method of one service: its client makes the request of its URL, its server
  routes the name to the two variants of the method.
\<close>

locale twirp_method =
  fixes service :: string and methods :: "string list" and i :: nat and T :: string and U :: string
    and f :: "('m, 'w) rpc_method"
    and call :: "'m rpc_lib \<Rightarrow> 'w network \<Rightarrow> 'w call_context \<Rightarrow> ('m, 'w) rpc_client \<Rightarrow> ('m, 'w) rpc_method"
    and serve :: "'m rpc_lib \<Rightarrow> ('w \<Rightarrow> ctx_err option) \<Rightarrow> 'w response_writer \<Rightarrow> ('m, 'w) rpc_server \<Rightarrow> 'w http_handler"
  assumes index: "i < length methods"
    and path: "baseServicePath ''/twirp'' [] service = ''/twirp/'' @ service @ ''/''"
    and names: "CHR ''/'' \<notin> set service" "CHR ''/'' \<notin> set (methods ! i)"
    and calls: "tc_interceptor c = None \<Longrightarrow> call L N cx c m w = finish_call c (doProtobufRequest L N cx c (tc_urls c ! i) U m w)"
    and serves: "\<exists>route. serve L ctx wr s = serve_HTTP L wr s service route \<and> route (methods ! i) =
      Some (serve_method L wr s (serveJSON L ctx wr s (methods ! i) T U f) (serveProtobuf L ctx wr s (methods ! i) T U f))"
begin

abbreviation "client_of L base cl \<equiv> new_client L service methods base cl []"

lemma url: "sanitizeBaseURL L base = base \<Longrightarrow>
    tc_urls (client_of L base cl) ! i = base @ ''/twirp/'' @ service @ ''/'' @ methods ! i"
  using index path by (simp add: new_client_def or_default_def Let_def)

lemma client_parts [simp]: "tc_client (client_of L base cl) = withoutRedirects cl" "tc_hooks (client_of L base cl) = None"
  "tc_interceptor (client_of L base cl) = None"
  by (simp_all add: new_client_def Let_def ChainInterceptors_def map_filter_simps)

text \<open>A binary request at the path of the method reaches the service.\<close>

lemma routed:
  assumes "hq_Method req = ''POST''" and "hq_Target req = ''/twirp/'' @ service @ ''/'' @ methods ! i"
    and "header_Get (hq_Header req) ''Content-Type'' = ''application/protobuf''"
    and "hq_Body req = \<lparr>bd_Data = b, bd_Err = None\<rparr>" and "wl_Unmarshal L T b = Inr m"
  shows "serve L ctx wr plain_server req w =
    serve_call L wr plain_server (methods ! i) T U f (wl_Marshal L) ''application/protobuf''
      ''failed to marshal proto response'' m w"
proof -
  obtain route where r: "serve L ctx wr plain_server = serve_HTTP L wr plain_server service route"
    "route (methods ! i) = Some (serve_method L wr plain_server (serveJSON L ctx wr plain_server (methods ! i) T U f)
       (serveProtobuf L ctx wr plain_server (methods ! i) T U f))"
    using serves by blast
  have "parseTwirpPath (hq_Target req) = (''/twirp'', service, methods ! i)"
    unfolding assms(2) by (rule parse_method_path [OF names])
  with r assms show ?thesis
    by (simp add: serve_HTTP_def serve_method_def serveProtobuf_def Let_def ReadAll_def plain_server_def)
qed

lemma call_response:
  assumes "sanitizeBaseURL L base = base" and "wl_BadURL L (base @ ''/twirp/'' @ service @ ''/'' @ methods ! i) = None"
    and "encodes L T m" and "\<And>w. cx_Err cx w = None" and "\<And>r w. nw_Read N r w = w"
    and "reaches N cl base (serve L ctx wr plain_server)"
    and "serve_call L wr plain_server (methods ! i) T U f (wl_Marshal L) ''application/protobuf''
      ''failed to marshal proto response'' m w = (w', r)"
  shows "call L N cx (client_of L base cl) m w =
    (w', if sr_Status (written r) \<noteq> 200 then Returned None (Some (errorFromResponse L (received (written r))))
      else (case wl_Unmarshal L U (sr_Body (written r)) of
         Inl e \<Rightarrow> Returned None (Some (wrapInternal e ''failed to unmarshal proto response''))
       | Inr out \<Rightarrow> Returned (Some out) None))"
proof -
  let ?c = "client_of L base cl"
  let ?url = "base @ ''/twirp/'' @ service @ ''/'' @ methods ! i"
  from assms(3) obtain b where b: "wl_Marshal L m = Inr b" "wl_Unmarshal L T b = Inr m"
    by (auto simp: encodes_def)
  obtain req where req: "twirp_newRequest L cx ?url b ''application/protobuf'' = Inr req"
    "hq_Method req = ''POST''" "hq_Target req = ?url" "header_Get (hq_Header req) ''Content-Type'' = ''application/protobuf''"
    "hq_Body req = \<lparr>bd_Data = b, bd_Err = None\<rparr>"
    using assms(2) by (simp add: twirp_newRequest_def)
  let ?req = "req\<lparr>hq_Target := drop (length base) (hq_Target req)\<rparr>"
  have "serve L ctx wr plain_server ?req w = (w', r)"
    unfolding assms(7) [symmetric] by (rule routed [where b = b]) (use req b in simp_all)
  then have "client_Do N (withoutRedirects cl) req w = (w', Inr (received (written r)))"
    using assms(6) req(3) by (simp add: reaches_def via_def)
  then have "doProtobufRequest L N cx ?c (tc_urls ?c ! i) U m w =
    (w', if sr_Status (written r) \<noteq> 200 then Inl (errorFromResponse L (received (written r)))
      else (case wl_Unmarshal L U (sr_Body (written r)) of
         Inl e \<Rightarrow> Inl (wrapInternal e ''failed to unmarshal proto response'') | Inr out \<Rightarrow> Inr out))"
    using assms(4,5) b req(1)
    by (simp add: doProtobufRequest_def do_request_def url [OF assms(1)] closing_def received_def ReadAll_def Let_def
        split: sum.split)
  then show ?thesis
    using calls [of ?c L N cx m w] by (auto simp: finish_call_def split: sum.split)
qed

lemma error_response:
  "writeError (\<lambda>r w. (w, None)) None e w = (w, Served (plain_response
     (ServerHTTPStatusFromErrorCode (tw_code (twirp_of e))) ''application/json'' (marshalErrorToJSON (twirp_of e))))"
  by (simp add: writeError_def twirp_of_def Let_def)

lemma remote_call:
  assumes "sanitizeBaseURL L base = base" and "wl_BadURL L (base @ ''/twirp/'' @ service @ ''/'' @ methods ! i) = None"
    and "encodes L T m" and "\<And>w. cx_Err cx w = None" and "\<And>r w. nw_Read N r w = w"
    and "reaches N cl base (serve L ctx (\<lambda>r w. (w, None)) plain_server)"
    and f: "f m w = (w', r)" "has_code r" "\<And>m'. r = Returned (Some m') None \<Longrightarrow> encodes L U m'"
  shows "call L N cx (client_of L base cl) m w = (w', remote U (methods ! i) r)"
proof -
  let ?wr = "\<lambda>r w. (w, None) :: 'w \<times> (nat \<times> string) option"
  let ?h = "serve_call L ?wr plain_server (methods ! i) T U f (wl_Marshal L) ''application/protobuf''
      ''failed to marshal proto response'' m w"
  note go = call_response [where wr = ?wr and cx = cx and N = N and ctx = ctx, OF assms(1-6)]
  note defs = serve_call_def ensurePanicResponses_def plain_server_def error_response Let_def
  have err: "sr_Status (plain_response (ServerHTTPStatusFromErrorCode (tw_code (twirp_of e))) ctype b) \<noteq> 200"
    if "tw_code (twirp_of e) \<noteq> T_NoError" for e ctype b
    using error_status [OF that] by (simp add: plain_response_def)
  have twirp: "twirp_of e = e" if "is_twirp e" for e
    using that by (cases e) (simp_all add: twirp_of_def)
  have fails: "call L N cx (client_of L base cl) m w =
      (w', Returned None (Some (remote_error e)))"
    if "?h = (w', x)" "tw_code (twirp_of e) \<noteq> T_NoError" "written x = plain_response
      (ServerHTTPStatusFromErrorCode (tw_code (twirp_of e))) ''application/json'' (marshalErrorToJSON (twirp_of e))" for e x
    using go [OF that(1)] err [OF that(2)] errorFromResponse_remote [OF that(2)] that(3)
    by (simp add: remote_error_def Let_def)
  show ?thesis
  proof (cases r)
    case (Panicked v)
    let ?e = "InternalWithCause ''Internal service panic'' (errFromPanic v)"
    have "tw_code (twirp_of ?e) \<noteq> T_NoError"
      by (simp add: twirp)
    moreover have "?h = (w', ServedPanic (plain_response (ServerHTTPStatusFromErrorCode (tw_code (twirp_of ?e)))
        ''application/json'' (marshalErrorToJSON (twirp_of ?e))) v)"
      using f(1) Panicked by (simp add: defs)
    ultimately show ?thesis
      using fails Panicked by simp
  next
    case (Returned m' oe)
    consider e where "oe = Some e" | "oe = None" "m' = None" | out where "oe = None" "m' = Some out"
      by fastforce
    then show ?thesis
    proof cases
      case 1
      have "?h = (w', Served (plain_response (ServerHTTPStatusFromErrorCode (tw_code (twirp_of e)))
          ''application/json'' (marshalErrorToJSON (twirp_of e))))"
        using f(1) Returned 1 by (cases m') (simp_all add: defs)
      moreover have "tw_code (twirp_of e) \<noteq> T_NoError"
        using f(2) Returned 1 by simp
      ultimately show ?thesis
        using fails Returned 1 by simp
    next
      case 2
      let ?e = "InternalError (''received a nil *'' @ U @ '' and nil error while calling '' @ methods ! i @
        ''. nil responses are not supported'')"
      have t: "tw_code (twirp_of ?e) \<noteq> T_NoError"
        by (simp add: twirp InternalError_def NewError_def)
      have "?h = (w', Served (plain_response (ServerHTTPStatusFromErrorCode (tw_code (twirp_of ?e)))
          ''application/json'' (marshalErrorToJSON (twirp_of ?e))))"
        using f(1) Returned 2 by (simp add: defs)
      from fails [OF this t] Returned 2 show ?thesis
        by simp
    next
      case 3
      with f(3) Returned obtain b where b: "wl_Marshal L out = Inr b" "wl_Unmarshal L U b = Inr out"
        by (auto simp: encodes_def)
      with 3 f(1) Returned have "?h = (w', Served (plain_response 200 ''application/protobuf'' b))"
        by (simp add: defs)
      from go [OF this] b(2) 3 Returned show ?thesis
        by (simp add: plain_response_def)
    qed
  qed
qed

end

end
