(* ===== verification/Mongo.thy ===== *)
theory Mongo
  imports Prelude "HOL-Library.Multiset"
begin

text \<open>
  The MongoDB interface of the repositories: the values, filters and updates the services
  build (\<^verbatim>\<open>bson.M\<close>, \<^verbatim>\<open>bson.A\<close>, \<^verbatim>\<open>bson.D\<close>), the driver calls as a record of functions on a
  world of any type, and the documented behaviour of the server as the named hypothesis
  \<open>mongo_laws\<close>.  Nothing of the driver or the server is defined here.
\<close>

section \<open>Values, filters, updates\<close>

datatype bval =
    BUuid uuid | BStr string | BTime time | BBytes "byte list" | BBool bool
  | BArr "bval list" | BDoc "(string \<times> bval) list"

type_synonym bdoc = "(string \<times> bval) list"

text \<open>
  The conditions on a field the services write: equality, \<^verbatim>\<open>$lt\<close>, \<^verbatim>\<open>$gt\<close>, \<^verbatim>\<open>$in\<close>,
  \<^verbatim>\<open>$elemMatch\<close> of an \<^verbatim>\<open>$or\<close> of documents, \<^verbatim>\<open>$exists\<close>; and the top level \<^verbatim>\<open>$or\<close>.
\<close>

datatype clause =
    FEq bval | FLt bval | FGt bval | FIn "bval list" | FElemOr "bdoc list" | FExists bool

datatype filt = FField string clause | FOr "(string \<times> clause) list list"

type_synonym mfilter = "filt list"

datatype mupdate =
    USet bdoc | USetOnInsert bdoc | UUnset "string list" | UAddToSet "(string \<times> bval list) list"

type_synonym msort = "(string \<times> int) list"

section \<open>Documented query semantics\<close>

text \<open>
  The order of values of one type: dates by instant, binaries of equal length and strings
  bytewise.  Values of different types never satisfy \<^verbatim>\<open>$lt\<close> or \<^verbatim>\<open>$gt\<close>.
\<close>

fun string_less :: "string \<Rightarrow> string \<Rightarrow> bool" where
  "string_less xs [] = False"
| "string_less [] (y # ys) = True"
| "string_less (x # xs) (y # ys) =
     (of_char x < (of_char y :: nat) \<or> (x = y \<and> string_less xs ys))"

fun bless :: "bval \<Rightarrow> bval \<Rightarrow> bool" where
  "bless (BTime a) (BTime b) = (a < b)"
| "bless (BUuid a) (BUuid b) = (a < b)"
| "bless (BStr a) (BStr b) = string_less a b"
| "bless _ _ = False"

definition bget :: "bdoc \<Rightarrow> string \<Rightarrow> bval option" where
  "bget d k = map_of d k"

definition elem_matches :: "bdoc \<Rightarrow> bval \<Rightarrow> bool" where
  "elem_matches f v = (case v of BDoc d \<Rightarrow> list_all (\<lambda>(k, x). bget d k = Some x) f | _ \<Rightarrow> False)"

fun clause_holds :: "clause \<Rightarrow> bval option \<Rightarrow> bool" where
  "clause_holds (FEq x) v = (v = Some x)"
| "clause_holds (FLt x) v = (case v of None \<Rightarrow> False | Some y \<Rightarrow> bless y x)"
| "clause_holds (FGt x) v = (case v of None \<Rightarrow> False | Some y \<Rightarrow> bless x y)"
| "clause_holds (FIn xs) v = (case v of None \<Rightarrow> False | Some y \<Rightarrow> y \<in> set xs)"
| "clause_holds (FElemOr alts) v = (case v of Some (BArr vs) \<Rightarrow>
      list_ex (\<lambda>x. list_ex (\<lambda>f. elem_matches f x) alts) vs | _ \<Rightarrow> False)"
| "clause_holds (FExists b) v = (b = (v \<noteq> None))"

fun filt_holds :: "filt \<Rightarrow> bdoc \<Rightarrow> bool" where
  "filt_holds (FField k c) d = clause_holds c (bget d k)"
| "filt_holds (FOr alts) d =
     list_ex (\<lambda>cs. list_all (\<lambda>(k, c). clause_holds c (bget d k)) cs) alts"

definition matches :: "mfilter \<Rightarrow> bdoc \<Rightarrow> bool" where
  "matches f d = list_all (\<lambda>c. filt_holds c d) f"

lemma matches_simps [simp]:
  "matches [] d" "matches (c # f) d \<longleftrightarrow> filt_holds c d \<and> matches f d"
  "matches (f @ g) d \<longleftrightarrow> matches f d \<and> matches g d"
  by (auto simp: matches_def)

lemma matches_if [simp]:
  "matches (if b then f else g) d \<longleftrightarrow> (if b then matches f d else matches g d)"
  by simp

text \<open>The lexicographic comparison a \<^verbatim>\<open>Sort\<close> document asks for; 1 ascends, -1 descends.\<close>

fun sort_before :: "msort \<Rightarrow> bdoc \<Rightarrow> bdoc \<Rightarrow> bool" where
  "sort_before [] a b = False"
| "sort_before ((k, dir) # ks) a b = (case (bget a k, bget b k) of
     (Some x, Some y) \<Rightarrow>
       (if dir = 1 then bless x y else bless y x) \<or> (x = y \<and> sort_before ks a b)
   | _ \<Rightarrow> False)"

text \<open>A limit of 0 is no limit, a negative one a single batch of its absolute value.\<close>

definition take_limit :: "int \<Rightarrow> 'a list \<Rightarrow> 'a list" where
  "take_limit l xs = (if l = 0 then xs else take (nat \<bar>l\<bar>) xs)"

lemma set_take_limit: "x \<in> set (take_limit l xs) \<Longrightarrow> x \<in> set xs"
  by (auto simp: take_limit_def split: if_splits dest: in_set_takeD)

section \<open>The driver\<close>

text \<open>
  \<open>'w\<close> is everything outside the process.  \<open>mg_findOneAndUpdate\<close> takes the upsert flag and
  always returns the document after the update, as every call of the services asks.
\<close>

record 'w mongo =
  mg_insertMany :: "string \<Rightarrow> bdoc list \<Rightarrow> 'w \<Rightarrow> 'w \<times> err"
  mg_find :: "string \<Rightarrow> mfilter \<Rightarrow> msort \<Rightarrow> int \<Rightarrow> 'w \<Rightarrow> 'w \<times> bdoc list res"
  mg_updateMany :: "string \<Rightarrow> mfilter \<Rightarrow> mupdate list \<Rightarrow> 'w \<Rightarrow> 'w \<times> nat res"
  mg_deleteMany :: "string \<Rightarrow> mfilter \<Rightarrow> 'w \<Rightarrow> 'w \<times> nat res"
  mg_findOneAndUpdate :: "string \<Rightarrow> mfilter \<Rightarrow> mupdate list \<Rightarrow> bool \<Rightarrow> 'w \<Rightarrow> 'w \<times> bdoc res"

definition IsDuplicateKeyError :: "go_error \<Rightarrow> bool" where
  "IsDuplicateKeyError e = errors_Is e P_mongo DuplicateKey"

definition IsNoDocuments :: "go_error \<Rightarrow> bool" where
  "IsNoDocuments e = errors_Is e P_mongo ErrNoDocuments"

text \<open>
  What the server documents of the calls, over a view \<open>docs w c\<close> of a collection:
  a query returns the matching documents in the asked order, up to the limit, and changes
  nothing; a deletion removes matching documents only, and all of them when it succeeds;
  an insertion appends documents in order and stops at the first refusal; an update
  changes matching documents only, and keeps their \<^verbatim>\<open>_id\<close>.  The errors of the driver are its
  own: they are none of the sentinels of the services.
\<close>

definition find_law :: "'w mongo \<Rightarrow> ('w \<Rightarrow> string \<Rightarrow> bdoc list) \<Rightarrow> bool" where
  "find_law m docs \<longleftrightarrow> (\<forall>c f so l w w' ds. mg_find m c f so l w = (w', Inr ds) \<longrightarrow>
     docs w' = docs w \<and>
     (\<exists>xs. mset xs = mset (filter (matches f) (docs w c)) \<and>
        sorted_wrt (\<lambda>a b. \<not> sort_before so b a) xs \<and> ds = take_limit l xs)) \<and>
   (\<forall>c f so l w w' e p k. mg_find m c f so l w = (w', Inl e) \<longrightarrow> errors_Is e p k \<longrightarrow> p = P_mongo)"

definition delete_law :: "'w mongo \<Rightarrow> ('w \<Rightarrow> string \<Rightarrow> bdoc list) \<Rightarrow> bool" where
  "delete_law m docs = (\<forall>c f w w' r. mg_deleteMany m c f w = (w', r) \<longrightarrow>
     (\<forall>c'. c' \<noteq> c \<longrightarrow> docs w' c' = docs w c') \<and>
     filter (\<lambda>d. \<not> matches f d) (docs w' c) = filter (\<lambda>d. \<not> matches f d) (docs w c) \<and>
     set (docs w' c) \<subseteq> set (docs w c) \<and>
     (\<forall>n. r = Inr n \<longrightarrow> docs w' c = filter (\<lambda>d. \<not> matches f d) (docs w c) \<and>
        n = length (filter (matches f) (docs w c))))"

definition insert_law :: "'w mongo \<Rightarrow> ('w \<Rightarrow> string \<Rightarrow> bdoc list) \<Rightarrow> bool" where
  "insert_law m docs \<longleftrightarrow> (\<forall>c ds w w' r. mg_insertMany m c ds w = (w', r) \<longrightarrow>
     (\<forall>e p k. r = Some e \<longrightarrow> errors_Is e p k \<longrightarrow> p = P_mongo) \<and>
     (\<forall>c'. c' \<noteq> c \<longrightarrow> docs w' c' = docs w c') \<and>
     (\<exists>k. docs w' c = docs w c @ take k ds) \<and> (r = None \<longrightarrow> docs w' c = docs w c @ ds))"

definition set_fields :: "bdoc \<Rightarrow> bdoc \<Rightarrow> bdoc" where
  "set_fields new old = new @ filter (\<lambda>(k, _). map_of new k = None) old"

lemma bget_set_fields:
  "bget (set_fields new old) k = (case map_of new k of None \<Rightarrow> bget old k | Some v \<Rightarrow> Some v)"
proof -
  have "map_of (filter (\<lambda>(k, _). map_of new k = None) old) k =
      (if map_of new k = None then map_of old k else None)"
    by (induction old) auto
  then show ?thesis
    by (auto simp: bget_def set_fields_def map_add_def split: option.splits)
qed

lemma set_fields_simps [simp]: "set_fields [] d = d" "set_fields new [] = new"
  by (simp_all add: set_fields_def)

text \<open>
  The documented effect of an update on a matching document: \<^verbatim>\<open>$set\<close>, \<^verbatim>\<open>$unset\<close>, and
  \<^verbatim>\<open>$addToSet\<close> with \<^verbatim>\<open>$each\<close>, whose field may be a path of two steps.
\<close>

definition add_new :: "'a \<Rightarrow> 'a list \<Rightarrow> 'a list" where
  "add_new v vs = (if v \<in> set vs then vs else vs @ [v])"

definition sub_doc :: "string \<Rightarrow> bdoc \<Rightarrow> bdoc" where
  "sub_doc k d = (case bget d k of Some (BDoc s) \<Rightarrow> s | _ \<Rightarrow> [])"

definition arr_at :: "string \<Rightarrow> bdoc \<Rightarrow> bval list" where
  "arr_at k d = (case bget d k of Some (BArr vs) \<Rightarrow> vs | _ \<Rightarrow> [])"

definition add_at :: "string \<Rightarrow> bval list \<Rightarrow> bdoc \<Rightarrow> bdoc" where
  "add_at p vs d = (case split_on CHR ''.'' p of
      [k1, k2] \<Rightarrow> (let s = sub_doc k1 d in
        set_fields [(k1, BDoc (set_fields [(k2, BArr (fold add_new vs (arr_at k2 s)))] s))] d)
    | _ \<Rightarrow> set_fields [(p, BArr (fold add_new vs (arr_at p d)))] d)"

fun apply_update :: "mupdate list \<Rightarrow> bdoc \<Rightarrow> bdoc" where
  "apply_update [] d = d"
| "apply_update (USet n # us) d = apply_update us (set_fields n d)"
| "apply_update (UUnset ks # us) d = apply_update us (filter (\<lambda>(k, _). k \<notin> set ks) d)"
| "apply_update (UAddToSet adds # us) d = apply_update us (fold (\<lambda>(p, vs). add_at p vs) adds d)"
| "apply_update (USetOnInsert n # us) d = apply_update us d"

definition plain_update :: "mupdate list \<Rightarrow> bool" where
  "plain_update us = list_all (\<lambda>u. case u of USetOnInsert _ \<Rightarrow> False | _ \<Rightarrow> True) us"

lemma plain_update_simps [simp]: "plain_update []" "plain_update (USet d # us) = plain_update us"
  "plain_update (UUnset ks # us) = plain_update us" "plain_update (UAddToSet a # us) = plain_update us"
  by (simp_all add: plain_update_def)

text \<open>\<^verbatim>\<open>FindOneAndUpdate\<close> without upsert.\<close>

definition update_one_law :: "'w mongo \<Rightarrow> ('w \<Rightarrow> string \<Rightarrow> bdoc list) \<Rightarrow> bool" where
  "update_one_law m docs = (\<forall>c f us w w' r. plain_update us \<longrightarrow>
     mg_findOneAndUpdate m c f us False w = (w', r) \<longrightarrow>
     (\<forall>c'. c' \<noteq> c \<longrightarrow> docs w' c' = docs w c') \<and>
     (\<forall>e. r = Inl e \<longrightarrow> docs w' c = docs w c \<and> (\<forall>p k. errors_Is e p k \<longrightarrow> p = P_mongo)) \<and>
     (\<forall>d'. r = Inr d' \<longrightarrow> (\<exists>as d bs. docs w c = as @ d # bs \<and> matches f d \<and>
        (\<forall>k. bget d' k = bget (apply_update us d) k) \<and> docs w' c = as @ d' # bs)) \<and>
     ((\<exists>d \<in> set (docs w c). matches f d) \<longrightarrow> (\<forall>e. r = Inl e \<longrightarrow> \<not> IsNoDocuments e)) \<and>
     (\<not> (\<exists>d \<in> set (docs w c). matches f d) \<longrightarrow> (\<exists>e. r = Inl e)))"

text \<open>
  The upsert: a matching document is updated by the \<^verbatim>\<open>$set\<close> parts only; with no match a new
  document takes the fields of \<^verbatim>\<open>$setOnInsert\<close> and \<^verbatim>\<open>$set\<close> and, besides, the equality
  conditions of the filter.
\<close>

fun eq_fields :: "mfilter \<Rightarrow> bdoc" where
  "eq_fields [] = []"
| "eq_fields (FField k (FEq v) # f) = (k, v) # eq_fields f"
| "eq_fields (_ # f) = eq_fields f"

definition upserted :: "mfilter \<Rightarrow> bdoc \<Rightarrow> mupdate list \<Rightarrow> bdoc" where
  "upserted f ins sets = set_fields (apply_update sets ins) (eq_fields f)"

lemma bget_upserted:
  "bget (upserted f ins sets) k =
     (case bget (apply_update sets ins) k of None \<Rightarrow> bget (eq_fields f) k | Some v \<Rightarrow> Some v)"
  by (simp add: upserted_def bget_set_fields) (simp add: bget_def)

definition upsert_law :: "'w mongo \<Rightarrow> ('w \<Rightarrow> string \<Rightarrow> bdoc list) \<Rightarrow> bool" where
  "upsert_law m docs = (\<forall>c f ins sets w w' r. plain_update sets \<longrightarrow>
     mg_findOneAndUpdate m c f (USetOnInsert ins # sets) True w = (w', r) \<longrightarrow>
     (\<forall>c'. c' \<noteq> c \<longrightarrow> docs w' c' = docs w c') \<and>
     (\<forall>e. r = Inl e \<longrightarrow> docs w' c = docs w c) \<and>
     (\<forall>d'. r = Inr d' \<longrightarrow>
        (\<exists>as d bs. docs w c = as @ d # bs \<and> matches f d \<and>
           (\<forall>k. bget d' k = bget (apply_update sets d) k) \<and> docs w' c = as @ d' # bs) \<or>
        (\<forall>d \<in> set (docs w c). \<not> matches f d) \<and>
           (\<forall>k. bget d' k = bget (upserted f ins sets) k) \<and> docs w' c = docs w c @ [d']))"

text \<open>\<^verbatim>\<open>UpdateMany\<close> without \<^verbatim>\<open>$setOnInsert\<close>: it may stop on an error half way.\<close>

definition update_many_law :: "'w mongo \<Rightarrow> ('w \<Rightarrow> string \<Rightarrow> bdoc list) \<Rightarrow> bool" where
  "update_many_law m docs = (\<forall>c f us w w' r. plain_update us \<longrightarrow>
     mg_updateMany m c f us w = (w', r) \<longrightarrow>
     (\<forall>c'. c' \<noteq> c \<longrightarrow> docs w' c' = docs w c') \<and>
     list_all2 (\<lambda>d d'. d' = d \<or> matches f d \<and>
        (\<forall>k. bget d' k = bget (apply_update us d) k)) (docs w c) (docs w' c) \<and>
     (\<forall>n. r = Inr n \<longrightarrow> list_all2 (\<lambda>d d'. matches f d \<longrightarrow>
        (\<forall>k. bget d' k = bget (apply_update us d) k)) (docs w c) (docs w' c)) \<and>
     (\<forall>n. r = Inr n \<longrightarrow> (\<forall>d \<in> set (docs w c). \<not> matches f d) \<longrightarrow> n = 0))"

definition mongo_laws :: "'w mongo \<Rightarrow> ('w \<Rightarrow> string \<Rightarrow> bdoc list) \<Rightarrow> bool" where
  "mongo_laws m docs \<longleftrightarrow> find_law m docs \<and> delete_law m docs \<and> insert_law m docs \<and>
     update_one_law m docs \<and> upsert_law m docs \<and> update_many_law m docs"

lemma find_lawD:
  assumes "mongo_laws m docs" and "mg_find m c f so l w = (w', Inr ds)"
  shows "docs w' = docs w" "\<exists>xs. mset xs = mset (filter (matches f) (docs w c)) \<and>
    sorted_wrt (\<lambda>a b. \<not> sort_before so b a) xs \<and> ds = take_limit l xs"
  using assms unfolding mongo_laws_def find_law_def by blast+

lemma find_error: "mongo_laws m docs \<Longrightarrow> mg_find m c f so l w = (w', Inl e) \<Longrightarrow> errors_Is e p k \<Longrightarrow> p = P_mongo"
  unfolding mongo_laws_def find_law_def by blast

lemma find_matching:
  assumes "mongo_laws m docs" and "mg_find m c f so l w = (w', Inr ds)" and "d \<in> set ds"
  shows "d \<in> set (docs w c)" "matches f d"
  using find_lawD(2) [OF assms(1,2)] assms(3)
  by (metis (no_types, lifting) mem_Collect_eq mset_eq_setD set_filter set_take_limit)+

lemma find_unique:
  assumes "mongo_laws m docs" and "mg_find m c f so 0 w = (w', Inr ds)"
  shows "mset ds = mset (filter (matches f) (docs w c))"
  using find_lawD(2) [OF assms] by (auto simp: take_limit_def)

lemma delete_lawD:
  assumes "mongo_laws m docs" and "mg_deleteMany m c f w = (w', r)"
  shows "c' \<noteq> c \<Longrightarrow> docs w' c' = docs w c'"
    "filter (\<lambda>d. \<not> matches f d) (docs w' c) = filter (\<lambda>d. \<not> matches f d) (docs w c)"
    "r = Inr n \<Longrightarrow> docs w' c = filter (\<lambda>d. \<not> matches f d) (docs w c)"
    "r = Inr n \<Longrightarrow> n = length (filter (matches f) (docs w c))"
    "set (docs w' c) \<subseteq> set (docs w c)"
  using assms unfolding mongo_laws_def delete_law_def by blast+

lemma delete_keeps:
  assumes "mongo_laws m docs" and "mg_deleteMany m c f w = (w', r)"
    and "d \<in> set (docs w c)" and "\<not> matches f d"
  shows "d \<in> set (docs w' c)"
  using delete_lawD(2) [OF assms(1,2)] assms(3,4) by (metis (mono_tags, lifting) mem_Collect_eq set_filter)

lemma insert_lawD:
  assumes "mongo_laws m docs" and "mg_insertMany m c ds w = (w', r)"
  shows "c' \<noteq> c \<Longrightarrow> docs w' c' = docs w c'" "\<exists>k. docs w' c = docs w c @ take k ds"
    "r = None \<Longrightarrow> docs w' c = docs w c @ ds"
    "r = Some e \<Longrightarrow> errors_Is e p k \<Longrightarrow> p = P_mongo"
  using assms unfolding mongo_laws_def insert_law_def by blast+

lemma update_one_lawD:
  assumes "mongo_laws m docs" and "plain_update us" and "mg_findOneAndUpdate m c f us False w = (w', r)"
  shows "c' \<noteq> c \<Longrightarrow> docs w' c' = docs w c'" "r = Inl e \<Longrightarrow> docs w' c = docs w c"
    "r = Inr d' \<Longrightarrow> \<exists>as d bs. docs w c = as @ d # bs \<and> matches f d \<and>
        (\<forall>k. bget d' k = bget (apply_update us d) k) \<and> docs w' c = as @ d' # bs"
    "r = Inl e \<Longrightarrow> IsNoDocuments e \<Longrightarrow> d \<in> set (docs w c) \<Longrightarrow> \<not> matches f d"
    "r = Inl e \<Longrightarrow> errors_Is e p k \<Longrightarrow> p = P_mongo"
  using assms unfolding mongo_laws_def update_one_law_def by blast+

lemma upsert_lawD:
  assumes "mongo_laws m docs" and "plain_update sets"
    and "mg_findOneAndUpdate m c f (USetOnInsert ins # sets) True w = (w', r)"
  shows "c' \<noteq> c \<Longrightarrow> docs w' c' = docs w c'" "r = Inl e \<Longrightarrow> docs w' c = docs w c"
    "r = Inr d' \<Longrightarrow>
       (\<exists>as d bs. docs w c = as @ d # bs \<and> matches f d \<and>
          (\<forall>k. bget d' k = bget (apply_update sets d) k) \<and> docs w' c = as @ d' # bs) \<or>
       (\<forall>d \<in> set (docs w c). \<not> matches f d) \<and>
          (\<forall>k. bget d' k = bget (upserted f ins sets) k) \<and> docs w' c = docs w c @ [d']"
  using assms unfolding mongo_laws_def upsert_law_def by blast+

lemma update_many_lawD:
  assumes "mongo_laws m docs" and "plain_update us" and "mg_updateMany m c f us w = (w', r)"
  shows "c' \<noteq> c \<Longrightarrow> docs w' c' = docs w c'"
    "list_all2 (\<lambda>d d'. d' = d \<or> matches f d \<and>
        (\<forall>k. bget d' k = bget (apply_update us d) k)) (docs w c) (docs w' c)"
    "r = Inr n \<Longrightarrow> list_all2 (\<lambda>d d'. matches f d \<longrightarrow>
        (\<forall>k. bget d' k = bget (apply_update us d) k)) (docs w c) (docs w' c)"
    "r = Inr n \<Longrightarrow> (\<And>d. d \<in> set (docs w c) \<Longrightarrow> \<not> matches f d) \<Longrightarrow> n = 0"
  using assms unfolding mongo_laws_def update_many_law_def by blast+

lemma update_one_keeps:
  assumes "mongo_laws m docs" and "plain_update us" and "mg_findOneAndUpdate m c f us False w = (w', r)"
    and "d \<in> set (docs w c)" and "\<not> matches f d"
  shows "d \<in> set (docs w' c)"
proof (cases r)
  case (Inl e)
  then show ?thesis using update_one_lawD(2) [OF assms(1-3)] assms(4) by simp
next
  case (Inr d')
  then show ?thesis using update_one_lawD(3) [OF assms(1-3) Inr] assms(4,5) by auto
qed

section \<open>Decoding fields\<close>

text \<open>
  Reading a struct field back: a missing field keeps the zero value, a value of another
  type is a decoding error.
\<close>

definition EDecode :: go_error where
  "EDecode = Foreign 1"

definition dec_uuid :: "bdoc \<Rightarrow> string \<Rightarrow> uuid res" where
  "dec_uuid d k = (case bget d k of None \<Rightarrow> Inr uuid_Nil | Some (BUuid u) \<Rightarrow> Inr u | _ \<Rightarrow> Inl EDecode)"

definition dec_str :: "bdoc \<Rightarrow> string \<Rightarrow> string res" where
  "dec_str d k = (case bget d k of None \<Rightarrow> Inr '''' | Some (BStr u) \<Rightarrow> Inr u | _ \<Rightarrow> Inl EDecode)"

definition dec_time :: "bdoc \<Rightarrow> string \<Rightarrow> time res" where
  "dec_time d k = (case bget d k of None \<Rightarrow> Inr time_zero | Some (BTime u) \<Rightarrow> Inr u | _ \<Rightarrow> Inl EDecode)"

definition dec_bytes :: "bdoc \<Rightarrow> string \<Rightarrow> byte list res" where
  "dec_bytes d k = (case bget d k of None \<Rightarrow> Inr [] | Some (BBytes u) \<Rightarrow> Inr u | _ \<Rightarrow> Inl EDecode)"

definition dec_bool :: "bdoc \<Rightarrow> string \<Rightarrow> bool res" where
  "dec_bool d k = (case bget d k of None \<Rightarrow> Inr False | Some (BBool u) \<Rightarrow> Inr u | _ \<Rightarrow> Inl EDecode)"

definition bindr :: "'a res \<Rightarrow> ('a \<Rightarrow> 'b res) \<Rightarrow> 'b res" where
  "bindr r f = (case r of Inl e \<Rightarrow> Inl e | Inr x \<Rightarrow> f x)"

lemma bindr_simps [simp]: "bindr (Inl e) f = Inl e" "bindr (Inr x) f = f x"
  by (simp_all add: bindr_def)

lemmas dec_defs = dec_uuid_def dec_str_def dec_time_def dec_bytes_def dec_bool_def bget_def

text \<open>The loop \<^verbatim>\<open>for cur.Next(ctx) { cur.Decode(&c); append }\<close>.\<close>

fun decode_all :: "(bdoc \<Rightarrow> 'a res) \<Rightarrow> bdoc list \<Rightarrow> 'a list res" where
  "decode_all dec [] = Inr []"
| "decode_all dec (d # ds) = (case dec d of Inl e \<Rightarrow> Inl e
     | Inr x \<Rightarrow> (case decode_all dec ds of Inl e \<Rightarrow> Inl e | Inr xs \<Rightarrow> Inr (x # xs)))"

lemma decode_all_Inr: "decode_all dec ds = Inr xs \<longleftrightarrow> list_all2 (\<lambda>d x. dec d = Inr x) ds xs"
proof (induction ds arbitrary: xs)
  case (Cons d ds)
  show ?case
    by (cases "dec d"; cases "decode_all dec ds") (auto simp: list_all2_Cons1 simp flip: Cons.IH)
qed auto

lemma decode_all_map:
  "(\<And>x. x \<in> set xs \<Longrightarrow> dec (enc x) = Inr x) \<Longrightarrow> decode_all dec (map enc xs) = Inr xs"
  by (induction xs) auto

text \<open>The loop that validates each request of a \<^verbatim>\<open>Create\<close> and collects it.\<close>

fun prepare_all :: "('a \<Rightarrow> 'a res) \<Rightarrow> 'a list \<Rightarrow> 'a list res" where
  "prepare_all p [] = Inr []"
| "prepare_all p (r # rs) = (case p r of Inl e \<Rightarrow> Inl e
     | Inr x \<Rightarrow> (case prepare_all p rs of Inl e \<Rightarrow> Inl e | Inr xs \<Rightarrow> Inr (x # xs)))"

lemma prepare_all_Inr: "prepare_all p rs = Inr xs \<longleftrightarrow> list_all2 (\<lambda>r x. p r = Inr x) rs xs"
proof (induction rs arbitrary: xs)
  case (Cons r rs)
  show ?case
    by (cases "p r"; cases "prepare_all p rs") (auto simp: list_all2_Cons1 simp flip: Cons.IH)
qed auto

text \<open>
  The tail of every \<^verbatim>\<open>FetchOne\<close>: exactly one result, or a not-found or an ambiguity error.
\<close>

definition exactly_one :: "go_error \<Rightarrow> go_error \<Rightarrow> 'a list \<Rightarrow> 'a res" where
  "exactly_one none many xs =
     (if length xs = 0 then Inl none else if length xs > 1 then Inl many else Inr (xs ! 0))"

lemma exactly_one_Inr: "exactly_one e e' xs = Inr x \<longleftrightarrow> xs = [x]"
  by (cases xs) (auto simp: exactly_one_def)

text \<open>\<^verbatim>\<open>if limit > batchLimit || limit == 0 { limit = batchLimit }\<close>\<close>

definition clamp_limit :: "int \<Rightarrow> int \<Rightarrow> int" where
  "clamp_limit batch l = (if l > batch \<or> l = 0 then batch else l)"

lemma clamp_limit_bounds: "0 < b \<Longrightarrow> clamp_limit b l \<le> b \<and> clamp_limit b l \<noteq> 0"
  by (auto simp: clamp_limit_def)

section \<open>The shape of the repository methods\<close>

text \<open>
  The repositories repeat the same method bodies over their own types; each body is written
  once here, with the collection, the codec, the limits and the errors as arguments.
\<close>

definition create_batch ::
  "'w mongo \<Rightarrow> string \<Rightarrow> ('a \<Rightarrow> bdoc) \<Rightarrow> int \<Rightarrow> string \<Rightarrow> ('a \<Rightarrow> 'a res) \<Rightarrow> go_error option \<Rightarrow>
   'a list \<Rightarrow> 'w \<Rightarrow> 'w \<times> 'a list res" where
  "create_batch m coll enc batch too_many prep dup requests w =
     (if length requests = 0 then (w, Inl (New ''trying to create zero objects''))
      else if int (length requests) > batch then (w, Inl (New too_many))
      else (case prepare_all prep requests of
        Inl e \<Rightarrow> (w, Inl e)
      | Inr rs \<Rightarrow> (case mg_insertMany m coll (map enc rs) w of
          (w', Some e) \<Rightarrow> (w', Inl (case dup of
              None \<Rightarrow> e
            | Some d \<Rightarrow> if IsDuplicateKeyError e then d else e))
        | (w', None) \<Rightarrow> (w', Inr rs))))"

definition find_decoded ::
  "'w mongo \<Rightarrow> string \<Rightarrow> (bdoc \<Rightarrow> 'a res) \<Rightarrow> mfilter \<Rightarrow> msort \<Rightarrow> int \<Rightarrow> 'w \<Rightarrow> 'w \<times> 'a list res" where
  "find_decoded m coll dec f so l w = (case mg_find m coll f so l w of
      (w', Inl e) \<Rightarrow> (w', Inl e)
    | (w', Inr ds) \<Rightarrow> (w', decode_all dec ds))"

definition fetch_one ::
  "('w \<Rightarrow> 'w \<times> 'a list res) \<Rightarrow> go_error \<Rightarrow> go_error \<Rightarrow> 'w \<Rightarrow> 'w \<times> 'a res" where
  "fetch_one fetch none many w = (case fetch w of
      (w', Inl e) \<Rightarrow> (w', Inl e)
    | (w', Inr xs) \<Rightarrow> (w', exactly_one none many xs))"

text \<open>The \<^verbatim>\<open>switch\<close> on the error of \<^verbatim>\<open>FindOneAndUpdate\<close> and the decoding of its document.\<close>

definition update_decoded ::
  "'w mongo \<Rightarrow> string \<Rightarrow> (bdoc \<Rightarrow> 'a res) \<Rightarrow> go_error \<Rightarrow> go_error \<Rightarrow> mfilter \<Rightarrow> mupdate list \<Rightarrow> 'w \<Rightarrow>
   'w \<times> 'a res" where
  "update_decoded m coll dec none dup f us w = (case mg_findOneAndUpdate m coll f us False w of
      (w', Inl e) \<Rightarrow> (w', Inl (if IsNoDocuments e then none
         else if IsDuplicateKeyError e then dup else e))
    | (w', Inr d) \<Rightarrow> (w', dec d))"

lemma create_batch_cases:
  assumes "create_batch m coll enc batch msg prep dup requests w = (w', r)"
  obtains (refused) e where "r = Inl e" "w' = w"
  | (failed) rs e e' where "prepare_all prep requests = Inr rs" "r = Inl e"
      "mg_insertMany m coll (map enc rs) w = (w', Some e')"
  | (created) rs where "prepare_all prep requests = Inr rs" "r = Inr rs"
      "mg_insertMany m coll (map enc rs) w = (w', None)" "requests \<noteq> []"
      "int (length requests) \<le> batch"
proof (cases "prepare_all prep requests")
  case (Inl e)
  then have "\<exists>e'. create_batch m coll enc batch msg prep dup requests w = (w, Inl e')"
    by (simp add: create_batch_def)
  with assms that(1) show thesis
    by auto
next
  case (Inr rs)
  obtain w2 e2 where "mg_insertMany m coll (map enc rs) w = (w2, e2)"
    by fastforce
  with Inr assms that show thesis
    by (cases e2) (auto simp: create_batch_def split: if_splits)
qed

lemma find_decoded_Inr:
  assumes "find_decoded m coll dec f so l w = (w', Inr xs)"
  obtains ds where "mg_find m coll f so l w = (w', Inr ds)" "list_all2 (\<lambda>d x. dec d = Inr x) ds xs"
  using assms by (auto simp: find_decoded_def decode_all_Inr split: prod.splits sum.splits)

lemma find_decoded_member:
  assumes "mongo_laws m docs" and "find_decoded m coll dec f so l w = (w', Inr xs)" and "x \<in> set xs"
  shows "\<exists>d \<in> set (docs w coll). matches f d \<and> dec d = Inr x"
proof -
  obtain ds where ds: "mg_find m coll f so l w = (w', Inr ds)" "list_all2 (\<lambda>d x. dec d = Inr x) ds xs"
    by (rule find_decoded_Inr [OF assms(2)])
  from ds(2) assms(3) obtain d where "d \<in> set ds" "dec d = Inr x"
    by (metis (mono_tags, lifting) in_set_conv_nth list_all2_conv_all_nth)
  with find_matching [OF assms(1) ds(1)] show ?thesis
    by blast
qed

lemma fetch_one_Inr:
  "fetch_one fetch none many w = (w', Inr x) \<longleftrightarrow> fetch w = (w', Inr [x])"
  by (auto simp: fetch_one_def exactly_one_Inr split: prod.splits sum.splits)

lemma update_decoded_keeps:
  assumes "mongo_laws m docs" and "plain_update us" and "update_decoded m c dec none dup f us w = (w', r)"
    and "d \<in> set (docs w c)" and "\<not> matches f d"
  shows "d \<in> set (docs w' c)"
proof -
  obtain r' where "mg_findOneAndUpdate m c f us False w = (w', r')"
    using assms(3) by (auto simp: update_decoded_def split: prod.splits sum.splits)
  from update_one_keeps [OF assms(1,2) this assms(4,5)] show ?thesis .
qed

lemma update_decoded_Inr:
  assumes "mongo_laws m docs" and "plain_update us"
    and "update_decoded m c dec none dup f us w = (w', Inr x)"
  obtains as d d' bs where "docs w c = as @ d # bs" "docs w' c = as @ d' # bs" "matches f d"
    "dec d' = Inr x" "\<And>k. bget d' k = bget (apply_update us d) k"
proof -
  obtain d' where *: "mg_findOneAndUpdate m c f us False w = (w', Inr d')" "dec d' = Inr x"
    using assms(3) by (auto simp: update_decoded_def split: prod.splits sum.splits)
  from update_one_lawD(3) [OF assms(1,2) *(1) refl] *(2) that show thesis
    by blast
qed

text \<open>
  The contract between a struct and its documents: reading back what was written gives
  the struct.  Every repository provides it for its own type.
\<close>

locale codec =
  fixes enc :: "'a \<Rightarrow> bdoc" and dec :: "bdoc \<Rightarrow> 'a res"
  assumes dec_enc: "dec (enc x) = Inr x"
begin

lemma decode_map: "decode_all dec (map enc xs) = Inr xs"
  by (rule decode_all_map) (rule dec_enc)

lemma enc_eq: "enc x = enc y \<longleftrightarrow> x = y"
  by (metis dec_enc sum.inject(2))

text \<open>What a successful \<^verbatim>\<open>Create\<close> leaves in the collection.\<close>

lemma create_stored:
  assumes "mongo_laws m docs"
    and "create_batch m coll enc batch msg prep dup requests w = (w', Inr rs)"
  shows "docs w' coll = docs w coll @ map enc rs \<and> list_all2 (\<lambda>q r. prep q = Inr r) requests rs \<and>
    decode_all dec (map enc rs) = Inr rs"
  using assms(2)
proof (cases rule: create_batch_cases)
  case (created rs')
  then show ?thesis
    using insert_lawD(3) [OF assms(1) created(3)] decode_map by (simp add: prepare_all_Inr)
qed simp_all

text \<open>A refused or failed \<^verbatim>\<open>Create\<close> never touches what was there.\<close>

lemma create_keeps:
  assumes "mongo_laws m docs"
    and "create_batch m coll enc batch msg prep dup requests w = (w', r)"
    and "d \<in> set (docs w c)"
  shows "d \<in> set (docs w' c)"
  using assms(2)
proof (cases rule: create_batch_cases)
  case refused
  with assms(3) show ?thesis by simp
next
  case (failed rs e e')
  show ?thesis
    using insert_lawD(1,2) [OF assms(1) failed(3)] assms(3) by (metis UnCI set_append)
next
  case (created rs)
  show ?thesis
    using insert_lawD(1,2) [OF assms(1) created(3)] assms(3) by (metis UnCI set_append)
qed

end

section \<open>A store in memory\<close>

text \<open>
  A small store that satisfies the laws, to run the repositories on concrete data: a
  collection is a list of documents; a query that cannot order its result fails.
\<close>

type_synonym mem = "string \<Rightarrow> bdoc list"

fun insert_before :: "msort \<Rightarrow> bdoc \<Rightarrow> bdoc list \<Rightarrow> bdoc list" where
  "insert_before so d [] = [d]"
| "insert_before so d (x # xs) =
     (if sort_before so x d then x # insert_before so d xs else d # x # xs)"

fun mem_sort :: "msort \<Rightarrow> bdoc list \<Rightarrow> bdoc list" where
  "mem_sort so [] = []"
| "mem_sort so (d # ds) = insert_before so d (mem_sort so ds)"

fun mem_update_first :: "mfilter \<Rightarrow> (bdoc \<Rightarrow> bdoc) \<Rightarrow> bdoc list \<Rightarrow> (bdoc \<times> bdoc list) option" where
  "mem_update_first f new [] = None"
| "mem_update_first f new (d # ds) =
     (if matches f d then Some (new d, new d # ds)
      else map_option (\<lambda>(r, ds'). (r, d # ds')) (mem_update_first f new ds))"

definition mem_mongo :: "mem mongo" where
  "mem_mongo = \<lparr>
     mg_insertMany = (\<lambda>c ds w. (w(c := w c @ ds), None)),
     mg_find = (\<lambda>c f so l w. (w,
        let xs = mem_sort so (filter (matches f) (w c)) in
        if sorted_wrt (\<lambda>a b. \<not> sort_before so b a) xs then Inr (take_limit l xs) else Inl (Foreign 2))),
     mg_updateMany = (\<lambda>c f us w. (w(c := map (\<lambda>d. if matches f d \<and> plain_update us
        then apply_update us d else d) (w c)), Inr (length (filter (matches f) (w c))))),
     mg_deleteMany = (\<lambda>c f w. (w(c := filter (\<lambda>d. \<not> matches f d) (w c)),
        Inr (length (filter (matches f) (w c))))),
     mg_findOneAndUpdate = (\<lambda>c f us upsert w. case mem_update_first f (apply_update us) (w c) of
        None \<Rightarrow> if upsert
          then (case us of USetOnInsert ins # sets \<Rightarrow>
                  (let d = upserted f ins sets in (w(c := w c @ [d]), Inr d))
                | _ \<Rightarrow> (w, Inl (Foreign 3)))
          else (w, Inl (Sentinel P_mongo ErrNoDocuments))
      | Some (d, ds) \<Rightarrow> (w(c := ds), Inr d))\<rparr>"

lemma mset_insert_before [simp]: "mset (insert_before so d xs) = add_mset d (mset xs)"
  by (induction xs) auto

lemma mset_mem_sort [simp]: "mset (mem_sort so xs) = mset xs"
  by (induction xs) auto

lemma mem_update_first_Some:
  "mem_update_first f new ds = Some (d', ds') \<Longrightarrow>
     \<exists>as d bs. ds = as @ d # bs \<and> matches f d \<and> d' = new d \<and> ds' = as @ d' # bs"
proof (induction ds arbitrary: ds')
  case (Cons x xs)
  show ?case
  proof (cases "matches f x")
    case True
    with Cons.prems have "d' = new x" "ds' = d' # xs"
      by auto
    with True show ?thesis
      by (intro exI [of _ "[]"] exI [of _ x] exI [of _ xs]) simp
  next
    case False
    with Cons.prems obtain ys where ys: "mem_update_first f new xs = Some (d', ys)" "ds' = x # ys"
      by auto
    from Cons.IH [OF ys(1)] ys(2) show ?thesis
      by (metis append_Cons)
  qed
qed simp

lemma mem_update_first_None:
  "mem_update_first f new ds = None \<longleftrightarrow> \<not> (\<exists>d \<in> set ds. matches f d)"
  by (induction ds) auto

lemma mem_mongo_laws: "mongo_laws mem_mongo (\<lambda>w. w)"
proof -
  have "find_law mem_mongo (\<lambda>w. w)"
    unfolding find_law_def mem_mongo_def
    by (auto simp: Let_def split: if_splits intro!: exI [of _ "mem_sort _ _"])
  moreover have "delete_law mem_mongo (\<lambda>w. w)"
    by (auto simp: delete_law_def mem_mongo_def)
  moreover have "insert_law mem_mongo (\<lambda>w. w)"
    by (auto simp: insert_law_def mem_mongo_def intro: take_all [symmetric, OF order_refl])
  moreover have "update_one_law mem_mongo (\<lambda>w. w)"
    unfolding update_one_law_def mem_mongo_def
    by (auto simp: mem_update_first_None split: option.splits dest!: mem_update_first_Some)
  moreover have "upsert_law mem_mongo (\<lambda>w. w)"
    unfolding upsert_law_def
  proof (intro allI impI, goal_cases)
    case (1 c f ins sets w w' r)
    show ?case
    proof (cases "mem_update_first f (apply_update (USetOnInsert ins # sets)) (w c)")
      case None
      with 1(2) show ?thesis
        by (auto simp: mem_mongo_def Let_def mem_update_first_None)
    next
      case (Some p)
      obtain d' ds' where p: "p = (d', ds')" by fastforce
      from mem_update_first_Some [OF Some [unfolded p]] obtain as d bs
        where "w c = as @ d # bs" "matches f d" "d' = apply_update sets d" "ds' = as @ d' # bs"
        by auto
      moreover have "w' = w(c := ds')" "r = Inr d'"
        using 1(2) Some p by (simp_all add: mem_mongo_def)
      ultimately have "w c = as @ d # bs \<and> matches f d \<and> (\<forall>k. bget d' k = bget (apply_update sets d) k) \<and>
          w' c = as @ d' # bs" by simp
      with \<open>w' = w(c := ds')\<close> \<open>r = Inr d'\<close> show ?thesis
        by (metis (no_types, lifting) fun_upd_other sum.distinct(1) sum.inject(2))
    qed
  qed
  moreover have "update_many_law mem_mongo (\<lambda>w. w)"
    by (auto simp: update_many_law_def mem_mongo_def list_all2_conv_all_nth)
  ultimately show ?thesis
    by (simp add: mongo_laws_def)
qed

text \<open>A store beside another part of the world.\<close>

definition beside :: "'w mongo \<Rightarrow> ('x \<times> 'w) mongo" where
  "beside m = \<lparr>mg_insertMany = (\<lambda>c ds (x, w). case mg_insertMany m c ds w of (w', r) \<Rightarrow> ((x, w'), r)),
     mg_find = (\<lambda>c f so l (x, w). case mg_find m c f so l w of (w', r) \<Rightarrow> ((x, w'), r)),
     mg_updateMany = (\<lambda>c f us (x, w). case mg_updateMany m c f us w of (w', r) \<Rightarrow> ((x, w'), r)),
     mg_deleteMany = (\<lambda>c f (x, w). case mg_deleteMany m c f w of (w', r) \<Rightarrow> ((x, w'), r)),
     mg_findOneAndUpdate = (\<lambda>c f us up (x, w). case mg_findOneAndUpdate m c f us up w of (w', r) \<Rightarrow> ((x, w'), r))\<rparr>"

lemma beside_run:
  "mg_insertMany (beside m) c ds p = (p', e) \<longleftrightarrow> fst p' = fst p \<and> mg_insertMany m c ds (snd p) = (snd p', e)"
  "mg_find (beside m) c f so l p = (p', rs) \<longleftrightarrow> fst p' = fst p \<and> mg_find m c f so l (snd p) = (snd p', rs)"
  "mg_updateMany (beside m) c f us p = (p', n) \<longleftrightarrow> fst p' = fst p \<and> mg_updateMany m c f us (snd p) = (snd p', n)"
  "mg_deleteMany (beside m) c f p = (p', n) \<longleftrightarrow> fst p' = fst p \<and> mg_deleteMany m c f (snd p) = (snd p', n)"
  "mg_findOneAndUpdate (beside m) c f us up p = (p', r) \<longleftrightarrow>
     fst p' = fst p \<and> mg_findOneAndUpdate m c f us up (snd p) = (snd p', r)"
  by (cases p; cases p'; auto simp: beside_def split: prod.splits)+

lemma beside_laws:
  assumes "mongo_laws m docs"
  shows "mongo_laws (beside m) (docs \<circ> snd)"
proof -
  note laws = assms [unfolded mongo_laws_def]
  have "find_law (beside m) (docs \<circ> snd)"
    using laws unfolding find_law_def beside_run comp_def by blast
  moreover have "delete_law (beside m) (docs \<circ> snd)"
    using laws unfolding delete_law_def beside_run comp_def by blast
  moreover have "insert_law (beside m) (docs \<circ> snd)"
    using laws unfolding insert_law_def beside_run comp_def by blast
  moreover have "update_one_law (beside m) (docs \<circ> snd)"
    using laws unfolding update_one_law_def beside_run comp_def by blast
  moreover have "upsert_law (beside m) (docs \<circ> snd)"
    using laws unfolding upsert_law_def beside_run comp_def by blast
  moreover have "update_many_law (beside m) (docs \<circ> snd)"
    using laws unfolding update_many_law_def beside_run comp_def by blast
  ultimately show ?thesis
    by (simp add: mongo_laws_def)
qed

end
