(* ===== verification/Paging.thy ===== *)
theory Paging
  imports Mongo "HOL-Library.Product_Lexorder"
begin

text \<open>
  Paging by key, as \<^verbatim>\<open>confa\<close>, \<^verbatim>\<open>talk\<close> and \<^verbatim>\<open>event\<close> do it: documents are ordered by creation
  time and then id, a page starts after the last document of the page before, and the
  cursor is that document's time and id.  The locale \<open>keyed_codec\<close> says what a document has
  to provide; its lemmas show that the pages put together are the whole ordered selection.
\<close>

type_synonym pkey = "time \<times> uuid"

definition zero_key :: pkey where
  "zero_key = (time_zero, uuid_Nil)"

definition key_less :: "bool \<Rightarrow> pkey \<Rightarrow> pkey \<Rightarrow> bool" where
  "key_less asc a b = (if asc then a < b else b < a)"

lemma key_less_trans: "key_less asc a b \<Longrightarrow> key_less asc b c \<Longrightarrow> key_less asc a c"
  by (auto simp: key_less_def split: if_splits)

lemma key_less_irrefl [simp]: "\<not> key_less asc a a"
  by (simp add: key_less_def)

lemma key_less_asym: "key_less asc a b \<Longrightarrow> \<not> key_less asc b a"
  by (auto simp: key_less_def)

lemma key_less_total: "a = b \<or> key_less asc a b \<or> key_less asc b a"
  by (auto simp: key_less_def)

definition page_sort :: "bool \<Rightarrow> msort" where
  "page_sort asc = [(''createdAt'', if asc then 1 else - 1), (''_id'', if asc then 1 else - 1)]"

text \<open>The \<^verbatim>\<open>From\<close> branches of the filters.\<close>

definition order_clause :: "bool \<Rightarrow> bval \<Rightarrow> clause" where
  "order_clause asc v = (if asc then FGt v else FLt v)"

definition after_both :: "bool \<Rightarrow> pkey \<Rightarrow> filt" where
  "after_both asc k = FOr
     [[(''createdAt'', order_clause asc (BTime (fst k)))],
      [(''createdAt'', FEq (BTime (fst k))), (''_id'', order_clause asc (BUuid (snd k)))]]"

text \<open>A client that asks for page after page until one is empty.\<close>

fun walk ::
  "nat \<Rightarrow> (pkey \<Rightarrow> 'w \<Rightarrow> 'w \<times> 'a list res) \<Rightarrow> ('a \<Rightarrow> pkey) \<Rightarrow> pkey \<Rightarrow> 'w \<Rightarrow> 'a list list res" where
  "walk 0 fetch key k w = Inr []"
| "walk (Suc n) fetch key k w = (case fetch k w of
      (w', Inl e) \<Rightarrow> Inl e
    | (w', Inr page) \<Rightarrow> if page = [] then Inr []
        else (case walk n fetch key (key (last page)) w' of Inl e \<Rightarrow> Inl e | Inr ps \<Rightarrow> Inr (page # ps)))"

definition selected :: "bool \<Rightarrow> ('a \<Rightarrow> pkey) \<Rightarrow> pkey \<Rightarrow> 'a list \<Rightarrow> 'a list" where
  "selected asc key k xs = filter (\<lambda>x. k = zero_key \<or> key_less asc k (key x)) xs"

definition ordered :: "bool \<Rightarrow> ('a \<Rightarrow> pkey) \<Rightarrow> 'a list \<Rightarrow> 'a list" where
  "ordered asc key xs = (if asc then sort_key key xs else rev (sort_key key xs))"

lemma mset_ordered [simp]: "mset (ordered asc key xs) = mset xs"
  by (simp add: ordered_def)

lemma distinct_map_mset: "mset xs = mset ys \<Longrightarrow> distinct (map f xs) \<longleftrightarrow> distinct (map f ys)"
  by (metis mset_eq_imp_distinct_iff mset_map)

lemma mset_map_obtain:
  "mset es = mset (map f xs) \<Longrightarrow> \<exists>zs. es = map f zs \<and> mset zs = mset xs"
proof (induction es arbitrary: xs)
  case (Cons e es)
  then have "e \<in> set (map f xs)"
    by (metis list.set_intros(1) mset_eq_setD)
  then obtain x where x: "x \<in> set xs" "e = f x"
    by auto
  have "mset es = image_mset f (mset xs) - {#e#}"
    using Cons.prems by (metis add_mset_remove_trivial mset.simps(2) mset_map)
  also have "\<dots> = mset (map f (remove1 x xs))"
    using x by (simp add: image_mset_Diff)
  finally obtain zs where "es = map f zs" "mset zs = mset (remove1 x xs)"
    using Cons.IH by blast
  with x have "e # es = map f (x # zs) \<and> mset (x # zs) = mset xs"
    by simp
  then show ?case by (rule exI)
qed simp

lemma ordered_strict:
  assumes "distinct (map key xs)"
  shows "sorted_wrt (\<lambda>a b. key_less asc (key a) (key b)) (ordered asc key xs)"
proof -
  have "distinct (map key (sort_key key xs))"
    using assms distinct_map_mset [of "sort_key key xs" xs key] by simp
  then have "sorted_wrt (<) (map key (sort_key key xs))"
    by (simp add: strict_sorted_iff)
  then have "sorted_wrt (\<lambda>a b. key a < key b) (sort_key key xs)"
    by (simp add: sorted_wrt_map)
  then show ?thesis
    by (auto simp: ordered_def key_less_def sorted_wrt_rev)
qed

lemma strict_of_sorted:
  assumes "distinct (map key zs)" and "sorted_wrt (\<lambda>a b. \<not> key_less asc (key b) (key a)) zs"
  shows "sorted_wrt (\<lambda>a b. key_less asc (key a) (key b)) zs"
  using assms
proof (induction zs)
  case (Cons a zs)
  have "key_less asc (key a) (key b)" if "b \<in> set zs" for b
  proof -
    from Cons.prems that have "key a \<noteq> key b" "\<not> key_less asc (key b) (key a)"
      by auto
    then show ?thesis
      using key_less_total by blast
  qed
  with Cons show ?case by simp
qed simp

text \<open>Two strictly ordered lists of the same elements are equal.\<close>

lemma ordered_unique:
  assumes "sorted_wrt (\<lambda>a b. key_less asc (key a) (key b)) xs"
    and "sorted_wrt (\<lambda>a b. key_less asc (key a) (key b)) ys" and "mset xs = mset ys"
  shows "xs = ys"
  using assms
proof (induction xs arbitrary: ys)
  case (Cons x xs)
  then obtain y ys' where ys: "ys = y # ys'"
    by (cases ys) auto
  have "x = y"
  proof (rule ccontr)
    assume "x \<noteq> y"
    with Cons.prems(3) ys have "x \<in> set ys'" "y \<in> set xs"
      by (metis mset_eq_setD list.set_intros(1) set_ConsD)+
    with Cons.prems(1,2) ys show False
      using key_less_asym by fastforce
  qed
  with Cons ys show ?case by auto
qed simp

lemma selected_append_sorted:
  assumes "sorted_wrt (\<lambda>a b. key_less asc (key a) (key b)) (as @ b # cs)" and "key b \<noteq> zero_key"
  shows "selected asc key (key b) (as @ b # cs) = cs"
proof -
  have "filter (\<lambda>x. key_less asc (key b) (key x)) as = []"
    using assms(1) by (auto simp: sorted_wrt_append filter_empty_conv dest: key_less_asym)
  moreover have "filter (\<lambda>x. key_less asc (key b) (key x)) cs = cs"
    using assms(1) by (auto simp: sorted_wrt_append filter_id_conv)
  ultimately show ?thesis
    using assms(2) by (simp add: selected_def)
qed

text \<open>The walk over pages of at most \<open>l\<close> of an ordered list.\<close>

lemma walk_rest:
  assumes fetch: "\<And>k v v' ys. P v \<Longrightarrow> fetch k v = (v', Inr ys) \<Longrightarrow>
      P v' \<and> ys = take l (selected asc key k all)"
    and all: "sorted_wrt (\<lambda>a b. key_less asc (key a) (key b)) all" "\<forall>x \<in> set all. key x \<noteq> zero_key"
    and l: "0 < l"
    and w: "P w" "walk n fetch key k w = Inr ps" "length rest < n"
    and rest: "selected asc key k all = rest" "\<exists>as. all = as @ rest"
  shows "concat ps = rest"
  using w rest
proof (induction n arbitrary: k w ps rest)
  case (Suc n)
  obtain w' r where f: "fetch k w = (w', r)"
    by fastforce
  with Suc.prems obtain page where r: "r = Inr page"
    by (auto split: sum.splits)
  with fetch [OF Suc.prems(1), of k w' page] f Suc.prems(4)
  have page: "page = take l rest" and P: "P w'"
    by auto
  show ?case
  proof (cases "rest = []")
    case True
    with page f r Suc.prems(2) show ?thesis by simp
  next
    case False
    with page l have ne: "page \<noteq> []" by simp
    with Suc.prems(2) f r obtain ps' where ps': "walk n fetch key (key (last page)) w' = Inr ps'"
      "ps = page # ps'"
      by (auto split: sum.splits)
    obtain as where as: "all = as @ rest"
      using Suc.prems(5) by blast
    have split: "all = (as @ butlast page) @ last page # drop l rest"
      using as page ne append_take_drop_id [of l rest]
      by (metis append.assoc append_Cons append_Nil append_butlast_last_id)
    then have "selected asc key (key (last page)) all = drop l rest"
      using selected_append_sorted [of asc key "as @ butlast page" "last page" "drop l rest"] all
      by simp
    moreover have "\<exists>as'. all = as' @ drop l rest"
      using split by (metis append.assoc append_Cons append_Nil)
    moreover have "length (drop l rest) < n"
      using Suc.prems(3) False l by (cases rest) auto
    ultimately have "concat ps' = drop l rest"
      using Suc.IH [OF P ps'(1)] by blast
    then show ?thesis
      using ps' page by simp
  qed
qed simp

theorem walk_all:
  assumes "\<And>k v v' ys. P v \<Longrightarrow> fetch k v = (v', Inr ys) \<Longrightarrow>
      P v' \<and> ys = take l (selected asc key k all)"
    and "sorted_wrt (\<lambda>a b. key_less asc (key a) (key b)) all" "\<forall>x \<in> set all. key x \<noteq> zero_key"
    and "0 < l" "P w" "walk n fetch key zero_key w = Inr ps" "length all < n"
  shows "concat ps = all"
  by (rule walk_rest [where P = P and fetch = fetch and l = l and asc = asc and key = key])
    (use assms in \<open>auto simp: selected_def\<close>)

text \<open>
  What a stored type provides for paging: its documents carry the key in \<^verbatim>\<open>createdAt\<close> and
  \<^verbatim>\<open>_id\<close>.
\<close>

locale keyed_codec = codec enc dec for enc :: "'a \<Rightarrow> bdoc" and dec +
  fixes key :: "'a \<Rightarrow> pkey"
  assumes key_time: "bget (enc x) ''createdAt'' = Some (BTime (fst (key x)))"
    and key_id: "bget (enc x) ''_id'' = Some (BUuid (snd (key x)))"
begin

lemma sort_before_key: "sort_before (page_sort asc) (enc x) (enc y) \<longleftrightarrow> key_less asc (key x) (key y)"
  by (auto simp: page_sort_def key_time key_id key_less_def less_prod_def prod_eq_iff)

lemma after_both_key: "filt_holds (after_both asc k) (enc x) \<longleftrightarrow> key_less asc k (key x)"
  by (cases k) (auto simp: after_both_def order_clause_def key_time key_id key_less_def less_prod_def)

text \<open>What one query answers: the first documents, in key order, that match.\<close>

lemma find_page:
  assumes "mongo_laws m docs" and "docs w c = map enc xs" and "distinct (map (snd \<circ> key) xs)"
    and "find_decoded m c dec f (page_sort asc) l w = (w', Inr ys)"
  shows "docs w' = docs w" "ys = take_limit l (ordered asc key (filter (\<lambda>x. matches f (enc x)) xs))"
proof -
  obtain ds where ds: "mg_find m c f (page_sort asc) l w = (w', Inr ds)"
    and dec: "list_all2 (\<lambda>d x. dec d = Inr x) ds ys"
    by (rule find_decoded_Inr [OF assms(4)])
  show "docs w' = docs w"
    by (rule find_lawD(1) [OF assms(1) ds])
  let ?ms = "filter (\<lambda>x. matches f (enc x)) xs"
  obtain es where es: "mset es = mset (filter (matches f) (map enc xs))"
    "sorted_wrt (\<lambda>a b. \<not> sort_before (page_sort asc) b a) es" "ds = take_limit l es"
    using find_lawD(2) [OF assms(1) ds] assms(2) by auto
  have "mset es = mset (map enc ?ms)"
    by (simp add: es(1) filter_map comp_def)
  then obtain zs where zs: "es = map enc zs" "mset zs = mset ?ms"
    using mset_map_obtain [of es enc ?ms] by auto
  have "distinct (map key xs)"
    using assms(3) by (metis distinct_map map_map)
  then have dk: "distinct (map key ?ms)"
    by (simp add: distinct_map_filter)
  then have "distinct (map key zs)"
    using distinct_map_mset [OF zs(2), of key] by simp
  have "sorted_wrt (\<lambda>a b. \<not> key_less asc (key b) (key a)) zs"
    using es(2) by (simp add: zs(1) sorted_wrt_map sort_before_key)
  with \<open>distinct (map key zs)\<close> have "sorted_wrt (\<lambda>a b. key_less asc (key a) (key b)) zs"
    by (rule strict_of_sorted)
  then have "zs = ordered asc key ?ms"
    by (rule ordered_unique [OF _ ordered_strict [OF dk]]) (simp add: zs(2))
  moreover have "ys = take_limit l zs"
  proof -
    have "ds = map enc (take_limit l zs)"
      by (simp add: es(3) zs(1) take_limit_def take_map)
    then show ?thesis
      using dec decode_map [of "take_limit l zs"] by (simp add: decode_all_Inr [symmetric])
  qed
  ultimately show "ys = take_limit l (ordered asc key ?ms)"
    by simp
qed

text \<open>The page at a cursor \<open>k\<close> of a fixed selection \<open>sel\<close>.\<close>

lemma page_limit:
  assumes "mongo_laws m docs" and "docs v c = map enc xs" and "distinct (map (snd \<circ> key) xs)"
    and f: "\<And>x. x \<in> set xs \<Longrightarrow> matches f (enc x) \<longleftrightarrow> sel x \<and> (k = zero_key \<or> key_less asc k (key x))"
    and fd: "find_decoded m c dec f (page_sort asc) l v = (v', Inr ys)"
  shows "docs v' c = map enc xs \<and> ys = take_limit l (selected asc key k (ordered asc key (filter sel xs)))"
proof -
  let ?all = "ordered asc key (filter sel xs)"
  have dk: "distinct (map key (filter P xs))" for P
    using assms(3) by (metis distinct_map distinct_map_filter map_map)
  have "filter (\<lambda>x. matches f (enc x)) xs = selected asc key k (filter sel xs)"
    using f by (auto simp: selected_def intro: filter_cong)
  moreover have "ordered asc key (selected asc key k (filter sel xs)) = selected asc key k ?all"
  proof (rule ordered_unique)
    show "sorted_wrt (\<lambda>a b. key_less asc (key a) (key b)) (ordered asc key (selected asc key k (filter sel xs)))"
      by (rule ordered_strict) (simp add: selected_def dk)
    show "sorted_wrt (\<lambda>a b. key_less asc (key a) (key b)) (selected asc key k ?all)"
      unfolding selected_def by (rule sorted_wrt_filter [OF ordered_strict [OF dk]])
  qed (simp add: selected_def filter_filter_mset)
  ultimately show ?thesis
    using find_page [OF assms(1,2,3) fd] assms(2) by simp
qed

lemma page_selection:
  assumes "mongo_laws m docs" and "docs v c = map enc xs" and "distinct (map (snd \<circ> key) xs)"
    and "\<And>x. x \<in> set xs \<Longrightarrow> matches f (enc x) \<longleftrightarrow> sel x \<and> (k = zero_key \<or> key_less asc k (key x))"
    and "find_decoded m c dec f (page_sort asc) l v = (v', Inr ys)" and "0 < l"
  shows "docs v' c = map enc xs \<and> ys = take (nat l) (selected asc key k (ordered asc key (filter sel xs)))"
  using page_limit [OF assms(1-5)] \<open>0 < l\<close> by (simp add: take_limit_def)

text \<open>
  A fetch that adds the cursor to a fixed selection \<open>sel\<close>, walked from the zero cursor:
  the pages are the ordered selection, each document once.
\<close>

lemma walk_selection:
  assumes "mongo_laws m docs" and "docs w c = map enc xs" and "distinct (map (snd \<circ> key) xs)"
    and "\<forall>x \<in> set xs. fst (key x) \<noteq> time_zero \<and> snd (key x) \<noteq> uuid_Nil"
    and f: "\<And>k x. x \<in> set xs \<Longrightarrow> k = zero_key \<or> fst k \<noteq> time_zero \<and> snd k \<noteq> uuid_Nil \<Longrightarrow>
        matches (f k) (enc x) \<longleftrightarrow> sel x \<and> (k = zero_key \<or> key_less asc k (key x))"
    and fetch: "\<And>k. fetch k = find_decoded m c dec (f k) (page_sort asc) l"
    and "0 < l" and "walk n fetch key zero_key w = Inr ps" and "length xs < n"
  shows "concat ps = ordered asc key (filter sel xs)"
proof -
  define fetch' where "fetch' k v = (if k = zero_key \<or> fst k \<noteq> time_zero \<and> snd k \<noteq> uuid_Nil
    then fetch k v else (v, Inl EDecode))" for k v
  let ?all = "ordered asc key (filter sel xs)"
  have dk: "distinct (map key (filter P xs))" for P
    using assms(3) by (metis distinct_map distinct_map_filter map_map)
  have set: "set ?all = {x \<in> set xs. sel x}"
    by (metis mset_ordered set_filter set_mset_mset)
  have page: "docs v' c = map enc xs \<and> ys = take (nat l) (selected asc key k ?all)"
    if v: "docs v c = map enc xs" and fk: "fetch' k v = (v', Inr ys)" for k v v' ys
  proof -
    have k: "k = zero_key \<or> fst k \<noteq> time_zero \<and> snd k \<noteq> uuid_Nil"
      and fd: "find_decoded m c dec (f k) (page_sort asc) l v = (v', Inr ys)"
      using fk by (auto simp: fetch'_def fetch split: if_splits)
    show ?thesis
      by (rule page_selection [OF assms(1) v assms(3) _ fd \<open>0 < l\<close>]) (rule f [OF _ k])
  qed
  have ok: "walk n fetch' key k v = walk n fetch key k v"
    if "k = zero_key \<or> fst k \<noteq> time_zero \<and> snd k \<noteq> uuid_Nil" "docs v c = map enc xs" for n k v
    using that
  proof (induction n arbitrary: k v)
    case (Suc n)
    have eq: "fetch' k v = fetch k v"
      using Suc.prems by (auto simp: fetch'_def)
    have "fst (key (last ys)) \<noteq> time_zero \<and> snd (key (last ys)) \<noteq> uuid_Nil \<and> docs v' c = map enc xs"
      if "fetch k v = (v', Inr ys)" "ys \<noteq> []" for v' ys
    proof -
      have "docs v' c = map enc xs" "ys = take (nat l) (selected asc key k ?all)"
        using page [OF Suc.prems(2)] that(1) eq by auto
      moreover have "last ys \<in> set ys"
        using that(2) by simp
      ultimately have "last ys \<in> set xs"
        using set by (auto simp: selected_def dest: in_set_takeD)
      with assms(4) \<open>docs v' c = map enc xs\<close> show ?thesis by blast
    qed
    then show ?case
      using eq Suc.IH by (auto split: prod.splits sum.splits)
  qed simp
  show ?thesis
  proof (rule walk_all [where P = "\<lambda>v. docs v c = map enc xs" and fetch = fetch' and l = "nat l"])
    show "sorted_wrt (\<lambda>a b. key_less asc (key a) (key b)) ?all"
      by (rule ordered_strict [OF dk])
    show "\<forall>x \<in> set ?all. key x \<noteq> zero_key"
      using assms(4) set by (auto simp: zero_key_def)
    show "walk n fetch' key zero_key w = Inr ps"
      using ok [of zero_key w n] assms(2) assms(8) by simp
    have "length ?all \<le> length xs"
      by (metis length_filter_le mset_ordered size_mset)
    with assms(9) show "length ?all < n" by simp
  qed (use page assms(2) \<open>0 < l\<close> in auto)
qed

end

end
