(* ===== verification/Confa.thy ===== *)
theory Confa
  imports Paging Regexp
begin

text \<open>
  Conferences: \<^verbatim>\<open>services/confa/confa.go\<close> (type, validation), \<^verbatim>\<open>mongo.go\<close> (repository) and
  \<^verbatim>\<open>user.go\<close> (the operations of a user).  The lemmas show that a user changes only confas of
  their own, that paging visits every confa once, and that a deletion reports success even
  when the store failed.
\<close>

section \<open>Type and validation\<close>

record confa =
  co_ID :: uuid
  co_Owner :: uuid
  co_Handle :: string
  co_Title :: string
  co_Description :: string
  co_CreatedAt :: time

definition confa_zero :: confa where
  "confa_zero = \<lparr>co_ID = uuid_Nil, co_Owner = uuid_Nil, co_Handle = '''', co_Title = '''',
     co_Description = '''', co_CreatedAt = time_zero\<rparr>"

text \<open>\<^verbatim>\<open>^[^ ]*[\p{L}0-9- ]{2,64}[^ ]*$\<close>\<close>

definition title_char :: "unicode \<Rightarrow> nat \<Rightarrow> bool" where
  "title_char U c = (isL U c \<or> is_digit c \<or> c = 45 \<or> c = 32)"

definition not_space :: "nat \<Rightarrow> bool" where
  "not_space c = (c \<noteq> 32)"

definition confa_validTitle :: "unicode \<Rightarrow> rx" where
  "confa_validTitle U = Seq (Star (Cls not_space)) (Seq (Rep 2 64 (Cls (title_char U))) (Star (Cls not_space)))"

definition maxDescription :: nat where
  "maxDescription = 5000"

definition Confa_Validate :: "unicode \<Rightarrow> confa \<Rightarrow> err" where
  "Confa_Validate U c =
     (if co_ID c = uuid_Nil then Some (New ''id should not be empty'')
      else if \<not> MatchString validHandle (co_Handle c) then Some (New ''invalid handle'')
      else if co_Title c \<noteq> '''' \<and> \<not> MatchString (confa_validTitle U) (co_Title c)
      then Some (New ''invalid title'')
      else if length (co_Description c) > maxDescription then Some (New ''ivalid description'')
      else if co_Owner c = uuid_Nil then Some (New ''owner should not be empty'')
      else None)"

record confa_update =
  cu_Handle :: "string option"
  cu_Title :: "string option"
  cu_Description :: "string option"

definition set_and :: "'a option \<Rightarrow> ('a \<Rightarrow> bool) \<Rightarrow> bool" where
  "set_and p f = (case p of None \<Rightarrow> False | Some x \<Rightarrow> f x)"

definition confa_Update_Validate :: "unicode \<Rightarrow> confa_update \<Rightarrow> err" where
  "confa_Update_Validate U m =
     (if cu_Handle m = None \<and> cu_Title m = None \<and> cu_Description m = None
      then Some (New ''no fields provided'')
      else if set_and (cu_Handle m) (\<lambda>h. \<not> MatchString validHandle h) then Some (New ''invalid handle'')
      else if set_and (cu_Title m) (\<lambda>t. \<not> MatchString (confa_validTitle U) t) then Some (New ''invalid title'')
      else if set_and (cu_Description m) (\<lambda>d. length d > maxDescription) then Some (New ''ivalid description'')
      else None)"

record from_cursor =
  fr_ID :: uuid
  fr_CreatedAt :: time

definition from_zero :: from_cursor where
  "from_zero = \<lparr>fr_ID = uuid_Nil, fr_CreatedAt = time_zero\<rparr>"

definition from_key :: "pkey \<Rightarrow> from_cursor" where
  "from_key k = \<lparr>fr_ID = snd k, fr_CreatedAt = fst k\<rparr>"

record confa_lookup =
  cl_ID :: uuid
  cl_Owner :: uuid
  cl_Handle :: string
  cl_Limit :: int
  cl_From :: from_cursor
  cl_Asc :: bool

definition confa_lookup_zero :: confa_lookup where
  "confa_lookup_zero = \<lparr>cl_ID = uuid_Nil, cl_Owner = uuid_Nil, cl_Handle = '''', cl_Limit = 0,
     cl_From = from_zero, cl_Asc = False\<rparr>"

section \<open>The repository\<close>

abbreviation confa_err :: "ekind \<Rightarrow> go_error" where
  "confa_err \<equiv> Sentinel P_confa"

definition confa_collection :: string where "confa_collection = ''confas''"

definition confa_batchLimit :: int where "confa_batchLimit = 500"

definition opt_field :: "string \<Rightarrow> bool \<Rightarrow> bval \<Rightarrow> bdoc" where
  "opt_field k present v = (if present then [(k, v)] else [])"

lemma opt_field_simps [simp]: "opt_field k True v = [(k, v)]" "opt_field k False v = []"
  by (simp_all add: opt_field_def)

lemma map_of_opt_field [simp]: "map_of (opt_field k b v) k' = (if b \<and> k = k' then Some v else None)"
  by (simp add: opt_field_def)

definition confa_enc :: "confa \<Rightarrow> bdoc" where
  "confa_enc c = [(''_id'', BUuid (co_ID c)), (''ownerId'', BUuid (co_Owner c)),
       (''handle'', BStr (co_Handle c)), (''createdAt'', BTime (co_CreatedAt c))] @
     opt_field ''title'' (co_Title c \<noteq> '''') (BStr (co_Title c)) @
     opt_field ''description'' (co_Description c \<noteq> '''') (BStr (co_Description c))"

definition confa_dec :: "bdoc \<Rightarrow> confa res" where
  "confa_dec d = bindr (dec_uuid d ''_id'') (\<lambda>i. bindr (dec_uuid d ''ownerId'') (\<lambda>ow.
     bindr (dec_str d ''handle'') (\<lambda>h. bindr (dec_str d ''title'') (\<lambda>t.
     bindr (dec_str d ''description'') (\<lambda>x. bindr (dec_time d ''createdAt'') (\<lambda>c.
       Inr \<lparr>co_ID = i, co_Owner = ow, co_Handle = h, co_Title = t, co_Description = x,
         co_CreatedAt = c\<rparr>))))))"

definition confa_key :: "confa \<Rightarrow> pkey" where
  "confa_key c = (co_CreatedAt c, co_ID c)"

interpretation confas: keyed_codec confa_enc confa_dec confa_key
  by unfold_locales (simp_all add: confa_dec_def confa_enc_def dec_defs confa_key_def map_add_def)

definition confa_Create :: "unicode \<Rightarrow> 'w mongo \<Rightarrow> time \<Rightarrow> confa list \<Rightarrow> 'w \<Rightarrow> 'w \<times> confa list res" where
  "confa_Create U m now = create_batch m confa_collection confa_enc confa_batchLimit
     ''trying to create more than 500''
     (\<lambda>r. case Confa_Validate U r of
         Some e \<Rightarrow> Inl (WrapS (confa_err ErrValidation) e)
       | None \<Rightarrow> Inr (r\<lparr>co_CreatedAt := mongoNow now\<rparr>))
     (Some (confa_err ErrDuplicateEntry))"

text \<open>The \<^verbatim>\<open>switch\<close> takes one branch; the owner is added to any of them.\<close>

definition confa_mongoFilter :: "confa_lookup \<Rightarrow> mfilter" where
  "confa_mongoFilter l = (let asc = cl_Asc l; fid = fr_ID (cl_From l); fat = fr_CreatedAt (cl_From l) in
     (if cl_ID l \<noteq> uuid_Nil then [FField ''_id'' (FEq (BUuid (cl_ID l)))]
      else if cl_Handle l \<noteq> '''' then [FField ''handle'' (FEq (BStr (cl_Handle l)))]
      else if \<not> IsZero fat \<and> fid \<noteq> uuid_Nil then [after_both asc (fat, fid)]
      else if \<not> IsZero fat then [FField ''createdAt'' (order_clause asc (BTime fat))]
      else if fid \<noteq> uuid_Nil then [FField ''_id'' (order_clause asc (BUuid fid))]
      else []) @
     (if cl_Owner l \<noteq> uuid_Nil then [FField ''ownerId'' (FEq (BUuid (cl_Owner l)))] else []))"

definition confa_set :: "confa_update \<Rightarrow> mupdate list" where
  "confa_set u = [USet (opt_field ''handle'' (cu_Handle u \<noteq> None) (BStr (the (cu_Handle u))) @
     opt_field ''title'' (cu_Title u \<noteq> None) (BStr (the (cu_Title u))) @
     opt_field ''description'' (cu_Description u \<noteq> None) (BStr (the (cu_Description u))))]"

definition confa_Update :: "unicode \<Rightarrow> 'w mongo \<Rightarrow> confa_lookup \<Rightarrow> confa_update \<Rightarrow> 'w \<Rightarrow> 'w \<times> nat res" where
  "confa_Update U m l request w = (case confa_Update_Validate U request of
      Some e \<Rightarrow> (w, Inl (WrapS (confa_err ErrValidation) e))
    | None \<Rightarrow> (case mg_updateMany m confa_collection (confa_mongoFilter l) (confa_set request) w of
        (w', Inl e) \<Rightarrow> (w', Inl (if IsDuplicateKeyError e then confa_err ErrDuplicateEntry else e))
      | (w', Inr n) \<Rightarrow> (w', Inr n)))"

definition confa_UpdateOne :: "unicode \<Rightarrow> 'w mongo \<Rightarrow> confa_lookup \<Rightarrow> confa_update \<Rightarrow> 'w \<Rightarrow> 'w \<times> confa res" where
  "confa_UpdateOne U m l request w = (case confa_Update_Validate U request of
      Some e \<Rightarrow> (w, Inl (WrapS (confa_err ErrValidation) e))
    | None \<Rightarrow> update_decoded m confa_collection confa_dec (confa_err ErrNotFound)
        (confa_err ErrDuplicateEntry) (confa_mongoFilter l) (confa_set request) w)"

definition confa_Fetch :: "'w mongo \<Rightarrow> confa_lookup \<Rightarrow> 'w \<Rightarrow> 'w \<times> confa list res" where
  "confa_Fetch m l = find_decoded m confa_collection confa_dec (confa_mongoFilter l)
     (page_sort (cl_Asc l)) (clamp_limit confa_batchLimit (cl_Limit l))"

definition confa_FetchOne :: "'w mongo \<Rightarrow> confa_lookup \<Rightarrow> 'w \<Rightarrow> 'w \<times> confa res" where
  "confa_FetchOne m l =
     fetch_one (confa_Fetch m l) (confa_err ErrNotFound) (confa_err ErrAmbiguousLookup)"

text \<open>The error of \<^verbatim>\<open>DeleteMany\<close> is dropped: \<^verbatim>\<open>return UpdateResult{}, nil\<close>.\<close>

definition confa_Delete :: "'w mongo \<Rightarrow> confa_lookup \<Rightarrow> 'w \<Rightarrow> 'w \<times> nat res" where
  "confa_Delete m l w = (case mg_deleteMany m confa_collection (confa_mongoFilter l) w of
      (w', Inl e) \<Rightarrow> (w', Inr 0)
    | (w', Inr n) \<Rightarrow> (w', Inr n))"

section \<open>The operations of a user\<close>

record 'w confa_repo =
  cr_Create :: "confa list \<Rightarrow> 'w \<Rightarrow> 'w \<times> confa list res"
  cr_Fetch :: "confa_lookup \<Rightarrow> 'w \<Rightarrow> 'w \<times> confa list res"
  cr_FetchOne :: "confa_lookup \<Rightarrow> 'w \<Rightarrow> 'w \<times> confa res"
  cr_UpdateOne :: "confa_lookup \<Rightarrow> confa_update \<Rightarrow> 'w \<Rightarrow> 'w \<times> confa res"
  cr_Delete :: "confa_lookup \<Rightarrow> 'w \<Rightarrow> 'w \<times> nat res"

definition confa_mongo_repo :: "unicode \<Rightarrow> 'w mongo \<Rightarrow> time \<Rightarrow> 'w confa_repo" where
  "confa_mongo_repo U m now = \<lparr>cr_Create = confa_Create U m now, cr_Fetch = confa_Fetch m,
     cr_FetchOne = confa_FetchOne m, cr_UpdateOne = confa_UpdateOne U m, cr_Delete = confa_Delete m\<rparr>"

text \<open>\<^verbatim>\<open>created[0]\<close> of an empty list would panic: the outer \<open>None\<close>.\<close>

definition confa_User_Create ::
  "'w confa_repo \<Rightarrow> uuid \<Rightarrow> uuid \<Rightarrow> confa \<Rightarrow> 'w \<Rightarrow> ('w \<times> confa res) option" where
  "confa_User_Create repo new_id userID request w =
     (let r = request\<lparr>co_ID := new_id, co_Owner := userID\<rparr>;
          r = (if co_Handle r = '''' then r\<lparr>co_Handle := default_handle (co_ID r)\<rparr> else r)
      in case cr_Create repo [r] w of
           (w', Inl e) \<Rightarrow> Some (w', Inl (Wrap ''failed to create confa'' e))
         | (w', Inr []) \<Rightarrow> None
         | (w', Inr (c # cs)) \<Rightarrow> Some (w', Inr c))"

definition confa_User_Update ::
  "'w confa_repo \<Rightarrow> uuid \<Rightarrow> confa_lookup \<Rightarrow> confa_update \<Rightarrow> 'w \<Rightarrow> 'w \<times> confa res" where
  "confa_User_Update repo userID l request = cr_UpdateOne repo (l\<lparr>cl_Owner := userID\<rparr>) request"

definition confa_User_Fetch :: "'w confa_repo \<Rightarrow> confa_lookup \<Rightarrow> 'w \<Rightarrow> 'w \<times> confa list res" where
  "confa_User_Fetch repo l = cr_Fetch repo l"

section \<open>Properties\<close>

lemma confa_filter_owner:
  "cl_Owner l \<noteq> uuid_Nil \<Longrightarrow> matches (confa_mongoFilter l) d \<Longrightarrow> bget d ''ownerId'' = Some (BUuid (cl_Owner l))"
  by (simp add: confa_mongoFilter_def Let_def)

lemma Confa_Validate_CreatedAt [simp]:
  "Confa_Validate U (c\<lparr>co_CreatedAt := t\<rparr>) = Confa_Validate U c"
  by (simp add: Confa_Validate_def)

lemma confa_plain_update [simp]: "plain_update (confa_set u)"
  by (simp add: confa_set_def)

text \<open>
  An authenticated user cannot change a confa of anybody else: whatever the lookup, the
  documents with another owner are the same after \<^verbatim>\<open>User.Update\<close>, on success and on error.
\<close>

theorem confa_update_own_only:
  assumes "mongo_laws m docs" and "userID \<noteq> uuid_Nil"
    and "confa_User_Update (confa_mongo_repo U m now) userID l request w = (w', r)"
    and "d \<in> set (docs w confa_collection)" and "bget d ''ownerId'' \<noteq> Some (BUuid userID)"
  shows "d \<in> set (docs w' confa_collection)"
proof -
  have nm: "\<not> matches (confa_mongoFilter (l\<lparr>cl_Owner := userID\<rparr>)) d"
    using assms(2,5) confa_filter_owner [of "l\<lparr>cl_Owner := userID\<rparr>" d] by auto
  show ?thesis
  proof (cases "confa_Update_Validate U request")
    case None
    with assms(3) have "update_decoded m confa_collection confa_dec (confa_err ErrNotFound)
        (confa_err ErrDuplicateEntry) (confa_mongoFilter (l\<lparr>cl_Owner := userID\<rparr>)) (confa_set request) w = (w', r)"
      by (simp add: confa_User_Update_def confa_mongo_repo_def confa_UpdateOne_def)
    from update_decoded_keeps [OF assms(1) confa_plain_update this assms(4) nm] show ?thesis .
  qed (use assms(3,4) in \<open>simp add: confa_User_Update_def confa_mongo_repo_def confa_UpdateOne_def\<close>)
qed

lemma confa_create_run:
  assumes "mongo_laws m docs"
  shows "\<exists>w' r. confa_User_Create (confa_mongo_repo U m now) new_id userID request w = Some (w', r) \<and>
    (case r of
      Inl e \<Rightarrow> (\<forall>d \<in> set (docs w confa_collection). d \<in> set (docs w' confa_collection))
    | Inr c \<Rightarrow> docs w' confa_collection = docs w confa_collection @ [confa_enc c] \<and>
        Confa_Validate U c = None \<and> confa_dec (confa_enc c) = Inr c \<and>
        c = request\<lparr>co_ID := new_id, co_Owner := userID, co_CreatedAt := mongoNow now,
          co_Handle := (if co_Handle request = '''' then default_handle new_id else co_Handle request)\<rparr>)"
proof -
  let ?r = "request\<lparr>co_ID := new_id, co_Owner := userID,
    co_Handle := (if co_Handle request = '''' then default_handle new_id else co_Handle request)\<rparr>"
  obtain w' r where c: "confa_Create U m now [?r] w = (w', r)"
    by fastforce
  have eq: "confa_User_Create (confa_mongo_repo U m now) new_id userID request w =
      (case r of Inl e \<Rightarrow> Some (w', Inl (Wrap ''failed to create confa'' e)) | Inr [] \<Rightarrow> None
       | Inr (c # cs) \<Rightarrow> Some (w', Inr c))"
    using c by (auto simp: confa_User_Create_def confa_mongo_repo_def Let_def split: sum.split list.split)
  show ?thesis
  proof (cases r)
    case (Inl e)
    with eq confas.create_keeps [OF assms c [unfolded confa_Create_def]] show ?thesis by simp
  next
    case (Inr cs)
    from confas.create_stored [OF assms c [unfolded Inr confa_Create_def]]
    have st: "docs w' confa_collection = docs w confa_collection @ map confa_enc cs"
      and "list_all2 (\<lambda>q r. (case Confa_Validate U q of
             Some e \<Rightarrow> Inl (WrapS (confa_err ErrValidation) e)
           | None \<Rightarrow> Inr (q\<lparr>co_CreatedAt := mongoNow now\<rparr>)) = Inr r) [?r] cs"
      by blast+
    then have "Confa_Validate U ?r = None" "cs = [?r\<lparr>co_CreatedAt := mongoNow now\<rparr>]"
      by (auto simp: list_all2_Cons1 split: option.splits)
    with eq Inr st show ?thesis
      by (simp add: confas.dec_enc)
  qed
qed

text \<open>
  A user's new confa is stored as asked, under a new id and the user's own id, stamped
  with the current millisecond, with a default handle when none was given; the default
  handle always passes validation.  An error removes nothing, and nothing panics.
\<close>

theorem confa_create_stored:
  assumes "mongo_laws m docs"
  shows "\<exists>w' r. confa_User_Create (confa_mongo_repo U m now) new_id userID request w = Some (w', r) \<and>
    (case r of
      Inl e \<Rightarrow> (\<forall>d \<in> set (docs w confa_collection). d \<in> set (docs w' confa_collection))
    | Inr c \<Rightarrow> docs w' confa_collection = docs w confa_collection @ [confa_enc c] \<and>
        Confa_Validate U c = None \<and> confa_dec (confa_enc c) = Inr c \<and>
        c = request\<lparr>co_ID := new_id, co_Owner := userID, co_CreatedAt := mongoNow now,
          co_Handle := (if co_Handle request = '''' then default_handle new_id else co_Handle request)\<rparr>)"
  by (rule confa_create_run [OF assms])

lemma confa_from_filter:
  assumes "cl_ID l = uuid_Nil" and "cl_Handle l = ''''"
    and "k = zero_key \<or> fst k \<noteq> time_zero \<and> snd k \<noteq> uuid_Nil"
  shows "matches (confa_mongoFilter (l\<lparr>cl_From := from_key k\<rparr>)) (confa_enc c) \<longleftrightarrow>
     (cl_Owner l = uuid_Nil \<or> co_Owner c = cl_Owner l) \<and> (k = zero_key \<or> key_less (cl_Asc l) k (confa_key c))"
proof -
  have "bget (confa_enc c) ''ownerId'' = Some (BUuid (co_Owner c))"
    by (simp add: confa_enc_def bget_def)
  moreover have "k \<noteq> zero_key" if "fst k \<noteq> time_zero"
    using that by (auto simp: zero_key_def)
  ultimately show ?thesis
    using assms
    by (auto simp: confa_mongoFilter_def Let_def from_key_def IsZero_def zero_key_def confas.after_both_key)
qed

text \<open>
  Paging with the cursor of the last confa of each page lists every confa of the
  selection exactly once, ordered by creation time and id in the asked direction, however
  small the page limit; confas created in the same millisecond are not lost.
\<close>

theorem confa_paging_complete:
  assumes "mongo_laws m docs" and "docs w confa_collection = map confa_enc cs"
    and "distinct (map co_ID cs)" and "\<forall>c \<in> set cs. co_CreatedAt c \<noteq> time_zero \<and> co_ID c \<noteq> uuid_Nil"
    and "cl_ID l = uuid_Nil" and "cl_Handle l = ''''" and "0 \<le> cl_Limit l" and "length cs < n"
    and "walk n (\<lambda>k. confa_Fetch m (l\<lparr>cl_From := from_key k\<rparr>)) confa_key zero_key w = Inr pages"
  shows "concat pages =
    ordered (cl_Asc l) confa_key (filter (\<lambda>c. cl_Owner l = uuid_Nil \<or> co_Owner c = cl_Owner l) cs)"
proof (rule confas.walk_selection [OF assms(1,2) _ _ _ _ _ assms(9,8)])
  show "distinct (map (snd \<circ> confa_key) cs)"
    using assms(3) by (simp add: confa_key_def comp_def)
  show "\<forall>x \<in> set cs. fst (confa_key x) \<noteq> time_zero \<and> snd (confa_key x) \<noteq> uuid_Nil"
    using assms(4) by (simp add: confa_key_def)
  show "0 < clamp_limit confa_batchLimit (cl_Limit l)"
    using assms(7) by (auto simp: clamp_limit_def confa_batchLimit_def)
qed (use confa_from_filter [OF assms(5,6)] in \<open>simp_all add: confa_Fetch_def\<close>)

text \<open>
  \<^verbatim>\<open>Mongo.Delete\<close> of confas never reports an error, also when the store failed and the
  selected confas are still there.
\<close>

theorem confa_delete_never_fails:
  assumes "mg_deleteMany m confa_collection (confa_mongoFilter l) w = (w', Inl e)"
  shows "confa_Delete m l w = (w', Inr 0)"
  using assms by (simp add: confa_Delete_def)

section \<open>Runs\<close>

definition sample_confas :: "confa list" where
  "sample_confas = map (\<lambda>(i, ow, t). confa_zero\<lparr>co_ID := i, co_Owner := ow, co_CreatedAt := t\<rparr>)
     [(3, 1, 10), (5, 2, 20), (4, 1, 20), (9, 1, 5)]"

definition confa_mem :: mem where
  "confa_mem = (\<lambda>_. [])(confa_collection := map confa_enc sample_confas)"

lemma sample_confa_walk:
  "walk 5 (\<lambda>k. confa_Fetch mem_mongo (confa_lookup_zero\<lparr>cl_Limit := 2, cl_Owner := 1, cl_From := from_key k\<rparr>))
     confa_key zero_key confa_mem =
   Inr [map (\<lambda>i. sample_confas ! i) [2, 0], map (\<lambda>i. sample_confas ! i) [3]]"
  by code_simp

theorem confa_paging_complete_witness:
  "concat [map (\<lambda>i. sample_confas ! i) [2, 0], map (\<lambda>i. sample_confas ! i) [3]] =
   ordered False confa_key (filter (\<lambda>c. co_Owner c = 1) sample_confas)"
proof -
  let ?l = "confa_lookup_zero\<lparr>cl_Limit := 2, cl_Owner := 1\<rparr>"
  have "concat [map (\<lambda>i. sample_confas ! i) [2, 0], map (\<lambda>i. sample_confas ! i) [3]] =
    ordered (cl_Asc ?l) confa_key (filter (\<lambda>c. cl_Owner ?l = uuid_Nil \<or> co_Owner c = cl_Owner ?l) sample_confas)"
    by (rule confa_paging_complete [OF mem_mongo_laws, where w = confa_mem and n = 5])
      (use sample_confa_walk in \<open>simp_all add: confa_mem_def sample_confas_def confa_zero_def confa_lookup_zero_def
        time_zero_def uuid_Nil_def\<close>)
  then show ?thesis
    by (simp add: confa_lookup_zero_def uuid_Nil_def)
qed

theorem confa_update_own_only_witness:
  "confa_enc (sample_confas ! 1) \<in> set (fst (confa_User_Update (confa_mongo_repo \<lparr>isL = is_lower, ulower = id\<rparr>
     mem_mongo 0) 1 (confa_lookup_zero\<lparr>cl_ID := 5\<rparr>) \<lparr>cu_Handle = Some ''mine'', cu_Title = None,
     cu_Description = None\<rparr> confa_mem) confa_collection)"
  by (rule confa_update_own_only [OF mem_mongo_laws _ prod.collapse [symmetric]])
    (simp_all add: confa_mem_def sample_confas_def confa_enc_def bget_def confa_zero_def uuid_Nil_def)

theorem confa_create_stored_witness:
  "\<exists>w' r. confa_User_Create (confa_mongo_repo \<lparr>isL = is_lower, ulower = id\<rparr> mem_mongo 0) 8 2 confa_zero
     confa_mem = Some (w', r)"
  using confa_create_stored [OF mem_mongo_laws, of "\<lparr>isL = is_lower, ulower = id\<rparr>" 0 8 2 confa_zero confa_mem]
  by blast

theorem confa_delete_never_fails_witness:
  "confa_Delete (mem_mongo\<lparr>mg_deleteMany := \<lambda>c f w. (w, Inl (Foreign 9))\<rparr>)
     (confa_lookup_zero\<lparr>cl_Owner := 1\<rparr>) confa_mem = (confa_mem, Inr 0)"
  by (rule confa_delete_never_fails) simp

end
