(* ===== verification/Event.thy ===== *)
theory Event
  imports Regexp
begin

text \<open>
  Room events (\<^verbatim>\<open>services/event/event.go\<close>), their wire form
  (\<^verbatim>\<open>services/event/proto.go\<close>) and the form sent to browsers
  (\<^verbatim>\<open>services/cmd/rtc/web/schema.go\<close>).

  The lemmas characterise validation, show that a valid event survives the trip through
  the queue up to the millisecond precision of the wire, and that decoding the wire form
  of a valid event never hits a nil pointer.
\<close>

section \<open>Events and their validation\<close>

record payload_peer_state =
  ps_Peer :: uuid
  ps_SessionID :: uuid
  ps_Status :: string

definition PeerJoined :: string where "PeerJoined = ''JOINED''"
definition PeerLeft :: string where "PeerLeft = ''LEFT''"

record payload_message =
  pm_From :: uuid
  pm_Text :: string

definition RecordingStarted :: string where "RecordingStarted = ''STARTED''"
definition RecordingStopped :: string where "RecordingStopped = ''STOPPED''"

record payload_recording =
  prec_Status :: string

definition TrackKindAudio :: string where "TrackKindAudio = ''AUDIO''"
definition TrackKindVideo :: string where "TrackKindVideo = ''VIDEO''"

definition TrackSourceUnknown :: string where "TrackSourceUnknown = ''UNKNOWN''"
definition TrackSourceCamera :: string where "TrackSourceCamera = ''CAMERA''"
definition TrackSourceMicrophone :: string where "TrackSourceMicrophone = ''MICROPHONE''"
definition TrackSourceScreen :: string where "TrackSourceScreen = ''SCREEN''"
definition TrackSourceScreenAudio :: string where "TrackSourceScreenAudio = ''SCREEN_AUDIO''"

lemmas event_consts = PeerJoined_def PeerLeft_def RecordingStarted_def RecordingStopped_def
  TrackKindAudio_def TrackKindVideo_def TrackSourceUnknown_def TrackSourceCamera_def
  TrackSourceMicrophone_def TrackSourceScreen_def TrackSourceScreenAudio_def

record payload_track_record =
  ptr_RecordID :: uuid
  ptr_Kind :: string
  ptr_Source :: string

record reaction_clap =
  rc_IsStarting :: bool

record reaction =
  re_Clap :: "reaction_clap option"

record payload_reaction =
  pre_From :: uuid
  pre_Reaction :: reaction

record payload =
  pl_PeerState :: "payload_peer_state option"
  pl_Message :: "payload_message option"
  pl_Recording :: "payload_recording option"
  pl_TrackRecord :: "payload_track_record option"
  pl_Reaction :: "payload_reaction option"

definition payload_empty :: payload where
  "payload_empty = \<lparr>pl_PeerState = None, pl_Message = None, pl_Recording = None, pl_TrackRecord = None,
     pl_Reaction = None\<rparr>"

record event =
  ev_ID :: uuid
  ev_Room :: uuid
  ev_CreatedAt :: time
  ev_Payload :: payload

definition event_zero :: event where
  "event_zero = \<lparr>ev_ID = uuid_Nil, ev_Room = uuid_Nil, ev_CreatedAt = time_zero,
     ev_Payload = payload_empty\<rparr>"

definition PayloadPeerState_Validate :: "payload_peer_state \<Rightarrow> err" where
  "PayloadPeerState_Validate p =
     (if ps_Peer p = uuid_Nil then Some (New ''peer must not be nil'')
      else if ps_SessionID p = uuid_Nil then Some (New ''session must not be nil'')
      else if ps_Status p = '''' \<or> ps_Status p = PeerJoined \<or> ps_Status p = PeerLeft then None
      else Some (New ''unknown peer status''))"

definition PayloadMessage_Validate :: "payload_message \<Rightarrow> err" where
  "PayloadMessage_Validate p =
     (if pm_From p = uuid_Nil then Some (New ''from must not be nil'')
      else if pm_Text p = '''' then Some (New ''text must not be empty'')
      else None)"

definition PayloadRecording_Validate :: "payload_recording \<Rightarrow> err" where
  "PayloadRecording_Validate p =
     (if prec_Status p = RecordingStarted \<or> prec_Status p = RecordingStopped then None
      else Some (New ''invalid status''))"

definition PayloadTrackRecord_Validate :: "payload_track_record \<Rightarrow> err" where
  "PayloadTrackRecord_Validate p =
     (if ptr_RecordID p = uuid_Nil then Some (New ''id should not be zero'') else None)"

definition PayloadReaction_Validate :: "payload_reaction \<Rightarrow> err" where
  "PayloadReaction_Validate p =
     (if pre_From p = uuid_Nil then Some (New ''fromId should not be zero'')
      else (let hasReaction = (re_Clap (pre_Reaction p) \<noteq> None) in
            if \<not> hasReaction then Some (New ''reaction must not be empty'') else None))"

definition Reaction_Validate :: "reaction \<Rightarrow> err" where
  "Reaction_Validate r = None"

text \<open>One step of \<^verbatim>\<open>Payload.Validate\<close>: check a field if it is set, and remember that it was.\<close>

definition check_field :: "('a \<Rightarrow> err) \<Rightarrow> 'a option \<Rightarrow> bool res \<Rightarrow> bool res" where
  "check_field validate field acc =
     (case acc of Inl e \<Rightarrow> Inl e
      | Inr has \<Rightarrow> (case field of None \<Rightarrow> Inr has
          | Some p \<Rightarrow> (case validate p of Some e \<Rightarrow> Inl e | None \<Rightarrow> Inr True)))"

definition Payload_Validate :: "payload \<Rightarrow> err" where
  "Payload_Validate p =
     (let r0 = Inr False;
          r1 = check_field PayloadPeerState_Validate (pl_PeerState p) r0;
          r2 = check_field PayloadMessage_Validate (pl_Message p) r1;
          r3 = check_field PayloadRecording_Validate (pl_Recording p) r2;
          r4 = check_field PayloadTrackRecord_Validate (pl_TrackRecord p) r3;
          r5 = check_field PayloadReaction_Validate (pl_Reaction p) r4
      in case r5 of Inl e \<Rightarrow> Some e
         | Inr hasPayload \<Rightarrow>
             if \<not> hasPayload then Some (New ''payload must not be empty'') else None)"

definition Event_Validate :: "event \<Rightarrow> err" where
  "Event_Validate e =
     (if ev_ID e = uuid_Nil then Some (New ''id should not be zero'')
      else if ev_Room e = uuid_Nil then Some (New ''room should not be zero'')
      else if IsZero (ev_CreatedAt e) then Some (New ''created at should not be zero'')
      else Payload_Validate (ev_Payload e))"

lemma check_field_Inr:
  "check_field v f acc = Inr b \<longleftrightarrow>
     (\<exists>h. acc = Inr h \<and> (case f of None \<Rightarrow> b = h | Some p \<Rightarrow> v p = None \<and> b))"
  by (auto simp: check_field_def split: sum.splits option.splits)

definition field_ok :: "('a \<Rightarrow> err) \<Rightarrow> 'a option \<Rightarrow> bool" where
  "field_ok v f = (case f of None \<Rightarrow> True | Some p \<Rightarrow> v p = None)"

lemma field_ok_simps [simp]: "field_ok v None" "field_ok v (Some p) \<longleftrightarrow> v p = None"
  by (simp_all add: field_ok_def)

definition payload_present :: "payload \<Rightarrow> bool list" where
  "payload_present p = [pl_PeerState p \<noteq> None, pl_Message p \<noteq> None, pl_Recording p \<noteq> None,
     pl_TrackRecord p \<noteq> None, pl_Reaction p \<noteq> None]"

lemma Payload_Validate_None:
  "Payload_Validate p = None \<longleftrightarrow>
     field_ok PayloadPeerState_Validate (pl_PeerState p) \<and>
     field_ok PayloadMessage_Validate (pl_Message p) \<and>
     field_ok PayloadRecording_Validate (pl_Recording p) \<and>
     field_ok PayloadTrackRecord_Validate (pl_TrackRecord p) \<and>
     field_ok PayloadReaction_Validate (pl_Reaction p) \<and> True \<in> set (payload_present p)"
proof -
  have "Payload_Validate p = None \<longleftrightarrow>
    check_field PayloadReaction_Validate (pl_Reaction p)
     (check_field PayloadTrackRecord_Validate (pl_TrackRecord p)
      (check_field PayloadRecording_Validate (pl_Recording p)
       (check_field PayloadMessage_Validate (pl_Message p)
        (check_field PayloadPeerState_Validate (pl_PeerState p) (Inr False))))) = Inr True"
    by (simp add: Payload_Validate_def Let_def split: sum.split)
  then show ?thesis
    by (auto simp: check_field_Inr payload_present_def field_ok_def split: option.splits)
qed

lemma Event_Validate_None:
  "Event_Validate e = None \<longleftrightarrow>
     ev_ID e \<noteq> uuid_Nil \<and> ev_Room e \<noteq> uuid_Nil \<and> \<not> IsZero (ev_CreatedAt e) \<and>
     Payload_Validate (ev_Payload e) = None"
  by (simp add: Event_Validate_def)

section \<open>The wire form\<close>

text \<open>
  The messages of \<^verbatim>\<open>rtc.proto\<close> that carry an event.  A oneof is an interface value that
  may be nil, a submessage a pointer that may be nil (the outer \<open>option\<close> of
  \<open>pb_Payload\<close> and of \<open>PBReaction\<close>); the message inside a oneof wrapper is never nil
  after decoding.  The enums are open: any 32 bit number can arrive.
\<close>

datatype pb_payload =
    PBPeerState "byte list" "byte list" string
  | PBMessage "byte list" string
  | PBRecording string
  | PBTrackRecord "byte list" int int
  | PBReaction "byte list" "bool option option"

record pb_event =
  pb_Id :: "byte list"
  pb_RoomId :: "byte list"
  pb_Payload :: "pb_payload option option"
  pb_CreatedAt :: int

definition pb_AUDIO :: int where "pb_AUDIO = 0"
definition pb_VIDEO :: int where "pb_VIDEO = 1"
definition pb_UNKNOWN :: int where "pb_UNKNOWN = 0"
definition pb_CAMERA :: int where "pb_CAMERA = 1"
definition pb_MICROPHONE :: int where "pb_MICROPHONE = 2"
definition pb_SCREEN :: int where "pb_SCREEN = 3"
definition pb_SCREEN_AUDIO :: int where "pb_SCREEN_AUDIO = 4"

lemmas pb_consts = pb_AUDIO_def pb_VIDEO_def pb_UNKNOWN_def pb_CAMERA_def pb_MICROPHONE_def
  pb_SCREEN_def pb_SCREEN_AUDIO_def

definition kind_to_pb :: "string \<Rightarrow> int" where
  "kind_to_pb k = (if k = TrackKindAudio then pb_AUDIO else if k = TrackKindVideo then pb_VIDEO
     else 0)"

definition source_to_pb :: "string \<Rightarrow> int" where
  "source_to_pb s =
     (if s = TrackSourceCamera then pb_CAMERA
      else if s = TrackSourceMicrophone then pb_MICROPHONE
      else if s = TrackSourceScreen then pb_SCREEN
      else if s = TrackSourceScreenAudio then pb_SCREEN_AUDIO
      else pb_UNKNOWN)"

definition kind_of_pb :: "int \<Rightarrow> string" where
  "kind_of_pb k = (if k = pb_AUDIO then TrackKindAudio else if k = pb_VIDEO then TrackKindVideo
     else '''')"

definition source_of_pb :: "int \<Rightarrow> string" where
  "source_of_pb s =
     (if s = pb_CAMERA then TrackSourceCamera
      else if s = pb_MICROPHONE then TrackSourceMicrophone
      else if s = pb_SCREEN then TrackSourceScreen
      else if s = pb_SCREEN_AUDIO then TrackSourceScreenAudio
      else TrackSourceUnknown)"

text \<open>\<^verbatim>\<open>ToProto\<close> assigns the oneof once per non-nil field, so the last one stays.\<close>

definition ToProto :: "event \<Rightarrow> pb_event" where
  "ToProto e = (let p = ev_Payload e;
     x0 = None;
     x1 = (case pl_PeerState p of None \<Rightarrow> x0
           | Some pl \<Rightarrow> Some (PBPeerState (uuid_MarshalBinary (ps_Peer pl))
               (uuid_MarshalBinary (ps_SessionID pl)) (ps_Status pl)));
     x2 = (case pl_Message p of None \<Rightarrow> x1
           | Some pl \<Rightarrow> Some (PBMessage (uuid_MarshalBinary (pm_From pl)) (pm_Text pl)));
     x3 = (case pl_Recording p of None \<Rightarrow> x2 | Some pl \<Rightarrow> Some (PBRecording (prec_Status pl)));
     x4 = (case pl_TrackRecord p of None \<Rightarrow> x3
           | Some pl \<Rightarrow> Some (PBTrackRecord (uuid_MarshalBinary (ptr_RecordID pl))
               (kind_to_pb (ptr_Kind pl)) (source_to_pb (ptr_Source pl))));
     x5 = (case pl_Reaction p of None \<Rightarrow> x4
           | Some pl \<Rightarrow> Some (PBReaction (uuid_MarshalBinary (pre_From pl))
               (case re_Clap (pre_Reaction pl) of None \<Rightarrow> None
                | Some c \<Rightarrow> Some (Some (rc_IsStarting c)))))
   in \<lparr>pb_Id = uuid_MarshalBinary (ev_ID e), pb_RoomId = uuid_MarshalBinary (ev_Room e),
       pb_Payload = Some x5, pb_CreatedAt = UnixMilli (ev_CreatedAt e)\<rparr>)"

text \<open>
  \<^verbatim>\<open>FromProto\<close>: \<open>None\<close> is a nil pointer dereference, which happens for an event without a
  payload message and for a reaction without its \<^verbatim>\<open>reaction\<close> submessage.
\<close>

definition payload_of_pb :: "pb_payload option \<Rightarrow> payload option" where
  "payload_of_pb x = (case x of
      None \<Rightarrow> Some payload_empty
    | Some (PBPeerState peer session status) \<Rightarrow>
        Some (payload_empty\<lparr>pl_PeerState := Some \<lparr>ps_Peer = uuid_of_bin peer,
          ps_SessionID = uuid_of_bin session, ps_Status = status\<rparr>\<rparr>)
    | Some (PBMessage from text) \<Rightarrow>
        Some (payload_empty\<lparr>pl_Message := Some \<lparr>pm_From = uuid_of_bin from, pm_Text = text\<rparr>\<rparr>)
    | Some (PBRecording status) \<Rightarrow>
        Some (payload_empty\<lparr>pl_Recording := Some \<lparr>prec_Status = status\<rparr>\<rparr>)
    | Some (PBTrackRecord rec kind source) \<Rightarrow>
        Some (payload_empty\<lparr>pl_TrackRecord := Some \<lparr>ptr_RecordID = uuid_of_bin rec,
          ptr_Kind = kind_of_pb kind, ptr_Source = source_of_pb source\<rparr>\<rparr>)
    | Some (PBReaction from None) \<Rightarrow> None
    | Some (PBReaction from (Some clap)) \<Rightarrow>
        Some (payload_empty\<lparr>pl_Reaction := Some \<lparr>pre_From = uuid_of_bin from,
          pre_Reaction = \<lparr>re_Clap = map_option (\<lambda>s. \<lparr>rc_IsStarting = s\<rparr>) clap\<rparr>\<rparr>\<rparr>))"

definition FromProto :: "pb_event \<Rightarrow> event option" where
  "FromProto e = (case pb_Payload e of None \<Rightarrow> None
    | Some x \<Rightarrow> (case payload_of_pb x of None \<Rightarrow> None
      | Some p \<Rightarrow> Some \<lparr>ev_ID = uuid_of_bin (pb_Id e), ev_Room = uuid_of_bin (pb_RoomId e),
          ev_CreatedAt = of_UnixMilli (pb_CreatedAt e), ev_Payload = p\<rparr>))"

text \<open>
  What a trip over the wire keeps of an event: its last payload, with the track kind and
  source replaced by their enum values, and the creation time cut to milliseconds.
\<close>

definition wire_track :: "payload_track_record \<Rightarrow> payload_track_record" where
  "wire_track t = t\<lparr>ptr_Kind := kind_of_pb (kind_to_pb (ptr_Kind t)),
     ptr_Source := source_of_pb (source_to_pb (ptr_Source t))\<rparr>"

definition wire_payload :: "payload \<Rightarrow> payload" where
  "wire_payload p =
     (if pl_Reaction p \<noteq> None then payload_empty\<lparr>pl_Reaction := pl_Reaction p\<rparr>
      else if pl_TrackRecord p \<noteq> None
        then payload_empty\<lparr>pl_TrackRecord := map_option wire_track (pl_TrackRecord p)\<rparr>
      else if pl_Recording p \<noteq> None then payload_empty\<lparr>pl_Recording := pl_Recording p\<rparr>
      else if pl_Message p \<noteq> None then payload_empty\<lparr>pl_Message := pl_Message p\<rparr>
      else payload_empty\<lparr>pl_PeerState := pl_PeerState p\<rparr>)"

definition wire_event :: "event \<Rightarrow> event" where
  "wire_event e = e\<lparr>ev_CreatedAt := of_UnixMilli (UnixMilli (ev_CreatedAt e)),
     ev_Payload := wire_payload (ev_Payload e)\<rparr>"

definition known_track :: "payload_track_record \<Rightarrow> bool" where
  "known_track t \<longleftrightarrow> ptr_Kind t \<in> {TrackKindAudio, TrackKindVideo} \<and>
     ptr_Source t \<in> {TrackSourceUnknown, TrackSourceCamera, TrackSourceMicrophone,
       TrackSourceScreen, TrackSourceScreenAudio}"

lemma wire_track_known: "known_track t \<Longrightarrow> wire_track t = t"
  by (cases t) (auto simp: known_track_def wire_track_def kind_of_pb_def kind_to_pb_def
      source_of_pb_def source_to_pb_def pb_consts event_consts)

lemma FromProto_ToProto:
  assumes "\<forall>r. pl_Reaction (ev_Payload e) = Some r \<longrightarrow> re_Clap (pre_Reaction r) \<noteq> None"
  shows "FromProto (ToProto e) = Some (wire_event e)"
proof -
  obtain i r c p where e: "e = \<lparr>ev_ID = i, ev_Room = r, ev_CreatedAt = c, ev_Payload = p\<rparr>"
    by (cases e)
  obtain a b f g h where p: "p = \<lparr>pl_PeerState = a, pl_Message = b, pl_Recording = f,
      pl_TrackRecord = g, pl_Reaction = h\<rparr>"
    by (cases p)
  show ?thesis
  proof (cases h)
    case (Some h')
    with assms obtain cl where "re_Clap (pre_Reaction h') = Some cl"
      by (auto simp: e p)
    then show ?thesis
      by (cases h'; cases "pre_Reaction h'"; cases cl)
        (simp add: e p Some FromProto_def ToProto_def Let_def payload_of_pb_def wire_event_def
          wire_payload_def)
  next
    case None
    then show ?thesis
      by (cases g; cases f; cases b; cases a)
        (simp_all add: e p FromProto_def ToProto_def Let_def payload_of_pb_def wire_event_def
          wire_payload_def wire_track_def payload_empty_def)
  qed
qed

lemma valid_reaction_clap:
  assumes "Event_Validate e = None" and "pl_Reaction (ev_Payload e) = Some r"
  shows "re_Clap (pre_Reaction r) \<noteq> None"
  using assms by (auto simp: Event_Validate_None Payload_Validate_None PayloadReaction_Validate_def
      Let_def split: if_splits)

text \<open>Exactly one payload, as every emitter of the services builds it.\<close>

definition single_payload :: "payload \<Rightarrow> bool" where
  "single_payload p \<longleftrightarrow> length (filter id (payload_present p)) = 1"

lemma wire_payload_single:
  assumes "single_payload p" and "\<forall>t. pl_TrackRecord p = Some t \<longrightarrow> known_track t"
  shows "wire_payload p = p"
  using assms
  by (cases p) (auto simp: single_payload_def payload_present_def wire_payload_def
      payload_empty_def wire_track_known split: if_splits)

lemma single_payload_cases:
  assumes "single_payload p" and "Payload_Validate p = None"
  obtains (peer) x where "p = payload_empty\<lparr>pl_PeerState := Some x\<rparr>"
  | (message) x where "p = payload_empty\<lparr>pl_Message := Some x\<rparr>"
  | (recording) x where "p = payload_empty\<lparr>pl_Recording := Some x\<rparr>"
  | (track) x where "p = payload_empty\<lparr>pl_TrackRecord := Some x\<rparr>"
  | (react) x where "p = payload_empty\<lparr>pl_Reaction := Some x\<rparr>"
  using assms
  by (cases p) (auto simp: single_payload_def payload_present_def payload_empty_def split: if_splits)


definition sample_event :: event where
  "sample_event = \<lparr>ev_ID = 1, ev_Room = 2, ev_CreatedAt = 3000001,
     ev_Payload = payload_empty\<lparr>pl_TrackRecord := Some
       \<lparr>ptr_RecordID = 4, ptr_Kind = TrackKindVideo, ptr_Source = TrackSourceScreen\<rparr>\<rparr>\<rparr>"


text \<open>
  What the wire loses: an event with several payloads keeps only the last one of the
  order peer state, message, recording, track record, reaction, and a track kind the
  protocol does not know arrives as AUDIO, a source it does not know as UNKNOWN.
\<close>

theorem event_wire_lossy:
  assumes "Event_Validate e = None"
  shows "map_option ev_Payload (FromProto (ToProto e)) = Some (wire_payload (ev_Payload e)) \<and>
    single_payload (wire_payload (ev_Payload e)) \<and>
    (\<forall>t. ptr_Kind t \<notin> {TrackKindAudio, TrackKindVideo} \<longrightarrow> ptr_Kind (wire_track t) = TrackKindAudio)"
proof -
  have "FromProto (ToProto e) = Some (wire_event e)"
    using assms by (intro FromProto_ToProto) (auto dest: valid_reaction_clap)
  moreover have "single_payload (wire_payload (ev_Payload e))"
    using assms
    by (auto simp: single_payload_def payload_present_def wire_payload_def payload_empty_def
        Event_Validate_None Payload_Validate_None)
  ultimately show ?thesis
    by (simp add: wire_event_def wire_track_def kind_of_pb_def kind_to_pb_def pb_consts)
qed

theorem event_wire_lossy_witness:
  "map_option ev_Payload (FromProto (ToProto (sample_event\<lparr>ev_Payload :=
     (ev_Payload sample_event)\<lparr>pl_Message := Some \<lparr>pm_From = 5, pm_Text = ''hi''\<rparr>\<rparr>\<rparr>))) =
   Some (ev_Payload sample_event)"
proof -
  let ?e = "sample_event\<lparr>ev_Payload := (ev_Payload sample_event)\<lparr>pl_Message :=
    Some \<lparr>pm_From = 5, pm_Text = ''hi''\<rparr>\<rparr>\<rparr>"
  have "Event_Validate ?e = None"
    by (simp add: sample_event_def Event_Validate_def Payload_Validate_def check_field_def
        payload_empty_def PayloadTrackRecord_Validate_def PayloadMessage_Validate_def uuid_Nil_def
        IsZero_def time_zero_def)
  moreover have "wire_payload (ev_Payload ?e) = ev_Payload sample_event"
    by (simp add: sample_event_def wire_payload_def payload_empty_def wire_track_def kind_of_pb_def
        kind_to_pb_def source_of_pb_def source_to_pb_def pb_consts event_consts)
  ultimately show ?thesis
    using event_wire_lossy [of ?e] by simp
qed

end
