(* ===== verification/Queue.thy ===== *)
theory Queue
  imports Complex_Main Event
begin

text \<open>
  The job queue: \<^verbatim>\<open>internal/platform/backoff/backoff.go\<close>, the messages of the jobs, and the
  parts that the four queue services (\<^verbatim>\<open>cmd/{confa,rtc,avp,sender}/queue\<close>) share: \<^verbatim>\<open>jobRetry\<close>,
  \<^verbatim>\<open>jobDelete\<close>, \<^verbatim>\<open>ServeJob\<close>.  beanstalkd, its client and the protobuf library are parameters.

  A handler's result is the world after it and how it finished the job, if it did.  The
  locale \<open>job_handler\<close> is the contract of the handlers of all services; each handler is
  interpreted in it where it is defined.
\<close>

section \<open>Backoff\<close>

record backoff =
  bo_Factor :: real
  bo_Jitter :: bool
  bo_Min :: duration
  bo_Max :: duration

text \<open>
  The floating point part of \<^verbatim>\<open>ForAttempt\<close>, from \<^verbatim>\<open>minf * math.Pow(factor, attempt)\<close> to the
  conversion, is a parameter: whether \<^verbatim>\<open>durf > maxInt64\<close>, and \<^verbatim>\<open>time.Duration(durf)\<close>.
\<close>

type_synonym float_part = "duration \<Rightarrow> real \<Rightarrow> nat \<Rightarrow> bool \<Rightarrow> bool \<times> duration"

definition ForAttempt :: "float_part \<Rightarrow> backoff \<Rightarrow> nat \<Rightarrow> duration" where
  "ForAttempt fp b attempt =
     (let mn = (if bo_Min b \<le> 0 then 100 * Millisecond else bo_Min b);
          mx = (if bo_Max b \<le> 0 then 10 * Second else bo_Max b)
      in if mn \<ge> mx then mx
         else (let factor = (if bo_Factor b \<le> 0 then 2 else bo_Factor b);
                   (overflow, dur) = fp mn factor attempt (bo_Jitter b)
               in if overflow then mx
                  else if dur < mn then mn
                  else if dur > mx then mx
                  else dur))"

text \<open>The counter of \<^verbatim>\<open>Duration\<close> is an unsigned 64 bit integer that wraps.\<close>

record backoff_counter =
  bc_Params :: backoff
  bc_attempt :: "64 word"

definition backoff_Duration :: "float_part \<Rightarrow> backoff_counter \<Rightarrow> backoff_counter \<times> duration" where
  "backoff_Duration fp c = (let n = bc_attempt c + 1 in
     (c\<lparr>bc_attempt := n\<rparr>, ForAttempt fp (bc_Params c) (unat (n - 1))))"

definition backoff_Reset :: "backoff_counter \<Rightarrow> backoff_counter" where
  "backoff_Reset c = c\<lparr>bc_attempt := 0\<rparr>"

definition backoff_Copy :: "backoff_counter \<Rightarrow> backoff_counter" where
  "backoff_Copy c = \<lparr>bc_Params = bc_Params c, bc_attempt = 0\<rparr>"

lemma ForAttempt_in:
  assumes "0 < bo_Min b" and "bo_Min b \<le> bo_Max b"
  shows "bo_Min b \<le> ForAttempt fp b n \<and> ForAttempt fp b n \<le> bo_Max b"
  using assms by (auto simp: ForAttempt_def Let_def split: prod.split)

section \<open>Messages\<close>

datatype sender_message =
    Login string
  | CreatePasswordMsg string
  | ResetPasswordMsg string
  | TalkRecordingReady string string string string

datatype delivery = DeliveryAuto "byte list" | DeliveryEmail string

datatype track_update =
    RecordingStartedUpdate | RecordingFinishedUpdate | ProcessingStartedUpdate | ProcessingFinishedUpdate

datatype recording_update = RU_ProcessingFinished

record file_source_pb =
  fp_Storage :: "(string \<times> string) option"
  fp_PublicUrl :: "string option"

record update_profile_pb =
  up_UserId :: "byte list"
  up_GivenNameSet :: bool
  up_GivenName :: string
  up_FamilyNameSet :: bool
  up_FamilyName :: string
  up_Thumbnail :: "file_source_pb option"
  up_Avatar :: "file_source_pb option"
  up_SkipIfExists :: bool

record process_track_pb =
  pt_Bucket :: string
  pt_Object :: string
  pt_RoomId :: "byte list"
  pt_RecordingId :: "byte list"
  pt_RecordId :: "byte list"
  pt_Kind_VIDEO :: bool
  pt_DurationSeconds :: real

text \<open>
  The payloads.  An outer \<open>option\<close> is a submessage pointer that may be nil, an inner one a
  oneof that may be unset.
\<close>

datatype job_msg =
    JStoreEvent "pb_event option"
  | JUpdateRecordingTrack "byte list" "byte list" int "track_update option option"
  | JProcessTrack process_track_pb
  | JStartRecording "byte list" "byte list"
  | JStopRecording "byte list" "byte list"
  | JUpdateProfile update_profile_pb
  | JRecordingUpdate "byte list" "byte list" int "recording_update option option"
  | JSend "delivery option option" "sender_message option option"

text \<open>
  The protobuf library: messages to bytes and back.  \<open>pb_UnmarshalJob\<close> and \<open>pb_MarshalJob\<close>
  are for the envelope \<^verbatim>\<open>queue.Job\<close> of a payload and a trace id.  Decoding picks the type
  the caller asks for, so a decoder per constructor.
\<close>

datatype msg_kind = KStoreEvent | KUpdateRecordingTrack | KProcessTrack | KStartRecording
  | KStopRecording | KUpdateProfile | KRecordingUpdate | KSend

fun kind_of :: "job_msg \<Rightarrow> msg_kind" where
  "kind_of (JStoreEvent _) = KStoreEvent"
| "kind_of (JUpdateRecordingTrack _ _ _ _) = KUpdateRecordingTrack"
| "kind_of (JProcessTrack _) = KProcessTrack"
| "kind_of (JStartRecording _ _) = KStartRecording"
| "kind_of (JStopRecording _ _) = KStopRecording"
| "kind_of (JUpdateProfile _) = KUpdateProfile"
| "kind_of (JRecordingUpdate _ _ _ _) = KRecordingUpdate"
| "kind_of (JSend _ _) = KSend"

record proto =
  pb_Marshal :: "job_msg \<Rightarrow> byte list res"
  pb_Unmarshal :: "msg_kind \<Rightarrow> byte list \<Rightarrow> job_msg res"
  pb_MarshalJob :: "byte list \<Rightarrow> string \<Rightarrow> byte list res"
  pb_UnmarshalJob :: "byte list \<Rightarrow> (byte list \<times> string) res"

definition proto_laws :: "proto \<Rightarrow> bool" where
  "proto_laws p \<longleftrightarrow>
     (\<forall>x b. pb_Marshal p x = Inr b \<longrightarrow> pb_Unmarshal p (kind_of x) b = Inr x) \<and>
     (\<forall>k b x. pb_Unmarshal p k b = Inr x \<longrightarrow> kind_of x = k) \<and>
     (\<forall>pl t b. pb_MarshalJob p pl t = Inr b \<longrightarrow> pb_UnmarshalJob p b = Inr (pl, t))"

section \<open>The queue\<close>

record job =
  jb_ID :: nat
  jb_Tube :: string
  jb_Body :: "byte list"
  jb_Age :: duration
  jb_Releases :: nat
  jb_Priority :: nat

record put_params =
  pp_Delay :: duration
  pp_TTR :: duration

record 'w beanstalkd =
  bq_Put :: "string \<Rightarrow> byte list \<Rightarrow> put_params \<Rightarrow> 'w \<Rightarrow> 'w \<times> nat res"
  bq_Bury :: "job \<Rightarrow> 'w \<Rightarrow> 'w \<times> err"
  bq_Release :: "job \<Rightarrow> nat \<Rightarrow> duration \<Rightarrow> 'w \<Rightarrow> 'w \<times> err"
  bq_Delete :: "job \<Rightarrow> 'w \<Rightarrow> 'w \<times> err"

text \<open>
  What every emitter does: marshal the message, wrap it in a job with the trace id, put it
  in the tube.  The texts of the wrapping differ, and some emitters return the error of the
  put as it is.
\<close>

definition put_msg ::
  "proto \<Rightarrow> 'w beanstalkd \<Rightarrow> string \<Rightarrow> string \<Rightarrow> bool \<Rightarrow> string \<Rightarrow> job_msg \<Rightarrow> put_params \<Rightarrow> 'w \<Rightarrow> 'w \<times> err" where
  "put_msg p q trace marshal_text wrap_put tube msg params w = (case pb_Marshal p msg of
      Inl e \<Rightarrow> (w, Some (Wrap marshal_text e))
    | Inr payload \<Rightarrow> (case pb_MarshalJob p payload trace of
        Inl e \<Rightarrow> (w, Some (Wrap ''failed to marshal job'' e))
      | Inr body \<Rightarrow> (case bq_Put q tube body params w of
          (w', Inl e) \<Rightarrow> (w', Some (if wrap_put then Wrap ''failed to put job'' e else e))
        | (w', Inr _) \<Rightarrow> (w', None))))"

datatype finish = Deleted | Released duration | Buried

type_synonym 'w handler = "job \<Rightarrow> 'w \<Rightarrow> 'w \<times> finish option"

text \<open>Errors of the finishing calls are only logged.\<close>

definition jobRetry :: "float_part \<Rightarrow> 'w beanstalkd \<Rightarrow> backoff \<Rightarrow> duration \<Rightarrow> 'w handler" where
  "jobRetry fp q bo maxAge job w =
     (if jb_Age job > maxAge then (fst (bq_Bury q job w), Some Buried)
      else (let delay = ForAttempt fp bo (jb_Releases job) in
        (fst (bq_Release q job (jb_Priority job) delay w), Some (Released delay))))"

definition jobDelete :: "'w beanstalkd \<Rightarrow> 'w handler" where
  "jobDelete q job w = (fst (bq_Delete q job w), Some Deleted)"

text \<open>
  \<^verbatim>\<open>ServeJob\<close>: an envelope that cannot be decoded is logged as buried but left alone; a tube
  without a handler is buried; a panic of the handler is recovered and logged, and the job
  is left as the handler left it.
\<close>

definition ServeJob :: "proto \<Rightarrow> 'w beanstalkd \<Rightarrow> (job \<Rightarrow> 'w handler option) \<Rightarrow> 'w handler" where
  "ServeJob p q route job w = (case pb_UnmarshalJob p (jb_Body job) of
      Inl e \<Rightarrow> (w, None)
    | Inr (payload, trace) \<Rightarrow> (let job' = job\<lparr>jb_Body := payload\<rparr> in
        case route job' of
          None \<Rightarrow> (fst (bq_Bury q job' w), Some Buried)
        | Some handle \<Rightarrow> handle job' w))"

section \<open>The contract of the handlers\<close>

text \<open>
  A finished job was released only while it was young enough and with a delay the backoff
  allows, and buried only when it was too old.
\<close>

definition finish_ok :: "backoff \<Rightarrow> duration \<Rightarrow> job \<Rightarrow> finish option \<Rightarrow> bool" where
  "finish_ok bo maxAge job f = (case f of
      None \<Rightarrow> False
    | Some Deleted \<Rightarrow> True
    | Some Buried \<Rightarrow> jb_Age job > maxAge
    | Some (Released d) \<Rightarrow> jb_Age job \<le> maxAge \<and> bo_Min bo \<le> d \<and> d \<le> bo_Max bo)"

lemma finish_jobDelete [simp]: "finish_ok bo maxAge job (snd (jobDelete q job w))"
  by (simp add: finish_ok_def jobDelete_def)

lemma finish_jobRetry:
  "0 < bo_Min bo \<Longrightarrow> bo_Min bo \<le> bo_Max bo \<Longrightarrow> finish_ok bo maxAge job (snd (jobRetry fp q bo maxAge job w))"
  using ForAttempt_in [of bo fp "jb_Releases job"]
  by (auto simp: finish_ok_def jobRetry_def Let_def)

text \<open>\<open>safe\<close>: the payloads on which the handler cannot panic.\<close>

locale job_handler =
  fixes h :: "'w handler" and safe :: "job \<Rightarrow> bool" and bo :: backoff and maxAge :: duration
  assumes finishes: "safe job \<Longrightarrow> finish_ok bo maxAge job (snd (h job w))"
begin

lemma finishes_once: "safe job \<Longrightarrow> \<exists>w' f. h job w = (w', Some f)"
  using finishes [of job w] by (cases "h job w") (auto simp: finish_ok_def split: option.splits)

text \<open>An old job is never released again: it is deleted or buried by its next attempt.\<close>

lemma old_job_ends:
  "safe job \<Longrightarrow> maxAge < jb_Age job \<Longrightarrow> snd (h job w) = Some Deleted \<or> snd (h job w) = Some Buried"
  using finishes [of job w] by (auto simp: finish_ok_def split: option.splits finish.splits)

lemma young_job_not_buried: "safe job \<Longrightarrow> jb_Age job \<le> maxAge \<Longrightarrow> snd (h job w) \<noteq> Some Buried"
  using finishes [of job w] by (auto simp: finish_ok_def)

end

text \<open>A view of the world, such as a database, that the queue does not touch.\<close>

definition queue_keeps :: "'w beanstalkd \<Rightarrow> ('w \<Rightarrow> 'v) \<Rightarrow> bool" where
  "queue_keeps q view \<longleftrightarrow>
     (\<forall>tube b ps w. view (fst (bq_Put q tube b ps w)) = view w) \<and>
     (\<forall>j w. view (fst (bq_Bury q j w)) = view w) \<and>
     (\<forall>j n d w. view (fst (bq_Release q j n d w)) = view w) \<and>
     (\<forall>j w. view (fst (bq_Delete q j w)) = view w)"

lemma finish_keeps:
  assumes "queue_keeps q view"
  shows "view (fst (jobRetry fp q bo maxAge job w)) = view w" "view (fst (jobDelete q job w)) = view w"
  using assms by (simp_all add: queue_keeps_def jobRetry_def jobDelete_def Let_def)

lemma put_msg_keeps:
  "queue_keeps q view \<Longrightarrow> view (fst (put_msg p q trace text wrap tube msg params w)) = view w"
  by (auto simp: put_msg_def queue_keeps_def split: sum.split prod.split) (metis fst_conv)+

text \<open>What was put, tube and body, in order: a refused put leaves no trace.\<close>

definition put_law :: "'w beanstalkd \<Rightarrow> ('w \<Rightarrow> (string \<times> byte list) list) \<Rightarrow> bool" where
  "put_law q puts \<longleftrightarrow> (\<forall>tube b ps w w' r. bq_Put q tube b ps w = (w', r) \<longrightarrow>
     puts w' = (case r of Inl _ \<Rightarrow> puts w | Inr _ \<Rightarrow> puts w @ [(tube, b)]))"

lemma finish_kind:
  "snd (jobDelete q job w) = Some Deleted" "snd (jobRetry fp q bo maxAge job w) \<noteq> Some Deleted"
  by (simp_all add: jobDelete_def jobRetry_def Let_def)

lemma ServeJob_finish:
  assumes "pb_UnmarshalJob p (jb_Body job) = Inr (payload, trace)"
    and "route (job\<lparr>jb_Body := payload\<rparr>) = Some h"
    and "finish_ok bo maxAge (job\<lparr>jb_Body := payload\<rparr>) (snd (h (job\<lparr>jb_Body := payload\<rparr>) w))"
  obtains w' f where "ServeJob p q route job w = (w', Some f)" "finish_ok bo maxAge job (Some f)"
proof -
  obtain w' f where h: "h (job\<lparr>jb_Body := payload\<rparr>) w = (w', f)"
    by fastforce
  with assms obtain g where "f = Some g"
    by (auto simp: finish_ok_def split: option.splits)
  with h assms that show thesis
    by (simp add: ServeJob_def Let_def finish_ok_def split: finish.splits)
qed

lemma put_msg_None:
  assumes "put_msg p q trace text wrap tube msg params w = (w', None)"
  obtains payload body n where "pb_Marshal p msg = Inr payload" "pb_MarshalJob p payload trace = Inr body"
    "bq_Put q tube body params w = (w', Inr n)"
  using assms by (auto simp: put_msg_def split: sum.splits prod.splits)

lemma ServeJob_known:
  "pb_UnmarshalJob p (jb_Body job) = Inr (payload, trace) \<Longrightarrow> route (job\<lparr>jb_Body := payload\<rparr>) = Some h \<Longrightarrow>
     ServeJob p q route job w = h (job\<lparr>jb_Body := payload\<rparr>) w"
  by (simp add: ServeJob_def Let_def)

section \<open>Properties of the backoff and of the server\<close>

text \<open>
  The delay of a retry is between the minimum and the maximum of the backoff for every
  attempt number and whatever the floating point arithmetic gives, infinities and junk
  included; with zero values it is between 100ms and 10s.
\<close>

theorem ForAttempt_bounds:
  "let mn = (if bo_Min b \<le> 0 then 100 * Millisecond else bo_Min b);
       mx = (if bo_Max b \<le> 0 then 10 * Second else bo_Max b);
       d = ForAttempt fp b n
   in min mn mx \<le> d \<and> d \<le> mx \<and> 0 < d"
proof -
  define mn where "mn = (if bo_Min b \<le> 0 then 100 * Millisecond else bo_Min b)"
  define mx where "mx = (if bo_Max b \<le> 0 then 10 * Second else bo_Max b)"
  obtain ov du where fp: "fp mn (if bo_Factor b \<le> 0 then 2 else bo_Factor b) n (bo_Jitter b) = (ov, du)"
    by fastforce
  have pos: "0 < mn" "0 < mx"
    by (simp_all add: mn_def mx_def duration_defs)
  have d: "ForAttempt fp b n = (if mn \<ge> mx then mx else if ov then mx else if du < mn then mn
      else if du > mx then mx else du)"
    unfolding ForAttempt_def Let_def mn_def [symmetric] mx_def [symmetric] fp prod.case ..
  show ?thesis
    unfolding Let_def mn_def [symmetric] mx_def [symmetric] d using pos by (simp add: min_def)
qed

text \<open>
  A job whose envelope cannot be decoded is neither deleted, released nor buried, against
  what the log line says: it stays reserved until its time to run ends and comes back.  A
  decodable job of an unknown tube is buried.
\<close>

theorem ServeJob_undecodable:
  "(\<forall>e. pb_UnmarshalJob p (jb_Body job) = Inl e \<longrightarrow> ServeJob p q route job w = (w, None)) \<and>
   (\<forall>pl t. pb_UnmarshalJob p (jb_Body job) = Inr (pl, t) \<longrightarrow> route (job\<lparr>jb_Body := pl\<rparr>) = None \<longrightarrow>
      snd (ServeJob p q route job w) = Some Buried)"
  by (simp add: ServeJob_def Let_def)

text \<open>A toy protobuf and a queue that only counts, to run the handlers.\<close>

definition toy_proto :: "(msg_kind \<Rightarrow> byte list \<Rightarrow> job_msg res) \<Rightarrow> proto" where
  "toy_proto dec = \<lparr>pb_Marshal = (\<lambda>_. Inl (Foreign 5)), pb_Unmarshal = dec,
     pb_MarshalJob = (\<lambda>pl t. Inr pl), pb_UnmarshalJob = (\<lambda>b. if b = [] then Inl (Foreign 4) else Inr (b, ''''))\<rparr>"

definition quiet_queue :: "'w beanstalkd" where
  "quiet_queue = \<lparr>bq_Put = (\<lambda>_ _ _ w. (w, Inr 1)), bq_Bury = (\<lambda>_ w. (w, None)),
     bq_Release = (\<lambda>_ _ _ w. (w, None)), bq_Delete = (\<lambda>_ w. (w, None))\<rparr>"

definition logging_queue :: "((string \<times> byte list) list \<times> 'w) beanstalkd" where
  "logging_queue = \<lparr>bq_Put = (\<lambda>t b _ (l, w). ((l @ [(t, b)], w), Inr 1)), bq_Bury = (\<lambda>_ w. (w, None)),
     bq_Release = (\<lambda>_ _ _ w. (w, None)), bq_Delete = (\<lambda>_ w. (w, None))\<rparr>"

lemma logging_queue_laws: "put_law logging_queue fst" "queue_keeps logging_queue (f \<circ> snd)"
  by (auto simp: put_law_def queue_keeps_def logging_queue_def)

definition sample_job :: job where
  "sample_job = \<lparr>jb_ID = 1, jb_Tube = ''tube'', jb_Body = [1], jb_Age = 0, jb_Releases = 0, jb_Priority = 0\<rparr>"

theorem ServeJob_undecodable_witness:
  "ServeJob (toy_proto (\<lambda>_ _. Inl (Foreign 4))) quiet_queue (\<lambda>_. None) (sample_job\<lparr>jb_Body := []\<rparr>) (0 :: nat) = (0, None)
   \<and> snd (ServeJob (toy_proto (\<lambda>_ _. Inl (Foreign 4))) quiet_queue (\<lambda>_. None) sample_job (0 :: nat)) = Some Buried"
  using ServeJob_undecodable [of "toy_proto (\<lambda>_ _. Inl (Foreign 4))" "sample_job\<lparr>jb_Body := []\<rparr>"
      quiet_queue "\<lambda>_. None" "0 :: nat"]
    ServeJob_undecodable [of "toy_proto (\<lambda>_ _. Inl (Foreign 4))" sample_job quiet_queue "\<lambda>_. None" "0 :: nat"]
  by (simp add: toy_proto_def sample_job_def)

end
