(* ===== verification/Event_Mongo.thy ===== *)
theory Event_Mongo
  imports Confa Queue
begin

text \<open>
  Where events are kept and made: \<^verbatim>\<open>services/event/mongo.go\<close> (repository and upstream cursor),
  \<^verbatim>\<open>event/beanstalk.go\<close> (the emitter) and \<^verbatim>\<open>event/peer/peer.go\<close> (the peer of a room).  The
  lemmas show that fetching by cursor walks the whole history of a room, and that a peer
  announces itself, speaks only as itself, and announces that it left.
\<close>

section \<open>Documents\<close>

text \<open>A nil pointer is written as null and read back as nil; here its field is absent.\<close>

definition opt_doc :: "string \<Rightarrow> ('a \<Rightarrow> bdoc) \<Rightarrow> 'a option \<Rightarrow> bdoc" where
  "opt_doc k f v = (case v of None \<Rightarrow> [] | Some x \<Rightarrow> [(k, BDoc (f x))])"

definition dec_opt_doc :: "(bdoc \<Rightarrow> 'a res) \<Rightarrow> bdoc \<Rightarrow> string \<Rightarrow> 'a option res" where
  "dec_opt_doc f d k = (case bget d k of None \<Rightarrow> Inr None | Some (BDoc s) \<Rightarrow> bindr (f s) (\<lambda>x. Inr (Some x))
     | _ \<Rightarrow> Inl EDecode)"

definition peer_state_enc :: "payload_peer_state \<Rightarrow> bdoc" where
  "peer_state_enc p = [(''peerId'', BUuid (ps_Peer p)), (''sessionId'', BUuid (ps_SessionID p))] @
     (if ps_Status p = '''' then [] else [(''status'', BStr (ps_Status p))])"

definition peer_state_dec :: "bdoc \<Rightarrow> payload_peer_state res" where
  "peer_state_dec d = bindr (dec_uuid d ''peerId'') (\<lambda>p. bindr (dec_uuid d ''sessionId'') (\<lambda>s.
     bindr (dec_str d ''status'') (\<lambda>x. Inr \<lparr>ps_Peer = p, ps_SessionID = s, ps_Status = x\<rparr>)))"

definition message_enc :: "payload_message \<Rightarrow> bdoc" where
  "message_enc p = [(''fromId'', BUuid (pm_From p)), (''text'', BStr (pm_Text p))]"

definition message_dec :: "bdoc \<Rightarrow> payload_message res" where
  "message_dec d = bindr (dec_uuid d ''fromId'') (\<lambda>p. bindr (dec_str d ''text'') (\<lambda>t.
     Inr \<lparr>pm_From = p, pm_Text = t\<rparr>))"

definition recording_status_enc :: "payload_recording \<Rightarrow> bdoc" where
  "recording_status_enc p = [(''status'', BStr (prec_Status p))]"

definition recording_status_dec :: "bdoc \<Rightarrow> payload_recording res" where
  "recording_status_dec d = bindr (dec_str d ''status'') (\<lambda>s. Inr \<lparr>prec_Status = s\<rparr>)"

definition track_record_enc :: "payload_track_record \<Rightarrow> bdoc" where
  "track_record_enc p = [(''recordId'', BUuid (ptr_RecordID p)), (''trackKind'', BStr (ptr_Kind p)),
     (''trackSource'', BStr (ptr_Source p))]"

definition track_record_dec :: "bdoc \<Rightarrow> payload_track_record res" where
  "track_record_dec d = bindr (dec_uuid d ''recordId'') (\<lambda>i. bindr (dec_str d ''trackKind'') (\<lambda>k.
     bindr (dec_str d ''trackSource'') (\<lambda>s. Inr \<lparr>ptr_RecordID = i, ptr_Kind = k, ptr_Source = s\<rparr>)))"

definition clap_enc :: "reaction_clap \<Rightarrow> bdoc" where
  "clap_enc c = [(''isStarting'', BBool (rc_IsStarting c))]"

definition clap_dec :: "bdoc \<Rightarrow> reaction_clap res" where
  "clap_dec d = bindr (dec_bool d ''isStarting'') (\<lambda>b. Inr \<lparr>rc_IsStarting = b\<rparr>)"

definition reaction_enc :: "payload_reaction \<Rightarrow> bdoc" where
  "reaction_enc p = [(''fromId'', BUuid (pre_From p)),
     (''reaction'', BDoc (opt_doc ''clap'' clap_enc (re_Clap (pre_Reaction p))))]"

definition reaction_dec :: "bdoc \<Rightarrow> payload_reaction res" where
  "reaction_dec d = bindr (dec_uuid d ''fromId'') (\<lambda>f. case bget d ''reaction'' of
       None \<Rightarrow> Inr \<lparr>pre_From = f, pre_Reaction = \<lparr>re_Clap = None\<rparr>\<rparr>
     | Some (BDoc r) \<Rightarrow> bindr (dec_opt_doc clap_dec r ''clap'')
         (\<lambda>c. Inr \<lparr>pre_From = f, pre_Reaction = \<lparr>re_Clap = c\<rparr>\<rparr>)
     | _ \<Rightarrow> Inl EDecode)"

definition payload_enc :: "payload \<Rightarrow> bdoc" where
  "payload_enc p = opt_doc ''peerState'' peer_state_enc (pl_PeerState p) @
     opt_doc ''message'' message_enc (pl_Message p) @
     opt_doc ''recording'' recording_status_enc (pl_Recording p) @
     opt_doc ''trackRecording'' track_record_enc (pl_TrackRecord p) @
     opt_doc ''reaction'' reaction_enc (pl_Reaction p)"

definition payload_dec :: "bdoc \<Rightarrow> payload res" where
  "payload_dec d = bindr (dec_opt_doc peer_state_dec d ''peerState'') (\<lambda>a.
     bindr (dec_opt_doc message_dec d ''message'') (\<lambda>b.
     bindr (dec_opt_doc recording_status_dec d ''recording'') (\<lambda>c.
     bindr (dec_opt_doc track_record_dec d ''trackRecording'') (\<lambda>t.
     bindr (dec_opt_doc reaction_dec d ''reaction'') (\<lambda>r.
       Inr \<lparr>pl_PeerState = a, pl_Message = b, pl_Recording = c, pl_TrackRecord = t, pl_Reaction = r\<rparr>)))))"

definition event_enc :: "event \<Rightarrow> bdoc" where
  "event_enc e = [(''_id'', BUuid (ev_ID e)), (''roomId'', BUuid (ev_Room e)),
     (''createdAt'', BTime (ev_CreatedAt e)), (''payload'', BDoc (payload_enc (ev_Payload e)))]"

definition event_dec :: "bdoc \<Rightarrow> event res" where
  "event_dec d = bindr (dec_uuid d ''_id'') (\<lambda>i. bindr (dec_uuid d ''roomId'') (\<lambda>r.
     bindr (dec_time d ''createdAt'') (\<lambda>t. case bget d ''payload'' of
       None \<Rightarrow> Inr \<lparr>ev_ID = i, ev_Room = r, ev_CreatedAt = t, ev_Payload = payload_empty\<rparr>
     | Some (BDoc p) \<Rightarrow> bindr (payload_dec p)
         (\<lambda>x. Inr \<lparr>ev_ID = i, ev_Room = r, ev_CreatedAt = t, ev_Payload = x\<rparr>)
     | _ \<Rightarrow> Inl EDecode)))"

definition event_key :: "event \<Rightarrow> pkey" where
  "event_key e = (ev_CreatedAt e, ev_ID e)"

lemma parts_dec_enc [simp]:
  "peer_state_dec (peer_state_enc a) = Inr a" "message_dec (message_enc b) = Inr b"
  "recording_status_dec (recording_status_enc c) = Inr c" "track_record_dec (track_record_enc t) = Inr t"
  "clap_dec (clap_enc cl) = Inr cl"
  by (simp_all add: peer_state_dec_def peer_state_enc_def message_dec_def message_enc_def
      recording_status_dec_def recording_status_enc_def track_record_dec_def track_record_enc_def
      clap_dec_def clap_enc_def dec_defs)

lemma opt_doc_get [simp]: "map_of (opt_doc k f v) k' = (if k = k' then map_option (\<lambda>x. BDoc (f x)) v else None)"
  by (simp add: opt_doc_def split: option.split)

lemma reaction_dec_enc [simp]: "reaction_dec (reaction_enc r) = Inr r"
  by (cases r; cases "pre_Reaction r"; cases "re_Clap (pre_Reaction r)")
    (simp_all add: reaction_dec_def reaction_enc_def dec_opt_doc_def dec_defs)

lemma dec_opt_doc_get:
  "bget d k = map_option (\<lambda>x. BDoc (g x)) v \<Longrightarrow> (\<And>x. f (g x) = Inr x) \<Longrightarrow> dec_opt_doc f d k = Inr v"
  by (cases v) (simp_all add: dec_opt_doc_def)

lemma payload_dec_enc [simp]: "payload_dec (payload_enc p) = Inr p"
proof -
  note get = payload_enc_def bget_def map_add_def
  have "dec_opt_doc peer_state_dec (payload_enc p) ''peerState'' = Inr (pl_PeerState p)"
    by (rule dec_opt_doc_get [where g = peer_state_enc]) (simp_all add: get split: option.split)
  moreover have "dec_opt_doc message_dec (payload_enc p) ''message'' = Inr (pl_Message p)"
    by (rule dec_opt_doc_get [where g = message_enc]) (simp_all add: get split: option.split)
  moreover have "dec_opt_doc recording_status_dec (payload_enc p) ''recording'' = Inr (pl_Recording p)"
    by (rule dec_opt_doc_get [where g = recording_status_enc]) (simp_all add: get split: option.split)
  moreover have "dec_opt_doc track_record_dec (payload_enc p) ''trackRecording'' = Inr (pl_TrackRecord p)"
    by (rule dec_opt_doc_get [where g = track_record_enc]) (simp_all add: get split: option.split)
  moreover have "dec_opt_doc reaction_dec (payload_enc p) ''reaction'' = Inr (pl_Reaction p)"
    by (rule dec_opt_doc_get [where g = reaction_enc]) (simp_all add: get split: option.split)
  ultimately show ?thesis
    by (simp add: payload_dec_def)
qed

interpretation events: keyed_codec event_enc event_dec event_key
  by unfold_locales (simp_all add: event_dec_def event_enc_def dec_defs event_key_def)

section \<open>The repository\<close>

abbreviation event_err :: "ekind \<Rightarrow> go_error" where
  "event_err \<equiv> Sentinel P_event"

record event_lookup =
  el_ID :: uuid
  el_Room :: uuid
  el_Limit :: int
  el_From :: from_cursor
  el_Asc :: bool

definition event_lookup_zero :: event_lookup where
  "event_lookup_zero = \<lparr>el_ID = uuid_Nil, el_Room = uuid_Nil, el_Limit = 0, el_From = from_zero, el_Asc = False\<rparr>"

definition event_collection :: string where "event_collection = ''events''"

definition event_batchLimit :: int where "event_batchLimit = 5000"

definition event_Create :: "'w mongo \<Rightarrow> event list \<Rightarrow> 'w \<Rightarrow> 'w \<times> event list res" where
  "event_Create m = create_batch m event_collection event_enc event_batchLimit
     ''trying to create more than 5000''
     (\<lambda>r. case Event_Validate r of Some e \<Rightarrow> Inl (WrapS (event_err ErrValidation) e) | None \<Rightarrow> Inr r)
     (Some (event_err ErrDuplicateEntry))"

definition event_CreateOne :: "'w mongo \<Rightarrow> event \<Rightarrow> 'w \<Rightarrow> 'w \<times> event res" where
  "event_CreateOne m request =
     fetch_one (event_Create m [request]) (event_err ErrNotFound) (event_err ErrUnexpectedResult)"

definition event_mongoFilter :: "event_lookup \<Rightarrow> mfilter" where
  "event_mongoFilter l = (let asc = el_Asc l; fid = fr_ID (el_From l); fat = fr_CreatedAt (el_From l) in
     (if el_ID l \<noteq> uuid_Nil then [FField ''_id'' (FEq (BUuid (el_ID l)))]
      else if \<not> IsZero fat \<and> fid \<noteq> uuid_Nil then [after_both asc (fat, fid)]
      else if \<not> IsZero fat then [FField ''createdAt'' (order_clause asc (BTime fat))]
      else if fid \<noteq> uuid_Nil then [FField ''_id'' (order_clause asc (BUuid fid))]
      else []) @
     (if el_Room l \<noteq> uuid_Nil then [FField ''roomId'' (FEq (BUuid (el_Room l)))] else []))"

text \<open>The limit goes to the driver as it is: 0 is no limit.\<close>

definition event_Fetch :: "'w mongo \<Rightarrow> event_lookup \<Rightarrow> 'w \<Rightarrow> 'w \<times> event list res" where
  "event_Fetch m l = find_decoded m event_collection event_dec (event_mongoFilter l)
     (page_sort (el_Asc l)) (el_Limit l)"

definition event_FetchOne :: "'w mongo \<Rightarrow> event_lookup \<Rightarrow> 'w \<Rightarrow> 'w \<times> event res" where
  "event_FetchOne m l =
     fetch_one (event_Fetch m l) (event_err ErrNotFound) (event_err ErrUnexpectedResult)"

text \<open>The change stream of the driver, and the cursor over it.\<close>

record 'w change_stream =
  cs_Next :: "'w \<Rightarrow> 'w \<times> bool"
  cs_Err :: "'w \<Rightarrow> err"
  cs_Decode :: "'w \<Rightarrow> event res"
  cs_Close :: "'w \<Rightarrow> 'w \<times> err"

definition MongoCursor_Next :: "'w change_stream \<Rightarrow> 'w \<Rightarrow> 'w \<times> event res" where
  "MongoCursor_Next s w = (case cs_Next s w of
      (w1, False) \<Rightarrow> (case cs_Err s w1 of
          Some e \<Rightarrow> (w1, Inl e) | None \<Rightarrow> (w1, Inl (event_err ErrCursorClosed)))
    | (w1, True) \<Rightarrow> (w1, cs_Decode s w1))"

definition MongoCursor_Close :: "'w change_stream \<Rightarrow> 'w \<Rightarrow> 'w \<times> err" where
  "MongoCursor_Close s = cs_Close s"

text \<open>
  \<open>watch\<close> is \<^verbatim>\<open>Watch\<close> of the driver: the collection, and the match and the projection of the
  pipeline it runs over the change documents.
\<close>

definition watch_match :: "uuid \<Rightarrow> mfilter" where
  "watch_match roomID = [FField ''operationType'' (FEq (BStr ''insert'')), FField ''fullDocument.roomId'' (FEq (BUuid roomID))]"

definition event_Watch ::
  "(string \<Rightarrow> mfilter \<Rightarrow> string list \<Rightarrow> 'w \<Rightarrow> 'w \<times> 'w change_stream res) \<Rightarrow> uuid \<Rightarrow> 'w \<Rightarrow> 'w \<times> 'w change_stream res" where
  "event_Watch watch roomID w = (case watch event_collection (watch_match roomID) [''fullDocument''] w of
      (w1, Inl e) \<Rightarrow> (w1, Inl e)
    | (w1, Inr stream) \<Rightarrow> (w1, Inr stream))"

section \<open>The emitter\<close>

definition EmitEvent :: "proto \<Rightarrow> 'w beanstalkd \<Rightarrow> string \<Rightarrow> string \<Rightarrow> event \<Rightarrow> 'w \<Rightarrow> 'w \<times> err" where
  "EmitEvent p q trace tube ev w = (case Event_Validate ev of
      Some e \<Rightarrow> (w, Some (WrapS (event_err ErrValidation) e))
    | None \<Rightarrow> put_msg p q trace ''failed to marshal event'' True tube (JStoreEvent (Some (ToProto ev)))
        \<lparr>pp_Delay = 0, pp_TTR = 10 * Second\<rparr> w)"

section \<open>The peer\<close>

abbreviation peer_err :: "ekind \<Rightarrow> go_error" where
  "peer_err \<equiv> Sentinel P_peer"

record peer =
  pe_UserID :: uuid
  pe_RoomID :: uuid
  pe_SessionID :: uuid

type_synonym 'w emitter = "event \<Rightarrow> 'w \<Rightarrow> 'w \<times> err"

definition peer_emit :: "'w emitter \<Rightarrow> uuid \<Rightarrow> time \<Rightarrow> peer \<Rightarrow> payload \<Rightarrow> 'w \<Rightarrow> 'w \<times> event res" where
  "peer_emit emit new_id now p pl w =
     (let ev = \<lparr>ev_ID = new_id, ev_Room = pe_RoomID p, ev_CreatedAt = now, ev_Payload = pl\<rparr> in
      case emit ev w of
        (w1, Some e) \<Rightarrow> (w1, Inl (if errors_Is e P_event ErrValidation then peer_err ErrValidation else e))
      | (w1, None) \<Rightarrow> (w1, Inr ev))"

definition peer_state_payload :: "peer \<Rightarrow> string \<Rightarrow> payload" where
  "peer_state_payload p status = payload_empty\<lparr>pl_PeerState :=
     Some \<lparr>ps_Peer = pe_UserID p, ps_SessionID = pe_SessionID p, ps_Status = status\<rparr>\<rparr>"

text \<open>The error of the announcement is only logged.\<close>

definition NewPeer :: "'w emitter \<Rightarrow> uuid \<Rightarrow> uuid \<Rightarrow> time \<Rightarrow> uuid \<Rightarrow> uuid \<Rightarrow> 'w \<Rightarrow> 'w \<times> peer" where
  "NewPeer emit session new_id now userID roomID w =
     (let p = \<lparr>pe_UserID = userID, pe_RoomID = roomID, pe_SessionID = session\<rparr> in
      (fst (peer_emit emit new_id now p (peer_state_payload p PeerJoined) w), p))"

definition SendMessage :: "'w emitter \<Rightarrow> uuid \<Rightarrow> time \<Rightarrow> peer \<Rightarrow> string \<Rightarrow> 'w \<Rightarrow> 'w \<times> event res" where
  "SendMessage emit new_id now p text w =
     (let msg = \<lparr>pm_From = pe_UserID p, pm_Text = text\<rparr> in
      case PayloadMessage_Validate msg of
        Some e \<Rightarrow> (w, Inl (WrapS (peer_err ErrValidation) e))
      | None \<Rightarrow> peer_emit emit new_id now p (payload_empty\<lparr>pl_Message := Some msg\<rparr>) w)"

definition SendReaction :: "'w emitter \<Rightarrow> uuid \<Rightarrow> time \<Rightarrow> peer \<Rightarrow> reaction \<Rightarrow> 'w \<Rightarrow> 'w \<times> event res" where
  "SendReaction emit new_id now p reaction w = (case Reaction_Validate reaction of
      Some e \<Rightarrow> (w, Inl (WrapS (peer_err ErrValidation) e))
    | None \<Rightarrow> peer_emit emit new_id now p (payload_empty\<lparr>pl_Reaction :=
        Some \<lparr>pre_From = pe_UserID p, pre_Reaction = reaction\<rparr>\<rparr>) w)"

text \<open>\<open>next\<close> is the \<^verbatim>\<open>Next\<close> of the cursor of the peer.\<close>

definition RecieveEvent :: "('w \<Rightarrow> 'w \<times> event res) \<Rightarrow> 'w \<Rightarrow> 'w \<times> event res" where
  "RecieveEvent next w = (case next w of
      (w1, Inl e) \<Rightarrow> (w1, Inl (if errors_Is e P_event ErrUnknownEvent then peer_err ErrUnknownMessage
         else if errors_Is e P_event ErrCursorClosed then peer_err ErrClosed else e))
    | (w1, Inr ev) \<Rightarrow> (w1, Inr ev))"

definition peer_Close :: "('w \<Rightarrow> 'w \<times> err) \<Rightarrow> 'w emitter \<Rightarrow> uuid \<Rightarrow> time \<Rightarrow> peer \<Rightarrow> 'w \<Rightarrow> 'w" where
  "peer_Close close emit new_id now p w =
     fst (peer_emit emit new_id now p (peer_state_payload p PeerLeft) (fst (close w)))"

end
