(* ===== verification/Recordings.thy ===== *)
theory Recordings
  imports Paging Regexp
begin

text \<open>
  Recordings of rooms: \<^verbatim>\<open>services/room/record/record.go\<close> and \<^verbatim>\<open>mongo.go\<close>; and the rooms
  themselves: \<^verbatim>\<open>services/room/room.go\<close> and \<^verbatim>\<open>mongo.go\<close>.

  A recording collects the ids of its tracks in four sets, one per stage, which concurrent
  and repeated jobs add to.  The lemmas show that the order and the repetition of these
  additions do not matter, when a recording is ready, that starting is idempotent, and that
  the unique indexes of the migration let a room be stopped only once.
\<close>

section \<open>Recordings\<close>

record records =
  rs_RecordingStarted :: "uuid list"
  rs_RecordingFinished :: "uuid list"
  rs_ProcessingStarted :: "uuid list"
  rs_ProcessingFinished :: "uuid list"

definition records_empty :: records where
  "records_empty = \<lparr>rs_RecordingStarted = [], rs_RecordingFinished = [], rs_ProcessingStarted = [],
     rs_ProcessingFinished = []\<rparr>"

definition Records_IsZero :: "records \<Rightarrow> bool" where
  "Records_IsZero r =
     (if length (rs_RecordingStarted r) \<noteq> 0 then False
      else if length (rs_RecordingFinished r) \<noteq> 0 then False
      else if length (rs_ProcessingStarted r) \<noteq> 0 then False
      else if length (rs_ProcessingFinished r) \<noteq> 0 then False
      else True)"

text \<open>The loop of \<^verbatim>\<open>Records.IsReady\<close> over the started tracks.\<close>

fun all_finished :: "uuid set \<Rightarrow> uuid list \<Rightarrow> bool" where
  "all_finished finished [] = True"
| "all_finished finished (i # is) = (if i \<notin> finished then False else all_finished finished is)"

definition Records_IsReady :: "records \<Rightarrow> bool" where
  "Records_IsReady r =
     (if length (rs_RecordingStarted r) = 0 then True
      else all_finished (set (rs_ProcessingFinished r)) (rs_RecordingStarted r))"

record recording =
  rg_ID :: uuid
  rg_Room :: uuid
  rg_Key :: string
  rg_Active :: bool
  rg_Records :: records
  rg_StartedAt :: time
  rg_StoppedAt :: time
  rg_CreatedAt :: time

definition recording_zero :: recording where
  "recording_zero = \<lparr>rg_ID = uuid_Nil, rg_Room = uuid_Nil, rg_Key = '''', rg_Active = False,
     rg_Records = records_empty, rg_StartedAt = time_zero, rg_StoppedAt = time_zero, rg_CreatedAt = time_zero\<rparr>"

definition Recording_Validate :: "recording \<Rightarrow> err" where
  "Recording_Validate r =
     (if rg_ID r = uuid_Nil then Some (New ''id should not be empty'')
      else if rg_Room r = uuid_Nil then Some (New ''room should not be empty'') else None)"

definition Recording_IsReady :: "recording \<Rightarrow> bool" where
  "Recording_IsReady r = (if IsZero (rg_StoppedAt r) then False else Records_IsReady (rg_Records r))"

record record_lookup =
  rl_ID :: uuid
  rl_Room :: uuid
  rl_Key :: string
  rl_Limit :: int
  rl_FromKey :: string

definition record_lookup_zero :: record_lookup where
  "record_lookup_zero = \<lparr>rl_ID = uuid_Nil, rl_Room = uuid_Nil, rl_Key = '''', rl_Limit = 0, rl_FromKey = ''''\<rparr>"

lemma all_finished_iff: "all_finished f is \<longleftrightarrow> set is \<subseteq> f"
  by (induction "is") auto

lemma Records_IsReady_iff:
  "Records_IsReady r \<longleftrightarrow> set (rs_RecordingStarted r) \<subseteq> set (rs_ProcessingFinished r)"
  by (simp add: Records_IsReady_def all_finished_iff)

section \<open>The repository\<close>

abbreviation record_err :: "ekind \<Rightarrow> go_error" where
  "record_err \<equiv> Sentinel P_record"

definition record_collection :: string where "record_collection = ''records''"

definition record_batchLimit :: int where "record_batchLimit = 500"

definition opt_arr :: "string \<Rightarrow> uuid list \<Rightarrow> bdoc" where
  "opt_arr k us = (if us = [] then [] else [(k, BArr (map BUuid us))])"

definition records_enc :: "records \<Rightarrow> bdoc" where
  "records_enc r = opt_arr ''recordingStarted'' (rs_RecordingStarted r) @
     opt_arr ''recordingFinished'' (rs_RecordingFinished r) @
     opt_arr ''processingStarted'' (rs_ProcessingStarted r) @
     opt_arr ''processingFinished'' (rs_ProcessingFinished r)"

definition recording_enc :: "recording \<Rightarrow> bdoc" where
  "recording_enc r = [(''_id'', BUuid (rg_ID r)), (''roomId'', BUuid (rg_Room r)), (''key'', BStr (rg_Key r))] @
     (if rg_Active r then [(''active'', BBool True)] else []) @
     (if Records_IsZero (rg_Records r) then [] else [(''records'', BDoc (records_enc (rg_Records r)))]) @
     [(''startedAt'', BTime (rg_StartedAt r))] @
     (if IsZero (rg_StoppedAt r) then [] else [(''stoppedAt'', BTime (rg_StoppedAt r))]) @
     [(''createdAt'', BTime (rg_CreatedAt r))]"

fun uuids_dec :: "bval list \<Rightarrow> uuid list res" where
  "uuids_dec [] = Inr []"
| "uuids_dec (BUuid u # vs) = bindr (uuids_dec vs) (\<lambda>us. Inr (u # us))"
| "uuids_dec (_ # vs) = Inl EDecode"

definition dec_arr :: "bdoc \<Rightarrow> string \<Rightarrow> uuid list res" where
  "dec_arr d k = (case bget d k of None \<Rightarrow> Inr [] | Some (BArr vs) \<Rightarrow> uuids_dec vs | _ \<Rightarrow> Inl EDecode)"

definition records_dec :: "bdoc \<Rightarrow> records res" where
  "records_dec d = bindr (dec_arr d ''recordingStarted'') (\<lambda>a. bindr (dec_arr d ''recordingFinished'') (\<lambda>b.
     bindr (dec_arr d ''processingStarted'') (\<lambda>c. bindr (dec_arr d ''processingFinished'') (\<lambda>e.
       Inr \<lparr>rs_RecordingStarted = a, rs_RecordingFinished = b, rs_ProcessingStarted = c,
         rs_ProcessingFinished = e\<rparr>))))"

definition recording_dec :: "bdoc \<Rightarrow> recording res" where
  "recording_dec d = bindr (dec_uuid d ''_id'') (\<lambda>i. bindr (dec_uuid d ''roomId'') (\<lambda>r.
     bindr (dec_str d ''key'') (\<lambda>k. bindr (dec_bool d ''active'') (\<lambda>a.
     bindr (case bget d ''records'' of None \<Rightarrow> Inr records_empty | Some (BDoc s) \<Rightarrow> records_dec s | _ \<Rightarrow> Inl EDecode) (\<lambda>rs.
     bindr (dec_time d ''startedAt'') (\<lambda>st. bindr (dec_time d ''stoppedAt'') (\<lambda>sp.
     bindr (dec_time d ''createdAt'') (\<lambda>c.
       Inr \<lparr>rg_ID = i, rg_Room = r, rg_Key = k, rg_Active = a, rg_Records = rs, rg_StartedAt = st,
         rg_StoppedAt = sp, rg_CreatedAt = c\<rparr>))))))))"

lemma uuids_dec_map [simp]: "uuids_dec (map BUuid us) = Inr us"
  by (induction us) simp_all

lemma map_of_opt_arr [simp]:
  "map_of (opt_arr k us) k' = (if us \<noteq> [] \<and> k = k' then Some (BArr (map BUuid us)) else None)"
  by (simp add: opt_arr_def)

lemma records_dec_enc [simp]: "records_dec (records_enc r) = Inr r"
  by (cases r) (simp add: records_dec_def records_enc_def dec_arr_def bget_def map_add_def)

interpretation recordings: codec recording_enc recording_dec
proof
  fix r :: recording
  have "Records_IsZero rs \<Longrightarrow> rs = records_empty" for rs
    by (cases rs) (auto simp: Records_IsZero_def records_empty_def split: if_splits)
  then show "recording_dec (recording_enc r) = Inr r"
    by (cases r) (auto simp: recording_dec_def recording_enc_def dec_defs map_add_def IsZero_def)
qed

text \<open>The filter names the field \<^verbatim>\<open>room\<close>; the struct stores it as \<^verbatim>\<open>roomId\<close>.\<close>

definition start_filter :: "recording \<Rightarrow> mfilter" where
  "start_filter r = [FField ''active'' (FEq (BBool True)), FField ''room'' (FEq (BUuid (rg_Room r)))] @
     (if rg_Key r \<noteq> '''' then [FField ''key'' (FEq (BStr (rg_Key r)))] else [])"

definition FetchOrStart :: "'w mongo \<Rightarrow> time \<Rightarrow> recording \<Rightarrow> 'w \<Rightarrow> 'w \<times> recording res" where
  "FetchOrStart m now r w = (case Recording_Validate r of
      Some e \<Rightarrow> (w, Inl (WrapS (record_err ErrValidation) e))
    | None \<Rightarrow> (let f = start_filter r;
          r' = (if rg_Key r \<noteq> '''' then r else r\<lparr>rg_Key := uuid_String (rg_ID r)\<rparr>);
          r' = r'\<lparr>rg_CreatedAt := mongoNow now, rg_StartedAt := mongoNow now, rg_Active := True\<rparr>
        in case mg_findOneAndUpdate m record_collection f [USetOnInsert (recording_enc r')] True w of
            (w', Inl e) \<Rightarrow> (w', Inl (if IsDuplicateKeyError e then record_err ErrDuplicateEntry else e))
          | (w', Inr d) \<Rightarrow> (w', recording_dec d)))"

definition record_mongoFilter :: "record_lookup \<Rightarrow> mfilter" where
  "record_mongoFilter l =
     (if rl_ID l \<noteq> uuid_Nil then [FField ''_id'' (FEq (BUuid (rl_ID l)))]
      else if rl_FromKey l \<noteq> '''' \<and> rl_Key l = '''' then [FField ''key'' (FGt (BStr (rl_FromKey l)))]
      else []) @
     (if rl_Room l \<noteq> uuid_Nil then [FField ''roomId'' (FEq (BUuid (rl_Room l)))] else []) @
     (if rl_Key l \<noteq> '''' then [FField ''key'' (FEq (BStr (rl_Key l)))] else [])"

definition record_Stop :: "'w mongo \<Rightarrow> time \<Rightarrow> record_lookup \<Rightarrow> 'w \<Rightarrow> 'w \<times> nat res" where
  "record_Stop m now l w =
     (case mg_updateMany m record_collection (record_mongoFilter l @ [FField ''active'' (FEq (BBool True))])
         [USet [(''stoppedAt'', BTime now)], UUnset [''active'']] w of
       (w', Inl e) \<Rightarrow> (w', Inl (if IsDuplicateKeyError e then record_err ErrDuplicateEntry else e))
     | (w', Inr n) \<Rightarrow> (w', Inr n))"

definition each :: "string \<Rightarrow> uuid list \<Rightarrow> (string \<times> bval list) list" where
  "each k us = (if length us \<noteq> 0 then [(k, map BUuid us)] else [])"

definition records_adds :: "records \<Rightarrow> (string \<times> bval list) list" where
  "records_adds r = each ''records.recordingStarted'' (rs_RecordingStarted r) @
     each ''records.recordingFinished'' (rs_RecordingFinished r) @
     each ''records.processingStarted'' (rs_ProcessingStarted r) @
     each ''records.processingFinished'' (rs_ProcessingFinished r)"

definition UpdateRecords :: "'w mongo \<Rightarrow> record_lookup \<Rightarrow> records \<Rightarrow> 'w \<Rightarrow> 'w \<times> recording res" where
  "UpdateRecords m l rs w =
     (if Records_IsZero rs
      then (w, Inl (WrapS (record_err ErrValidation) (New ''records should not be empty'')))
      else (case mg_findOneAndUpdate m record_collection (record_mongoFilter l)
            [UAddToSet (records_adds rs)] False w of
          (w', Inl e) \<Rightarrow> (w', Inl (Wrap ''failed to update recording'' e))
        | (w', Inr d) \<Rightarrow> (w', recording_dec d)))"

definition record_Fetch :: "'w mongo \<Rightarrow> record_lookup \<Rightarrow> 'w \<Rightarrow> 'w \<times> recording list res" where
  "record_Fetch m l = find_decoded m record_collection recording_dec (record_mongoFilter l)
     [(''key'', 1)] (clamp_limit record_batchLimit (rl_Limit l))"

definition record_FetchOne :: "'w mongo \<Rightarrow> record_lookup \<Rightarrow> 'w \<Rightarrow> 'w \<times> recording res" where
  "record_FetchOne m l =
     fetch_one (record_Fetch m l) (record_err ErrNotFound) (record_err ErrAmbiguousLookup)"

section \<open>Rooms\<close>

record room_doc =
  ro_ID :: uuid
  ro_Owner :: uuid
  ro_CreatedAt :: time

definition room_Validate :: "room_doc \<Rightarrow> err" where
  "room_Validate r =
     (if ro_ID r = uuid_Nil then Some (New ''id should not be empty'')
      else if ro_Owner r = uuid_Nil then Some (New ''owner should not be empty'') else None)"

record room_lookup =
  rol_ID :: uuid
  rol_Owner :: uuid
  rol_Limit :: int
  rol_From :: uuid

definition room_lookup_zero :: room_lookup where
  "room_lookup_zero = \<lparr>rol_ID = uuid_Nil, rol_Owner = uuid_Nil, rol_Limit = 0, rol_From = uuid_Nil\<rparr>"

definition room_batchLimit :: int where "room_batchLimit = 100"

definition room_enc :: "room_doc \<Rightarrow> bdoc" where
  "room_enc r = [(''_id'', BUuid (ro_ID r)), (''ownerId'', BUuid (ro_Owner r)), (''createdAt'', BTime (ro_CreatedAt r))]"

definition room_dec :: "bdoc \<Rightarrow> room_doc res" where
  "room_dec d = bindr (dec_uuid d ''_id'') (\<lambda>i. bindr (dec_uuid d ''ownerId'') (\<lambda>ow.
     bindr (dec_time d ''createdAt'') (\<lambda>c. Inr \<lparr>ro_ID = i, ro_Owner = ow, ro_CreatedAt = c\<rparr>)))"

interpretation rooms: codec room_enc room_dec
  by unfold_locales (simp add: room_dec_def room_enc_def dec_defs)

definition room_Create :: "'w mongo \<Rightarrow> time \<Rightarrow> room_doc list \<Rightarrow> 'w \<Rightarrow> 'w \<times> room_doc list res" where
  "room_Create m now = create_batch m ''rooms'' room_enc room_batchLimit ''trying to create more than 100''
     (\<lambda>r. case room_Validate r of
         Some e \<Rightarrow> Inl (WrapS (Sentinel P_room ErrValidation) e)
       | None \<Rightarrow> Inr (r\<lparr>ro_CreatedAt := mongoNow now\<rparr>)) None"

definition room_Fetch :: "'w mongo \<Rightarrow> room_lookup \<Rightarrow> 'w \<Rightarrow> 'w \<times> room_doc list res" where
  "room_Fetch m l = find_decoded m ''rooms'' room_dec
     ((if rol_ID l \<noteq> uuid_Nil then [FField ''_id'' (FEq (BUuid (rol_ID l)))]
       else if rol_From l \<noteq> uuid_Nil then [FField ''_id'' (FGt (BUuid (rol_From l)))] else []) @
      (if rol_Owner l \<noteq> uuid_Nil then [FField ''ownerId'' (FEq (BUuid (rol_Owner l)))] else []))
     [(''_id'', 1)] (clamp_limit room_batchLimit (rol_Limit l))"

definition room_FetchOne :: "'w mongo \<Rightarrow> room_lookup \<Rightarrow> 'w \<Rightarrow> 'w \<times> room_doc res" where
  "room_FetchOne m l =
     fetch_one (room_Fetch m l) (Sentinel P_room ErrNotFound) (Sentinel P_room ErrUnexpectedResult)"

section \<open>Converging updates\<close>

text \<open>
  Updates whose observable effect does not depend on order or repetition: what a set of
  jobs that can be redelivered and reordered needs of the operation they perform.
\<close>

locale convergent =
  fixes upd :: "'u \<Rightarrow> 's \<Rightarrow> 's" and obs :: "'s \<Rightarrow> 'o"
  assumes comm: "obs (upd a (upd b s)) = obs (upd b (upd a s))"
    and idem: "obs (upd a (upd a s)) = obs (upd a s)"
    and cong: "obs s = obs t \<Longrightarrow> obs (upd a s) = obs (upd a t)"
begin

lemma fold_cong_obs: "obs s = obs t \<Longrightarrow> obs (fold upd us s) = obs (fold upd us t)"
proof (induction us arbitrary: s t)
  case (Cons a us)
  show ?case
    using Cons.IH [OF cong [OF Cons.prems]] by simp
qed simp

lemma move_in: "obs (fold upd us (upd a s)) = obs (upd a (fold upd us s))"
proof (induction us arbitrary: s)
  case (Cons b us)
  have "obs (fold upd us (upd b (upd a s))) = obs (fold upd us (upd a (upd b s)))"
    by (rule fold_cong_obs) (rule comm)
  with Cons show ?case by simp
qed simp

lemma absorb: "a \<in> set us \<Longrightarrow> obs (fold upd us (upd a s)) = obs (fold upd us s)"
proof (induction us arbitrary: s)
  case (Cons b us)
  show ?case
  proof (cases "a = b")
    case True
    then show ?thesis
      using fold_cong_obs [OF idem [of b s]] by simp
  next
    case False
    with Cons.prems have "obs (fold upd us (upd a (upd b s))) = obs (fold upd us (upd b s))"
      by (intro Cons.IH) simp
    moreover have "obs (fold upd us (upd b (upd a s))) = obs (fold upd us (upd a (upd b s)))"
      by (rule fold_cong_obs) (rule comm)
    ultimately show ?thesis by simp
  qed
qed simp

lemma absorb_all: "set vs \<subseteq> set us \<Longrightarrow> obs (fold upd us (fold upd vs s)) = obs (fold upd us s)"
  by (induction vs arbitrary: s) (auto simp: absorb)

lemma move_all: "obs (fold upd us (fold upd vs s)) = obs (fold upd vs (fold upd us s))"
proof (induction vs arbitrary: s)
  case (Cons a vs)
  have "obs (fold upd vs (fold upd us (upd a s))) = obs (fold upd vs (upd a (fold upd us s)))"
    by (rule fold_cong_obs) (rule move_in)
  with Cons show ?case by simp
qed simp

lemma converges:
  assumes "set us = set vs"
  shows "obs (fold upd us s) = obs (fold upd vs s)"
proof -
  have "obs (fold upd us s) = obs (fold upd us (fold upd vs s))"
    using absorb_all [of vs us s] assms by simp
  also have "\<dots> = obs (fold upd vs (fold upd us s))"
    by (rule move_all)
  also have "\<dots> = obs (fold upd vs s)"
    using absorb_all [of us vs s] assms by simp
  finally show ?thesis .
qed

end

text \<open>What \<^verbatim>\<open>$addToSet\<close> makes of the four sets.\<close>

definition records_merge :: "records \<Rightarrow> records \<Rightarrow> records" where
  "records_merge u r = \<lparr>rs_RecordingStarted = fold add_new (rs_RecordingStarted u) (rs_RecordingStarted r),
     rs_RecordingFinished = fold add_new (rs_RecordingFinished u) (rs_RecordingFinished r),
     rs_ProcessingStarted = fold add_new (rs_ProcessingStarted u) (rs_ProcessingStarted r),
     rs_ProcessingFinished = fold add_new (rs_ProcessingFinished u) (rs_ProcessingFinished r)\<rparr>"

definition records_sets :: "records \<Rightarrow> uuid set list" where
  "records_sets r = map set [rs_RecordingStarted r, rs_RecordingFinished r, rs_ProcessingStarted r,
     rs_ProcessingFinished r]"

lemma set_fold_add_new: "set (fold add_new us vs) = set us \<union> set vs"
  by (induction us arbitrary: vs) (auto simp: add_new_def)

interpretation track_updates: convergent records_merge records_sets
  by unfold_locales (auto simp: records_merge_def records_sets_def set_fold_add_new)

lemma ready_sets: "records_sets r = records_sets s \<Longrightarrow> Records_IsReady r = Records_IsReady s"
  by (auto simp: records_sets_def Records_IsReady_iff)

section \<open>Properties\<close>


definition finished_track :: "uuid \<Rightarrow> records" where
  "finished_track i = records_empty\<lparr>rs_ProcessingFinished := [i]\<rparr>"

definition started_track :: "uuid \<Rightarrow> records" where
  "started_track i = records_empty\<lparr>rs_RecordingStarted := [i]\<rparr>"


lemma records_path:
  "split_on CHR ''.'' ''records.recordingStarted'' = [''records'', ''recordingStarted'']"
  "split_on CHR ''.'' ''records.recordingFinished'' = [''records'', ''recordingFinished'']"
  "split_on CHR ''.'' ''records.processingStarted'' = [''records'', ''processingStarted'']"
  "split_on CHR ''.'' ''records.processingFinished'' = [''records'', ''processingFinished'']"
  by simp_all

text \<open>The effect of an addition on the decoded sets of a document.\<close>

definition stage_arr :: "string \<Rightarrow> bdoc \<Rightarrow> bval list" where
  "stage_arr k d = arr_at k (sub_doc ''records'' d)"

lemma stage_arr_add:
  assumes "split_on CHR ''.'' p = [''records'', k]"
  shows "stage_arr k' (add_at p vs d) = (if k' = k then fold add_new vs (stage_arr k d) else stage_arr k' d)"
    and "k2 \<noteq> ''records'' \<Longrightarrow> bget (add_at p vs d) k2 = bget d k2"
  using assms
  by (simp_all add: add_at_def Let_def stage_arr_def sub_doc_def arr_at_def bget_set_fields bget_set_fields)

lemma stage_arr_each:
  assumes "split_on CHR ''.'' p = [''records'', k]"
  shows "stage_arr k' (fold (\<lambda>(p, vs). add_at p vs) (each p us) d) =
      (if k' = k then fold add_new (map BUuid us) (stage_arr k d) else stage_arr k' d)"
    and "k2 \<noteq> ''records'' \<Longrightarrow> bget (fold (\<lambda>(p, vs). add_at p vs) (each p us) d) k2 = bget d k2"
  using stage_arr_add [OF assms] by (simp_all add: each_def)

lemma stage_arr_adds:
  "stage_arr k (apply_update [UAddToSet (records_adds rs)] d) =
     fold add_new (map BUuid (if k = ''recordingStarted'' then rs_RecordingStarted rs
       else if k = ''recordingFinished'' then rs_RecordingFinished rs
       else if k = ''processingStarted'' then rs_ProcessingStarted rs
       else if k = ''processingFinished'' then rs_ProcessingFinished rs else [])) (stage_arr k d)"
  "k2 \<noteq> ''records'' \<Longrightarrow> bget (apply_update [UAddToSet (records_adds rs)] d) k2 = bget d k2"
  by (simp_all add: records_adds_def stage_arr_each [OF records_path(1)] stage_arr_each [OF records_path(2)]
      stage_arr_each [OF records_path(3)] stage_arr_each [OF records_path(4)])

lemma uuids_dec_set: "uuids_dec vs = Inr us \<Longrightarrow> vs = map BUuid us"
  by (induction vs arbitrary: us rule: uuids_dec.induct) (auto simp: bindr_def split: sum.splits)

lemma recording_dec_stages:
  assumes "recording_dec d = Inr r"
  shows "stage_arr ''recordingStarted'' d = map BUuid (rs_RecordingStarted (rg_Records r))"
    "stage_arr ''recordingFinished'' d = map BUuid (rs_RecordingFinished (rg_Records r))"
    "stage_arr ''processingStarted'' d = map BUuid (rs_ProcessingStarted (rg_Records r))"
    "stage_arr ''processingFinished'' d = map BUuid (rs_ProcessingFinished (rg_Records r))"
proof -
  have "(case bget d ''records'' of None \<Rightarrow> Inr records_empty | Some (BDoc s) \<Rightarrow> records_dec s
      | _ \<Rightarrow> Inl EDecode) = Inr (rg_Records r)"
    using assms by (auto simp: recording_dec_def bindr_def split: sum.splits)
  then consider "bget d ''records'' = None" "rg_Records r = records_empty"
    | s where "bget d ''records'' = Some (BDoc s)" "records_dec s = Inr (rg_Records r)"
    by (auto split: option.splits bval.splits)
  then have "stage_arr ''recordingStarted'' d = map BUuid (rs_RecordingStarted (rg_Records r)) \<and>
    stage_arr ''recordingFinished'' d = map BUuid (rs_RecordingFinished (rg_Records r)) \<and>
    stage_arr ''processingStarted'' d = map BUuid (rs_ProcessingStarted (rg_Records r)) \<and>
    stage_arr ''processingFinished'' d = map BUuid (rs_ProcessingFinished (rg_Records r))"
  proof cases
    case 1
    then show ?thesis
      by (simp add: stage_arr_def sub_doc_def arr_at_def bget_def records_empty_def)
  next
    case 2
    have "arr_at k s = map BUuid us" if "dec_arr s k = Inr us" for k us
      using that uuids_dec_set by (auto simp: dec_arr_def arr_at_def split: option.splits bval.splits)
    with 2 show ?thesis
      by (cases "rg_Records r") (auto simp: records_dec_def bindr_def stage_arr_def sub_doc_def split: sum.splits)
  qed
  then show "stage_arr ''recordingStarted'' d = map BUuid (rs_RecordingStarted (rg_Records r))"
    "stage_arr ''recordingFinished'' d = map BUuid (rs_RecordingFinished (rg_Records r))"
    "stage_arr ''processingStarted'' d = map BUuid (rs_ProcessingStarted (rg_Records r))"
    "stage_arr ''processingFinished'' d = map BUuid (rs_ProcessingFinished (rg_Records r))"
    by blast+
qed

lemma stage_arr_cong: "(\<And>k. bget d k = bget d' k) \<Longrightarrow> stage_arr k d = stage_arr k d'"
  by (simp add: stage_arr_def sub_doc_def)

lemma recording_dec_StoppedAt: "recording_dec d = Inr r \<Longrightarrow> dec_time d ''stoppedAt'' = Inr (rg_StoppedAt r)"
  by (auto simp: recording_dec_def bindr_def split: sum.splits)

lemma fold_add_new_BUuid: "set (fold add_new (map BUuid us) (map BUuid vs)) = BUuid ` (set us \<union> set vs)"
  by (simp add: set_fold_add_new image_Un)

lemma UpdateRecords_Inr:
  assumes "mongo_laws m docs" and "UpdateRecords m l rs w = (w', Inr r)"
  obtains as d d' bs where "\<not> Records_IsZero rs" "docs w record_collection = as @ d # bs"
    "docs w' record_collection = as @ d' # bs" "matches (record_mongoFilter l) d" "recording_dec d' = Inr r"
    "\<forall>k. bget d' k = bget (apply_update [UAddToSet (records_adds rs)] d) k"
proof -
  from assms(2) obtain d' where nz: "\<not> Records_IsZero rs"
    and f: "mg_findOneAndUpdate m record_collection (record_mongoFilter l) [UAddToSet (records_adds rs)] False w
      = (w', Inr d')" and dec: "recording_dec d' = Inr r"
    by (auto simp: UpdateRecords_def split: if_splits prod.splits sum.splits)
  from update_one_lawD(3) [OF assms(1) _ f refl] nz dec that show thesis
    by auto
qed

text \<open>
  \<^verbatim>\<open>UpdateRecords\<close> refines the set additions: the recording it returns is the stored one it
  selected with its four sets united with the given ones, nothing of them lost, and the
  other recordings are untouched; an empty update is refused.
\<close>

theorem UpdateRecords_unites:
  assumes "mongo_laws m docs" and "UpdateRecords m l rs w = (w', Inr r)"
  shows "\<not> Records_IsZero rs \<and> (\<exists>as d d' bs. docs w record_collection = as @ d # bs \<and>
     docs w' record_collection = as @ d' # bs \<and> matches (record_mongoFilter l) d \<and>
     (\<forall>r0. recording_dec d = Inr r0 \<longrightarrow>
        records_sets (rg_Records r) = records_sets (records_merge rs (rg_Records r0)) \<and>
        rg_StoppedAt r = rg_StoppedAt r0))"
proof -
  obtain as d d' bs where nz: "\<not> Records_IsZero rs" and dec: "recording_dec d' = Inr r"
    and d: "docs w record_collection = as @ d # bs" "matches (record_mongoFilter l) d"
      "docs w' record_collection = as @ d' # bs"
    and fields: "\<forall>k. bget d' k = bget (apply_update [UAddToSet (records_adds rs)] d) k"
    using UpdateRecords_Inr [OF assms] by metis
  have "records_sets (rg_Records r) = records_sets (records_merge rs (rg_Records r0)) \<and>
      rg_StoppedAt r = rg_StoppedAt r0" if r0: "recording_dec d = Inr r0" for r0
  proof
    have st: "stage_arr k d' = stage_arr k (apply_update [UAddToSet (records_adds rs)] d)" for k
      using fields by (intro stage_arr_cong) blast
    have "map BUuid (rs_RecordingStarted (rg_Records r)) =
        fold add_new (map BUuid (rs_RecordingStarted rs)) (map BUuid (rs_RecordingStarted (rg_Records r0)))"
      "map BUuid (rs_RecordingFinished (rg_Records r)) =
        fold add_new (map BUuid (rs_RecordingFinished rs)) (map BUuid (rs_RecordingFinished (rg_Records r0)))"
      "map BUuid (rs_ProcessingStarted (rg_Records r)) =
        fold add_new (map BUuid (rs_ProcessingStarted rs)) (map BUuid (rs_ProcessingStarted (rg_Records r0)))"
      "map BUuid (rs_ProcessingFinished (rg_Records r)) =
        fold add_new (map BUuid (rs_ProcessingFinished rs)) (map BUuid (rs_ProcessingFinished (rg_Records r0)))"
      unfolding recording_dec_stages [OF dec, symmetric] recording_dec_stages [OF r0, symmetric] st stage_arr_adds(1)
      by simp_all
    then have "BUuid ` set (rs_RecordingStarted (rg_Records r)) =
        BUuid ` (set (rs_RecordingStarted rs) \<union> set (rs_RecordingStarted (rg_Records r0)))"
      "BUuid ` set (rs_RecordingFinished (rg_Records r)) =
        BUuid ` (set (rs_RecordingFinished rs) \<union> set (rs_RecordingFinished (rg_Records r0)))"
      "BUuid ` set (rs_ProcessingStarted (rg_Records r)) =
        BUuid ` (set (rs_ProcessingStarted rs) \<union> set (rs_ProcessingStarted (rg_Records r0)))"
      "BUuid ` set (rs_ProcessingFinished (rg_Records r)) =
        BUuid ` (set (rs_ProcessingFinished rs) \<union> set (rs_ProcessingFinished (rg_Records r0)))"
      using fold_add_new_BUuid by (metis list.set_map)+
    moreover have "inj BUuid"
      by (simp add: inj_on_def)
    ultimately show "records_sets (rg_Records r) = records_sets (records_merge rs (rg_Records r0))"
      by (simp add: records_sets_def records_merge_def set_fold_add_new inj_image_eq_iff)
    have "dec_time d' ''stoppedAt'' = dec_time d ''stoppedAt''"
      using fields stage_arr_adds(2) by (simp add: dec_time_def del: apply_update.simps)
    then show "rg_StoppedAt r = rg_StoppedAt r0"
      using recording_dec_StoppedAt [OF dec] recording_dec_StoppedAt [OF r0] by simp
  qed
  with nz d show ?thesis by blast
qed

lemma matches_cong: "(\<And>k. bget d k = bget d' k) \<Longrightarrow> matches f d = matches f d'"
proof -
  assume *: "\<And>k. bget d k = bget d' k"
  have "filt_holds c d = filt_holds c d'" for c
    using * by (cases c) simp_all
  then show ?thesis
    by (simp add: matches_def)
qed

lemma start_filter_matches:
  "matches (start_filter r) d \<longleftrightarrow> bget d ''active'' = Some (BBool True) \<and>
     bget d ''room'' = Some (BUuid (rg_Room r)) \<and> (rg_Key r = '''' \<or> bget d ''key'' = Some (BStr (rg_Key r)))"
  by (simp add: start_filter_def)

text \<open>After a successful start a document matches the filter of the start.\<close>

lemma FetchOrStart_found:
  assumes "mongo_laws m docs" and "FetchOrStart m now r w = (w', Inr g)"
  shows "\<exists>d' \<in> set (docs w' record_collection). matches (start_filter r) d' \<and> recording_dec d' = Inr g"
    and "(\<exists>d \<in> set (docs w record_collection). matches (start_filter r) d) \<Longrightarrow>
      length (docs w' record_collection) = length (docs w record_collection)"
proof -
  define r' where "r' = (if rg_Key r \<noteq> '''' then r else r\<lparr>rg_Key := uuid_String (rg_ID r)\<rparr>)
    \<lparr>rg_CreatedAt := mongoNow now, rg_StartedAt := mongoNow now, rg_Active := True\<rparr>"
  obtain d' where f: "mg_findOneAndUpdate m record_collection (start_filter r)
      [USetOnInsert (recording_enc r')] True w = (w', Inr d')" and dec: "recording_dec d' = Inr g"
    using assms(2) unfolding r'_def
    by (auto simp: FetchOrStart_def Let_def split: option.splits prod.splits sum.splits)
  have ins: "bget (recording_enc r') ''active'' = Some (BBool True)" "bget (recording_enc r') ''room'' = None"
    "rg_Key r \<noteq> '''' \<Longrightarrow> bget (recording_enc r') ''key'' = Some (BStr (rg_Key r))"
    by (auto simp: recording_enc_def r'_def bget_def map_add_def)
  have eqs: "bget (eq_fields (start_filter r)) ''room'' = Some (BUuid (rg_Room r))"
    by (simp add: start_filter_def bget_def)
  consider (found) as d bs where "docs w record_collection = as @ d # bs" "matches (start_filter r) d"
      "\<forall>k. bget d' k = bget d k" "docs w' record_collection = as @ d' # bs"
    | (new) "\<forall>d \<in> set (docs w record_collection). \<not> matches (start_filter r) d"
      "\<forall>k. bget d' k = bget (upserted (start_filter r) (recording_enc r') []) k"
      "docs w' record_collection = docs w record_collection @ [d']"
    using upsert_lawD(3) [OF assms(1) _ f refl] by auto
  then have "d' \<in> set (docs w' record_collection) \<and> matches (start_filter r) d' \<and>
    ((\<exists>d \<in> set (docs w record_collection). matches (start_filter r) d) \<longrightarrow>
      length (docs w' record_collection) = length (docs w record_collection))"
  proof cases
    case found
    then show ?thesis
      using matches_cong [of d' d "start_filter r"] by simp
  next
    case new
    have "matches (start_filter r) d'"
      using new(2) ins eqs
      by (cases "rg_Key r = ''''") (simp_all add: start_filter_matches bget_upserted)
    with new show ?thesis by simp
  qed
  with dec show "\<exists>d' \<in> set (docs w' record_collection). matches (start_filter r) d' \<and> recording_dec d' = Inr g"
    and "(\<exists>d \<in> set (docs w record_collection). matches (start_filter r) d) \<Longrightarrow>
      length (docs w' record_collection) = length (docs w record_collection)"
    by blast+
qed

text \<open>
  Starting a recording is idempotent: once a start for a room (and key) succeeded, a
  redelivered or concurrent start, with a fresh id of its own, adds no second recording.
\<close>

theorem FetchOrStart_idempotent:
  assumes "mongo_laws m docs" and "FetchOrStart m t1 a w = (w1, Inr ga)"
    and "FetchOrStart m t2 b w1 = (w2, Inr gb)"
    and "rg_Room b = rg_Room a" and "rg_Key b = '''' \<or> rg_Key b = rg_Key a"
  shows "length (docs w2 record_collection) = length (docs w1 record_collection)"
proof (rule FetchOrStart_found(2) [OF assms(1,3)])
  from FetchOrStart_found(1) [OF assms(1,2)] assms(4,5)
  show "\<exists>d \<in> set (docs w1 record_collection). matches (start_filter b) d"
    by (auto simp: start_filter_matches)
qed

text \<open>A unique index: no two documents agree on all its fields, a missing one counting as null.\<close>

definition unique_on :: "string list \<Rightarrow> bdoc list \<Rightarrow> bool" where
  "unique_on ks ds = distinct (map (\<lambda>d. map (bget d) ks) ds)"

text \<open>
  Under the unique index on \<^verbatim>\<open>(roomId, active)\<close> that the migration creates, a room can be
  stopped only once: while a stopped recording of the room exists, \<^verbatim>\<open>Stop\<close> of another active
  recording of that room never succeeds, because unsetting \<^verbatim>\<open>active\<close> would give both the
  same index key.
\<close>

theorem second_stop_fails:
  assumes "mongo_laws m docs" and "unique_on [''roomId'', ''active''] (docs w' record_collection)"
    and "record_Stop m now l w = (w', r)"
    and "old \<in> set (docs w record_collection)" and "bget old ''active'' = None"
    and "cur \<in> set (docs w record_collection)" and "matches (record_mongoFilter l) cur"
    and "bget cur ''active'' = Some (BBool True)" and "bget old ''roomId'' = bget cur ''roomId''"
  shows "\<exists>e. r = Inl e"
proof (rule ccontr)
  let ?f = "record_mongoFilter l @ [FField ''active'' (FEq (BBool True))]"
  let ?us = "[USet [(''stoppedAt'', BTime now)], UUnset [''active'']]"
  let ?ds = "docs w record_collection" and ?ds' = "docs w' record_collection"
  assume "\<not> (\<exists>e. r = Inl e)"
  then obtain n where upd: "mg_updateMany m record_collection ?f ?us w = (w', Inr n)"
    using assms(3) by (cases r) (auto simp: record_Stop_def split: prod.splits sum.splits)
  have pl: "plain_update ?us" by simp
  note all2 = update_many_lawD(2) [OF assms(1) pl upd] update_many_lawD(3) [OF assms(1) pl upd refl]
  obtain i where i: "i < length ?ds" "?ds ! i = old"
    using assms(4) by (auto simp: in_set_conv_nth)
  obtain j where j: "j < length ?ds" "?ds ! j = cur"
    using assms(6) by (auto simp: in_set_conv_nth)
  have len: "length ?ds' = length ?ds"
    using list_all2_lengthD [OF all2(1)] by simp
  have "\<not> matches ?f old"
    using assms(5) by simp
  then have i': "?ds' ! i = old"
    using list_all2_nthD [OF all2(1) i(1)] i(2) by auto
  have "matches ?f cur"
    using assms(7,8) by simp
  then have j': "\<forall>k. bget (?ds' ! j) k = bget (apply_update ?us cur) k"
    using list_all2_nthD [OF all2(2) j(1)] j(2) by auto
  have "bget (filter (\<lambda>(k, _). k \<noteq> a) d) k = (if k = a then None else bget d k)" for a k d
    by (induction d) (auto simp: bget_def)
  then have "bget (?ds' ! j) ''active'' = None" "bget (?ds' ! j) ''roomId'' = bget cur ''roomId''"
    using j' by (simp_all add: bget_set_fields)
  then have "map (bget (?ds' ! j)) [''roomId'', ''active''] = map (bget (?ds' ! i)) [''roomId'', ''active'']"
    using i' assms(5,9) by simp
  moreover have "i \<noteq> j"
    using i j assms(5,8) by auto
  ultimately show False
    using assms(2) i(1) j(1) len by (auto simp: unique_on_def distinct_conv_nth)
qed

section \<open>Runs\<close>

text \<open>The store in memory with the index of the migration on the collection.\<close>

definition mem_indexed :: "mem mongo" where
  "mem_indexed = mem_mongo\<lparr>mg_updateMany := (\<lambda>c f us w.
     let (w', r) = mg_updateMany mem_mongo c f us w in
     if unique_on [''roomId'', ''active''] (w' c) then (w', r) else (w, Inl (Sentinel P_mongo DuplicateKey)))\<rparr>"

lemma mem_indexed_laws: "mongo_laws mem_indexed (\<lambda>w. w)"
proof -
  have laws: "find_law mem_mongo (\<lambda>w. w)" "delete_law mem_mongo (\<lambda>w. w)" "insert_law mem_mongo (\<lambda>w. w)"
    "update_one_law mem_mongo (\<lambda>w. w)" "upsert_law mem_mongo (\<lambda>w. w)"
    using mem_mongo_laws by (simp_all add: mongo_laws_def)
  then have "find_law mem_indexed (\<lambda>w. w)" "delete_law mem_indexed (\<lambda>w. w)" "insert_law mem_indexed (\<lambda>w. w)"
    "update_one_law mem_indexed (\<lambda>w. w)" "upsert_law mem_indexed (\<lambda>w. w)"
    by (simp_all add: mem_indexed_def find_law_def delete_law_def insert_law_def update_one_law_def upsert_law_def)
  moreover have "update_many_law mem_indexed (\<lambda>w. w)"
    by (auto simp: update_many_law_def mem_indexed_def mem_mongo_def Let_def list_all2_conv_all_nth
        split: if_splits)
  ultimately show ?thesis
    by (simp add: mongo_laws_def)
qed

definition two_recordings :: mem where
  "two_recordings = (\<lambda>_. [])(record_collection := map recording_enc
     [recording_zero\<lparr>rg_ID := 1, rg_Room := 5, rg_Key := ''a'', rg_StoppedAt := 3\<rparr>,
      recording_zero\<lparr>rg_ID := 2, rg_Room := 5, rg_Key := ''b'', rg_Active := True\<rparr>])"

theorem second_stop_fails_witness:
  "snd (record_Stop mem_indexed 9 (record_lookup_zero\<lparr>rl_ID := 2\<rparr>) two_recordings) =
     Inl (record_err ErrDuplicateEntry)"
proof -
  have st: "record_Stop mem_indexed 9 (record_lookup_zero\<lparr>rl_ID := 2\<rparr>) two_recordings =
      (two_recordings, Inl (record_err ErrDuplicateEntry))"
    by (simp add: record_Stop_def mem_indexed_def mem_mongo_def two_recordings_def recording_enc_def
        recording_zero_def record_mongoFilter_def record_lookup_zero_def bget_def unique_on_def
        Records_IsZero_def records_empty_def IsZero_def time_zero_def uuid_Nil_def set_fields_def
        IsDuplicateKeyError_def)
  have "\<exists>e. Inl (record_err ErrDuplicateEntry) = (Inl e :: nat res)"
    by (rule second_stop_fails [OF mem_indexed_laws _ st, where old = "two_recordings record_collection ! 0"
        and cur = "two_recordings record_collection ! 1"])
      (simp_all add: two_recordings_def recording_enc_def recording_zero_def record_mongoFilter_def
        record_lookup_zero_def bget_def unique_on_def Records_IsZero_def records_empty_def IsZero_def
        time_zero_def uuid_Nil_def)
  with st show ?thesis by simp
qed

theorem FetchOrStart_idempotent_witness:
  "\<exists>w1 g1 w2 g2. FetchOrStart mem_mongo 4 (recording_zero\<lparr>rg_ID := 3, rg_Room := 6\<rparr>) two_recordings = (w1, Inr g1) \<and>
     FetchOrStart mem_mongo 5 (recording_zero\<lparr>rg_ID := 4, rg_Room := 6\<rparr>) w1 = (w2, Inr g2) \<and>
     length (w2 record_collection) = length (w1 record_collection)"
proof -
  have "\<exists>w1 g1 w2 g2. FetchOrStart mem_mongo 4 (recording_zero\<lparr>rg_ID := 3, rg_Room := 6\<rparr>) two_recordings = (w1, Inr g1) \<and>
     FetchOrStart mem_mongo 5 (recording_zero\<lparr>rg_ID := 4, rg_Room := 6\<rparr>) w1 = (w2, Inr g2)"
    by (simp add: FetchOrStart_def Recording_Validate_def start_filter_def mem_mongo_def two_recordings_def
        recording_enc_def recording_dec_def recording_zero_def dec_defs Records_IsZero_def records_empty_def IsZero_def
        time_zero_def uuid_Nil_def upserted_def set_fields_def map_add_def Let_def)
  then obtain w1 g1 w2 g2
    where 1: "FetchOrStart mem_mongo 4 (recording_zero\<lparr>rg_ID := 3, rg_Room := 6\<rparr>) two_recordings = (w1, Inr g1)"
      and 2: "FetchOrStart mem_mongo 5 (recording_zero\<lparr>rg_ID := 4, rg_Room := 6\<rparr>) w1 = (w2, Inr g2)"
    by blast
  have "length (w2 record_collection) = length (w1 record_collection)"
    by (rule FetchOrStart_idempotent [OF mem_mongo_laws 1 2]) (simp_all add: recording_zero_def)
  with 1 2 show ?thesis by blast
qed

theorem UpdateRecords_unites_witness:
  "\<exists>w' r. UpdateRecords mem_mongo (record_lookup_zero\<lparr>rl_ID := 2\<rparr>) (started_track 7) two_recordings = (w', Inr r) \<and>
     length (w' record_collection) = 2"
proof -
  have "\<exists>w' r. UpdateRecords mem_mongo (record_lookup_zero\<lparr>rl_ID := 2\<rparr>) (started_track 7) two_recordings = (w', Inr r)"
    by (simp add: UpdateRecords_def started_track_def records_adds_def each_def record_mongoFilter_def
        record_lookup_zero_def mem_mongo_def two_recordings_def recording_enc_def recording_dec_def
        recording_zero_def dec_defs Records_IsZero_def records_empty_def IsZero_def time_zero_def uuid_Nil_def
        add_at_def Let_def sub_doc_def arr_at_def records_path set_fields_def add_new_def records_dec_def dec_arr_def
        map_add_def)
  then obtain w' r where u: "UpdateRecords mem_mongo (record_lookup_zero\<lparr>rl_ID := 2\<rparr>) (started_track 7) two_recordings
      = (w', Inr r)"
    by blast
  from UpdateRecords_unites [OF mem_mongo_laws u] obtain as d d' bs
    where "two_recordings record_collection = as @ d # bs" "w' record_collection = as @ d' # bs"
    by blast
  then have "length (w' record_collection) = length (two_recordings record_collection)"
    by simp
  with u show ?thesis
    by (simp add: two_recordings_def)
qed

end
