(* ===== verification/Steps.thy ===== *)
theory Steps
  imports Main
begin

text \<open>
  Runs of a step relation, shared by the concurrent components (\<open>Shared_Watcher\<close>,
  \<open>Tracker\<close>).  The locale \<open>stable\<close> is the contract of an invariant: every step keeps it.  A
  component interprets it once for its own relation, and the invariant then holds along
  every run.
\<close>

inductive reach :: "('s \<Rightarrow> 's \<Rightarrow> bool) \<Rightarrow> 's \<Rightarrow> 's \<Rightarrow> bool" for step s where
  here: "reach step s s"
| more: "reach step s t \<Longrightarrow> step t u \<Longrightarrow> reach step s u"

lemma reach_trans: "reach step t u \<Longrightarrow> reach step s t \<Longrightarrow> reach step s u"
  by (induction rule: reach.induct) (auto intro: reach.more)

lemma reach_one: "step s t \<Longrightarrow> reach step s t"
  by (rule reach.more [OF reach.here])

locale stable =
  fixes step :: "'s \<Rightarrow> 's \<Rightarrow> bool" and inv :: "'s \<Rightarrow> bool"
  assumes keeps: "inv s \<Longrightarrow> step s t \<Longrightarrow> inv t"
begin

lemma always: "reach step s t \<Longrightarrow> inv s \<Longrightarrow> inv t"
  by (induction rule: reach.induct) (auto intro: keeps)

text \<open>A second property that holds along with the invariant.\<close>

lemma along:
  assumes "\<And>s t. inv s \<Longrightarrow> P s \<Longrightarrow> step s t \<Longrightarrow> P t"
  shows "reach step s t \<Longrightarrow> inv s \<Longrightarrow> P s \<Longrightarrow> P t"
  by (induction rule: reach.induct) (auto intro: assms always)

end

end
