(* ===== verification/Tracker.thy ===== *)
theory Tracker
  imports Prelude Steps
begin

text \<open>
  The tracker runtime of \<^verbatim>\<open>services/tracker/tracker.go\<close>: at most one tracker per room and role,
  started, prolonged and stopped by the rpc handlers, and closed by the GC cycle when it is
  expired.  Entries live in a heap that only grows; a step is a section under
  \<^verbatim>\<open>Runtime.mutex\<close> or under the lock of an entry.  \<^verbatim>\<open>newTracker\<close> may fail or succeed at will.

  The lemmas show that no tracker is lost or closed twice, the exact value of the wait group
  \<^verbatim>\<open>trackersClosed\<close>, and what that and the lock kept by \<^verbatim>\<open>StopTracker\<close> mean for the shutdown.
\<close>

section \<open>Entries\<close>

datatype status = StatusInit | StatusLive | StatusClosing | StatusClosed | StatusError

text \<open>\<open>te_opened\<close> and \<open>te_closed\<close> count the trackers created for the entry and closed by it.\<close>

record tracker_entry =
  te_status :: status
  te_expireAt :: time
  te_startedAt :: time
  te_tracker :: bool \<comment> \<open>the field is not nil\<close>
  te_cancelled :: bool
  te_opened :: nat
  te_closed :: nat

record tracker_state =
  ts_AlreadyExists :: bool
  ts_StartedAt :: time
  ts_ExpiresAt :: time

definition new_entry :: "time \<Rightarrow> tracker_entry" where
  "new_entry expireAt = \<lparr>te_status = StatusInit, te_expireAt = expireAt, te_startedAt = time_zero,
     te_tracker = False, te_cancelled = False, te_opened = 0, te_closed = 0\<rparr>"

definition entry_state :: "bool \<Rightarrow> tracker_entry \<Rightarrow> tracker_state" where
  "entry_state exists e = \<lparr>ts_AlreadyExists = exists, ts_StartedAt = te_startedAt e, ts_ExpiresAt = te_expireAt e\<rparr>"

text \<open>The part of \<^verbatim>\<open>StartTracker\<close> under the lock of the entry; \<open>up\<close> is the error of \<^verbatim>\<open>newTracker\<close>.\<close>

definition start_entry :: "err \<Rightarrow> time \<Rightarrow> tracker_entry \<Rightarrow> tracker_entry \<times> tracker_state res" where
  "start_entry up now e =
     (if te_status e = StatusLive then (e, Inr (entry_state True e))
      else (case up of
          Some x \<Rightarrow> (e\<lparr>te_status := StatusError\<rparr>, Inl x)
        | None \<Rightarrow> (let e' = e\<lparr>te_tracker := True, te_startedAt := now, te_status := StatusLive,
              te_opened := te_opened e + 1\<rparr> in (e', Inr (entry_state False e')))))"

text \<open>
  The goroutine of \<^verbatim>\<open>closeTrackers\<close>: the new entry and whether \<^verbatim>\<open>Done\<close> was called, or \<open>None\<close>
  when \<^verbatim>\<open>entry.tracker\<close> is nil.
\<close>

definition close_entry :: "tracker_entry \<Rightarrow> (tracker_entry \<times> bool) option" where
  "close_entry e =
     (if te_status e \<in> {StatusError, StatusClosing, StatusClosed} then Some (e, False)
      else if \<not> te_tracker e then None
      else Some (e\<lparr>te_status := StatusClosed, te_cancelled := True, te_closed := te_closed e + 1\<rparr>, True))"

section \<open>The runtime\<close>

type_synonym tracker_key = "uuid \<times> string"

text \<open>
  \<open>rt_stuck\<close>: \<^verbatim>\<open>Runtime.mutex\<close> is locked by a call that has returned.  \<open>rt_starting\<close> are the
  calls of \<^verbatim>\<open>StartTracker\<close> between the two locks, \<open>rt_closers\<close> the goroutines of
  \<^verbatim>\<open>closeTrackers\<close>.  \<open>rt_fruitless\<close> is history: the starts that created no tracker.
\<close>

record runtime =
  rt_entries :: "tracker_entry list"
  rt_trackers :: "tracker_key \<Rightarrow> nat option"
  rt_trackersClosed :: int
  rt_shuttingDown :: bool
  rt_stuck :: bool
  rt_starting :: "nat list"
  rt_closers :: "nat list"
  rt_crashed :: bool
  rt_fruitless :: nat

definition NewRuntime :: runtime where
  "NewRuntime = \<lparr>rt_entries = [], rt_trackers = (\<lambda>_. None), rt_trackersClosed = 0, rt_shuttingDown = False,
     rt_stuck = False, rt_starting = [], rt_closers = [], rt_crashed = False, rt_fruitless = 0\<rparr>"

abbreviation tracker_err :: "ekind \<Rightarrow> go_error" where
  "tracker_err \<equiv> Sentinel P_tracker"

text \<open>The part of \<^verbatim>\<open>StartTracker\<close> under \<^verbatim>\<open>Runtime.mutex\<close>.\<close>

definition start_register :: "tracker_key \<Rightarrow> time \<Rightarrow> runtime \<Rightarrow> runtime \<times> nat res" where
  "start_register key expireAt rt =
     (if rt_shuttingDown rt then (rt, Inl (tracker_err ErrClosed))
      else (let (es, p) = (case rt_trackers rt key of
            Some p \<Rightarrow> ((rt_entries rt)[p := (rt_entries rt ! p)\<lparr>te_expireAt := expireAt\<rparr>], p)
          | None \<Rightarrow> (rt_entries rt @ [new_entry expireAt], length (rt_entries rt)))
        in (rt\<lparr>rt_entries := es, rt_trackers := (rt_trackers rt)(key := Some p),
              rt_trackersClosed := rt_trackersClosed rt + 1\<rparr>, Inr p)))"

definition start_finish :: "nat \<Rightarrow> err \<Rightarrow> time \<Rightarrow> runtime \<Rightarrow> runtime \<times> tracker_state res" where
  "start_finish p up now rt = (case start_entry up now (rt_entries rt ! p) of
     (e, r) \<Rightarrow> (rt\<lparr>rt_entries := (rt_entries rt)[p := e],
        rt_fruitless := rt_fruitless rt +
          (case r of Inl _ \<Rightarrow> 1 | Inr st \<Rightarrow> if ts_AlreadyExists st then 1 else 0)\<rparr>, r))"

text \<open>
  \<^verbatim>\<open>StopTracker\<close> up to the spawning of the closing goroutine.  For a key it does not know it
  returns without unlocking.  The entry stays in the map.
\<close>

definition stop_register :: "tracker_key \<Rightarrow> runtime \<Rightarrow> runtime \<times> nat res" where
  "stop_register key rt =
     (if rt_shuttingDown rt then (rt, Inl (tracker_err ErrClosed))
      else (case rt_trackers rt key of
          None \<Rightarrow> (rt\<lparr>rt_stuck := True\<rparr>, Inl (tracker_err ErrNotFound))
        | Some p \<Rightarrow> (rt\<lparr>rt_closers := rt_closers rt @ [p]\<rparr>, Inr p)))"

definition close_finish :: "nat \<Rightarrow> runtime \<Rightarrow> runtime" where
  "close_finish p rt = (case close_entry (rt_entries rt ! p) of
      None \<Rightarrow> rt\<lparr>rt_crashed := True\<rparr>
    | Some (e, done) \<Rightarrow> rt\<lparr>rt_entries := (rt_entries rt)[p := e],
        rt_trackersClosed := rt_trackersClosed rt - (if done then 1 else 0)\<rparr>)"

text \<open>The condition of the GC cycle to keep an entry.\<close>

definition gc_keeps :: "time \<Rightarrow> tracker_entry \<Rightarrow> bool" where
  "gc_keeps now e \<longleftrightarrow> te_status e \<noteq> StatusError \<and> now < te_expireAt e"

definition gc_sweep :: "time \<Rightarrow> runtime \<Rightarrow> tracker_key \<Rightarrow> nat option" where
  "gc_sweep now rt key = (case rt_trackers rt key of
      None \<Rightarrow> None | Some p \<Rightarrow> if gc_keeps now (rt_entries rt ! p) then Some p else None)"

definition remove_at :: "nat \<Rightarrow> 'a list \<Rightarrow> 'a list" where
  "remove_at i xs = take i xs @ drop (Suc i) xs"

inductive runtime_step :: "runtime \<Rightarrow> runtime \<Rightarrow> bool" where
  start: "\<not> rt_stuck rt \<Longrightarrow> start_register key expireAt rt = (rt', Inr p) \<Longrightarrow>
     runtime_step rt (rt'\<lparr>rt_starting := rt_starting rt' @ [p]\<rparr>)"
| started: "i < length (rt_starting rt) \<Longrightarrow> start_finish (rt_starting rt ! i) up now rt = (rt', r) \<Longrightarrow>
     runtime_step rt (rt'\<lparr>rt_starting := remove_at i (rt_starting rt')\<rparr>)"
| stop: "\<not> rt_stuck rt \<Longrightarrow> stop_register key rt = (rt', r) \<Longrightarrow> runtime_step rt rt'"
| sweep: "\<not> rt_stuck rt \<Longrightarrow> \<not> rt_shuttingDown rt \<Longrightarrow>
     set ps = {p \<in> ran (rt_trackers rt). \<not> gc_keeps now (rt_entries rt ! p)} \<Longrightarrow>
     runtime_step rt (rt\<lparr>rt_trackers := gc_sweep now rt, rt_closers := rt_closers rt @ ps\<rparr>)"
| shutdown: "\<not> rt_stuck rt \<Longrightarrow> \<not> rt_shuttingDown rt \<Longrightarrow> set ps = ran (rt_trackers rt) \<Longrightarrow>
     runtime_step rt (rt\<lparr>rt_shuttingDown := True, rt_closers := rt_closers rt @ ps\<rparr>)"
| closer: "i < length (rt_closers rt) \<Longrightarrow>
     runtime_step rt (close_finish (rt_closers rt ! i) rt \<lparr>rt_closers := remove_at i (rt_closers rt)\<rparr>)"

definition runtime_run :: "runtime \<Rightarrow> runtime \<Rightarrow> bool" where
  "runtime_run rt rt' \<longleftrightarrow> \<not> rt_crashed rt \<and> runtime_step rt rt'"

text \<open>\<^verbatim>\<open>Run\<close> returns after a shutdown when \<^verbatim>\<open>trackersClosed.Wait\<close> does.\<close>

definition run_returns :: "runtime \<Rightarrow> bool" where
  "run_returns rt \<longleftrightarrow> rt_shuttingDown rt \<and> rt_trackersClosed rt = 0"

section \<open>The invariant\<close>

definition live :: "tracker_entry \<Rightarrow> nat" where
  "live e = (if te_status e = StatusLive then 1 else 0)"

definition entry_ok :: "tracker_entry \<Rightarrow> bool" where
  "entry_ok e \<longleftrightarrow> te_opened e = te_closed e + live e \<and> te_status e \<noteq> StatusClosing \<and>
     (te_status e = StatusLive \<longrightarrow> te_tracker e) \<and> (te_status e = StatusInit \<longrightarrow> \<not> te_tracker e \<and> te_opened e = 0)"

definition runtime_ok :: "runtime \<Rightarrow> bool" where
  "runtime_ok rt \<longleftrightarrow>
     list_all entry_ok (rt_entries rt) \<and>
     (\<forall>p \<in> ran (rt_trackers rt). p < length (rt_entries rt)) \<and>
     list_all (\<lambda>p. p < length (rt_entries rt)) (rt_starting rt @ rt_closers rt) \<and>
     rt_trackersClosed rt = int (length (rt_starting rt)) + int (rt_fruitless rt) +
       int (sum_list (map live (rt_entries rt)))"

lemma sum_live_update:
  assumes "p < length es"
  shows "int (sum_list (map live (es[p := e]))) = int (sum_list (map live es)) - int (live (es ! p)) + int (live e)"
proof -
  have "sum_list (map live (es[p := e])) + live (es ! p) = sum_list (map live es) + live e"
    using assms
  proof (induction es arbitrary: p)
    case (Cons x xs)
    then show ?case
    proof (cases p)
      case (Suc k)
      with Cons.IH [of k] Cons.prems show ?thesis by simp
    qed simp
  qed simp
  then show ?thesis by linarith
qed

lemma live_le_sum: "p < length es \<Longrightarrow> live (es ! p) \<le> sum_list (map live es)"
  using elem_le_sum_list [of p "map live es"] by simp

lemma length_remove_at: "i < length xs \<Longrightarrow> Suc (length (remove_at i xs)) = length xs"
  by (simp add: remove_at_def)

lemma all_remove_at: "list_all P xs \<Longrightarrow> list_all P (remove_at i xs)"
  by (auto simp: remove_at_def list_all_iff dest: in_set_takeD in_set_dropD)

lemma all_update: "list_all P xs \<Longrightarrow> P x \<Longrightarrow> list_all P (xs[i := x])"
  by (auto simp: list_all_iff dest!: set_update_subset_insert [THEN subsetD])

lemma live_new [simp]: "live (new_entry t) = 0" "entry_ok (new_entry t)"
  by (simp_all add: live_def new_entry_def entry_ok_def)

lemma expire_ok [simp]: "entry_ok (e\<lparr>te_expireAt := t\<rparr>) = entry_ok e" "live (e\<lparr>te_expireAt := t\<rparr>) = live e"
  by (simp_all add: entry_ok_def live_def)

lemma start_entry_ok:
  assumes "start_entry up now e = (e', r)" and "entry_ok e"
  shows "entry_ok e'" "live e' = (case r of Inl _ \<Rightarrow> 0 | Inr _ \<Rightarrow> 1)"
    "live e = 1 \<longleftrightarrow> (case r of Inl _ \<Rightarrow> False | Inr st \<Rightarrow> ts_AlreadyExists st)"
  using assms by (auto simp: start_entry_def entry_ok_def live_def entry_state_def Let_def
      split: if_splits option.splits)

lemma close_entry_ok:
  assumes "entry_ok e"
  shows "close_entry e = None \<longleftrightarrow> te_status e = StatusInit"
    and "close_entry e = Some (e', done) \<Longrightarrow> entry_ok e' \<and> live e' = 0 \<and> live e = (if done then 1 else 0)"
  using assms by (cases "te_status e"; auto simp: close_entry_def entry_ok_def live_def split: if_splits)+

lemma runtime_okD:
  assumes "runtime_ok rt"
  shows "list_all entry_ok (rt_entries rt)" "rt_trackers rt k = Some p \<Longrightarrow> p < length (rt_entries rt)"
    "list_all (\<lambda>p. p < length (rt_entries rt)) (rt_starting rt @ rt_closers rt)"
    "rt_trackersClosed rt = int (length (rt_starting rt)) + int (rt_fruitless rt) +
       int (sum_list (map live (rt_entries rt)))"
    "q < length (rt_entries rt) \<Longrightarrow> entry_ok (rt_entries rt ! q)"
proof -
  show "list_all entry_ok (rt_entries rt)" "rt_trackers rt k = Some p \<Longrightarrow> p < length (rt_entries rt)"
    "list_all (\<lambda>p. p < length (rt_entries rt)) (rt_starting rt @ rt_closers rt)"
    "rt_trackersClosed rt = int (length (rt_starting rt)) + int (rt_fruitless rt) +
       int (sum_list (map live (rt_entries rt)))"
    using assms by (auto simp: runtime_ok_def ranI)
  then show "q < length (rt_entries rt) \<Longrightarrow> entry_ok (rt_entries rt ! q)"
    by (simp add: list_all_length)
qed

lemma start_register_ok:
  assumes "runtime_ok rt" and "start_register key t rt = (rt', Inr p)"
  shows "runtime_ok (rt'\<lparr>rt_starting := rt_starting rt' @ [p]\<rparr>)"
proof (cases "rt_trackers rt key")
  case None
  with assms show ?thesis
    by (auto simp: start_register_def runtime_ok_def list_all_iff less_Suc_eq split: if_splits)
next
  case (Some q)
  have q: "q < length (rt_entries rt)"
    using runtime_okD(2) [OF assms(1) Some] .
  with Some assms runtime_okD(5) [OF assms(1) q] show ?thesis
    by (auto simp: start_register_def runtime_ok_def sum_live_update all_update map_upd_triv split: if_splits)
qed

lemma runtime_step_ok:
  assumes "runtime_step rt rt'" and "runtime_ok rt"
  shows "runtime_ok rt'"
  using assms
proof (induction rule: runtime_step.induct)
  case (start rt key t rt' p)
  then show ?case
    by (intro start_register_ok)
next
  case (started i rt up now rt' r)
  let ?p = "rt_starting rt ! i"
  obtain e where e: "start_entry up now (rt_entries rt ! ?p) = (e, r)"
    using started(2) by (auto simp: start_finish_def split: prod.splits)
  have p: "?p < length (rt_entries rt)"
    using runtime_okD(3) [OF started(3)] nth_mem [OF started(1)] by (auto simp: list_all_iff)
  note ok = start_entry_ok [OF e runtime_okD(5) [OF started(3) p]]
  have "live e - live (rt_entries rt ! ?p) = live e - live (rt_entries rt ! ?p)" ..
  have bal: "int (live e) - int (live (rt_entries rt ! ?p)) +
      (case r of Inl _ \<Rightarrow> 1 | Inr st \<Rightarrow> if ts_AlreadyExists st then 1 else 0) = 1"
    using ok(2,3) by (cases r; cases "live (rt_entries rt ! ?p)") (auto simp: live_def split: if_splits)
  have "rt' = rt\<lparr>rt_entries := (rt_entries rt)[?p := e], rt_fruitless := rt_fruitless rt +
      (case r of Inl _ \<Rightarrow> 1 | Inr st \<Rightarrow> if ts_AlreadyExists st then 1 else 0)\<rparr>"
    using started(2) e by (auto simp: start_finish_def)
  with started(3) ok(1) bal sum_live_update [OF p, of e] length_remove_at [OF started(1)] show ?case
    by (auto simp: runtime_ok_def all_update all_remove_at split: sum.splits if_splits)
next
  case (stop rt key rt' r)
  with runtime_okD(2) [OF stop(3), of key] show ?case
    by (auto simp: stop_register_def runtime_ok_def split: if_splits option.splits)
next
  case (sweep rt ps now)
  have "ran (gc_sweep now rt) \<subseteq> ran (rt_trackers rt)"
    by (auto simp: gc_sweep_def ran_def split: option.splits if_splits)
  with sweep show ?case
    by (auto simp: runtime_ok_def list_all_iff)
next
  case (shutdown rt ps)
  then show ?case
    by (auto simp: runtime_ok_def list_all_iff)
next
  case (closer i rt)
  let ?p = "rt_closers rt ! i"
  have p: "?p < length (rt_entries rt)"
    using runtime_okD(3) [OF closer(2)] nth_mem [OF closer(1)] by (auto simp: list_all_iff)
  show ?case
  proof (cases "close_entry (rt_entries rt ! ?p)")
    case None
    with closer(2) show ?thesis
      by (auto simp: close_finish_def runtime_ok_def all_remove_at)
  next
    case (Some a)
    then obtain e d where e: "close_entry (rt_entries rt ! ?p) = Some (e, d)"
      by (cases a) simp
    from close_entry_ok(2) [OF runtime_okD(5) [OF closer(2) p] e] closer(2) sum_live_update [OF p, of e] e
    show ?thesis
      by (auto simp: close_finish_def runtime_ok_def all_update all_remove_at)
  qed
qed

interpretation running: stable runtime_run runtime_ok
  by unfold_locales (auto simp: runtime_run_def intro: runtime_step_ok)

lemma runtime_ok_init: "runtime_ok NewRuntime"
  by (simp add: runtime_ok_def NewRuntime_def)

lemma runtime_reach_ok: "reach runtime_run NewRuntime rt \<Longrightarrow> runtime_ok rt"
  by (rule running.always [OF _ runtime_ok_init])

section \<open>Properties\<close>

text \<open>
  No tracker is lost and none is closed twice: of each entry, the trackers created are
  the ones closed plus the live one, if there is one; so an entry never has two live trackers,
  and \<^verbatim>\<open>StartTracker\<close> on a live entry creates nothing and reports its start and expiry.
\<close>

theorem trackers_balanced:
  assumes "reach runtime_run NewRuntime rt" and "p < length (rt_entries rt)"
  shows "let e = rt_entries rt ! p in
    te_opened e = te_closed e + (if te_status e = StatusLive then 1 else 0) \<and>
    (te_status e = StatusLive \<longrightarrow> start_entry up now e = (e, Inr (entry_state True e)))"
  using runtime_okD(5) [OF runtime_reach_ok [OF assms(1)] assms(2)]
  by (simp add: Let_def entry_ok_def live_def start_entry_def)

text \<open>
  C34: The wait group of the runtime is the number of the starts in progress, plus the starts
  that created no tracker, plus the live trackers: it never goes below zero, and closing can
  only bring it back to the number of the fruitless starts.
\<close>

theorem trackersClosed_exact:
  assumes "reach runtime_run NewRuntime rt"
  shows "rt_trackersClosed rt = int (length (rt_starting rt)) + int (rt_fruitless rt) +
    int (length (filter (\<lambda>e. te_status e = StatusLive) (rt_entries rt)))"
proof -
  have "sum_list (map live es) = length (filter (\<lambda>e. te_status e = StatusLive) es)" for es
    by (induction es) (simp_all add: live_def)
  with runtime_okD(4) [OF runtime_reach_ok [OF assms]] show ?thesis
    by simp
qed

lemma fruitless_mono: "runtime_step rt rt' \<Longrightarrow> rt_fruitless rt \<le> rt_fruitless rt'"
  by (induction rule: runtime_step.induct)
    (auto simp: start_register_def start_finish_def stop_register_def close_finish_def Let_def
      split: if_splits prod.splits option.splits sum.splits)

text \<open>
  After one \<^verbatim>\<open>StartTracker\<close> that found a live tracker (a redelivered start, or one that
  prolongs the recording), or whose \<^verbatim>\<open>newTracker\<close> failed, \<^verbatim>\<open>Run\<close> never returns again: its
  \<^verbatim>\<open>trackersClosed.Wait\<close> cannot end in any continuation.
\<close>

theorem repeated_start_blocks_shutdown:
  assumes "reach runtime_run NewRuntime rt" and "i < length (rt_starting rt)"
    and "te_status (rt_entries rt ! (rt_starting rt ! i)) = StatusLive \<or> up \<noteq> None"
    and "runtime_run rt rt1" and "reach runtime_run rt1 rt'"
    and "rt1 = fst (start_finish (rt_starting rt ! i) up now rt)\<lparr>rt_starting := remove_at i (rt_starting rt)\<rparr>"
  shows "\<not> run_returns rt'"
proof -
  have "0 < rt_fruitless rt1"
    using assms(3,6) by (auto simp: start_finish_def start_entry_def entry_state_def split: option.splits)
  moreover have "reach runtime_run s t \<Longrightarrow> rt_fruitless s \<le> rt_fruitless t" for s t
  proof (induction rule: reach.induct)
    case (more t u)
    then show ?case
      using fruitless_mono [of t u] by (auto simp: runtime_run_def)
  qed simp
  ultimately have "0 < rt_fruitless rt'"
    using assms(5) by fastforce
  moreover have "reach runtime_run NewRuntime rt'"
    using reach_trans [OF assms(5) reach.more [OF assms(1,4)]] .
  ultimately show ?thesis
    using runtime_okD(4) [OF runtime_reach_ok] by (fastforce simp: run_returns_def)
qed

text \<open>The lock that \<^verbatim>\<open>StopTracker\<close> keeps.\<close>

definition jammed :: "(tracker_key \<Rightarrow> nat option) \<Rightarrow> nat \<Rightarrow> runtime \<Rightarrow> bool" where
  "jammed T n rt \<longleftrightarrow> rt_stuck rt \<and> rt_trackers rt = T \<and> \<not> rt_shuttingDown rt \<and>
     length (rt_starting rt) + length (rt_closers rt) \<le> n"

lemma close_finish_simps [simp]:
  "rt_stuck (close_finish p rt) = rt_stuck rt" "rt_trackers (close_finish p rt) = rt_trackers rt"
  "rt_shuttingDown (close_finish p rt) = rt_shuttingDown rt" "rt_starting (close_finish p rt) = rt_starting rt"
  by (auto simp: close_finish_def split: option.splits)

lemma jammed_step: "runtime_step rt rt' \<Longrightarrow> jammed T n rt \<Longrightarrow> jammed T n rt'"
  by (induction rule: runtime_step.induct)
    (auto simp: jammed_def start_finish_def split: prod.splits dest!: length_remove_at)

interpretation jam: stable runtime_run "jammed T n" for T n
  by unfold_locales (auto simp: runtime_run_def intro: jammed_step)

text \<open>
  Stopping a tracker that does not exist locks the runtime for good: in every continuation
  no tracker is started, stopped, swept or shut down any more; only the calls that were
  already past their lock finish.
\<close>

theorem unknown_stop_jams_runtime:
  assumes "rt_trackers rt key = None" and "\<not> rt_shuttingDown rt"
    and "reach runtime_run (fst (stop_register key rt)) rt'"
  shows "snd (stop_register key rt) = Inl (tracker_err ErrNotFound) \<and>
    rt_trackers rt' = rt_trackers rt \<and> \<not> run_returns rt' \<and>
    length (rt_starting rt') + length (rt_closers rt') \<le> length (rt_starting rt) + length (rt_closers rt)"
proof -
  have "jammed (rt_trackers rt) (length (rt_starting rt) + length (rt_closers rt)) (fst (stop_register key rt))"
    using assms(1,2) by (simp add: jammed_def stop_register_def)
  from jam.always [OF assms(3) this] assms(1,2) show ?thesis
    by (simp add: jammed_def stop_register_def run_returns_def)
qed

section \<open>Runs\<close>

definition demo_key :: tracker_key where "demo_key = (7, ''record'')"

text \<open>A start that goes through, and a second one behind the first lock.\<close>

definition demo_live :: runtime where
  "demo_live = (let (rt, _) = start_register demo_key 100 NewRuntime;
     (rt, _) = start_finish 0 None 5 (rt\<lparr>rt_starting := [0]\<rparr>) in rt\<lparr>rt_starting := []\<rparr>)"

definition demo_again :: runtime where
  "demo_again = (fst (start_register demo_key 200 demo_live))\<lparr>rt_starting := [0]\<rparr>"

lemmas runtime_demo_defs = demo_live_def demo_again_def start_register_def start_finish_def start_entry_def
  entry_state_def new_entry_def NewRuntime_def remove_at_def Let_def

lemma demo_live_reach: "reach runtime_run NewRuntime demo_live"
proof -
  let ?rt = "(fst (start_register demo_key 100 NewRuntime))\<lparr>rt_starting := [0]\<rparr>"
  have 1: "runtime_run NewRuntime ?rt"
    using runtime_step.start [of NewRuntime demo_key 100 _ 0] by (simp add: runtime_demo_defs runtime_run_def)
  have 2: "runtime_run ?rt demo_live"
    using runtime_step.started [of 0 ?rt None 5] by (simp add: runtime_demo_defs runtime_run_def)
  show ?thesis
    by (rule reach.more [OF reach_one [of runtime_run, OF 1] 2])
qed

lemma demo_again_reach: "reach runtime_run NewRuntime demo_again"
proof (rule reach.more [OF demo_live_reach])
  show "runtime_run demo_live demo_again"
    using runtime_step.start [of demo_live demo_key 200 _ 0] by (simp add: runtime_demo_defs runtime_run_def)
qed

theorem trackers_balanced_witness:
  "te_opened (rt_entries demo_again ! 0) = 1 \<and> te_expireAt (rt_entries demo_again ! 0) = 200 \<and>
   snd (start_entry None 9 (rt_entries demo_again ! 0)) =
     Inr \<lparr>ts_AlreadyExists = True, ts_StartedAt = 5, ts_ExpiresAt = 200\<rparr>"
  using trackers_balanced [OF demo_again_reach, of 0 None 9] by (simp add: runtime_demo_defs)

theorem trackersClosed_exact_witness: "rt_trackersClosed demo_again = 2"
  using trackersClosed_exact [OF demo_again_reach] by (simp add: runtime_demo_defs)

theorem repeated_start_blocks_shutdown_witness:
  "\<not> run_returns (fst (start_finish 0 None 9 demo_again)\<lparr>rt_starting := []\<rparr>)"
proof -
  let ?rt = "fst (start_finish 0 None 9 demo_again)\<lparr>rt_starting := []\<rparr>"
  have "runtime_run demo_again ?rt"
    using runtime_step.started [of 0 demo_again None 9] by (simp add: runtime_demo_defs runtime_run_def)
  from repeated_start_blocks_shutdown [OF demo_again_reach, of 0 None, OF _ _ this reach.here, of 9] show ?thesis
    by (simp add: runtime_demo_defs)
qed

theorem unknown_stop_jams_runtime_witness:
  "snd (stop_register demo_key NewRuntime) = Inl (tracker_err ErrNotFound) \<and>
   \<not> run_returns (fst (stop_register demo_key NewRuntime))"
  using unknown_stop_jams_runtime [of NewRuntime demo_key, OF _ _ reach.here]
  by (simp add: NewRuntime_def)

end
