(* ===== verification/Rpc.thy ===== *)
theory Rpc
  imports Event_Mongo Recordings Tracker
begin

text \<open>
  The rpc handlers between the services: \<^verbatim>\<open>services/cmd/rtc/rpc/rpc.go\<close> (rooms and recordings)
  and \<^verbatim>\<open>services/cmd/tracker/rpc/rpc.go\<close> (the trackers that record).  Request fields that are
  pointers in Go are passed as the values they hold.

  The lemmas show that a created room is stored with its owner, and that the two recording
  calls are not safe to retry: after a failure in their second half, a retry takes the first
  half for the whole.
\<close>

section \<open>The rtc service\<close>

text \<open>The tracker client: room, recording and expiry for a start, the room for a stop.\<close>

record 'w tracker_client =
  tk_Start :: "byte list \<Rightarrow> byte list \<Rightarrow> int \<Rightarrow> 'w \<Rightarrow> 'w \<times> err"
  tk_Stop :: "byte list \<Rightarrow> 'w \<Rightarrow> 'w \<times> err"

abbreviation twirp_NotFound :: go_error where
  "twirp_NotFound \<equiv> Sentinel P_twirp ErrNotFound"

text \<open>\<^verbatim>\<open>created[0]\<close> of an empty list would panic: the outer \<open>None\<close>.\<close>

definition rpc_CreateRoom ::
  "(room_doc list \<Rightarrow> 'w \<Rightarrow> 'w \<times> room_doc list res) \<Rightarrow> uuid \<Rightarrow> byte list \<Rightarrow> 'w \<Rightarrow> ('w \<times> byte list res) option" where
  "rpc_CreateRoom create new_id ownerId w = (case uuid_UnmarshalBinary ownerId of
      Inl e \<Rightarrow> Some (w, Inl (Wrap ''invalid owner id'' e))
    | Inr ownerID \<Rightarrow> (case create [\<lparr>ro_ID = new_id, ro_Owner = ownerID, ro_CreatedAt = time_zero\<rparr>] w of
        (w1, Inl e) \<Rightarrow> Some (w1, Inl e)
      | (w1, Inr []) \<Rightarrow> None
      | (w1, Inr (r # rs)) \<Rightarrow> Some (w1, Inr (uuid_MarshalBinary (ro_ID r)))))"

record recording_reply =
  rr_RoomId :: "byte list"
  rr_RecordingId :: "byte list"
  rr_StartedAt :: int
  rr_AlreadyExists :: bool

definition recording_event :: "uuid \<Rightarrow> uuid \<Rightarrow> time \<Rightarrow> string \<Rightarrow> event" where
  "recording_event event_id roomID now status = \<lparr>ev_ID = event_id, ev_Room = roomID, ev_CreatedAt = now,
     ev_Payload = payload_empty\<lparr>pl_Recording := Some \<lparr>prec_Status = status\<rparr>\<rparr>\<rparr>"

definition rpc_StartRecording ::
  "(room_lookup \<Rightarrow> 'w \<Rightarrow> 'w \<times> room_doc res) \<Rightarrow> (recording \<Rightarrow> 'w \<Rightarrow> 'w \<times> recording res) \<Rightarrow> 'w tracker_client \<Rightarrow>
   (event \<Rightarrow> 'w \<Rightarrow> 'w \<times> err) \<Rightarrow> uuid \<Rightarrow> uuid \<Rightarrow> time \<Rightarrow> byte list \<Rightarrow> string \<Rightarrow> int \<Rightarrow> 'w \<Rightarrow> 'w \<times> recording_reply res" where
  "rpc_StartRecording fetchRoom fetchOrStart tr emit new_id event_id now roomId key expireInMs w =
     (case uuid_UnmarshalBinary roomId of
       Inl e \<Rightarrow> (w, Inl (Wrap ''invalid owner id'' e))
     | Inr roomID \<Rightarrow> (case fetchRoom (room_lookup_zero\<lparr>rol_ID := roomID\<rparr>) w of
         (w1, Inl e) \<Rightarrow> (w1, Inl (Wrap ''failed to fetch room'' e))
       | (w1, Inr _) \<Rightarrow> (case fetchOrStart (recording_zero\<lparr>rg_ID := new_id, rg_Room := roomID, rg_Key := key\<rparr>) w1 of
           (w2, Inl e) \<Rightarrow> (w2, Inl (Wrap ''failed to start recording'' e))
         | (w2, Inr rec) \<Rightarrow>
             (let alreadyExists = (new_id \<noteq> rg_ID rec); idBin = uuid_MarshalBinary (rg_ID rec) in
              case tk_Start tr roomId idBin expireInMs w2 of
                (w3, Some e) \<Rightarrow> (w3, Inl (Wrap ''failed to start tracker'' e))
              | (w3, None) \<Rightarrow>
                  (case (if alreadyExists then (w3, None) else emit (recording_event event_id roomID now RecordingStarted) w3) of
                    (w4, Some e) \<Rightarrow> (w4, Inl (Wrap ''failed to emit recording event'' e))
                  | (w4, None) \<Rightarrow> (w4, Inr \<lparr>rr_RoomId = roomId, rr_RecordingId = idBin,
                      rr_StartedAt = UnixMilli (rg_StartedAt rec), rr_AlreadyExists = alreadyExists\<rparr>))))))"

definition rpc_StopRecording ::
  "(record_lookup \<Rightarrow> 'w \<Rightarrow> 'w \<times> nat res) \<Rightarrow> 'w tracker_client \<Rightarrow> (event \<Rightarrow> 'w \<Rightarrow> 'w \<times> err) \<Rightarrow> uuid \<Rightarrow> time \<Rightarrow>
   byte list \<Rightarrow> byte list \<Rightarrow> string \<Rightarrow> 'w \<Rightarrow> 'w \<times> byte list res" where
  "rpc_StopRecording stop tr emit event_id now roomId recordingId key w =
     (case uuid_UnmarshalBinary roomId of
       Inl e \<Rightarrow> (w, Inl (Wrap ''invalid room id'' e))
     | Inr roomID \<Rightarrow>
         (case (if length recordingId \<noteq> 0
             then (case uuid_UnmarshalBinary recordingId of
                 Inl e \<Rightarrow> Inl (Wrap ''invalid recording id'' e)
               | Inr recID \<Rightarrow> Inr (record_lookup_zero\<lparr>rl_Room := roomID, rl_ID := recID\<rparr>))
             else Inr (record_lookup_zero\<lparr>rl_Room := roomID, rl_Key := key\<rparr>)) of
           Inl e \<Rightarrow> (w, Inl e)
         | Inr l \<Rightarrow> (case stop l w of
             (w1, Inl e) \<Rightarrow> (w1, Inl (Wrap ''failed to stop record'' e))
           | (w1, Inr n) \<Rightarrow>
               if n = 0 then (w1, Inl twirp_NotFound)
               else (case tk_Stop tr roomId w1 of
                   (w2, Some e) \<Rightarrow> (w2, Inl (if errors_Is e P_twirp ErrNotFound then twirp_NotFound
                      else Wrap ''failed to stop tracker'' e))
                 | (w2, None) \<Rightarrow> (case emit (recording_event event_id roomID now RecordingStopped) w2 of
                     (w3, Some e) \<Rightarrow> (w3, Inl (Wrap ''failed to emit recording event'' e))
                   | (w3, None) \<Rightarrow> (w3, Inr roomId))))))"

section \<open>The tracker service\<close>

definition roleRecord :: string where "roleRecord = ''record''"

text \<open>
  \<open>role\<close> is \<^verbatim>\<open>Some\<close> recording id for the only role; \<open>start\<close> is \<^verbatim>\<open>runtime.StartTracker\<close> with the
  constructor of the recording tracker for that recording.
\<close>

definition tracker_startRecording ::
  "(uuid \<Rightarrow> tracker_key \<Rightarrow> time \<Rightarrow> 'w \<Rightarrow> 'w \<times> tracker_state res) \<Rightarrow> uuid \<Rightarrow> time \<Rightarrow> byte list \<Rightarrow> 'w \<Rightarrow>
   'w \<times> tracker_state res" where
  "tracker_startRecording start roomID expireAt recordingId w = (case uuid_UnmarshalBinary recordingId of
      Inl e \<Rightarrow> (w, Inl (Wrap ''faield to unmarshal recording id'' e))
    | Inr recordingID \<Rightarrow> start recordingID (roomID, roleRecord) expireAt w)"

record tracker_reply =
  tp_RoomId :: "byte list"
  tp_AlreadyExists :: bool
  tp_StartedAt :: int
  tp_ExpiresAt :: int

definition tracker_reply_of :: "byte list \<Rightarrow> tracker_state \<Rightarrow> tracker_reply" where
  "tracker_reply_of roomId st = \<lparr>tp_RoomId = roomId, tp_AlreadyExists = ts_AlreadyExists st,
     tp_StartedAt = UnixMilli (ts_StartedAt st), tp_ExpiresAt = UnixMilli (ts_ExpiresAt st)\<rparr>"

text \<open>\<^verbatim>\<open>time.Duration(params.ExpireInMs) * time.Millisecond\<close>, on 64 bit.\<close>

definition ms_Duration :: "int \<Rightarrow> duration" where
  "ms_Duration ms = sint (word_of_int (ms * Millisecond) :: 64 word)"

definition tracker_Start ::
  "(uuid \<Rightarrow> tracker_key \<Rightarrow> time \<Rightarrow> 'w \<Rightarrow> 'w \<times> tracker_state res) \<Rightarrow> time \<Rightarrow> byte list \<Rightarrow> byte list option \<Rightarrow> int \<Rightarrow> 'w \<Rightarrow>
   'w \<times> tracker_reply res" where
  "tracker_Start start now roomId role expireInMs w = (case uuid_UnmarshalBinary roomId of
      Inl e \<Rightarrow> (w, Inl (Wrap ''faield to unmarshal room id'' e))
    | Inr roomID \<Rightarrow> (let expireAt = now + ms_Duration expireInMs in
        case role of
          None \<Rightarrow> (w, Inl (New ''unsupported tracker role''))
        | Some recordingId \<Rightarrow> (case tracker_startRecording start roomID expireAt recordingId w of
            (w1, Inl e) \<Rightarrow> (w1, Inl (Wrap ''faield to start tracker'' e))
          | (w1, Inr st) \<Rightarrow> (w1, Inr (tracker_reply_of roomId st)))))"

definition tracker_Stop ::
  "(tracker_key \<Rightarrow> 'w \<Rightarrow> 'w \<times> tracker_state res) \<Rightarrow> byte list \<Rightarrow> 'w \<Rightarrow> 'w \<times> tracker_reply res" where
  "tracker_Stop stop roomId w = (case uuid_UnmarshalBinary roomId of
      Inl e \<Rightarrow> (w, Inl (Wrap ''faield to unmarshal room id'' e))
    | Inr roomID \<Rightarrow> (case stop (roomID, roleRecord) w of
        (w1, Inl e) \<Rightarrow> (w1, Inl (if errors_Is e P_tracker ErrNotFound then twirp_NotFound
           else Wrap ''faield to stop tracker'' e))
      | (w1, Inr st) \<Rightarrow> (w1, Inr (tracker_reply_of roomId st))))"

section \<open>Rooms\<close>

text \<open>
  A created room is stored, once, under the new id and the owner of the request, stamped with
  the current millisecond, and the reply carries its id; a malformed owner or a failure
  changes no stored room, and nothing panics.
\<close>

theorem rpc_CreateRoom_stores:
  assumes "mongo_laws m docs"
  shows "\<exists>w' r. rpc_CreateRoom (room_Create m now) new_id ownerId w = Some (w', r) \<and>
    (case r of
      Inl e \<Rightarrow> (\<forall>d \<in> set (docs w ''rooms''). d \<in> set (docs w' ''rooms''))
    | Inr reply \<Rightarrow> reply = uuid_MarshalBinary new_id \<and> length ownerId = 16 \<and> new_id \<noteq> uuid_Nil \<and>
        (\<exists>room. docs w' ''rooms'' = docs w ''rooms'' @ [room_enc room] \<and> room_dec (room_enc room) = Inr room \<and>
          ro_ID room = new_id \<and> uuid_MarshalBinary (ro_Owner room) = ownerId \<and> ro_CreatedAt room = mongoNow now))"
proof (cases "uuid_UnmarshalBinary ownerId")
  case (Inl e)
  then show ?thesis
    by (simp add: rpc_CreateRoom_def)
next
  case (Inr owner)
  let ?r = "\<lparr>ro_ID = new_id, ro_Owner = owner, ro_CreatedAt = time_zero\<rparr>"
  obtain w' res where c: "room_Create m now [?r] w = (w', res)"
    by fastforce
  have o: "length ownerId = 16" "uuid_MarshalBinary owner = ownerId"
    using Inr uuid_Unmarshal_Marshal [OF Inr] by (auto simp: uuid_UnmarshalBinary_def split: if_splits)
  show ?thesis
  proof (cases res)
    case (Inl e)
    with Inr c rooms.create_keeps [OF assms c [unfolded room_Create_def]] show ?thesis
      by (simp add: rpc_CreateRoom_def)
  next
    case (Inr rs)
    from rooms.create_stored [OF assms c [unfolded Inr room_Create_def]]
    have st: "docs w' ''rooms'' = docs w ''rooms'' @ map room_enc rs" and "list_all2 (\<lambda>q r.
        (case room_Validate q of Some e \<Rightarrow> Inl (WrapS (Sentinel P_room ErrValidation) e)
          | None \<Rightarrow> Inr (q\<lparr>ro_CreatedAt := mongoNow now\<rparr>)) = Inr r) [?r] rs"
      by blast+
    then have rs: "rs = [?r\<lparr>ro_CreatedAt := mongoNow now\<rparr>]" "room_Validate ?r = None"
      by (auto simp: list_all2_Cons1 split: option.splits)
    then have "new_id \<noteq> uuid_Nil"
      by (auto simp: room_Validate_def split: if_splits)
    then show ?thesis
      using \<open>uuid_UnmarshalBinary ownerId = Inr owner\<close> c Inr rs(1) st o
      by (intro exI [of _ w'] exI [of _ "Inr (uuid_MarshalBinary new_id)"])
        (auto simp: rpc_CreateRoom_def rooms.dec_enc intro!: exI [of _ "?r\<lparr>ro_CreatedAt := mongoNow now\<rparr>"])
  qed
qed

section \<open>Retries of the recording calls\<close>

text \<open>After a stop no selected recording is active any more.\<close>

lemma record_Stop_none_left:
  assumes "mongo_laws m docs" and "record_Stop m now l w = (w1, Inr n)"
    and "docs w3 record_collection = docs w1 record_collection"
    and "record_Stop m now' l w3 = (w4, Inr n')"
  shows "n' = 0"
proof -
  let ?f = "record_mongoFilter l @ [FField ''active'' (FEq (BBool True))]"
  let ?us = "\<lambda>now. [USet [(''stoppedAt'', BTime now)], UUnset [''active'']]"
  have plain: "plain_update (?us now)" for now
    by simp
  from assms(2) have u: "mg_updateMany m record_collection ?f (?us now) w = (w1, Inr n)"
    by (auto simp: record_Stop_def split: prod.splits sum.splits)
  from assms(4) have u': "mg_updateMany m record_collection ?f (?us now') w3 = (w4, Inr n')"
    by (auto simp: record_Stop_def split: prod.splits sum.splits)
  have gone: "\<not> matches ?f d'" if d': "d' \<in> set (docs w1 record_collection)" for d'
  proof -
    from d' obtain i where i: "i < length (docs w1 record_collection)" "d' = docs w1 record_collection ! i"
      by (metis in_set_conv_nth)
    let ?d = "docs w record_collection ! i"
    have each: "d' = ?d \<or> matches ?f ?d" "matches ?f ?d \<Longrightarrow> bget d' k = bget (apply_update (?us now) ?d) k" for k
      using update_many_lawD(2) [OF assms(1) plain u] update_many_lawD(3) [OF assms(1) plain u refl] i
      by (auto simp: list_all2_conv_all_nth)
    show ?thesis
    proof (cases "matches ?f ?d")
      case True
      have "map_of (filter (\<lambda>(k, _). k \<notin> set [''active'']) xs) ''active'' = None" for xs :: bdoc
        by (induction xs) auto
      then have "bget d' ''active'' = None"
        using each(2) [OF True, of "''active''"] by (simp add: bget_def)
      then show ?thesis
        by simp
    next
      case False
      with each(1) show ?thesis
        by metis
    qed
  qed
  from update_many_lawD(4) [OF assms(1) plain u' refl] gone assms(3) show ?thesis
    by metis
qed

text \<open>
  A stop that fails at the tracker cannot be made good by a retry: the recording is already
  marked as stopped, so the retry answers NotFound, or an error of the store, and calls
  neither the tracker nor the emitter; the tracker records on until it expires, and no stop
  event is emitted.
\<close>

theorem failed_stop_not_retryable:
  assumes "mongo_laws m docs" and "uuid_UnmarshalBinary roomId = Inr roomID"
    and "record_Stop m now (record_lookup_zero\<lparr>rl_Room := roomID, rl_Key := key\<rparr>) w = (w1, Inr n)" and "n \<noteq> 0"
    and "tk_Stop tr roomId w1 = (w2, Some e)"
    and "docs w3 record_collection = docs w1 record_collection"
  shows "(\<exists>x. rpc_StopRecording (record_Stop m now) tr emit event_id now roomId [] key w = (w2, Inl x)) \<and>
    (\<exists>w4 y. rpc_StopRecording (record_Stop m now') trAny emitAny event_id' now' roomId [] key w3 = (w4, Inl y) \<and>
       record_Stop m now' (record_lookup_zero\<lparr>rl_Room := roomID, rl_Key := key\<rparr>) w3 \<in> {(w4, Inr 0)} \<union> range (\<lambda>z. (w4, Inl z)))"
proof
  show "\<exists>x. rpc_StopRecording (record_Stop m now) tr emit event_id now roomId [] key w = (w2, Inl x)"
    using assms(2-5) by (simp add: rpc_StopRecording_def)
  obtain w4 r where s: "record_Stop m now' (record_lookup_zero\<lparr>rl_Room := roomID, rl_Key := key\<rparr>) w3 = (w4, r)"
    by fastforce
  have "r = Inr 0" if "r = Inr n'" for n'
    using record_Stop_none_left [OF assms(1,3,6)] s that by blast
  then have "r = Inr 0 \<or> (\<exists>z. r = Inl z)"
    by (cases r) auto
  then show "\<exists>w4 y. rpc_StopRecording (record_Stop m now') trAny emitAny event_id' now' roomId [] key w3 = (w4, Inl y) \<and>
       record_Stop m now' (record_lookup_zero\<lparr>rl_Room := roomID, rl_Key := key\<rparr>) w3 \<in> {(w4, Inr 0)} \<union> range (\<lambda>z. (w4, Inl z))"
    using s assms(2) by (auto simp: rpc_StopRecording_def)
qed

text \<open>
  A start that finds the recording of an earlier one emits no start event, whatever the
  emitter would do, and answers that the recording already existed; so when the first start
  failed at the tracker or at the event, no retry makes the event good.
\<close>

theorem failed_start_loses_event:
  assumes "uuid_UnmarshalBinary roomId = Inr roomID"
    and "fetchRoom (room_lookup_zero\<lparr>rol_ID := roomID\<rparr>) w = (w1, Inr room)"
    and "fetchOrStart (recording_zero\<lparr>rg_ID := id2, rg_Room := roomID, rg_Key := key\<rparr>) w1 = (w2, Inr rec)"
    and "rg_ID rec = id1" and "id2 \<noteq> id1"
  shows "rpc_StartRecording fetchRoom fetchOrStart tr emit id2 event_id now roomId key ms w =
      rpc_StartRecording fetchRoom fetchOrStart tr emitAny id2 event_id now roomId key ms w \<and>
    (case snd (rpc_StartRecording fetchRoom fetchOrStart tr emit id2 event_id now roomId key ms w) of
       Inl _ \<Rightarrow> True | Inr reply \<Rightarrow> rr_AlreadyExists reply \<and> rr_RecordingId reply = uuid_MarshalBinary id1)"
  using assms by (auto simp: rpc_StartRecording_def Let_def split: prod.split option.split)

section \<open>Runs\<close>

theorem rpc_CreateRoom_stores_witness:
  "\<exists>w' r. rpc_CreateRoom (room_Create mem_mongo 5) 7 (uuid_MarshalBinary 3) (\<lambda>_. []) = Some (w', r)"
  using rpc_CreateRoom_stores [where docs = "\<lambda>w. w", OF mem_mongo_laws, of 5 7 "uuid_MarshalBinary 3" "\<lambda>_. []"]
  by blast

definition active_recording :: recording where
  "active_recording = recording_zero\<lparr>rg_ID := 4, rg_Room := 3, rg_Key := ''talk'', rg_Active := True\<rparr>"

definition recording_mem :: mem where
  "recording_mem = (\<lambda>_. [])(record_collection := [recording_enc active_recording])"

definition dead_tracker :: "'w tracker_client" where
  "dead_tracker = \<lparr>tk_Start = (\<lambda>_ _ _ w. (w, Some (Foreign 1))), tk_Stop = (\<lambda>_ w. (w, Some (Foreign 1)))\<rparr>"

definition live_tracker :: "'w tracker_client" where
  "live_tracker = \<lparr>tk_Start = (\<lambda>_ _ _ w. (w, None)), tk_Stop = (\<lambda>_ w. (w, None))\<rparr>"

theorem failed_stop_not_retryable_witness:
  "\<exists>w1 w4 y. rpc_StopRecording (record_Stop mem_mongo 9) dead_tracker (\<lambda>_ w. (w, None)) 1 9 (uuid_MarshalBinary 3) []
       ''talk'' recording_mem = (w1, Inl (Wrap ''failed to stop tracker'' (Foreign 1))) \<and>
     rpc_StopRecording (record_Stop mem_mongo 9) live_tracker (\<lambda>_ w. (w, None)) 2 9 (uuid_MarshalBinary 3) []
       ''talk'' w1 = (w4, Inl y)"
proof -
  let ?l = "record_lookup_zero\<lparr>rl_Room := 3, rl_Key := ''talk''\<rparr>"
  have "matches (record_mongoFilter ?l @ [FField ''active'' (FEq (BBool True))]) (recording_enc active_recording)"
    by (simp add: record_mongoFilter_def record_lookup_zero_def recording_enc_def active_recording_def recording_zero_def
        bget_def map_add_def uuid_Nil_def)
  then obtain w1 where s: "record_Stop mem_mongo 9 ?l recording_mem = (w1, Inr 1)"
    by (simp add: record_Stop_def mem_mongo_def recording_mem_def)
  have t: "tk_Stop dead_tracker (uuid_MarshalBinary 3) w1 = (w1, Some (Foreign 1))"
    by (simp add: dead_tracker_def)
  have "\<exists>w4 y. rpc_StopRecording (record_Stop mem_mongo 9) live_tracker (\<lambda>_ w. (w, None)) 2 9 (uuid_MarshalBinary 3) []
       ''talk'' w1 = (w4, Inl y)"
    using failed_stop_not_retryable [where docs = "\<lambda>w. w" and ?w3.0 = w1 and trAny = live_tracker
        and emitAny = "\<lambda>_ w. (w, None)" and event_id' = 2 and now' = 9 and emit = "\<lambda>_ w. (w, None)"
        and event_id = 1, OF mem_mongo_laws uuid_roundtrip s _ t refl, THEN conjunct2] by blast
  moreover have "rpc_StopRecording (record_Stop mem_mongo 9) dead_tracker (\<lambda>_ w. (w, None)) 1 9 (uuid_MarshalBinary 3) []
       ''talk'' recording_mem = (w1, Inl (Wrap ''failed to stop tracker'' (Foreign 1)))"
    using s by (simp add: rpc_StopRecording_def dead_tracker_def)
  ultimately show ?thesis
    by blast
qed

theorem failed_start_loses_event_witness:
  "rpc_StartRecording (\<lambda>_ w. (w, Inr \<lparr>ro_ID = 3, ro_Owner = 1, ro_CreatedAt = 0\<rparr>)) (\<lambda>_ w. (w, Inr active_recording))
     live_tracker (\<lambda>_ w. (w, Some (Foreign 2))) 5 6 9 (uuid_MarshalBinary 3) ''talk'' 100 (0 :: nat) =
   rpc_StartRecording (\<lambda>_ w. (w, Inr \<lparr>ro_ID = 3, ro_Owner = 1, ro_CreatedAt = 0\<rparr>)) (\<lambda>_ w. (w, Inr active_recording))
     live_tracker (\<lambda>_ w. (w + 1, None)) 5 6 9 (uuid_MarshalBinary 3) ''talk'' 100 0"
  by (rule failed_start_loses_event [OF uuid_roundtrip, where ?id1.0 = 4 and ?id2.0 = 5 and rec = active_recording,
        THEN conjunct1]) (simp_all add: active_recording_def)

end
