(* ===== verification/Email.thy ===== *)
theory Email
  imports Regexp
begin

text \<open>
  E-mail addresses and messages: \<^verbatim>\<open>services/internal/platform/email/email.go\<close>.
  The pattern is translated class by class; its texts are ASCII and it does not depend on
  letter case.
\<close>

section \<open>The address pattern\<close>

text \<open>\<^verbatim>\<open>[!#-'*+/-9=?A-Z^-~-]\<close>\<close>

definition atom_char :: "nat \<Rightarrow> bool" where
  "atom_char c = (c = 33 \<or> between 35 39 c \<or> c = 42 \<or> c = 43 \<or> between 47 57 c \<or> c = 61 \<or> c = 63 \<or>
     is_upper c \<or> between 94 126 c \<or> c = 45)"

text \<open>\<^verbatim>\<open>[]!#-[^-~ \t]\<close>, \<^verbatim>\<open>[\t -~]\<close> and \<^verbatim>\<open>[\t -Z^-~]\<close>\<close>

definition quoted_char :: "nat \<Rightarrow> bool" where
  "quoted_char c = (c = 93 \<or> c = 33 \<or> between 35 91 c \<or> between 94 126 c \<or> c = 32 \<or> c = 9)"

definition escaped_char :: "nat \<Rightarrow> bool" where
  "escaped_char c = (c = 9 \<or> between 32 126 c)"

definition literal_char :: "nat \<Rightarrow> bool" where
  "literal_char c = (c = 9 \<or> between 32 90 c \<or> between 94 126 c)"

definition Lit :: "nat \<Rightarrow> rx" where
  "Lit n = Cls (\<lambda>c. c = n)"

definition dot_atom :: rx where
  "dot_atom = Seq (Plus (Cls atom_char)) (Star (Seq (Lit 46) (Plus (Cls atom_char))))"

definition emailPattern :: rx where
  "emailPattern =
     Seq (Alt dot_atom
           (Seq (Lit 34) (Seq (Plus (Alt (Cls quoted_char) (Seq (Lit 92) (Cls escaped_char)))) (Lit 34))))
       (Seq (Lit 64)
         (Alt dot_atom (Seq (Lit 91) (Seq (Star (Cls literal_char)) (Lit 93)))))"

definition email_Validate :: "string \<Rightarrow> err" where
  "email_Validate s =
     (if \<not> MatchString emailPattern s then Some (New ''invalid email address'') else None)"

section \<open>Messages\<close>

record address =
  ad_Name :: string
  ad_Email :: string

record email =
  em_From :: address
  em_To :: "address list"
  em_Subject :: string
  em_HTML :: string
  em_Text :: string

fun validate_to :: "address list \<Rightarrow> err" where
  "validate_to [] = None"
| "validate_to (a # as) = (case email_Validate (ad_Email a) of
      Some e \<Rightarrow> Some (Wrap ''invalid to'' e)
    | None \<Rightarrow> validate_to as)"

definition Email_Validate :: "email \<Rightarrow> err" where
  "Email_Validate e = (case email_Validate (ad_Email (em_From e)) of
      Some err \<Rightarrow> Some (Wrap ''invalid from'' err)
    | None \<Rightarrow> (case validate_to (em_To e) of
        Some err \<Rightarrow> Some err
      | None \<Rightarrow> if length (em_To e) = 0 then Some (New ''to must not be empty'') else None))"

lemma Email_Validate_None:
  "Email_Validate e = None \<longleftrightarrow> em_To e \<noteq> [] \<and>
     (\<forall>a \<in> set (em_From e # em_To e). MatchString emailPattern (ad_Email a))"
proof -
  have to: "validate_to as = None \<longleftrightarrow> (\<forall>a \<in> set as. MatchString emailPattern (ad_Email a))" for as
    by (induction as) (auto simp: email_Validate_def)
  show ?thesis
    using to [of "em_To e"]
    by (cases "validate_to (em_To e)") (auto simp: Email_Validate_def email_Validate_def)
qed

section \<open>Letter case\<close>

text \<open>
  The classes of a pattern, and closure of its language under a renaming of characters
  that every class allows.
\<close>

fun classes :: "rx \<Rightarrow> (nat \<Rightarrow> bool) list" where
  "classes (Cls p) = [p]"
| "classes (Seq a b) = classes a @ classes b"
| "classes (Alt a b) = classes a @ classes b"
| "classes (Star a) = classes a"
| "classes _ = []"

lemma in_lang_classes: "in_lang r w \<Longrightarrow> \<forall>c \<in> set w. \<exists>p \<in> set (classes r). p c"
  by (induction rule: in_lang.induct) auto

lemma in_lang_map:
  "in_lang r w \<Longrightarrow> \<forall>p \<in> set (classes r). \<forall>c. p c \<longrightarrow> p (f c) \<Longrightarrow> in_lang r (map f w)"
  by (induction rule: in_lang.induct) (auto intro: in_lang.intros)

definition lower_nat :: "nat \<Rightarrow> nat" where
  "lower_nat n = (if between 65 90 n then n + 32 else n)"

definition case_free :: "rx \<Rightarrow> bool" where
  "case_free r \<longleftrightarrow> (\<forall>p \<in> set (classes r). \<forall>c. p c \<longrightarrow> c < 128 \<and> p (lower_nat c))"

text \<open>A pattern of ASCII classes that contain the lower case of their members.\<close>

lemma case_free_match:
  assumes "case_free r" and "MatchString r s"
  shows "list_all ascii s" "MatchString r (strings_ToLower f s)"
proof -
  have "in_lang r (runes s)"
    using assms(2) by (simp add: MatchString_lang)
  then have "list_all (\<lambda>c. c < 128) (runes s)"
    using assms(1) in_lang_classes by (fastforce simp: case_free_def list_all_iff)
  then show a: "list_all ascii s"
    by (rule runes_all_ascii)
  have low: "list_all ascii (map lower_char s)"
    using a by (simp add: list_all_iff ascii_lower)
  have "map of_char (map lower_char s) = map lower_nat (map of_char s)"
    unfolding map_map by (rule map_cong [OF refl])
      (simp only: comp_apply lower_char_code lower_nat_def between_def Let_def)
  then have "runes (map lower_char s) = map lower_nat (runes s)"
    using runes_ascii [OF low] runes_ascii [OF a] by simp
  moreover have "in_lang r (map lower_nat (runes s))"
    using in_lang_map [OF \<open>in_lang r (runes s)\<close>, of lower_nat] assms(1)
    unfolding case_free_def by blast
  ultimately show "MatchString r (strings_ToLower f s)"
    using a by (simp add: strings_ToLower_def MatchString_lang)
qed

lemma classes_Plus [simp]: "classes (Plus r) = classes r @ classes r"
  by (simp add: Plus_def)

lemma classes_UpTo: "set (classes (UpTo n r)) \<subseteq> set (classes r)"
  by (induction n) (auto simp: Opt_def)

lemma classes_Rep: "set (classes (Rep m n r)) \<subseteq> set (classes r)"
proof -
  have "set (classes (Exactly m r)) \<subseteq> set (classes r)"
    by (induction m) auto
  then show ?thesis
    using classes_UpTo by (fastforce simp: Rep_def)
qed

lemma emailPattern_case_free: "case_free emailPattern"
  by (auto simp: case_free_def emailPattern_def dot_atom_def Lit_def atom_char_def quoted_char_def
      escaped_char_def literal_char_def lower_nat_def class_defs)

end
