(* ===== verification/User.thy ===== *)
theory User
  imports Email Mongo
begin

text \<open>
  Accounts: \<^verbatim>\<open>services/user/user.go\<close> (types and validation), \<^verbatim>\<open>mongo.go\<close> (the repository) and
  \<^verbatim>\<open>actions.go\<close> (passwords).  \<^verbatim>\<open>bcrypt\<close> and the transactions of the driver are parameters.
  The lemmas show that validation refuses exactly the malformed accounts, that an account is
  found under any casing of its identifiers, that an identifier is never registered twice,
  and what each password operation does on each outcome.
\<close>

section \<open>Types and validation\<close>

definition PlatformUnknown :: string where "PlatformUnknown = ''''"
definition PlatformEmail :: string where "PlatformEmail = ''email''"
definition PlatformTwitter :: string where "PlatformTwitter = ''twitter''"
definition PlatformGithub :: string where "PlatformGithub = ''github''"

lemmas platform_defs = PlatformUnknown_def PlatformEmail_def PlatformTwitter_def PlatformGithub_def

definition Platform_Validate :: "string \<Rightarrow> err" where
  "Platform_Validate p =
     (if p = PlatformEmail \<or> p = PlatformTwitter \<or> p = PlatformGithub then None
      else Some (New ''unknown platform''))"

record ident =
  id_Platform :: string
  id_Value :: string

text \<open>\<^verbatim>\<open>^@?(\w){1,15}$\<close> and \<^verbatim>\<open>^[a-zA-Z0-9]+(?:-[a-zA-Z0-9]+)*$\<close>\<close>

definition twitterHandle :: rx where
  "twitterHandle = Seq (Opt (Lit 64)) (Rep 1 15 (Cls is_word))"

definition alnum :: "nat \<Rightarrow> bool" where
  "alnum c = (is_lower c \<or> is_upper c \<or> is_digit c)"

definition githubHandle :: rx where
  "githubHandle = Seq (Plus (Cls alnum)) (Star (Seq (Lit 45) (Plus (Cls alnum))))"

definition Ident_Validate :: "ident \<Rightarrow> err" where
  "Ident_Validate i = (case Platform_Validate (id_Platform i) of
      Some e \<Rightarrow> Some e
    | None \<Rightarrow>
        if id_Value i = '''' then Some (New ''value should not be empty'')
        else if id_Platform i = PlatformEmail then
          (if email_Validate (id_Value i) \<noteq> None then Some (New ''ivalid email identifier'') else None)
        else if id_Platform i = PlatformTwitter then
          (if \<not> MatchString twitterHandle (id_Value i) then Some (New ''ivalid Twitter identifier'') else None)
        else if id_Platform i = PlatformGithub then
          (if length (id_Value i) > 40 \<or> \<not> MatchString githubHandle (id_Value i)
           then Some (New ''ivalid GitHub identifier'') else None)
        else None)"

definition Ident_Normalized :: "unicode \<Rightarrow> ident \<Rightarrow> ident" where
  "Ident_Normalized U i =
     (if id_Platform i = PlatformEmail \<or> id_Platform i = PlatformTwitter \<or> id_Platform i = PlatformGithub
      then i\<lparr>id_Value := strings_ToLower (ulower U) (id_Value i)\<rparr> else i)"

record user =
  us_ID :: uuid
  us_CreatedAt :: time
  us_Idents :: "ident list"
  us_PasswordHash :: "byte list"

definition user_zero :: user where
  "user_zero = \<lparr>us_ID = uuid_Nil, us_CreatedAt = time_zero, us_Idents = [], us_PasswordHash = []\<rparr>"

text \<open>The loop over the identifiers, with the set of the ones seen.\<close>

fun validate_idents :: "ident list \<Rightarrow> string set \<Rightarrow> err" where
  "validate_idents [] seen = None"
| "validate_idents (i # is) seen = (case Ident_Validate i of
      Some e \<Rightarrow> Some (Wrap ''identifier is not valid'' e)
    | None \<Rightarrow> (let idx = id_Platform i @ id_Value i in
        if idx \<in> seen then Some (Wrap ''identifier is not valid'' (Sentinel P_user ErrDuplicateEntry))
        else validate_idents is (insert idx seen)))"

definition User_Validate :: "user \<Rightarrow> err" where
  "User_Validate u =
     (if us_ID u = uuid_Nil then Some (New ''id should not be empty'')
      else if length (us_Idents u) = 0 then Some (New ''must have at least one identifier'')
      else if length (us_Idents u) > 10 then Some (New ''maximum 10 identifiers'')
      else (case validate_idents (us_Idents u) {} of
        Some e \<Rightarrow> Some e
      | None \<Rightarrow> if length (us_PasswordHash u) > 256
          then Some (New ''password hash cannot be longer than 256 bytes'') else None))"

text \<open>\<^verbatim>\<open>^[^ \t].{6,64}[^ \t]$\<close>, where the dot is any rune but a newline.\<close>

definition not_blank :: "nat \<Rightarrow> bool" where
  "not_blank c = (c \<noteq> 32 \<and> c \<noteq> 9)"

definition validPassword :: rx where
  "validPassword = Seq (Cls not_blank) (Seq (Rep 6 64 (Cls (\<lambda>c. c \<noteq> 10))) (Cls not_blank))"

definition Password_Validate :: "string \<Rightarrow> err" where
  "Password_Validate p =
     (if \<not> MatchString validPassword p then Some (New ''invalid password'') else None)"

text \<open>The functions of \<^verbatim>\<open>bcrypt\<close> the package calls; hashing draws a salt from the world.\<close>

record 'w bcrypt =
  bc_GenerateFromPassword :: "string \<Rightarrow> int \<Rightarrow> 'w \<Rightarrow> 'w \<times> byte list res"
  bc_CompareHashAndPassword :: "byte list \<Rightarrow> string \<Rightarrow> err"

definition Password_Hash :: "'w bcrypt \<Rightarrow> string \<Rightarrow> 'w \<Rightarrow> 'w \<times> byte list res" where
  "Password_Hash b p = bc_GenerateFromPassword b p 12"

definition Password_Check :: "'w bcrypt \<Rightarrow> string \<Rightarrow> byte list \<Rightarrow> bool res" where
  "Password_Check b p h = (case bc_CompareHashAndPassword b h p of
      None \<Rightarrow> Inr True
    | Some e \<Rightarrow> if errors_Is e P_bcrypt ErrMismatchedHashAndPassword then Inr False else Inl e)"

record user_update =
  uu_PasswordHash :: "byte list"

definition user_Update_Validate :: "user_update \<Rightarrow> err" where
  "user_Update_Validate u =
     (if length (uu_PasswordHash u) = 0 then Some (New ''no fields provided'')
      else if length (uu_PasswordHash u) > 256
      then Some (New ''password hash cannot be longer than 256 bytes'') else None)"

record user_lookup =
  ul_ID :: uuid
  ul_Idents :: "ident list"
  ul_WithoutPassword :: bool
  ul_Limit :: int

definition user_lookup_zero :: user_lookup where
  "user_lookup_zero = \<lparr>ul_ID = uuid_Nil, ul_Idents = [], ul_WithoutPassword = False, ul_Limit = 0\<rparr>"

fun lookup_idents :: "ident list \<Rightarrow> err" where
  "lookup_idents [] = None"
| "lookup_idents (i # is) = (case Ident_Validate i of
      Some e \<Rightarrow> Some (Wrap ''invalid ident'' e) | None \<Rightarrow> lookup_idents is)"

definition user_Lookup_Validate :: "user_lookup \<Rightarrow> err" where
  "user_Lookup_Validate l =
     (if length (ul_Idents l) > 0 then lookup_idents (ul_Idents l)
      else if ul_ID l \<noteq> uuid_Nil then None
      else Some (New ''empty lookup not allowed''))"

section \<open>The repository\<close>

abbreviation user_err :: "ekind \<Rightarrow> go_error" where
  "user_err \<equiv> Sentinel P_user"

definition user_collection :: string where "user_collection = ''users''"

definition user_batchLimit :: int where "user_batchLimit = 500"

definition ident_doc :: "ident \<Rightarrow> bdoc" where
  "ident_doc i = [(''platform'', BStr (id_Platform i)), (''value'', BStr (id_Value i))]"

definition user_enc :: "user \<Rightarrow> bdoc" where
  "user_enc u = [(''_id'', BUuid (us_ID u)), (''createdAt'', BTime (us_CreatedAt u)),
     (''idents'', BArr (map (\<lambda>i. BDoc (ident_doc i)) (us_Idents u)))] @
     (if us_PasswordHash u = [] then [] else [(''passwordHash'', BBytes (us_PasswordHash u))])"

definition ident_dec :: "bval \<Rightarrow> ident res" where
  "ident_dec v = (case v of BDoc d \<Rightarrow> bindr (dec_str d ''platform'') (\<lambda>p. bindr (dec_str d ''value'')
       (\<lambda>x. Inr \<lparr>id_Platform = p, id_Value = x\<rparr>)) | _ \<Rightarrow> Inl EDecode)"

fun idents_dec :: "bval list \<Rightarrow> ident list res" where
  "idents_dec [] = Inr []"
| "idents_dec (v # vs) = bindr (ident_dec v) (\<lambda>i. bindr (idents_dec vs) (\<lambda>is. Inr (i # is)))"

definition user_dec :: "bdoc \<Rightarrow> user res" where
  "user_dec d = bindr (dec_uuid d ''_id'') (\<lambda>i. bindr (dec_time d ''createdAt'') (\<lambda>t.
     bindr (case bget d ''idents'' of None \<Rightarrow> Inr [] | Some (BArr vs) \<Rightarrow> idents_dec vs | _ \<Rightarrow> Inl EDecode) (\<lambda>is.
     bindr (dec_bytes d ''passwordHash'') (\<lambda>h.
       Inr \<lparr>us_ID = i, us_CreatedAt = t, us_Idents = is, us_PasswordHash = h\<rparr>))))"

lemma ident_dec_doc [simp]: "ident_dec (BDoc (ident_doc i)) = Inr i"
  by (simp add: ident_dec_def ident_doc_def dec_defs)

lemma idents_dec_docs [simp]: "idents_dec (map (\<lambda>i. BDoc (ident_doc i)) is) = Inr is"
  by (induction "is") simp_all

interpretation users: codec user_enc user_dec
  by unfold_locales (simp add: user_dec_def user_enc_def dec_defs)

text \<open>The driver's sessions: starting one can fail, running one runs the function in it.\<close>

record 'w txn =
  tx_StartSession :: "'w \<Rightarrow> err"
  tx_WithTransaction :: "('w \<Rightarrow> 'w \<times> err) \<Rightarrow> 'w \<Rightarrow> 'w \<times> err"

definition user_WithTransaction :: "'w txn \<Rightarrow> ('w \<Rightarrow> 'w \<times> err) \<Rightarrow> 'w \<Rightarrow> 'w \<times> err" where
  "user_WithTransaction t fn w = (case tx_StartSession t w of
      Some e \<Rightarrow> (w, Some (Wrap ''failed to start session'' e))
    | None \<Rightarrow> tx_WithTransaction t fn w)"

definition user_prepare :: "unicode \<Rightarrow> time \<Rightarrow> user \<Rightarrow> user res" where
  "user_prepare U now r = (let r' = r\<lparr>us_Idents := map (Ident_Normalized U) (us_Idents r)\<rparr> in
     case User_Validate r' of
       Some e \<Rightarrow> Inl (WrapS (user_err ErrValidation) e)
     | None \<Rightarrow> Inr (r'\<lparr>us_CreatedAt := mongoNow now\<rparr>))"

lemma user_prepare_ID: "user_prepare U now r = Inr r' \<Longrightarrow> us_ID r' = us_ID r"
  by (auto simp: user_prepare_def Let_def split: option.splits)

definition user_Create :: "unicode \<Rightarrow> 'w mongo \<Rightarrow> time \<Rightarrow> user list \<Rightarrow> 'w \<Rightarrow> 'w \<times> user list res" where
  "user_Create U m now = create_batch m user_collection user_enc user_batchLimit
     ''trying to create more than 500'' (user_prepare U now) (Some (user_err ErrDuplicateEntry))"

definition user_GetOrCreate :: "unicode \<Rightarrow> 'w mongo \<Rightarrow> time \<Rightarrow> user \<Rightarrow> 'w \<Rightarrow> 'w \<times> user res" where
  "user_GetOrCreate U m now request w = (case user_prepare U now request of
      Inl e \<Rightarrow> (w, Inl e)
    | Inr r \<Rightarrow> (case mg_findOneAndUpdate m user_collection
          [FField ''idents'' (FElemOr (map ident_doc (us_Idents r)))] [USetOnInsert (user_enc r)] True w of
        (w', Inl e) \<Rightarrow> (w', Inl e)
      | (w', Inr d) \<Rightarrow> (w', user_dec d)))"

definition user_mongoFilter :: "unicode \<Rightarrow> user_lookup \<Rightarrow> mfilter" where
  "user_mongoFilter U l =
     (if ul_ID l \<noteq> uuid_Nil then [FField ''_id'' (FEq (BUuid (ul_ID l)))] else []) @
     (if length (ul_Idents l) > 0
      then [FField ''idents'' (FElemOr (map (\<lambda>i. ident_doc (Ident_Normalized U i)) (ul_Idents l)))] else []) @
     (if ul_WithoutPassword l then [FField ''passwordHash'' (FExists False)] else [])"

definition user_set :: "user_update \<Rightarrow> mupdate list" where
  "user_set u = [USet (if uu_PasswordHash u = [] then []
     else [(''passwordHash'', BBytes (uu_PasswordHash u))])]"

definition user_Update :: "unicode \<Rightarrow> 'w mongo \<Rightarrow> user_lookup \<Rightarrow> user_update \<Rightarrow> 'w \<Rightarrow> 'w \<times> nat res" where
  "user_Update U m l request w = (case user_Update_Validate request of
      Some e \<Rightarrow> (w, Inl (WrapS (user_err ErrValidation) e))
    | None \<Rightarrow> (case mg_updateMany m user_collection (user_mongoFilter U l) (user_set request) w of
        (w', Inl e) \<Rightarrow> (w', Inl (if IsDuplicateKeyError e then user_err ErrDuplicateEntry else e))
      | (w', Inr n) \<Rightarrow> (w', Inr n)))"

definition user_UpdateOne :: "unicode \<Rightarrow> 'w mongo \<Rightarrow> user_lookup \<Rightarrow> user_update \<Rightarrow> 'w \<Rightarrow> 'w \<times> user res" where
  "user_UpdateOne U m l request w = (case user_Update_Validate request of
      Some e \<Rightarrow> (w, Inl (WrapS (user_err ErrValidation) e))
    | None \<Rightarrow> (case mg_findOneAndUpdate m user_collection (user_mongoFilter U l) (user_set request) False w of
        (w', Inl e) \<Rightarrow> (w', Inl (if IsDuplicateKeyError e then user_err ErrDuplicateEntry
           else if IsNoDocuments e then user_err ErrNotFound else e))
      | (w', Inr d) \<Rightarrow> (w', (case user_dec d of
          Inl e \<Rightarrow> Inl (Wrap ''faile to decode user'' e) | Inr u \<Rightarrow> Inr u))))"

definition user_Fetch :: "unicode \<Rightarrow> 'w mongo \<Rightarrow> user_lookup \<Rightarrow> 'w \<Rightarrow> 'w \<times> user list res" where
  "user_Fetch U m l w = (case user_Lookup_Validate l of
      Some e \<Rightarrow> (w, Inl (WrapS (user_err ErrValidation) e))
    | None \<Rightarrow> find_decoded m user_collection user_dec (user_mongoFilter U l) [] (ul_Limit l) w)"

definition user_FetchOne :: "unicode \<Rightarrow> 'w mongo \<Rightarrow> user_lookup \<Rightarrow> 'w \<Rightarrow> 'w \<times> user res" where
  "user_FetchOne U m l =
     fetch_one (user_Fetch U m l) (user_err ErrNotFound) (user_err ErrUnexpectedResult)"

section \<open>The actions\<close>

text \<open>\<^verbatim>\<open>user.Repo\<close>\<close>

record 'w user_repo =
  ur_WithTransaction :: "('w \<Rightarrow> 'w \<times> err) \<Rightarrow> 'w \<Rightarrow> 'w \<times> err"
  ur_GetOrCreate :: "user \<Rightarrow> 'w \<Rightarrow> 'w \<times> user res"
  ur_UpdateOne :: "user_lookup \<Rightarrow> user_update \<Rightarrow> 'w \<Rightarrow> 'w \<times> user res"
  ur_FetchOne :: "user_lookup \<Rightarrow> 'w \<Rightarrow> 'w \<times> user res"

definition user_mongo_repo :: "unicode \<Rightarrow> 'w mongo \<Rightarrow> 'w txn \<Rightarrow> time \<Rightarrow> 'w user_repo" where
  "user_mongo_repo U m t now = \<lparr>ur_WithTransaction = user_WithTransaction t,
     ur_GetOrCreate = user_GetOrCreate U m now, ur_UpdateOne = user_UpdateOne U m,
     ur_FetchOne = user_FetchOne U m\<rparr>"

definition GetOrCreate :: "'w user_repo \<Rightarrow> uuid \<Rightarrow> user \<Rightarrow> 'w \<Rightarrow> 'w \<times> user res" where
  "GetOrCreate repo new_id request = ur_GetOrCreate repo (request\<lparr>us_ID := new_id\<rparr>)"

text \<open>\<^verbatim>\<open>CreatePassword\<close> and \<^verbatim>\<open>ResetPassword\<close> differ in one field of the lookup.\<close>

definition set_password ::
  "'w user_repo \<Rightarrow> 'w bcrypt \<Rightarrow> bool \<Rightarrow> ident \<Rightarrow> string \<Rightarrow> 'w \<Rightarrow> 'w \<times> user res" where
  "set_password repo b without ident password w = (case Ident_Validate ident of
      Some e \<Rightarrow> (w, Inl (WrapS (user_err ErrValidation) e))
    | None \<Rightarrow> (case Password_Validate password of
        Some e \<Rightarrow> (w, Inl (WrapS (user_err ErrValidation) e))
      | None \<Rightarrow> (case Password_Hash b password w of
          (w1, Inl e) \<Rightarrow> (w1, Inl (Wrap ''failed to hash password'' e))
        | (w1, Inr h) \<Rightarrow> (case ur_UpdateOne repo
              (user_lookup_zero\<lparr>ul_Idents := [ident], ul_WithoutPassword := without\<rparr>)
              \<lparr>uu_PasswordHash = h\<rparr> w1 of
            (w2, Inl e) \<Rightarrow> (w2, Inl (Wrap ''failed to update user'' e))
          | (w2, Inr u) \<Rightarrow> (w2, Inr u)))))"

definition CreatePassword :: "'w user_repo \<Rightarrow> 'w bcrypt \<Rightarrow> ident \<Rightarrow> string \<Rightarrow> 'w \<Rightarrow> 'w \<times> user res" where
  "CreatePassword repo b = set_password repo b True"

definition ResetPassword :: "'w user_repo \<Rightarrow> 'w bcrypt \<Rightarrow> ident \<Rightarrow> string \<Rightarrow> 'w \<Rightarrow> 'w \<times> user res" where
  "ResetPassword repo b = set_password repo b False"

text \<open>
  The function run in the transaction of \<^verbatim>\<open>UpdatePassword\<close>.  Its \<^verbatim>\<open>user, err :=\<close> declares a
  variable of its own, so the outer \<^verbatim>\<open>user\<close> stays the zero value.
\<close>

definition update_password_tx ::
  "'w user_repo \<Rightarrow> 'w bcrypt \<Rightarrow> uuid \<Rightarrow> string \<Rightarrow> byte list \<Rightarrow> 'w \<Rightarrow> 'w \<times> err" where
  "update_password_tx repo b userID oldPassword newHash w =
     (case ur_FetchOne repo (user_lookup_zero\<lparr>ul_ID := userID\<rparr>) w of
       (w1, Inl e) \<Rightarrow> (w1, Some (Wrap ''failed to fetch user'' e))
     | (w1, Inr u) \<Rightarrow> (case Password_Check b oldPassword (us_PasswordHash u) of
         Inl e \<Rightarrow> (w1, Some (Wrap ''failed to check password'' e))
       | Inr False \<Rightarrow> (w1, Some (WrapS (user_err ErrValidation) (New ''invalid password'')))
       | Inr True \<Rightarrow> (case ur_UpdateOne repo (user_lookup_zero\<lparr>ul_ID := userID\<rparr>)
             \<lparr>uu_PasswordHash = newHash\<rparr> w1 of
           (w2, Inl e) \<Rightarrow> (w2, Some (Wrap ''failed to update user'' e))
         | (w2, Inr u') \<Rightarrow> (w2, None))))"

definition UpdatePassword ::
  "'w user_repo \<Rightarrow> 'w bcrypt \<Rightarrow> uuid \<Rightarrow> string \<Rightarrow> string \<Rightarrow> 'w \<Rightarrow> 'w \<times> user res" where
  "UpdatePassword repo b userID oldPassword newPassword w =
     (if oldPassword = newPassword
      then (w, Inl (WrapS (user_err ErrValidation) (New ''old and new password cannot be the same'')))
      else (case Password_Validate newPassword of
        Some e \<Rightarrow> (w, Inl (WrapS (user_err ErrValidation) e))
      | None \<Rightarrow> (case Password_Hash b newPassword w of
          (w1, Inl e) \<Rightarrow> (w1, Inl (Wrap ''failed to hash password'' e))
        | (w1, Inr h) \<Rightarrow> (case ur_WithTransaction repo (update_password_tx repo b userID oldPassword h) w1 of
            (w2, Some e) \<Rightarrow> (w2, Inl (Wrap ''failed to commit transaction'' e))
          | (w2, None) \<Rightarrow> (w2, Inr user_zero)))))"

definition CheckPassword :: "'w user_repo \<Rightarrow> 'w bcrypt \<Rightarrow> ident \<Rightarrow> string \<Rightarrow> 'w \<Rightarrow> 'w \<times> user res" where
  "CheckPassword repo b ident password w =
     (case ur_FetchOne repo (user_lookup_zero\<lparr>ul_Idents := [ident]\<rparr>) w of
       (w1, Inl e) \<Rightarrow> (w1, Inl (Wrap ''failed to fetch user'' e))
     | (w1, Inr u) \<Rightarrow> (case Password_Check b password (us_PasswordHash u) of
         Inl e \<Rightarrow> (w1, Inl (Wrap ''failed to check password'' e))
       | Inr False \<Rightarrow> (w1, Inl (WrapS (user_err ErrNotFound) (New ''invalid password'')))
       | Inr True \<Rightarrow> (w1, Inr u)))"

section \<open>Validation\<close>

fun_cases validate_ConsE: "validate_idents (i # is) seen = None"

lemma Platform_Validate_None:
  "Platform_Validate p = None \<longleftrightarrow> p \<in> {PlatformEmail, PlatformTwitter, PlatformGithub}"
  by (auto simp: Platform_Validate_def)

lemma Ident_platform:
  "Ident_Validate i = None \<Longrightarrow> id_Platform i \<in> {PlatformEmail, PlatformTwitter, PlatformGithub}"
  by (auto simp: Ident_Validate_def Platform_Validate_None split: option.splits)

text \<open>The key of the set of seen identifiers is unambiguous: no platform is a prefix of another.\<close>

lemma ident_key_inj:
  assumes "Ident_Validate i = None" and "Ident_Validate j = None"
    and "id_Platform i @ id_Value i = id_Platform j @ id_Value j"
  shows "i = j"
  using assms Ident_platform [OF assms(1)] Ident_platform [OF assms(2)]
  by (cases i; cases j) (auto simp: platform_defs)

lemma validate_idents_None:
  "validate_idents is seen = None \<longleftrightarrow>
     (\<forall>i \<in> set is. Ident_Validate i = None \<and> id_Platform i @ id_Value i \<notin> seen) \<and>
     distinct (map (\<lambda>i. id_Platform i @ id_Value i) is)"
proof (induction "is" arbitrary: seen)
  case (Cons i "is")
  show ?case
    by (cases "Ident_Validate i") (auto simp: Cons.IH Let_def image_iff Ball_def)
qed simp

text \<open>
  An account is valid exactly when it has an id, between one and ten identifiers, each
  valid for its platform and no two the same, and a password hash of at most 256 bytes: the
  duplicate test on the concatenated platform and value confuses no two identifiers.
\<close>

theorem User_Validate_exact:
  "User_Validate u = None \<longleftrightarrow> us_ID u \<noteq> uuid_Nil \<and> us_Idents u \<noteq> [] \<and> length (us_Idents u) \<le> 10 \<and>
     list_all (\<lambda>i. Ident_Validate i = None) (us_Idents u) \<and> distinct (us_Idents u) \<and>
     length (us_PasswordHash u) \<le> 256"
proof -
  have "distinct (map (\<lambda>i. id_Platform i @ id_Value i) is) \<longleftrightarrow> distinct is"
    if "\<forall>i \<in> set is. Ident_Validate i = None" for "is"
    using that ident_key_inj by (force simp: distinct_map inj_on_def)
  then have "validate_idents (us_Idents u) {} = None \<longleftrightarrow>
      list_all (\<lambda>i. Ident_Validate i = None) (us_Idents u) \<and> distinct (us_Idents u)"
    by (auto simp: validate_idents_None list_all_iff)
  then show ?thesis
    by (cases "validate_idents (us_Idents u) {}") (auto simp: User_Validate_def)
qed

lemma twitter_case_free: "case_free twitterHandle"
proof -
  have "is_word c \<longrightarrow> c < 128 \<and> is_word (lower_nat c)" for c
    by (auto simp: lower_nat_def class_defs)
  moreover have "p = is_word" if "p \<in> set (classes (Rep 1 15 (Cls is_word)))" for p
    using that classes_Rep [of 1 15 "Cls is_word"] by auto
  moreover have "c = 64 \<longrightarrow> c < 128 \<and> lower_nat c = 64" for c
    by (simp add: lower_nat_def class_defs)
  ultimately show ?thesis
    unfolding case_free_def twitterHandle_def Opt_def Lit_def by (auto simp del: One_nat_def)
qed

lemma github_case_free: "case_free githubHandle"
  by (auto simp: case_free_def githubHandle_def Lit_def alnum_def lower_nat_def class_defs)

lemma Normalized_simps [simp]:
  "id_Platform (Ident_Normalized U i) = id_Platform i"
  by (simp add: Ident_Normalized_def)

lemma ToLower_length: "list_all ascii s \<Longrightarrow> length (strings_ToLower f s) = length s"
  by (simp add: strings_ToLower_def)

text \<open>
  Normalising a valid identifier gives a valid identifier, normalising it again changes
  nothing, and no Unicode table is consulted, because a valid identifier is ASCII: every
  spelling of an identifier names one account.
\<close>

theorem Ident_Normalized_valid:
  assumes "Ident_Validate i = None"
  shows "Ident_Validate (Ident_Normalized U i) = None \<and>
    Ident_Normalized U (Ident_Normalized U i) = Ident_Normalized U i \<and>
    id_Value (Ident_Normalized U i) = map lower_char (id_Value i)"
proof -
  define v where "v = id_Value i"
  have p: "id_Platform i \<in> {PlatformEmail, PlatformTwitter, PlatformGithub}"
    by (rule Ident_platform [OF assms])
  have "(id_Platform i = PlatformEmail \<longrightarrow> MatchString emailPattern v) \<and>
    (id_Platform i = PlatformTwitter \<longrightarrow> MatchString twitterHandle v) \<and>
    (id_Platform i = PlatformGithub \<longrightarrow> MatchString githubHandle v \<and> length v \<le> 40) \<and> v \<noteq> ''''"
    using assms by (auto simp: Ident_Validate_def v_def email_Validate_def platform_defs
        split: option.splits if_splits)
  moreover have "list_all ascii v"
    using calculation p case_free_match(1) emailPattern_case_free twitter_case_free github_case_free
    by blast
  moreover have "MatchString r (map lower_char v)" if "case_free r" "MatchString r v" for r
    using case_free_match(2) [OF that, of "\<lambda>_. v"] \<open>list_all ascii v\<close> by (simp add: strings_ToLower_def)
  ultimately show ?thesis
    using p emailPattern_case_free twitter_case_free github_case_free
    by (auto simp: Ident_Normalized_def Ident_Validate_def Platform_Validate_def strings_ToLower_def
        v_def [symmetric] email_Validate_def platform_defs list_all_iff ascii_lower lower_char_idem)
qed

section \<open>Accounts in the store\<close>

lemma user_dec_cong: "(\<And>k. bget d k = bget d' k) \<Longrightarrow> user_dec d = user_dec d'"
  by (simp add: user_dec_def dec_uuid_def dec_time_def dec_bytes_def)

text \<open>A document holds an identifier.\<close>

definition has_ident :: "bdoc \<Rightarrow> ident \<Rightarrow> bool" where
  "has_ident d i = (case bget d ''idents'' of
     Some (BArr vs) \<Rightarrow> list_ex (\<lambda>v. elem_matches (ident_doc i) v) vs | _ \<Rightarrow> False)"

lemma FElemOr_idents:
  "filt_holds (FField ''idents'' (FElemOr (map ident_doc is))) d \<longleftrightarrow> (\<exists>i \<in> set is. has_ident d i)"
  by (auto simp: has_ident_def list_ex_iff split: option.splits bval.splits)

lemma idents_dec_member:
  assumes "idents_dec vs = Inr is" and "v \<in> set vs" and "elem_matches (ident_doc i) v"
  shows "i \<in> set is"
  using assms
proof (induction vs arbitrary: "is")
  case (Cons x xs)
  from Cons.prems(1) obtain j js where j: "ident_dec x = Inr j" "idents_dec xs = Inr js" "is = j # js"
    by (auto simp: bindr_def split: sum.splits)
  show ?case
  proof (cases "x = v")
    case True
    with Cons.prems(3) j have "j = i"
      by (cases i) (auto simp: elem_matches_def ident_dec_def ident_doc_def dec_defs bindr_def
          split: bval.splits option.splits sum.splits)
    with j show ?thesis by simp
  next
    case False
    with Cons.prems Cons.IH [OF j(2)] j(3) show ?thesis by simp
  qed
qed simp

lemma has_ident_decoded: "has_ident d i \<Longrightarrow> user_dec d = Inr u \<Longrightarrow> i \<in> set (us_Idents u)"
  by (auto simp: has_ident_def list_ex_iff user_dec_def bindr_def idents_dec_member
      split: option.splits bval.splits sum.splits)

lemma user_filter_one:
  "matches (user_mongoFilter U (user_lookup_zero\<lparr>ul_Idents := [i]\<rparr>)) d \<longleftrightarrow> has_ident d (Ident_Normalized U i)"
  "matches (user_mongoFilter U (user_lookup_zero\<lparr>ul_Idents := [i], ul_WithoutPassword := True\<rparr>)) d \<longleftrightarrow>
     has_ident d (Ident_Normalized U i) \<and> bget d ''passwordHash'' = None"
  "matches (user_mongoFilter U (user_lookup_zero\<lparr>ul_ID := u\<rparr>)) d \<longleftrightarrow>
     u = uuid_Nil \<or> bget d ''_id'' = Some (BUuid u)"
  using FElemOr_idents [of "[Ident_Normalized U i]" d]
  by (auto simp: user_mongoFilter_def user_lookup_zero_def simp del: filt_holds.simps(1))
    (auto simp: user_mongoFilter_def user_lookup_zero_def)


lemma user_dec_ID: "user_dec d = Inr u \<Longrightarrow> bget d ''_id'' = Some (BUuid i) \<Longrightarrow> us_ID u = i"
  by (auto simp: user_dec_def dec_uuid_def bindr_def split: sum.splits)

text \<open>
  A successful \<^verbatim>\<open>CheckPassword\<close> returns a stored account that holds the identifier, in
  any casing, and whose hash \<^verbatim>\<open>bcrypt\<close> accepted for the password.
\<close>

theorem CheckPassword_sound:
  assumes "mongo_laws m docs"
    and "CheckPassword (user_mongo_repo U m t now) b ident password w = (w', Inr u)"
  shows "(\<exists>d \<in> set (docs w user_collection). user_dec d = Inr u) \<and>
    Ident_Normalized U ident \<in> set (us_Idents u) \<and>
    bc_CompareHashAndPassword b (us_PasswordHash u) password = None"
proof -
  let ?l = "user_lookup_zero\<lparr>ul_Idents := [ident]\<rparr>"
  have f: "find_decoded m user_collection user_dec (user_mongoFilter U ?l) [] (ul_Limit ?l) w = (w', Inr [u])"
    and c: "bc_CompareHashAndPassword b (us_PasswordHash u) password = None"
    using assms(2) by (auto simp: CheckPassword_def user_mongo_repo_def user_FetchOne_def fetch_one_Inr
        user_Fetch_def Password_Check_def split: prod.splits sum.splits bool.splits option.splits if_splits)
  from find_decoded_member [OF assms(1) f] obtain d where "d \<in> set (docs w user_collection)"
    "matches (user_mongoFilter U ?l) d" "user_dec d = Inr u"
    by auto
  with c has_ident_decoded show ?thesis
    by (auto simp: user_filter_one)
qed

lemma user_UpdateOne_keeps:
  assumes "mongo_laws m docs" and "user_UpdateOne U m l req v = (v', r)"
    and "d \<in> set (docs v user_collection)" and "\<not> matches (user_mongoFilter U l) d"
  shows "d \<in> set (docs v' user_collection)"
proof (cases "user_Update_Validate req")
  case None
  obtain v2 r2 where f: "mg_findOneAndUpdate m user_collection (user_mongoFilter U l) (user_set req) False v
      = (v2, r2)"
    by fastforce
  with None assms(2) have "v' = v2"
    by (auto simp: user_UpdateOne_def split: sum.splits)
  with update_one_keeps [OF assms(1) _ f assms(3,4)] show ?thesis
    by (simp add: user_set_def)
next
  case (Some e)
  with assms show ?thesis by (simp add: user_UpdateOne_def)
qed

text \<open>
  \<^verbatim>\<open>CreatePassword\<close>, the sign-up path, never touches an account that already has a
  password, nor one without the identifier, whatever it returns.
\<close>

theorem CreatePassword_never_overwrites:
  assumes "mongo_laws m docs" and "\<forall>p c v. docs (fst (bc_GenerateFromPassword b p c v)) = docs v"
    and "CreatePassword (user_mongo_repo U m t now) b ident password w = (w', r)"
    and "d \<in> set (docs w user_collection)"
    and "bget d ''passwordHash'' \<noteq> None \<or> \<not> has_ident d (Ident_Normalized U ident)"
  shows "d \<in> set (docs w' user_collection)"
proof -
  let ?l = "user_lookup_zero\<lparr>ul_Idents := [ident], ul_WithoutPassword := True\<rparr>"
  have nomatch: "\<not> matches (user_mongoFilter U ?l) d"
    using assms(5) by (auto simp: user_filter_one)
  have upd: "d \<in> set (docs v' user_collection)"
    if "user_UpdateOne U m ?l req v = (v', r')" "docs v = docs w" for v v' r' req
    using user_UpdateOne_keeps [OF assms(1) that(1) _ nomatch] that(2) assms(4) by simp
  obtain v hr where v: "Password_Hash b password w = (v, hr)"
    by fastforce
  with assms(2) have "docs v = docs w"
    unfolding Password_Hash_def by (metis fst_conv)
  with v assms(3,4) upd show ?thesis
    by (auto simp: CreatePassword_def set_password_def user_mongo_repo_def
        split: option.splits sum.splits prod.splits)
qed

text \<open>
  What the driver documents of a transaction: if it commits, the function ran and its effects
  are kept; if it does not, nothing is.
\<close>

definition txn_laws :: "'w txn \<Rightarrow> ('w \<Rightarrow> string \<Rightarrow> bdoc list) \<Rightarrow> bool" where
  "txn_laws t docs = (\<forall>fn w w' r. tx_WithTransaction t fn w = (w', r) \<longrightarrow>
     (r = None \<longrightarrow> fn w = (w', None)) \<and> (r \<noteq> None \<longrightarrow> docs w' = docs w))"

text \<open>
  \<^verbatim>\<open>UpdatePassword\<close> is all or nothing: an error leaves every account as it was; a success
  means that \<^verbatim>\<open>bcrypt\<close> accepted the old password for a stored account that the id selects
  and that one selected account now has the new hash, all others being unchanged.  The user
  it returns is the zero value, because the transaction assigns to a shadowing variable.
\<close>

theorem UpdatePassword_atomic:
  assumes "mongo_laws m docs" and "txn_laws t docs"
    and "\<forall>p c v. docs (fst (bc_GenerateFromPassword b p c v)) = docs v"
    and "UpdatePassword (user_mongo_repo U m t now) b userID old new w = (w', r)"
  shows "case r of
      Inl e \<Rightarrow> docs w' = docs w
    | Inr u \<Rightarrow> u = user_zero \<and> (\<exists>x. (\<exists>d0 \<in> set (docs w user_collection). user_dec d0 = Inr x) \<and>
        (userID = uuid_Nil \<or> us_ID x = userID) \<and>
        bc_CompareHashAndPassword b (us_PasswordHash x) old = None) \<and>
        (\<exists>as d d' bs h. docs w user_collection = as @ d # bs \<and> docs w' user_collection = as @ d' # bs \<and>
           (userID = uuid_Nil \<or> bget d ''_id'' = Some (BUuid userID)) \<and>
           (\<forall>k. bget d' k = (if k = ''passwordHash'' then Some (BBytes h) else bget d k)))"
proof -
  let ?l = "user_lookup_zero\<lparr>ul_ID := userID\<rparr>" and ?R = "user_mongo_repo U m t now"
  obtain v hr where v: "Password_Hash b new w = (v, hr)"
    by fastforce
  then have dv: "docs v = docs w"
    using assms(3) unfolding Password_Hash_def by (metis fst_conv)
  show ?thesis
  proof (cases r)
    case (Inl e)
    have "docs w2 = docs w" if "user_WithTransaction t fn v = (w2, Some e2)" for w2 fn e2
      using that assms(2) dv
      by (auto simp: user_WithTransaction_def txn_laws_def split: option.splits)
    with Inl v dv assms(4) show ?thesis
      by (auto simp: UpdatePassword_def user_mongo_repo_def split: if_splits option.splits sum.splits prod.splits)
  next
    case (Inr u)
    then obtain h where h: "hr = Inr h" "u = user_zero"
      and tx: "user_WithTransaction t (update_password_tx ?R b userID old h) v = (w', None)"
      using v assms(4) by (auto simp: UpdatePassword_def user_mongo_repo_def
          split: if_splits option.splits sum.splits prod.splits)
    then have "update_password_tx ?R b userID old h v = (w', None)"
      using assms(2) by (auto simp: user_WithTransaction_def txn_laws_def split: option.splits)
    then obtain v1 x x' where fetch: "user_FetchOne U m ?l v = (v1, Inr x)"
      and ok: "Password_Check b old (us_PasswordHash x) = Inr True"
      and upd: "user_UpdateOne U m ?l \<lparr>uu_PasswordHash = h\<rparr> v1 = (w', Inr x')"
      by (auto simp: update_password_tx_def user_mongo_repo_def
          split: sum.splits prod.splits bool.splits)
    have f: "find_decoded m user_collection user_dec (user_mongoFilter U ?l) [] (ul_Limit ?l) v = (v1, Inr [x])"
      using fetch by (auto simp: user_FetchOne_def fetch_one_Inr user_Fetch_def split: option.splits)
    then obtain ds where "mg_find m user_collection (user_mongoFilter U ?l) [] (ul_Limit ?l) v = (v1, Inr ds)"
      by (rule find_decoded_Inr)
    then have d1: "docs v1 = docs w"
      using find_lawD(1) [OF assms(1)] dv by metis
    obtain d0 where "d0 \<in> set (docs v user_collection)" "matches (user_mongoFilter U ?l) d0" "user_dec d0 = Inr x"
      using find_decoded_member [OF assms(1) f] by auto
    then have x: "(\<exists>d0 \<in> set (docs w user_collection). user_dec d0 = Inr x) \<and>
        (userID = uuid_Nil \<or> us_ID x = userID)"
      unfolding dv user_filter_one using user_dec_ID by blast
    from upd obtain d' where "mg_findOneAndUpdate m user_collection (user_mongoFilter U ?l)
        (user_set \<lparr>uu_PasswordHash = h\<rparr>) False v1 = (w', Inr d')" and "h \<noteq> []"
      by (auto simp: user_UpdateOne_def user_Update_Validate_def split: option.splits sum.splits prod.splits if_splits)
    from update_one_lawD(3) [OF assms(1) _ this(1) refl] this(2)
    obtain as d bs where d: "docs w user_collection = as @ d # bs" "matches (user_mongoFilter U ?l) d"
      "docs w' user_collection = as @ d' # bs"
      and fields: "\<forall>k. bget d' k = bget (set_fields [(''passwordHash'', BBytes h)] d) k"
      by (auto simp: user_set_def d1)
    from fields have "\<forall>k. bget d' k = (if k = ''passwordHash'' then Some (BBytes h) else bget d k)"
      by (simp add: bget_set_fields)
    moreover have "userID = uuid_Nil \<or> bget d ''_id'' = Some (BUuid userID)"
      using d(2) by (simp only: user_filter_one)
    moreover have "bc_CompareHashAndPassword b (us_PasswordHash x) old = None"
      using ok by (auto simp: Password_Check_def split: option.splits if_splits)
    ultimately show ?thesis
      unfolding Inr sum.case h(2) using d(1,3) x by blast
  qed
qed

section \<open>Runs\<close>

text \<open>A toy hash, to run the actions: the cost, then the bytes of the password.\<close>

definition toy_bcrypt :: "mem bcrypt" where
  "toy_bcrypt = \<lparr>bc_GenerateFromPassword = (\<lambda>p c w. (w, Inr (word_of_int c # map of_char p))),
     bc_CompareHashAndPassword = (\<lambda>h p. if tl h = map of_char p then None
        else Some (Sentinel P_bcrypt ErrMismatchedHashAndPassword))\<rparr>"

definition toy_txn :: "mem txn" where
  "toy_txn = \<lparr>tx_StartSession = (\<lambda>_. None),
     tx_WithTransaction = (\<lambda>fn w. case fn w of (w', None) \<Rightarrow> (w', None) | (w', Some e) \<Rightarrow> (w, Some e))\<rparr>"

lemma toy_txn_laws: "txn_laws toy_txn (\<lambda>w. w)"
  by (auto simp: txn_laws_def toy_txn_def split: prod.splits option.splits)

definition ascii_unicode :: unicode where
  "ascii_unicode = \<lparr>isL = (\<lambda>c. is_lower c \<or> is_upper c), ulower = (\<lambda>s. s)\<rparr>"

definition octo :: user where
  "octo = \<lparr>us_ID = 7, us_CreatedAt = 0, us_Idents = [\<lparr>id_Platform = ''github'', id_Value = ''octo''\<rparr>],
     us_PasswordHash = 12 # map of_char ''sesame street''\<rparr>"

definition one_user :: mem where
  "one_user = (\<lambda>_. [])(''users'' := [user_enc octo])"

abbreviation mem_users :: "mem user_repo" where
  "mem_users \<equiv> user_mongo_repo ascii_unicode mem_mongo toy_txn 0"

lemmas user_run_defs = user_mongo_repo_def user_FetchOne_def user_Fetch_def user_UpdateOne_def
  user_Lookup_Validate_def user_Update_Validate_def user_lookup_zero_def user_mongoFilter_def
  fetch_one_def find_decoded_def mem_mongo_def one_user_def octo_def user_enc_def user_dec_def
  ident_doc_def ident_dec_def dec_defs take_limit_def exactly_one_def user_set_def
  user_collection_def elem_matches_def uuid_Nil_def

lemma octo_valid:
  "Ident_Validate \<lparr>id_Platform = ''github'', id_Value = ''Octo''\<rparr> = None"
  "Ident_Normalized ascii_unicode \<lparr>id_Platform = ''github'', id_Value = ''Octo''\<rparr> =
     \<lparr>id_Platform = ''github'', id_Value = ''octo''\<rparr>"
  by code_simp+

theorem Ident_Normalized_valid_witness:
  "Ident_Validate (Ident_Normalized ascii_unicode \<lparr>id_Platform = ''github'', id_Value = ''Octo''\<rparr>) = None"
  using Ident_Normalized_valid [OF octo_valid(1)] by blast

theorem CheckPassword_sound_witness:
  "\<exists>w' u. CheckPassword mem_users toy_bcrypt \<lparr>id_Platform = ''github'', id_Value = ''Octo''\<rparr>
       ''sesame street'' one_user = (w', Inr u) \<and>
     bc_CompareHashAndPassword toy_bcrypt (us_PasswordHash u) ''sesame street'' = None"
proof -
  have "CheckPassword mem_users toy_bcrypt \<lparr>id_Platform = ''github'', id_Value = ''Octo''\<rparr>
       ''sesame street'' one_user = (one_user, Inr octo)"
    by (simp add: CheckPassword_def user_run_defs octo_valid Password_Check_def toy_bcrypt_def)
  from CheckPassword_sound [OF mem_mongo_laws this] this show ?thesis
    by blast
qed

lemma toy_bcrypt_docs: "\<forall>p c v. fst (bc_GenerateFromPassword toy_bcrypt p c v) = v"
  by (simp add: toy_bcrypt_def)

theorem CreatePassword_never_overwrites_witness:
  "user_enc octo \<in> set (fst (CreatePassword mem_users toy_bcrypt
     \<lparr>id_Platform = ''github'', id_Value = ''octo''\<rparr> ''another password'' one_user) user_collection)"
proof (rule CreatePassword_never_overwrites [OF mem_mongo_laws toy_bcrypt_docs prod.collapse [symmetric]])
  show "user_enc octo \<in> set (one_user user_collection)"
    by (simp add: one_user_def user_collection_def)
  show "bget (user_enc octo) ''passwordHash'' \<noteq> None \<or> \<not> has_ident (user_enc octo)
      (Ident_Normalized ascii_unicode \<lparr>id_Platform = ''github'', id_Value = ''octo''\<rparr>)"
    by (simp add: user_enc_def octo_def bget_def)
qed

lemma new_password_valid: "Password_Validate ''open sesame!'' = None"
  by code_simp

theorem UpdatePassword_atomic_witness:
  "\<exists>w'. UpdatePassword mem_users toy_bcrypt 7 ''sesame street'' ''open sesame!'' one_user = (w', Inr user_zero)
     \<and> length (w' user_collection) = 1"
proof -
  have "\<exists>w' u. UpdatePassword mem_users toy_bcrypt 7 ''sesame street'' ''open sesame!'' one_user = (w', Inr u)"
    by (simp add: UpdatePassword_def update_password_tx_def user_run_defs new_password_valid
        Password_Check_def Password_Hash_def toy_bcrypt_def toy_txn_def user_WithTransaction_def
        set_fields_def)
  then obtain w' u where u: "UpdatePassword mem_users toy_bcrypt 7 ''sesame street'' ''open sesame!'' one_user
      = (w', Inr u)"
    by blast
  from UpdatePassword_atomic [OF mem_mongo_laws toy_txn_laws toy_bcrypt_docs u]
  obtain as d d' bs where "u = user_zero" "one_user user_collection = as @ d # bs"
    "w' user_collection = as @ d' # bs"
    by auto
  with u show ?thesis
    by (auto simp: one_user_def user_collection_def Cons_eq_append_conv)
qed


end
