(* ===== verification/Sender.thy ===== *)
theory Sender
  imports Queue User
begin

text \<open>
  Sending messages to users: the job of \<^verbatim>\<open>services/cmd/sender/queue/queue.go\<close>, the delivery of
  \<^verbatim>\<open>services/sender/sender.go\<close>, the messages of \<^verbatim>\<open>services/sender/email\<close>, the two mailers
  \<^verbatim>\<open>services/internal/platform/email/{mailersend,smtp}\<close> with the stand-in server of
  \<^verbatim>\<open>services/cmd/sender-clients\<close>, and \<^verbatim>\<open>GetUser\<close> of \<^verbatim>\<open>services/cmd/iam/rpc/rpc.go\<close>, which finds the
  address.  Templates, json, http and the smtp client are parameters.

  The lemmas show that an automatic delivery goes to an address of the user it was asked for
  and to nobody else, that smtp names no recipient of an invalid message, that the two ends
  of the http mailer agree, and that the final answer of an smtp server is not looked at.
\<close>

section \<open>Finding the address\<close>

datatype iam_platform = Platform_UNKNOWN | Platform_EMAIL | Platform_TWITTER | Platform_GITHUB

record iam_ident =
  ii_Platform :: iam_platform
  ii_Value :: string

record iam_user =
  iu_Id :: "byte list"
  iu_Idents :: "iam_ident list"

definition iam_ident_of :: "ident \<Rightarrow> iam_ident" where
  "iam_ident_of i = \<lparr>ii_Platform =
      (if id_Platform i = PlatformEmail then Platform_EMAIL
       else if id_Platform i = PlatformTwitter then Platform_TWITTER
       else if id_Platform i = PlatformGithub then Platform_GITHUB
       else Platform_UNKNOWN), ii_Value = id_Value i\<rparr>"

text \<open>\<open>fetchOne\<close> is \<^verbatim>\<open>users.FetchOne\<close>; the twirp error of code NotFound is \<open>Sentinel P_twirp ErrNotFound\<close>.\<close>

definition GetUser :: "(user_lookup \<Rightarrow> 'w \<Rightarrow> 'w \<times> user res) \<Rightarrow> byte list \<Rightarrow> 'w \<Rightarrow> 'w \<times> iam_user res" where
  "GetUser fetchOne userId w = (case fetchOne (user_lookup_zero\<lparr>ul_ID := uuid_of_bin userId\<rparr>) w of
      (w1, Inl e) \<Rightarrow> (w1, Inl (if errors_Is e P_user ErrNotFound then Sentinel P_twirp ErrNotFound
         else Wrap ''failed to fetch user'' e))
    | (w1, Inr usr) \<Rightarrow> (w1, Inr \<lparr>iu_Id = userId, iu_Idents = map iam_ident_of (us_Idents usr)\<rparr>))"

fun findIdent :: "iam_ident list \<Rightarrow> iam_platform \<Rightarrow> string option" where
  "findIdent [] platform = None"
| "findIdent (i # is) platform = (if ii_Platform i = platform then Some (ii_Value i) else findIdent is platform)"

section \<open>Messages\<close>

text \<open>\<open>render\<close> executes a template with its named values.\<close>

type_synonym templates = "string \<Rightarrow> (string \<times> string) list \<Rightarrow> string res"

definition new_email :: "templates \<Rightarrow> string \<Rightarrow> (string \<times> string) list \<Rightarrow> string \<Rightarrow> address \<Rightarrow> address list \<Rightarrow> email res" where
  "new_email render tmpl vals subj from to = (case render tmpl vals of
      Inl e \<Rightarrow> Inl e
    | Inr html \<Rightarrow> Inr \<lparr>em_From = from, em_To = to, em_Subject = subj, em_HTML = html, em_Text = ''''\<rparr>)"

definition newLogin :: "templates \<Rightarrow> address \<Rightarrow> address list \<Rightarrow> string \<Rightarrow> email res" where
  "newLogin render from to secretURL =
     new_email render ''login.html'' [(''secretURL'', secretURL)] ''Login'' from to"

definition newCreatePassword :: "templates \<Rightarrow> address \<Rightarrow> address list \<Rightarrow> string \<Rightarrow> email res" where
  "newCreatePassword render from to secretURL =
     new_email render ''create-password.html'' [(''secretURL'', secretURL)] ''Create Password'' from to"

definition newResetPassword :: "templates \<Rightarrow> address \<Rightarrow> address list \<Rightarrow> string \<Rightarrow> email res" where
  "newResetPassword render from to secretURL =
     new_email render ''reset-password.html'' [(''secretURL'', secretURL)] ''Reset Password'' from to"

definition newTalkRecordingReady ::
  "templates \<Rightarrow> address \<Rightarrow> address list \<Rightarrow> string \<Rightarrow> string \<Rightarrow> string \<Rightarrow> string \<Rightarrow> email res" where
  "newTalkRecordingReady render from to confaURL confaTitle talkURL talkTitle =
     new_email render ''talk-recording-ready.html'' [(''confaURL'', confaURL), (''confaTitle'', confaTitle),
       (''talkURL'', talkURL), (''talkTitle'', talkTitle)] ''Talk Recording is Ready'' from to"

definition sender_from :: "string \<Rightarrow> address" where
  "sender_from fromEmail = \<lparr>ad_Name = ''Confa'', ad_Email = fromEmail\<rparr>"

type_synonym 'w mailer = "email list \<Rightarrow> 'w \<Rightarrow> 'w \<times> err"

text \<open>
  \<^verbatim>\<open>Sender.Send\<close> of the e-mail package.  The outer \<open>None\<close> is the panic on a nil message; an
  unset oneof is an unknown message.
\<close>

definition email_Send ::
  "templates \<Rightarrow> string \<Rightarrow> 'w mailer \<Rightarrow> sender_message option option \<Rightarrow> address list \<Rightarrow> 'w \<Rightarrow> ('w \<times> err) option" where
  "email_Send render fromEmail mailer message to w = (case message of
      None \<Rightarrow> None
    | Some None \<Rightarrow> Some (w, Some (New ''unknown email message''))
    | Some (Some pl) \<Rightarrow> Some (case (case pl of
          Login u \<Rightarrow> newLogin render (sender_from fromEmail) to u
        | CreatePasswordMsg u \<Rightarrow> newCreatePassword render (sender_from fromEmail) to u
        | ResetPasswordMsg u \<Rightarrow> newResetPassword render (sender_from fromEmail) to u
        | TalkRecordingReady cu ct tu tt \<Rightarrow> newTalkRecordingReady render (sender_from fromEmail) to cu ct tu tt) of
        Inl e \<Rightarrow> (w, Some (Wrap ''failed to render email'' e))
      | Inr msg \<Rightarrow> mailer [msg] w))"

section \<open>Delivery\<close>

text \<open>\<open>getUser\<close> is the iam client, \<open>send\<close> the e-mail sender.\<close>

definition Sender_Send ::
  "(byte list \<Rightarrow> 'w \<Rightarrow> 'w \<times> iam_user res) \<Rightarrow>
   (sender_message option option \<Rightarrow> address list \<Rightarrow> 'w \<Rightarrow> ('w \<times> err) option) \<Rightarrow>
   delivery option option \<Rightarrow> sender_message option option \<Rightarrow> 'w \<Rightarrow> ('w \<times> err) option" where
  "Sender_Send getUser send del message w = (case del of
      None \<Rightarrow> None
    | Some None \<Rightarrow> Some (w, Some (New ''unknown delivery method''))
    | Some (Some (DeliveryAuto userId)) \<Rightarrow> (case getUser userId w of
        (w1, Inl e) \<Rightarrow> Some (w1, Some (Wrap ''failed to find user for automatic delivery'' e))
      | (w1, Inr user) \<Rightarrow> (case findIdent (iu_Idents user) Platform_EMAIL of
          None \<Rightarrow> Some (w1, Some (New ''user does not have email identificator''))
        | Some addr \<Rightarrow> (case send message [\<lparr>ad_Name = '''', ad_Email = addr\<rparr>] w1 of
            None \<Rightarrow> None
          | Some (w2, Some e) \<Rightarrow> Some (w2, Some (Wrap ''failed to send email'' e))
          | Some (w2, None) \<Rightarrow> Some (w2, None))))
    | Some (Some (DeliveryEmail addr)) \<Rightarrow> (case send message [\<lparr>ad_Name = '''', ad_Email = addr\<rparr>] w of
          None \<Rightarrow> None
        | Some (w2, Some e) \<Rightarrow> Some (w2, Some (Wrap ''failed to send email'' e))
        | Some (w2, None) \<Rightarrow> Some (w2, None)))"

definition send_maxAge :: duration where "send_maxAge = 24 * Hour"

definition send_bo :: backoff where
  "send_bo = \<lparr>bo_Factor = 12 / 10, bo_Jitter = False, bo_Min = Second, bo_Max = 20 * Minute\<rparr>"

definition send_job ::
  "float_part \<Rightarrow> proto \<Rightarrow> 'w beanstalkd \<Rightarrow>
   (delivery option option \<Rightarrow> sender_message option option \<Rightarrow> 'w \<Rightarrow> ('w \<times> err) option) \<Rightarrow> 'w handler" where
  "send_job fp p q send job w = (case pb_Unmarshal p KSend (jb_Body job) of
      Inr (JSend del message) \<Rightarrow> (case send del message w of
          None \<Rightarrow> (w, None)
        | Some (w1, Some e) \<Rightarrow> jobRetry fp q send_bo send_maxAge job w1
        | Some (w1, None) \<Rightarrow> jobDelete q job w1)
    | _ \<Rightarrow> jobDelete q job w)"

definition sender_route :: "string \<Rightarrow> 'w handler \<Rightarrow> job \<Rightarrow> 'w handler option" where
  "sender_route tube send job = (if jb_Tube job = tube then Some send else None)"

definition sender_ServeJob ::
  "float_part \<Rightarrow> proto \<Rightarrow> 'w beanstalkd \<Rightarrow> string \<Rightarrow>
   (delivery option option \<Rightarrow> sender_message option option \<Rightarrow> 'w \<Rightarrow> ('w \<times> err) option) \<Rightarrow> 'w handler" where
  "sender_ServeJob fp p q tube send = ServeJob p q (sender_route tube (send_job fp p q send))"

text \<open>The submessages are there, or the deferred recovery leaves the job unfinished.\<close>

definition has_parts :: "proto \<Rightarrow> job \<Rightarrow> bool" where
  "has_parts p job = (case pb_Unmarshal p KSend (jb_Body job) of
     Inr (JSend del message) \<Rightarrow> del \<noteq> None \<and> message \<noteq> None | _ \<Rightarrow> True)"

lemma email_Send_Some [simp]: "email_Send render fe mailer (Some m) to w = None \<longleftrightarrow> False"
  by (auto simp: email_Send_def split: option.split)

lemma Sender_Send_Some [simp]:
  "Sender_Send getUser (email_Send render fe mailer) (Some d) (Some m) w = None \<longleftrightarrow> False"
  by (auto simp: Sender_Send_def split: option.split delivery.split prod.split sum.split)

interpretation mail_job: job_handler
    "send_job fp p q (Sender_Send getUser (email_Send render fe mailer))" "has_parts p" send_bo send_maxAge
  for fp p q getUser render fe mailer
proof unfold_locales
  fix job w
  assume "has_parts p job"
  moreover have "finish_ok send_bo send_maxAge job (snd (jobRetry fp q send_bo send_maxAge job w'))" for w'
    by (rule finish_jobRetry; simp add: send_bo_def duration_defs)
  ultimately show "finish_ok send_bo send_maxAge job
      (snd (send_job fp p q (Sender_Send getUser (email_Send render fe mailer)) job w))"
    by (auto simp: send_job_def has_parts_def split: sum.splits job_msg.splits option.splits prod.splits)
qed

section \<open>The http mailer\<close>

record mail_request =
  mr_From :: address
  mr_To :: "address list"
  mr_Subject :: string
  mr_Text :: string
  mr_HTML :: string

definition newRequest :: "email \<Rightarrow> mail_request" where
  "newRequest m = \<lparr>mr_From = \<lparr>ad_Name = ad_Name (em_From m), ad_Email = ad_Email (em_From m)\<rparr>,
     mr_To = map (\<lambda>a. \<lparr>ad_Name = ad_Name a, ad_Email = ad_Email a\<rparr>) (em_To m),
     mr_Subject = em_Subject m, mr_Text = em_Text m, mr_HTML = em_HTML m\<rparr>"

text \<open>Json, the joining of urls and the http client; \<open>mh_Do\<close> gives the status code.\<close>

record 'w mail_http =
  mh_MarshalOne :: "mail_request \<Rightarrow> byte list res"
  mh_MarshalMany :: "mail_request list \<Rightarrow> byte list res"
  mh_JoinPath :: "string \<Rightarrow> string \<Rightarrow> string res"
  mh_NewRequest :: "string \<Rightarrow> string \<Rightarrow> err"
  mh_Do :: "string \<Rightarrow> string \<Rightarrow> string \<Rightarrow> byte list \<Rightarrow> 'w \<Rightarrow> 'w \<times> nat res"

record mailersend =
  ms_BaseURL :: string
  ms_Token :: string

definition mailersend_do :: "'w mail_http \<Rightarrow> mailersend \<Rightarrow> string \<Rightarrow> string \<Rightarrow> byte list \<Rightarrow> 'w \<Rightarrow> 'w \<times> nat res" where
  "mailersend_do h s verb p body w = (case mh_JoinPath h (ms_BaseURL s) p of
      Inl e \<Rightarrow> (w, Inl (Wrap ''invalid url'' e))
    | Inr url \<Rightarrow> (case mh_NewRequest h verb url of
        Some e \<Rightarrow> (w, Inl (Wrap ''failed to create request'' e))
      | None \<Rightarrow> (case mh_Do h verb url (''Bearer '' @ ms_Token s) body w of
          (w1, Inl e) \<Rightarrow> (w1, Inl (Wrap ''failed to send request'' e))
        | (w1, Inr code) \<Rightarrow> (w1, Inr code))))"

definition accepted :: "'w \<times> nat res \<Rightarrow> 'w \<times> err" where
  "accepted r = (case r of
      (w, Inl e) \<Rightarrow> (w, Some e)
    | (w, Inr code) \<Rightarrow> (w, if code \<noteq> 202 then Some (New ''received unexpected status'') else None))"

definition sendOne :: "'w mail_http \<Rightarrow> mailersend \<Rightarrow> email \<Rightarrow> 'w \<Rightarrow> 'w \<times> err" where
  "sendOne h s message w = (case mh_MarshalOne h (newRequest message) of
      Inl e \<Rightarrow> (w, Some (Wrap ''failed to marshal messages'' e))
    | Inr buf \<Rightarrow> accepted (mailersend_do h s ''POST'' ''/v1/email'' buf w))"

definition sendMany :: "'w mail_http \<Rightarrow> mailersend \<Rightarrow> email list \<Rightarrow> 'w \<Rightarrow> 'w \<times> err" where
  "sendMany h s messages w = (case mh_MarshalMany h (map newRequest messages) of
      Inl e \<Rightarrow> (w, Some (Wrap ''failed to marshal messages'' e))
    | Inr buf \<Rightarrow> accepted (mailersend_do h s ''POST'' ''/v1/bulk-email'' buf w))"

definition mailersend_Send :: "'w mail_http \<Rightarrow> mailersend \<Rightarrow> 'w mailer" where
  "mailersend_Send h s messages w =
     (if length messages = 0 then (w, Some (New ''must send at leas one message''))
      else if length messages = 1 then sendOne h s (messages ! 0) w
      else sendMany h s messages w)"

text \<open>The stand-in server: what it keeps of a request, newest first.\<close>

definition newMessage :: "mail_request \<Rightarrow> email" where
  "newMessage req = \<lparr>em_From = \<lparr>ad_Name = ad_Name (mr_From req), ad_Email = ad_Email (mr_From req)\<rparr>,
     em_To = map (\<lambda>a. \<lparr>ad_Name = ad_Name a, ad_Email = ad_Email a\<rparr>) (mr_To req),
     em_Subject = mr_Subject req, em_HTML = mr_HTML req, em_Text = mr_Text req\<rparr>"

definition post_email :: "mail_request res \<Rightarrow> email list \<Rightarrow> email list \<times> nat" where
  "post_email body emails = (case body of
      Inl e \<Rightarrow> (emails, 400)
    | Inr req \<Rightarrow> ([newMessage req] @ emails, 202))"

definition post_bulk_email :: "mail_request list res \<Rightarrow> email list \<Rightarrow> email list \<times> nat" where
  "post_bulk_email body emails = (case body of
      Inl e \<Rightarrow> (emails, 400)
    | Inr reqs \<Rightarrow> (map newMessage reqs @ emails, 202))"

section \<open>The smtp mailer\<close>

text \<open>
  \<open>sm_Dial\<close> connects; \<open>sm_Secure\<close> and \<open>sm_Insecure\<close> make a client; the rest are the commands of
  the client.  \<open>sm_Close\<close> ends the data and reads the server's answer to the message.
\<close>

record 'w smtp =
  sm_Dial :: "string \<Rightarrow> 'w \<Rightarrow> 'w \<times> err"
  sm_Handshake :: "string \<Rightarrow> 'w \<Rightarrow> 'w \<times> err"
  sm_NewClient :: "string \<Rightarrow> 'w \<Rightarrow> 'w \<times> err"
  sm_PlainAuth :: "string \<Rightarrow> string \<Rightarrow> string \<Rightarrow> 'w \<Rightarrow> 'w \<times> err"
  sm_Mail :: "string \<Rightarrow> 'w \<Rightarrow> 'w \<times> err"
  sm_Rcpt :: "string \<Rightarrow> 'w \<Rightarrow> 'w \<times> err"
  sm_Data :: "'w \<Rightarrow> 'w \<times> err"
  sm_Write :: "string \<Rightarrow> 'w \<Rightarrow> 'w \<times> err"
  sm_Close :: "'w \<Rightarrow> 'w \<times> err"
  sm_Quit :: "'w \<Rightarrow> 'w \<times> err"
  sm_String :: "address \<Rightarrow> string"

record smtp_sender =
  ss_server :: string
  ss_port :: string
  ss_password :: string
  ss_secure :: bool

definition crlf :: string where "crlf = [char_of (13 :: nat), char_of (10 :: nat)]"

definition writeHeader :: "string \<Rightarrow> string \<Rightarrow> string" where
  "writeHeader key v = key @ '': '' @ v @ crlf"

definition writeEmail :: "'w smtp \<Rightarrow> email \<Rightarrow> 'w \<Rightarrow> 'w \<times> err" where
  "writeEmail c msg = sm_Write c
     (writeHeader ''From'' (sm_String c \<lparr>ad_Name = ad_Name (em_From msg), ad_Email = ad_Email (em_From msg)\<rparr>) @
      concat (map (\<lambda>t. writeHeader ''To'' (sm_String c \<lparr>ad_Name = ad_Name t, ad_Email = ad_Email t\<rparr>)) (em_To msg)) @
      writeHeader ''Subject'' (em_Subject msg) @ writeHeader ''MIME-Version'' ''1.0'' @
      writeHeader ''Content-Type'' ''text/html; charset=UTF-8'' @ crlf @ em_HTML msg @ crlf)"

fun rcpt_all :: "'w smtp \<Rightarrow> address list \<Rightarrow> 'w \<Rightarrow> 'w \<times> err" where
  "rcpt_all c [] w = (w, None)"
| "rcpt_all c (t # ts) w = (case sm_Rcpt c (ad_Email t) w of
      (w1, Some e) \<Rightarrow> (w1, Some e) | (w1, None) \<Rightarrow> rcpt_all c ts w1)"

text \<open>The error of the deferred \<^verbatim>\<open>Close\<close> is dropped.\<close>

definition smtp_send :: "'w smtp \<Rightarrow> email \<Rightarrow> 'w \<Rightarrow> 'w \<times> err" where
  "smtp_send c msg w = (case Email_Validate msg of
      Some e \<Rightarrow> (w, Some e)
    | None \<Rightarrow> (case sm_Mail c (ad_Email (em_From msg)) w of
        (w1, Some e) \<Rightarrow> (w1, Some e)
      | (w1, None) \<Rightarrow> (case rcpt_all c (em_To msg) w1 of
          (w2, Some e) \<Rightarrow> (w2, Some e)
        | (w2, None) \<Rightarrow> (case sm_Data c w2 of
            (w3, Some e) \<Rightarrow> (w3, Some e)
          | (w3, None) \<Rightarrow> (case writeEmail c msg w3 of
              (w4, e) \<Rightarrow> (fst (sm_Close c w4), e))))))"

fun send_all :: "'w smtp \<Rightarrow> email list \<Rightarrow> 'w \<Rightarrow> 'w \<times> err" where
  "send_all c [] w = (w, None)"
| "send_all c (m # ms) w = (case smtp_send c m w of
      (w1, Some e) \<Rightarrow> (fst (sm_Quit c w1), Some e) | (w1, None) \<Rightarrow> send_all c ms w1)"

definition secureClient :: "'w smtp \<Rightarrow> smtp_sender \<Rightarrow> string \<Rightarrow> 'w \<Rightarrow> 'w \<times> err" where
  "secureClient c s fromEmail w = (case sm_Handshake c (ss_server s) w of
      (w1, Some e) \<Rightarrow> (w1, Some e)
    | (w1, None) \<Rightarrow> (case sm_NewClient c (ss_server s) w1 of
        (w2, Some e) \<Rightarrow> (w2, Some e)
      | (w2, None) \<Rightarrow> sm_PlainAuth c fromEmail (ss_password s) (ss_server s) w2))"

definition insecureClient :: "'w smtp \<Rightarrow> smtp_sender \<Rightarrow> 'w \<Rightarrow> 'w \<times> err" where
  "insecureClient c s = sm_NewClient c (ss_server s)"

text \<open>The outer \<open>None\<close> is the panic on \<^verbatim>\<open>emails[0]\<close>.\<close>

definition smtp_Send :: "'w smtp \<Rightarrow> smtp_sender \<Rightarrow> email list \<Rightarrow> 'w \<Rightarrow> ('w \<times> err) option" where
  "smtp_Send c s emails w = (case sm_Dial c (ss_server s @ '':'' @ ss_port s) w of
      (w1, Some e) \<Rightarrow> Some (w1, Some e)
    | (w1, None) \<Rightarrow> (case (if ss_secure s
          then (case emails of [] \<Rightarrow> None | m # _ \<Rightarrow> Some (secureClient c s (ad_Email (em_From m)) w1))
          else Some (insecureClient c s w1)) of
        None \<Rightarrow> None
      | Some (w2, Some e) \<Rightarrow> Some (w2, Some e)
      | Some (w2, None) \<Rightarrow> Some (send_all c emails w2)))"

section \<open>Who gets a message\<close>

lemma findIdent_email:
  "findIdent (map iam_ident_of is) Platform_EMAIL = Some a \<Longrightarrow> \<lparr>id_Platform = PlatformEmail, id_Value = a\<rparr> \<in> set is"
  by (induction "is") (auto simp: iam_ident_of_def platform_defs split: if_splits)

text \<open>\<open>mails\<close> is what the mailer accepted; nothing else adds to it.\<close>

definition mail_law :: "'w mailer \<Rightarrow> ('w \<Rightarrow> email list) \<Rightarrow> bool" where
  "mail_law mailer mails \<longleftrightarrow> (\<forall>ms w w' e. mailer ms w = (w', e) \<longrightarrow>
     mails w' = (if e = None then mails w @ ms else mails w))"

lemma email_Send_mails:
  assumes "mail_law mailer mails" and "email_Send render fe mailer (Some msg) to w = Some (w', e)"
  shows "e = None \<Longrightarrow> \<exists>m. em_To m = to \<and> mails w' = mails w @ [m]" "e \<noteq> None \<Longrightarrow> mails w' = mails w"
proof -
  have "(e = None \<longrightarrow> (\<exists>m. em_To m = to \<and> mails w' = mails w @ [m])) \<and> (e \<noteq> None \<longrightarrow> mails w' = mails w)"
    using assms unfolding mail_law_def
    by (fastforce simp: email_Send_def newLogin_def newCreatePassword_def newResetPassword_def
        newTalkRecordingReady_def new_email_def split: option.splits sender_message.splits sum.splits)
  then show "e = None \<Longrightarrow> \<exists>m. em_To m = to \<and> mails w' = mails w @ [m]" "e \<noteq> None \<Longrightarrow> mails w' = mails w"
    by blast+
qed

lemma user_FetchOne_stored:
  assumes "mongo_laws m docs" and "user_FetchOne U m (user_lookup_zero\<lparr>ul_ID := i\<rparr>) w = (w', Inr u)"
  shows "\<exists>d \<in> set (docs w user_collection). user_dec d = Inr u \<and> us_ID u = i"
proof -
  have i: "i \<noteq> uuid_Nil" and f: "find_decoded m user_collection user_dec (user_mongoFilter U (user_lookup_zero\<lparr>ul_ID := i\<rparr>))
      [] 0 w = (w', Inr [u])"
    using assms(2) by (auto simp: user_FetchOne_def fetch_one_Inr user_Fetch_def user_Lookup_Validate_def
        user_lookup_zero_def split: if_splits)
  obtain d where "d \<in> set (docs w user_collection)" "user_dec d = Inr u"
    "matches (user_mongoFilter U (user_lookup_zero\<lparr>ul_ID := i\<rparr>)) d"
    using find_decoded_member [OF assms(1) f, of u] by auto
  with i show ?thesis
    by (intro bexI [of _ d]) (auto simp: user_mongoFilter_def dest: user_dec_ID)
qed

text \<open>
  A message for automatic delivery goes to the user it names and to nobody else: when the
  sender succeeds, the mailer accepted one message, to one address, which is an e-mail
  identifier of the stored account with that id; when it fails, the mailer accepted nothing.
\<close>

theorem auto_delivery_to_own_address:
  assumes "mongo_laws m docs" and "mail_law mailer mails"
    and "\<forall>c f so l w. mails (fst (mg_find m c f so l w)) = mails w"
    and "Sender_Send (GetUser (user_FetchOne U m)) (email_Send render fe mailer) (Some (Some (DeliveryAuto userId)))
      (Some msg) w = Some (w', e)"
  shows "if e \<noteq> None then mails w' = mails w
    else \<exists>d u a em. d \<in> set (docs w user_collection) \<and> user_dec d = Inr u \<and> us_ID u = uuid_of_bin userId \<and>
      \<lparr>id_Platform = PlatformEmail, id_Value = a\<rparr> \<in> set (us_Idents u) \<and>
      em_To em = [\<lparr>ad_Name = '''', ad_Email = a\<rparr>] \<and> mails w' = mails w @ [em]"
proof -
  let ?l = "user_lookup_zero\<lparr>ul_ID := uuid_of_bin userId\<rparr>"
  obtain w1 r where f: "user_FetchOne U m ?l w = (w1, r)"
    by fastforce
  have w1: "mails w1 = mails w"
    using f assms(3) by (auto simp: user_FetchOne_def fetch_one_def user_Fetch_def find_decoded_def
        split: option.splits prod.splits sum.splits dest!: arg_cong [where f = fst])
  show ?thesis
  proof (cases "\<exists>u a. r = Inr u \<and> findIdent (map iam_ident_of (us_Idents u)) Platform_EMAIL = Some a")
    case False
    then have "w' = w1 \<and> e \<noteq> None"
      using assms(4) f by (cases r) (auto simp: Sender_Send_def GetUser_def split: option.splits)
    with w1 show ?thesis
      by simp
  next
    case True
    then obtain u a where u: "r = Inr u" "findIdent (map iam_ident_of (us_Idents u)) Platform_EMAIL = Some a"
      by blast
    obtain w2 e2 where s: "email_Send render fe mailer (Some msg) [\<lparr>ad_Name = '''', ad_Email = a\<rparr>] w1 = Some (w2, e2)"
      using email_Send_Some by (metis not_None_eq surj_pair)
    then have w': "w' = w2" "e = None \<longleftrightarrow> e2 = None"
      using assms(4) f u by (auto simp: Sender_Send_def GetUser_def split: option.splits)
    note mails = email_Send_mails [OF assms(2) s]
    obtain d where d: "d \<in> set (docs w user_collection)" "user_dec d = Inr u" "us_ID u = uuid_of_bin userId"
      using user_FetchOne_stored [OF assms(1) f [unfolded u(1)]] by blast
    have "\<exists>em. em_To em = [\<lparr>ad_Name = '''', ad_Email = a\<rparr>] \<and> mails w' = mails w @ [em]" if "e = None"
      using mails(1) that w' w1 by auto
    moreover have "mails w' = mails w" if "e \<noteq> None"
      using mails(2) that w' w1 by auto
    ultimately show ?thesis
      using d findIdent_email [OF u(2)] by (cases "e = None") (simp, blast, simp)
  qed
qed

section \<open>The mailers\<close>

text \<open>
  The two ends of the http mailer agree: what the stand-in server keeps of the request that
  the mailer makes of a message is that message, one by one and in order.
\<close>

theorem mailersend_roundtrip:
  "newMessage (newRequest m) = m \<and>
   post_email (Inr (newRequest m)) emails = (m # emails, 202) \<and>
   post_bulk_email (Inr (map newRequest ms)) emails = (ms @ emails, 202)"
proof -
  have "map (\<lambda>a. \<lparr>ad_Name = ad_Name a, ad_Email = ad_Email a\<rparr>) as = as" for as :: "address list"
    by (rule map_idI) simp
  then have id: "newMessage (newRequest m) = m" for m
    by (cases m) (simp add: newMessage_def newRequest_def comp_def)
  then show ?thesis
    by (simp add: post_email_def post_bulk_email_def comp_def)
qed

text \<open>
  The smtp mailer names neither sender nor recipients of an invalid message, and what the
  server answers to the message itself is not looked at: a server that refuses it there is
  reported as a success.
\<close>

theorem smtp_validates_and_ignores_close:
  "(\<forall>err. Email_Validate msg = Some err \<longrightarrow> smtp_send c msg w = (w, Some err)) \<and>
   snd (smtp_send (c\<lparr>sm_Close := close\<rparr>) msg w) = snd (smtp_send c msg w)"
proof -
  have rcpt: "rcpt_all (c\<lparr>sm_Close := close\<rparr>) ts v = rcpt_all c ts v" for ts v
    by (induction ts arbitrary: v) (simp_all split: prod.split option.split)
  show ?thesis
    by (simp add: smtp_send_def rcpt writeEmail_def split: option.split prod.split)
qed

section \<open>Runs\<close>

definition mail_user :: user where
  "mail_user = user_zero\<lparr>us_ID := 3, us_Idents := [\<lparr>id_Platform = PlatformGithub, id_Value = ''octo''\<rparr>,
     \<lparr>id_Platform = PlatformEmail, id_Value = ''a@b''\<rparr>]\<rparr>"

definition mail_world :: "email list \<times> mem" where
  "mail_world = ([], (\<lambda>_. [])(user_collection := [user_enc mail_user]))"

definition log_mailer :: "(email list \<times> mem) mailer" where
  "log_mailer ms w = ((fst w @ ms, snd w), None)"

definition plain_runes :: unicode where
  "plain_runes = \<lparr>isL = is_lower, ulower = id\<rparr>"

text \<open>The mailbox after a login message for the user 3.\<close>

abbreviation mail_run where
  "mail_run \<equiv> Sender_Send (GetUser (user_FetchOne plain_runes (beside mem_mongo)))
     (email_Send (\<lambda>_ _. Inr ''hi'') ''c@d'' log_mailer) (Some (Some (DeliveryAuto (uuid_MarshalBinary 3))))
     (Some (Some (Login ''url''))) mail_world"

lemma mail_run_sent: "\<exists>ms. mail_run = Some ((ms, snd mail_world), None)"
proof -
  have "matches (user_mongoFilter plain_runes (user_lookup_zero\<lparr>ul_ID := 3\<rparr>)) (user_enc mail_user)"
    by (simp add: user_mongoFilter_def user_lookup_zero_def user_enc_def bget_def mail_user_def)
  then have "user_FetchOne plain_runes (beside mem_mongo) (user_lookup_zero\<lparr>ul_ID := 3\<rparr>) mail_world = (mail_world, Inr mail_user)"
    by (simp add: fetch_one_Inr user_FetchOne_def user_Fetch_def user_Lookup_Validate_def find_decoded_def beside_def
        mem_mongo_def mail_world_def user_lookup_zero_def uuid_Nil_def take_limit_def users.dec_enc)
  then show ?thesis
    by (simp add: Sender_Send_def GetUser_def email_Send_def newLogin_def new_email_def log_mailer_def mail_user_def
        iam_ident_of_def platform_defs)
qed

theorem auto_delivery_to_own_address_witness:
  "\<exists>em ms. mail_run = Some ((ms, snd mail_world), None) \<and> ms = [em] \<and> em_To em = [\<lparr>ad_Name = '''', ad_Email = ''a@b''\<rparr>]"
proof -
  obtain ms where run: "mail_run = Some ((ms, snd mail_world), None)"
    using mail_run_sent by blast
  have laws: "mongo_laws (beside mem_mongo) snd" "mail_law log_mailer fst"
    "\<forall>c f so l w. fst (fst (mg_find (beside mem_mongo) c f so l w)) = fst w"
    using beside_laws [OF mem_mongo_laws]
    by (auto simp: comp_def mail_law_def log_mailer_def beside_def split: prod.split)
  from auto_delivery_to_own_address [OF laws run] show ?thesis
    using run by (auto simp: mail_world_def users.dec_enc mail_user_def platform_defs)
qed

definition quiet_smtp :: "nat smtp" where
  "quiet_smtp = \<lparr>sm_Dial = (\<lambda>_ w. (w, None)), sm_Handshake = (\<lambda>_ w. (w, None)), sm_NewClient = (\<lambda>_ w. (w, None)),
     sm_PlainAuth = (\<lambda>_ _ _ w. (w, None)), sm_Mail = (\<lambda>_ w. (w + 1, None)), sm_Rcpt = (\<lambda>_ w. (w + 1, None)),
     sm_Data = (\<lambda>w. (w, None)), sm_Write = (\<lambda>_ w. (w, None)), sm_Close = (\<lambda>w. (w, Some (Foreign 3))),
     sm_Quit = (\<lambda>w. (w, None)), sm_String = ad_Email\<rparr>"

definition nobody_mail :: email where
  "nobody_mail = \<lparr>em_From = \<lparr>ad_Name = '''', ad_Email = ''nobody''\<rparr>, em_To = [], em_Subject = '''', em_HTML = '''',
     em_Text = ''''\<rparr>"

theorem smtp_validates_and_ignores_close_witness:
  "smtp_send quiet_smtp nobody_mail 0 = (0, Some (Wrap ''invalid from'' (New ''invalid email address'')))"
proof -
  have "\<not> MatchString emailPattern ''nobody''"
    by code_simp
  then have "Email_Validate nobody_mail = Some (Wrap ''invalid from'' (New ''invalid email address''))"
    by (simp add: Email_Validate_def email_Validate_def nobody_mail_def)
  with smtp_validates_and_ignores_close [of nobody_mail quiet_smtp 0] show ?thesis
    by blast
qed

end
