(* ===== verification/Talk.thy ===== *)
theory Talk
  imports Confa Queue
begin

text \<open>
  Talks: \<^verbatim>\<open>services/confa/talk/talk.go\<close> (type, states, validation), \<^verbatim>\<open>mongo.go\<close> (repository),
  \<^verbatim>\<open>user.go\<close> (the operations of a user) and \<^verbatim>\<open>beanstalk.go\<close> (the recording jobs).  The lemmas
  show what a created talk is, that a user's operations stay within their own talks, when a
  recording can be started or stopped, and where a deletion reports more than it did.
\<close>

section \<open>Type and validation\<close>

definition StateCreated :: string where "StateCreated = ''CREATED''"
definition StateLive :: string where "StateLive = ''LIVE''"
definition StateRecording :: string where "StateRecording = ''RECORDING''"
definition StateEnded :: string where "StateEnded = ''ENDED''"

lemmas state_defs = StateCreated_def StateLive_def StateRecording_def StateEnded_def

definition State_Validate :: "string \<Rightarrow> err" where
  "State_Validate s =
     (if s = StateCreated \<or> s = StateLive \<or> s = StateRecording \<or> s = StateEnded then None
      else Some (New ''should be one of [CREATED LIVE RECORDING ENDED]''))"

record talk =
  ta_ID :: uuid
  ta_Confa :: uuid
  ta_Owner :: uuid
  ta_Speaker :: uuid
  ta_Room :: uuid
  ta_Handle :: string
  ta_Title :: string
  ta_Description :: string
  ta_State :: string
  ta_CreatedAt :: time

definition talk_zero :: talk where
  "talk_zero = \<lparr>ta_ID = uuid_Nil, ta_Confa = uuid_Nil, ta_Owner = uuid_Nil, ta_Speaker = uuid_Nil,
     ta_Room = uuid_Nil, ta_Handle = '''', ta_Title = '''', ta_Description = '''', ta_State = '''',
     ta_CreatedAt = time_zero\<rparr>"

text \<open>\<^verbatim>\<open>^[^ ][\p{L}0-9- ]{2,64}[^ ]$\<close>\<close>

definition talk_validTitle :: "unicode \<Rightarrow> rx" where
  "talk_validTitle U = Seq (Cls not_space) (Seq (Rep 2 64 (Cls (title_char U))) (Cls not_space))"

definition Talk_Validate :: "talk \<Rightarrow> err" where
  "Talk_Validate t = (if \<not> MatchString validHandle (ta_Handle t) then Some (New ''invalid handle'') else None)"

definition Talk_ValidateAtRest :: "unicode \<Rightarrow> talk \<Rightarrow> err" where
  "Talk_ValidateAtRest U t =
     (if ta_ID t = uuid_Nil then Some (New ''id should not be empty'')
      else if ta_Owner t = uuid_Nil then Some (New ''owner should not be empty'')
      else if ta_Speaker t = uuid_Nil then Some (New ''speaker should not be empty'')
      else if ta_Confa t = uuid_Nil then Some (New ''confa should not be empty'')
      else if ta_Room t = uuid_Nil then Some (New ''room should not be empty'')
      else if ta_Title t \<noteq> '''' \<and> \<not> MatchString (talk_validTitle U) (ta_Title t)
      then Some (New ''invalid title'')
      else if \<not> MatchString validHandle (ta_Handle t) then Some (New ''invalid handle'')
      else (case State_Validate (ta_State t) of
          Some e \<Rightarrow> Some (Wrap ''invalid state'' e) | None \<Rightarrow> None))"

record talk_update =
  tu_Handle :: "string option"
  tu_Title :: "string option"
  tu_Description :: "string option"
  tu_State :: "string option"

definition talk_Update_Validate :: "unicode \<Rightarrow> talk_update \<Rightarrow> err" where
  "talk_Update_Validate U m =
     (if tu_Handle m = None \<and> tu_Title m = None \<and> tu_Description m = None
      then Some (New ''no fields provided'')
      else if set_and (tu_Handle m) (\<lambda>h. \<not> MatchString validHandle h) then Some (New ''invalid handle'')
      else if set_and (tu_Title m) (\<lambda>t. \<not> MatchString (talk_validTitle U) t) then Some (New ''invalid title'')
      else if set_and (tu_Description m) (\<lambda>d. length d > maxDescription) then Some (New ''ivalid description'')
      else (case tu_State m of None \<Rightarrow> None
          | Some s \<Rightarrow> (case State_Validate s of
              Some e \<Rightarrow> Some (Wrap ''invalid state'' e) | None \<Rightarrow> None)))"

record talk_lookup =
  tl_ID :: uuid
  tl_Owner :: uuid
  tl_Confa :: uuid
  tl_Speaker :: uuid
  tl_Room :: uuid
  tl_Handle :: string
  tl_Limit :: int
  tl_StateIn :: "string list"
  tl_From :: from_cursor
  tl_Asc :: bool

definition talk_lookup_zero :: talk_lookup where
  "talk_lookup_zero = \<lparr>tl_ID = uuid_Nil, tl_Owner = uuid_Nil, tl_Confa = uuid_Nil, tl_Speaker = uuid_Nil,
     tl_Room = uuid_Nil, tl_Handle = '''', tl_Limit = 0, tl_StateIn = [], tl_From = from_zero, tl_Asc = False\<rparr>"

section \<open>The repository\<close>

abbreviation talk_err :: "ekind \<Rightarrow> go_error" where
  "talk_err \<equiv> Sentinel P_talk"

definition talk_collection :: string where "talk_collection = ''talks''"

definition talk_batchLimit :: int where "talk_batchLimit = 500"

definition talk_enc :: "talk \<Rightarrow> bdoc" where
  "talk_enc t = [(''_id'', BUuid (ta_ID t)), (''confaId'', BUuid (ta_Confa t)), (''ownerId'', BUuid (ta_Owner t)),
     (''speakerId'', BUuid (ta_Speaker t)), (''roomId'', BUuid (ta_Room t)), (''handle'', BStr (ta_Handle t)),
     (''title'', BStr (ta_Title t)), (''description'', BStr (ta_Description t)), (''state'', BStr (ta_State t)),
     (''createdAt'', BTime (ta_CreatedAt t))]"

definition talk_dec :: "bdoc \<Rightarrow> talk res" where
  "talk_dec d = bindr (dec_uuid d ''_id'') (\<lambda>i. bindr (dec_uuid d ''confaId'') (\<lambda>c.
     bindr (dec_uuid d ''ownerId'') (\<lambda>ow. bindr (dec_uuid d ''speakerId'') (\<lambda>sp.
     bindr (dec_uuid d ''roomId'') (\<lambda>r. bindr (dec_str d ''handle'') (\<lambda>h.
     bindr (dec_str d ''title'') (\<lambda>t. bindr (dec_str d ''description'') (\<lambda>x.
     bindr (dec_str d ''state'') (\<lambda>s. bindr (dec_time d ''createdAt'') (\<lambda>ct.
       Inr \<lparr>ta_ID = i, ta_Confa = c, ta_Owner = ow, ta_Speaker = sp, ta_Room = r, ta_Handle = h,
         ta_Title = t, ta_Description = x, ta_State = s, ta_CreatedAt = ct\<rparr>))))))))))"

definition talk_key :: "talk \<Rightarrow> pkey" where
  "talk_key t = (ta_CreatedAt t, ta_ID t)"

interpretation talks: keyed_codec talk_enc talk_dec talk_key
  by unfold_locales (simp_all add: talk_dec_def talk_enc_def dec_defs talk_key_def)

definition talk_Create :: "unicode \<Rightarrow> 'w mongo \<Rightarrow> time \<Rightarrow> talk list \<Rightarrow> 'w \<Rightarrow> 'w \<times> talk list res" where
  "talk_Create U m now = create_batch m talk_collection talk_enc talk_batchLimit
     ''trying to create more than 500''
     (\<lambda>r. case Talk_ValidateAtRest U r of
         Some e \<Rightarrow> Inl (WrapS (talk_err ErrValidation) e)
       | None \<Rightarrow> Inr (r\<lparr>ta_CreatedAt := mongoNow now\<rparr>))
     (Some (talk_err ErrDuplicateEntry))"

text \<open>\<^verbatim>\<open>Lookup.Speaker\<close> is not consulted.\<close>

definition talk_mongoFilter :: "talk_lookup \<Rightarrow> mfilter" where
  "talk_mongoFilter l = (let asc = tl_Asc l; fid = fr_ID (tl_From l); fat = fr_CreatedAt (tl_From l) in
     (if tl_ID l \<noteq> uuid_Nil then [FField ''_id'' (FEq (BUuid (tl_ID l)))]
      else if tl_Handle l \<noteq> '''' then [FField ''handle'' (FEq (BStr (tl_Handle l)))]
      else if tl_Room l \<noteq> uuid_Nil then [FField ''roomId'' (FEq (BUuid (tl_Room l)))]
      else if \<not> IsZero fat \<and> fid \<noteq> uuid_Nil then [after_both asc (fat, fid)]
      else if \<not> IsZero fat then [FField ''createdAt'' (order_clause asc (BTime fat))]
      else if fid \<noteq> uuid_Nil then [FField ''_id'' (order_clause asc (BUuid fid))]
      else []) @
     (if tl_Owner l \<noteq> uuid_Nil then [FField ''ownerId'' (FEq (BUuid (tl_Owner l)))] else []) @
     (if tl_Confa l \<noteq> uuid_Nil then [FField ''confaId'' (FEq (BUuid (tl_Confa l)))] else []) @
     (if length (tl_StateIn l) \<noteq> 0 then [FField ''state'' (FIn (map BStr (tl_StateIn l)))] else []))"

definition talk_set :: "talk_update \<Rightarrow> mupdate list" where
  "talk_set u = [USet (opt_field ''handle'' (tu_Handle u \<noteq> None) (BStr (the (tu_Handle u))) @
     opt_field ''title'' (tu_Title u \<noteq> None) (BStr (the (tu_Title u))) @
     opt_field ''description'' (tu_Description u \<noteq> None) (BStr (the (tu_Description u))) @
     opt_field ''state'' (tu_State u \<noteq> None) (BStr (the (tu_State u))))]"

text \<open>Unlike the one of confas, this \<^verbatim>\<open>UpdateOne\<close> does not validate the update.\<close>

definition talk_UpdateOne :: "'w mongo \<Rightarrow> talk_lookup \<Rightarrow> talk_update \<Rightarrow> 'w \<Rightarrow> 'w \<times> talk res" where
  "talk_UpdateOne m l request = update_decoded m talk_collection talk_dec (talk_err ErrNotFound)
     (talk_err ErrDuplicateEntry) (talk_mongoFilter l) (talk_set request)"

definition talk_Fetch :: "'w mongo \<Rightarrow> talk_lookup \<Rightarrow> 'w \<Rightarrow> 'w \<times> talk list res" where
  "talk_Fetch m l = find_decoded m talk_collection talk_dec (talk_mongoFilter l)
     (page_sort (tl_Asc l)) (clamp_limit talk_batchLimit (tl_Limit l))"

definition talk_FetchOne :: "'w mongo \<Rightarrow> talk_lookup \<Rightarrow> 'w \<Rightarrow> 'w \<times> talk res" where
  "talk_FetchOne m l =
     fetch_one (talk_Fetch m l) (talk_err ErrNotFound) (talk_err ErrAmbiguousLookup)"

definition talk_Delete :: "'w mongo \<Rightarrow> talk_lookup \<Rightarrow> 'w \<Rightarrow> 'w \<times> nat res" where
  "talk_Delete m l = mg_deleteMany m talk_collection (talk_mongoFilter l)"

section \<open>Recording jobs\<close>

record talk_tubes =
  tt_StartRecording :: string
  tt_StopRecording :: string

definition Beanstalk_StartRecording ::
  "proto \<Rightarrow> 'w beanstalkd \<Rightarrow> string \<Rightarrow> talk_tubes \<Rightarrow> uuid \<Rightarrow> uuid \<Rightarrow> 'w \<Rightarrow> 'w \<times> err" where
  "Beanstalk_StartRecording p q trace tubes talkID roomID =
     put_msg p q trace ''failed to marshal payload'' False (tt_StartRecording tubes)
       (JStartRecording (uuid_MarshalBinary talkID) (uuid_MarshalBinary roomID))
       \<lparr>pp_Delay = 0, pp_TTR = 30 * Second\<rparr>"

definition Beanstalk_StopRecording ::
  "proto \<Rightarrow> 'w beanstalkd \<Rightarrow> string \<Rightarrow> talk_tubes \<Rightarrow> uuid \<Rightarrow> uuid \<Rightarrow> duration \<Rightarrow> 'w \<Rightarrow> 'w \<times> err" where
  "Beanstalk_StopRecording p q trace tubes talkID roomID after =
     put_msg p q trace ''failed to marshal payload'' False (tt_StopRecording tubes)
       (JStopRecording (uuid_MarshalBinary talkID) (uuid_MarshalBinary roomID))
       \<lparr>pp_Delay = after, pp_TTR = 30 * Second\<rparr>"

section \<open>The operations of a user\<close>

text \<open>\<^verbatim>\<open>talk.UserRepo\<close>, \<^verbatim>\<open>talk.Emitter\<close> and the call of the rtc service that makes a room.\<close>

record 'w talk_repo =
  tr_Create :: "talk list \<Rightarrow> 'w \<Rightarrow> 'w \<times> talk list res"
  tr_UpdateOne :: "talk_lookup \<Rightarrow> talk_update \<Rightarrow> 'w \<Rightarrow> 'w \<times> talk res"
  tr_Fetch :: "talk_lookup \<Rightarrow> 'w \<Rightarrow> 'w \<times> talk list res"
  tr_FetchOne :: "talk_lookup \<Rightarrow> 'w \<Rightarrow> 'w \<times> talk res"
  tr_Delete :: "talk_lookup \<Rightarrow> 'w \<Rightarrow> 'w \<times> nat res"

definition talk_mongo_repo :: "unicode \<Rightarrow> 'w mongo \<Rightarrow> time \<Rightarrow> 'w talk_repo" where
  "talk_mongo_repo U m now = \<lparr>tr_Create = talk_Create U m now, tr_UpdateOne = talk_UpdateOne m,
     tr_Fetch = talk_Fetch m, tr_FetchOne = talk_FetchOne m, tr_Delete = talk_Delete m\<rparr>"

record 'w talk_emitter =
  te_StartRecording :: "uuid \<Rightarrow> uuid \<Rightarrow> 'w \<Rightarrow> 'w \<times> err"
  te_StopRecording :: "uuid \<Rightarrow> uuid \<Rightarrow> duration \<Rightarrow> 'w \<Rightarrow> 'w \<times> err"

type_synonym 'w create_room = "byte list \<Rightarrow> 'w \<Rightarrow> 'w \<times> byte list res"

definition talk_User_Create ::
  "'w talk_repo \<Rightarrow> 'w confa_repo \<Rightarrow> 'w create_room \<Rightarrow> uuid \<Rightarrow> uuid \<Rightarrow> confa_lookup \<Rightarrow> talk \<Rightarrow> 'w \<Rightarrow>
   ('w \<times> talk res) option" where
  "talk_User_Create repo confas createRoom new_id userID confaLookup request w =
     (let r = request\<lparr>ta_ID := new_id, ta_Owner := userID, ta_Speaker := userID, ta_State := StateLive\<rparr>;
          cl = confaLookup\<lparr>cl_Owner := userID\<rparr>;
          r = (if ta_Handle r = '''' then r\<lparr>ta_Handle := default_handle (ta_ID r)\<rparr> else r)
      in case Talk_Validate r of
        Some e \<Rightarrow> Some (w, Inl (WrapS (talk_err ErrValidation) e))
      | None \<Rightarrow> (case cr_FetchOne confas cl w of
          (w1, Inl e) \<Rightarrow> Some (w1, Inl (Wrap ''failed to fetch confa'' e))
        | (w1, Inr conf) \<Rightarrow> (let r = r\<lparr>ta_Confa := co_ID conf\<rparr> in
            case createRoom (uuid_MarshalBinary userID) w1 of
              (w2, Inl e) \<Rightarrow> Some (w2, Inl (Wrap ''failed to create room'' e))
            | (w2, Inr roomId) \<Rightarrow> (case uuid_UnmarshalBinary roomId of
                Inl e \<Rightarrow> Some (w2, Inl (Wrap ''failed to parse room id'' e))
              | Inr roomID \<Rightarrow> (case tr_Create repo [r\<lparr>ta_Room := roomID\<rparr>] w2 of
                  (w3, Inl e) \<Rightarrow> Some (w3, Inl (Wrap ''failed to create talk'' e))
                | (w3, Inr []) \<Rightarrow> None
                | (w3, Inr (t # ts)) \<Rightarrow> Some (w3, Inr t))))))"

definition talk_User_Update ::
  "'w talk_repo \<Rightarrow> uuid \<Rightarrow> talk_lookup \<Rightarrow> talk_update \<Rightarrow> 'w \<Rightarrow> 'w \<times> talk res" where
  "talk_User_Update repo userID l request = tr_UpdateOne repo (l\<lparr>tl_Owner := userID\<rparr>) request"

definition talk_User_Fetch :: "'w talk_repo \<Rightarrow> talk_lookup \<Rightarrow> 'w \<Rightarrow> 'w \<times> talk list res" where
  "talk_User_Fetch repo l = tr_Fetch repo l"

definition talk_User_Delete :: "'w talk_repo \<Rightarrow> uuid \<Rightarrow> talk_lookup \<Rightarrow> 'w \<Rightarrow> 'w \<times> nat res" where
  "talk_User_Delete repo userID l = tr_Delete repo (l\<lparr>tl_Owner := userID\<rparr>)"

definition talk_User_DeleteConfa ::
  "'w talk_repo \<Rightarrow> 'w confa_repo \<Rightarrow> uuid \<Rightarrow> confa_lookup \<Rightarrow> 'w \<Rightarrow> 'w \<times> nat res" where
  "talk_User_DeleteConfa repo confas userID l w =
     (let l = l\<lparr>cl_Owner := userID\<rparr> in case cr_FetchOne confas l w of
        (w1, Inl e) \<Rightarrow> (w1, Inl e)
      | (w1, Inr cnf) \<Rightarrow> (case tr_Delete repo (talk_lookup_zero\<lparr>tl_Confa := co_ID cnf\<rparr>) w1 of
          (w2, Inl e) \<Rightarrow> (w2, Inl e)
        | (w2, Inr n) \<Rightarrow> (case cr_Delete confas l w2 of
            (w3, Inl e) \<Rightarrow> (w3, Inl e)
          | (w3, Inr _) \<Rightarrow> (w3, Inr n))))"

definition talk_User_StartRecording ::
  "'w talk_repo \<Rightarrow> 'w talk_emitter \<Rightarrow> uuid \<Rightarrow> talk_lookup \<Rightarrow> 'w \<Rightarrow> 'w \<times> talk res" where
  "talk_User_StartRecording repo em userID l w =
     (case tr_FetchOne repo (l\<lparr>tl_Owner := userID\<rparr>) w of
       (w1, Inl e) \<Rightarrow> (w1, Inl (Wrap ''failed to fetch talk'' e))
     | (w1, Inr t) \<Rightarrow>
         if ta_State t \<noteq> StateLive then (w1, Inl (talk_err ErrWrongState))
         else (case te_StartRecording em (ta_ID t) (ta_Room t) w1 of
             (w2, Some e) \<Rightarrow> (w2, Inl (Wrap ''failed to emit start recording'' e))
           | (w2, None) \<Rightarrow> (w2, Inr t)))"

definition talk_User_StopRecording ::
  "'w talk_repo \<Rightarrow> 'w talk_emitter \<Rightarrow> uuid \<Rightarrow> talk_lookup \<Rightarrow> 'w \<Rightarrow> 'w \<times> talk res" where
  "talk_User_StopRecording repo em userID l w =
     (case tr_FetchOne repo (l\<lparr>tl_Owner := userID\<rparr>) w of
       (w1, Inl e) \<Rightarrow> (w1, Inl (Wrap ''failed to fetch talk'' e))
     | (w1, Inr t) \<Rightarrow>
         if ta_State t \<noteq> StateRecording then (w1, Inl (talk_err ErrWrongState))
         else (case te_StopRecording em (ta_ID t) (ta_Room t) 0 w1 of
             (w2, Some e) \<Rightarrow> (w2, Inl (Wrap ''failed to emit stop recording'' e))
           | (w2, None) \<Rightarrow> (w2, Inr t)))"

section \<open>Properties\<close>

lemma talk_filter_owner:
  "tl_Owner l \<noteq> uuid_Nil \<Longrightarrow> matches (talk_mongoFilter l) d \<Longrightarrow> bget d ''ownerId'' = Some (BUuid (tl_Owner l))"
  by (simp add: talk_mongoFilter_def Let_def)

lemma talk_dec_owner: "talk_dec d = Inr t \<Longrightarrow> bget d ''ownerId'' = Some (BUuid u) \<Longrightarrow> ta_Owner t = u"
  by (auto simp: talk_dec_def dec_uuid_def bindr_def split: sum.splits)

lemma confa_dec_owner: "confa_dec d = Inr c \<Longrightarrow> bget d ''ownerId'' = Some (BUuid u) \<Longrightarrow> co_Owner c = u"
  by (auto simp: confa_dec_def dec_uuid_def bindr_def split: sum.splits)

lemma Talk_ValidateAtRest_CreatedAt [simp]:
  "Talk_ValidateAtRest U (t\<lparr>ta_CreatedAt := x\<rparr>) = Talk_ValidateAtRest U t"
  by (simp add: Talk_ValidateAtRest_def)

lemma talk_plain_update [simp]: "plain_update (talk_set u)"
  by (simp add: talk_set_def)


text \<open>
  The talks filter does not consult \<^verbatim>\<open>Lookup.Speaker\<close>: deleting by speaker alone deletes
  every talk of the user, whoever speaks.
\<close>

theorem talk_delete_ignores_speaker:
  assumes "mongo_laws m docs" and "userID \<noteq> uuid_Nil"
    and "talk_User_Delete (talk_mongo_repo U m now) userID (talk_lookup_zero\<lparr>tl_Speaker := sp\<rparr>) w = (w', Inr n)"
  shows "docs w' talk_collection =
    filter (\<lambda>d. bget d ''ownerId'' \<noteq> Some (BUuid userID)) (docs w talk_collection)"
proof -
  have "matches (talk_mongoFilter (talk_lookup_zero\<lparr>tl_Speaker := sp, tl_Owner := userID\<rparr>)) d \<longleftrightarrow>
      bget d ''ownerId'' = Some (BUuid userID)" for d
    using assms(2) by (simp add: talk_mongoFilter_def Let_def talk_lookup_zero_def from_zero_def IsZero_def)
  then show ?thesis
    using delete_lawD(3) [OF assms(1) _ refl] assms(3)
    by (simp add: talk_User_Delete_def talk_mongo_repo_def talk_Delete_def)
qed

text \<open>
  A created talk belongs to the user, who also is its speaker, is LIVE, lies in a stored
  confa of the same user and in the room the rtc service made for that user, passes the
  validation at rest, and is the last document of the collection.
\<close>

theorem talk_create_sound:
  assumes "mongo_laws m docs" and "userID \<noteq> uuid_Nil"
    and "\<forall>o' v. docs (fst (createRoom o' v)) = docs v"
    and "talk_User_Create (talk_mongo_repo U m now) (confa_mongo_repo U m now) createRoom new_id userID cl
      request w = Some (w', Inr t)"
  shows "ta_Owner t = userID \<and> ta_Speaker t = userID \<and> ta_State t = StateLive \<and> ta_ID t = new_id \<and>
    (\<exists>c. (\<exists>d \<in> set (docs w confa_collection). confa_dec d = Inr c) \<and> co_Owner c = userID \<and> ta_Confa t = co_ID c) \<and>
    (\<exists>v. snd (createRoom (uuid_MarshalBinary userID) v) = Inr (uuid_MarshalBinary (ta_Room t))) \<and>
    Talk_ValidateAtRest U t = None \<and>
    docs w' talk_collection = docs w talk_collection @ [talk_enc t]"
proof -
  let ?cl = "cl\<lparr>cl_Owner := userID\<rparr>"
  let ?r = "request\<lparr>ta_ID := new_id, ta_Owner := userID, ta_Speaker := userID, ta_State := StateLive,
    ta_Handle := (if ta_Handle request = '''' then default_handle new_id else ta_Handle request)\<rparr>"
  from assms(4) obtain w1 conf w2 roomId roomID ts
    where conf: "confa_FetchOne m ?cl w = (w1, Inr conf)"
      and room: "createRoom (uuid_MarshalBinary userID) w1 = (w2, Inr roomId)"
      and parse: "uuid_UnmarshalBinary roomId = Inr roomID"
      and create: "talk_Create U m now [?r\<lparr>ta_Confa := co_ID conf, ta_Room := roomID\<rparr>] w2 = (w', Inr (t # ts))"
    by (auto simp: talk_User_Create_def talk_mongo_repo_def confa_mongo_repo_def Let_def
        split: option.splits prod.splits sum.splits list.splits if_splits)
  have f: "find_decoded m confa_collection confa_dec (confa_mongoFilter ?cl) (page_sort (cl_Asc ?cl))
      (clamp_limit confa_batchLimit (cl_Limit ?cl)) w = (w1, Inr [conf])"
    using conf by (simp add: confa_FetchOne_def fetch_one_Inr confa_Fetch_def)
  obtain d where d: "d \<in> set (docs w confa_collection)" "matches (confa_mongoFilter ?cl) d" "confa_dec d = Inr conf"
    using find_decoded_member [OF assms(1) f] by auto
  have "bget d ''ownerId'' = Some (BUuid userID)"
    using confa_filter_owner [OF _ d(2)] assms(2) by simp
  with d(3) have owner: "co_Owner conf = userID"
    by (rule confa_dec_owner)
  have "docs w1 = docs w"
    using f find_lawD(1) [OF assms(1)] by (auto elim: find_decoded_Inr)
  with assms(3) room have w2: "docs w2 = docs w"
    by (metis fst_conv)
  from talks.create_stored [OF assms(1) create [unfolded talk_Create_def]]
  have st: "docs w' talk_collection = docs w2 talk_collection @ map talk_enc (t # ts)"
    and "list_all2 (\<lambda>q r. (case Talk_ValidateAtRest U q of
           Some e \<Rightarrow> Inl (WrapS (talk_err ErrValidation) e)
         | None \<Rightarrow> Inr (q\<lparr>ta_CreatedAt := mongoNow now\<rparr>)) = Inr r)
       [?r\<lparr>ta_Confa := co_ID conf, ta_Room := roomID\<rparr>] (t # ts)"
    by blast+
  then have v: "Talk_ValidateAtRest U (?r\<lparr>ta_Confa := co_ID conf, ta_Room := roomID\<rparr>) = None"
    and t: "t = ?r\<lparr>ta_Confa := co_ID conf, ta_Room := roomID, ta_CreatedAt := mongoNow now\<rparr>" "ts = []"
    by (auto split: option.splits)
  have "roomId = uuid_MarshalBinary (ta_Room t)"
    using parse t(1) by (simp add: uuid_Unmarshal_Marshal)
  moreover have "Talk_ValidateAtRest U t = None"
    using v unfolding t(1) by simp
  moreover have "\<exists>v. snd (createRoom (uuid_MarshalBinary userID) v) = Inr roomId"
    using room by (metis snd_conv)
  ultimately show ?thesis
    using t st w2 d(1,3) owner by auto
qed

text \<open>
  A recording is asked for only by the owner and only when the talk is LIVE, a stop only
  when it is RECORDING; in any other state nothing is emitted and the answer is
  \<^verbatim>\<open>ErrWrongState\<close>.
\<close>

theorem talk_recording_guard:
  assumes "mongo_laws m docs" and "userID \<noteq> uuid_Nil"
  shows "(talk_User_StartRecording (talk_mongo_repo U m now) em userID l w = (w', Inr t) \<longrightarrow>
      ta_Owner t = userID \<and> ta_State t = StateLive \<and> (\<exists>d \<in> set (docs w talk_collection). talk_dec d = Inr t)) \<and>
    (talk_User_StopRecording (talk_mongo_repo U m now) em userID l w = (w', Inr t) \<longrightarrow>
      ta_Owner t = userID \<and> ta_State t = StateRecording \<and> (\<exists>d \<in> set (docs w talk_collection). talk_dec d = Inr t)) \<and>
    (talk_FetchOne m (l\<lparr>tl_Owner := userID\<rparr>) w = (w1, Inr t) \<longrightarrow> ta_State t \<noteq> StateLive \<longrightarrow>
      talk_User_StartRecording (talk_mongo_repo U m now) em userID l w = (w1, Inl (talk_err ErrWrongState)))"
proof -
  have own: "ta_Owner t = userID \<and> (\<exists>d \<in> set (docs w talk_collection). talk_dec d = Inr t)"
    if "talk_FetchOne m (l\<lparr>tl_Owner := userID\<rparr>) w = (v, Inr t)" for v
  proof -
    have f: "find_decoded m talk_collection talk_dec (talk_mongoFilter (l\<lparr>tl_Owner := userID\<rparr>))
        (page_sort (tl_Asc l)) (clamp_limit talk_batchLimit (tl_Limit l)) w = (v, Inr [t])"
      using that by (simp add: talk_FetchOne_def fetch_one_Inr talk_Fetch_def)
    obtain d where d: "d \<in> set (docs w talk_collection)" "matches (talk_mongoFilter (l\<lparr>tl_Owner := userID\<rparr>)) d"
        "talk_dec d = Inr t"
      using find_decoded_member [OF assms(1) f] by auto
    have "bget d ''ownerId'' = Some (BUuid userID)"
      using talk_filter_owner [OF _ d(2)] assms(2) by simp
    with d talk_dec_owner show ?thesis
      by blast
  qed
  show ?thesis
    using own by (auto simp: talk_User_StartRecording_def talk_User_StopRecording_def talk_mongo_repo_def
        split: prod.splits sum.splits option.splits if_splits)
qed

text \<open>
  \<^verbatim>\<open>DeleteConfa\<close> can delete every talk of a confa, leave the confa itself in place because
  the store failed, and still report success: the repository of the confas drops the error.
\<close>

theorem DeleteConfa_hides_failure:
  assumes "confa_FetchOne m (l\<lparr>cl_Owner := userID\<rparr>) w = (w1, Inr cnf)"
    and "talk_Delete m (talk_lookup_zero\<lparr>tl_Confa := co_ID cnf\<rparr>) w1 = (w2, Inr n)"
    and "mg_deleteMany m confa_collection (confa_mongoFilter (l\<lparr>cl_Owner := userID\<rparr>)) w2 = (w2, Inl e)"
  shows "talk_User_DeleteConfa (talk_mongo_repo U m now) (confa_mongo_repo U m now) userID l w = (w2, Inr n)"
  using assms by (simp add: talk_User_DeleteConfa_def talk_mongo_repo_def confa_mongo_repo_def confa_Delete_def)

section \<open>Runs\<close>

definition sample_talk :: talk where
  "sample_talk = \<lparr>ta_ID = 31, ta_Confa = 21, ta_Owner = 1, ta_Speaker = 1, ta_Room = 41, ta_Handle = ''talk-one'',
     ta_Title = '''', ta_Description = '''', ta_State = StateLive, ta_CreatedAt = 5\<rparr>"

definition sample_confa :: confa where
  "sample_confa = confa_zero\<lparr>co_ID := 21, co_Owner := 1, co_Handle := ''conf'', co_CreatedAt := 4\<rparr>"

definition talk_mem :: mem where
  "talk_mem = (\<lambda>_. [])(''confas'' := [confa_enc sample_confa], ''talks'' := [talk_enc sample_talk])"

abbreviation demo_unicode :: unicode where
  "demo_unicode \<equiv> \<lparr>isL = is_lower, ulower = id\<rparr>"

lemmas talk_run_defs = talk_mongo_repo_def confa_mongo_repo_def talk_FetchOne_def talk_Fetch_def
  confa_FetchOne_def confa_Fetch_def talk_Delete_def fetch_one_def find_decoded_def mem_mongo_def
  talk_mem_def sample_talk_def sample_confa_def talk_enc_def confa_enc_def talk_dec_def confa_dec_def
  dec_defs talk_collection_def confa_collection_def talk_mongoFilter_def confa_mongoFilter_def
  talk_lookup_zero_def confa_lookup_zero_def from_zero_def IsZero_def confa_zero_def uuid_Nil_def
  clamp_limit_def talk_batchLimit_def confa_batchLimit_def take_limit_def exactly_one_def Let_def


theorem talk_delete_ignores_speaker_witness:
  "\<exists>w'. talk_User_Delete (talk_mongo_repo demo_unicode mem_mongo 0) 1 (talk_lookup_zero\<lparr>tl_Speaker := 9\<rparr>) talk_mem
     = (w', Inr 1) \<and> w' talk_collection = []"
proof -
  obtain w' where w': "talk_User_Delete (talk_mongo_repo demo_unicode mem_mongo 0) 1
      (talk_lookup_zero\<lparr>tl_Speaker := 9\<rparr>) talk_mem = (w', Inr 1)"
    by (simp add: talk_User_Delete_def talk_run_defs)
  with talk_delete_ignores_speaker [OF mem_mongo_laws _ w'] show ?thesis
    by (simp add: talk_run_defs)
qed

lemma demo_handle: "MatchString validHandle ''talk-two''"
  by code_simp

theorem talk_create_sound_witness:
  "\<exists>w' t. talk_User_Create (talk_mongo_repo demo_unicode mem_mongo 0) (confa_mongo_repo demo_unicode mem_mongo 0)
     (\<lambda>o' w. (w, Inr (uuid_MarshalBinary 42))) 32 1 (confa_lookup_zero\<lparr>cl_ID := 21\<rparr>)
     (talk_zero\<lparr>ta_Handle := ''talk-two''\<rparr>) talk_mem = Some (w', Inr t) \<and> ta_State t = StateLive \<and> ta_Room t = 42"
proof -
  let ?C = "talk_User_Create (talk_mongo_repo demo_unicode mem_mongo 0) (confa_mongo_repo demo_unicode mem_mongo 0)
     (\<lambda>o' w. (w, Inr (uuid_MarshalBinary 42))) 32 1 (confa_lookup_zero\<lparr>cl_ID := 21\<rparr>)
     (talk_zero\<lparr>ta_Handle := ''talk-two''\<rparr>) talk_mem"
  have "\<exists>w' t. ?C = Some (w', Inr t)"
    by (simp add: talk_User_Create_def talk_Create_def create_batch_def Talk_Validate_def
        Talk_ValidateAtRest_def State_Validate_def demo_handle talk_zero_def uuid_roundtrip talk_run_defs)
  then obtain w' t where t: "?C = Some (w', Inr t)" by blast
  from talk_create_sound [OF mem_mongo_laws _ _ t] have "ta_State t = StateLive"
    "uuid_MarshalBinary 42 = uuid_MarshalBinary (ta_Room t)"
    by (auto simp: uuid_Nil_def)
  with t show ?thesis
    using uuid_MarshalBinary_inj by metis
qed

theorem talk_recording_guard_witness:
  "\<exists>w'. talk_User_StartRecording (talk_mongo_repo demo_unicode mem_mongo 0)
     \<lparr>te_StartRecording = \<lambda>_ _ w. (w, None), te_StopRecording = \<lambda>_ _ _ w. (w, None)\<rparr> 1
     (talk_lookup_zero\<lparr>tl_ID := 31\<rparr>) talk_mem = (w', Inr sample_talk) \<and> ta_State sample_talk = StateLive"
proof -
  have "talk_User_StartRecording (talk_mongo_repo demo_unicode mem_mongo 0)
     \<lparr>te_StartRecording = \<lambda>_ _ w. (w, None), te_StopRecording = \<lambda>_ _ _ w. (w, None)\<rparr> 1
     (talk_lookup_zero\<lparr>tl_ID := 31\<rparr>) talk_mem = (talk_mem, Inr sample_talk)"
    by (simp add: talk_User_StartRecording_def talk_run_defs)
  with talk_recording_guard [OF mem_mongo_laws, of 1] show ?thesis
    by (metis (no_types, lifting) uuid_Nil_def zero_neq_one)
qed

theorem DeleteConfa_hides_failure_witness:
  "\<exists>w'. talk_User_DeleteConfa
     (talk_mongo_repo demo_unicode (mem_mongo\<lparr>mg_deleteMany := \<lambda>c f w. if c = confa_collection then (w, Inl (Foreign 9))
        else mg_deleteMany mem_mongo c f w\<rparr>) 0)
     (confa_mongo_repo demo_unicode (mem_mongo\<lparr>mg_deleteMany := \<lambda>c f w. if c = confa_collection then (w, Inl (Foreign 9))
        else mg_deleteMany mem_mongo c f w\<rparr>) 0) 1 (confa_lookup_zero\<lparr>cl_ID := 21\<rparr>) talk_mem = (w', Inr 1) \<and>
     w' talk_collection = [] \<and> w' confa_collection = [confa_enc sample_confa]"
proof -
  let ?m = "mem_mongo\<lparr>mg_deleteMany := \<lambda>c f w. if c = confa_collection then (w, Inl (Foreign 9))
        else mg_deleteMany mem_mongo c f w\<rparr>"
  let ?w = "talk_mem(''talks'' := [])"
  have "talk_User_DeleteConfa (talk_mongo_repo demo_unicode ?m 0) (confa_mongo_repo demo_unicode ?m 0) 1
      (confa_lookup_zero\<lparr>cl_ID := 21\<rparr>) talk_mem = (?w, Inr 1)"
    by (rule DeleteConfa_hides_failure [where e = "Foreign 9" and cnf = sample_confa and ?w1.0 = talk_mem])
      (simp_all add: talk_run_defs)
  then show ?thesis
    by (simp add: talk_mem_def talk_collection_def confa_collection_def)
qed

end
