(* ===== verification/Profile.thy ===== *)
theory Profile
  imports Confa Queue
begin

text \<open>
  Profiles: \<^verbatim>\<open>services/profile/profile.go\<close> (types and validation), \<^verbatim>\<open>mongo.go\<close> (repository),
  \<^verbatim>\<open>uploader.go\<close> (the update of names, avatar and thumbnail) and \<^verbatim>\<open>beanstalk.go\<close> (the update
  job).  Object storage, http, the image library and URL parsing are parameters (\<open>media\<close>).
  The lemmas show what \<^verbatim>\<open>CreateOrUpdate\<close> merges, and on which outcomes an update touches the
  stored profile.
\<close>

section \<open>Types and validation\<close>

record image_data =
  im_Format :: string
  im_Data :: "byte list"

definition no_image :: image_data where
  "no_image = \<lparr>im_Format = '''', im_Data = []\<rparr>"

definition Image_Validate :: "image_data \<Rightarrow> err" where
  "Image_Validate i =
     (if length (im_Data i) > 0 then
        (if im_Format i \<in> {''jpeg'', ''png'', ''webp''} then None else Some (New ''unsupported image format''))
      else if im_Format i \<noteq> '''' then Some (New ''must specify format if not empty'') else None)"

definition Image_IsEmpty :: "image_data \<Rightarrow> bool" where
  "Image_IsEmpty i = (length (im_Data i) = 0)"

record profile =
  pr_ID :: uuid
  pr_Owner :: uuid
  pr_Handle :: string
  pr_GivenName :: "string option"
  pr_FamilyName :: "string option"
  pr_AvatarThumbnail :: image_data
  pr_AvatarID :: uuid
  pr_CreatedAt :: time

definition profile_zero :: profile where
  "profile_zero = \<lparr>pr_ID = uuid_Nil, pr_Owner = uuid_Nil, pr_Handle = '''', pr_GivenName = None,
     pr_FamilyName = None, pr_AvatarThumbnail = no_image, pr_AvatarID = uuid_Nil, pr_CreatedAt = time_zero\<rparr>"

text \<open>\<^verbatim>\<open>^[\p{L}- ]{0,64}$\<close>\<close>

definition validName :: "unicode \<Rightarrow> rx" where
  "validName U = Rep 0 64 (Cls (\<lambda>c. isL U c \<or> c = 45 \<or> c = 32))"

definition Profile_Validate :: "unicode \<Rightarrow> profile \<Rightarrow> err" where
  "Profile_Validate U p =
     (if pr_ID p = uuid_Nil then Some (New ''id should not be empty'')
      else if pr_Owner p = uuid_Nil then Some (New ''owner should not be empty'')
      else if pr_Handle p \<noteq> '''' \<and> \<not> MatchString validHandle (pr_Handle p) then Some (New ''invalid handle'')
      else if set_and (pr_GivenName p) (\<lambda>n. \<not> MatchString (validName U) n) then Some (New ''invalid given name'')
      else if set_and (pr_FamilyName p) (\<lambda>n. \<not> MatchString (validName U) n) then Some (New ''invalid family name'')
      else (case Image_Validate (pr_AvatarThumbnail p) of
          Some e \<Rightarrow> Some (Wrap ''invalid avatar thumbnail'' e)
        | None \<Rightarrow> if length (im_Data (pr_AvatarThumbnail p)) > 20 * 1000
            then Some (New ''avatar thumbnail size should not exceed 20KB'') else None))"

record profile_lookup =
  pl_ID :: uuid
  pl_Owners :: "uuid list"
  pl_Handle :: string
  pl_Limit :: int
  pl_From :: uuid

definition profile_lookup_zero :: profile_lookup where
  "profile_lookup_zero = \<lparr>pl_ID = uuid_Nil, pl_Owners = [], pl_Handle = '''', pl_Limit = 0, pl_From = uuid_Nil\<rparr>"

definition profile_batchLimit :: int where "profile_batchLimit = 100"

definition profile_Lookup_Validate :: "profile_lookup \<Rightarrow> err" where
  "profile_Lookup_Validate l =
     (if int (length (pl_Owners l)) > profile_batchLimit then Some (New ''too many owners'') else None)"

text \<open>A file source: a bucket and a path in the storage, or a public URL, or neither.\<close>

record file_source =
  fs_Storage :: "(string \<times> string) option"
  fs_PublicURL :: "string option"

definition no_source :: file_source where
  "no_source = \<lparr>fs_Storage = None, fs_PublicURL = None\<rparr>"

definition FileSourceStorage_Validate :: "string \<times> string \<Rightarrow> err" where
  "FileSourceStorage_Validate s =
     (if fst s = '''' then Some (New ''bucket should not be empty'')
      else if snd s = '''' then Some (New ''path should not be empty'') else None)"

text \<open>\<open>parse\<close> is the error of \<^verbatim>\<open>url.ParseRequestURI\<close>.\<close>

definition FileSource_Validate :: "(string \<Rightarrow> err) \<Rightarrow> file_source \<Rightarrow> err" where
  "FileSource_Validate parse s = (case (case fs_Storage s of None \<Rightarrow> None | Some st \<Rightarrow> FileSourceStorage_Validate st) of
      Some e \<Rightarrow> Some (Wrap ''invalid storage source'' e)
    | None \<Rightarrow> (case fs_PublicURL s of
        None \<Rightarrow> None
      | Some u \<Rightarrow> if parse u \<noteq> None then Some (Wrap ''invalid public url source'' (New ''invalid url'')) else None))"

definition FileSource_IsZero :: "file_source \<Rightarrow> bool" where
  "FileSource_IsZero s = (fs_Storage s = None \<and> fs_PublicURL s = None)"

section \<open>The repository\<close>

abbreviation profile_err :: "ekind \<Rightarrow> go_error" where
  "profile_err \<equiv> Sentinel P_profile"

definition profile_collection :: string where "profile_collection = ''profiles''"

definition image_doc :: "image_data \<Rightarrow> bdoc" where
  "image_doc i = [(''format'', BStr (im_Format i)), (''data'', BBytes (im_Data i))]"

definition opt_str :: "string \<Rightarrow> string option \<Rightarrow> bdoc" where
  "opt_str k v = (case v of None \<Rightarrow> [] | Some s \<Rightarrow> [(k, BStr s)])"

definition profile_enc :: "profile \<Rightarrow> bdoc" where
  "profile_enc p = [(''_id'', BUuid (pr_ID p)), (''ownerId'', BUuid (pr_Owner p)), (''handle'', BStr (pr_Handle p))] @
     opt_str ''givenName'' (pr_GivenName p) @ opt_str ''familyName'' (pr_FamilyName p) @
     [(''avatarThumbnail'', BDoc (image_doc (pr_AvatarThumbnail p))), (''avatarId'', BUuid (pr_AvatarID p)),
      (''createdAt'', BTime (pr_CreatedAt p))]"

definition dec_opt_str :: "bdoc \<Rightarrow> string \<Rightarrow> string option res" where
  "dec_opt_str d k = (case bget d k of None \<Rightarrow> Inr None | Some (BStr s) \<Rightarrow> Inr (Some s) | _ \<Rightarrow> Inl EDecode)"

definition image_dec :: "bdoc \<Rightarrow> image_data res" where
  "image_dec d = (case bget d ''avatarThumbnail'' of
      None \<Rightarrow> Inr no_image
    | Some (BDoc i) \<Rightarrow> bindr (dec_str i ''format'') (\<lambda>f. bindr (dec_bytes i ''data'') (\<lambda>x.
        Inr \<lparr>im_Format = f, im_Data = x\<rparr>))
    | _ \<Rightarrow> Inl EDecode)"

definition profile_dec :: "bdoc \<Rightarrow> profile res" where
  "profile_dec d = bindr (dec_uuid d ''_id'') (\<lambda>i. bindr (dec_uuid d ''ownerId'') (\<lambda>ow.
     bindr (dec_str d ''handle'') (\<lambda>h. bindr (dec_opt_str d ''givenName'') (\<lambda>g.
     bindr (dec_opt_str d ''familyName'') (\<lambda>f. bindr (image_dec d) (\<lambda>im.
     bindr (dec_uuid d ''avatarId'') (\<lambda>a. bindr (dec_time d ''createdAt'') (\<lambda>c.
       Inr \<lparr>pr_ID = i, pr_Owner = ow, pr_Handle = h, pr_GivenName = g, pr_FamilyName = f,
         pr_AvatarThumbnail = im, pr_AvatarID = a, pr_CreatedAt = c\<rparr>))))))))"

interpretation profiles: codec profile_enc profile_dec
  by unfold_locales (simp add: profile_dec_def profile_enc_def dec_defs image_dec_def image_doc_def
      dec_opt_str_def opt_str_def split: option.split)

definition profile_Create :: "unicode \<Rightarrow> 'w mongo \<Rightarrow> time \<Rightarrow> profile list \<Rightarrow> 'w \<Rightarrow> 'w \<times> profile list res" where
  "profile_Create U m now = create_batch m profile_collection profile_enc profile_batchLimit
     ''trying to create more than 100''
     (\<lambda>r. case Profile_Validate U (r\<lparr>pr_CreatedAt := mongoNow now\<rparr>) of
         Some e \<Rightarrow> Inl (WrapS (profile_err ErrValidation) e)
       | None \<Rightarrow> Inr (r\<lparr>pr_CreatedAt := mongoNow now\<rparr>))
     (Some (profile_err ErrDuplicateEntry))"

definition profile_insert :: "time \<Rightarrow> profile \<Rightarrow> bdoc" where
  "profile_insert now r = [(''_id'', BUuid (pr_ID r)), (''ownerId'', BUuid (pr_Owner r)),
     (''createdAt'', BTime (mongoNow now))] @
     (if pr_Handle r = '''' then [(''handle'', BStr (uuid_String (pr_ID r)))] else [])"

definition profile_set :: "profile \<Rightarrow> bdoc" where
  "profile_set r =
     (if pr_Handle r = '''' then [] else [(''handle'', BStr (pr_Handle r))]) @
     opt_str ''givenName'' (pr_GivenName r) @ opt_str ''familyName'' (pr_FamilyName r) @
     (if Image_IsEmpty (pr_AvatarThumbnail r) then []
      else [(''avatarThumbnail'', BDoc (image_doc (pr_AvatarThumbnail r)))]) @
     (if pr_AvatarID r \<noteq> uuid_Nil then [(''avatarId'', BUuid (pr_AvatarID r))] else [])"

definition CreateOrUpdate :: "unicode \<Rightarrow> 'w mongo \<Rightarrow> time \<Rightarrow> profile \<Rightarrow> 'w \<Rightarrow> 'w \<times> profile res" where
  "CreateOrUpdate U m now request w = (case Profile_Validate U request of
      Some e \<Rightarrow> (w, Inl (WrapS (profile_err ErrValidation) e))
    | None \<Rightarrow> (case mg_findOneAndUpdate m profile_collection
          [FField ''ownerId'' (FEq (BUuid (pr_Owner request)))]
          [USetOnInsert (profile_insert now request), USet (profile_set request)] True w of
        (w', Inl e) \<Rightarrow> (w', Inl e)
      | (w', Inr d) \<Rightarrow> (w', profile_dec d)))"

definition profile_mongoFilter :: "profile_lookup \<Rightarrow> mfilter" where
  "profile_mongoFilter l =
     (if pl_ID l \<noteq> uuid_Nil then [FField ''_id'' (FEq (BUuid (pl_ID l)))]
      else if pl_From l \<noteq> uuid_Nil then [FField ''_id'' (FGt (BUuid (pl_From l)))] else []) @
     (if length (pl_Owners l) \<noteq> 0 then [FField ''ownerId'' (FIn (map BUuid (pl_Owners l)))] else []) @
     (if pl_Handle l \<noteq> '''' then [FField ''handle'' (FEq (BStr (pl_Handle l)))] else [])"

definition profile_Fetch :: "'w mongo \<Rightarrow> profile_lookup \<Rightarrow> 'w \<Rightarrow> 'w \<times> profile list res" where
  "profile_Fetch m l w = (case profile_Lookup_Validate l of
      Some e \<Rightarrow> (w, Inl (WrapS (profile_err ErrValidation) e))
    | None \<Rightarrow> find_decoded m profile_collection profile_dec (profile_mongoFilter l) [(''_id'', 1)]
        (clamp_limit profile_batchLimit (pl_Limit l)) w)"

definition profile_FetchOne :: "'w mongo \<Rightarrow> profile_lookup \<Rightarrow> 'w \<Rightarrow> 'w \<times> profile res" where
  "profile_FetchOne m l =
     fetch_one (profile_Fetch m l) (profile_err ErrNotFound) (profile_err ErrUnexpectedResult)"

section \<open>Updating\<close>

text \<open>
  Object storage (\<^verbatim>\<open>minio\<close>), the http client and the image library.  \<open>md_NotFound\<close> is
  \<^verbatim>\<open>minio.ToErrorResponse(err).StatusCode == http.StatusNotFound\<close>; encoding is to JPEG of
  quality 50, filling is centred with the box filter, as the two calls of the code are.
\<close>

record ('w, 'i) media =
  md_GetObject :: "string \<Rightarrow> string \<Rightarrow> 'w \<Rightarrow> 'w \<times> err"
  md_ReadObject :: "string \<Rightarrow> string \<Rightarrow> 'w \<Rightarrow> 'w \<times> byte list res"
  md_NotFound :: "go_error \<Rightarrow> bool"
  md_RemoveObject :: "string \<Rightarrow> string \<Rightarrow> 'w \<Rightarrow> 'w \<times> err"
  md_PutObject :: "string \<Rightarrow> string \<Rightarrow> byte list \<Rightarrow> 'w \<Rightarrow> 'w \<times> err"
  md_NewRequest :: "string \<Rightarrow> err"
  md_Do :: "string \<Rightarrow> 'w \<Rightarrow> 'w \<times> nat res"
  md_ReadBody :: "string \<Rightarrow> 'w \<Rightarrow> 'w \<times> byte list res"
  md_Decode :: "byte list \<Rightarrow> 'i res"
  md_Fill :: "'i \<Rightarrow> int \<Rightarrow> int \<Rightarrow> 'i"
  md_Encode :: "'i \<Rightarrow> byte list res"
  md_SetBucket :: "string \<Rightarrow> err"
  md_SetKey :: "string \<Rightarrow> err"
  md_SetExpires :: "time \<Rightarrow> err"
  md_SetContentLengthRange :: "int \<Rightarrow> int \<Rightarrow> err"
  md_PresignedPostPolicy :: "string \<Rightarrow> string \<Rightarrow> time \<Rightarrow> 'w \<Rightarrow> 'w \<times> (string \<times> string) list res"
  md_ParseRequestURI :: "string \<Rightarrow> err"

record buckets =
  bk_UserUploads :: string
  bk_UserPublic :: string

text \<open>\<^verbatim>\<open>path.Join\<close> of two clean, non-empty elements.\<close>

definition path_Join :: "string \<Rightarrow> string \<Rightarrow> string" where
  "path_Join a b = a @ ''/'' @ b"

definition cleanupObject :: "('w, 'i) media \<Rightarrow> file_source \<Rightarrow> 'w \<Rightarrow> 'w" where
  "cleanupObject md source w = (case fs_Storage source of
      None \<Rightarrow> w | Some (b, p) \<Rightarrow> fst (md_RemoveObject md b p w))"

text \<open>The bytes of a source, where it has one.\<close>

definition fetch_bytes :: "('w, 'i) media \<Rightarrow> file_source \<Rightarrow> 'w \<Rightarrow> 'w \<times> byte list option res" where
  "fetch_bytes md source w = (case fs_Storage source of
      Some (b, p) \<Rightarrow> (case md_GetObject md b p w of
          (w1, Some e) \<Rightarrow> (w1, Inl (Wrap ''failed to get object'' e))
        | (w1, None) \<Rightarrow> (case md_ReadObject md b p w1 of
            (w2, Inl e) \<Rightarrow> (w2, Inl (if md_NotFound md e then profile_err ErrNotFound
               else Wrap ''failed to read object'' e))
          | (w2, Inr x) \<Rightarrow> (w2, Inr (Some x))))
    | None \<Rightarrow> (case fs_PublicURL source of
        Some url \<Rightarrow> (case md_NewRequest md url of
            Some e \<Rightarrow> (w, Inl (Wrap ''failed to create request'' e))
          | None \<Rightarrow> (case md_Do md url w of
              (w1, Inl e) \<Rightarrow> (w1, Inl (Wrap ''failed to download file'' e))
            | (w1, Inr code) \<Rightarrow> if code \<noteq> 200 then (w1, Inl (New ''unexpected response code''))
                else (case md_ReadBody md url w1 of
                    (w2, Inl e) \<Rightarrow> (w2, Inl (Wrap ''failed to download file'' e))
                  | (w2, Inr x) \<Rightarrow> (w2, Inr (Some x)))))
      | None \<Rightarrow> (w, Inr None)))"

definition fetchImage :: "('w, 'i) media \<Rightarrow> file_source \<Rightarrow> 'w \<Rightarrow> 'w \<times> 'i option res" where
  "fetchImage md source w = (case fetch_bytes md source w of
      (w1, Inl e) \<Rightarrow> (w1, Inl e)
    | (w1, Inr None) \<Rightarrow> (w1, Inr None)
    | (w1, Inr (Some x)) \<Rightarrow> (case md_Decode md x of
        Inl e \<Rightarrow> (cleanupObject md source w1, Inl (WrapS (profile_err ErrValidation) e))
      | Inr img \<Rightarrow> (w1, Inr (Some img))))"

definition upload_avatar :: "('w, 'i) media \<Rightarrow> buckets \<Rightarrow> uuid \<Rightarrow> uuid \<Rightarrow> 'i \<Rightarrow> 'w \<Rightarrow> 'w \<times> err" where
  "upload_avatar md bk userID avatarID img w = (case md_Encode md (md_Fill md img 460 460) of
      Inl e \<Rightarrow> (w, Some (Wrap ''failed to encode image'' e))
    | Inr x \<Rightarrow> (case md_PutObject md (bk_UserPublic bk) (path_Join (uuid_String userID) (uuid_String avatarID)) x w of
        (w1, Some e) \<Rightarrow> (w1, Some (Wrap ''failed to upload converted avatar'' e))
      | (w1, None) \<Rightarrow> (w1, None)))"

definition make_thumbnail :: "('w, 'i) media \<Rightarrow> 'i \<Rightarrow> image_data res" where
  "make_thumbnail md img = (case md_Encode md (md_Fill md img 128 128) of
      Inl e \<Rightarrow> Inl (Wrap ''failed to encode image'' e)
    | Inr x \<Rightarrow> Inr \<lparr>im_Format = ''jpeg'', im_Data = x\<rparr>)"

text \<open>\<open>new_id\<close> and \<open>avatarID\<close> are the two calls of \<^verbatim>\<open>uuid.New\<close>, \<open>create\<close> is \<^verbatim>\<open>Repo.CreateOrUpdate\<close>.\<close>

definition Updater_Update ::
  "('w, 'i) media \<Rightarrow> buckets \<Rightarrow> (profile \<Rightarrow> 'w \<Rightarrow> 'w \<times> profile res) \<Rightarrow> uuid \<Rightarrow> uuid \<Rightarrow> uuid \<Rightarrow>
   string option \<Rightarrow> string option \<Rightarrow> file_source \<Rightarrow> file_source \<Rightarrow> 'w \<Rightarrow> 'w \<times> err" where
  "Updater_Update md bk create new_id avatarID userID givenName familyName thumbnail avatar w =
     (if givenName = None \<and> familyName = None \<and> FileSource_IsZero thumbnail \<and> FileSource_IsZero avatar
      then (w, Some (WrapS (profile_err ErrValidation) (New ''empty update not allowed'')))
      else case FileSource_Validate (md_ParseRequestURI md) thumbnail of
        Some e \<Rightarrow> (w, Some (WrapS (profile_err ErrValidation) e))
      | None \<Rightarrow> (case FileSource_Validate (md_ParseRequestURI md) avatar of
          Some e \<Rightarrow> (w, Some (WrapS (profile_err ErrValidation) e))
        | None \<Rightarrow> (case fetchImage md avatar w of
            (w1, Inl e) \<Rightarrow> (w1, Some e)
          | (w1, Inr avatarImg) \<Rightarrow> (case fetchImage md thumbnail w1 of
              (w2, Inl e) \<Rightarrow> (w2, Some e)
            | (w2, Inr fetched) \<Rightarrow>
                (case (case avatarImg of None \<Rightarrow> (w2, None) | Some img \<Rightarrow> upload_avatar md bk userID avatarID img w2) of
                  (w3, Some e) \<Rightarrow> (w3, Some e)
                | (w3, None) \<Rightarrow>
                    (case (case (case fetched of None \<Rightarrow> avatarImg | Some i \<Rightarrow> Some i) of
                        None \<Rightarrow> Inr no_image | Some img \<Rightarrow> make_thumbnail md img) of
                      Inl e \<Rightarrow> (w3, Some e)
                    | Inr thumb \<Rightarrow> (case create (profile_zero\<lparr>pr_ID := new_id, pr_Owner := userID,
                          pr_GivenName := givenName, pr_FamilyName := familyName, pr_AvatarThumbnail := thumb,
                          pr_AvatarID := (if avatarImg = None then uuid_Nil else avatarID)\<rparr>) w3 of
                        (w4, Inl e) \<Rightarrow> (w4, Some (Wrap ''failed to upsert profile'' e))
                      | (w4, Inr p) \<Rightarrow> (cleanupObject md thumbnail (cleanupObject md avatar w4), None))))))))"

section \<open>The update job\<close>

definition file_source_of :: "file_source_pb option \<Rightarrow> file_source" where
  "file_source_of pb = (case pb of None \<Rightarrow> no_source
     | Some s \<Rightarrow> \<lparr>fs_Storage = fp_Storage s, fs_PublicURL = fp_PublicUrl s\<rparr>)"

text \<open>A source that has both keeps only the URL.\<close>

definition newFileSource :: "file_source \<Rightarrow> file_source_pb option" where
  "newFileSource s = (case fs_PublicURL s of
      Some u \<Rightarrow> Some \<lparr>fp_Storage = None, fp_PublicUrl = Some u\<rparr>
    | None \<Rightarrow> (case fs_Storage s of
        Some st \<Rightarrow> Some \<lparr>fp_Storage = Some st, fp_PublicUrl = None\<rparr> | None \<Rightarrow> None))"

text \<open>
  The message of \<^verbatim>\<open>UpdateProfile\<close>; the fields of the thumbnail are assigned once more after
  \<^verbatim>\<open>newFileSource\<close>, those of the avatar are not.
\<close>

definition update_profile_msg ::
  "uuid \<Rightarrow> string option \<Rightarrow> string option \<Rightarrow> file_source \<Rightarrow> file_source \<Rightarrow> update_profile_pb" where
  "update_profile_msg userID givenName familyName thumbnail avatar =
     \<lparr>up_UserId = uuid_MarshalBinary userID,
      up_GivenNameSet = (givenName \<noteq> None), up_GivenName = (case givenName of None \<Rightarrow> '''' | Some n \<Rightarrow> n),
      up_FamilyNameSet = (familyName \<noteq> None), up_FamilyName = (case familyName of None \<Rightarrow> '''' | Some n \<Rightarrow> n),
      up_Thumbnail = map_option (\<lambda>s.
        (let s1 = (if fs_PublicURL thumbnail \<noteq> None then s\<lparr>fp_PublicUrl := fs_PublicURL thumbnail\<rparr> else s)
         in if fs_Storage thumbnail \<noteq> None then s1\<lparr>fp_Storage := fs_Storage thumbnail\<rparr> else s1))
        (newFileSource thumbnail),
      up_Avatar = newFileSource avatar, up_SkipIfExists = False\<rparr>"

definition Beanstalk_UpdateProfile ::
  "('w, 'i) media \<Rightarrow> proto \<Rightarrow> 'w beanstalkd \<Rightarrow> string \<Rightarrow> string \<Rightarrow> uuid \<Rightarrow> string option \<Rightarrow> string option \<Rightarrow>
   file_source \<Rightarrow> file_source \<Rightarrow> 'w \<Rightarrow> 'w \<times> err" where
  "Beanstalk_UpdateProfile md p q trace tube userID givenName familyName thumbnail avatar w =
     (case FileSource_Validate (md_ParseRequestURI md) thumbnail of
       Some e \<Rightarrow> (w, Some (Wrap ''invalid thumbnail'' e))
     | None \<Rightarrow> (case FileSource_Validate (md_ParseRequestURI md) avatar of
         Some e \<Rightarrow> (w, Some (Wrap ''invalid avatar'' e))
       | None \<Rightarrow> put_msg p q trace ''failed to marshal event'' True tube
           (JUpdateProfile (update_profile_msg userID givenName familyName thumbnail avatar))
           \<lparr>pp_Delay = 2 * Second, pp_TTR = 2 * Minute\<rparr> w))"

text \<open>\<open>emit\<close> is \<^verbatim>\<open>Emitter.UpdateProfile\<close>, \<open>route\<close> is \<^verbatim>\<open>routes.Storage.Bucket\<close>.\<close>

definition UpdateAndRequestUpload ::
  "('w, 'i) media \<Rightarrow> buckets \<Rightarrow> (string \<Rightarrow> string) \<Rightarrow>
   (uuid \<Rightarrow> string option \<Rightarrow> string option \<Rightarrow> file_source \<Rightarrow> file_source \<Rightarrow> 'w \<Rightarrow> 'w \<times> err) \<Rightarrow> time \<Rightarrow> uuid \<Rightarrow> 'w \<Rightarrow>
   'w \<times> (string \<times> (string \<times> string) list) res" where
  "UpdateAndRequestUpload md bk route emit now userID w =
     (let objectPath = path_Join (uuid_String userID) ''avatar''; bucket = bk_UserUploads bk;
          expires = now + 5 * Minute in
      case md_SetBucket md bucket of Some e \<Rightarrow> (w, Inl (Wrap ''failed to set policy bucket'' e))
      | None \<Rightarrow> (case md_SetKey md objectPath of Some e \<Rightarrow> (w, Inl (Wrap ''failed to set policy key'' e))
      | None \<Rightarrow> (case md_SetExpires md expires of Some e \<Rightarrow> (w, Inl (Wrap ''failed to set policy expires'' e))
      | None \<Rightarrow> (case md_SetContentLengthRange md 0 (5 * 1000 * 1000) of
          Some e \<Rightarrow> (w, Inl (Wrap ''failed to set policy content length'' e))
      | None \<Rightarrow> (case md_PresignedPostPolicy md bucket objectPath expires w of
          (w1, Inl e) \<Rightarrow> (w1, Inl (Wrap ''failed to sign post policy'' e))
        | (w1, Inr data) \<Rightarrow>
            (case emit userID None None no_source \<lparr>fs_Storage = Some (bucket, objectPath), fs_PublicURL = None\<rparr> w1 of
              (w2, Some e) \<Rightarrow> (w2, Inl (Wrap ''failed to emit avatar update'' e))
            | (w2, None) \<Rightarrow> (w2, Inr (route bucket, data))))))))"

section \<open>What an upsert merges\<close>

lemma profile_dec_iff:
  "profile_dec d = Inr p \<longleftrightarrow> dec_uuid d ''_id'' = Inr (pr_ID p) \<and> dec_uuid d ''ownerId'' = Inr (pr_Owner p) \<and>
     dec_str d ''handle'' = Inr (pr_Handle p) \<and> dec_opt_str d ''givenName'' = Inr (pr_GivenName p) \<and>
     dec_opt_str d ''familyName'' = Inr (pr_FamilyName p) \<and> image_dec d = Inr (pr_AvatarThumbnail p) \<and>
     dec_uuid d ''avatarId'' = Inr (pr_AvatarID p) \<and> dec_time d ''createdAt'' = Inr (pr_CreatedAt p)"
  by (cases p) (auto simp: profile_dec_def bindr_def split: sum.splits)

lemma profile_set_get:
  "map_of (profile_set r) ''_id'' = None" "map_of (profile_set r) ''ownerId'' = None"
  "map_of (profile_set r) ''createdAt'' = None"
  "map_of (profile_set r) ''handle'' = (if pr_Handle r = '''' then None else Some (BStr (pr_Handle r)))"
  "map_of (profile_set r) ''givenName'' = map_option BStr (pr_GivenName r)"
  "map_of (profile_set r) ''familyName'' = map_option BStr (pr_FamilyName r)"
  "map_of (profile_set r) ''avatarThumbnail'' = (if Image_IsEmpty (pr_AvatarThumbnail r) then None
     else Some (BDoc (image_doc (pr_AvatarThumbnail r))))"
  "map_of (profile_set r) ''avatarId'' = (if pr_AvatarID r = uuid_Nil then None else Some (BUuid (pr_AvatarID r)))"
  by (auto simp: profile_set_def opt_str_def map_add_def split: option.split)

definition profile_merge :: "profile \<Rightarrow> profile \<Rightarrow> profile" where
  "profile_merge r p = p\<lparr>
     pr_Handle := (if pr_Handle r = '''' then pr_Handle p else pr_Handle r),
     pr_GivenName := (case pr_GivenName r of None \<Rightarrow> pr_GivenName p | Some n \<Rightarrow> Some n),
     pr_FamilyName := (case pr_FamilyName r of None \<Rightarrow> pr_FamilyName p | Some n \<Rightarrow> Some n),
     pr_AvatarThumbnail := (if Image_IsEmpty (pr_AvatarThumbnail r) then pr_AvatarThumbnail p
       else pr_AvatarThumbnail r),
     pr_AvatarID := (if pr_AvatarID r = uuid_Nil then pr_AvatarID p else pr_AvatarID r)\<rparr>"

lemma image_dec_cong: "bget d ''avatarThumbnail'' = bget d' ''avatarThumbnail'' \<Longrightarrow> image_dec d = image_dec d'"
  by (simp add: image_dec_def)

lemma image_dec_doc: "bget d ''avatarThumbnail'' = Some (BDoc (image_doc i)) \<Longrightarrow> image_dec d = Inr i"
  by (simp add: image_dec_def image_doc_def dec_defs)

text \<open>A document whose fields are those of a stored one with the update on top.\<close>

lemma merged_dec:
  assumes "\<And>k. bget d' k = (case map_of (profile_set r) k of None \<Rightarrow> bget d k | Some v \<Rightarrow> Some v)"
    and "profile_dec d = Inr p"
  shows "profile_dec d' = Inr (profile_merge r p)"
proof -
  have "image_dec d' = Inr (pr_AvatarThumbnail (profile_merge r p))"
  proof (cases "Image_IsEmpty (pr_AvatarThumbnail r)")
    case True
    then have "image_dec d' = image_dec d"
      by (intro image_dec_cong) (simp add: assms(1) profile_set_get)
    with True assms(2) show ?thesis
      by (simp add: profile_dec_iff profile_merge_def)
  next
    case False
    then show ?thesis
      by (intro image_dec_doc) (simp add: assms(1) profile_set_get profile_merge_def)
  qed
  then show ?thesis
    using assms(2) unfolding profile_dec_iff
    by (auto simp: dec_uuid_def dec_str_def dec_time_def dec_opt_str_def assms(1) profile_set_get profile_merge_def
        split: option.splits)
qed

lemma merge_handle: "pr_Handle r \<noteq> '''' \<Longrightarrow> profile_merge r (p\<lparr>pr_Handle := h\<rparr>) = profile_merge r p"
  by (cases p) (simp add: profile_merge_def split: option.split)

text \<open>The profile a first update creates.\<close>

definition profile_fresh :: "time \<Rightarrow> profile \<Rightarrow> profile" where
  "profile_fresh now r = profile_merge r (profile_zero\<lparr>pr_ID := pr_ID r, pr_Owner := pr_Owner r,
     pr_CreatedAt := mongoNow now, pr_Handle := uuid_String (pr_ID r)\<rparr>)"

lemma fresh_dec:
  assumes "\<And>k. bget d k = bget (upserted [FField ''ownerId'' (FEq (BUuid (pr_Owner r)))]
      (profile_insert now r) [USet (profile_set r)]) k"
  shows "profile_dec d = Inr (profile_fresh now r)"
proof -
  have "bget (profile_insert now r) ''ownerId'' = Some (BUuid (pr_Owner r))"
    by (simp add: profile_insert_def bget_def)
  then have d: "bget d k = (case map_of (profile_set r) k of None \<Rightarrow> bget (profile_insert now r) k | Some v \<Rightarrow> Some v)" for k
    unfolding assms by (cases "k = ''ownerId''")
      (auto simp: bget_upserted bget_set_fields bget_def [of "[_]"] split: option.splits)
  show ?thesis
  proof (cases "pr_Handle r = ''''")
    case True
    have "profile_dec (profile_insert now r) = Inr (profile_zero\<lparr>pr_ID := pr_ID r, pr_Owner := pr_Owner r,
        pr_CreatedAt := mongoNow now, pr_Handle := uuid_String (pr_ID r)\<rparr>)"
      using True by (simp add: profile_insert_def profile_dec_def dec_defs dec_opt_str_def image_dec_def profile_zero_def)
    from merged_dec [OF d this] show ?thesis
      by (simp add: profile_fresh_def)
  next
    case False
    have "profile_dec (profile_insert now r) = Inr (profile_zero\<lparr>pr_ID := pr_ID r, pr_Owner := pr_Owner r,
        pr_CreatedAt := mongoNow now\<rparr>)"
      using False by (simp add: profile_insert_def profile_dec_def dec_defs dec_opt_str_def image_dec_def profile_zero_def)
    from merged_dec [OF d this] merge_handle [OF False, where p = "profile_zero\<lparr>pr_ID := pr_ID r,
        pr_Owner := pr_Owner r, pr_CreatedAt := mongoNow now\<rparr>" and h = "uuid_String (pr_ID r)"] show ?thesis
      by (simp add: profile_fresh_def)
  qed
qed

lemma CreateOrUpdate_cases:
  assumes "CreateOrUpdate U m now r w = (w', res)"
  obtains (invalid) e where "Profile_Validate U r = Some e" "w' = w" "res = Inl (WrapS (profile_err ErrValidation) e)"
  | (failed) e where "mg_findOneAndUpdate m profile_collection [FField ''ownerId'' (FEq (BUuid (pr_Owner r)))]
      [USetOnInsert (profile_insert now r), USet (profile_set r)] True w = (w', Inl e)" "res = Inl e"
  | (stored) d where "mg_findOneAndUpdate m profile_collection [FField ''ownerId'' (FEq (BUuid (pr_Owner r)))]
      [USetOnInsert (profile_insert now r), USet (profile_set r)] True w = (w', Inr d)" "res = profile_dec d"
      "Profile_Validate U r = None"
  using assms by (auto simp: CreateOrUpdate_def split: option.splits prod.splits sum.splits)

text \<open>
  An upsert of a profile either merges into the stored profile of its owner the fields the
  request has and keeps the others, or, when the owner has none, appends a fresh profile; the
  result is the stored profile, and no other profile changes.
\<close>

theorem CreateOrUpdate_merges:
  assumes "mongo_laws m docs" and "CreateOrUpdate U m now r w = (w', Inr p)"
    and "\<forall>d \<in> set (docs w profile_collection). is_ok (profile_dec d)"
  shows "(\<exists>as d d' bs. docs w profile_collection = as @ d # bs \<and> docs w' profile_collection = as @ d' # bs \<and>
       profile_dec d' = Inr p \<and> bget d ''ownerId'' = Some (BUuid (pr_Owner r)) \<and>
       (\<exists>p0. profile_dec d = Inr p0 \<and> p = profile_merge r p0)) \<or>
     (\<exists>d'. docs w' profile_collection = docs w profile_collection @ [d'] \<and> profile_dec d' = Inr p \<and>
       p = profile_fresh now r \<and>
       (\<forall>d \<in> set (docs w profile_collection). bget d ''ownerId'' \<noteq> Some (BUuid (pr_Owner r))))"
  using assms(2)
proof (cases rule: CreateOrUpdate_cases)
  case (stored d')
  have pl: "plain_update [USet (profile_set r)]" by simp
  from upsert_lawD(3) [OF assms(1) pl stored(1) refl] show ?thesis
  proof (elim disjE exE conjE)
    fix as d bs
    assume d: "docs w profile_collection = as @ d # bs" "docs w' profile_collection = as @ d' # bs"
      "matches [FField ''ownerId'' (FEq (BUuid (pr_Owner r)))] d"
      "\<forall>k. bget d' k = bget (apply_update [USet (profile_set r)] d) k"
    then obtain p0 where "profile_dec d = Inr p0"
      using assms(3) by (auto simp: is_ok_iff)
    with merged_dec [of d' d r p0] d stored(2) show ?thesis
      by (fastforce simp: bget_set_fields)
  next
    assume "\<forall>d \<in> set (docs w profile_collection). \<not> matches [FField ''ownerId'' (FEq (BUuid (pr_Owner r)))] d"
      "\<forall>k. bget d' k = bget (upserted [FField ''ownerId'' (FEq (BUuid (pr_Owner r)))] (profile_insert now r)
         [USet (profile_set r)]) k" "docs w' profile_collection = docs w profile_collection @ [d']"
    with fresh_dec [of d' r now] stored(2) show ?thesis
      by auto
  qed
qed simp_all

section \<open>What an update of a profile touches\<close>

text \<open>The storage and the http client are not the database.\<close>

definition media_law :: "('w, 'i) media \<Rightarrow> ('w \<Rightarrow> string \<Rightarrow> bdoc list) \<Rightarrow> bool" where
  "media_law md docs \<longleftrightarrow> (\<forall>b p x u w.
     docs (fst (md_GetObject md b p w)) = docs w \<and> docs (fst (md_ReadObject md b p w)) = docs w \<and>
     docs (fst (md_RemoveObject md b p w)) = docs w \<and> docs (fst (md_PutObject md b p x w)) = docs w \<and>
     docs (fst (md_Do md u w)) = docs w \<and> docs (fst (md_ReadBody md u w)) = docs w)"

lemma media_keeps:
  assumes "media_law md docs"
  shows "md_GetObject md b p w = (w', e) \<Longrightarrow> docs w' = docs w"
    "md_ReadObject md b p w = (w', r) \<Longrightarrow> docs w' = docs w"
    "md_PutObject md b p x w = (w', e) \<Longrightarrow> docs w' = docs w"
    "md_Do md u w = (w', c) \<Longrightarrow> docs w' = docs w" "md_ReadBody md u w = (w', r) \<Longrightarrow> docs w' = docs w"
  using assms unfolding media_law_def by (metis fst_conv)+

lemma cleanup_keeps: "media_law md docs \<Longrightarrow> docs (cleanupObject md s w) = docs w"
  by (auto simp: media_law_def cleanupObject_def split: option.split)

lemma fetchImage_keeps:
  assumes "media_law md docs" and "fetchImage md s w = (w', r)"
  shows "docs w' = docs w"
proof -
  have "docs w1 = docs w" if "fetch_bytes md s w = (w1, b)" for w1 b
    using that by (auto simp: fetch_bytes_def split: option.splits prod.splits sum.splits if_splits
        dest!: media_keeps [OF assms(1)])
  with assms show ?thesis
    by (auto simp: fetchImage_def cleanup_keeps split: prod.splits sum.splits option.splits)
qed

lemma upload_keeps:
  "media_law md docs \<Longrightarrow> upload_avatar md bk u a i w = (w', e) \<Longrightarrow> docs w' = docs w"
  by (auto simp: upload_avatar_def split: sum.splits prod.splits option.splits dest: media_keeps(3))

text \<open>The outcomes of an update: it fails before the repository, or it is the repository's outcome.\<close>

lemma Updater_Update_cases:
  assumes "media_law md docs"
    and "Updater_Update md bk create i a u gn fn th av w = (w', res)"
  obtains (before) e where "docs w' = docs w" "res = Some e"
  | (repo) w3 w4 r p where "docs w3 = docs w" "create r w3 = (w4, p)" "docs w' = docs w4" "pr_Owner r = u"
      "pr_ID r = i" "pr_GivenName r = gn" "pr_FamilyName r = fn" "res = None \<longleftrightarrow> is_ok p"
proof -
  have "(\<exists>e. docs w' = docs w \<and> res = Some e) \<or>
    (\<exists>w3 w4 r p. docs w3 = docs w \<and> create r w3 = (w4, p) \<and> docs w' = docs w4 \<and> pr_Owner r = u \<and>
       pr_ID r = i \<and> pr_GivenName r = gn \<and> pr_FamilyName r = fn \<and> (res = None \<longleftrightarrow> is_ok p))"
  proof (cases "\<exists>w1 w2 ai ti. fetchImage md av w = (w1, Inr ai) \<and> fetchImage md th w1 = (w2, Inr ti)")
    case False
    then show ?thesis
      using assms by (auto simp: Updater_Update_def split: if_splits option.splits prod.splits sum.splits
          dest!: fetchImage_keeps [OF assms(1)])
  next
    case True
    then obtain w1 w2 ai ti where f: "fetchImage md av w = (w1, Inr ai)" "fetchImage md th w1 = (w2, Inr ti)"
      by blast
    obtain w3 e3 where up: "(case ai of None \<Rightarrow> (w2, None) | Some img \<Rightarrow> upload_avatar md bk u a img w2) = (w3, e3)"
      by fastforce
    have w3: "docs w3 = docs w"
      using fetchImage_keeps [OF assms(1) f(1)] fetchImage_keeps [OF assms(1) f(2)] up
      by (auto split: option.splits dest: upload_keeps [OF assms(1)])
    define t where "t = (case (case ti of None \<Rightarrow> ai | Some i \<Rightarrow> Some i) of
        None \<Rightarrow> Inr no_image | Some img \<Rightarrow> make_thumbnail md img)"
    define r where "r th = profile_zero\<lparr>pr_ID := i, pr_Owner := u, pr_GivenName := gn, pr_FamilyName := fn,
        pr_AvatarThumbnail := th, pr_AvatarID := (if ai = None then uuid_Nil else a)\<rparr>" for th
    have step: "Updater_Update md bk create i a u gn fn th av w =
       (if gn = None \<and> fn = None \<and> FileSource_IsZero th \<and> FileSource_IsZero av
        then (w, Some (WrapS (profile_err ErrValidation) (New ''empty update not allowed'')))
        else case FileSource_Validate (md_ParseRequestURI md) th of
          Some e \<Rightarrow> (w, Some (WrapS (profile_err ErrValidation) e))
        | None \<Rightarrow> (case FileSource_Validate (md_ParseRequestURI md) av of
            Some e \<Rightarrow> (w, Some (WrapS (profile_err ErrValidation) e))
          | None \<Rightarrow> (case e3 of Some e \<Rightarrow> (w3, Some e)
              | None \<Rightarrow> (case t of Inl e \<Rightarrow> (w3, Some e)
                  | Inr thumb \<Rightarrow> (case create (r thumb) w3 of
                      (w4, Inl e) \<Rightarrow> (w4, Some (Wrap ''failed to upsert profile'' e))
                    | (w4, Inr p) \<Rightarrow> (cleanupObject md th (cleanupObject md av w4), None))))))"
      unfolding Updater_Update_def f prod.case sum.case up t_def r_def
      by (auto split: option.split sum.split prod.split)
    have fields: "pr_Owner (r th) = u" "pr_ID (r th) = i" "pr_GivenName (r th) = gn" "pr_FamilyName (r th) = fn" for th
      by (simp_all add: r_def)
    show ?thesis
    proof (cases "e3 = None \<and> (\<exists>th. t = Inr th)")
      case False
      then show ?thesis
        using assms(2) w3 unfolding step by (cases e3; cases t) (auto split: if_splits option.splits)
    next
      case True
      then obtain thumb where th: "e3 = None" "t = Inr thumb"
        by blast
      obtain w4 p where c: "create (r thumb) w3 = (w4, p)"
        by fastforce
      have "(\<exists>e. w' = w \<and> res = Some e) \<or> (case p of
            Inl e \<Rightarrow> (w4, Some (Wrap ''failed to upsert profile'' e))
          | Inr _ \<Rightarrow> (cleanupObject md th (cleanupObject md av w4), None)) = (w', res)"
        using assms(2) c unfolding step th by (auto split: if_splits option.splits)
      then have "(\<exists>e. w' = w \<and> res = Some e) \<or> docs w' = docs w4 \<and> (res = None \<longleftrightarrow> is_ok p)"
        using cleanup_keeps [OF assms(1)] by (cases p) auto
      with w3 fields [of thumb] c show ?thesis
        by blast
    qed
  qed
  then show thesis
    using that by blast
qed


section \<open>Runs\<close>

text \<open>A storage that holds no image and a client that downloads none.\<close>

definition toy_media :: "(mem, nat) media" where
  "toy_media = \<lparr>md_GetObject = (\<lambda>_ _ w. (w, None)), md_ReadObject = (\<lambda>_ _ w. (w, Inr [1])),
     md_NotFound = (\<lambda>_. False), md_RemoveObject = (\<lambda>_ _ w. (w, None)), md_PutObject = (\<lambda>_ _ _ w. (w, None)),
     md_NewRequest = (\<lambda>_. None), md_Do = (\<lambda>_ w. (w, Inr 404)), md_ReadBody = (\<lambda>_ w. (w, Inr [])),
     md_Decode = (\<lambda>_. Inr 0), md_Fill = (\<lambda>i _ _. i), md_Encode = (\<lambda>_. Inr [2]),
     md_SetBucket = (\<lambda>_. None), md_SetKey = (\<lambda>_. None), md_SetExpires = (\<lambda>_. None),
     md_SetContentLengthRange = (\<lambda>_ _. None), md_PresignedPostPolicy = (\<lambda>_ _ _ w. (w, Inr [])),
     md_ParseRequestURI = (\<lambda>_. None)\<rparr>"

lemma toy_media_law: "media_law toy_media (\<lambda>w. w)"
  by (simp add: media_law_def toy_media_def)

definition ann :: profile where
  "ann = profile_zero\<lparr>pr_ID := 1, pr_Owner := 2, pr_Handle := ''anns'', pr_FamilyName := Some ''Lee''\<rparr>"

definition profile_mem :: mem where
  "profile_mem = (\<lambda>_. [])(profile_collection := [profile_enc ann])"

lemma profile_mem_ok: "\<forall>d \<in> set (profile_mem profile_collection). is_ok (profile_dec d)"
  by (simp add: profile_mem_def profiles.dec_enc)

definition any_rune :: unicode where
  "any_rune = \<lparr>isL = (\<lambda>_. True), ulower = id\<rparr>"

definition new_name :: profile where
  "new_name = profile_zero\<lparr>pr_ID := 9, pr_Owner := 2, pr_AvatarID := 7\<rparr>"

theorem CreateOrUpdate_merges_witness:
  "\<exists>d' p. fst (CreateOrUpdate any_rune mem_mongo 5 new_name profile_mem) profile_collection = [d'] \<and>
     profile_dec d' = Inr p \<and> p = ann\<lparr>pr_AvatarID := 7\<rparr>"
proof -
  have ok: "Profile_Validate any_rune new_name = None"
    by (simp add: Profile_Validate_def new_name_def profile_zero_def set_and_def Image_Validate_def no_image_def uuid_Nil_def)
  have own: "bget (profile_enc ann) ''ownerId'' = Some (BUuid 2)"
    by (simp add: profile_enc_def ann_def bget_def)
  obtain d' where run: "CreateOrUpdate any_rune mem_mongo 5 new_name profile_mem =
      (profile_mem(profile_collection := [d']), profile_dec d')"
    "d' = apply_update [USet (profile_set new_name)] (profile_enc ann)"
    using ok own by (simp add: CreateOrUpdate_def mem_mongo_def profile_mem_def new_name_def)
  have merged: "profile_dec d' = Inr (profile_merge new_name ann)"
    by (rule merged_dec [OF _ profiles.dec_enc]) (simp add: run(2) bget_set_fields)
  from CreateOrUpdate_merges [where docs = "\<lambda>w. w", OF mem_mongo_laws run(1) [unfolded merged] profile_mem_ok]
  have "\<exists>p. profile_dec d' = Inr p"
    by (auto simp: profile_mem_def Cons_eq_append_conv)
  with run(1) merged show ?thesis
    by (simp add: profile_mem_def profile_merge_def new_name_def ann_def profile_zero_def no_image_def Image_IsEmpty_def
        uuid_Nil_def)
qed

definition stored_avatar :: file_source where
  "stored_avatar = \<lparr>fs_Storage = Some (''uploads'', ''avatar''), fs_PublicURL = None\<rparr>"


end
