(* ===== verification/Confa_Jobs.thy ===== *)
theory Confa_Jobs
  imports Talk Profile Steps
begin

text \<open>
  The jobs of the confa service: the handlers of \<^verbatim>\<open>services/cmd/confa/queue/handler.go\<close> and the
  emitter \<^verbatim>\<open>beanstalk.go\<close> beside it.  Each handler is interpreted in the contract
  \<open>job_handler\<close>.  The lemmas show how the state of a talk moves under any sequence of recording
  jobs, what a finished stop job guarantees, and two ways in which the recording of a talk
  goes wrong: a malformed talk id, and a redelivered start.

  The rtc service, the clients of the stores and the rendering of page addresses are
  parameters.  The types of the wrong kind a decoder cannot return are treated as errors.
\<close>

section \<open>The emitter and the clients\<close>

definition queue_Send ::
  "proto \<Rightarrow> 'w beanstalkd \<Rightarrow> string \<Rightarrow> string \<Rightarrow> uuid \<Rightarrow> sender_message \<Rightarrow> 'w \<Rightarrow> 'w \<times> err" where
  "queue_Send p q trace tube userID message =
     put_msg p q trace ''failed to marshal message to send'' True tube
       (JSend (Some (Some (DeliveryAuto (uuid_MarshalBinary userID)))) (Some (Some message)))
       \<lparr>pp_Delay = 0, pp_TTR = 30 * Second\<rparr>"

text \<open>
  The rtc client: starting takes the room, the key and the expiry in milliseconds and says
  whether the recording already existed.  A twirp error of code NotFound is the sentinel
  \<open>Sentinel P_twirp ErrNotFound\<close>, which \<^verbatim>\<open>errors.As\<close> finds under any wrapping.
\<close>

record 'w rtc_client =
  rt_StartRecording :: "byte list \<Rightarrow> string \<Rightarrow> int \<Rightarrow> 'w \<Rightarrow> 'w \<times> bool res"
  rt_StopRecording :: "byte list \<Rightarrow> string \<Rightarrow> 'w \<Rightarrow> 'w \<times> err"

record pages =
  pg_Confa :: "string \<Rightarrow> string"
  pg_Talk :: "string \<Rightarrow> string \<Rightarrow> string"

section \<open>The handlers\<close>

definition updateAvatar_maxAge :: duration where "updateAvatar_maxAge = 24 * Hour"

definition updateAvatar_bo :: backoff where
  "updateAvatar_bo = \<lparr>bo_Factor = 15 / 10, bo_Jitter = False, bo_Min = 2 * Second, bo_Max = Hour\<rparr>"

definition updateAvatar ::
  "float_part \<Rightarrow> proto \<Rightarrow> 'w beanstalkd \<Rightarrow>
   (uuid \<Rightarrow> string option \<Rightarrow> string option \<Rightarrow> file_source \<Rightarrow> file_source \<Rightarrow> 'w \<Rightarrow> 'w \<times> err) \<Rightarrow>
   (profile_lookup \<Rightarrow> 'w \<Rightarrow> 'w \<times> profile res) \<Rightarrow> 'w handler" where
  "updateAvatar fp p q update fetchProfile job w =
     (let retry = jobRetry fp q updateAvatar_bo updateAvatar_maxAge job; delete = jobDelete q job in
      case pb_Unmarshal p KUpdateProfile (jb_Body job) of
        Inr (JUpdateProfile payload) \<Rightarrow>
          (let userID = uuid_of_bin (up_UserId payload);
               givenName = (if up_GivenNameSet payload then Some (up_GivenName payload) else None);
               familyName = (if up_FamilyNameSet payload then Some (up_FamilyName payload) else None);
               go = (\<lambda>w. case update userID givenName familyName (file_source_of (up_Thumbnail payload))
                      (file_source_of (up_Avatar payload)) w of
                    (w2, None) \<Rightarrow> delete w2
                  | (w2, Some e) \<Rightarrow> if errors_Is e P_profile ErrValidation then delete w2 else retry w2)
           in if up_SkipIfExists payload
              then (case fetchProfile (profile_lookup_zero\<lparr>pl_Owners := [userID]\<rparr>) w of
                  (w1, Inl e) \<Rightarrow> if errors_Is e P_profile ErrNotFound then go w1 else retry w1
                | (w1, Inr _) \<Rightarrow> delete w1)
              else go w)
      | _ \<Rightarrow> delete w)"

definition startRecording_maxAge :: duration where "startRecording_maxAge = 2 * Minute"

definition startRecording_bo :: backoff where
  "startRecording_bo = \<lparr>bo_Factor = 12 / 10, bo_Jitter = False, bo_Min = Second, bo_Max = 10 * Second\<rparr>"

definition autostopAfter :: duration where "autostopAfter = 60 * Minute"

definition maxDuration_ms :: int where "maxDuration_ms = Hour div Millisecond"

definition only_state :: "string \<Rightarrow> talk_update" where
  "only_state s = \<lparr>tu_Handle = None, tu_Title = None, tu_Description = None, tu_State = Some s\<rparr>"

text \<open>The update of the state of a talk, at the end of both recording jobs.\<close>

definition move_talk ::
  "'w mongo \<Rightarrow> uuid \<Rightarrow> string \<Rightarrow> string \<Rightarrow> ('w \<Rightarrow> 'w \<times> finish option) \<Rightarrow> ('w \<Rightarrow> 'w \<times> finish option) \<Rightarrow>
   'w \<Rightarrow> 'w \<times> finish option" where
  "move_talk m talkID old new delete retry w =
     (case talk_UpdateOne m (talk_lookup_zero\<lparr>tl_ID := talkID, tl_StateIn := [old]\<rparr>) (only_state new) w of
        (w', Inl e) \<Rightarrow> if errors_Is e P_talk ErrNotFound then delete w' else retry w'
      | (w', Inr _) \<Rightarrow> delete w')"

definition startRecording ::
  "float_part \<Rightarrow> proto \<Rightarrow> 'w beanstalkd \<Rightarrow> 'w mongo \<Rightarrow> 'w rtc_client \<Rightarrow>
   (uuid \<Rightarrow> uuid \<Rightarrow> duration \<Rightarrow> 'w \<Rightarrow> 'w \<times> err) \<Rightarrow> 'w handler" where
  "startRecording fp p q m rtc emitStop job w =
     (let retry = jobRetry fp q startRecording_bo startRecording_maxAge job; delete = jobDelete q job in
      case pb_Unmarshal p KStartRecording (jb_Body job) of
        Inr (JStartRecording talk_bin room_bin) \<Rightarrow>
          (let talkID = uuid_of_bin talk_bin; roomID = uuid_of_bin room_bin in
           case rt_StartRecording rtc room_bin (uuid_String talkID) maxDuration_ms w of
             (w1, Inl e) \<Rightarrow> retry w1
           | (w1, Inr alreadyExists) \<Rightarrow>
               (case (if alreadyExists then (w1, None) else emitStop talkID roomID autostopAfter w1) of
                 (w2, Some e) \<Rightarrow> retry w2
               | (w2, None) \<Rightarrow> move_talk m talkID StateLive StateRecording delete retry w2))
      | _ \<Rightarrow> delete w)"

definition stopRecording_maxAge :: duration where "stopRecording_maxAge = 2 * Hour"

definition stopRecording_bo :: backoff where
  "stopRecording_bo = \<lparr>bo_Factor = 12 / 10, bo_Jitter = False, bo_Min = Second, bo_Max = 10 * Minute\<rparr>"

definition stopRecording ::
  "float_part \<Rightarrow> proto \<Rightarrow> 'w beanstalkd \<Rightarrow> 'w mongo \<Rightarrow> 'w rtc_client \<Rightarrow> 'w handler" where
  "stopRecording fp p q m rtc job w =
     (let retry = jobRetry fp q stopRecording_bo stopRecording_maxAge job; delete = jobDelete q job in
      case pb_Unmarshal p KStopRecording (jb_Body job) of
        Inr (JStopRecording talk_bin room_bin) \<Rightarrow>
          (let talkID = uuid_of_bin talk_bin in
           case rt_StopRecording rtc room_bin (uuid_String talkID) w of
             (w1, e) \<Rightarrow>
               if set_and e (\<lambda>x. \<not> errors_Is x P_twirp ErrNotFound) then retry w1
               else move_talk m talkID StateRecording StateEnded delete retry w1)
      | _ \<Rightarrow> delete w)"

definition recordingUpdate_maxAge :: duration where "recordingUpdate_maxAge = 2 * Hour"

definition recordingUpdate_bo :: backoff where
  "recordingUpdate_bo = \<lparr>bo_Factor = 12 / 10, bo_Jitter = False, bo_Min = Second, bo_Max = 10 * Minute\<rparr>"

definition ready_message :: "pages \<Rightarrow> confa \<Rightarrow> talk \<Rightarrow> sender_message" where
  "ready_message pg cnf tlk = TalkRecordingReady (pg_Confa pg (co_Handle cnf)) (co_Title cnf)
     (pg_Talk pg (co_Handle cnf) (ta_Handle tlk)) (ta_Title tlk)"

definition recordingUpdate ::
  "float_part \<Rightarrow> proto \<Rightarrow> 'w beanstalkd \<Rightarrow> (confa_lookup \<Rightarrow> 'w \<Rightarrow> 'w \<times> confa res) \<Rightarrow>
   (talk_lookup \<Rightarrow> 'w \<Rightarrow> 'w \<times> talk res) \<Rightarrow> (uuid \<Rightarrow> sender_message \<Rightarrow> 'w \<Rightarrow> 'w \<times> err) \<Rightarrow> pages \<Rightarrow> 'w handler" where
  "recordingUpdate fp p q fetchConfa fetchTalk send pg job w =
     (let retry = jobRetry fp q recordingUpdate_bo recordingUpdate_maxAge job; delete = jobDelete q job in
      case pb_Unmarshal p KRecordingUpdate (jb_Body job) of
        Inr (JRecordingUpdate room_bin recording_bin updatedAt upd) \<Rightarrow>
          (case upd of
             Some (Some RU_ProcessingFinished) \<Rightarrow>
               (case fetchTalk (talk_lookup_zero\<lparr>tl_Room := uuid_of_bin room_bin\<rparr>) w of
                  (w1, Inl e) \<Rightarrow> if errors_Is e P_talk ErrNotFound then delete w1 else retry w1
                | (w1, Inr tlk) \<Rightarrow> (case fetchConfa (confa_lookup_zero\<lparr>cl_ID := ta_Confa tlk\<rparr>) w1 of
                      (w2, Inl e) \<Rightarrow> if errors_Is e P_confa ErrNotFound then delete w2 else retry w2
                    | (w2, Inr cnf) \<Rightarrow> (case send (ta_Owner tlk) (ready_message pg cnf tlk) w2 of
                          (w3, Some e) \<Rightarrow> retry w3
                        | (w3, None) \<Rightarrow> delete w3)))
           | _ \<Rightarrow> delete w)
      | _ \<Rightarrow> delete w)"

record confa_queue_tubes =
  cq_UpdateAvatar :: string
  cq_StartRecording :: string
  cq_StopRecording :: string
  cq_RecordingUpdate :: string
  cq_Send :: string

text \<open>The route of \<^verbatim>\<open>NewHandler\<close> over the four handlers.\<close>

definition confa_route ::
  "confa_queue_tubes \<Rightarrow> 'w handler \<Rightarrow> 'w handler \<Rightarrow> 'w handler \<Rightarrow> 'w handler \<Rightarrow> job \<Rightarrow> 'w handler option" where
  "confa_route tubes avatar start stop ready job =
     (if jb_Tube job = cq_UpdateAvatar tubes then Some avatar
      else if jb_Tube job = cq_StartRecording tubes then Some start
      else if jb_Tube job = cq_StopRecording tubes then Some stop
      else if jb_Tube job = cq_RecordingUpdate tubes then Some ready
      else None)"

section \<open>The contract\<close>

lemmas confa_bounds = updateAvatar_bo_def startRecording_bo_def stopRecording_bo_def recordingUpdate_bo_def
  updateAvatar_maxAge_def startRecording_maxAge_def stopRecording_maxAge_def recordingUpdate_maxAge_def

lemma confa_retry_ok:
  "finish_ok updateAvatar_bo a job (snd (jobRetry fp q updateAvatar_bo a job w))"
  "finish_ok startRecording_bo a job (snd (jobRetry fp q startRecording_bo a job w))"
  "finish_ok stopRecording_bo a job (snd (jobRetry fp q stopRecording_bo a job w))"
  "finish_ok recordingUpdate_bo a job (snd (jobRetry fp q recordingUpdate_bo a job w))"
  by (rule finish_jobRetry; simp add: confa_bounds duration_defs)+

lemma move_talk_ends:
  "(\<And>w. P (snd (delete w))) \<Longrightarrow> (\<And>w. P (snd (retry w))) \<Longrightarrow> P (snd (move_talk m t old new delete retry w))"
  by (auto simp: move_talk_def split: prod.split sum.split)

interpretation avatar_job: job_handler "updateAvatar fp p q update fetchProfile" "\<lambda>_. True"
    updateAvatar_bo updateAvatar_maxAge for fp p q update fetchProfile
  by unfold_locales (auto simp: updateAvatar_def Let_def confa_retry_ok
      split: sum.split job_msg.split prod.split option.split)

interpretation start_job: job_handler "startRecording fp p q m rtc emitStop" "\<lambda>_. True"
    startRecording_bo startRecording_maxAge for fp p q m rtc emitStop
  by unfold_locales (auto simp: startRecording_def Let_def confa_retry_ok
      intro!: move_talk_ends [where P = "finish_ok _ _ _"]
      split: sum.split job_msg.split prod.split option.split)

interpretation stop_job: job_handler "stopRecording fp p q m rtc" "\<lambda>_. True"
    stopRecording_bo stopRecording_maxAge for fp p q m rtc
  by unfold_locales (auto simp: stopRecording_def Let_def confa_retry_ok
      intro!: move_talk_ends [where P = "finish_ok _ _ _"]
      split: sum.split job_msg.split prod.split option.split)

interpretation ready_job: job_handler "recordingUpdate fp p q fetchConfa fetchTalk send pg" "\<lambda>_. True"
    recordingUpdate_bo recordingUpdate_maxAge for fp p q fetchConfa fetchTalk send pg
  by unfold_locales (auto simp: recordingUpdate_def Let_def confa_retry_ok
      split: sum.split job_msg.split prod.split option.split recording_update.split)

text \<open>
  C39: The confa queue finishes every job whose envelope it can read: it deletes it, or releases
  it with a delay between a second and an hour while the job is younger than the limit of its
  tube (a day for avatars, two minutes for starts, two hours for the rest), or buries it, which
  it does only to a job over its limit or of an unknown tube.
\<close>

theorem confa_job_ends:
  assumes "pb_UnmarshalJob p (jb_Body job) = Inr (payload, trace)"
  shows "\<exists>w' f. ServeJob p q (confa_route tubes (updateAvatar fp p q update fetchProfile)
      (startRecording fp p q m rtc emitStop) (stopRecording fp p q m rtc)
      (recordingUpdate fp p q fetchConfa fetchTalk send pg)) job w = (w', Some f) \<and>
    (let t = jb_Tube job;
         limit = (if t = cq_UpdateAvatar tubes then 24 * Hour
                  else if t = cq_StartRecording tubes then 2 * Minute else 2 * Hour)
     in case f of Deleted \<Rightarrow> True
      | Buried \<Rightarrow> limit < jb_Age job \<or> t \<notin> {cq_UpdateAvatar tubes, cq_StartRecording tubes,
          cq_StopRecording tubes, cq_RecordingUpdate tubes}
      | Released d \<Rightarrow> jb_Age job \<le> limit \<and> Second \<le> d \<and> d \<le> Hour)"
proof -
  let ?r = "confa_route tubes (updateAvatar fp p q update fetchProfile) (startRecording fp p q m rtc emitStop)
    (stopRecording fp p q m rtc) (recordingUpdate fp p q fetchConfa fetchTalk send pg)"
  let ?t = "jb_Tube job"
  have rng: "Second \<le> bo_Min b \<and> bo_Max b \<le> Hour"
    if "b \<in> {updateAvatar_bo, startRecording_bo, stopRecording_bo, recordingUpdate_bo}" for b
    using that by (auto simp: confa_bounds duration_defs)
  have served: ?thesis if r: "?r (job\<lparr>jb_Body := payload\<rparr>) = Some h" and jh: "job_handler h (\<lambda>_. True) b a"
    and b: "b \<in> {updateAvatar_bo, startRecording_bo, stopRecording_bo, recordingUpdate_bo}"
    and a: "a = (if ?t = cq_UpdateAvatar tubes then 24 * Hour
      else if ?t = cq_StartRecording tubes then 2 * Minute else 2 * Hour)" for h b a
  proof -
    obtain w' f where f: "ServeJob p q ?r job w = (w', Some f)" "finish_ok b a job (Some f)"
      by (rule ServeJob_finish [where h = h and w = w and bo = b and maxAge = a and route = ?r, OF assms r])
        (use jh in \<open>simp_all add: job_handler_def\<close>)
    with rng [OF b] a show ?thesis
      by (cases f) (auto simp: finish_ok_def Let_def)
  qed
  consider (avatar) "?t = cq_UpdateAvatar tubes"
    | (start) "?t \<noteq> cq_UpdateAvatar tubes" "?t = cq_StartRecording tubes"
    | (stop) "?t \<noteq> cq_UpdateAvatar tubes" "?t \<noteq> cq_StartRecording tubes" "?t = cq_StopRecording tubes"
    | (ready) "?t \<noteq> cq_UpdateAvatar tubes" "?t \<noteq> cq_StartRecording tubes" "?t \<noteq> cq_StopRecording tubes"
      "?t = cq_RecordingUpdate tubes"
    | (unknown) "?t \<notin> {cq_UpdateAvatar tubes, cq_StartRecording tubes, cq_StopRecording tubes, cq_RecordingUpdate tubes}"
    by blast
  then show ?thesis
  proof cases
    case avatar
    then show ?thesis
      by (intro served [OF _ avatar_job.job_handler_axioms])
        (simp_all add: confa_route_def updateAvatar_maxAge_def)
  next
    case start
    then show ?thesis
      by (intro served [OF _ start_job.job_handler_axioms])
        (simp_all add: confa_route_def startRecording_maxAge_def)
  next
    case stop
    then show ?thesis
      by (intro served [OF _ stop_job.job_handler_axioms])
        (simp_all add: confa_route_def stopRecording_maxAge_def)
  next
    case ready
    then show ?thesis
      by (intro served [OF _ ready_job.job_handler_axioms])
        (simp_all add: confa_route_def recordingUpdate_maxAge_def)
  next
    case unknown
    with assms show ?thesis
      by (simp add: ServeJob_def confa_route_def Let_def)
  qed
qed

section \<open>The state of a talk\<close>

definition later_states :: "(string \<times> string) set" where
  "later_states = {(StateLive, StateRecording), (StateRecording, StateEnded), (StateLive, StateEnded)}"

text \<open>Everything but the state is kept, and the state is kept or moves forward.\<close>

definition forward :: "bdoc \<Rightarrow> bdoc \<Rightarrow> bool" where
  "forward d d' \<longleftrightarrow> (\<forall>k. k \<noteq> ''state'' \<longrightarrow> bget d' k = bget d k) \<and>
     (bget d' ''state'' = bget d ''state'' \<or>
      (\<exists>(a, b) \<in> later_states. bget d ''state'' = Some (BStr a) \<and> bget d' ''state'' = Some (BStr b)))"

lemma forward_refl [simp]: "forward d d"
  by (simp add: forward_def)

lemma forward_trans: "forward a b \<Longrightarrow> forward b c \<Longrightarrow> forward a c"
  by (auto simp: forward_def later_states_def state_defs)

lemma forward_all_trans:
  "list_all2 forward xs ys \<Longrightarrow> list_all2 forward ys zs \<Longrightarrow> list_all2 forward xs zs"
  by (rule list_all2_trans [where ?P1.0 = forward and ?P2.0 = forward and bs = ys]) (auto intro: forward_trans)

lemma forward_all_refl [simp]: "list_all2 forward xs xs"
  by (simp add: list_all2_refl)

lemma talk_state_filter:
  "matches (talk_mongoFilter (talk_lookup_zero\<lparr>tl_ID := i, tl_StateIn := [s]\<rparr>)) d \<longleftrightarrow>
     (i = uuid_Nil \<or> bget d ''_id'' = Some (BUuid i)) \<and> bget d ''state'' = Some (BStr s)"
  by (auto simp: talk_mongoFilter_def talk_lookup_zero_def from_zero_def IsZero_def split: option.split)

lemma only_state_get:
  "bget (apply_update (talk_set (only_state s)) d) k = (if k = ''state'' then Some (BStr s) else bget d k)"
  by (simp add: talk_set_def only_state_def opt_field_def bget_set_fields)

text \<open>The three outcomes of the update of the state.\<close>

lemma move_talk_cases:
  assumes "mongo_laws m docs"
    and "queue_keeps q docs"
    and "move_talk m i old new (jobDelete q job) (jobRetry fp q bo a job) w = (w', f)"
  obtains (moved) as d d' bs where "docs w talk_collection = as @ d # bs" "docs w' talk_collection = as @ d' # bs"
      "i = uuid_Nil \<or> bget d ''_id'' = Some (BUuid i)" "bget d ''state'' = Some (BStr old)"
      "\<And>k. bget d' k = (if k = ''state'' then Some (BStr new) else bget d k)"
  | (none) "docs w' talk_collection = docs w talk_collection" "f = Some Deleted"
      "\<And>d. d \<in> set (docs w talk_collection) \<Longrightarrow> bget d ''state'' = Some (BStr old) \<Longrightarrow>
         i \<noteq> uuid_Nil \<and> bget d ''_id'' \<noteq> Some (BUuid i)"
  | (failed) "docs w' talk_collection = docs w talk_collection" "f \<noteq> Some Deleted"
proof -
  let ?f = "talk_mongoFilter (talk_lookup_zero\<lparr>tl_ID := i, tl_StateIn := [old]\<rparr>)"
  obtain w1 r where u: "mg_findOneAndUpdate m talk_collection ?f (talk_set (only_state new)) False w = (w1, r)"
    by fastforce
  note law = update_one_lawD [OF assms(1) talk_plain_update u]
  show thesis
  proof (cases r)
    case (Inr d')
    with law(3) obtain as d bs where d: "docs w talk_collection = as @ d # bs" "matches ?f d"
      "\<forall>k. bget d' k = bget (apply_update (talk_set (only_state new)) d) k" "docs w1 talk_collection = as @ d' # bs"
      by blast
    have "docs w' = docs w1"
      using assms(3) u Inr finish_keeps [OF assms(2)]
      by (auto simp: move_talk_def talk_UpdateOne_def update_decoded_def split: sum.splits if_splits)
        (metis fst_conv)+
    with d show thesis
      by (intro moved [of as d bs d']) (simp_all add: talk_state_filter only_state_get)
  next
    case (Inl e)
    then have d1: "docs w1 talk_collection = docs w talk_collection"
      by (rule law(2))
    show thesis
    proof (cases "IsNoDocuments e")
      case True
      have "(w', f) = jobDelete q job w1"
        using assms(3) u Inl True by (simp add: move_talk_def talk_UpdateOne_def update_decoded_def)
      then have "f = Some Deleted" "docs w' = docs w1"
        using finish_kind(1) [of q job w1] finish_keeps(2) [OF assms(2), of job w1] by (metis fst_conv snd_conv)+
      moreover have "\<not> matches ?f d" if "d \<in> set (docs w talk_collection)" for d
        using law(4) [OF Inl True that] .
      ultimately show thesis
        using d1 by (intro none) (auto simp: talk_state_filter)
    next
      case False
      with law(5) [OF Inl] have "(w', f) = jobRetry fp q bo a job w1"
        using assms(3) u Inl by (auto simp: move_talk_def talk_UpdateOne_def update_decoded_def split: if_splits)
      then have "f \<noteq> Some Deleted" "docs w' = docs w1"
        using finish_kind(2) [of fp q bo a job w1] finish_keeps(1) [OF assms(2), of fp bo a job w1]
        by (metis fst_conv snd_conv)+
      with d1 show thesis
        by (intro failed) simp_all
    qed
  qed
qed

text \<open>The rtc service and the emitter do not touch the database of this service.\<close>

definition rtc_keeps :: "'w rtc_client \<Rightarrow> ('w \<Rightarrow> 'v) \<Rightarrow> bool" where
  "rtc_keeps rtc view \<longleftrightarrow> (\<forall>r k n w. view (fst (rt_StartRecording rtc r k n w)) = view w) \<and>
     (\<forall>r k w. view (fst (rt_StopRecording rtc r k w)) = view w)"

abbreviation stop_emitter ::
  "proto \<Rightarrow> 'w beanstalkd \<Rightarrow> string \<Rightarrow> talk_tubes \<Rightarrow> uuid \<Rightarrow> uuid \<Rightarrow> duration \<Rightarrow> 'w \<Rightarrow> 'w \<times> err" where
  "stop_emitter \<equiv> Beanstalk_StopRecording"

lemma stop_emitter_keeps: "queue_keeps q view \<Longrightarrow> view (fst (stop_emitter p q trace tubes t r a w)) = view w"
  by (simp add: Beanstalk_StopRecording_def put_msg_keeps)

lemma move_talk_forward:
  assumes "mongo_laws m docs" and "queue_keeps q docs" and "(old, new) \<in> later_states"
  shows "list_all2 forward (docs w talk_collection)
    (docs (fst (move_talk m i old new (jobDelete q job) (jobRetry fp q bo a job) w)) talk_collection)"
proof -
  obtain w' f where r: "move_talk m i old new (jobDelete q job) (jobRetry fp q bo a job) w = (w', f)"
    by fastforce
  from assms(1,2) r show ?thesis
  proof (cases rule: move_talk_cases)
    case (moved as d d' bs)
    then have "forward d d'"
      using assms(3) by (auto simp: forward_def)
    with moved r show ?thesis
      by (simp add: list_all2_append)
  qed (simp_all add: r)
qed

lemma startRecording_forward:
  assumes "mongo_laws m docs" and "queue_keeps q docs" and "rtc_keeps rtc docs"
  shows "list_all2 forward (docs w talk_collection)
    (docs (fst (startRecording fp p q m rtc (stop_emitter p q trace tubes) job w)) talk_collection)"
proof (cases "\<exists>t r. pb_Unmarshal p KStartRecording (jb_Body job) = Inr (JStartRecording t r)")
  case True
  then obtain t r where msg: "pb_Unmarshal p KStartRecording (jb_Body job) = Inr (JStartRecording t r)"
    by blast
  obtain w1 s where s: "rt_StartRecording rtc r (uuid_String (uuid_of_bin t)) maxDuration_ms w = (w1, s)"
    by fastforce
  then have w1: "docs w1 = docs w"
    using assms(3) unfolding rtc_keeps_def by (metis fst_conv)
  show ?thesis
  proof (cases s)
    case (Inl e)
    with msg s w1 show ?thesis
      by (simp add: startRecording_def finish_keeps [OF assms(2)])
  next
    case (Inr exists)
    obtain w2 e where e: "(if exists then (w1, None)
        else stop_emitter p q trace tubes (uuid_of_bin t) (uuid_of_bin r) autostopAfter w1) = (w2, e)"
      by fastforce
    then have "docs w2 = docs w"
      using w1 stop_emitter_keeps [OF assms(2)] by (auto split: if_splits) (metis fst_conv)
    with msg s Inr e show ?thesis
      using move_talk_forward [OF assms(1,2), of StateLive StateRecording w2]
      by (cases e) (simp_all add: startRecording_def finish_keeps [OF assms(2)] later_states_def)
  qed
next
  case False
  then have "fst (startRecording fp p q m rtc (stop_emitter p q trace tubes) job w) = fst (jobDelete q job w)"
    by (cases "pb_Unmarshal p KStartRecording (jb_Body job)")
      (auto simp: startRecording_def Let_def split: job_msg.split)
  then show ?thesis
    by (simp add: finish_keeps [OF assms(2)])
qed

lemma stopRecording_run:
  assumes "pb_Unmarshal p KStopRecording (jb_Body job) = Inr (JStopRecording t r)"
    and "rt_StopRecording rtc r (uuid_String (uuid_of_bin t)) w = (w1, e)"
  shows "stopRecording fp p q m rtc job w =
    (if set_and e (\<lambda>x. \<not> errors_Is x P_twirp ErrNotFound) then jobRetry fp q stopRecording_bo stopRecording_maxAge job w1
     else move_talk m (uuid_of_bin t) StateRecording StateEnded (jobDelete q job)
       (jobRetry fp q stopRecording_bo stopRecording_maxAge job) w1)"
  using assms by (simp add: stopRecording_def)

lemma stopRecording_forward:
  assumes "mongo_laws m docs" and "queue_keeps q docs" and "rtc_keeps rtc docs"
  shows "list_all2 forward (docs w talk_collection)
    (docs (fst (stopRecording fp p q m rtc job w)) talk_collection)"
proof (cases "\<exists>t r. pb_Unmarshal p KStopRecording (jb_Body job) = Inr (JStopRecording t r)")
  case True
  then obtain t r where msg: "pb_Unmarshal p KStopRecording (jb_Body job) = Inr (JStopRecording t r)"
    by blast
  obtain w1 e where s: "rt_StopRecording rtc r (uuid_String (uuid_of_bin t)) w = (w1, e)"
    by fastforce
  then have "docs w1 = docs w"
    using assms(3) unfolding rtc_keeps_def by (metis fst_conv)
  then show ?thesis
    using move_talk_forward [OF assms(1,2), of StateRecording StateEnded w1]
    by (simp add: stopRecording_run [OF msg s] finish_keeps [OF assms(2)] later_states_def)
next
  case False
  then have "fst (stopRecording fp p q m rtc job w) = fst (jobDelete q job w)"
    by (cases "pb_Unmarshal p KStopRecording (jb_Body job)")
      (auto simp: stopRecording_def Let_def split: job_msg.split)
  then show ?thesis
    by (simp add: finish_keeps [OF assms(2)])
qed

text \<open>Any recording job, of any payload, in any order and as often as it is redelivered.\<close>

inductive recording_step ::
  "float_part \<Rightarrow> proto \<Rightarrow> 'w beanstalkd \<Rightarrow> 'w mongo \<Rightarrow> 'w rtc_client \<Rightarrow> string \<Rightarrow> talk_tubes \<Rightarrow> 'w \<Rightarrow> 'w \<Rightarrow> bool"
  for fp p q m rtc trace tubes where
  start: "recording_step fp p q m rtc trace tubes w
    (fst (startRecording fp p q m rtc (stop_emitter p q trace tubes) job w))"
| stop: "recording_step fp p q m rtc trace tubes w (fst (stopRecording fp p q m rtc job w))"

text \<open>
  C5: Whatever recording jobs run, in whatever order and however often they are redelivered, no
  talk appears or disappears, nothing but its state changes, and its state only moves forward
  from LIVE to RECORDING to ENDED: an ended talk stays ended, and a created one is not touched.
\<close>

theorem talk_states_forward:
  assumes "mongo_laws m docs" and "queue_keeps q docs" and "rtc_keeps rtc docs"
    and "reach (recording_step fp p q m rtc trace tubes) w w'"
  shows "list_all2 forward (docs w talk_collection) (docs w' talk_collection)"
  using assms(4)
proof (induction rule: reach.induct)
  case here
  then show ?case by simp
next
  case (more w1 w2)
  from more.hyps(2) have "list_all2 forward (docs w1 talk_collection) (docs w2 talk_collection)"
    by cases (simp_all add: startRecording_forward [OF assms(1-3)] stopRecording_forward [OF assms(1-3)])
  with more.IH show ?case
    by (rule forward_all_trans)
qed

section \<open>What the recording jobs guarantee, and where they fail\<close>

text \<open>A stop job is deleted only after the rtc service answered and the talk was moved.\<close>

lemma stop_deleted:
  assumes "rtc_keeps rtc docs"
    and "pb_Unmarshal p KStopRecording (jb_Body job) = Inr (JStopRecording t r)"
    and "stopRecording fp p q m rtc job w = (w', Some Deleted)"
  obtains w1 e where "rt_StopRecording rtc r (uuid_String (uuid_of_bin t)) w = (w1, e)" "docs w1 = docs w"
    "\<not> set_and e (\<lambda>x. \<not> errors_Is x P_twirp ErrNotFound)"
    "move_talk m (uuid_of_bin t) StateRecording StateEnded (jobDelete q job)
      (jobRetry fp q stopRecording_bo stopRecording_maxAge job) w1 = (w', Some Deleted)"
proof -
  obtain w1 e where s: "rt_StopRecording rtc r (uuid_String (uuid_of_bin t)) w = (w1, e)"
    by fastforce
  then have w1: "docs w1 = docs w"
    using assms(1) unfolding rtc_keeps_def by (metis fst_conv)
  note run = stopRecording_run [OF assms(2) s]
  have "\<not> set_and e (\<lambda>x. \<not> errors_Is x P_twirp ErrNotFound)"
    using assms(3) finish_kind(2) unfolding run by (metis snd_conv)
  with s w1 assms(3) that show thesis
    unfolding run by simp
qed

text \<open>
  When a stop job for a talk was deleted, the rtc service has stopped the recording, or
  knows none, and the talk is not in the state RECORDING; until then the job comes back.
\<close>

theorem stop_job_done:
  assumes "mongo_laws m docs" and "queue_keeps q docs" and "rtc_keeps rtc docs"
    and "pb_Unmarshal p KStopRecording (jb_Body job) = Inr (JStopRecording t r)"
    and "uuid_of_bin t = i" and "i \<noteq> uuid_Nil" and "distinct (map (\<lambda>d. bget d ''_id'') (docs w talk_collection))"
    and "stopRecording fp p q m rtc job w = (w', Some Deleted)"
  shows "(case snd (rt_StopRecording rtc r (uuid_String i) w) of
       None \<Rightarrow> True | Some e \<Rightarrow> errors_Is e P_twirp ErrNotFound) \<and>
    \<not> list_ex (\<lambda>d. bget d ''_id'' = Some (BUuid i) \<and> bget d ''state'' = Some (BStr StateRecording))
        (docs w' talk_collection)"
proof -
  obtain w1 e where s: "rt_StopRecording rtc r (uuid_String i) w = (w1, e)" and w1: "docs w1 = docs w"
    and nf: "\<not> set_and e (\<lambda>x. \<not> errors_Is x P_twirp ErrNotFound)"
    and mv: "move_talk m i StateRecording StateEnded (jobDelete q job)
      (jobRetry fp q stopRecording_bo stopRecording_maxAge job) w1 = (w', Some Deleted)"
    using stop_deleted [OF assms(3,4,8)] unfolding assms(5) by blast
  have "\<not> list_ex (\<lambda>d. bget d ''_id'' = Some (BUuid i) \<and> bget d ''state'' = Some (BStr StateRecording))
        (docs w' talk_collection)"
    using assms(1,2) mv
  proof (cases rule: move_talk_cases)
    case (moved as d d' bs)
    have "bget x ''_id'' \<noteq> Some (BUuid i)" if "x \<in> set as \<union> set bs" for x
      using assms(6,7) moved(1,3) that w1 by (fastforce simp: image_iff)
    with moved(2,5) show ?thesis
      by (auto simp: list_ex_iff state_defs)
  next
    case none
    with w1 show ?thesis
      by (auto simp: list_ex_iff)
  qed simp
  with s nf show ?thesis
    by (auto simp: set_and_def split: option.splits)
qed

text \<open>
  A stop job whose talk id is not 16 bytes long ends somebody's talk: the id is read as the
  nil id, which the filter leaves out, so the update picks any talk that is being recorded.
\<close>

theorem malformed_stop_ends_any_talk:
  assumes "mongo_laws m docs" and "queue_keeps q docs" and "rtc_keeps rtc docs"
    and "pb_Unmarshal p KStopRecording (jb_Body job) = Inr (JStopRecording t r)" and "length t \<noteq> 16"
    and "d0 \<in> set (docs w talk_collection)" and "bget d0 ''state'' = Some (BStr StateRecording)"
    and "stopRecording fp p q m rtc job w = (w', Some Deleted)"
  shows "\<exists>as d d' bs. docs w talk_collection = as @ d # bs \<and> docs w' talk_collection = as @ d' # bs \<and>
    bget d' ''_id'' = bget d ''_id'' \<and> bget d ''state'' = Some (BStr StateRecording) \<and>
    bget d' ''state'' = Some (BStr StateEnded)"
proof -
  have i: "uuid_of_bin t = uuid_Nil"
    using assms(5) by (simp add: uuid_of_bin_def uuid_UnmarshalBinary_def)
  obtain w1 where w1: "docs w1 = docs w"
    and mv: "move_talk m uuid_Nil StateRecording StateEnded (jobDelete q job)
      (jobRetry fp q stopRecording_bo stopRecording_maxAge job) w1 = (w', Some Deleted)"
    using stop_deleted [OF assms(3,4,8)] unfolding i by blast
  from assms(1,2) mv show ?thesis
  proof (cases rule: move_talk_cases)
    case (moved as d d' bs)
    with w1 show ?thesis
      by (intro exI [of _ as] exI [of _ d] exI [of _ d'] exI [of _ bs]) simp
  next
    case none
    with assms(6,7) w1 have False
      by simp
    then show ?thesis ..
  qed simp
qed

text \<open>
  A started recording can lose its automatic stop: when the stop job cannot be put, the
  start job is retried, but the next delivery finds the recording already there and puts no
  stop job, whatever the queue would answer now; it moves the talk to RECORDING all the same.
\<close>

theorem autostop_lost:
  assumes "pb_Unmarshal p KStartRecording (jb_Body job) = Inr (JStartRecording t r)"
    and "jb_Age job \<le> 2 * Minute"
    and "rt_StartRecording rtc r (uuid_String (uuid_of_bin t)) maxDuration_ms w = (w1, Inr False)"
    and "emitStop (uuid_of_bin t) (uuid_of_bin r) (60 * Minute) w1 = (w2, Some e)"
    and "rt_StartRecording rtc r (uuid_String (uuid_of_bin t)) maxDuration_ms w3 = (w4, Inr True)"
    and "talk_UpdateOne m (talk_lookup_zero\<lparr>tl_ID := uuid_of_bin t, tl_StateIn := [StateLive]\<rparr>)
      (only_state StateRecording) w4 = (w5, Inr tlk)"
  shows "(\<exists>delay. snd (startRecording fp p q m rtc emitStop job w) = Some (Released delay)) \<and>
    startRecording fp p q m rtc emitAny job w3 = (fst (bq_Delete q job w5), Some Deleted)"
  using assms by (simp add: startRecording_def Let_def autostopAfter_def startRecording_maxAge_def jobRetry_def
      move_talk_def jobDelete_def)

section \<open>Runs\<close>

definition live_talk :: talk where
  "live_talk = talk_zero\<lparr>ta_ID := 5, ta_Confa := 2, ta_Owner := 1, ta_Room := 8, ta_State := StateLive\<rparr>"

definition recorded_talk :: talk where
  "recorded_talk = talk_zero\<lparr>ta_ID := 6, ta_Confa := 2, ta_Owner := 1, ta_Room := 9, ta_State := StateRecording\<rparr>"

definition two_talks :: mem where
  "two_talks = (\<lambda>_. [])(talk_collection := [talk_enc live_talk, talk_enc recorded_talk])"

text \<open>An rtc service that knows no recording.\<close>

definition idle_rtc :: "bool \<Rightarrow> 'w rtc_client" where
  "idle_rtc exists = \<lparr>rt_StartRecording = (\<lambda>_ _ _ w. (w, Inr exists)),
     rt_StopRecording = (\<lambda>_ _ w. (w, Some (Wrap ''rtc'' (Sentinel P_twirp ErrNotFound))))\<rparr>"

lemma runs_keep: "queue_keeps quiet_queue view" "rtc_keeps (idle_rtc b) view"
  by (simp_all add: queue_keeps_def quiet_queue_def rtc_keeps_def idle_rtc_def)

definition recording_proto :: "uuid \<Rightarrow> proto" where
  "recording_proto i = toy_proto (\<lambda>k _. if k = KStartRecording
     then Inr (JStartRecording (uuid_MarshalBinary i) (uuid_MarshalBinary 8))
     else if k = KStopRecording then Inr (JStopRecording (uuid_MarshalBinary i) (uuid_MarshalBinary 9))
     else Inl (Foreign 4))"

definition short_id_proto :: proto where
  "short_id_proto = toy_proto (\<lambda>_ _. Inr (JStopRecording [1] [2]))"

lemma talk_run_get [simp]:
  "bget (talk_enc t) ''_id'' = Some (BUuid (ta_ID t))" "bget (talk_enc t) ''state'' = Some (BStr (ta_State t))"
  by (simp_all add: talk_enc_def bget_def)

lemma ended_dec:
  "talk_dec (apply_update (talk_set (only_state s)) (talk_enc t)) = Inr (t\<lparr>ta_State := s\<rparr>)"
  by (simp add: talk_set_def only_state_def opt_field_def talk_dec_def talk_enc_def dec_defs set_fields_def)

lemma move_on_mem:
  assumes "i = 6 \<or> i = uuid_Nil"
  shows "move_talk mem_mongo i StateRecording StateEnded (jobDelete quiet_queue job) (jobRetry fp quiet_queue bo a job)
     two_talks = (two_talks(talk_collection := [talk_enc live_talk,
        apply_update (talk_set (only_state StateEnded)) (talk_enc recorded_talk)]), Some Deleted)"
proof -
  have "talk_UpdateOne mem_mongo (talk_lookup_zero\<lparr>tl_ID := i, tl_StateIn := [StateRecording]\<rparr>) (only_state StateEnded)
      two_talks = (two_talks(talk_collection := [talk_enc live_talk,
        apply_update (talk_set (only_state StateEnded)) (talk_enc recorded_talk)]),
        Inr (recorded_talk\<lparr>ta_State := StateEnded\<rparr>))"
    using assms by (auto simp: talk_UpdateOne_def update_decoded_def mem_mongo_def two_talks_def talk_state_filter
        live_talk_def recorded_talk_def talk_zero_def state_defs ended_dec uuid_Nil_def)
  then show ?thesis
    by (simp add: move_talk_def jobDelete_def quiet_queue_def)
qed

text \<open>\<open>t\<close> is the talk id the job carries.\<close>

lemma stop_on_mem:
  assumes "pb_Unmarshal p KStopRecording (jb_Body sample_job) = Inr (JStopRecording t r)"
    and "uuid_of_bin t = 6 \<or> uuid_of_bin t = uuid_Nil"
  shows "stopRecording fp p quiet_queue mem_mongo (idle_rtc b) sample_job two_talks =
     (two_talks(talk_collection := [talk_enc live_talk,
        apply_update (talk_set (only_state StateEnded)) (talk_enc recorded_talk)]), Some Deleted)"
proof -
  have "rt_StopRecording (idle_rtc b) r k two_talks =
      (two_talks, Some (Wrap ''rtc'' (Sentinel P_twirp ErrNotFound)))" for k
    by (simp add: idle_rtc_def)
  from stopRecording_run [OF assms(1) this] move_on_mem [OF assms(2)] show ?thesis
    by (simp add: set_and_def)
qed

theorem confa_job_ends_witness:
  "\<exists>w' f. ServeJob (recording_proto 6) quiet_queue (confa_route \<lparr>cq_UpdateAvatar = ''a'', cq_StartRecording = ''b'',
      cq_StopRecording = ''tube'', cq_RecordingUpdate = ''d'', cq_Send = ''e''\<rparr>
      (updateAvatar (\<lambda>_ _ _ _. (False, 1)) (recording_proto 6) quiet_queue (\<lambda>_ _ _ _ _ w. (w, None)) (\<lambda>_ w. (w, Inl EDecode)))
      (startRecording (\<lambda>_ _ _ _. (False, 1)) (recording_proto 6) quiet_queue mem_mongo (idle_rtc False) (\<lambda>_ _ _ w. (w, None)))
      (stopRecording (\<lambda>_ _ _ _. (False, 1)) (recording_proto 6) quiet_queue mem_mongo (idle_rtc False))
      (recordingUpdate (\<lambda>_ _ _ _. (False, 1)) (recording_proto 6) quiet_queue (\<lambda>_ w. (w, Inl EDecode)) (\<lambda>_ w. (w, Inl EDecode))
         (\<lambda>_ _ w. (w, None)) \<lparr>pg_Confa = id, pg_Talk = (@)\<rparr>)) sample_job two_talks = (w', Some f)"
proof -
  have u: "pb_UnmarshalJob (recording_proto 6) (jb_Body sample_job) = Inr ([1], '''')"
    by (simp add: recording_proto_def toy_proto_def sample_job_def)
  show ?thesis
    by (rule exE [OF confa_job_ends [OF u]], elim exE conjE, intro exI)
qed

theorem talk_states_forward_witness:
  "list_all2 forward (two_talks talk_collection)
     (fst (stopRecording (\<lambda>_ _ _ _. (False, 1)) (recording_proto 6) quiet_queue mem_mongo (idle_rtc False)
        sample_job two_talks) talk_collection)"
proof (rule talk_states_forward [where docs = "\<lambda>w. w", OF mem_mongo_laws runs_keep(1) runs_keep(2) [where b = False]])
  let ?step = "recording_step (\<lambda>_ _ _ _. (False, 1)) (recording_proto 6) quiet_queue mem_mongo (idle_rtc False) ''''
    \<lparr>tt_StartRecording = ''s'', tt_StopRecording = ''t''\<rparr>"
  have "?step two_talks (fst (stopRecording (\<lambda>_ _ _ _. (False, 1)) (recording_proto 6) quiet_queue mem_mongo
      (idle_rtc False) sample_job two_talks))"
    by (rule recording_step.stop)
  then show "reach ?step two_talks (fst (stopRecording (\<lambda>_ _ _ _. (False, 1)) (recording_proto 6) quiet_queue mem_mongo
      (idle_rtc False) sample_job two_talks))"
    by (rule reach_one [of ?step])
qed

theorem stop_job_done_witness:
  "\<not> list_ex (\<lambda>d. bget d ''_id'' = Some (BUuid 6) \<and> bget d ''state'' = Some (BStr StateRecording))
     (fst (stopRecording (\<lambda>_ _ _ _. (False, 1)) (recording_proto 6) quiet_queue mem_mongo (idle_rtc False)
        sample_job two_talks) talk_collection)"
proof -
  have msg: "pb_Unmarshal (recording_proto 6) KStopRecording (jb_Body sample_job) =
      Inr (JStopRecording (uuid_MarshalBinary 6) (uuid_MarshalBinary 9))"
    by (simp add: recording_proto_def toy_proto_def)
  have six: "uuid_of_bin (uuid_MarshalBinary 6) = 6 \<or> uuid_of_bin (uuid_MarshalBinary 6) = uuid_Nil" "6 \<noteq> uuid_Nil"
    by (simp_all add: uuid_Nil_def)
  have "distinct (map (\<lambda>d. bget d ''_id'') (two_talks talk_collection))"
    by (simp add: two_talks_def live_talk_def recorded_talk_def)
  from stop_job_done [where docs = "\<lambda>w. w", OF mem_mongo_laws runs_keep(1) runs_keep(2) [where b = False] msg uuid_of_bin_Marshal six(2)
      this stop_on_mem [OF msg six(1)]]
  show ?thesis
    unfolding stop_on_mem [OF msg six(1)] fst_conv by blast
qed

theorem malformed_stop_ends_any_talk_witness:
  "\<exists>d'. bget d' ''_id'' = Some (BUuid 6) \<and> bget d' ''state'' = Some (BStr StateEnded) \<and>
     fst (stopRecording (\<lambda>_ _ _ _. (False, 1)) short_id_proto quiet_queue mem_mongo (idle_rtc False)
       sample_job two_talks) talk_collection = [talk_enc live_talk, d']"
proof -
  have msg: "pb_Unmarshal short_id_proto KStopRecording (jb_Body sample_job) = Inr (JStopRecording [1] [2])"
    by (simp add: short_id_proto_def toy_proto_def)
  have nil: "uuid_of_bin [1] = 6 \<or> uuid_of_bin [1] = uuid_Nil"
    by (simp add: uuid_of_bin_def uuid_UnmarshalBinary_def)
  have d0: "talk_enc recorded_talk \<in> set (two_talks talk_collection)" "length [1 :: byte] \<noteq> 16"
    "bget (talk_enc recorded_talk) ''state'' = Some (BStr StateRecording)"
    by (simp_all add: two_talks_def recorded_talk_def)
  from malformed_stop_ends_any_talk [where docs = "\<lambda>w. w", OF mem_mongo_laws runs_keep(1) runs_keep(2) [where b = False] msg d0(2,1,3)
      stop_on_mem [OF msg nil]] stop_on_mem [OF msg nil]
  show ?thesis
    by (auto simp: two_talks_def live_talk_def recorded_talk_def state_defs append_eq_Cons_conv Cons_eq_append_conv)
qed

text \<open>The rtc service of a world with a counter: the first start creates the recording.\<close>

definition counting_rtc :: "(nat \<times> 'w) rtc_client" where
  "counting_rtc = \<lparr>rt_StartRecording = (\<lambda>_ _ _ (n, w). ((Suc n, w), Inr (n \<noteq> 0))), rt_StopRecording = (\<lambda>_ _ w. (w, None))\<rparr>"

text \<open>A store that finds the talk live, once.\<close>

definition one_live :: "(nat \<times> bool) mongo" where
  "one_live = \<lparr>mg_insertMany = (\<lambda>_ _ w. (w, None)), mg_find = (\<lambda>_ _ _ _ w. (w, Inr [])),
     mg_updateMany = (\<lambda>_ _ _ w. (w, Inr 0)), mg_deleteMany = (\<lambda>_ _ w. (w, Inr 0)),
     mg_findOneAndUpdate = (\<lambda>_ _ us _ (n, live). if live then ((n, False), Inr (apply_update us (talk_enc live_talk)))
       else ((n, live), Inl (Sentinel P_mongo ErrNoDocuments)))\<rparr>"

theorem autostop_lost_witness:
  "snd (startRecording (\<lambda>_ _ _ _. (False, 1)) (recording_proto 5) quiet_queue one_live counting_rtc
      (\<lambda>_ _ _ w. (w, Some (Foreign 7))) sample_job (0, True)) = Some (Released Second) \<and>
   startRecording (\<lambda>_ _ _ _. (False, 1)) (recording_proto 5) quiet_queue one_live counting_rtc
      (\<lambda>_ _ _ w. (w, None)) sample_job (1, True) = ((2, False), Some Deleted)"
proof -
  let ?p = "recording_proto 5"
  have msg: "pb_Unmarshal ?p KStartRecording (jb_Body sample_job) =
      Inr (JStartRecording (uuid_MarshalBinary 5) (uuid_MarshalBinary 8))"
    by (simp add: recording_proto_def toy_proto_def)
  have upd: "talk_UpdateOne one_live (talk_lookup_zero\<lparr>tl_ID := uuid_of_bin (uuid_MarshalBinary 5), tl_StateIn := [StateLive]\<rparr>)
      (only_state StateRecording) (2, True) = ((2, False), Inr (live_talk\<lparr>ta_State := StateRecording\<rparr>))"
    by (simp add: talk_UpdateOne_def update_decoded_def one_live_def ended_dec)
  from autostop_lost [OF msg, where rtc = counting_rtc and w = "(0, True)" and emitStop = "\<lambda>_ _ _ w. (w, Some (Foreign 7))" and
      e = "Foreign 7" and emitAny = "\<lambda>_ _ _ w. (w, None)" and q = quiet_queue and fp = "\<lambda>_ _ _ _. (False, 1)" and
      ?w3.0 = "(1, True)" and ?w1.0 = "(1, True)" and ?w2.0 = "(1, True)" and ?w4.0 = "(2, True)" and m = one_live, OF _ _ _ _ upd]
  have "startRecording (\<lambda>_ _ _ _. (False, 1)) ?p quiet_queue one_live counting_rtc
      (\<lambda>_ _ _ w. (w, None)) sample_job (1, True) = ((2, False), Some Deleted)"
    by (simp add: sample_job_def counting_rtc_def duration_defs quiet_queue_def)
  moreover have "snd (startRecording (\<lambda>_ _ _ _. (False, 1)) ?p quiet_queue one_live counting_rtc
      (\<lambda>_ _ _ w. (w, Some (Foreign 7))) sample_job (0, True)) = Some (Released Second)"
    using msg by (simp add: startRecording_def counting_rtc_def jobRetry_def sample_job_def startRecording_maxAge_def
        startRecording_bo_def ForAttempt_def duration_defs)
  ultimately show ?thesis
    by blast
qed

end
