(* ===== verification/Twirp_Services.thy ===== *)
theory Twirp_Services
  imports Twirp Rpc Sender Confa_Jobs
begin

text \<open>
  The clients and servers that twirp generates for the three services,
  \<^verbatim>\<open>internal/proto/{rtc,tracker,iam}/*.twirp.go\<close>: each method is the generic operation of
  \<open>Twirp\<close> at its names, its URL and the method of the service behind it.  Every method
  interprets the contract \<open>twirp_method\<close>, so a call of it gives what its handler gave, as an
  error of the wire where that was an error.

  The last sections put the handlers of \<open>Rpc\<close> and the jobs of \<open>Confa_Jobs\<close> on the two ends, and
  show that the two hops of a recording, from the job to the rooms and from there to the
  trackers, change nothing that the job looks at.
\<close>

section \<open>Messages\<close>

text \<open>
  The fields in the order of the \<^verbatim>\<open>.proto\<close> files.  A role is a pointer, to a oneof whose only
  member is the recording.
\<close>

datatype rpc_msg =
    Room_msg "byte list" "byte list"
  | RecordingParams_msg "byte list" string int
  | RecordingLookup_msg "byte list" "byte list" string
  | Recording_msg "byte list" "byte list" int bool
  | StartParams_msg "byte list" "byte list option option" int
  | StopParams_msg "byte list" "byte list option option"
  | Tracker_msg "byte list" "byte list option option" int int bool
  | UserLookup_msg "byte list"
  | User_msg iam_user

fun msg_type :: "rpc_msg \<Rightarrow> string" where
  "msg_type (Room_msg _ _) = ''Room''"
| "msg_type (RecordingParams_msg _ _ _) = ''RecordingParams''"
| "msg_type (RecordingLookup_msg _ _ _) = ''RecordingLookup''"
| "msg_type (Recording_msg _ _ _ _) = ''Recording''"
| "msg_type (StartParams_msg _ _ _) = ''StartParams''"
| "msg_type (StopParams_msg _ _) = ''StopParams''"
| "msg_type (Tracker_msg _ _ _ _ _) = ''Tracker''"
| "msg_type (UserLookup_msg _) = ''UserLookup''"
| "msg_type (User_msg _) = ''User''"

type_synonym 'w message_method = "(rpc_msg, 'w) rpc_method"

type_synonym 'w client_method =
  "rpc_msg rpc_lib \<Rightarrow> 'w network \<Rightarrow> 'w call_context \<Rightarrow> (rpc_msg, 'w) rpc_client \<Rightarrow> 'w message_method"

type_synonym ('w, 's) server_method =
  "rpc_msg rpc_lib \<Rightarrow> ('w \<Rightarrow> ctx_err option) \<Rightarrow> 'w response_writer \<Rightarrow> 's \<Rightarrow> (rpc_msg, 'w) rpc_server \<Rightarrow> 'w http_handler"

section \<open>The service of rooms\<close>

record 'w RTC =
  RTC_CreateRoom :: "'w message_method"
  RTC_StartRecording :: "'w message_method"
  RTC_StopRecording :: "'w message_method"

definition NewRTCProtobufClient ::
  "rpc_msg rpc_lib \<Rightarrow> string \<Rightarrow> 'w http_client \<Rightarrow> ((rpc_msg, 'w) client_options \<Rightarrow> (rpc_msg, 'w) client_options) list \<Rightarrow>
   (rpc_msg, 'w) rpc_client" where
  "NewRTCProtobufClient L baseURL client opts = new_client L ''RTC''
     [''CreateRoom'', ''StartRecording'', ''StopRecording''] baseURL client opts"

definition rTCProtobufClient_callCreateRoom :: "'w client_method" where
  "rTCProtobufClient_callCreateRoom L N ctx c req w = finish_call c (doProtobufRequest L N ctx c (tc_urls c ! 0) ''Room'' req w)"

definition rTCProtobufClient_CreateRoom :: "'w client_method" where
  "rTCProtobufClient_CreateRoom L N ctx c req w =
     intercepted L ''Room'' ''Room'' (tc_interceptor c) (rTCProtobufClient_callCreateRoom L N ctx c) req w"

definition rTCProtobufClient_callStartRecording :: "'w client_method" where
  "rTCProtobufClient_callStartRecording L N ctx c req w = finish_call c (doProtobufRequest L N ctx c (tc_urls c ! 1) ''Recording'' req w)"

definition rTCProtobufClient_StartRecording :: "'w client_method" where
  "rTCProtobufClient_StartRecording L N ctx c req w =
     intercepted L ''RecordingParams'' ''Recording'' (tc_interceptor c) (rTCProtobufClient_callStartRecording L N ctx c) req w"

definition rTCProtobufClient_callStopRecording :: "'w client_method" where
  "rTCProtobufClient_callStopRecording L N ctx c req w = finish_call c (doProtobufRequest L N ctx c (tc_urls c ! 2) ''Recording'' req w)"

definition rTCProtobufClient_StopRecording :: "'w client_method" where
  "rTCProtobufClient_StopRecording L N ctx c req w =
     intercepted L ''RecordingLookup'' ''Recording'' (tc_interceptor c) (rTCProtobufClient_callStopRecording L N ctx c) req w"

definition NewRTCJSONClient ::
  "rpc_msg rpc_lib \<Rightarrow> string \<Rightarrow> 'w http_client \<Rightarrow> ((rpc_msg, 'w) client_options \<Rightarrow> (rpc_msg, 'w) client_options) list \<Rightarrow>
   (rpc_msg, 'w) rpc_client" where
  "NewRTCJSONClient L baseURL client opts = new_client L ''RTC''
     [''CreateRoom'', ''StartRecording'', ''StopRecording''] baseURL client opts"

definition rTCJSONClient_callCreateRoom :: "'w client_method" where
  "rTCJSONClient_callCreateRoom L N ctx c req w = finish_call c (doJSONRequest L N ctx c (tc_urls c ! 0) ''Room'' req w)"

definition rTCJSONClient_CreateRoom :: "'w client_method" where
  "rTCJSONClient_CreateRoom L N ctx c req w =
     intercepted L ''Room'' ''Room'' (tc_interceptor c) (rTCJSONClient_callCreateRoom L N ctx c) req w"

definition rTCJSONClient_callStartRecording :: "'w client_method" where
  "rTCJSONClient_callStartRecording L N ctx c req w = finish_call c (doJSONRequest L N ctx c (tc_urls c ! 1) ''Recording'' req w)"

definition rTCJSONClient_StartRecording :: "'w client_method" where
  "rTCJSONClient_StartRecording L N ctx c req w =
     intercepted L ''RecordingParams'' ''Recording'' (tc_interceptor c) (rTCJSONClient_callStartRecording L N ctx c) req w"

definition rTCJSONClient_callStopRecording :: "'w client_method" where
  "rTCJSONClient_callStopRecording L N ctx c req w = finish_call c (doJSONRequest L N ctx c (tc_urls c ! 2) ''Recording'' req w)"

definition rTCJSONClient_StopRecording :: "'w client_method" where
  "rTCJSONClient_StopRecording L N ctx c req w =
     intercepted L ''RecordingLookup'' ''Recording'' (tc_interceptor c) (rTCJSONClient_callStopRecording L N ctx c) req w"

definition rTCServer_serveCreateRoomJSON :: "('w, 'w RTC) server_method" where
  "rTCServer_serveCreateRoomJSON L ctx wr svc s req w =
     serveJSON L ctx wr s ''CreateRoom'' ''Room'' ''Room'' (RTC_CreateRoom svc) req w"

definition rTCServer_serveCreateRoomProtobuf :: "('w, 'w RTC) server_method" where
  "rTCServer_serveCreateRoomProtobuf L ctx wr svc s req w =
     serveProtobuf L ctx wr s ''CreateRoom'' ''Room'' ''Room'' (RTC_CreateRoom svc) req w"

definition rTCServer_serveCreateRoom :: "('w, 'w RTC) server_method" where
  "rTCServer_serveCreateRoom L ctx wr svc s req w =
     serve_method L wr s (rTCServer_serveCreateRoomJSON L ctx wr svc s) (rTCServer_serveCreateRoomProtobuf L ctx wr svc s) req w"

definition rTCServer_serveStartRecordingJSON :: "('w, 'w RTC) server_method" where
  "rTCServer_serveStartRecordingJSON L ctx wr svc s req w =
     serveJSON L ctx wr s ''StartRecording'' ''RecordingParams'' ''Recording'' (RTC_StartRecording svc) req w"

definition rTCServer_serveStartRecordingProtobuf :: "('w, 'w RTC) server_method" where
  "rTCServer_serveStartRecordingProtobuf L ctx wr svc s req w =
     serveProtobuf L ctx wr s ''StartRecording'' ''RecordingParams'' ''Recording'' (RTC_StartRecording svc) req w"

definition rTCServer_serveStartRecording :: "('w, 'w RTC) server_method" where
  "rTCServer_serveStartRecording L ctx wr svc s req w =
     serve_method L wr s (rTCServer_serveStartRecordingJSON L ctx wr svc s) (rTCServer_serveStartRecordingProtobuf L ctx wr svc s) req w"

definition rTCServer_serveStopRecordingJSON :: "('w, 'w RTC) server_method" where
  "rTCServer_serveStopRecordingJSON L ctx wr svc s req w =
     serveJSON L ctx wr s ''StopRecording'' ''RecordingLookup'' ''Recording'' (RTC_StopRecording svc) req w"

definition rTCServer_serveStopRecordingProtobuf :: "('w, 'w RTC) server_method" where
  "rTCServer_serveStopRecordingProtobuf L ctx wr svc s req w =
     serveProtobuf L ctx wr s ''StopRecording'' ''RecordingLookup'' ''Recording'' (RTC_StopRecording svc) req w"

definition rTCServer_serveStopRecording :: "('w, 'w RTC) server_method" where
  "rTCServer_serveStopRecording L ctx wr svc s req w =
     serve_method L wr s (rTCServer_serveStopRecordingJSON L ctx wr svc s) (rTCServer_serveStopRecordingProtobuf L ctx wr svc s) req w"

definition rTCServer_ServeHTTP :: "('w, 'w RTC) server_method" where
  "rTCServer_ServeHTTP L ctx wr svc s = serve_HTTP L wr s ''RTC'' (\<lambda>m.
      if m = ''CreateRoom'' then Some (rTCServer_serveCreateRoom L ctx wr svc s)
      else if m = ''StartRecording'' then Some (rTCServer_serveStartRecording L ctx wr svc s)
      else if m = ''StopRecording'' then Some (rTCServer_serveStopRecording L ctx wr svc s)
      else None)"

definition NewRTCServer ::
  "'w RTC \<Rightarrow> (rpc_msg, 'w) server_opt list \<Rightarrow> ('w RTC \<times> (rpc_msg, 'w) rpc_server) option" where
  "NewRTCServer svc opts = map_option (Pair svc) (new_server opts)"

definition rTCServer_PathPrefix :: "(rpc_msg, 'w) rpc_server \<Rightarrow> string" where
  "rTCServer_PathPrefix s = baseServicePath (sv_pathPrefix s) [] ''RTC''"

lemmas rtc_client_defs = NewRTCProtobufClient_def
  rTCProtobufClient_CreateRoom_def rTCProtobufClient_callCreateRoom_def
  rTCProtobufClient_StartRecording_def rTCProtobufClient_callStartRecording_def
  rTCProtobufClient_StopRecording_def rTCProtobufClient_callStopRecording_def

lemma rtc_server_method [simp]:
  "rTCServer_serveCreateRoomJSON L ctx wr svc s = serveJSON L ctx wr s ''CreateRoom'' ''Room'' ''Room'' (RTC_CreateRoom svc)"
  "rTCServer_serveCreateRoomProtobuf L ctx wr svc s = serveProtobuf L ctx wr s ''CreateRoom'' ''Room'' ''Room'' (RTC_CreateRoom svc)"
  "rTCServer_serveStartRecordingJSON L ctx wr svc s = serveJSON L ctx wr s ''StartRecording'' ''RecordingParams'' ''Recording'' (RTC_StartRecording svc)"
  "rTCServer_serveStartRecordingProtobuf L ctx wr svc s = serveProtobuf L ctx wr s ''StartRecording'' ''RecordingParams'' ''Recording'' (RTC_StartRecording svc)"
  "rTCServer_serveStopRecordingJSON L ctx wr svc s = serveJSON L ctx wr s ''StopRecording'' ''RecordingLookup'' ''Recording'' (RTC_StopRecording svc)"
  "rTCServer_serveStopRecordingProtobuf L ctx wr svc s = serveProtobuf L ctx wr s ''StopRecording'' ''RecordingLookup'' ''Recording'' (RTC_StopRecording svc)"
  "rTCServer_serveCreateRoom L ctx wr svc s = serve_method L wr s (rTCServer_serveCreateRoomJSON L ctx wr svc s)
     (rTCServer_serveCreateRoomProtobuf L ctx wr svc s)"
  "rTCServer_serveStartRecording L ctx wr svc s = serve_method L wr s (rTCServer_serveStartRecordingJSON L ctx wr svc s)
     (rTCServer_serveStartRecordingProtobuf L ctx wr svc s)"
  "rTCServer_serveStopRecording L ctx wr svc s = serve_method L wr s (rTCServer_serveStopRecordingJSON L ctx wr svc s)
     (rTCServer_serveStopRecordingProtobuf L ctx wr svc s)"
  by (simp_all add: fun_eq_iff rTCServer_serveCreateRoomJSON_def rTCServer_serveCreateRoomProtobuf_def rTCServer_serveCreateRoom_def rTCServer_serveStartRecordingJSON_def rTCServer_serveStartRecordingProtobuf_def rTCServer_serveStartRecording_def rTCServer_serveStopRecordingJSON_def rTCServer_serveStopRecordingProtobuf_def rTCServer_serveStopRecording_def)

lemma rtc_path: "baseServicePath ''/twirp'' [] ''RTC'' = ''/twirp/RTC/''"
  by (simp add: baseServicePath_def path_Join_root_def)

interpretation rtc_CreateRoom: twirp_method "''RTC''" "[''CreateRoom'', ''StartRecording'', ''StopRecording'']" 0 "''Room''" "''Room''" "RTC_CreateRoom svc"
    rTCProtobufClient_CreateRoom "\<lambda>L ctx wr s. rTCServer_ServeHTTP L ctx wr svc s" for svc :: "'w RTC"
  by unfold_locales (auto simp: rtc_path rtc_client_defs rTCServer_ServeHTTP_def)

interpretation rtc_StartRecording: twirp_method "''RTC''" "[''CreateRoom'', ''StartRecording'', ''StopRecording'']" 1 "''RecordingParams''" "''Recording''" "RTC_StartRecording svc"
    rTCProtobufClient_StartRecording "\<lambda>L ctx wr s. rTCServer_ServeHTTP L ctx wr svc s" for svc :: "'w RTC"
  by unfold_locales (auto simp: rtc_path rtc_client_defs rTCServer_ServeHTTP_def)

interpretation rtc_StopRecording: twirp_method "''RTC''" "[''CreateRoom'', ''StartRecording'', ''StopRecording'']" 2 "''RecordingLookup''" "''Recording''" "RTC_StopRecording svc"
    rTCProtobufClient_StopRecording "\<lambda>L ctx wr s. rTCServer_ServeHTTP L ctx wr svc s" for svc :: "'w RTC"
  by unfold_locales (auto simp: rtc_path rtc_client_defs rTCServer_ServeHTTP_def)

section \<open>The registry of trackers\<close>

record 'w Registry =
  Registry_Start :: "'w message_method"
  Registry_Stop :: "'w message_method"

definition NewRegistryProtobufClient ::
  "rpc_msg rpc_lib \<Rightarrow> string \<Rightarrow> 'w http_client \<Rightarrow> ((rpc_msg, 'w) client_options \<Rightarrow> (rpc_msg, 'w) client_options) list \<Rightarrow>
   (rpc_msg, 'w) rpc_client" where
  "NewRegistryProtobufClient L baseURL client opts = new_client L ''Registry''
     [''Start'', ''Stop''] baseURL client opts"

definition registryProtobufClient_callStart :: "'w client_method" where
  "registryProtobufClient_callStart L N ctx c req w = finish_call c (doProtobufRequest L N ctx c (tc_urls c ! 0) ''Tracker'' req w)"

definition registryProtobufClient_Start :: "'w client_method" where
  "registryProtobufClient_Start L N ctx c req w =
     intercepted L ''StartParams'' ''Tracker'' (tc_interceptor c) (registryProtobufClient_callStart L N ctx c) req w"

definition registryProtobufClient_callStop :: "'w client_method" where
  "registryProtobufClient_callStop L N ctx c req w = finish_call c (doProtobufRequest L N ctx c (tc_urls c ! 1) ''Tracker'' req w)"

definition registryProtobufClient_Stop :: "'w client_method" where
  "registryProtobufClient_Stop L N ctx c req w =
     intercepted L ''StopParams'' ''Tracker'' (tc_interceptor c) (registryProtobufClient_callStop L N ctx c) req w"

definition NewRegistryJSONClient ::
  "rpc_msg rpc_lib \<Rightarrow> string \<Rightarrow> 'w http_client \<Rightarrow> ((rpc_msg, 'w) client_options \<Rightarrow> (rpc_msg, 'w) client_options) list \<Rightarrow>
   (rpc_msg, 'w) rpc_client" where
  "NewRegistryJSONClient L baseURL client opts = new_client L ''Registry''
     [''Start'', ''Stop''] baseURL client opts"

definition registryJSONClient_callStart :: "'w client_method" where
  "registryJSONClient_callStart L N ctx c req w = finish_call c (doJSONRequest L N ctx c (tc_urls c ! 0) ''Tracker'' req w)"

definition registryJSONClient_Start :: "'w client_method" where
  "registryJSONClient_Start L N ctx c req w =
     intercepted L ''StartParams'' ''Tracker'' (tc_interceptor c) (registryJSONClient_callStart L N ctx c) req w"

definition registryJSONClient_callStop :: "'w client_method" where
  "registryJSONClient_callStop L N ctx c req w = finish_call c (doJSONRequest L N ctx c (tc_urls c ! 1) ''Tracker'' req w)"

definition registryJSONClient_Stop :: "'w client_method" where
  "registryJSONClient_Stop L N ctx c req w =
     intercepted L ''StopParams'' ''Tracker'' (tc_interceptor c) (registryJSONClient_callStop L N ctx c) req w"

definition registryServer_serveStartJSON :: "('w, 'w Registry) server_method" where
  "registryServer_serveStartJSON L ctx wr svc s req w =
     serveJSON L ctx wr s ''Start'' ''StartParams'' ''Tracker'' (Registry_Start svc) req w"

definition registryServer_serveStartProtobuf :: "('w, 'w Registry) server_method" where
  "registryServer_serveStartProtobuf L ctx wr svc s req w =
     serveProtobuf L ctx wr s ''Start'' ''StartParams'' ''Tracker'' (Registry_Start svc) req w"

definition registryServer_serveStart :: "('w, 'w Registry) server_method" where
  "registryServer_serveStart L ctx wr svc s req w =
     serve_method L wr s (registryServer_serveStartJSON L ctx wr svc s) (registryServer_serveStartProtobuf L ctx wr svc s) req w"

definition registryServer_serveStopJSON :: "('w, 'w Registry) server_method" where
  "registryServer_serveStopJSON L ctx wr svc s req w =
     serveJSON L ctx wr s ''Stop'' ''StopParams'' ''Tracker'' (Registry_Stop svc) req w"

definition registryServer_serveStopProtobuf :: "('w, 'w Registry) server_method" where
  "registryServer_serveStopProtobuf L ctx wr svc s req w =
     serveProtobuf L ctx wr s ''Stop'' ''StopParams'' ''Tracker'' (Registry_Stop svc) req w"

definition registryServer_serveStop :: "('w, 'w Registry) server_method" where
  "registryServer_serveStop L ctx wr svc s req w =
     serve_method L wr s (registryServer_serveStopJSON L ctx wr svc s) (registryServer_serveStopProtobuf L ctx wr svc s) req w"

definition registryServer_ServeHTTP :: "('w, 'w Registry) server_method" where
  "registryServer_ServeHTTP L ctx wr svc s = serve_HTTP L wr s ''Registry'' (\<lambda>m.
      if m = ''Start'' then Some (registryServer_serveStart L ctx wr svc s)
      else if m = ''Stop'' then Some (registryServer_serveStop L ctx wr svc s)
      else None)"

definition NewRegistryServer ::
  "'w Registry \<Rightarrow> (rpc_msg, 'w) server_opt list \<Rightarrow> ('w Registry \<times> (rpc_msg, 'w) rpc_server) option" where
  "NewRegistryServer svc opts = map_option (Pair svc) (new_server opts)"

definition registryServer_PathPrefix :: "(rpc_msg, 'w) rpc_server \<Rightarrow> string" where
  "registryServer_PathPrefix s = baseServicePath (sv_pathPrefix s) [] ''Registry''"

lemmas tracker_client_defs = NewRegistryProtobufClient_def
  registryProtobufClient_Start_def registryProtobufClient_callStart_def
  registryProtobufClient_Stop_def registryProtobufClient_callStop_def

lemma tracker_server_method [simp]:
  "registryServer_serveStartJSON L ctx wr svc s = serveJSON L ctx wr s ''Start'' ''StartParams'' ''Tracker'' (Registry_Start svc)"
  "registryServer_serveStartProtobuf L ctx wr svc s = serveProtobuf L ctx wr s ''Start'' ''StartParams'' ''Tracker'' (Registry_Start svc)"
  "registryServer_serveStopJSON L ctx wr svc s = serveJSON L ctx wr s ''Stop'' ''StopParams'' ''Tracker'' (Registry_Stop svc)"
  "registryServer_serveStopProtobuf L ctx wr svc s = serveProtobuf L ctx wr s ''Stop'' ''StopParams'' ''Tracker'' (Registry_Stop svc)"
  "registryServer_serveStart L ctx wr svc s = serve_method L wr s (registryServer_serveStartJSON L ctx wr svc s)
     (registryServer_serveStartProtobuf L ctx wr svc s)"
  "registryServer_serveStop L ctx wr svc s = serve_method L wr s (registryServer_serveStopJSON L ctx wr svc s)
     (registryServer_serveStopProtobuf L ctx wr svc s)"
  by (simp_all add: fun_eq_iff registryServer_serveStartJSON_def registryServer_serveStartProtobuf_def registryServer_serveStart_def registryServer_serveStopJSON_def registryServer_serveStopProtobuf_def registryServer_serveStop_def)

lemma tracker_path: "baseServicePath ''/twirp'' [] ''Registry'' = ''/twirp/Registry/''"
  by (simp add: baseServicePath_def path_Join_root_def)

interpretation tracker_Start: twirp_method "''Registry''" "[''Start'', ''Stop'']" 0 "''StartParams''" "''Tracker''" "Registry_Start svc"
    registryProtobufClient_Start "\<lambda>L ctx wr s. registryServer_ServeHTTP L ctx wr svc s" for svc :: "'w Registry"
  by unfold_locales (auto simp: tracker_path tracker_client_defs registryServer_ServeHTTP_def)

interpretation tracker_Stop: twirp_method "''Registry''" "[''Start'', ''Stop'']" 1 "''StopParams''" "''Tracker''" "Registry_Stop svc"
    registryProtobufClient_Stop "\<lambda>L ctx wr s. registryServer_ServeHTTP L ctx wr svc s" for svc :: "'w Registry"
  by unfold_locales (auto simp: tracker_path tracker_client_defs registryServer_ServeHTTP_def)

section \<open>The service of accounts\<close>

record 'w IAM =
  IAM_GetUser :: "'w message_method"

definition NewIAMProtobufClient ::
  "rpc_msg rpc_lib \<Rightarrow> string \<Rightarrow> 'w http_client \<Rightarrow> ((rpc_msg, 'w) client_options \<Rightarrow> (rpc_msg, 'w) client_options) list \<Rightarrow>
   (rpc_msg, 'w) rpc_client" where
  "NewIAMProtobufClient L baseURL client opts = new_client L ''IAM''
     [''GetUser''] baseURL client opts"

definition iAMProtobufClient_callGetUser :: "'w client_method" where
  "iAMProtobufClient_callGetUser L N ctx c req w = finish_call c (doProtobufRequest L N ctx c (tc_urls c ! 0) ''User'' req w)"

definition iAMProtobufClient_GetUser :: "'w client_method" where
  "iAMProtobufClient_GetUser L N ctx c req w =
     intercepted L ''UserLookup'' ''User'' (tc_interceptor c) (iAMProtobufClient_callGetUser L N ctx c) req w"

definition NewIAMJSONClient ::
  "rpc_msg rpc_lib \<Rightarrow> string \<Rightarrow> 'w http_client \<Rightarrow> ((rpc_msg, 'w) client_options \<Rightarrow> (rpc_msg, 'w) client_options) list \<Rightarrow>
   (rpc_msg, 'w) rpc_client" where
  "NewIAMJSONClient L baseURL client opts = new_client L ''IAM''
     [''GetUser''] baseURL client opts"

definition iAMJSONClient_callGetUser :: "'w client_method" where
  "iAMJSONClient_callGetUser L N ctx c req w = finish_call c (doJSONRequest L N ctx c (tc_urls c ! 0) ''User'' req w)"

definition iAMJSONClient_GetUser :: "'w client_method" where
  "iAMJSONClient_GetUser L N ctx c req w =
     intercepted L ''UserLookup'' ''User'' (tc_interceptor c) (iAMJSONClient_callGetUser L N ctx c) req w"

definition iAMServer_serveGetUserJSON :: "('w, 'w IAM) server_method" where
  "iAMServer_serveGetUserJSON L ctx wr svc s req w =
     serveJSON L ctx wr s ''GetUser'' ''UserLookup'' ''User'' (IAM_GetUser svc) req w"

definition iAMServer_serveGetUserProtobuf :: "('w, 'w IAM) server_method" where
  "iAMServer_serveGetUserProtobuf L ctx wr svc s req w =
     serveProtobuf L ctx wr s ''GetUser'' ''UserLookup'' ''User'' (IAM_GetUser svc) req w"

definition iAMServer_serveGetUser :: "('w, 'w IAM) server_method" where
  "iAMServer_serveGetUser L ctx wr svc s req w =
     serve_method L wr s (iAMServer_serveGetUserJSON L ctx wr svc s) (iAMServer_serveGetUserProtobuf L ctx wr svc s) req w"

definition iAMServer_ServeHTTP :: "('w, 'w IAM) server_method" where
  "iAMServer_ServeHTTP L ctx wr svc s = serve_HTTP L wr s ''IAM'' (\<lambda>m.
      if m = ''GetUser'' then Some (iAMServer_serveGetUser L ctx wr svc s)
      else None)"

definition NewIAMServer ::
  "'w IAM \<Rightarrow> (rpc_msg, 'w) server_opt list \<Rightarrow> ('w IAM \<times> (rpc_msg, 'w) rpc_server) option" where
  "NewIAMServer svc opts = map_option (Pair svc) (new_server opts)"

definition iAMServer_PathPrefix :: "(rpc_msg, 'w) rpc_server \<Rightarrow> string" where
  "iAMServer_PathPrefix s = baseServicePath (sv_pathPrefix s) [] ''IAM''"

lemmas iam_client_defs = NewIAMProtobufClient_def
  iAMProtobufClient_GetUser_def iAMProtobufClient_callGetUser_def

lemma iam_server_method [simp]:
  "iAMServer_serveGetUserJSON L ctx wr svc s = serveJSON L ctx wr s ''GetUser'' ''UserLookup'' ''User'' (IAM_GetUser svc)"
  "iAMServer_serveGetUserProtobuf L ctx wr svc s = serveProtobuf L ctx wr s ''GetUser'' ''UserLookup'' ''User'' (IAM_GetUser svc)"
  "iAMServer_serveGetUser L ctx wr svc s = serve_method L wr s (iAMServer_serveGetUserJSON L ctx wr svc s)
     (iAMServer_serveGetUserProtobuf L ctx wr svc s)"
  by (simp_all add: fun_eq_iff iAMServer_serveGetUserJSON_def iAMServer_serveGetUserProtobuf_def iAMServer_serveGetUser_def)

lemma iam_path: "baseServicePath ''/twirp'' [] ''IAM'' = ''/twirp/IAM/''"
  by (simp add: baseServicePath_def path_Join_root_def)

interpretation iam_GetUser: twirp_method "''IAM''" "[''GetUser'']" 0 "''UserLookup''" "''User''" "IAM_GetUser svc"
    iAMProtobufClient_GetUser "\<lambda>L ctx wr s. iAMServer_ServeHTTP L ctx wr svc s" for svc :: "'w IAM"
  by unfold_locales (auto simp: iam_path iam_client_defs iAMServer_ServeHTTP_def)

end
