(* ===== verification/Remote.thy ===== *)
theory Remote
  imports Twirp_Services
begin

text \<open>
  The handlers of \<open>Rpc\<close> and \<open>Sender\<close> behind the servers of \<open>Twirp_Services\<close>, and the clients
  that \<open>Confa_Jobs\<close> and \<open>Rpc\<close> take as parameters made of the generated ones.  The jobs that start
  and stop a recording go over two hops, to the service of rooms and from there to the registry
  of trackers; the theorems show that they do exactly what they would do if both handlers were
  called directly, so what is proved of the jobs over those parameters holds over the wire.
\<close>

section \<open>Errors of handlers\<close>

text \<open>
  The errors of the handlers as the layer sees them: \<open>tx\<close> gives the text and the type of errors
  that have no text here.  The only error of twirp that a handler makes is NotFound.
\<close>

fun of_go :: "(go_error \<Rightarrow> string \<times> string) \<Rightarrow> go_error \<Rightarrow> rpc_err" where
  "of_go tx (Sentinel p k) = (if p = P_twirp \<and> k = ErrNotFound
     then NewError T_NotFound (fst (tx (Sentinel p k)))
     else Plain (fst (tx (Sentinel p k))) (snd (tx (Sentinel p k))))"
| "of_go tx (New t) = Plain t ''*errors.errorString''"
| "of_go tx (Wrap t e) = Wrapping (t @ '': '' @ err_text (of_go tx e)) ''*fmt.wrapError'' (of_go tx e)"
| "of_go tx (WrapS e c) = Wrapping (err_text (of_go tx e) @ '': '' @ err_text (of_go tx c)) ''*fmt.wrapError'' (of_go tx e)"
| "of_go tx (Foreign n) = Plain (fst (tx (Foreign n))) (snd (tx (Foreign n)))"

text \<open>
  The errors of a client as its callers look at them: \<^verbatim>\<open>errors.As\<close> and the code NotFound; the
  other codes are told apart by nobody.
\<close>

definition to_go :: "rpc_err \<Rightarrow> go_error" where
  "to_go e = (case As_twirp e of
      Some t \<Rightarrow> if tw_code t = T_NotFound then twirp_NotFound else Foreign 0
    | None \<Rightarrow> Foreign 0)"

lemma twirp_code:
  "tw_code (twirp_of (Plain t ty)) = T_Internal" "tw_code (twirp_of (Wrapping t ty e)) = tw_code (twirp_of e)"
  "tw_code (twirp_of (NewError c m)) = c"
  by (simp_all add: twirp_of_def NewError_def split: option.split)

lemma code_of_go: "tw_code (twirp_of (of_go tx e)) = (if errors_Is e P_twirp ErrNotFound then T_NotFound else T_Internal)"
  by (induction e) (simp_all add: twirp_code)

lemma As_twirp_remote [simp]: "As_twirp (remote_error e) = Some (remote_error e)" "tw_code (remote_error e) = tw_code (twirp_of e)"
  by (simp_all add: remote_error_def Let_def)

lemma to_go_remote: "to_go (remote_error (of_go tx e)) = (if errors_Is e P_twirp ErrNotFound then twirp_NotFound else Foreign 0)"
  by (simp add: to_go_def code_of_go)

definition rpc_reply :: "(go_error \<Rightarrow> string \<times> string) \<Rightarrow> ('a \<Rightarrow> rpc_msg) \<Rightarrow> 'w \<times> 'a res \<Rightarrow> 'w \<times> rpc_msg called" where
  "rpc_reply tx mk r = (case r of
      (w, Inl e) \<Rightarrow> (w, Returned None (Some (of_go tx e)))
    | (w, Inr x) \<Rightarrow> (w, Returned (Some (mk x)) None))"

lemma reply_simps [simp]:
  "rpc_reply tx mk (w, Inl e) = (w, Returned None (Some (of_go tx e)))"
  "rpc_reply tx mk (w, Inr x) = (w, Returned (Some (mk x)) None)"
  by (simp_all add: rpc_reply_def)

lemma has_code_reply: "rpc_reply tx mk r = (w, c) \<Longrightarrow> has_code c"
  by (auto simp: rpc_reply_def code_of_go split: prod.splits sum.splits)

section \<open>The services\<close>

text \<open>
  A message of another type cannot arrive: the servers decode the type of the method.  Ids and
  times are taken from the state a handler starts in.
\<close>

definition wrong_type :: "'m called" where
  "wrong_type = Panicked (PanicValue ''type'')"

definition nil_pointer :: "'m called" where
  "nil_pointer = Panicked (PanicValue ''runtime error: invalid memory address or nil pointer dereference'')"

definition rtc_handlers ::
  "(go_error \<Rightarrow> string \<times> string) \<Rightarrow> (room_doc list \<Rightarrow> 'w \<Rightarrow> 'w \<times> room_doc list res) \<Rightarrow> (room_lookup \<Rightarrow> 'w \<Rightarrow> 'w \<times> room_doc res) \<Rightarrow>
   (recording \<Rightarrow> 'w \<Rightarrow> 'w \<times> recording res) \<Rightarrow> (record_lookup \<Rightarrow> 'w \<Rightarrow> 'w \<times> nat res) \<Rightarrow> (event \<Rightarrow> 'w \<Rightarrow> 'w \<times> err) \<Rightarrow>
   ('w \<Rightarrow> uuid) \<Rightarrow> ('w \<Rightarrow> uuid) \<Rightarrow> ('w \<Rightarrow> time) \<Rightarrow> 'w tracker_client \<Rightarrow> 'w RTC" where
  "rtc_handlers tx create fetchRoom fetchOrStart stop emit new_id event_id now tr = \<lparr>
     RTC_CreateRoom = (\<lambda>m w. case m of
         Room_msg i ownerId \<Rightarrow> (case rpc_CreateRoom create (new_id w) ownerId w of
             None \<Rightarrow> (w, Panicked (PanicValue ''runtime error: index out of range''))
           | Some r \<Rightarrow> rpc_reply tx (\<lambda>roomId. Room_msg roomId ownerId) r)
       | _ \<Rightarrow> (w, wrong_type)),
     RTC_StartRecording = (\<lambda>m w. case m of
         RecordingParams_msg roomId key ms \<Rightarrow>
           rpc_reply tx (\<lambda>r. Recording_msg (rr_RoomId r) (rr_RecordingId r) (rr_StartedAt r) (rr_AlreadyExists r))
             (rpc_StartRecording fetchRoom fetchOrStart tr emit (new_id w) (event_id w) (now w) roomId key ms w)
       | _ \<Rightarrow> (w, wrong_type)),
     RTC_StopRecording = (\<lambda>m w. case m of
         RecordingLookup_msg roomId recordingId key \<Rightarrow>
           rpc_reply tx (\<lambda>r. Recording_msg r [] 0 False) (rpc_StopRecording stop tr emit (event_id w) (now w) roomId recordingId key w)
       | _ \<Rightarrow> (w, wrong_type))\<rparr>"

definition tracker_msg :: "tracker_reply \<Rightarrow> rpc_msg" where
  "tracker_msg r = Tracker_msg (tp_RoomId r) None (tp_StartedAt r) (tp_ExpiresAt r) (tp_AlreadyExists r)"

text \<open>The start looks into its role once the room id was read: a request without one panics.\<close>

definition tracker_handlers ::
  "(go_error \<Rightarrow> string \<times> string) \<Rightarrow> (uuid \<Rightarrow> tracker_key \<Rightarrow> time \<Rightarrow> 'w \<Rightarrow> 'w \<times> tracker_state res) \<Rightarrow>
   (tracker_key \<Rightarrow> 'w \<Rightarrow> 'w \<times> tracker_state res) \<Rightarrow> ('w \<Rightarrow> time) \<Rightarrow> 'w Registry" where
  "tracker_handlers tx start stop now = \<lparr>
     Registry_Start = (\<lambda>m w. case m of
         StartParams_msg roomId role ms \<Rightarrow>
           if role = None \<and> is_ok (uuid_UnmarshalBinary roomId) then (w, nil_pointer)
           else rpc_reply tx tracker_msg (tracker_Start start (now w) roomId (or_default role None) ms w)
       | _ \<Rightarrow> (w, wrong_type)),
     Registry_Stop = (\<lambda>m w. case m of
         StopParams_msg roomId role \<Rightarrow> rpc_reply tx tracker_msg (tracker_Stop stop roomId w)
       | _ \<Rightarrow> (w, wrong_type))\<rparr>"

definition iam_handlers ::
  "(go_error \<Rightarrow> string \<times> string) \<Rightarrow> (user_lookup \<Rightarrow> 'w \<Rightarrow> 'w \<times> user res) \<Rightarrow> 'w IAM" where
  "iam_handlers tx fetchOne = \<lparr>
     IAM_GetUser = (\<lambda>m w. case m of UserLookup_msg userId \<Rightarrow> rpc_reply tx User_msg (GetUser fetchOne userId w)
       | _ \<Rightarrow> (w, wrong_type))\<rparr>"

section \<open>The clients\<close>

text \<open>What the callers keep of an answer: nothing, or what \<open>pick\<close> takes of it.\<close>

definition client_err :: "'w \<times> rpc_msg called \<Rightarrow> 'w \<times> err" where
  "client_err r = (case r of
      (w, Returned _ (Some e)) \<Rightarrow> (w, Some (to_go e))
    | (w, Returned _ None) \<Rightarrow> (w, None)
    | (w, Panicked v) \<Rightarrow> (w, Some (Foreign 0)))"

definition client_res :: "(rpc_msg \<Rightarrow> 'a option) \<Rightarrow> 'w \<times> rpc_msg called \<Rightarrow> 'w \<times> 'a res" where
  "client_res pick r = (case r of
      (w, Returned _ (Some e)) \<Rightarrow> (w, Inl (to_go e))
    | (w, Returned (Some m) None) \<Rightarrow> (case pick m of Some x \<Rightarrow> (w, Inr x) | None \<Rightarrow> (w, Inl (Foreign 0)))
    | (w, _) \<Rightarrow> (w, Inl (Foreign 0)))"

fun already_exists :: "rpc_msg \<Rightarrow> bool option" where
  "already_exists (Recording_msg _ _ _ b) = Some b"
| "already_exists _ = None"

fun user_of :: "rpc_msg \<Rightarrow> iam_user option" where
  "user_of (User_msg u) = Some u"
| "user_of _ = None"

definition wire_tracker ::
  "rpc_msg rpc_lib \<Rightarrow> 'w network \<Rightarrow> 'w call_context \<Rightarrow> (rpc_msg, 'w) rpc_client \<Rightarrow> 'w tracker_client" where
  "wire_tracker L N cx c = \<lparr>
     tk_Start = (\<lambda>roomId recordingId ms w. client_err
       (registryProtobufClient_Start L N cx c (StartParams_msg roomId (Some (Some recordingId)) ms) w)),
     tk_Stop = (\<lambda>roomId w. client_err (registryProtobufClient_Stop L N cx c (StopParams_msg roomId (Some (Some []))) w))\<rparr>"

definition wire_rtc ::
  "rpc_msg rpc_lib \<Rightarrow> 'w network \<Rightarrow> 'w call_context \<Rightarrow> (rpc_msg, 'w) rpc_client \<Rightarrow> 'w rtc_client" where
  "wire_rtc L N cx c = \<lparr>
     rt_StartRecording = (\<lambda>roomId key ms w. client_res already_exists
       (rTCProtobufClient_StartRecording L N cx c (RecordingParams_msg roomId key ms) w)),
     rt_StopRecording = (\<lambda>roomId key w. client_err
       (rTCProtobufClient_StopRecording L N cx c (RecordingLookup_msg roomId [] key) w))\<rparr>"

definition wire_GetUser ::
  "rpc_msg rpc_lib \<Rightarrow> 'w network \<Rightarrow> 'w call_context \<Rightarrow> (rpc_msg, 'w) rpc_client \<Rightarrow> byte list \<Rightarrow> 'w \<Rightarrow> 'w \<times> iam_user res" where
  "wire_GetUser L N cx c userId w = client_res user_of (iAMProtobufClient_GetUser L N cx c (UserLookup_msg userId) w)"

text \<open>The same clients with the handlers called directly.\<close>

definition no_reply :: "'w \<times> 'a res \<Rightarrow> 'w \<times> err" where
  "no_reply r = (case r of (w, Inl e) \<Rightarrow> (w, Some e) | (w, Inr x) \<Rightarrow> (w, None))"

definition direct_tracker ::
  "(uuid \<Rightarrow> tracker_key \<Rightarrow> time \<Rightarrow> 'w \<Rightarrow> 'w \<times> tracker_state res) \<Rightarrow> (tracker_key \<Rightarrow> 'w \<Rightarrow> 'w \<times> tracker_state res) \<Rightarrow>
   ('w \<Rightarrow> time) \<Rightarrow> 'w tracker_client" where
  "direct_tracker start stop now = \<lparr>
     tk_Start = (\<lambda>roomId recordingId ms w. no_reply (tracker_Start start (now w) roomId (Some recordingId) ms w)),
     tk_Stop = (\<lambda>roomId w. no_reply (tracker_Stop stop roomId w))\<rparr>"

definition direct_rtc ::
  "(room_lookup \<Rightarrow> 'w \<Rightarrow> 'w \<times> room_doc res) \<Rightarrow> (recording \<Rightarrow> 'w \<Rightarrow> 'w \<times> recording res) \<Rightarrow>
   (record_lookup \<Rightarrow> 'w \<Rightarrow> 'w \<times> nat res) \<Rightarrow> (event \<Rightarrow> 'w \<Rightarrow> 'w \<times> err) \<Rightarrow>
   ('w \<Rightarrow> uuid) \<Rightarrow> ('w \<Rightarrow> uuid) \<Rightarrow> ('w \<Rightarrow> time) \<Rightarrow> 'w tracker_client \<Rightarrow> 'w rtc_client" where
  "direct_rtc fetchRoom fetchOrStart stop emit new_id event_id now tr = \<lparr>
     rt_StartRecording = (\<lambda>roomId key ms w. map_prod id (map_sum id rr_AlreadyExists)
       (rpc_StartRecording fetchRoom fetchOrStart tr emit (new_id w) (event_id w) (now w) roomId key ms w)),
     rt_StopRecording = (\<lambda>roomId key w. no_reply
       (rpc_StopRecording stop tr emit (event_id w) (now w) roomId [] key w))\<rparr>"

section \<open>Hops\<close>

text \<open>
  A connection that works: the base URL is one, requests can be built at the paths of the
  methods, and the context of the caller is not done.
\<close>

definition rpc_paths :: "string list" where
  "rpc_paths = [''/twirp/RTC/CreateRoom'', ''/twirp/RTC/StartRecording'', ''/twirp/RTC/StopRecording'',
     ''/twirp/Registry/Start'', ''/twirp/Registry/Stop'', ''/twirp/IAM/GetUser'']"

definition connected :: "rpc_msg rpc_lib \<Rightarrow> 'w network \<Rightarrow> 'w call_context \<Rightarrow> string \<Rightarrow> bool" where
  "connected L N cx base = (sanitizeBaseURL L base = base \<and> list_all (\<lambda>p. wl_BadURL L (base @ p) = None) rpc_paths \<and>
     (\<forall>w. cx_Err cx w = None) \<and> (\<forall>r w. nw_Read N r w = w))"

lemma connectedD:
  assumes "connected L N cx base"
  shows "sanitizeBaseURL L base = base" "p \<in> set rpc_paths \<Longrightarrow> wl_BadURL L (base @ p) = None"
    "\<And>w. cx_Err cx w = None" "\<And>r w. nw_Read N r w = w"
  using assms by (auto simp: connected_def list_all_iff)

abbreviation rtc_server where
  "rtc_server L ctx svc \<equiv> rTCServer_ServeHTTP L ctx (\<lambda>r w. (w, None)) svc plain_server"

abbreviation registry_server where
  "registry_server L ctx svc \<equiv> registryServer_ServeHTTP L ctx (\<lambda>r w. (w, None)) svc plain_server"

abbreviation iam_server where
  "iam_server L ctx svc \<equiv> iAMServer_ServeHTTP L ctx (\<lambda>r w. (w, None)) svc plain_server"

text \<open>The calls of the four methods the callers use, in terms of the handler.\<close>

lemma rtc_StopRecording_call:
  assumes "connected L N cx base" and "reaches N cl base (rtc_server L ctx svc)"
    and "encodes L ''RecordingLookup'' m" and "RTC_StopRecording svc m w = (w', r)" and "has_code r"
    and "\<And>x. r = Returned (Some x) None \<Longrightarrow> encodes L ''Recording'' x"
  shows "rTCProtobufClient_StopRecording L N cx (NewRTCProtobufClient L base cl []) m w = (w', remote ''Recording'' ''StopRecording'' r)"
  using rtc_StopRecording.remote_call [where cl = cl and ctx = ctx, OF connectedD(1) [OF assms(1)] _ assms(3) connectedD(3,4) [OF assms(1)]
      assms(2,4-6)] connectedD(2) [OF assms(1), of "''/twirp/RTC/StopRecording''"]
  by (simp add: rpc_paths_def NewRTCProtobufClient_def)

lemma rtc_StartRecording_call:
  assumes "connected L N cx base" and "reaches N cl base (rtc_server L ctx svc)"
    and "encodes L ''RecordingParams'' m" and "RTC_StartRecording svc m w = (w', r)" and "has_code r"
    and "\<And>x. r = Returned (Some x) None \<Longrightarrow> encodes L ''Recording'' x"
  shows "rTCProtobufClient_StartRecording L N cx (NewRTCProtobufClient L base cl []) m w = (w', remote ''Recording'' ''StartRecording'' r)"
  using rtc_StartRecording.remote_call [where cl = cl and ctx = ctx, OF connectedD(1) [OF assms(1)] _ assms(3) connectedD(3,4) [OF assms(1)]
      assms(2,4-6)] connectedD(2) [OF assms(1), of "''/twirp/RTC/StartRecording''"]
  by (simp add: rpc_paths_def NewRTCProtobufClient_def)

lemma registry_Start_call:
  assumes "connected L N cx base" and "reaches N cl base (registry_server L ctx svc)"
    and "encodes L ''StartParams'' m" and "Registry_Start svc m w = (w', r)" and "has_code r"
    and "\<And>x. r = Returned (Some x) None \<Longrightarrow> encodes L ''Tracker'' x"
  shows "registryProtobufClient_Start L N cx (NewRegistryProtobufClient L base cl []) m w = (w', remote ''Tracker'' ''Start'' r)"
  using tracker_Start.remote_call [where cl = cl and ctx = ctx, OF connectedD(1) [OF assms(1)] _ assms(3) connectedD(3,4) [OF assms(1)]
      assms(2,4-6)] connectedD(2) [OF assms(1), of "''/twirp/Registry/Start''"]
  by (simp add: rpc_paths_def NewRegistryProtobufClient_def)

lemma registry_Stop_call:
  assumes "connected L N cx base" and "reaches N cl base (registry_server L ctx svc)"
    and "encodes L ''StopParams'' m" and "Registry_Stop svc m w = (w', r)" and "has_code r"
    and "\<And>x. r = Returned (Some x) None \<Longrightarrow> encodes L ''Tracker'' x"
  shows "registryProtobufClient_Stop L N cx (NewRegistryProtobufClient L base cl []) m w = (w', remote ''Tracker'' ''Stop'' r)"
  using tracker_Stop.remote_call [where cl = cl and ctx = ctx, OF connectedD(1) [OF assms(1)] _ assms(3) connectedD(3,4) [OF assms(1)]
      assms(2,4-6)] connectedD(2) [OF assms(1), of "''/twirp/Registry/Stop''"]
  by (simp add: rpc_paths_def NewRegistryProtobufClient_def)

lemma iam_GetUser_call:
  assumes "connected L N cx base" and "reaches N cl base (iam_server L ctx svc)"
    and "encodes L ''UserLookup'' m" and "IAM_GetUser svc m w = (w', r)" and "has_code r"
    and "\<And>x. r = Returned (Some x) None \<Longrightarrow> encodes L ''User'' x"
  shows "iAMProtobufClient_GetUser L N cx (NewIAMProtobufClient L base cl []) m w = (w', remote ''User'' ''GetUser'' r)"
  using iam_GetUser.remote_call [where cl = cl and ctx = ctx, OF connectedD(1) [OF assms(1)] _ assms(3) connectedD(3,4) [OF assms(1)]
      assms(2,4-6)] connectedD(2) [OF assms(1), of "''/twirp/IAM/GetUser''"]
  by (simp add: rpc_paths_def NewIAMProtobufClient_def)

section \<open>Two hops\<close>

text \<open>What is left of an error after a hop.\<close>

definition seen :: "go_error \<Rightarrow> go_error" where
  "seen e = (if errors_Is e P_twirp ErrNotFound then twirp_NotFound else Foreign 0)"

lemma errors_Is_seen [simp]: "errors_Is (seen e) P_twirp ErrNotFound = errors_Is e P_twirp ErrNotFound"
  by (simp add: seen_def)

lemma seen_simps [simp]: "seen (seen e) = seen e" "seen (Wrap t e) = seen e" "seen (WrapS e c) = seen e"
  "seen twirp_NotFound = twirp_NotFound"
  by (simp_all add: seen_def)

abbreviation hop_err :: "'w \<times> err \<Rightarrow> 'w \<times> err" where
  "hop_err \<equiv> map_prod id (map_option seen)"

abbreviation hop_res :: "'w \<times> 'a res \<Rightarrow> 'w \<times> 'a res" where
  "hop_res \<equiv> map_prod id (map_sum seen id)"

lemma remote_reply:
  "rpc_reply tx mk r = (w', c) \<Longrightarrow> client_err (w', remote U meth c) = hop_err (no_reply r)"
  by (auto simp: rpc_reply_def client_err_def no_reply_def to_go_remote seen_def split: prod.splits sum.splits)

lemma remote_reply_res:
  "rpc_reply tx mk r = (w', c) \<Longrightarrow> (\<And>x. pick (mk x) = Some (g x)) \<Longrightarrow>
    client_res pick (w', remote U meth c) = hop_res (map_prod id (map_sum id g) r)"
  by (auto simp: rpc_reply_def client_res_def to_go_remote seen_def split: prod.splits sum.splits)

lemma reply_carries:
  "rpc_reply tx mk (w', r) = (w, Returned (Some x) None) \<Longrightarrow> \<exists>y. r = Inr y \<and> x = mk y"
  by (auto simp: rpc_reply_def split: sum.splits)

lemma wire_tracker_Stop:
  assumes "connected L N cx base" and "reaches N cl base (registry_server L ctx (tracker_handlers tx start stop now))"
    and "encodes L ''StopParams'' (StopParams_msg roomId (Some (Some [])))"
    and "\<And>w w' x. tracker_Stop stop roomId w = (w', Inr x) \<Longrightarrow> encodes L ''Tracker'' (tracker_msg x)"
  shows "tk_Stop (wire_tracker L N cx (NewRegistryProtobufClient L base cl [])) roomId w =
    hop_err (tk_Stop (direct_tracker start stop now) roomId w)"
proof -
  obtain w1 res where s: "tracker_Stop stop roomId w = (w1, res)"
    by fastforce
  obtain w' c where r: "rpc_reply tx tracker_msg (w1, res) = (w', c)"
    by fastforce
  have h: "Registry_Stop (tracker_handlers tx start stop now) (StopParams_msg roomId (Some (Some []))) w = (w', c)"
    using s r by (simp add: tracker_handlers_def)
  from registry_Stop_call [OF assms(1-3) h has_code_reply [OF r]] reply_carries [of tx tracker_msg w1 res w'] r assms(4) [OF s [THEN trans]]
  have "registryProtobufClient_Stop L N cx (NewRegistryProtobufClient L base cl []) (StopParams_msg roomId (Some (Some []))) w =
      (w', remote ''Tracker'' ''Stop'' c)"
    by blast
  with remote_reply [OF r] s show ?thesis
    by (simp add: wire_tracker_def direct_tracker_def)
qed

lemma wire_tracker_Start:
  assumes "connected L N cx base" and "reaches N cl base (registry_server L ctx (tracker_handlers tx start stop now))"
    and "\<And>rid. encodes L ''StartParams'' (StartParams_msg roomId (Some (Some rid)) ms)"
    and "\<And>rid w w' x. tracker_Start start (now w) roomId (Some rid) ms w = (w', Inr x) \<Longrightarrow> encodes L ''Tracker'' (tracker_msg x)"
  shows "tk_Start (wire_tracker L N cx (NewRegistryProtobufClient L base cl [])) roomId recordingId ms w =
    hop_err (tk_Start (direct_tracker start stop now) roomId recordingId ms w)"
proof -
  obtain w1 res where s: "tracker_Start start (now w) roomId (Some recordingId) ms w = (w1, res)"
    by fastforce
  obtain w' c where r: "rpc_reply tx tracker_msg (w1, res) = (w', c)"
    by fastforce
  have h: "Registry_Start (tracker_handlers tx start stop now) (StartParams_msg roomId (Some (Some recordingId)) ms) w = (w', c)"
    using s r by (simp add: tracker_handlers_def or_default_def)
  from registry_Start_call [OF assms(1-3) h has_code_reply [OF r]] reply_carries [of tx tracker_msg w1 res w'] r assms(4) [OF s [THEN trans]]
  have "registryProtobufClient_Start L N cx (NewRegistryProtobufClient L base cl []) (StartParams_msg roomId (Some (Some recordingId)) ms) w =
      (w', remote ''Tracker'' ''Start'' c)"
    by blast
  with remote_reply [OF r] s show ?thesis
    by (simp add: wire_tracker_def direct_tracker_def)
qed

text \<open>The handlers of the rooms look at no more of the tracker's error than is left of it.\<close>

lemma rpc_StopRecording_seen:
  assumes "\<And>w. tk_Stop tr' roomId w = hop_err (tk_Stop tr roomId w)"
  shows "hop_res (rpc_StopRecording stop tr' emit eid now roomId rid key w) =
    hop_res (rpc_StopRecording stop tr emit eid now roomId rid key w)"
  by (auto simp: rpc_StopRecording_def assms split: sum.split prod.split option.split)

lemma rpc_StartRecording_seen:
  assumes "\<And>rid w. tk_Start tr' roomId rid ms w = hop_err (tk_Start tr roomId rid ms w)"
  shows "hop_res (rpc_StartRecording fetchRoom fetchOrStart tr' emit nid eid now roomId key ms w) =
    hop_res (rpc_StartRecording fetchRoom fetchOrStart tr emit nid eid now roomId key ms w)"
  by (auto simp: rpc_StartRecording_def assms Let_def split: sum.split prod.split option.split)

section \<open>The jobs over the wire\<close>

text \<open>The clients the services are given, over the client of the standard library.\<close>

definition rooms_client :: "rpc_msg rpc_lib \<Rightarrow> 'w network \<Rightarrow> 'w call_context \<Rightarrow> string \<Rightarrow> 'w rtc_client" where
  "rooms_client L N cx base = wire_rtc L N cx (NewRTCProtobufClient L base (StdClient None) [])"

definition trackers_client :: "rpc_msg rpc_lib \<Rightarrow> 'w network \<Rightarrow> 'w call_context \<Rightarrow> string \<Rightarrow> 'w tracker_client" where
  "trackers_client L N cx base = wire_tracker L N cx (NewRegistryProtobufClient L base (StdClient None) [])"

lemma no_reply_seen: "hop_res r = hop_res r' \<Longrightarrow> hop_err (no_reply r) = hop_err (no_reply r')"
  by (auto simp: no_reply_def split: prod.splits sum.splits)

lemma exists_seen: "hop_res r = hop_res r' \<Longrightarrow> hop_res (map_prod id (map_sum id g) r) = hop_res (map_prod id (map_sum id g) r')"
  by (cases r; cases r'; cases "snd r"; cases "snd r'") auto

lemma rooms_client_Stop:
  assumes "connected L N cx base"
    and "reaches N (StdClient None) base
      (rtc_server L ctx (rtc_handlers tx create fetchRoom fetchOrStart stop emit new_id event_id now tr'))"
    and "\<And>w. tk_Stop tr' roomId w = hop_err (tk_Stop tr roomId w)"
    and "encodes L ''RecordingLookup'' (RecordingLookup_msg roomId [] key)"
    and "encodes L ''Recording'' (Recording_msg roomId [] 0 False)"
  shows "rt_StopRecording (rooms_client L N cx base) roomId key w =
    hop_err (rt_StopRecording (direct_rtc fetchRoom fetchOrStart stop emit new_id event_id now tr) roomId key w)"
proof -
  let ?svc = "rtc_handlers tx create fetchRoom fetchOrStart stop emit new_id event_id now tr'"
  let ?run = "rpc_StopRecording stop tr' emit (event_id w) (now w) roomId [] key w"
  obtain w' c where r: "rpc_reply tx (\<lambda>r. Recording_msg r [] 0 False) ?run = (w', c)"
    by fastforce
  have h: "RTC_StopRecording ?svc (RecordingLookup_msg roomId [] key) w = (w', c)"
    using r by (simp add: rtc_handlers_def)
  have id: "x = roomId" if "snd ?run = Inr x" for x
    using that by (auto simp: rpc_StopRecording_def split: sum.splits prod.splits option.splits if_splits)
  have "encodes L ''Recording'' x" if "c = Returned (Some x) None" for x
    using r that id assms(5) by (auto simp: rpc_reply_def split: prod.splits sum.splits)
  from rtc_StopRecording_call [OF assms(1,2,4) h has_code_reply [OF r] this]
  have "rt_StopRecording (rooms_client L N cx base) roomId key w = hop_err (no_reply ?run)"
    using remote_reply [OF r] by (simp add: rooms_client_def wire_rtc_def)
  with no_reply_seen [OF rpc_StopRecording_seen [OF assms(3)]] show ?thesis
    by (simp add: direct_rtc_def)
qed

lemma rooms_client_Start:
  assumes "connected L N cx base"
    and "reaches N (StdClient None) base
      (rtc_server L ctx (rtc_handlers tx create fetchRoom fetchOrStart stop emit new_id event_id now tr'))"
    and "\<And>rid w. tk_Start tr' roomId rid ms w = hop_err (tk_Start tr roomId rid ms w)"
    and "encodes L ''RecordingParams'' (RecordingParams_msg roomId key ms)"
    and "\<And>rid started b. encodes L ''Recording'' (Recording_msg roomId rid started b)"
  shows "rt_StartRecording (rooms_client L N cx base) roomId key ms w =
    hop_res (rt_StartRecording (direct_rtc fetchRoom fetchOrStart stop emit new_id event_id now tr) roomId key ms w)"
proof -
  let ?svc = "rtc_handlers tx create fetchRoom fetchOrStart stop emit new_id event_id now tr'"
  let ?msg = "\<lambda>r. Recording_msg (rr_RoomId r) (rr_RecordingId r) (rr_StartedAt r) (rr_AlreadyExists r)"
  let ?run = "rpc_StartRecording fetchRoom fetchOrStart tr' emit (new_id w) (event_id w) (now w) roomId key ms w"
  obtain w' c where r: "rpc_reply tx ?msg ?run = (w', c)"
    by fastforce
  have h: "RTC_StartRecording ?svc (RecordingParams_msg roomId key ms) w = (w', c)"
    using r by (simp add: rtc_handlers_def)
  have id: "rr_RoomId x = roomId" if "snd ?run = Inr x" for x
    using that by (auto simp: rpc_StartRecording_def Let_def split: sum.splits prod.splits option.splits if_splits)
  have "encodes L ''Recording'' x" if "c = Returned (Some x) None" for x
    using r that id assms(5) by (auto simp: rpc_reply_def split: prod.splits sum.splits)
  from rtc_StartRecording_call [OF assms(1,2,4) h has_code_reply [OF r] this]
  have "rt_StartRecording (rooms_client L N cx base) roomId key ms w =
      hop_res (map_prod id (map_sum id rr_AlreadyExists) ?run)"
    using remote_reply_res [OF r, of already_exists rr_AlreadyExists] by (simp add: rooms_client_def wire_rtc_def)
  with exists_seen [OF rpc_StartRecording_seen [OF assms(3)]] show ?thesis
    by (simp add: direct_rtc_def)
qed

text \<open>The jobs look only at whether there is an error, and the stop at whether it is NotFound.\<close>

lemma stopRecording_seen:
  assumes "pb_Unmarshal p KStopRecording (jb_Body job) = Inr (JStopRecording talk_bin room_bin)"
    and "rt_StopRecording rtc' room_bin (uuid_String (uuid_of_bin talk_bin)) w =
      hop_err (rt_StopRecording rtc room_bin (uuid_String (uuid_of_bin talk_bin)) w)"
  shows "stopRecording fp p q m rtc' job w = stopRecording fp p q m rtc job w"
  using assms by (auto simp: stopRecording_def Let_def set_and_def split: prod.split option.split)

lemma startRecording_seen:
  assumes "pb_Unmarshal p KStartRecording (jb_Body job) = Inr (JStartRecording talk_bin room_bin)"
    and "rt_StartRecording rtc' room_bin (uuid_String (uuid_of_bin talk_bin)) maxDuration_ms w =
      hop_res (rt_StartRecording rtc room_bin (uuid_String (uuid_of_bin talk_bin)) maxDuration_ms w)"
  shows "startRecording fp p q m rtc' emitStop job w = startRecording fp p q m rtc emitStop job w"
  using assms by (auto simp: startRecording_def Let_def split: prod.split sum.split)

text \<open>
  C4: The job that stops a recording goes over two services, to the rooms and from there to the
  trackers, each behind the generated client and server.  Where both connections work and the
  four messages can be encoded, the job does in every state, whatever the stores, the tracker
  and the emitter answer, exactly what it does with the two handlers called directly: NotFound
  arrives as NotFound and nothing else does, so a talk is ended, retried or dropped as if there
  were no wire.
\<close>

theorem stopRecording_over_wire:
  assumes "connected L N1 cx1 base1" and "connected L N2 cx2 base2"
    and "reaches N1 (StdClient None) base1 (rtc_server L ctx1 (rtc_handlers tx1 create fetchRoom fetchOrStart stop emit
       new_id event_id now (trackers_client L N2 cx2 base2)))"
    and "reaches N2 (StdClient None) base2 (registry_server L ctx2 (tracker_handlers tx2 start tstop tnow))"
    and "pb_Unmarshal p KStopRecording (jb_Body job) = Inr (JStopRecording talk_bin room_bin)"
    and "encodes L ''RecordingLookup'' (RecordingLookup_msg room_bin [] (uuid_String (uuid_of_bin talk_bin)))"
    and "encodes L ''StopParams'' (StopParams_msg room_bin (Some (Some [])))"
    and "encodes L ''Recording'' (Recording_msg room_bin [] 0 False)"
    and "\<And>w w' x. tracker_Stop tstop room_bin w = (w', Inr x) \<Longrightarrow> encodes L ''Tracker'' (tracker_msg x)"
  shows "stopRecording fp p q m (rooms_client L N1 cx1 base1) job w =
    stopRecording fp p q m (direct_rtc fetchRoom fetchOrStart stop emit new_id event_id now (direct_tracker start tstop tnow)) job w"
proof (rule stopRecording_seen [OF assms(5)])
  have "tk_Stop (trackers_client L N2 cx2 base2) room_bin w = hop_err (tk_Stop (direct_tracker start tstop tnow) room_bin w)" for w
    unfolding trackers_client_def by (rule wire_tracker_Stop [OF assms(2,4,7,9)])
  from rooms_client_Stop [OF assms(1,3) this assms(6,8)]
  show "rt_StopRecording (rooms_client L N1 cx1 base1) room_bin (uuid_String (uuid_of_bin talk_bin)) w =
      hop_err (rt_StopRecording (direct_rtc fetchRoom fetchOrStart stop emit new_id event_id now (direct_tracker start tstop tnow))
        room_bin (uuid_String (uuid_of_bin talk_bin)) w)" .
qed

text \<open>
  The job that starts a recording, likewise: the flag that the recording already existed comes
  through both hops, and every error makes the job retry as it does without them.
\<close>

theorem startRecording_over_wire:
  assumes "connected L N1 cx1 base1" and "connected L N2 cx2 base2"
    and "reaches N1 (StdClient None) base1 (rtc_server L ctx1 (rtc_handlers tx1 create fetchRoom fetchOrStart stop emit
       new_id event_id now (trackers_client L N2 cx2 base2)))"
    and "reaches N2 (StdClient None) base2 (registry_server L ctx2 (tracker_handlers tx2 start tstop tnow))"
    and "pb_Unmarshal p KStartRecording (jb_Body job) = Inr (JStartRecording talk_bin room_bin)"
    and "encodes L ''RecordingParams'' (RecordingParams_msg room_bin (uuid_String (uuid_of_bin talk_bin)) maxDuration_ms)"
    and "\<And>rid. encodes L ''StartParams'' (StartParams_msg room_bin (Some (Some rid)) maxDuration_ms)"
    and "\<And>rid started b. encodes L ''Recording'' (Recording_msg room_bin rid started b)"
    and "\<And>rid w w' x. tracker_Start start (tnow w) room_bin (Some rid) maxDuration_ms w = (w', Inr x) \<Longrightarrow>
       encodes L ''Tracker'' (tracker_msg x)"
  shows "startRecording fp p q m (rooms_client L N1 cx1 base1) emitStop job w =
    startRecording fp p q m (direct_rtc fetchRoom fetchOrStart stop emit new_id event_id now (direct_tracker start tstop tnow))
      emitStop job w"
proof (rule startRecording_seen [OF assms(5)])
  have "tk_Start (trackers_client L N2 cx2 base2) room_bin rid maxDuration_ms w =
      hop_err (tk_Start (direct_tracker start tstop tnow) room_bin rid maxDuration_ms w)" for rid w
    unfolding trackers_client_def by (rule wire_tracker_Start [OF assms(2,4,7,9)])
  from rooms_client_Start [OF assms(1,3) this assms(6,8)]
  show "rt_StartRecording (rooms_client L N1 cx1 base1) room_bin (uuid_String (uuid_of_bin talk_bin)) maxDuration_ms w =
      hop_res (rt_StartRecording (direct_rtc fetchRoom fetchOrStart stop emit new_id event_id now (direct_tracker start tstop tnow))
        room_bin (uuid_String (uuid_of_bin talk_bin)) maxDuration_ms w)" .
qed

text \<open>
  The messages of the sender: the user it asks for comes over one hop, and but for the text of
  the errors a delivery goes as it would without it.
\<close>

lemma wire_GetUser_hop:
  assumes "connected L N cx base" and "reaches N cl base (iam_server L ctx (iam_handlers tx fetchOne))"
    and "encodes L ''UserLookup'' (UserLookup_msg userId)"
    and "\<And>w w' u. GetUser fetchOne userId w = (w', Inr u) \<Longrightarrow> encodes L ''User'' (User_msg u)"
  shows "wire_GetUser L N cx (NewIAMProtobufClient L base cl []) userId w = hop_res (GetUser fetchOne userId w)"
proof -
  obtain w1 res where s: "GetUser fetchOne userId w = (w1, res)"
    by fastforce
  obtain w' c where r: "rpc_reply tx User_msg (w1, res) = (w', c)"
    by fastforce
  have h: "IAM_GetUser (iam_handlers tx fetchOne) (UserLookup_msg userId) w = (w', c)"
    using s r by (simp add: iam_handlers_def)
  from iam_GetUser_call [OF assms(1-3) h has_code_reply [OF r]] reply_carries [of tx User_msg w1 res w'] r assms(4) [OF s [THEN trans]]
  have "iAMProtobufClient_GetUser L N cx (NewIAMProtobufClient L base cl []) (UserLookup_msg userId) w =
      (w', remote ''User'' ''GetUser'' c)"
    by blast
  with remote_reply_res [OF r, of user_of id] s show ?thesis
    by (simp add: wire_GetUser_def map_sum.id prod.map_id)
qed

theorem Sender_Send_over_wire:
  assumes "connected L N cx base" and "reaches N cl base (iam_server L ctx (iam_handlers tx fetchOne))"
    and "\<And>userId. encodes L ''UserLookup'' (UserLookup_msg userId)"
    and "\<And>userId w w' u. GetUser fetchOne userId w = (w', Inr u) \<Longrightarrow> encodes L ''User'' (User_msg u)"
  shows "map_option hop_err (Sender_Send (wire_GetUser L N cx (NewIAMProtobufClient L base cl [])) send del message w) =
    map_option hop_err (Sender_Send (GetUser fetchOne) send del message w)"
  by (auto simp: Sender_Send_def wire_GetUser_hop [OF assms] split: option.split delivery.split prod.split sum.split)

section \<open>Errors of the network\<close>

lemma errorFromResponse_other:
  "(\<And>bytes tj. ReadAll (hp_Body resp) = Inr bytes \<Longrightarrow> json_Decode bytes = Some tj \<Longrightarrow> tj_Code tj \<noteq> ''not_found'') \<Longrightarrow>
    tw_code (errorFromResponse L resp) \<noteq> T_NotFound"
  using NotFound_from_twirp by blast

lemma to_go_other: "is_twirp e \<Longrightarrow> tw_code e \<noteq> T_NotFound \<Longrightarrow> to_go e = Foreign 0"
  by (cases e) (simp_all add: to_go_def)

lemma aborted_other [simp]: "is_twirp (aborted e)" "tw_code (aborted e) = T_Internal"
  by (simp_all add: aborted_def)

lemma failed_request:
  assumes "tc_hooks c = None"
    and "\<And>req w w' resp. client_Do N (tc_client c) req w = (w', Inr resp) \<Longrightarrow> hp_Status resp \<noteq> 200 \<and>
      (\<forall>bytes tj. ReadAll (hp_Body resp) = Inr bytes \<longrightarrow> json_Decode bytes = Some tj \<longrightarrow> tj_Code tj \<noteq> ''not_found'')"
  shows "\<exists>w' e. doProtobufRequest L N cx c url U m w = (w', Inl e) \<and> is_twirp e \<and> tw_code e \<noteq> T_NotFound"
proof (cases "wl_Marshal L m")
  case (Inl e)
  then show ?thesis
    by (simp add: doProtobufRequest_def)
next
  case (Inr b)
  have "\<exists>w' e. do_request L N cx c url ctype b fin w = (w', Inl e) \<and> is_twirp e \<and> tw_code e \<noteq> T_NotFound" for ctype fin
  proof (cases "cx_Err cx w")
    case None
    note none = this
    show ?thesis
    proof (cases "twirp_newRequest L cx url b ctype")
      case (Inl e)
      with none show ?thesis
        by (simp add: do_request_def)
    next
      case (Inr req)
      obtain w2 res where d: "client_Do N (tc_client c) req w = (w2, res)"
        by fastforce
      show ?thesis
      proof (cases res)
        case (Inl e)
        with none Inr d assms(1) show ?thesis
          by (simp add: do_request_def)
      next
        case (Inr resp)
        have "hp_Status resp \<noteq> 200" "tw_code (errorFromResponse L resp) \<noteq> T_NotFound"
          using assms(2) [OF d [unfolded Inr]] errorFromResponse_other by blast+
        with none \<open>twirp_newRequest L cx url b ctype = Inr req\<close> d Inr assms(1) show ?thesis
          by (simp add: do_request_def closing_def Let_def is_twirp_response split: option.split)
      qed
    qed
  qed (simp add: do_request_def)
  with Inr show ?thesis
    by (simp add: doProtobufRequest_def)
qed


text \<open>
  C13: What a server writes for an error is read back by the client as an error of the same code; a
  message of up to a million ASCII bytes comes back as it was.
\<close>

theorem twirp_error_roundtrip:
  assumes "tw_code (twirp_of err) \<noteq> T_NoError" and "writeError wr hooks err w = (w', r)"
    and "errorFromResponse L (received (written r)) = err'"
  shows "is_twirp err' \<and> tw_code err' = tw_code (twirp_of err) \<and>
    (list_all ascii (tw_msg (twirp_of err)) \<and> length (tw_msg (twirp_of err)) \<le> 1000000 \<longrightarrow>
       tw_msg err' = tw_msg (twirp_of err))"
proof -
  have "written r = plain_response (ServerHTTPStatusFromErrorCode (tw_code (twirp_of err))) ''application/json''
      (marshalErrorToJSON (twirp_of err))"
    using assms(2) by (auto simp: writeError_def twirp_of_def Let_def)
  with errorFromResponse_remote [OF assms(1), of L "''application/json''"] assms(3)
  have "err' = Twerr (tw_code (twirp_of err)) (sanitize (take 1000000 (tw_msg (twirp_of err))))
      (sanitized (by_key (tw_meta (twirp_of err))))"
    by simp
  then show ?thesis
    by (simp add: sanitize_ascii list_all_iff ascii_def)
qed

section \<open>Routes\<close>

lemma join_split: "join_slash (split_on CHR ''/'' s) = s"
proof (induction s)
  case (Cons c s)
  then show ?case
    by (cases "split_on CHR ''/'' s"; cases "tl (split_on CHR ''/'' s)") auto
qed simp

lemma join_slash_snoc: "ps \<noteq> [] \<Longrightarrow> join_slash (ps @ [p]) = join_slash ps @ CHR ''/'' # p"
  by (induction ps rule: join_slash.induct) auto

lemma parseTwirpPath_inverse:
  assumes "parseTwirpPath s = (prefix, service, meth)" and "prefix \<noteq> []"
  shows "s = prefix @ CHR ''/'' # service @ CHR ''/'' # meth"
proof -
  let ?ps = "split_on CHR ''/'' s"
  from assms have n: "2 \<le> length ?ps" and parts: "prefix = join_slash (take (length ?ps - 2) ?ps)"
    "service = ?ps ! (length ?ps - 2)" "meth = ?ps ! (length ?ps - 1)"
    by (auto simp: parseTwirpPath_def Let_def split: if_splits)
  from parts(1) assms(2) have ne: "take (length ?ps - 2) ?ps \<noteq> []"
    by (metis join_slash.simps(1))
  have "?ps = take (length ?ps - 2) ?ps @ drop (length ?ps - 2) ?ps"
    by simp
  also have "drop (length ?ps - 2) ?ps = [service, meth]"
    using n unfolding parts by (simp add: list_eq_iff_nth_eq less_Suc_eq nth_Cons' numeral_2_eq_2)
  finally have "?ps = (take (length ?ps - 2) ?ps @ [service]) @ [meth]"
    by simp
  then have "join_slash ?ps = (join_slash (take (length ?ps - 2) ?ps) @ CHR ''/'' # service) @ CHR ''/'' # meth"
    using ne join_slash_snoc by (metis append_is_Nil_conv)
  then show ?thesis
    by (simp add: join_split parts(1))
qed

text \<open>
  C28: The server of the rooms acts on a request only when it is a POST to the path of one of its
  three methods, with one of the two content types; it answers every other request with 404
  and leaves the state alone, and nothing panics.
\<close>

theorem rtc_server_routes:
  assumes "rtc_server L ctx svc req w = (w', r)"
    and "hq_Method req \<noteq> ''POST'' \<or>
      hq_Target req \<notin> {''/twirp/RTC/CreateRoom'', ''/twirp/RTC/StartRecording'', ''/twirp/RTC/StopRecording''} \<or>
      media_type L (header_Get (hq_Header req) ''Content-Type'') \<notin> {''application/json'', ''application/protobuf''}"
  shows "w' = w \<and> (\<exists>resp. r = Served resp \<and> sr_Status resp = 404)"
proof -
  have bad: "writeError (\<lambda>r w. (w, None)) None (badRouteError msg a b) w =
      (w, Served (plain_response 404 ''application/json'' (marshalErrorToJSON (badRouteError msg a b))))" for msg a b
    by (simp add: writeError_def badRouteError_def NewError_def Let_def)
  obtain prefix service meth where p: "parseTwirpPath (hq_Target req) = (prefix, service, meth)"
    by (metis prod_cases3)
  have "hq_Target req = ''/twirp/RTC/'' @ meth" if "prefix = ''/twirp''" "service = ''RTC''"
    using parseTwirpPath_inverse [OF p] that by simp
  with assms p show ?thesis
    by (auto simp: rTCServer_ServeHTTP_def serve_HTTP_def serve_method_def plain_server_def Let_def bad plain_response_def
        split: if_splits)
qed

section \<open>Runs\<close>

text \<open>A library that knows one message of each type of the stop, and a network with one server.\<close>

definition one_message :: "string \<Rightarrow> rpc_msg" where
  "one_message T = (if T = ''RecordingLookup'' then RecordingLookup_msg (uuid_MarshalBinary 9) [] (uuid_String 6)
     else if T = ''StopParams'' then StopParams_msg (uuid_MarshalBinary 9) (Some (Some []))
     else Recording_msg (uuid_MarshalBinary 9) [] 0 False)"

definition toy_lib :: "rpc_msg rpc_lib" where
  "toy_lib = \<lparr>wl_Marshal = (\<lambda>m. Inr (msg_type m)), wl_Unmarshal = (\<lambda>T b. Inr (one_message T)),
     wl_MarshalJSON = (\<lambda>_ _ m. Inr (msg_type m)), wl_UnmarshalJSON = (\<lambda>T b. Inr (one_message T)),
     wl_RawValue = (\<lambda>s _. Inr s), wl_TypeName = msg_type, wl_ParseURL = (\<lambda>s. Some \<lparr>ur_Scheme = ''http'', ur_Rest = s\<rparr>),
     wl_URLString = ur_Rest, wl_BadURL = (\<lambda>_. None), wl_ULower = id, wl_UTrim = id, wl_Quote = id, wl_StatusText = (\<lambda>_. [])\<rparr>"

definition net_to :: "string \<Rightarrow> 'w http_handler \<Rightarrow> 'w network" where
  "net_to base h = \<lparr>nw_Do = (\<lambda>_ req w. via base h req w), nw_Read = (\<lambda>_ w. w)\<rparr>"

definition no_deadline :: "'w call_context" where
  "no_deadline = \<lparr>cx_Err = (\<lambda>_. None), cx_Headers = None\<rparr>"

lemma toy_connected: "connected toy_lib (net_to b h) no_deadline base"
  by (simp add: connected_def sanitizeBaseURL_def toy_lib_def net_to_def no_deadline_def rpc_paths_def)

lemma net_reaches: "reaches (net_to base h) (StdClient None) base h"
  by (simp add: reaches_def net_to_def)

lemma toy_carries: "m = one_message T \<Longrightarrow> encodes toy_lib T m"
  by (simp add: encodes_def toy_lib_def)

text \<open>A registry without trackers behind a service of rooms with one active recording.\<close>

definition no_tracker :: "tracker_key \<Rightarrow> 'w \<Rightarrow> 'w \<times> tracker_state res" where
  "no_tracker k w = (w, Inl (Sentinel P_tracker ErrNotFound))"

definition toy_trackers :: "mem tracker_client" where
  "toy_trackers = trackers_client toy_lib (net_to ''http://tracker'' (registry_server toy_lib (\<lambda>_. None)
     (tracker_handlers (\<lambda>_. ([], [])) (\<lambda>_ k _. no_tracker k) no_tracker (\<lambda>_. 0)))) no_deadline ''http://tracker''"

definition toy_rooms :: "mem rtc_client" where
  "toy_rooms = rooms_client toy_lib (net_to ''http://rtc'' (rtc_server toy_lib (\<lambda>_. None)
     (rtc_handlers (\<lambda>_. ([], [])) (\<lambda>rs w. (w, Inr rs)) (\<lambda>_ w. (w, Inl EDecode)) (\<lambda>r w. (w, Inr r)) (\<lambda>_ w. (w, Inr 1))
       (\<lambda>_ w. (w, None)) (\<lambda>_. 1) (\<lambda>_. 2) (\<lambda>_. 0) toy_trackers))) no_deadline ''http://rtc''"

text \<open>The registry's NotFound comes back over both hops and the talk is ended.\<close>

theorem stopRecording_over_wire_witness:
  "stopRecording (\<lambda>_ _ _ _. (False, 1)) (recording_proto 6) quiet_queue mem_mongo toy_rooms sample_job two_talks =
     (two_talks(talk_collection := [talk_enc live_talk,
        apply_update (talk_set (only_state StateEnded)) (talk_enc recorded_talk)]), Some Deleted)"
proof -
  let ?p = "recording_proto 6" and ?tr = "direct_tracker (\<lambda>_ k _. no_tracker k) no_tracker (\<lambda>_. 0)"
  let ?rtc = "direct_rtc (\<lambda>_ w. (w, Inl EDecode)) (\<lambda>r w. (w, Inr r)) (\<lambda>_ w. (w, Inr 1)) (\<lambda>_ w. (w, None))
    (\<lambda>_. 1) (\<lambda>_. 2) (\<lambda>_. 0) ?tr :: mem rtc_client"
  have msg: "pb_Unmarshal ?p KStopRecording (jb_Body sample_job) = Inr (JStopRecording (uuid_MarshalBinary 6) (uuid_MarshalBinary 9))"
    by (simp add: recording_proto_def toy_proto_def)
  have nf: "rt_StopRecording ?rtc (uuid_MarshalBinary 9) k two_talks = (two_talks, Some twirp_NotFound)" for k
    by (simp add: direct_rtc_def direct_tracker_def rpc_StopRecording_def tracker_Stop_def no_tracker_def no_reply_def uuid_roundtrip)
  have "stopRecording (\<lambda>_ _ _ _. (False, 1)) ?p quiet_queue mem_mongo toy_rooms sample_job two_talks =
      stopRecording (\<lambda>_ _ _ _. (False, 1)) ?p quiet_queue mem_mongo ?rtc sample_job two_talks"
    unfolding toy_rooms_def toy_trackers_def
    by (rule stopRecording_over_wire [OF toy_connected toy_connected net_reaches net_reaches msg])
      (simp_all add: toy_carries one_message_def tracker_Stop_def no_tracker_def uuid_roundtrip)
  also have "\<dots> = (two_talks(talk_collection := [talk_enc live_talk,
        apply_update (talk_set (only_state StateEnded)) (talk_enc recorded_talk)]), Some Deleted)"
    using stopRecording_run [OF msg nf] move_on_mem [of 6] by (simp add: set_and_def)
  finally show ?thesis .
qed

text \<open>A proxy with a page of its own.\<close>

definition page_404 :: http_response where
  "page_404 = \<lparr>hp_Status = 404, hp_Header = [], hp_Body = \<lparr>bd_Data = ''404 page not found'', bd_Err = None\<rparr>, hp_Close = None\<rparr>"


theorem twirp_error_roundtrip_witness:
  "tw_code (errorFromResponse toy_lib (received (written (snd (writeError (\<lambda>r w. (w, None)) None
     (NewError T_NotFound ''Tracker not found.'') ()))))) = T_NotFound"
  using twirp_error_roundtrip [of "NewError T_NotFound ''Tracker not found.''" "\<lambda>r w. (w, None)" None "()" _ _ toy_lib,
      OF _ prod.collapse [symmetric] refl]
  by (simp add: twirp_code)

definition idle_rooms :: "'w RTC" where
  "idle_rooms = \<lparr>RTC_CreateRoom = (\<lambda>m w. (w, wrong_type)), RTC_StartRecording = (\<lambda>m w. (w, wrong_type)),
     RTC_StopRecording = (\<lambda>m w. (w, wrong_type))\<rparr>"

theorem rtc_server_routes_witness:
  "\<exists>resp. rtc_server toy_lib (\<lambda>_. None) idle_rooms \<lparr>hq_Method = ''GET'', hq_Target = ''/twirp/RTC/CreateRoom'', hq_Header = [],
      hq_Body = \<lparr>bd_Data = [], bd_Err = None\<rparr>\<rparr> () = ((), Served resp) \<and> sr_Status resp = 404"
proof -
  let ?req = "\<lparr>hq_Method = ''GET'', hq_Target = ''/twirp/RTC/CreateRoom'', hq_Header = [],
      hq_Body = \<lparr>bd_Data = [], bd_Err = None\<rparr>\<rparr>"
  obtain w' r where s: "rtc_server toy_lib (\<lambda>_. None) idle_rooms ?req () = (w', r)"
    by (metis surj_pair)
  from rtc_server_routes [OF this] show ?thesis
    unfolding s by simp
qed

end
