(* ===== verification/Auth.thy ===== *)
theory Auth
  imports Email
begin

text \<open>
  Tokens and requests: \<^verbatim>\<open>services/internal/auth\<close> (keys, claims, contexts), the parsing of
  identifiers and numbers in request arguments, and \<^verbatim>\<open>services/internal/routes\<close>.  The
  signature of a token is the parameter \<open>jwt\<close>; the claims are JSON objects, as the struct tags
  name their fields.

  The lemmas show that an access token gives back its account until it expires and no longer,
  and that the two kinds of claims are told apart in one direction only: an access token is
  never taken for a proof of an address, but the token in a login e-mail is accepted as an
  access token of a guest with the nil account id.
\<close>

section \<open>Identifiers and numbers in text\<close>

text \<open>\<^verbatim>\<open>uuid.Parse\<close> of \<^verbatim>\<open>google/uuid\<close>: the plain form, a urn, braces, or no dashes.\<close>

definition xvalue :: "char \<Rightarrow> nat option" where
  "xvalue c = (let n = (of_char c :: nat) in
     if 48 \<le> n \<and> n \<le> 57 then Some (n - 48)
     else if 65 \<le> n \<and> n \<le> 70 then Some (n - 55)
     else if 97 \<le> n \<and> n \<le> 102 then Some (n - 87) else None)"

definition xtob :: "char \<Rightarrow> char \<Rightarrow> byte option" where
  "xtob a b = (case (xvalue a, xvalue b) of (Some x, Some y) \<Rightarrow> Some (word_of_nat (16 * x + y)) | _ \<Rightarrow> None)"

fun xbytes :: "string \<Rightarrow> nat list \<Rightarrow> byte list option" where
  "xbytes s [] = Some []"
| "xbytes s (i # is) = (case (xtob (s ! i) (s ! Suc i), xbytes s is) of
     (Some b, Some bs) \<Rightarrow> Some (b # bs) | _ \<Rightarrow> None)"

definition uuid_of_digits :: "string \<Rightarrow> nat list \<Rightarrow> uuid res" where
  "uuid_of_digits s is = (case xbytes s is of
     None \<Rightarrow> Inl (New ''invalid UUID format'') | Some bs \<Rightarrow> uuid_UnmarshalBinary bs)"

definition uuid_dashed :: "string \<Rightarrow> uuid res" where
  "uuid_dashed s =
     (if s ! 8 \<noteq> CHR ''-'' \<or> s ! 13 \<noteq> CHR ''-'' \<or> s ! 18 \<noteq> CHR ''-'' \<or> s ! 23 \<noteq> CHR ''-''
      then Inl (New ''invalid UUID format'')
      else uuid_of_digits s [0, 2, 4, 6, 9, 11, 14, 16, 19, 21, 24, 26, 28, 30, 32, 34])"

definition uuid_Parse :: "string \<Rightarrow> uuid res" where
  "uuid_Parse s =
     (if length s = 36 then uuid_dashed s
      else if length s = 45 then
        (if map lower_char (take 9 s) \<noteq> ''urn:uuid:'' then Inl (New ''invalid urn prefix'') else uuid_dashed (drop 9 s))
      else if length s = 38 then uuid_dashed (drop 1 s)
      else if length s = 32 then uuid_of_digits s (map ((*) 2) [0..<16])
      else Inl (New ''invalid UUID length''))"

lemma xvalue_digit: "n < 16 \<Longrightarrow> xvalue (hex_digit n) = Some n"
  unfolding xvalue_def Let_def by (simp add: hex_digit_code)

lemma xtob_byte: "xtob (hex_digit (unat b div 16)) (hex_digit (unat b mod 16)) = Some b"
proof -
  have "unat b div 16 < 16"
    using byte_bound [of b] by simp
  then have "xtob (hex_digit (unat b div 16)) (hex_digit (unat b mod 16)) =
      Some (word_of_nat (16 * (unat b div 16) + unat b mod 16))"
    by (simp only: xtob_def xvalue_digit prod.case option.case mod_less_divisor zero_less_numeral)
  then show ?thesis
    unfolding mult_div_mod_eq by simp
qed

lemma uuid_Parse_String [simp]: "uuid_Parse (uuid_String u) = Inr u"
proof -
  let ?b = "uuid_MarshalBinary u"
  have "length ?b = Suc (Suc (Suc (Suc (Suc (Suc (Suc (Suc (Suc (Suc (Suc (Suc (Suc (Suc (Suc (Suc 0)))))))))))))))"
    by simp
  then obtain b0 b1 b2 b3 b4 b5 b6 b7 b8 b9 b10 b11 b12 b13 b14 b15 where
    b: "?b = [b0, b1, b2, b3, b4, b5, b6, b7, b8, b9, b10, b11, b12, b13, b14, b15]"
    unfolding length_Suc_conv by auto
  have "uuid_dashed (uuid_String u) = uuid_UnmarshalBinary ?b"
    by (simp add: uuid_dashed_def uuid_of_digits_def uuid_String_def b hex_byte_def xtob_byte)
  then show ?thesis
    by (simp add: uuid_Parse_def)
qed

text \<open>\<^verbatim>\<open>fmt.Sprint\<close> of an integer, and \<^verbatim>\<open>strconv.ParseInt(s, 10, 64)\<close>.\<close>

fun parse_digits :: "nat \<Rightarrow> string \<Rightarrow> nat option" where
  "parse_digits acc [] = Some acc"
| "parse_digits acc (c # cs) = (let n = (of_char c :: nat) in
     if 48 \<le> n \<and> n \<le> 57 then parse_digits (10 * acc + (n - 48)) cs else None)"

definition ParseInt64 :: "string \<Rightarrow> int res" where
  "ParseInt64 s =
     (let neg = (s \<noteq> [] \<and> hd s = CHR ''-'');
          ds = (if s \<noteq> [] \<and> (hd s = CHR ''-'' \<or> hd s = CHR ''+'') then tl s else s) in
      case (if ds = [] then None else parse_digits 0 ds) of
        None \<Rightarrow> Inl (New ''invalid syntax'')
      | Some n \<Rightarrow> if neg then (if n \<le> 2 ^ 63 then Inr (- int n) else Inl (New ''value out of range''))
          else (if n < 2 ^ 63 then Inr (int n) else Inl (New ''value out of range'')))"

lemma parse_digits_snoc:
  "parse_digits acc (xs @ [c]) = (case parse_digits acc xs of None \<Rightarrow> None | Some n \<Rightarrow> parse_digits n [c])"
  by (induction xs arbitrary: acc) (auto simp: Let_def)

lemma parse_nat_digits: "parse_digits 0 (nat_digits n) = Some n"
proof (induction n rule: nat_digits.induct)
  case (1 n)
  have "parse_digits m [char_of (48 + n mod 10)] = Some (10 * m + n mod 10)" for m
    by (simp add: Let_def)
  with 1 show ?case
    by (subst nat_digits.simps) (simp add: parse_digits_snoc Let_def)
qed

lemma nat_digits_hd: "nat_digits n \<noteq> [] \<and> hd (nat_digits n) \<noteq> CHR ''-'' \<and> hd (nat_digits n) \<noteq> CHR ''+''"
proof (induction n rule: nat_digits.induct)
  case (1 n)
  have "char_of (48 + n) \<noteq> CHR ''-'' \<and> char_of (48 + n) \<noteq> CHR ''+''" if "n < 10"
  proof -
    have "(of_char (char_of (48 + n) :: char) :: nat) = 48 + n"
      using that by simp
    then show ?thesis
      by (auto dest: arg_cong [where f = "of_char :: char \<Rightarrow> nat"])
  qed
  with 1 show ?case
    by (subst (1 2 3) nat_digits.simps) (simp add: hd_append)
qed

lemma ParseInt64_Sprint [simp]: "- (2 ^ 63) \<le> i \<Longrightarrow> i < 2 ^ 63 \<Longrightarrow> ParseInt64 (Sprint_int i) = Inr i"
  using nat_digits_hd [of "nat i"] by (auto simp: ParseInt64_def Sprint_int_def parse_nat_digits Let_def nat_digits_hd)

section \<open>Requests\<close>

text \<open>
  What the handlers read of a request: the method, the \<^verbatim>\<open>Authorization\<close> header (empty when
  missing), the cookies in order, and the query parameter \<^verbatim>\<open>t\<close>.
\<close>

record request =
  rq_Method :: string
  rq_Authorization :: string
  rq_Cookies :: "(string \<times> string) list"
  rq_T :: "string list option"

definition HTTPContext_Token :: "request \<Rightarrow> string" where
  "HTTPContext_Token r = (let parts = split_on CHR '' '' (rq_Authorization r) in
     if length parts < 2 then '''' else if parts ! 0 \<noteq> ''Bearer'' then '''' else parts ! 1)"

definition WSockContext_Token :: "request \<Rightarrow> string" where
  "WSockContext_Token r = (case rq_T r of None \<Rightarrow> '''' | Some t \<Rightarrow> if length t \<noteq> 1 then '''' else t ! 0)"

section \<open>Claims\<close>

datatype jval = JNum int | JText string

type_synonym jobj = "(string \<times> jval) list"

text \<open>The last of several fields of a name counts, a missing one leaves the zero value.\<close>

definition jget :: "jobj \<Rightarrow> string \<Rightarrow> jval option" where
  "jget d k = map_of (rev d) k"

definition jnum :: "jobj \<Rightarrow> string \<Rightarrow> int res" where
  "jnum d k = (case jget d k of None \<Rightarrow> Inr 0 | Some (JNum n) \<Rightarrow> Inr n | Some (JText _) \<Rightarrow> Inl (New ''json: not a number''))"

definition jtext :: "jobj \<Rightarrow> string \<Rightarrow> string res" where
  "jtext d k = (case jget d k of None \<Rightarrow> Inr '''' | Some (JText s) \<Rightarrow> Inr s | Some (JNum _) \<Rightarrow> Inl (New ''json: not a string''))"

definition juuid :: "jobj \<Rightarrow> string \<Rightarrow> uuid res" where
  "juuid d k = (case jget d k of None \<Rightarrow> Inr uuid_Nil | Some (JText s) \<Rightarrow> uuid_Parse s
     | Some (JNum _) \<Rightarrow> Inl (New ''json: not a string''))"

lemmas json_defs = jget_def jnum_def jtext_def juuid_def

text \<open>The standard claims that bear on validity, in Unix seconds; zero is left out of the JSON.\<close>

record std_claims =
  sc_ExpiresAt :: int
  sc_IssuedAt :: int
  sc_NotBefore :: int

definition Unix :: "time \<Rightarrow> int" where
  "Unix t = t div 1000000000"

definition StandardClaims_Valid :: "time \<Rightarrow> std_claims \<Rightarrow> err" where
  "StandardClaims_Valid now c = (let n = Unix now in
     if sc_NotBefore c \<noteq> 0 \<and> n < sc_NotBefore c then Some (New ''token is not valid yet'')
     else if sc_IssuedAt c \<noteq> 0 \<and> n < sc_IssuedAt c then Some (New ''Token used before issued'')
     else if sc_ExpiresAt c \<noteq> 0 \<and> \<not> n \<le> sc_ExpiresAt c then Some (New ''token is expired'')
     else None)"

definition std_json :: "std_claims \<Rightarrow> jobj" where
  "std_json c = filter (\<lambda>(k, v). v \<noteq> JNum 0)
     [(''exp'', JNum (sc_ExpiresAt c)), (''iat'', JNum (sc_IssuedAt c)), (''nbf'', JNum (sc_NotBefore c))]"

definition std_of_json :: "jobj \<Rightarrow> std_claims res" where
  "std_of_json d = (case (jnum d ''exp'', jnum d ''iat'', jnum d ''nbf'') of
     (Inr e, Inr i, Inr n) \<Rightarrow> Inr \<lparr>sc_ExpiresAt = e, sc_IssuedAt = i, sc_NotBefore = n\<rparr>
   | _ \<Rightarrow> Inl (New ''json: not a number''))"

definition emailExpire :: duration where "emailExpire = 2 * Hour"
definition apiExpire :: duration where "apiExpire = 15 * Minute"
definition guestAPIExpire :: duration where "guestAPIExpire = 24 * Hour"

definition expires :: "time \<Rightarrow> std_claims" where
  "expires t = \<lparr>sc_ExpiresAt = Unix t, sc_IssuedAt = 0, sc_NotBefore = 0\<rparr>"

record email_claims =
  ec_Std :: std_claims
  ec_ID :: string
  ec_Address :: string

text \<open>\<open>new_id\<close> is the \<^verbatim>\<open>uuid.NewString()\<close> of the call.\<close>

definition NewEmailClaims :: "uuid \<Rightarrow> time \<Rightarrow> string \<Rightarrow> email_claims" where
  "NewEmailClaims new_id now address =
     \<lparr>ec_Std = expires (now + emailExpire), ec_ID = uuid_String new_id, ec_Address = address\<rparr>"

definition EmailClaims_Valid :: "time \<Rightarrow> email_claims \<Rightarrow> err" where
  "EmailClaims_Valid now c = (case StandardClaims_Valid now (ec_Std c) of
     Some e \<Rightarrow> Some e | None \<Rightarrow> email_Validate (ec_Address c))"

definition email_claims_json :: "email_claims \<Rightarrow> jobj" where
  "email_claims_json c = std_json (ec_Std c) @ [(''id'', JText (ec_ID c)), (''adr'', JText (ec_Address c))]"

definition email_claims_of_json :: "jobj \<Rightarrow> email_claims res" where
  "email_claims_of_json d = (case (std_of_json d, jtext d ''id'', jtext d ''adr'') of
     (Inr s, Inr i, Inr a) \<Rightarrow> Inr \<lparr>ec_Std = s, ec_ID = i, ec_Address = a\<rparr>
   | _ \<Rightarrow> Inl (New ''json: cannot unmarshal''))"

definition AccountGuest :: int where "AccountGuest = 0"
definition AccountUser :: int where "AccountUser = 1"
definition AccountAdmin :: int where "AccountAdmin = 2"

lemmas account_defs = AccountGuest_def AccountUser_def AccountAdmin_def

record api_claims =
  ac_Std :: std_claims
  ac_UserID :: uuid
  ac_Account :: int

definition NewAPIClaims :: "time \<Rightarrow> uuid \<Rightarrow> int \<Rightarrow> api_claims" where
  "NewAPIClaims now userID acc = \<lparr>ac_Std = expires (now + apiExpire), ac_UserID = userID, ac_Account = acc\<rparr>"

definition NewGuesAPIClaims :: "time \<Rightarrow> uuid \<Rightarrow> api_claims" where
  "NewGuesAPIClaims now userID =
     \<lparr>ac_Std = expires (now + guestAPIExpire), ac_UserID = userID, ac_Account = AccountGuest\<rparr>"

definition APIClaims_Valid :: "time \<Rightarrow> api_claims \<Rightarrow> err" where
  "APIClaims_Valid now c = StandardClaims_Valid now (ac_Std c)"

definition APIClaims_ExpiresIn :: "api_claims \<Rightarrow> duration" where
  "APIClaims_ExpiresIn c = apiExpire"

definition AllowedWrite :: "api_claims \<Rightarrow> bool" where
  "AllowedWrite c \<longleftrightarrow> ac_Account c = AccountUser \<or> ac_Account c = AccountAdmin"

definition api_claims_json :: "api_claims \<Rightarrow> jobj" where
  "api_claims_json c = std_json (ac_Std c) @ [(''uid'', JText (uuid_String (ac_UserID c))), (''acc'', JNum (ac_Account c))]"

definition api_claims_of_json :: "jobj \<Rightarrow> api_claims res" where
  "api_claims_of_json d = (case (std_of_json d, juuid d ''uid'', jnum d ''acc'') of
     (Inr s, Inr u, Inr a) \<Rightarrow> Inr \<lparr>ac_Std = s, ac_UserID = u, ac_Account = a\<rparr>
   | _ \<Rightarrow> Inl (New ''json: cannot unmarshal''))"

lemma std_json_keys: "k \<notin> {''exp'', ''iat'', ''nbf''} \<Longrightarrow> map_of (rev (std_json c)) k = None"
  by (simp add: std_json_def)

lemma jget_append_other: "map_of ys k = None \<Longrightarrow> jget (xs @ ys) k = map_of (rev xs) k"
proof -
  assume "map_of ys k = None"
  then have "map_of (rev ys) k = None"
    by (simp add: map_of_eq_None_iff)
  then show "jget (xs @ ys) k = map_of (rev xs) k"
    by (simp add: jget_def map_add_def)
qed

lemma std_of_json_app:
  assumes "map_of ys ''exp'' = None" and "map_of ys ''iat'' = None" and "map_of ys ''nbf'' = None"
  shows "std_of_json (std_json c @ ys) = Inr c"
proof -
  have "jnum (std_json c @ ys) ''exp'' = Inr (sc_ExpiresAt c)" "jnum (std_json c @ ys) ''iat'' = Inr (sc_IssuedAt c)"
    "jnum (std_json c @ ys) ''nbf'' = Inr (sc_NotBefore c)"
    using assms by (simp_all add: jnum_def jget_append_other) (simp_all add: std_json_def)
  then show ?thesis
    by (simp add: std_of_json_def)
qed

lemma api_json_api [simp]: "api_claims_of_json (api_claims_json c) = Inr c"
  by (simp add: api_claims_of_json_def api_claims_json_def std_of_json_app) (simp add: json_defs)

lemma email_json_email [simp]: "email_claims_of_json (email_claims_json c) = Inr c"
  by (simp add: email_claims_of_json_def email_claims_json_def std_of_json_app) (simp add: json_defs)

lemma email_json_api:
  "api_claims_of_json (email_claims_json c) = Inr \<lparr>ac_Std = ec_Std c, ac_UserID = uuid_Nil, ac_Account = AccountGuest\<rparr>"
proof -
  have "jget (email_claims_json c) ''uid'' = None" "jget (email_claims_json c) ''acc'' = None"
    by (simp_all add: email_claims_json_def jget_append_other std_json_keys)
  then show ?thesis
    by (simp add: api_claims_of_json_def jnum_def juuid_def AccountGuest_def)
      (simp add: email_claims_json_def std_of_json_app)
qed

lemma api_json_email:
  "email_claims_of_json (api_claims_json c) = Inr \<lparr>ec_Std = ac_Std c, ec_ID = '''', ec_Address = ''''\<rparr>"
proof -
  have "jget (api_claims_json c) ''id'' = None" "jget (api_claims_json c) ''adr'' = None"
    by (simp_all add: api_claims_json_def jget_append_other std_json_keys)
  then show ?thesis
    by (simp add: email_claims_of_json_def jtext_def) (simp add: api_claims_json_def std_of_json_app)
qed

section \<open>Keys\<close>

text \<open>
  The signature library: \<open>jw_Sign\<close> makes a token of the claims with the secret key, \<open>jw_Parse\<close>
  checks the form, the method and the signature with the public key and decodes the claims.
\<close>

record jwt =
  jw_Sign :: "jobj \<Rightarrow> string res"
  jw_Parse :: "string \<Rightarrow> jobj res"

definition jwt_laws :: "jwt \<Rightarrow> bool" where
  "jwt_laws j \<longleftrightarrow> (\<forall>d t. jw_Sign j d = Inr t \<longrightarrow> jw_Parse j t = Inr d)"

definition SecretKey_Sign :: "jwt \<Rightarrow> jobj \<Rightarrow> string res" where
  "SecretKey_Sign j claims = (case jw_Sign j claims of Inl e \<Rightarrow> Inl e | Inr t \<Rightarrow> Inr t)"

text \<open>
  The library also asks the claims whether they are valid; of several faults of a token it
  reports one, and the callers use none.
\<close>

definition PublicKey_Verify :: "jwt \<Rightarrow> (jobj \<Rightarrow> 'c res) \<Rightarrow> ('c \<Rightarrow> err) \<Rightarrow> string \<Rightarrow> 'c res" where
  "PublicKey_Verify j decode valid token = (case jw_Parse j token of
      Inl e \<Rightarrow> Inl e
    | Inr d \<Rightarrow> (case decode d of
        Inl e \<Rightarrow> Inl e
      | Inr claims \<Rightarrow> (case valid claims of Some e \<Rightarrow> Inl e | None \<Rightarrow> Inr claims)))"

definition Verify_api :: "jwt \<Rightarrow> time \<Rightarrow> string \<Rightarrow> api_claims res" where
  "Verify_api j now = PublicKey_Verify j api_claims_of_json (APIClaims_Valid now)"

definition Verify_email :: "jwt \<Rightarrow> time \<Rightarrow> string \<Rightarrow> email_claims res" where
  "Verify_email j now = PublicKey_Verify j email_claims_of_json (EmailClaims_Valid now)"

lemma expires_Valid:
  assumes "0 < Unix t"
  shows "StandardClaims_Valid now (expires t) = None \<longleftrightarrow> Unix now \<le> Unix t"
  using assms by (auto simp: StandardClaims_Valid_def expires_def)

text \<open>The token of a login e-mail, read as an access token.\<close>

lemma email_token_verifies:
  assumes "jwt_laws j" and "SecretKey_Sign j (email_claims_json (NewEmailClaims i now a)) = Inr t"
    and "0 < Unix (now + emailExpire)"
  shows "Verify_api j now' t = (case StandardClaims_Valid now' (expires (now + emailExpire)) of
      Some e \<Rightarrow> Inl e
    | None \<Rightarrow> Inr \<lparr>ac_Std = expires (now + emailExpire), ac_UserID = uuid_Nil, ac_Account = AccountGuest\<rparr>)"
    and "StandardClaims_Valid now' (expires (now + emailExpire)) = None \<longleftrightarrow> Unix now' \<le> Unix (now + emailExpire)"
proof -
  have "jw_Parse j t = Inr (email_claims_json (NewEmailClaims i now a))"
    using assms(1,2) by (auto simp: jwt_laws_def SecretKey_Sign_def split: sum.splits)
  then show "Verify_api j now' t = (case StandardClaims_Valid now' (expires (now + emailExpire)) of
      Some e \<Rightarrow> Inl e
    | None \<Rightarrow> Inr \<lparr>ac_Std = expires (now + emailExpire), ac_UserID = uuid_Nil, ac_Account = AccountGuest\<rparr>)"
    by (auto simp: Verify_api_def PublicKey_Verify_def APIClaims_Valid_def email_json_api NewEmailClaims_def
        split: option.splits)
qed (rule expires_Valid [OF assms(3)])

lemma empty_address_invalid: "email_Validate '''' \<noteq> None"
proof -
  have "\<not> MatchString emailPattern ''''"
    by code_simp
  then show ?thesis
    by (simp add: email_Validate_def)
qed

lemma api_token_verifies:
  assumes "jwt_laws j" and "SecretKey_Sign j (api_claims_json (NewAPIClaims now u acc)) = Inr t"
    and "0 < Unix (now + apiExpire)"
  shows "case Verify_api j now' t of
      Inr c \<Rightarrow> Unix now' \<le> Unix (now + apiExpire) \<and> ac_UserID c = u \<and> ac_Account c = acc \<and>
        (AllowedWrite c \<longleftrightarrow> acc \<in> {AccountUser, AccountAdmin})
    | Inl _ \<Rightarrow> Unix (now + apiExpire) < Unix now'"
proof -
  have "jw_Parse j t = Inr (api_claims_json (NewAPIClaims now u acc))"
    using assms(1,2) by (auto simp: jwt_laws_def SecretKey_Sign_def split: sum.splits)
  then show ?thesis
    using expires_Valid [OF assms(3), of now']
    by (auto simp: Verify_api_def PublicKey_Verify_def APIClaims_Valid_def NewAPIClaims_def AllowedWrite_def
        split: option.splits)
qed


text \<open>
  The token of a login e-mail passes for an access token: for two hours it verifies as the
  claims of a guest without an account, the nil id.  The converse does not hold: an access
  token never verifies as a proof of an address.
\<close>

theorem token_kinds_confused:
  assumes "jwt_laws j"
  shows "(SecretKey_Sign j (email_claims_json (NewEmailClaims i now a)) = Inr t \<and> 0 < Unix (now + emailExpire) \<longrightarrow>
      (case Verify_api j now' t of
         Inr c \<Rightarrow> Unix now' \<le> Unix (now + emailExpire) \<and> ac_UserID c = uuid_Nil \<and> \<not> AllowedWrite c
       | Inl _ \<Rightarrow> Unix (now + emailExpire) < Unix now')) \<and>
    (SecretKey_Sign j (api_claims_json c) = Inr t \<longrightarrow> \<not> is_ok (Verify_email j now' t))"
proof (intro conjI impI)
  assume a: "SecretKey_Sign j (email_claims_json (NewEmailClaims i now a)) = Inr t \<and> 0 < Unix (now + emailExpire)"
  from email_token_verifies [OF assms(1) conjunct1 [OF a] conjunct2 [OF a], of now']
  show "case Verify_api j now' t of
         Inr c \<Rightarrow> Unix now' \<le> Unix (now + emailExpire) \<and> ac_UserID c = uuid_Nil \<and> \<not> AllowedWrite c
       | Inl _ \<Rightarrow> Unix (now + emailExpire) < Unix now'"
    by (cases "StandardClaims_Valid now' (expires (now + emailExpire))") (auto simp: AllowedWrite_def account_defs)
next
  assume "SecretKey_Sign j (api_claims_json c) = Inr t"
  then have "jw_Parse j t = Inr (api_claims_json c)"
    using assms by (auto simp: jwt_laws_def SecretKey_Sign_def split: sum.splits)
  then show "\<not> is_ok (Verify_email j now' t)"
    using empty_address_invalid
    by (auto simp: is_ok_iff Verify_email_def PublicKey_Verify_def api_json_email EmailClaims_Valid_def split: option.splits)
qed

section \<open>Runs\<close>

text \<open>A key with one pair of claims and one token.\<close>

definition toy_jwt :: "jobj \<Rightarrow> jwt" where
  "toy_jwt d = \<lparr>jw_Sign = (\<lambda>x. if x = d then Inr ''tok'' else Inl (Foreign 1)),
     jw_Parse = (\<lambda>t. if t = ''tok'' then Inr d else Inl (Foreign 2))\<rparr>"

lemma toy_jwt_laws: "jwt_laws (toy_jwt d)"
  by (simp add: jwt_laws_def toy_jwt_def)


theorem token_kinds_confused_witness:
  "case Verify_api (toy_jwt (email_claims_json (NewEmailClaims 5 0 ''a@b''))) Second ''tok'' of
     Inr c \<Rightarrow> ac_UserID c = uuid_Nil | Inl _ \<Rightarrow> False"
proof -
  have "SecretKey_Sign (toy_jwt (email_claims_json (NewEmailClaims 5 0 ''a@b''))) (email_claims_json (NewEmailClaims 5 0 ''a@b''))
      = Inr ''tok''"
    by (simp add: SecretKey_Sign_def toy_jwt_def)
  with token_kinds_confused [OF toy_jwt_laws, of "email_claims_json (NewEmailClaims 5 0 ''a@b'')" 5 0 "''a@b''" "''tok''" Second] show ?thesis
    by (auto simp: emailExpire_def duration_defs Unix_def split: sum.splits)
qed

section \<open>Resolver errors\<close>

text \<open>Each GraphQL service declares the same error type: a code among the extensions, and a message.\<close>

record resolver_error =
  re_Code :: string
  re_Message :: string

definition NewResolverError :: "string \<Rightarrow> string \<Rightarrow> resolver_error" where
  "NewResolverError code message = \<lparr>re_Code = code, re_Message = message\<rparr>"

definition CodeBadRequest :: string where "CodeBadRequest = ''BAD_REQUEST''"
definition CodeUnauthorized :: string where "CodeUnauthorized = ''UNAUTHORIZED''"
definition CodeDuplicateEntry :: string where "CodeDuplicateEntry = ''DUPLICATE_ENTRY''"
definition CodeNotFound :: string where "CodeNotFound = ''NOT_FOUND''"
definition CodeUnknown :: string where "CodeUnknown = ''UNKNOWN_CODE''"

lemmas code_defs = CodeBadRequest_def CodeUnauthorized_def CodeDuplicateEntry_def CodeNotFound_def CodeUnknown_def

definition NewInternalError :: resolver_error where
  "NewInternalError = NewResolverError CodeUnknown ''internal system error''"

type_synonym 'a gql = "resolver_error + 'a"

section \<open>Routes\<close>

text \<open>
  \<^verbatim>\<open>net/url\<close>: escaping in a query and in a path, and the text of an address with scheme and
  host (the services are configured with both).  \<open>join_slash\<close> joins clean elements.
\<close>

definition unreserved :: "char \<Rightarrow> bool" where
  "unreserved c = (let n = (of_char c :: nat) in (48 \<le> n \<and> n \<le> 57) \<or> (65 \<le> n \<and> n \<le> 90) \<or> (97 \<le> n \<and> n \<le> 122) \<or>
     c \<in> set ''-_.~'')"

definition hex_upper :: "nat \<Rightarrow> char" where
  "hex_upper n = (if n < 10 then char_of (48 + n) else char_of (55 + n))"

definition url_escape :: "(char \<Rightarrow> bool) \<Rightarrow> bool \<Rightarrow> string \<Rightarrow> string" where
  "url_escape keep sp s = concat (map (\<lambda>c. if keep c then [c] else if sp \<and> c = CHR '' '' then ''+''
     else [CHR ''%'', hex_upper (of_char c div 16), hex_upper (of_char c mod 16)]) s)"

definition QueryEscape :: "string \<Rightarrow> string" where
  "QueryEscape = url_escape unreserved True"

definition path_escape :: "string \<Rightarrow> string" where
  "path_escape = url_escape (\<lambda>c. unreserved c \<or> c \<in> set ''$&+,/:;=@'') False"

definition url_String :: "string \<Rightarrow> string \<Rightarrow> string \<Rightarrow> string \<Rightarrow> string" where
  "url_String scheme host path query = (let p = path_escape path in
     scheme @ ''://'' @ host @ (if p \<noteq> '''' \<and> hd p \<noteq> CHR ''/'' then ''/'' else '''') @ p @
     (if query \<noteq> '''' then ''?'' @ query else ''''))"

definition Pages_Login :: "string \<Rightarrow> string \<Rightarrow> string \<Rightarrow> string \<Rightarrow> string" where
  "Pages_Login scheme host action token = url_String scheme host (join_slash [''acc'', ''login''])
     (''action='' @ QueryEscape action @ ''&token='' @ QueryEscape token)"

definition Pages_Confa :: "string \<Rightarrow> string \<Rightarrow> string \<Rightarrow> string" where
  "Pages_Confa scheme host confaHandle = url_String scheme host confaHandle ''''"

definition Pages_Talk :: "string \<Rightarrow> string \<Rightarrow> string \<Rightarrow> string \<Rightarrow> string" where
  "Pages_Talk scheme host confaHandle talkHandle = url_String scheme host (join_slash [confaHandle, talkHandle]) ''''"

definition Storage_Bucket :: "string \<Rightarrow> string \<Rightarrow> string \<Rightarrow> string" where
  "Storage_Bucket scheme host name = url_String scheme host name ''''"

definition Storage_ProfileAvatar :: "string \<Rightarrow> string \<Rightarrow> string \<Rightarrow> uuid \<Rightarrow> uuid \<Rightarrow> string" where
  "Storage_ProfileAvatar scheme host userPublic userID avatarID =
     url_String scheme host (join_slash [userPublic, uuid_String userID, uuid_String avatarID]) ''''"

text \<open>A handle is its own path, and a token of the alphabet of JSON web tokens its own query.\<close>

lemma url_escape_keep: "list_all keep s \<Longrightarrow> url_escape keep sp s = s"
  by (induction s) (simp_all add: url_escape_def)

end
