(* ===== verification/Web_Entry.thy ===== *)
theory Web_Entry
  imports Twirp Auth Queue
begin

text \<open>
  Where requests and jobs come in: the trace of a context (\<^verbatim>\<open>internal/platform/trace\<close>), the plugins
  of the gateway (\<^verbatim>\<open>cmd/gateway/plugins.go\<close>), and the outermost handlers of the services with
  their routers and wrappers (\<^verbatim>\<open>cmd/{confa,iam,rtc}/web\<close>, \<^verbatim>\<open>cmd/sender-clients/web\<close>).

  A trace id is drawn by the gateway or by the account service and handed on in a header and in
  every job; the theorems show that the id a client is answered with is the one the jobs
  of its request run under, unless the client sent a trace of its own.
\<close>

section \<open>Traces\<close>

text \<open>
  The part of a context the services read: the trace, the fields of the logger, the headers for
  the requests to other services, and the token of the caller.
\<close>

record trace_ctx =
  ct_Trace :: "string option"
  ct_Logger :: "(string \<times> string) list"
  ct_Outgoing :: header
  ct_Token :: "string option"

definition no_ctx :: trace_ctx where
  "no_ctx = \<lparr>ct_Trace = None, ct_Logger = [], ct_Outgoing = [], ct_Token = None\<rparr>"

text \<open>The logger is made anew from the global one: other fields are dropped.\<close>

definition trace_New :: "trace_ctx \<Rightarrow> string \<Rightarrow> trace_ctx" where
  "trace_New ctx t = ctx\<lparr>ct_Logger := [(''traceId'', t)], ct_Trace := Some t\<rparr>"

text \<open>\<open>fresh\<close> is the text of the id that is drawn when there is no trace.\<close>

definition trace_Ctx :: "string \<Rightarrow> trace_ctx \<Rightarrow> trace_ctx \<times> string" where
  "trace_Ctx fresh ctx = (let t = (case ct_Trace ctx of Some t \<Rightarrow> t | None \<Rightarrow> fresh)
     in (trace_New (ctx\<lparr>ct_Logger := [(''traceId'', t)]\<rparr>) t, t))"

definition trace_ID :: "string \<Rightarrow> trace_ctx \<Rightarrow> string" where
  "trace_ID fresh ctx = snd (trace_Ctx fresh ctx)"

lemma trace_facts [simp]:
  "ct_Trace (trace_New ctx t) = Some t" "ct_Outgoing (trace_New ctx t) = ct_Outgoing ctx" "ct_Token (trace_New ctx t) = ct_Token ctx"
  "trace_ID fresh (trace_New ctx t) = t"
  by (simp_all add: trace_New_def trace_ID_def trace_Ctx_def)

section \<open>Requests\<close>

record web_request =
  wb_Path :: string
  wb_Header :: header
  wb_Auth :: request

text \<open>
  The outcome of a handler: the status it wrote, or a panic, after a status was written or not.
  The headers of the response are given back with it.
\<close>

datatype web_result = Wrote int | WebPanic "int option"

text \<open>A handler works on a context, a request, the headers of its response and the state.\<close>

type_synonym 'w web_handler = "trace_ctx \<Rightarrow> web_request \<Rightarrow> header \<Rightarrow> 'w \<Rightarrow> 'w \<times> header \<times> web_result"

text \<open>The deferred \<^verbatim>\<open>recover\<close>: 500, where nothing was written before.\<close>

fun recovered :: "'w \<times> header \<times> web_result \<Rightarrow> 'w \<times> header \<times> web_result" where
  "recovered (w, h, Wrote s) = (w, h, Wrote s)"
| "recovered (w, h, WebPanic (Some s)) = (w, h, Wrote s)"
| "recovered (w, h, WebPanic None) = (w, h, Wrote 500)"

text \<open>
  \<^verbatim>\<open>http.ServeMux\<close> for clean paths: the pattern itself, else the longest pattern that ends in a
  slash and begins the path; a path that only lacks the slash is redirected there.
\<close>

datatype 'e matched = Matched 'e | RedirectSlash | NoMatch

definition begins :: "string \<Rightarrow> string \<Rightarrow> bool" where
  "begins pattern path = (pattern \<noteq> [] \<and> last pattern = CHR ''/'' \<and> take (length pattern) path = pattern)"

definition mux :: "(string \<times> 'e) list \<Rightarrow> string \<Rightarrow> 'e matched" where
  "mux patterns path = (case map_of patterns path of
      Some e \<Rightarrow> Matched e
    | None \<Rightarrow> if path @ ''/'' \<in> fst ` set patterns then RedirectSlash
        else (case sort_key (\<lambda>(p, e). - int (length p)) (filter (\<lambda>(p, e). begins p path) patterns) of
            [] \<Rightarrow> NoMatch
          | (p, e) # _ \<Rightarrow> Matched e))"

definition serve_mux :: "(string \<times> 'w web_handler) list \<Rightarrow> 'w web_handler" where
  "serve_mux patterns ctx r h w = (case mux patterns (wb_Path r) of
      Matched f \<Rightarrow> f ctx r h w
    | RedirectSlash \<Rightarrow> (w, header_Set ''Location'' (wb_Path r @ ''/'') h, Wrote 301)
    | NoMatch \<Rightarrow> (w, h, Wrote 404))"

section \<open>Wrappers\<close>

text \<open>The functions of a context: \<^verbatim>\<open>auth.SetContext\<close> and \<^verbatim>\<open>auth.Ctx\<close>, which panics when none is set.\<close>

definition SetContext :: "string \<Rightarrow> trace_ctx \<Rightarrow> trace_ctx" where
  "SetContext token ctx = ctx\<lparr>ct_Token := Some token\<rparr>"

definition withHTTPAuth :: "'w web_handler \<Rightarrow> 'w web_handler" where
  "withHTTPAuth f ctx r = f (SetContext (HTTPContext_Token (wb_Auth r)) ctx) r"

definition withWebSocketAuth :: "'w web_handler \<Rightarrow> 'w web_handler" where
  "withWebSocketAuth f ctx r = f (SetContext (WSockContext_Token (wb_Auth r)) ctx) r"

definition withNewTrace :: "string \<Rightarrow> 'w web_handler \<Rightarrow> 'w web_handler" where
  "withNewTrace fresh f ctx r = f (fst (trace_Ctx fresh ctx)) r"

definition web_ok :: "'w web_handler" where
  "web_ok ctx r h w = (w, h, Wrote 200)"

section \<open>The services\<close>

definition confa_NewHandler :: "'w web_handler \<Rightarrow> (string \<times> 'w web_handler) list" where
  "confa_NewHandler graph = [(''/health'', web_ok), (''/graph'', withHTTPAuth graph)]"

definition confa_ServeHTTP :: "'w web_handler \<Rightarrow> 'w web_handler" where
  "confa_ServeHTTP router ctx r h w =
     recovered (router (trace_New ctx (header_Get (wb_Header r) ''Trace-Id'')) r h w)"

definition rtc_NewHandler :: "string \<Rightarrow> 'w web_handler \<Rightarrow> 'w web_handler \<Rightarrow> 'w web_handler \<Rightarrow> (string \<times> 'w web_handler) list" where
  "rtc_NewHandler fresh graph schema socket = [(''/health'', web_ok), (''/graph'', withHTTPAuth graph),
     (''/room/schema'', schema), (''/room/socket/'', withNewTrace fresh (withWebSocketAuth socket))]"

text \<open>Two services take a trace only when there is one in the header.\<close>

definition traced :: "trace_ctx \<Rightarrow> web_request \<Rightarrow> trace_ctx" where
  "traced ctx r = (let t = header_Get (wb_Header r) ''Trace-Id'' in if t \<noteq> [] then trace_New ctx t else ctx)"

definition rtc_ServeHTTP :: "'w web_handler \<Rightarrow> 'w web_handler" where
  "rtc_ServeHTTP router ctx r h w = recovered (router (traced ctx r) r h w)"

definition clients_ServeHTTP :: "'w web_handler \<Rightarrow> 'w web_handler" where
  "clients_ServeHTTP router ctx r h w = recovered (router (traced ctx r) r h w)"

text \<open>The handlers of the account service in the order of its routes.\<close>

record 'w iam_routes =
  ir_graph :: "'w web_handler"
  ir_fetchToken :: "'w web_handler"
  ir_createSessionByEmail :: "'w web_handler"
  ir_createSessionByCredentials :: "'w web_handler"
  ir_createSessionByGoogleSignIn :: "'w web_handler"
  ir_emailLogin :: "'w web_handler"
  ir_emailCreatePassword :: "'w web_handler"
  ir_emailResetPassword :: "'w web_handler"
  ir_logout :: "'w web_handler"
  ir_createPassword :: "'w web_handler"
  ir_updatePassword :: "'w web_handler"
  ir_resetPassword :: "'w web_handler"

definition iam_NewHandler :: "'w iam_routes \<Rightarrow> (string \<times> 'w web_handler) list" where
  "iam_NewHandler h = [(''/health'', web_ok), (''/graph'', withHTTPAuth (ir_graph h)), (''/token'', ir_fetchToken h),
     (''/session-email'', ir_createSessionByEmail h), (''/session-credentials'', ir_createSessionByCredentials h),
     (''/session-google-sign-in'', ir_createSessionByGoogleSignIn h), (''/email-login'', ir_emailLogin h),
     (''/email-create-password'', ir_emailCreatePassword h), (''/email-reset-password'', ir_emailResetPassword h),
     (''/logout'', ir_logout h), (''/password-create'', ir_createPassword h), (''/password-update'', ir_updatePassword h),
     (''/password-reset'', ir_resetPassword h)]"

definition iam_entry :: "string \<Rightarrow> 'w web_handler \<Rightarrow> 'w web_handler" where
  "iam_entry fresh router ctx r h w =
     (case trace_Ctx fresh ctx of (ctx', traceID) \<Rightarrow> recovered (router ctx' r (header_Set ''Trace-Id'' traceID h) w))"

section \<open>The gateway\<close>

definition header_Add :: "string \<Rightarrow> string \<Rightarrow> header \<Rightarrow> header" where
  "header_Add k v h = AList.update k (case map_of h k of None \<Rightarrow> [v] | Some vs \<Rightarrow> vs @ [v]) h"

definition AddOutgoing :: "string \<Rightarrow> string \<Rightarrow> trace_ctx \<Rightarrow> trace_ctx" where
  "AddOutgoing k v ctx = ctx\<lparr>ct_Outgoing := header_Add k v (ct_Outgoing ctx)\<rparr>"

definition PassHeaders :: "'w web_handler \<Rightarrow> 'w web_handler" where
  "PassHeaders f ctx r = f (fold (\<lambda>(k, vs). fold (AddOutgoing k) vs) (wb_Header r) ctx) r"

definition TraceHeader :: "string \<Rightarrow> 'w web_handler \<Rightarrow> 'w web_handler" where
  "TraceHeader fresh f ctx r h =
     (case trace_Ctx fresh ctx of (ctx', traceID) \<Rightarrow>
        f (AddOutgoing ''Trace-Id'' traceID ctx') r (header_Set ''Trace-Id'' traceID h))"

text \<open>The gateway applies its plugins so that the first of the list comes first.\<close>

definition gateway_public :: "string \<Rightarrow> 'w web_handler \<Rightarrow> 'w web_handler" where
  "gateway_public fresh f = foldr (\<lambda>plugin g. plugin g) [PassHeaders, TraceHeader fresh] f"

section \<open>Jobs\<close>

text \<open>The context of a job: the fields put into the logger before, then the trace.\<close>

definition job_ctx :: "string \<Rightarrow> string \<Rightarrow> string \<Rightarrow> trace_ctx \<Rightarrow> trace_ctx" where
  "job_ctx jobId tube t ctx = trace_New (ctx\<lparr>ct_Logger := ct_Logger ctx @ [(''jobId'', jobId), (''tube'', tube)]\<rparr>) t"

text \<open>The id and the tube of a job are in no line of its log: the trace makes the logger anew.\<close>

lemma job_logger: "ct_Logger (job_ctx jobId tube t ctx) = [(''traceId'', t)]"
  by (simp add: job_ctx_def trace_New_def)

section \<open>The trace of a request\<close>

definition values_of :: "header \<Rightarrow> string \<Rightarrow> string list" where
  "values_of h k = (case map_of h k of None \<Rightarrow> [] | Some vs \<Rightarrow> vs)"

lemma header_Get_values: "header_Get h k = (case values_of h k of [] \<Rightarrow> [] | v # vs \<Rightarrow> v)"
  by (simp add: header_Get_def values_of_def split: option.split list.split)

lemma values_Cons: "values_of ((k', vs) # h) k = (if k = k' then vs else values_of h k)"
  by (simp add: values_of_def)

lemma values_Add [simp]: "values_of (header_Add k v h) k' = values_of h k' @ (if k' = k then [v] else [])"
  by (simp add: values_of_def header_Add_def update_conv' split: option.split)

lemma AddOutgoing_facts [simp]: "ct_Trace (AddOutgoing k v c) = ct_Trace c"
  "ct_Outgoing (AddOutgoing k v c) = header_Add k v (ct_Outgoing c)"
  by (simp_all add: AddOutgoing_def)

lemma fold_AddOutgoing: "ct_Trace (fold (AddOutgoing k) vs c) = ct_Trace c"
  "values_of (ct_Outgoing (fold (AddOutgoing k) vs c)) k' = values_of (ct_Outgoing c) k' @ (if k' = k then vs else [])"
  by (induction vs arbitrary: c) auto

lemma PassHeaders_values:
  "ct_Trace (fold (\<lambda>(k, vs). fold (AddOutgoing k) vs) hs c) = ct_Trace c"
  "distinct (map fst hs) \<Longrightarrow> values_of (ct_Outgoing (fold (\<lambda>(k, vs). fold (AddOutgoing k) vs) hs c)) k =
     values_of (ct_Outgoing c) k @ values_of hs k"
proof (induction hs arbitrary: c)
  case (Cons kv hs)
  obtain k' vs where kv: "kv = (k', vs)"
    by (cases kv)
  { case 1
    with Cons.IH(1) show ?case
      by (simp add: kv fold_AddOutgoing)
  next
    case 2
    then have "map_of hs k' = None"
      by (simp add: kv map_of_eq_None_iff)
    then have "values_of hs k' = []"
      by (simp add: values_of_def)
    with 2 Cons.IH(2) show ?case
      by (auto simp: kv fold_AddOutgoing values_Cons)
  }
qed (simp_all add: values_of_def)

text \<open>
  Every query the gateway takes is answered with a trace id of the gateway's own; the services
  behind it get that id unless the client sent a trace, for then the first value of the
  header they read is the client's.
\<close>

theorem gateway_trace:
  assumes "ct_Trace ctx = None" and "values_of (ct_Outgoing ctx) ''Trace-Id'' = []" and "distinct (map fst (wb_Header r))"
  shows "\<exists>ctx' h'. (\<forall>(f :: 'w web_handler) w. gateway_public fresh f ctx r h w = f ctx' r h' w) \<and> header_Get h' ''Trace-Id'' = fresh \<and>
    header_Get (ct_Outgoing ctx') ''Trace-Id'' = (case values_of (wb_Header r) ''Trace-Id'' of [] \<Rightarrow> fresh | t # ts \<Rightarrow> t)"
proof -
  let ?c = "fold (\<lambda>(k, vs). fold (AddOutgoing k) vs) (wb_Header r) ctx"
  let ?c' = "AddOutgoing ''Trace-Id'' fresh (trace_New (?c\<lparr>ct_Logger := [(''traceId'', fresh)]\<rparr>) fresh)"
  have "gateway_public fresh f ctx r h w = f ?c' r (header_Set ''Trace-Id'' fresh h) w" for f :: "'w web_handler" and w
    using assms(1) by (simp add: gateway_public_def PassHeaders_def TraceHeader_def trace_Ctx_def PassHeaders_values)
  moreover have "values_of (ct_Outgoing ?c) ''Trace-Id'' = values_of (wb_Header r) ''Trace-Id''"
    by (simp add: PassHeaders_values(2) [OF assms(3)] assms(2))
  then have "header_Get (ct_Outgoing ?c') ''Trace-Id'' = (case values_of (wb_Header r) ''Trace-Id'' of [] \<Rightarrow> fresh | t # ts \<Rightarrow> t)"
    unfolding header_Get_values by (simp split: list.split)
  ultimately show ?thesis
    by (intro exI [of _ ?c'] exI [of _ "header_Set ''Trace-Id'' fresh h"]) simp
qed

text \<open>A query sent on to a service, whose response the gateway puts into its own.\<close>

definition query_service :: "'w web_handler \<Rightarrow> 'w web_handler" where
  "query_service service ctx r h w = (case service no_ctx (r\<lparr>wb_Header := ct_Outgoing ctx\<rparr>) [] w of (w', _, res) \<Rightarrow> (w', h, res))"

text \<open>
  A job that the conference service puts for a query of a client that sent no trace of its own
  carries, as its trace, the id the gateway answers the client with.
\<close>

theorem request_trace_reaches_jobs:
  fixes w :: 'w
  assumes "proto_laws p" and "put_law q puts" and "values_of (wb_Header r) ''Trace-Id'' = []" and "distinct (map fst (wb_Header r))"
    and "\<And>c r h w. graph c r h w = (fst (put_msg p q (trace_ID other c) mt wr tube msg params w), h, Wrote 200)"
    and "gateway_public fresh (query_service (confa_ServeHTTP graph)) no_ctx r h w = (w', h', res)"
  shows "header_Get h' ''Trace-Id'' = fresh \<and> (puts w' = puts w \<or>
    (\<exists>b payload. puts w' = puts w @ [(tube, b)] \<and> pb_UnmarshalJob p b = Inr (payload, fresh)))"
proof -
  have "ct_Trace no_ctx = None" "values_of (ct_Outgoing no_ctx) ''Trace-Id'' = []"
    by (simp_all add: no_ctx_def values_of_def)
  from gateway_trace [OF this assms(4), of fresh h] assms(3) obtain ctx' h'' where
    g: "\<And>(f :: 'w web_handler) w. gateway_public fresh f no_ctx r h w = f ctx' r h'' w" "header_Get h'' ''Trace-Id'' = fresh"
      "header_Get (ct_Outgoing ctx') ''Trace-Id'' = fresh"
    by auto
  have w': "w' = fst (put_msg p q fresh mt wr tube msg params w)" "h' = h''"
    using assms(6) by (simp_all add: g(1,3) query_service_def confa_ServeHTTP_def assms(5))
  have "puts w' = puts w \<or> (\<exists>b payload. puts w' = puts w @ [(tube, b)] \<and> pb_UnmarshalJob p b = Inr (payload, fresh))"
  proof (cases "pb_Marshal p msg")
    case (Inl e)
    with w' show ?thesis
      by (simp add: put_msg_def)
  next
    case (Inr payload)
    show ?thesis
    proof (cases "pb_MarshalJob p payload fresh")
      case (Inl e)
      with Inr w' show ?thesis
        by (simp add: put_msg_def)
    next
      case body: (Inr b)
      obtain w2 x where put: "bq_Put q tube b params w = (w2, x)"
        by fastforce
      have "pb_UnmarshalJob p b = Inr (payload, fresh)"
        using assms(1) body unfolding proto_laws_def by blast
      moreover have "w' = w2"
        using w' Inr body put by (simp add: put_msg_def split: sum.split)
      moreover have "puts w2 = (case x of Inl _ \<Rightarrow> puts w | Inr _ \<Rightarrow> puts w @ [(tube, b)])"
        using assms(2) put unfolding put_law_def by blast
      ultimately show ?thesis
        by (cases x) auto
    qed
  qed
  with g(2) w'(2) show ?thesis
    by simp
qed

section \<open>Panics and routes\<close>

text \<open>No panic of a handler leaves a service: it becomes a response, 500 when none was written.\<close>

lemma recovered_wrote: "\<exists>s. snd (snd (recovered x)) = Wrote s \<and> fst (recovered x) = fst x \<and>
    (snd (snd x) = WebPanic None \<longrightarrow> s = 500)"
  by (cases x rule: recovered.cases) auto

text \<open>
  The socket of a room gets a context with a trace and with the token of the query, and a query
  of the graph the token of the header.
\<close>

lemma rtc_socket_routed:
  assumes "wb_Path r = ''/room/socket/'' @ room"
  shows "\<exists>ctx'. rtc_ServeHTTP (serve_mux (rtc_NewHandler fresh graph schema socket)) ctx r h w = recovered (socket ctx' r h w) \<and>
    ct_Trace ctx' \<noteq> None \<and> ct_Token ctx' = Some (WSockContext_Token (wb_Auth r))"
proof -
  let ?path = "''/room/socket/'' @ room"
  have n: "\<not> begins ''/health'' ?path" "\<not> begins ''/graph'' ?path" "\<not> begins ''/room/schema'' ?path" "begins ''/room/socket/'' ?path"
    by (simp_all add: begins_def)
  have "mux (rtc_NewHandler fresh graph schema socket) ?path = Matched (withNewTrace fresh (withWebSocketAuth socket))"
    using n by (simp add: mux_def rtc_NewHandler_def)
  then show ?thesis
    using assms by (auto simp: rtc_ServeHTTP_def serve_mux_def withNewTrace_def withWebSocketAuth_def SetContext_def trace_Ctx_def
        split: option.split)
qed

end
