(* ===== verification/Event_Room.thy ===== *)
theory Event_Room
  imports Event
begin

text \<open>
  The room of \<^verbatim>\<open>services/event/shared.go\<close>: one upstream cursor fanned out to any number
  of shared cursors through a linked list of event nodes with a bounded tail.

  The list lives in a heap of nodes (\<open>rm_nodes\<close>, a node's address is its index, allocation
  appends).  The operations are functions on the room and the cursor; \<open>None\<close> is a panic
  (closing a closed channel, following a nil pointer).  Their interleaving is the step
  relation \<open>room_step\<close>: a room lock held over \<^verbatim>\<open>Room.Next\<close>, whose publication of the new
  node is visible to the cursors before the tail is retired, and cursors that check,
  wait, check again and take without any lock.
\<close>

section \<open>Nodes\<close>

record node =
  nd_hasNext :: bool \<comment> \<open>the channel has been closed\<close>
  nd_event :: event
  nd_next :: "nat option"
  nd_evicted :: bool

definition newEventNode :: "event \<Rightarrow> node" where
  "newEventNode ev = \<lparr>nd_hasNext = False, nd_event = ev, nd_next = None, nd_evicted = False\<rparr>"

definition node_SetNext :: "node list \<Rightarrow> nat \<Rightarrow> event \<Rightarrow> (node list \<times> nat) option" where
  "node_SetNext h e ev =
     (if e < length h \<and> \<not> nd_hasNext (h ! e)
      then Some ((h[e := (h ! e)\<lparr>nd_next := Some (length h), nd_hasNext := True\<rparr>])
                  @ [newEventNode ev], length h)
      else None)"

definition node_Evict :: "node list \<Rightarrow> nat \<Rightarrow> node list" where
  "node_Evict h e = h[e := (h ! e)\<lparr>nd_evicted := True\<rparr>]"

definition node_IsEvicted :: "node list \<Rightarrow> nat \<Rightarrow> bool" where
  "node_IsEvicted h e = nd_evicted (h ! e)"

definition node_ResetNext :: "node list \<Rightarrow> nat \<Rightarrow> node list option" where
  "node_ResetNext h e =
     (if nd_hasNext (h ! e) then None else Some (h[e := (h ! e)\<lparr>nd_hasNext := True\<rparr>]))"

definition node_Next :: "node list \<Rightarrow> nat \<Rightarrow> nat res" where
  "node_Next h e = (case nd_next (h ! e) of
      None \<Rightarrow> Inl (Sentinel P_event ErrCursorClosed) | Some n \<Rightarrow> Inr n)"

section \<open>The room\<close>

record room =
  rm_nodes :: "node list"
  rm_head :: nat
  rm_tail :: nat
  rm_openedCursors :: int
  rm_len :: int
  rm_cap :: int
  rm_closed :: bool \<comment> \<open>\<^verbatim>\<open>closeOnce\<close> has run\<close>

definition NewRoom :: "int \<Rightarrow> room" where
  "NewRoom maxEvents = \<lparr>rm_nodes = [newEventNode event_zero], rm_head = 0, rm_tail = 0,
     rm_openedCursors = 0, rm_len = 0, rm_cap = maxEvents, rm_closed = False\<rparr>"

text \<open>\<^verbatim>\<open>Room.Next\<close> after the upstream delivered an event, in its two visible halves.\<close>

definition room_publish :: "room \<Rightarrow> event \<Rightarrow> room option" where
  "room_publish r ev = (case node_SetNext (rm_nodes r) (rm_head r) ev of
      None \<Rightarrow> None | Some (h, n) \<Rightarrow> Some (r\<lparr>rm_nodes := h, rm_head := n\<rparr>))"

definition room_retire :: "room \<Rightarrow> room option" where
  "room_retire r =
     (if rm_len r + 1 \<le> rm_cap r then Some (r\<lparr>rm_len := rm_len r + 1\<rparr>)
      else (let h = node_Evict (rm_nodes r) (rm_tail r) in
        case nd_next (h ! rm_tail r) of
          None \<Rightarrow> None
        | Some n \<Rightarrow> Some (r\<lparr>rm_nodes := h, rm_tail := n\<rparr>)))"

text \<open>The loop of \<^verbatim>\<open>Room.close\<close>; the fuel is the number of nodes.\<close>

fun evict_from :: "nat \<Rightarrow> node list \<Rightarrow> nat option \<Rightarrow> node list" where
  "evict_from 0 h p = h"
| "evict_from (Suc k) h None = h"
| "evict_from (Suc k) h (Some e) =
     (let h' = node_Evict h e in evict_from k h' (nd_next (h' ! e)))"

definition room_close :: "room \<Rightarrow> room option" where
  "room_close r =
     (if rm_closed r then Some r
      else (let h = evict_from (length (rm_nodes r)) (rm_nodes r) (Some (rm_tail r)) in
        case node_ResetNext h (rm_head r) of
          None \<Rightarrow> None
        | Some h' \<Rightarrow> Some (r\<lparr>rm_nodes := h', rm_closed := True\<rparr>)))"

text \<open>The whole of \<^verbatim>\<open>Room.Next\<close>, given what the upstream cursor returned.\<close>

definition room_Next :: "room \<Rightarrow> event res \<Rightarrow> (room \<times> event res) option" where
  "room_Next r upstream = (case upstream of
      Inl e \<Rightarrow> (case room_close r of None \<Rightarrow> None | Some r' \<Rightarrow> Some (r', Inl e))
    | Inr ev \<Rightarrow> (case room_publish r ev of None \<Rightarrow> None
        | Some r' \<Rightarrow> (case room_retire r' of None \<Rightarrow> None | Some r'' \<Rightarrow> Some (r'', Inr ev))))"

section \<open>Shared cursors\<close>

text \<open>Where a cursor's goroutine stands inside \<^verbatim>\<open>SharedCursor.Next\<close>.\<close>

datatype cpc = CIdle | CSelect | CWoken | CTaking

text \<open>
  \<open>sc_start\<close>, \<open>sc_got\<close> and \<open>sc_last\<close> are history: the node the cursor was opened at, the
  events its \<^verbatim>\<open>Next\<close> returned, and the error of its last failed \<^verbatim>\<open>Next\<close>.
\<close>

record scursor =
  sc_node :: nat
  sc_closed :: bool \<comment> \<open>\<^verbatim>\<open>closeOnce\<close> has run, the \<^verbatim>\<open>closed\<close> channel is closed\<close>
  sc_pc :: cpc
  sc_start :: nat
  sc_got :: "event list"
  sc_last :: "go_error option"

definition newSharedCursor :: "nat \<Rightarrow> scursor" where
  "newSharedCursor n = \<lparr>sc_node = n, sc_closed = False, sc_pc = CIdle, sc_start = n,
     sc_got = [], sc_last = None\<rparr>"

definition room_SharedCursor :: "room \<Rightarrow> room \<times> scursor" where
  "room_SharedCursor r =
     (r\<lparr>rm_openedCursors := rm_openedCursors r + 1\<rparr>, newSharedCursor (rm_head r))"

definition cursor_Close :: "room \<Rightarrow> scursor \<Rightarrow> room \<times> scursor" where
  "cursor_Close r c =
     (if sc_closed c then (r, c)
      else (r\<lparr>rm_openedCursors := rm_openedCursors r - 1\<rparr>, c\<lparr>sc_closed := True\<rparr>))"

text \<open>\<^verbatim>\<open>_ = c.Close(ctx); return Event{}, err\<close>\<close>

definition cursor_fail :: "room \<Rightarrow> scursor \<Rightarrow> go_error \<Rightarrow> room \<times> scursor" where
  "cursor_fail r c e = (case cursor_Close r c of
     (r', c') \<Rightarrow> (r', c'\<lparr>sc_pc := CIdle, sc_last := Some e\<rparr>))"

abbreviation ECursorClosed :: go_error where
  "ECursorClosed \<equiv> Sentinel P_event ErrCursorClosed"

definition next_check :: "room \<Rightarrow> scursor \<Rightarrow> room \<times> scursor" where
  "next_check r c =
     (if node_IsEvicted (rm_nodes r) (sc_node c) then cursor_fail r c ECursorClosed
      else (r, c\<lparr>sc_pc := CSelect\<rparr>))"

definition next_woken :: "room \<Rightarrow> scursor \<Rightarrow> room \<times> scursor" where
  "next_woken r c =
     (if node_IsEvicted (rm_nodes r) (sc_node c) then cursor_fail r c ECursorClosed
      else (r, c\<lparr>sc_pc := CTaking\<rparr>))"

definition next_take :: "room \<Rightarrow> scursor \<Rightarrow> room \<times> scursor" where
  "next_take r c = (case node_Next (rm_nodes r) (sc_node c) of
      Inl e \<Rightarrow> cursor_fail r c e
    | Inr n \<Rightarrow> (r, c\<lparr>sc_node := n, sc_pc := CIdle,
        sc_got := sc_got c @ [nd_event (rm_nodes r ! n)]\<rparr>))"

section \<open>Interleaving\<close>

text \<open>
  A room has one iterating goroutine, started by \<^verbatim>\<open>GetOrStart\<close>, which ends at the first error
  of \<^verbatim>\<open>Room.Next\<close>; \<^verbatim>\<open>sharedRoom.Close\<close> waits for it before it closes the room.  So nothing is
  published on a closed room, which the guard of \<open>publish\<close> says; without that protocol the
  publication would close a closed channel (\<open>room_no_panic\<close>, last part).

  \<open>st_busy\<close>: the room lock is held by \<^verbatim>\<open>Room.Next\<close> between its two halves.\<close>

record rstate =
  st_room :: room
  st_busy :: bool
  st_cursors :: "scursor list"

definition rinit :: "int \<Rightarrow> rstate" where
  "rinit cap = \<lparr>st_room = NewRoom cap, st_busy = False, st_cursors = []\<rparr>"

definition put_cursor :: "rstate \<Rightarrow> nat \<Rightarrow> room \<times> scursor \<Rightarrow> rstate" where
  "put_cursor s i rc = s\<lparr>st_room := fst rc, st_cursors := (st_cursors s)[i := snd rc]\<rparr>"

inductive room_step :: "rstate \<Rightarrow> rstate \<Rightarrow> bool" where
  publish: "\<not> st_busy s \<Longrightarrow> \<not> rm_closed (st_room s) \<Longrightarrow> room_publish (st_room s) ev = Some r \<Longrightarrow>
     room_step s (s\<lparr>st_room := r, st_busy := True\<rparr>)"
| retire: "st_busy s \<Longrightarrow> room_retire (st_room s) = Some r \<Longrightarrow>
     room_step s (s\<lparr>st_room := r, st_busy := False\<rparr>)"
| closing: "\<not> st_busy s \<Longrightarrow> room_close (st_room s) = Some r \<Longrightarrow>
     room_step s (s\<lparr>st_room := r\<rparr>)"
| opened: "\<not> st_busy s \<Longrightarrow> room_SharedCursor (st_room s) = (r, c) \<Longrightarrow>
     room_step s (s\<lparr>st_room := r, st_cursors := st_cursors s @ [c]\<rparr>)"
| check: "i < length (st_cursors s) \<Longrightarrow> sc_pc (st_cursors s ! i) = CIdle \<Longrightarrow>
     room_step s (put_cursor s i (next_check (st_room s) (st_cursors s ! i)))"
| wake: "i < length (st_cursors s) \<Longrightarrow> sc_pc (st_cursors s ! i) = CSelect \<Longrightarrow>
     nd_hasNext (rm_nodes (st_room s) ! sc_node (st_cursors s ! i)) \<Longrightarrow>
     room_step s (put_cursor s i (st_room s, (st_cursors s ! i)\<lparr>sc_pc := CWoken\<rparr>))"
| select_closed: "i < length (st_cursors s) \<Longrightarrow> sc_pc (st_cursors s ! i) = CSelect \<Longrightarrow>
     sc_closed (st_cursors s ! i) \<Longrightarrow>
     room_step s (put_cursor s i (cursor_fail (st_room s) (st_cursors s ! i) ECursorClosed))"
| select_ctx: "i < length (st_cursors s) \<Longrightarrow> sc_pc (st_cursors s ! i) = CSelect \<Longrightarrow>
     e \<in> {Sentinel P_context Canceled, Sentinel P_context DeadlineExceeded} \<Longrightarrow>
     room_step s (put_cursor s i (cursor_fail (st_room s) (st_cursors s ! i) e))"
| woken: "i < length (st_cursors s) \<Longrightarrow> sc_pc (st_cursors s ! i) = CWoken \<Longrightarrow>
     room_step s (put_cursor s i (next_woken (st_room s) (st_cursors s ! i)))"
| taking: "i < length (st_cursors s) \<Longrightarrow> sc_pc (st_cursors s ! i) = CTaking \<Longrightarrow>
     room_step s (put_cursor s i (next_take (st_room s) (st_cursors s ! i)))"
| user_close: "i < length (st_cursors s) \<Longrightarrow>
     room_step s (put_cursor s i (cursor_Close (st_room s) (st_cursors s ! i)))"

inductive room_reach :: "int \<Rightarrow> rstate \<Rightarrow> bool" for cap where
  start: "room_reach cap (rinit cap)"
| step: "room_reach cap s \<Longrightarrow> room_step s t \<Longrightarrow> room_reach cap t"

section \<open>The invariant\<close>

definition room_inv :: "bool \<Rightarrow> room \<Rightarrow> bool" where
  "room_inv busy r \<longleftrightarrow>
     length (rm_nodes r) = Suc (rm_head r) \<and> rm_tail r \<le> rm_head r \<and>
     (\<forall>i < rm_head r. nd_next (rm_nodes r ! i) = Some (Suc i) \<and> nd_hasNext (rm_nodes r ! i)) \<and>
     nd_next (rm_nodes r ! rm_head r) = None \<and>
     nd_hasNext (rm_nodes r ! rm_head r) = rm_closed r \<and>
     (\<forall>i \<le> rm_head r. nd_evicted (rm_nodes r ! i) \<longleftrightarrow> i < rm_tail r \<or> rm_closed r) \<and>
     (busy \<longrightarrow> \<not> rm_closed r) \<and>
     rm_len r = int (rm_head r - rm_tail r) - (if busy then 1 else 0) \<and>
     0 \<le> rm_len r \<and> rm_len r \<le> max 0 (rm_cap r)"

text \<open>The events published so far, in order: every node but the seed.\<close>

definition published :: "room \<Rightarrow> event list" where
  "published r = map nd_event (tl (rm_nodes r))"

lemma published_nth:
  "length (rm_nodes r) = Suc (rm_head r) \<Longrightarrow> i < rm_head r \<Longrightarrow>
   published r ! i = nd_event (rm_nodes r ! Suc i)"
  by (simp add: published_def nth_tl)

lemma length_published: "room_inv b r \<Longrightarrow> length (published r) = rm_head r"
  by (simp add: room_inv_def published_def)

lemma room_inv_init: "room_inv False (NewRoom cap)"
  by (simp add: room_inv_def NewRoom_def newEventNode_def)

lemma published_init [simp]: "published (NewRoom cap) = []"
  by (simp add: published_def NewRoom_def)

lemma publish_ok:
  assumes "room_inv False r" and "\<not> rm_closed r"
  obtains r' where "room_publish r ev = Some r'" and "room_inv True r'"
    and "published r' = published r @ [ev]" and "rm_openedCursors r' = rm_openedCursors r"
    and "rm_tail r' = rm_tail r" and "rm_cap r' = rm_cap r" and "rm_closed r' = rm_closed r"
    and "rm_head r' = Suc (rm_head r)"
proof -
  let ?h = "rm_nodes r" and ?e = "rm_head r"
  let ?h' = "?h[?e := (?h ! ?e)\<lparr>nd_next := Some (length ?h), nd_hasNext := True\<rparr>] @ [newEventNode ev]"
  let ?r = "r\<lparr>rm_nodes := ?h', rm_head := length ?h\<rparr>"
  have len: "length ?h = Suc ?e"
    using assms by (simp add: room_inv_def)
  have "room_publish r ev = Some ?r"
    using assms by (simp add: room_publish_def node_SetNext_def room_inv_def)
  moreover have "room_inv True ?r"
    using assms by (auto simp: room_inv_def nth_append nth_list_update newEventNode_def less_Suc_eq
        le_Suc_eq Suc_diff_le)
  moreover have "published ?r = published r @ [ev]"
    using len by (cases ?h) (auto simp: published_def newEventNode_def nth_append
        simp flip: map_update split: nat.split intro!: nth_equalityI simp: nth_list_update nth_Cons')
  ultimately show thesis
    using that len by simp
qed

lemma retire_ok:
  assumes "room_inv True r"
  obtains r' where "room_retire r = Some r'" and "room_inv False r'"
    and "published r' = published r" and "rm_openedCursors r' = rm_openedCursors r"
    and "rm_head r' = rm_head r" and "rm_cap r' = rm_cap r" and "rm_closed r' = rm_closed r"
proof (cases "rm_len r + 1 \<le> rm_cap r")
  case True
  show thesis
    by (rule that [of "r\<lparr>rm_len := rm_len r + 1\<rparr>"])
      (use assms True in \<open>auto simp: room_retire_def room_inv_def published_def\<close>)
next
  case False
  let ?h = "node_Evict (rm_nodes r) (rm_tail r)"
  let ?r = "r\<lparr>rm_nodes := ?h, rm_tail := Suc (rm_tail r)\<rparr>"
  have t: "rm_tail r < rm_head r"
    using assms by (auto simp: room_inv_def)
  then have "nd_next (?h ! rm_tail r) = Some (Suc (rm_tail r))"
    using assms by (auto simp: room_inv_def node_Evict_def)
  then have "room_retire r = Some ?r"
    using False by (simp add: room_retire_def Let_def)
  moreover have "room_inv False ?r"
    using assms False t
    by (auto simp: room_inv_def node_Evict_def nth_list_update less_Suc_eq)
  moreover have "map nd_event ?h = map nd_event (rm_nodes r)"
    by (simp add: node_Evict_def map_update)
      (metis list_update_id map_update)
  then have "published ?r = published r"
    by (simp add: published_def map_tl)
  ultimately show thesis
    using that by simp
qed

lemma evict_from_None [simp]: "evict_from k h None = h"
  by (cases k) simp_all

lemma evict_from_chain:
  assumes "\<forall>i < n. nd_next (h ! i) = Some (Suc i)" and "nd_next (h ! n) = None"
    and "length h = Suc n" and "e \<le> n" and "n < e + k"
  shows "evict_from k h (Some e) =
     take e h @ map (\<lambda>x. x\<lparr>nd_evicted := True\<rparr>) (drop e h)"
  using assms
proof (induction k arbitrary: e h)
  case 0
  then show ?case by simp
next
  case (Suc k)
  let ?h = "node_Evict h e"
  have h: "?h = take e h @ (h ! e)\<lparr>nd_evicted := True\<rparr> # drop (Suc e) h"
    using Suc.prems by (simp add: node_Evict_def upd_conv_take_nth_drop)
  have nxt: "nd_next (?h ! i) = nd_next (h ! i)" if "i \<le> n" for i
    using Suc.prems that by (simp add: node_Evict_def nth_list_update)
  show ?case
  proof (cases "e = n")
    case True
    with Suc.prems have "drop e h = [h ! e]"
      by (metis Cons_nth_drop_Suc drop_all le_refl lessI)
    with True Suc.prems nxt [of n] h show ?thesis
      by (simp add: Let_def)
  next
    case False
    with Suc.prems have "evict_from k ?h (Some (Suc e)) =
        take (Suc e) ?h @ map (\<lambda>x. x\<lparr>nd_evicted := True\<rparr>) (drop (Suc e) ?h)"
      by (intro Suc.IH) (auto simp: nxt, simp add: node_Evict_def)
    moreover have "take (Suc e) ?h = take e h @ [(h ! e)\<lparr>nd_evicted := True\<rparr>]"
      "drop (Suc e) ?h = drop (Suc e) h"
      using Suc.prems by (simp_all add: h)
    moreover have "drop e h = h ! e # drop (Suc e) h"
      using Suc.prems by (simp add: Cons_nth_drop_Suc)
    ultimately show ?thesis
      using Suc.prems False nxt [of e] by (simp add: Let_def)
  qed
qed

lemma close_ok:
  assumes "room_inv False r"
  obtains r' where "room_close r = Some r'" and "room_inv False r'" and "rm_closed r'"
    and "published r' = published r" and "rm_openedCursors r' = rm_openedCursors r"
    and "rm_head r' = rm_head r" and "rm_cap r' = rm_cap r" and "rm_tail r' = rm_tail r"
proof (cases "rm_closed r")
  case True
  with assms that [of r] show thesis
    by (simp add: room_close_def)
next
  case False
  let ?n = "rm_nodes r"
  let ?h = "take (rm_tail r) ?n @ map (\<lambda>x. x\<lparr>nd_evicted := True\<rparr>) (drop (rm_tail r) ?n)"
  let ?h' = "?h[rm_head r := (?h ! rm_head r)\<lparr>nd_hasNext := True\<rparr>]"
  let ?r = "r\<lparr>rm_nodes := ?h', rm_closed := True\<rparr>"
  have ev: "evict_from (length ?n) ?n (Some (rm_tail r)) = ?h"
    using assms by (intro evict_from_chain [where n = "rm_head r"]) (auto simp: room_inv_def)
  have nth: "?h ! i = (if i < rm_tail r then ?n ! i else (?n ! i)\<lparr>nd_evicted := True\<rparr>)"
    if "i \<le> rm_head r" for i
    using assms that by (auto simp: room_inv_def nth_append)
  have len: "length ?h = Suc (rm_head r)"
    using assms by (auto simp: room_inv_def)
  have "room_close r = Some ?r"
    unfolding room_close_def ev Let_def
    using assms False by (auto simp: node_ResetNext_def nth room_inv_def)
  moreover have "room_inv False ?r"
    using assms False len by (auto simp: room_inv_def nth_list_update nth)
  moreover have "map nd_event ?h' = map nd_event ?n"
    using assms len by (intro nth_equalityI) (auto simp: nth_list_update nth room_inv_def)
  then have "published ?r = published r"
    by (simp add: published_def map_tl)
  ultimately show thesis
    using that by simp
qed

text \<open>A cursor stands between its start and the head, and has returned exactly what lies between.\<close>

definition cursor_inv :: "room \<Rightarrow> scursor \<Rightarrow> bool" where
  "cursor_inv r c \<longleftrightarrow> sc_start c \<le> sc_node c \<and> sc_node c \<le> rm_head r \<and>
     sc_got c = drop (sc_start c) (take (sc_node c) (published r)) \<and>
     (sc_pc c = CWoken \<or> sc_pc c = CTaking \<longrightarrow> nd_hasNext (rm_nodes r ! sc_node c))"

definition state_inv :: "rstate \<Rightarrow> bool" where
  "state_inv s \<longleftrightarrow> room_inv (st_busy s) (st_room s) \<and>
     (\<forall>c \<in> set (st_cursors s). cursor_inv (st_room s) c) \<and>
     rm_openedCursors (st_room s) = int (length (filter (\<lambda>c. \<not> sc_closed c) (st_cursors s)))"

lemma hasNext_iff:
  "room_inv b r \<Longrightarrow> i \<le> rm_head r \<Longrightarrow> nd_hasNext (rm_nodes r ! i) \<longleftrightarrow> i < rm_head r \<or> rm_closed r"
  by (auto simp: room_inv_def le_less)

lemma evicted_iff:
  "room_inv b r \<Longrightarrow> i \<le> rm_head r \<Longrightarrow>
   node_IsEvicted (rm_nodes r) i \<longleftrightarrow> i < rm_tail r \<or> rm_closed r"
  by (auto simp: room_inv_def node_IsEvicted_def)

text \<open>Publishing, retiring and closing only grow the log and the closed channels.\<close>

lemma cursor_inv_mono:
  assumes "cursor_inv r c" and "room_inv b r" and "room_inv b' r'"
    and "rm_head r \<le> rm_head r'" and "take (rm_head r) (published r') = published r"
    and "rm_closed r \<longrightarrow> rm_closed r'"
  shows "cursor_inv r' c"
proof -
  have "take (sc_node c) (published r') = take (sc_node c) (published r)"
    using assms(1,5) by (metis cursor_inv_def min.absorb1 take_take)
  moreover have "nd_hasNext (rm_nodes r ! sc_node c) \<Longrightarrow> nd_hasNext (rm_nodes r' ! sc_node c)"
    using assms hasNext_iff [OF assms(2)] hasNext_iff [OF assms(3)]
    by (auto simp: cursor_inv_def)
  ultimately show ?thesis
    using assms by (auto simp: cursor_inv_def)
qed

text \<open>A cursor operation that moves the cursor along the list and keeps the counter right.\<close>

definition cursor_op_ok :: "room \<Rightarrow> scursor \<Rightarrow> room \<times> scursor \<Rightarrow> bool" where
  "cursor_op_ok r c rc \<longleftrightarrow> cursor_inv r (snd rc) \<and>
     fst rc = r\<lparr>rm_openedCursors := rm_openedCursors r
        - (if sc_closed (snd rc) \<and> \<not> sc_closed c then 1 else 0)\<rparr> \<and>
     (sc_closed c \<longrightarrow> sc_closed (snd rc))"

lemma room_inv_opened [simp]: "room_inv b (r\<lparr>rm_openedCursors := k\<rparr>) = room_inv b r"
  by (simp add: room_inv_def)

lemma published_opened [simp]: "published (r\<lparr>rm_openedCursors := k\<rparr>) = published r"
  by (simp add: published_def)

lemma cursor_inv_opened [simp]: "cursor_inv (r\<lparr>rm_openedCursors := k\<rparr>) c = cursor_inv r c"
  by (simp add: cursor_inv_def)

lemma cursor_Close_ok: "cursor_inv r c \<Longrightarrow> cursor_op_ok r c (cursor_Close r c)"
  by (auto simp: cursor_op_ok_def cursor_Close_def cursor_inv_def)

lemma cursor_fail_ok: "cursor_inv r c \<Longrightarrow> cursor_op_ok r c (cursor_fail r c e)"
  by (auto simp: cursor_op_ok_def cursor_fail_def cursor_Close_def cursor_inv_def)

lemma next_check_ok: "cursor_inv r c \<Longrightarrow> cursor_op_ok r c (next_check r c)"
  by (simp add: next_check_def cursor_fail_ok) (simp add: cursor_op_ok_def cursor_inv_def)

lemma next_woken_ok:
  "cursor_inv r c \<Longrightarrow> sc_pc c = CWoken \<Longrightarrow> cursor_op_ok r c (next_woken r c)"
  by (simp add: next_woken_def cursor_fail_ok) (simp add: cursor_op_ok_def cursor_inv_def)

lemma next_take_ok:
  assumes c: "cursor_inv r c" and r: "room_inv b r"
  shows "cursor_op_ok r c (next_take r c)"
proof (cases "sc_node c < rm_head r")
  case True
  let ?p = "published r"
  have nx: "node_Next (rm_nodes r) (sc_node c) = Inr (Suc (sc_node c))"
    using r True by (simp add: room_inv_def node_Next_def)
  have "nd_event (rm_nodes r ! Suc (sc_node c)) = ?p ! sc_node c"
    using r True by (subst published_nth) (auto simp: room_inv_def)
  moreover have "drop (sc_start c) (take (Suc (sc_node c)) ?p) =
      drop (sc_start c) (take (sc_node c) ?p) @ [?p ! sc_node c]"
    using c True length_published [OF r]
    by (simp add: cursor_inv_def take_Suc_conv_app_nth)
  ultimately show ?thesis
    using c True by (simp add: next_take_def nx cursor_op_ok_def cursor_inv_def)
next
  case False
  with c r have "node_Next (rm_nodes r) (sc_node c) = Inl (Sentinel P_event ErrCursorClosed)"
    by (auto simp: room_inv_def node_Next_def cursor_inv_def le_less)
  with c show ?thesis
    by (simp add: next_take_def cursor_fail_ok)
qed

lemma length_filter_update:
  assumes "i < length xs"
  shows "int (length (filter P (xs[i := x]))) = int (length (filter P xs))
     - (if P (xs ! i) then 1 else 0) + (if P x then 1 else 0)"
  using assms
proof (induction xs arbitrary: i)
  case (Cons a xs)
  show ?case
  proof (cases i)
    case (Suc j)
    with Cons.prems Cons.IH [of j] show ?thesis by (auto split: if_splits)
  qed simp
qed simp

lemma put_cursor_inv:
  assumes s: "state_inv s" and i: "i < length (st_cursors s)"
    and op: "cursor_op_ok (st_room s) (st_cursors s ! i) rc"
  shows "state_inv (put_cursor s i rc)"
proof -
  have "c \<in> set (st_cursors s) \<or> c = snd rc" if "c \<in> set ((st_cursors s)[i := snd rc])" for c
    using that set_update_subset_insert by fastforce
  with s op show ?thesis
    using length_filter_update [OF i, of "\<lambda>c. \<not> sc_closed c" "snd rc"]
    by (fastforce simp: state_inv_def put_cursor_def cursor_op_ok_def)
qed

lemma state_inv_init: "state_inv (rinit cap)"
  by (simp add: state_inv_def rinit_def room_inv_init) (simp add: NewRoom_def)

lemma state_inv_room:
  assumes "state_inv s" and "room_inv b r" and "rm_openedCursors r = rm_openedCursors (st_room s)"
    and "rm_head (st_room s) \<le> rm_head r"
    and "take (rm_head (st_room s)) (published r) = published (st_room s)"
    and "rm_closed (st_room s) \<longrightarrow> rm_closed r"
  shows "state_inv (s\<lparr>st_room := r, st_busy := b\<rparr>)"
  using assms by (auto simp: state_inv_def intro: cursor_inv_mono)

lemma room_step_inv: "room_step s t \<Longrightarrow> state_inv s \<Longrightarrow> state_inv t"
proof (induction rule: room_step.induct)
  case (publish s ev r)
  then have ri: "room_inv False (st_room s)" by (simp add: state_inv_def)
  from publish_ok [OF ri publish(2), of ev] publish(3)
  have "room_inv True r" "published r = published (st_room s) @ [ev]"
    "rm_openedCursors r = rm_openedCursors (st_room s)" "rm_closed r = rm_closed (st_room s)"
    "rm_head r = Suc (rm_head (st_room s))"
    by auto
  then show ?case
    using publish length_published [OF ri] by (intro state_inv_room) auto
next
  case (retire s r)
  then have ri: "room_inv True (st_room s)" by (simp add: state_inv_def)
  from retire_ok [OF ri] retire(2)
  have "room_inv False r" "published r = published (st_room s)"
    "rm_openedCursors r = rm_openedCursors (st_room s)" "rm_closed r = rm_closed (st_room s)"
    "rm_head r = rm_head (st_room s)"
    by auto
  then show ?case
    using retire length_published [OF ri] by (intro state_inv_room) auto
next
  case (closing s r)
  then have ri: "room_inv False (st_room s)" by (simp add: state_inv_def)
  from close_ok [OF ri] closing(2)
  have "room_inv False r" "published r = published (st_room s)"
    "rm_openedCursors r = rm_openedCursors (st_room s)" "rm_closed r"
    "rm_head r = rm_head (st_room s)"
    by auto
  then have "state_inv (s\<lparr>st_room := r, st_busy := False\<rparr>)"
    using closing length_published [OF ri] by (intro state_inv_room) auto
  moreover have "s\<lparr>st_room := r, st_busy := False\<rparr> = s\<lparr>st_room := r\<rparr>"
    using closing(1) by (cases s) simp
  ultimately show ?case by simp
next
  case (opened s r c)
  then show ?case
    by (auto simp: state_inv_def room_SharedCursor_def newSharedCursor_def)
      (auto simp: cursor_inv_def)
next
  case (check i s)
  then show ?case
    by (intro put_cursor_inv next_check_ok) (auto simp: state_inv_def)
next
  case (wake i s)
  then have "cursor_inv (st_room s) (st_cursors s ! i)"
    by (simp add: state_inv_def)
  with wake(3) have "cursor_op_ok (st_room s) (st_cursors s ! i)
      (st_room s, (st_cursors s ! i)\<lparr>sc_pc := CWoken\<rparr>)"
    by (simp add: cursor_op_ok_def cursor_inv_def)
  with wake show ?case
    by (intro put_cursor_inv)
next
  case (select_closed i s)
  then show ?case
    by (intro put_cursor_inv cursor_fail_ok) (auto simp: state_inv_def)
next
  case (select_ctx i s e)
  then show ?case
    by (intro put_cursor_inv cursor_fail_ok) (auto simp: state_inv_def)
next
  case (woken i s)
  then show ?case
    by (intro put_cursor_inv next_woken_ok) (auto simp: state_inv_def)
next
  case (taking i s)
  then show ?case
    by (intro put_cursor_inv next_take_ok [where b = "st_busy s"]) (auto simp: state_inv_def)
next
  case (user_close i s)
  then show ?case
    by (intro put_cursor_inv cursor_Close_ok) (auto simp: state_inv_def)
qed

lemma room_reach_inv: "room_reach cap s \<Longrightarrow> state_inv s"
  by (induction rule: room_reach.induct) (auto intro: state_inv_init room_step_inv)

section \<open>Refinement: a broadcast log\<close>

text \<open>
  What a room promises: an append-only log and subscribers that each read it one event at a
  time from the position they joined at.  Eviction and closing only end subscriptions, they
  never make one skip or repeat an event.
\<close>

record alog =
  al_log :: "event list"
  al_subs :: "(nat \<times> nat) list" \<comment> \<open>start and position of each subscriber\<close>

inductive alog_step :: "alog \<Rightarrow> alog \<Rightarrow> bool" where
  append: "alog_step a (a\<lparr>al_log := al_log a @ [ev]\<rparr>)"
| subscribe: "alog_step a (a\<lparr>al_subs := al_subs a @ [(length (al_log a), length (al_log a))]\<rparr>)"
| deliver: "i < length (al_subs a) \<Longrightarrow> al_subs a ! i = (st, pos) \<Longrightarrow> pos < length (al_log a) \<Longrightarrow>
     alog_step a (a\<lparr>al_subs := (al_subs a)[i := (st, Suc pos)]\<rparr>)"

definition abs_room :: "rstate \<Rightarrow> alog" where
  "abs_room s = \<lparr>al_log = published (st_room s),
     al_subs = map (\<lambda>c. (sc_start c, sc_node c)) (st_cursors s)\<rparr>"

lemma put_cursor_abs_same:
  assumes "cursor_op_ok (st_room s) (st_cursors s ! i) rc" and "i < length (st_cursors s)"
    and "sc_start (snd rc) = sc_start (st_cursors s ! i)"
    and "sc_node (snd rc) = sc_node (st_cursors s ! i)"
  shows "abs_room (put_cursor s i rc) = abs_room s"
proof -
  have "map f (xs[i := x]) = map f xs" if "i < length xs" "f x = f (xs ! i)"
    for f :: "scursor \<Rightarrow> nat \<times> nat" and xs x
    using that by (metis list_update_id map_update nth_map)
  with assms show ?thesis
    by (simp add: abs_room_def put_cursor_def cursor_op_ok_def)
qed

lemma fail_start_node [simp]:
  "sc_start (snd (cursor_fail r c e)) = sc_start c" "sc_node (snd (cursor_fail r c e)) = sc_node c"
  "sc_start (snd (cursor_Close r c)) = sc_start c" "sc_node (snd (cursor_Close r c)) = sc_node c"
  by (simp_all add: cursor_fail_def cursor_Close_def)

lemma check_start_node [simp]:
  "sc_start (snd (next_check r c)) = sc_start c" "sc_node (snd (next_check r c)) = sc_node c"
  "sc_start (snd (next_woken r c)) = sc_start c" "sc_node (snd (next_woken r c)) = sc_node c"
  by (simp_all add: next_check_def next_woken_def)

lemma taking_abs:
  assumes s: "state_inv s" and i: "i < length (st_cursors s)"
  shows "abs_room (put_cursor s i (next_take (st_room s) (st_cursors s ! i))) = abs_room s \<or>
    alog_step (abs_room s) (abs_room (put_cursor s i (next_take (st_room s) (st_cursors s ! i))))"
proof -
  let ?r = "st_room s" and ?c = "st_cursors s ! i"
  have r: "room_inv (st_busy s) ?r" and c: "cursor_inv ?r ?c"
    using s i by (auto simp: state_inv_def)
  have ok: "cursor_op_ok ?r ?c (next_take ?r ?c)"
    using c r by (rule next_take_ok)
  show ?thesis
  proof (cases "sc_node ?c < rm_head ?r")
    case True
    then have "node_Next (rm_nodes ?r) (sc_node ?c) = Inr (Suc (sc_node ?c))"
      using r by (simp add: room_inv_def node_Next_def)
    then have "abs_room (put_cursor s i (next_take ?r ?c)) =
        (abs_room s)\<lparr>al_subs := (al_subs (abs_room s))[i := (sc_start ?c, Suc (sc_node ?c))]\<rparr>"
      by (simp add: abs_room_def put_cursor_def next_take_def map_update)
    moreover have "sc_node ?c < length (al_log (abs_room s))"
      using True r by (simp add: abs_room_def length_published)
    ultimately show ?thesis
      using i alog_step.deliver [of i "abs_room s" "sc_start ?c" "sc_node ?c"]
      by (simp add: abs_room_def)
  next
    case False
    then have "node_Next (rm_nodes ?r) (sc_node ?c) = Inl ECursorClosed"
      using r c by (auto simp: room_inv_def node_Next_def cursor_inv_def le_less)
    with i ok show ?thesis
      by (intro disjI1 put_cursor_abs_same) (simp_all add: next_take_def)
  qed
qed

text \<open>
  C1: The room refines the broadcast log: every step of the interleaved linked-list
  implementation either changes nothing a subscriber can see or is one append, one
  subscription, or the delivery of the next event to one subscriber.
\<close>

theorem room_refines_log:
  assumes "room_reach cap s" and "room_step s t"
  shows "abs_room t = abs_room s \<or> alog_step (abs_room s) (abs_room t)"
  using assms(2) room_reach_inv [OF assms(1)]
proof (induction rule: room_step.induct)
  case (publish s ev r)
  then have ri: "room_inv False (st_room s)" by (simp add: state_inv_def)
  from publish_ok [OF ri publish(2), of ev] publish(3)
  have "published r = published (st_room s) @ [ev]" by auto
  then show ?case
    using alog_step.append [of "abs_room s" ev] by (simp add: abs_room_def)
next
  case (retire s r)
  then have ri: "room_inv True (st_room s)" by (simp add: state_inv_def)
  from retire_ok [OF ri] retire(2) show ?case
    by (auto simp: abs_room_def)
next
  case (closing s r)
  then have ri: "room_inv False (st_room s)" by (simp add: state_inv_def)
  from close_ok [OF ri] closing(2) show ?case
    by (auto simp: abs_room_def)
next
  case (opened s r c)
  then have "room_inv False (st_room s)" by (simp add: state_inv_def)
  then have "rm_head (st_room s) = length (published (st_room s))"
    by (simp add: length_published)
  with opened show ?case
    using alog_step.subscribe [of "abs_room s"]
    by (auto simp: abs_room_def room_SharedCursor_def newSharedCursor_def)
next
  case (taking i s)
  then show ?case by (intro taking_abs)
next
  case (wake i s)
  then show ?case
    by (intro disjI1 put_cursor_abs_same) (auto simp: state_inv_def cursor_op_ok_def cursor_inv_def)
qed (intro disjI1 put_cursor_abs_same next_check_ok next_woken_ok cursor_fail_ok cursor_Close_ok;
  auto simp: state_inv_def)+

section \<open>Delivery, memory and shutdown\<close>


text \<open>
  The room keeps at most its capacity of undelivered events: outside \<^verbatim>\<open>Room.Next\<close> the
  nodes that are not evicted are those from the tail to the head, no more than the
  capacity besides the node the head stands on, and a cursor that fell behind the tail
  gets \<^verbatim>\<open>ErrCursorClosed\<close> from its next call instead of a gap.
\<close>

theorem room_bounded:
  assumes "room_reach cap s" and "\<not> st_busy s" and "\<not> rm_closed (st_room s)"
  shows "int (length (filter (\<lambda>n. \<not> nd_evicted n) (rm_nodes (st_room s)))) \<le> max 0 (rm_cap (st_room s)) + 1
    \<and> (\<forall>c \<in> set (st_cursors s). sc_node c < rm_tail (st_room s) \<longrightarrow>
         sc_last (snd (next_check (st_room s) c)) = Some ECursorClosed \<and>
         sc_closed (snd (next_check (st_room s) c)))"
proof -
  let ?r = "st_room s"
  have r: "room_inv False ?r" and cs: "\<forall>c \<in> set (st_cursors s). cursor_inv ?r c"
    using room_reach_inv [OF assms(1)] assms(2) by (auto simp: state_inv_def)
  have len: "length (rm_nodes ?r) = Suc (rm_head ?r)" and th: "rm_tail ?r \<le> rm_head ?r"
    and bound: "int (rm_head ?r - rm_tail ?r) \<le> max 0 (rm_cap ?r)"
    using r by (auto simp: room_inv_def)
  have "filter (\<lambda>n. \<not> nd_evicted n) (take (rm_tail ?r) (rm_nodes ?r)) = []"
    using r th by (auto simp: filter_empty_conv in_set_conv_nth room_inv_def)
  then have "filter (\<lambda>n. \<not> nd_evicted n) (rm_nodes ?r) =
      filter (\<lambda>n. \<not> nd_evicted n) (drop (rm_tail ?r) (rm_nodes ?r))"
    by (metis append_Nil append_take_drop_id filter_append)
  also have "length \<dots> \<le> length (drop (rm_tail ?r) (rm_nodes ?r))"
    by (rule length_filter_le)
  finally have "length (filter (\<lambda>n. \<not> nd_evicted n) (rm_nodes ?r)) \<le> Suc (rm_head ?r - rm_tail ?r)"
    using len th by (simp add: Suc_diff_le)
  moreover have "node_IsEvicted (rm_nodes ?r) (sc_node c)"
    if "c \<in> set (st_cursors s)" "sc_node c < rm_tail ?r" for c
    using evicted_iff [OF r, of "sc_node c"] cs that by (auto simp: cursor_inv_def)
  ultimately show ?thesis
    using bound by (auto simp: next_check_def cursor_fail_def cursor_Close_def)
qed

text \<open>
  C32: A waiting cursor is never stranded: if an event it has not read exists, or the room is
  closed, its channel is closed, so the wait ends; and once the room is closed every call
  of \<^verbatim>\<open>Next\<close> that begins, or that wakes up, ends in \<^verbatim>\<open>ErrCursorClosed\<close>.
\<close>

theorem cursor_never_stranded:
  assumes "room_reach cap s" and "c \<in> set (st_cursors s)"
    and "sc_node c < length (published (st_room s)) \<or> rm_closed (st_room s)"
  shows "nd_hasNext (rm_nodes (st_room s) ! sc_node c) \<and>
    (rm_closed (st_room s) \<longrightarrow>
       sc_last (snd (next_check (st_room s) c)) = Some ECursorClosed \<and>
       sc_last (snd (next_woken (st_room s) c)) = Some ECursorClosed \<and>
       sc_closed (snd (next_woken (st_room s) c)))"
proof -
  have r: "room_inv (st_busy s) (st_room s)" and c: "cursor_inv (st_room s) c"
    using room_reach_inv [OF assms(1)] assms(2) by (auto simp: state_inv_def)
  then have le: "sc_node c \<le> rm_head (st_room s)"
    by (simp add: cursor_inv_def)
  show ?thesis
    using assms(3) hasNext_iff [OF r le] evicted_iff [OF r le] length_published [OF r]
    by (auto simp: next_check_def next_woken_def cursor_fail_def cursor_Close_def)
qed

text \<open>
  C31: No reachable interleaving panics: publishing on an open room, retiring the tail and
  closing the room (any number of times) never close a closed channel nor follow a nil
  pointer.  Publishing on a closed room would: the room relies on its owner for that.
\<close>

theorem room_no_panic:
  assumes "room_reach cap s"
  shows "(\<not> st_busy s \<longrightarrow> room_close (st_room s) \<noteq> None) \<and>
    (st_busy s \<longrightarrow> room_retire (st_room s) \<noteq> None) \<and>
    (\<not> st_busy s \<and> \<not> rm_closed (st_room s) \<longrightarrow> room_Next (st_room s) u \<noteq> None) \<and>
    (rm_closed (st_room s) \<longrightarrow> room_publish (st_room s) ev = None)"
proof -
  have r: "room_inv (st_busy s) (st_room s)"
    using room_reach_inv [OF assms] by (simp add: state_inv_def)
  have "room_Next (st_room s) u \<noteq> None" if idle: "\<not> st_busy s" "\<not> rm_closed (st_room s)"
  proof -
    from r idle have ri: "room_inv False (st_room s)" by simp
    show ?thesis
    proof (cases u)
      case (Inl e)
      moreover obtain r' where "room_close (st_room s) = Some r'"
        using close_ok [OF ri] by metis
      ultimately show ?thesis by (simp add: room_Next_def)
    next
      case (Inr ev)
      obtain r' where p: "room_publish (st_room s) ev = Some r'" and "room_inv True r'"
        using publish_ok [OF ri idle(2)] by metis
      obtain r'' where "room_retire r' = Some r''"
        using retire_ok [OF \<open>room_inv True r'\<close>] by metis
      with Inr p show ?thesis
        by (simp add: room_Next_def)
    qed
  qed
  moreover have "room_publish (st_room s) ev = None" if "rm_closed (st_room s)"
    using r that by (simp add: room_publish_def node_SetNext_def room_inv_def)
  moreover have "room_close (st_room s) \<noteq> None" if "\<not> st_busy s"
    using r that close_ok [of "st_room s"] by (metis option.distinct(1))
  moreover have "room_retire (st_room s) \<noteq> None" if "st_busy s"
    using r that retire_ok [of "st_room s"] by (metis option.distinct(1))
  ultimately show ?thesis
    by blast
qed

text \<open>
  \<^verbatim>\<open>OpenedCursors\<close>, which the garbage collector reads, counts exactly the cursors that
  were handed out and not closed, however often and from wherever they are closed.
\<close>

theorem opened_cursors_exact:
  assumes "room_reach cap s"
  shows "rm_openedCursors (st_room s) = int (length (filter (\<lambda>c. \<not> sc_closed c) (st_cursors s)))"
  using room_reach_inv [OF assms] by (simp add: state_inv_def)

section \<open>A run\<close>

text \<open>
  A room of capacity 1 with a fast and a slow cursor: two events are published, the first
  is delivered to cursor 0, and the second publication evicts the seed under cursor 1.
\<close>

definition demo_event :: "uuid \<Rightarrow> event" where
  "demo_event i = event_zero\<lparr>ev_ID := i\<rparr>"

definition demo_open :: "rstate \<Rightarrow> rstate" where
  "demo_open s = (case room_SharedCursor (st_room s) of
     (r, c) \<Rightarrow> s\<lparr>st_room := r, st_cursors := st_cursors s @ [c]\<rparr>)"

definition demo_publish :: "rstate \<Rightarrow> uuid \<Rightarrow> rstate" where
  "demo_publish s i = s\<lparr>st_room := the (room_publish (st_room s) (demo_event i)), st_busy := True\<rparr>"

definition demo_retire :: "rstate \<Rightarrow> rstate" where
  "demo_retire s = s\<lparr>st_room := the (room_retire (st_room s)), st_busy := False\<rparr>"

definition demo_next :: "rstate \<Rightarrow> nat \<Rightarrow> rstate" where
  "demo_next s i =
     (let s1 = put_cursor s i (next_check (st_room s) (st_cursors s ! i));
          s2 = put_cursor s1 i (st_room s1, (st_cursors s1 ! i)\<lparr>sc_pc := CWoken\<rparr>);
          s3 = put_cursor s2 i (next_woken (st_room s2) (st_cursors s2 ! i))
      in put_cursor s3 i (next_take (st_room s3) (st_cursors s3 ! i)))"

definition demo_run :: rstate where
  "demo_run = demo_retire (demo_publish (demo_next (demo_retire (demo_publish
     (demo_open (demo_open (rinit 1))) 1)) 0) 2)"

lemmas demo_defs = demo_open_def demo_publish_def demo_retire_def demo_next_def rinit_def
  NewRoom_def newEventNode_def room_SharedCursor_def newSharedCursor_def room_publish_def
  node_SetNext_def room_retire_def node_Evict_def put_cursor_def next_check_def next_woken_def
  next_take_def node_Next_def node_IsEvicted_def Let_def

lemma demo_reach_open:
  assumes "room_reach cap s" and "\<not> st_busy s"
  shows "room_reach cap (demo_open s)"
proof -
  obtain r c where "room_SharedCursor (st_room s) = (r, c)"
    by fastforce
  with assms show ?thesis
    using room_reach.step room_step.opened [of s r c] by (simp add: demo_open_def)
qed

lemma demo_reach_publish:
  assumes "room_reach cap s" and "\<not> st_busy s" and "\<not> rm_closed (st_room s)"
  shows "room_reach cap (demo_publish s i)"
proof -
  have "room_inv False (st_room s)"
    using room_reach_inv [OF assms(1)] assms(2) by (simp add: state_inv_def)
  then have "room_publish (st_room s) (demo_event i) = Some (the (room_publish (st_room s) (demo_event i)))"
    using publish_ok [OF _ assms(3)] by (metis option.sel)
  with assms show ?thesis
    unfolding demo_publish_def by (blast intro: room_reach.step room_step.publish)
qed

lemma demo_reach_retire:
  assumes "room_reach cap s" and "st_busy s"
  shows "room_reach cap (demo_retire s)"
proof -
  have "room_inv True (st_room s)"
    using room_reach_inv [OF assms(1)] assms(2) by (simp add: state_inv_def)
  then have "room_retire (st_room s) = Some (the (room_retire (st_room s)))"
    using retire_ok by (metis option.sel)
  with assms show ?thesis
    unfolding demo_retire_def by (blast intro: room_reach.step room_step.retire)
qed

lemma demo_reach_next:
  assumes "room_reach cap s" and "i < length (st_cursors s)" and "sc_pc (st_cursors s ! i) = CIdle"
    and "\<not> nd_evicted (rm_nodes (st_room s) ! sc_node (st_cursors s ! i))"
    and "nd_hasNext (rm_nodes (st_room s) ! sc_node (st_cursors s ! i))"
  shows "room_reach cap (demo_next s i)"
proof -
  define s1 where "s1 = put_cursor s i (next_check (st_room s) (st_cursors s ! i))"
  define s2 where "s2 = put_cursor s1 i (st_room s1, (st_cursors s1 ! i)\<lparr>sc_pc := CWoken\<rparr>)"
  define s3 where "s3 = put_cursor s2 i (next_woken (st_room s2) (st_cursors s2 ! i))"
  note defs = put_cursor_def next_check_def next_woken_def node_IsEvicted_def
  have 1: "room_reach cap s1"
    unfolding s1_def using assms by (blast intro: room_reach.step room_step.check)
  have 2: "room_reach cap s2"
    unfolding s2_def using assms
    by (intro room_reach.step [OF 1] room_step.wake) (simp_all add: s1_def defs)
  have 3: "room_reach cap s3"
    unfolding s3_def using assms
    by (intro room_reach.step [OF 2] room_step.woken) (simp_all add: s2_def s1_def defs)
  have "room_reach cap (put_cursor s3 i (next_take (st_room s3) (st_cursors s3 ! i)))"
    using assms
    by (intro room_reach.step [OF 3] room_step.taking) (simp_all add: s3_def s2_def s1_def defs)
  then show ?thesis
    by (simp add: demo_next_def Let_def s1_def s2_def s3_def)
qed

lemma demo_reach: "room_reach 1 demo_run"
  unfolding demo_run_def
  by (intro demo_reach_retire demo_reach_publish demo_reach_next demo_reach_open room_reach.start)
    (simp_all add: demo_defs)

lemma demo_result:
  "map sc_got (st_cursors demo_run) = [[demo_event 1], []]"
  "map sc_node (st_cursors demo_run) = [1, 0]"
  "published (st_room demo_run) = [demo_event 1, demo_event 2]"
  "rm_tail (st_room demo_run) = 1" "\<not> st_busy demo_run" "\<not> rm_closed (st_room demo_run)"
  by (simp_all add: demo_run_def demo_defs published_def)

theorem room_refines_log_witness:
  "alog_step (abs_room (rinit 1)) (abs_room (demo_open (rinit 1))) \<or>
   abs_room (demo_open (rinit 1)) = abs_room (rinit 1)"
proof -
  have "room_step (rinit 1) (demo_open (rinit 1))"
    using room_step.opened [of "rinit 1"] by (simp add: demo_defs)
  from room_refines_log [OF room_reach.start this] show ?thesis
    by blast
qed


lemma demo_slow_cursor:
  "st_cursors demo_run ! 1 \<in> set (st_cursors demo_run)" "sc_node (st_cursors demo_run ! 1) = 0"
  by (simp_all add: demo_run_def demo_defs)

theorem room_bounded_witness:
  "sc_last (snd (next_check (st_room demo_run) (st_cursors demo_run ! 1))) = Some ECursorClosed"
  using room_bounded [OF demo_reach demo_result(5,6)] demo_slow_cursor demo_result(4) by simp

theorem cursor_never_stranded_witness:
  "nd_hasNext (rm_nodes (st_room demo_run) ! 0)"
  using cursor_never_stranded [OF demo_reach demo_slow_cursor(1)] demo_slow_cursor(2) demo_result(3)
  by simp

theorem room_no_panic_witness:
  "room_close (st_room demo_run) \<noteq> None \<and> room_Next (st_room demo_run) (Inr (demo_event 3)) \<noteq> None"
  using room_no_panic [OF demo_reach, of "Inr (demo_event 3)" "demo_event 3"] demo_result(5,6) by simp

theorem opened_cursors_exact_witness:
  "rm_openedCursors (st_room demo_run) = int (length (filter (\<lambda>c. \<not> sc_closed c) (st_cursors demo_run)))"
  by (rule opened_cursors_exact [OF demo_reach])

end
