(* ===== verification/Shared_Watcher.thy ===== *)
theory Shared_Watcher
  imports Event_Room Steps
begin

text \<open>
  The shared watcher of \<^verbatim>\<open>services/event/shared.go\<close>: \<^verbatim>\<open>SharedWatcher\<close> keeps one \<^verbatim>\<open>sharedRoom\<close>
  per room id, starts it on the first \<^verbatim>\<open>Watch\<close>, removes the unused ones in the GC cycle of
  \<^verbatim>\<open>Serve\<close>, and closes all of them in \<^verbatim>\<open>Shutdown\<close>.

  Pointers to \<^verbatim>\<open>sharedRoom\<close> are indices into a heap that only grows.  The steps are the
  sections the code runs under one lock (or between two waits), so every interleaving of
  clients, iterations, the GC and the closing goroutines is a sequence of them.  The
  upstream watcher and cursor may answer anything at any time.  The lemmas show the exact
  value of the wait group of a room, that the iteration never runs on a closed room, and
  what that means for closing.
\<close>

section \<open>Shared rooms\<close>

text \<open>
  \<open>sr_iterating\<close> is the goroutine of \<^verbatim>\<open>GetOrStart\<close> being in its loop.  \<open>sr_failed\<close> and
  \<open>sr_aborted\<close> are history: how many calls of the upstream \<^verbatim>\<open>Watch\<close> failed, and how many
  iterations returned in the middle of the loop; \<open>sr_key\<close> is the id the room was made for.
\<close>

record sroom =
  sr_iterator :: int
  sr_watching :: bool
  sr_room :: "room option"
  sr_roomID :: uuid
  sr_cancelled :: bool
  sr_cursors :: "scursor list"
  sr_iterating :: bool
  sr_failed :: nat
  sr_aborted :: nat
  sr_key :: uuid

definition newSharedRoom :: "uuid \<Rightarrow> sroom" where
  "newSharedRoom key = \<lparr>sr_iterator = 0, sr_watching = False, sr_room = None, sr_roomID = uuid_Nil,
     sr_cancelled = False, sr_cursors = [], sr_iterating = False, sr_failed = 0, sr_aborted = 0,
     sr_key = key\<rparr>"

text \<open>
  \<open>upstream\<close> is the error of \<^verbatim>\<open>r.watcher.Watch\<close>, when it has one.  A failed \<^verbatim>\<open>Watch\<close> returns
  after \<^verbatim>\<open>r.iterator.Add(1)\<close>.
\<close>

definition GetOrStart :: "uuid \<Rightarrow> int \<Rightarrow> err \<Rightarrow> sroom \<Rightarrow> sroom \<times> err" where
  "GetOrStart roomID maxEvents upstream r =
     (if sr_room r \<noteq> None then (r, None)
      else (let r1 = r\<lparr>sr_iterator := sr_iterator r + 1\<rparr> in
        case upstream of
          Some e \<Rightarrow> (r1\<lparr>sr_failed := sr_failed r + 1\<rparr>, Some e)
        | None \<Rightarrow> (r1\<lparr>sr_iterating := True, sr_room := Some (NewRoom maxEvents),
            sr_roomID := roomID, sr_watching := True\<rparr>, None)))"

text \<open>
  One turn of the loop: \<open>None\<close> is a panic of \<^verbatim>\<open>room.Next\<close>.  \<^verbatim>\<open>ErrCursorClosed\<close> and
  \<^verbatim>\<open>context.Canceled\<close> leave the loop and call \<^verbatim>\<open>Done\<close>; any other error returns before it.
\<close>

definition iterate :: "event res \<Rightarrow> sroom \<Rightarrow> sroom option" where
  "iterate upstream r = (case sr_room r of
      None \<Rightarrow> None
    | Some rm \<Rightarrow> (case room_Next rm upstream of
        None \<Rightarrow> None
      | Some (rm', res) \<Rightarrow> (let r1 = r\<lparr>sr_room := Some rm'\<rparr> in Some (case res of
          Inr ev \<Rightarrow> r1
        | Inl e \<Rightarrow>
            if errors_Is e P_event ErrCursorClosed \<or> errors_Is e P_context Canceled
            then r1\<lparr>sr_iterating := False, sr_iterator := sr_iterator r - 1\<rparr>
            else r1\<lparr>sr_iterating := False, sr_aborted := sr_aborted r + 1\<rparr>))))"

definition OpenedCursors :: "sroom \<Rightarrow> int" where
  "OpenedCursors r = (if \<not> sr_watching r then 0
     else (case sr_room r of None \<Rightarrow> 0 | Some rm \<Rightarrow> rm_openedCursors rm))"

definition sroom_SharedCursor :: "sroom \<Rightarrow> sroom" where
  "sroom_SharedCursor r = (case sr_room r of
      None \<Rightarrow> r
    | Some rm \<Rightarrow> (case room_SharedCursor rm of
        (rm', c) \<Rightarrow> r\<lparr>sr_room := Some rm', sr_cursors := sr_cursors r @ [c]\<rparr>))"

definition sroom_cursor_Close :: "nat \<Rightarrow> sroom \<Rightarrow> sroom" where
  "sroom_cursor_Close i r = (case sr_room r of
      None \<Rightarrow> r
    | Some rm \<Rightarrow> (case cursor_Close rm (sr_cursors r ! i) of
        (rm', c') \<Rightarrow> r\<lparr>sr_room := Some rm', sr_cursors := (sr_cursors r)[i := c']\<rparr>))"

text \<open>
  \<^verbatim>\<open>sharedRoom.Close\<close> after its wait: on a room that was never started it dereferences nil.
\<close>

definition close_waited :: "sroom \<Rightarrow> sroom option" where
  "close_waited r = (case sr_room r of
      None \<Rightarrow> None
    | Some rm \<Rightarrow> (case room_close rm of None \<Rightarrow> None | Some rm' \<Rightarrow> Some (r\<lparr>sr_room := Some rm'\<rparr>)))"

section \<open>The watcher\<close>

text \<open>
  \<open>sw_checked\<close>, \<open>sw_found\<close> and \<open>sw_started\<close> are the calls of \<^verbatim>\<open>Watch\<close> in progress, after the
  check of \<^verbatim>\<open>shuttingDown\<close>, after \<^verbatim>\<open>getOrCreate\<close> and after \<^verbatim>\<open>GetOrStart\<close>; \<open>sw_closing\<close> are the
  goroutines in \<^verbatim>\<open>sharedRoom.Close\<close>.
\<close>

record watcher =
  sw_heap :: "sroom list"
  sw_rooms :: "uuid \<Rightarrow> nat option"
  sw_shuttingDown :: bool
  sw_candidates :: "nat list"
  sw_checked :: "uuid list"
  sw_found :: "(uuid \<times> nat) list"
  sw_started :: "nat list"
  sw_closing :: "nat list"
  sw_crashed :: bool

definition NewSharedWatcher :: watcher where
  "NewSharedWatcher = \<lparr>sw_heap = [], sw_rooms = (\<lambda>_. None), sw_shuttingDown = False, sw_candidates = [],
     sw_checked = [], sw_found = [], sw_started = [], sw_closing = [], sw_crashed = False\<rparr>"

definition getOrCreate :: "uuid \<Rightarrow> watcher \<Rightarrow> watcher \<times> nat" where
  "getOrCreate roomID w = (case sw_rooms w roomID of
      Some p \<Rightarrow> (w, p)
    | None \<Rightarrow> (let p = length (sw_heap w) in
        (w\<lparr>sw_heap := sw_heap w @ [newSharedRoom roomID], sw_rooms := (sw_rooms w)(roomID := Some p)\<rparr>, p)))"

definition at_room :: "nat \<Rightarrow> (sroom \<Rightarrow> sroom) \<Rightarrow> watcher \<Rightarrow> watcher" where
  "at_room p f w = w\<lparr>sw_heap := (sw_heap w)[p := f (sw_heap w ! p)]\<rparr>"

definition drop_at :: "nat \<Rightarrow> 'a list \<Rightarrow> 'a list" where
  "drop_at i xs = take i xs @ drop (Suc i) xs"

text \<open>The locked part of the GC cycle.\<close>

fun gc_remove :: "nat list \<Rightarrow> watcher \<Rightarrow> watcher" where
  "gc_remove [] w = w"
| "gc_remove (p # ps) w =
     (if OpenedCursors (sw_heap w ! p) \<noteq> 0 then gc_remove ps w
      else gc_remove ps (w\<lparr>sw_rooms := (sw_rooms w)(sr_roomID (sw_heap w ! p) := None),
             sw_closing := sw_closing w @ [p]\<rparr>))"

definition unused :: "watcher \<Rightarrow> nat set" where
  "unused w = {p \<in> ran (sw_rooms w). OpenedCursors (sw_heap w ! p) = 0}"

inductive watch_step :: "int \<Rightarrow> watcher \<Rightarrow> watcher \<Rightarrow> bool" for maxEvents where
  checked: "\<not> sw_shuttingDown w \<Longrightarrow> watch_step maxEvents w (w\<lparr>sw_checked := roomID # sw_checked w\<rparr>)"
| found: "i < length (sw_checked w) \<Longrightarrow> getOrCreate (sw_checked w ! i) w = (w', p) \<Longrightarrow>
     watch_step maxEvents w (w'\<lparr>sw_found := sw_found w' @ [(sw_checked w ! i, p)],
       sw_checked := drop_at i (sw_checked w)\<rparr>)"
| watch_failed: "i < length (sw_found w) \<Longrightarrow> sw_found w ! i = (roomID, p) \<Longrightarrow>
     GetOrStart roomID maxEvents upstream (sw_heap w ! p) = (r, Some e) \<Longrightarrow>
     watch_step maxEvents w (at_room p (\<lambda>_. r) w \<lparr>sw_found := drop_at i (sw_found w)\<rparr>)"
| watch_started: "i < length (sw_found w) \<Longrightarrow> sw_found w ! i = (roomID, p) \<Longrightarrow>
     GetOrStart roomID maxEvents upstream (sw_heap w ! p) = (r, None) \<Longrightarrow>
     watch_step maxEvents w (at_room p (\<lambda>_. r) w \<lparr>sw_found := drop_at i (sw_found w),
       sw_started := sw_started w @ [p]\<rparr>)"
| opened: "i < length (sw_started w) \<Longrightarrow> sw_started w ! i = p \<Longrightarrow>
     watch_step maxEvents w (at_room p sroom_SharedCursor w
       \<lparr>sw_started := drop_at i (sw_started w)\<rparr>)"
| cursor_closed: "p < length (sw_heap w) \<Longrightarrow> i < length (sr_cursors (sw_heap w ! p)) \<Longrightarrow>
     watch_step maxEvents w (at_room p (sroom_cursor_Close i) w)"
| iterated: "p < length (sw_heap w) \<Longrightarrow> sr_iterating (sw_heap w ! p) \<Longrightarrow>
     iterate upstream (sw_heap w ! p) = Some r \<Longrightarrow> watch_step maxEvents w (at_room p (\<lambda>_. r) w)"
| iterate_panic: "p < length (sw_heap w) \<Longrightarrow> sr_iterating (sw_heap w ! p) \<Longrightarrow>
     iterate upstream (sw_heap w ! p) = None \<Longrightarrow> watch_step maxEvents w (w\<lparr>sw_crashed := True\<rparr>)"
| gc_collect: "\<not> sw_shuttingDown w \<Longrightarrow> sw_candidates w = [] \<Longrightarrow> set ps = unused w \<Longrightarrow> distinct ps \<Longrightarrow>
     watch_step maxEvents w (w\<lparr>sw_candidates := ps\<rparr>)"
| gc_removed: "watch_step maxEvents w (gc_remove (sw_candidates w) w \<lparr>sw_candidates := []\<rparr>)"
| shutdown: "set ps = ran (sw_rooms w) \<Longrightarrow>
     watch_step maxEvents w (w\<lparr>sw_shuttingDown := True, sw_rooms := (\<lambda>_. None), sw_closing := sw_closing w @ ps\<rparr>)"
| close_cancel: "p \<in> set (sw_closing w) \<Longrightarrow>
     watch_step maxEvents w (at_room p (\<lambda>r. r\<lparr>sr_cancelled := True\<rparr>) w)"
| close_done: "i < length (sw_closing w) \<Longrightarrow> sw_closing w ! i = p \<Longrightarrow> sr_cancelled (sw_heap w ! p) \<Longrightarrow>
     sr_iterator (sw_heap w ! p) = 0 \<Longrightarrow> close_waited (sw_heap w ! p) = Some r \<Longrightarrow>
     watch_step maxEvents w (at_room p (\<lambda>_. r) w
       \<lparr>sw_closing := drop_at i (sw_closing w)\<rparr>)"
| close_panic: "p \<in> set (sw_closing w) \<Longrightarrow> sr_cancelled (sw_heap w ! p) \<Longrightarrow>
     sr_iterator (sw_heap w ! p) = 0 \<Longrightarrow> close_waited (sw_heap w ! p) = None \<Longrightarrow>
     watch_step maxEvents w (w\<lparr>sw_crashed := True\<rparr>)"

text \<open>Nothing runs after a panic.\<close>

definition watch_run :: "int \<Rightarrow> watcher \<Rightarrow> watcher \<Rightarrow> bool" where
  "watch_run maxEvents w w' \<longleftrightarrow> \<not> sw_crashed w \<and> watch_step maxEvents w w'"

abbreviation watch_reach :: "int \<Rightarrow> watcher \<Rightarrow> watcher \<Rightarrow> bool" where
  "watch_reach maxEvents \<equiv> reach (watch_run maxEvents)"

lemma watch_more: "watch_reach n w0 w \<Longrightarrow> \<not> sw_crashed w \<Longrightarrow> watch_step n w w' \<Longrightarrow> watch_reach n w0 w'"
  by (rule reach.more) (simp_all add: watch_run_def)

section \<open>The invariant\<close>

text \<open>
  Of one room: the wait group counts the failed starts, the aborted iterations and the
  running one; the iteration runs exactly while the room is open.
\<close>

definition sroom_ok :: "sroom \<Rightarrow> bool" where
  "sroom_ok r \<longleftrightarrow>
     sr_iterator r = int (sr_failed r) + int (sr_aborted r) + (if sr_iterating r then 1 else 0) \<and>
     (case sr_room r of
        None \<Rightarrow> \<not> sr_iterating r \<and> \<not> sr_watching r \<and> sr_roomID r = uuid_Nil
      | Some rm \<Rightarrow> room_inv False rm \<and> sr_watching r \<and> sr_roomID r = sr_key r \<and>
          (sr_iterating r \<longleftrightarrow> \<not> rm_closed rm))"

text \<open>What every operation on a room keeps.\<close>

definition op_ok :: "sroom \<Rightarrow> sroom \<Rightarrow> bool" where
  "op_ok r r' \<longleftrightarrow> (sroom_ok r \<longrightarrow> sroom_ok r') \<and> sr_key r' = sr_key r \<and>
     (sr_room r \<noteq> None \<longrightarrow> sr_room r' \<noteq> None) \<and> sr_failed r \<le> sr_failed r' \<and> sr_aborted r \<le> sr_aborted r'"

lemma newSharedRoom_ok: "sroom_ok (newSharedRoom k)"
  by (simp add: sroom_ok_def newSharedRoom_def)

lemma GetOrStart_ok: "GetOrStart roomID n up r = (r', e) \<Longrightarrow> sr_key r = roomID \<Longrightarrow> op_ok r r'"
  by (auto simp: GetOrStart_def op_ok_def sroom_ok_def Let_def room_inv_init NewRoom_def [of n]
      split: if_splits option.splits) (use room_inv_init [of n] in \<open>simp add: NewRoom_def\<close>)

lemma GetOrStart_started: "GetOrStart roomID n up r = (r', None) \<Longrightarrow> sr_room r' \<noteq> None"
  by (auto simp: GetOrStart_def Let_def split: if_splits option.splits)

text \<open>A room that passes its upstream on never panics while it is open.\<close>

lemma room_Next_open:
  assumes "room_inv False rm" and "\<not> rm_closed rm"
  obtains rm' where "room_Next rm up = Some (rm', up)" "room_inv False rm'"
    "rm_closed rm' \<longleftrightarrow> \<not> is_ok up"
proof (cases up)
  case (Inl e)
  obtain rm' where "room_close rm = Some rm'" "room_inv False rm'" "rm_closed rm'"
    using close_ok [OF assms(1)] by blast
  with Inl that show thesis
    by (simp add: room_Next_def)
next
  case (Inr ev)
  obtain rm1 where 1: "room_publish rm ev = Some rm1" "room_inv True rm1" "rm_closed rm1 = rm_closed rm"
    using publish_ok [OF assms] by metis
  obtain rm2 where "room_retire rm1 = Some rm2" "room_inv False rm2" "rm_closed rm2 = rm_closed rm1"
    using retire_ok [OF 1(2)] by metis
  with 1 Inr assms(2) that show thesis
    by (simp add: room_Next_def)
qed

lemma iterate_ok:
  assumes "sroom_ok r" and "sr_iterating r"
  obtains r' where "iterate up r = Some r'" "op_ok r r'"
proof -
  from assms obtain rm where rm: "sr_room r = Some rm" "room_inv False rm" "\<not> rm_closed rm"
    by (auto simp: sroom_ok_def split: option.splits)
  obtain rm' where n: "room_Next rm up = Some (rm', up)" "room_inv False rm'" "rm_closed rm' \<longleftrightarrow> \<not> is_ok up"
    by (rule room_Next_open [OF rm(2,3)])
  show thesis
  proof (cases up)
    case (Inl e)
    with rm n assms that show thesis
      by (auto simp: iterate_def Let_def op_ok_def sroom_ok_def)
  next
    case (Inr ev)
    with rm n assms that show thesis
      by (auto simp: iterate_def Let_def op_ok_def sroom_ok_def)
  qed
qed

lemma SharedCursor_ok: "op_ok r (sroom_SharedCursor r)"
  by (auto simp: op_ok_def sroom_SharedCursor_def sroom_ok_def room_SharedCursor_def split: option.splits)

lemma sroom_cursor_Close_ok: "op_ok r (sroom_cursor_Close i r)"
  by (auto simp: op_ok_def sroom_cursor_Close_def sroom_ok_def cursor_Close_def split: option.splits)

lemma cancel_ok: "op_ok r (r\<lparr>sr_cancelled := True\<rparr>)"
  by (auto simp: op_ok_def sroom_ok_def split: option.splits)

lemma close_waited_ok:
  assumes "close_waited r = Some r'" and "sr_iterator r = 0"
  shows "op_ok r r'"
proof -
  have "sroom_ok r'" if ok: "sroom_ok r"
  proof -
    from ok assms(2) have "\<not> sr_iterating r"
      by (auto simp: sroom_ok_def split: if_splits)
    with ok assms(1) obtain rm rm' where "sr_room r = Some rm" "room_inv False rm" "rm_closed rm"
      "room_close rm = Some rm'" "r' = r\<lparr>sr_room := Some rm'\<rparr>"
      by (auto simp: close_waited_def sroom_ok_def split: option.splits)
    with ok show ?thesis
      by (auto simp: sroom_ok_def room_close_def)
  qed
  moreover have "\<exists>rm'. r' = r\<lparr>sr_room := Some rm'\<rparr>"
    using assms(1) by (auto simp: close_waited_def split: option.splits)
  ultimately show ?thesis
    by (auto simp: op_ok_def)
qed

lemma close_waited_None: "sroom_ok r \<Longrightarrow> close_waited r = None \<Longrightarrow> sr_room r = None"
proof (rule ccontr)
  assume *: "sroom_ok r" "close_waited r = None" "sr_room r \<noteq> None"
  then obtain rm where "sr_room r = Some rm" "room_inv False rm"
    by (auto simp: sroom_ok_def)
  then obtain rm' where "room_close rm = Some rm'"
    by (metis close_ok)
  with *(2) \<open>sr_room r = Some rm\<close> show False
    by (simp add: close_waited_def)
qed

text \<open>Of the watcher: pointers are valid and agree with the ids they were found under.\<close>

definition watcher_ok :: "watcher \<Rightarrow> bool" where
  "watcher_ok w \<longleftrightarrow>
     (\<forall>r \<in> set (sw_heap w). sroom_ok r) \<and>
     (\<forall>k p. sw_rooms w k = Some p \<longrightarrow> p < length (sw_heap w) \<and> sr_key (sw_heap w ! p) = k) \<and>
     (\<forall>(k, p) \<in> set (sw_found w). p < length (sw_heap w) \<and> sr_key (sw_heap w ! p) = k) \<and>
     (\<forall>p \<in> set (sw_started w). p < length (sw_heap w) \<and> sr_room (sw_heap w ! p) \<noteq> None) \<and>
     (\<forall>p \<in> set (sw_candidates w) \<union> set (sw_closing w). p < length (sw_heap w)) \<and>
     (\<not> sw_shuttingDown w \<longrightarrow>
        (\<forall>p \<in> set (sw_candidates w). sw_rooms w (sr_key (sw_heap w ! p)) = Some p)) \<and>
     (sw_crashed w \<longrightarrow> (\<exists>p \<in> set (sw_closing w). sr_room (sw_heap w ! p) = None))"

lemma watcher_ok_room: "watcher_ok w \<Longrightarrow> p < length (sw_heap w) \<Longrightarrow> sroom_ok (sw_heap w ! p)"
  by (simp add: watcher_ok_def)

lemma at_room_simps [simp]:
  "sw_rooms (at_room p f w) = sw_rooms w" "sw_shuttingDown (at_room p f w) = sw_shuttingDown w"
  "sw_candidates (at_room p f w) = sw_candidates w" "sw_found (at_room p f w) = sw_found w"
  "sw_started (at_room p f w) = sw_started w" "sw_closing (at_room p f w) = sw_closing w"
  "sw_crashed (at_room p f w) = sw_crashed w" "length (sw_heap (at_room p f w)) = length (sw_heap w)"
  "sw_heap (at_room p f w) = (sw_heap w)[p := f (sw_heap w ! p)]"
  by (simp_all add: at_room_def)

lemma set_drop_at: "set (drop_at i xs) \<subseteq> set xs"
  by (simp add: drop_at_def set_drop_subset set_take_subset)

lemma ball_drop_at: "\<forall>x \<in> set xs. P x \<Longrightarrow> \<forall>x \<in> set (drop_at i xs). P x"
  using set_drop_at [of i xs] by blast

lemma at_room_nth:
  assumes "op_ok (sw_heap w ! p) (f (sw_heap w ! p))"
  shows "sr_key (sw_heap (at_room p f w) ! q) = sr_key (sw_heap w ! q)"
    and "sr_room (sw_heap w ! q) \<noteq> None \<Longrightarrow> sr_room (sw_heap (at_room p f w) ! q) \<noteq> None"
proof -
  have "sw_heap (at_room p f w) ! q = (if q = p \<and> p < length (sw_heap w) then f (sw_heap w ! p) else sw_heap w ! q)"
    by (cases "p < length (sw_heap w)") (auto simp: nth_list_update list_update_beyond)
  with assms show "sr_key (sw_heap (at_room p f w) ! q) = sr_key (sw_heap w ! q)"
    and "sr_room (sw_heap w ! q) \<noteq> None \<Longrightarrow> sr_room (sw_heap (at_room p f w) ! q) \<noteq> None"
    unfolding op_ok_def by (auto split: if_splits)
qed

lemma watcher_ok_drop:
  assumes "watcher_ok w"
  shows "watcher_ok (w\<lparr>sw_found := drop_at i (sw_found w)\<rparr>)"
    and "watcher_ok (w\<lparr>sw_started := drop_at j (sw_started w)\<rparr>)"
proof -
  have "\<forall>(k, p) \<in> set (sw_found w). p < length (sw_heap w) \<and> sr_key (sw_heap w ! p) = k"
    and "\<forall>p \<in> set (sw_started w). p < length (sw_heap w) \<and> sr_room (sw_heap w ! p) \<noteq> None"
    using assms unfolding watcher_ok_def by simp_all
  from ball_drop_at [OF this(1), of i] ball_drop_at [OF this(2), of j]
  show "watcher_ok (w\<lparr>sw_found := drop_at i (sw_found w)\<rparr>)"
    and "watcher_ok (w\<lparr>sw_started := drop_at j (sw_started w)\<rparr>)"
    using assms unfolding watcher_ok_def by simp_all
qed

text \<open>An operation that keeps a room keeps the watcher, unless it undoes the cause of a crash.\<close>

lemma at_room_ok:
  assumes "watcher_ok w" and "\<not> sw_crashed w" and "op_ok (sw_heap w ! p) (f (sw_heap w ! p))"
    and "p < length (sw_heap w)"
  shows "watcher_ok (at_room p f w)"
proof -
  note key = at_room_nth(1) [of w p f, OF assms(3)] and started = at_room_nth(2) [of w p f, OF assms(3)]
  have "\<forall>r \<in> set (sw_heap (at_room p f w)). sroom_ok r"
    using assms set_update_subset_insert [of "sw_heap w" p] by (fastforce simp: watcher_ok_def op_ok_def)
  then show ?thesis
    using assms(1,2) key started unfolding watcher_ok_def
    by (auto simp del: at_room_simps(9))
qed

lemma watcher_ok_init: "watcher_ok NewSharedWatcher"
  by (simp add: watcher_ok_def NewSharedWatcher_def)

lemma getOrCreate_ok:
  assumes "watcher_ok w" and "getOrCreate k w = (w', p)" and "\<not> sw_crashed w"
  shows "watcher_ok w' \<and> p < length (sw_heap w') \<and> sr_key (sw_heap w' ! p) = k \<and>
    (\<exists>rs. sw_heap w' = sw_heap w @ rs) \<and> sw_closing w' = sw_closing w \<and> \<not> sw_crashed w'"
proof (cases "sw_rooms w k")
  case None
  then have w': "w' = w\<lparr>sw_heap := sw_heap w @ [newSharedRoom k], sw_rooms := (sw_rooms w)(k := Some (length (sw_heap w)))\<rparr>"
    using assms(2) by (auto simp: getOrCreate_def Let_def)
  have key: "sr_key (newSharedRoom k) = k"
    by (simp add: newSharedRoom_def)
  have "watcher_ok w'"
    unfolding w' watcher_ok_def
  proof (intro conjI, goal_cases)
    case 2
    have "\<forall>k p. sw_rooms w k = Some p \<longrightarrow> p < length (sw_heap w) \<and> sr_key (sw_heap w ! p) = k"
      using assms(1) by (simp add: watcher_ok_def)
    then show ?case by (auto simp: nth_append key intro: less_SucI)
  next
    case 5
    have "\<forall>p \<in> set (sw_candidates w) \<union> set (sw_closing w). p < length (sw_heap w)"
      using assms(1) unfolding watcher_ok_def by (elim conjE)
    then show ?case by (auto intro: less_SucI)
  next
    case 3
    have "\<forall>(k, p) \<in> set (sw_found w). p < length (sw_heap w) \<and> sr_key (sw_heap w ! p) = k"
      using assms(1) by (simp add: watcher_ok_def)
    then show ?case by (auto simp: nth_append)
  next
    case 4
    have "\<forall>p \<in> set (sw_started w). p < length (sw_heap w) \<and> sr_room (sw_heap w ! p) \<noteq> None"
      using assms(1) by (simp add: watcher_ok_def)
    then show ?case by (auto simp: nth_append)
  next
    case 6
    have "\<forall>p \<in> set (sw_candidates w). p < length (sw_heap w) \<and>
       (\<not> sw_shuttingDown w \<longrightarrow> sw_rooms w (sr_key (sw_heap w ! p)) = Some p)"
      using assms(1) by (simp add: watcher_ok_def)
    with None show ?case by (auto simp: nth_append)
  qed (use assms(1,3) None in \<open>auto simp: watcher_ok_def nth_append newSharedRoom_ok key\<close>)
  with assms(2,3) None show ?thesis
    by (auto simp: w' getOrCreate_def Let_def key)
next
  case (Some q)
  with assms show ?thesis
    by (auto simp: getOrCreate_def watcher_ok_def)
qed

lemma gc_remove_simps [simp]:
  "sw_heap (gc_remove ps w) = sw_heap w" "sw_shuttingDown (gc_remove ps w) = sw_shuttingDown w"
  "sw_found (gc_remove ps w) = sw_found w" "sw_started (gc_remove ps w) = sw_started w"
  "sw_crashed (gc_remove ps w) = sw_crashed w" "sw_candidates (gc_remove ps w) = sw_candidates w"
  "sw_checked (gc_remove ps w) = sw_checked w"
  by (induction ps arbitrary: w) auto

lemma gc_remove_closing:
  "sw_closing (gc_remove ps w) = sw_closing w @ filter (\<lambda>p. OpenedCursors (sw_heap w ! p) = 0) ps"
  by (induction ps arbitrary: w) auto

lemma gc_remove_rooms:
  "sw_rooms (gc_remove ps w) k =
     (if \<exists>p \<in> set ps. OpenedCursors (sw_heap w ! p) = 0 \<and> sr_roomID (sw_heap w ! p) = k
      then None else sw_rooms w k)"
  by (induction ps arbitrary: w) auto

lemma gc_removed_ok:
  assumes "watcher_ok w"
  shows "watcher_ok (gc_remove (sw_candidates w) w \<lparr>sw_candidates := []\<rparr>)"
  using assms unfolding watcher_ok_def by (auto simp: gc_remove_closing gc_remove_rooms split: if_splits)

lemma watch_step_ok:
  assumes "watch_step n w w'" and "watcher_ok w" and "\<not> sw_crashed w"
  shows "watcher_ok w'"
  using assms
proof (induction rule: watch_step.induct)
  case (checked w k)
  then show ?case
    by (simp add: watcher_ok_def)
next
  case (found i w w' p)
  from getOrCreate_ok [OF found(3,2,4)] show ?case
    unfolding watcher_ok_def by simp
next
  case (watch_failed i w k p up r e)
  have p: "p < length (sw_heap w)" "sr_key (sw_heap w ! p) = k"
    using watch_failed(1,2,4) nth_mem [OF watch_failed(1)] by (auto simp: watcher_ok_def)
  have ok: "watcher_ok (at_room p (\<lambda>_. r) w)"
    by (rule at_room_ok) (use watch_failed p in \<open>auto intro: GetOrStart_ok\<close>)
  show ?case
    using watcher_ok_drop(1) [OF ok] by simp
next
  case (watch_started i w k p up r)
  have p: "p < length (sw_heap w)" "sr_key (sw_heap w ! p) = k"
    using watch_started(1,2,4) nth_mem [OF watch_started(1)] by (auto simp: watcher_ok_def)
  have ok: "watcher_ok (at_room p (\<lambda>_. r) w)"
    by (rule at_room_ok) (use watch_started p in \<open>auto intro: GetOrStart_ok\<close>)
  show ?case
    using watcher_ok_drop(1) [OF ok] p GetOrStart_started [OF watch_started(3)] unfolding watcher_ok_def by simp
next
  case (opened i w p)
  have p: "p < length (sw_heap w)"
    using opened(1,2,3) nth_mem [OF opened(1)] by (auto simp: watcher_ok_def)
  have ok: "watcher_ok (at_room p sroom_SharedCursor w)"
    by (rule at_room_ok) (use opened p in \<open>auto intro: SharedCursor_ok\<close>)
  show ?case
    using watcher_ok_drop(2) [OF ok] by simp
next
  case (cursor_closed p w i)
  then show ?case
    by (intro at_room_ok sroom_cursor_Close_ok)
next
  case (iterated p w up r)
  then have "op_ok (sw_heap w ! p) r"
    using iterate_ok [OF watcher_ok_room] by (metis option.inject)
  with iterated show ?case
    by (intro at_room_ok)
next
  case (iterate_panic p w up)
  then show ?case
    using iterate_ok [OF watcher_ok_room] by (metis option.distinct(1))
next
  case (gc_collect w ps)
  then show ?case
    unfolding watcher_ok_def unused_def by (auto simp: ran_def)
next
  case (gc_removed w)
  then show ?case
    by (intro gc_removed_ok)
next
  case (shutdown ps w)
  then show ?case
    unfolding watcher_ok_def by (auto simp: ran_def)
next
  case (close_cancel p w)
  then have "p < length (sw_heap w)"
    by (auto simp: watcher_ok_def)
  with close_cancel show ?case
    by (intro at_room_ok cancel_ok)
next
  case (close_done i w p r)
  have p: "p < length (sw_heap w)"
    using close_done(1,2,6) nth_mem [OF close_done(1)] by (auto simp: watcher_ok_def)
  have ok: "watcher_ok (at_room p (\<lambda>_. r) w)"
    by (rule at_room_ok) (use close_done p in \<open>auto intro: close_waited_ok\<close>)
  show ?case
    using ok close_done(7) set_drop_at [of i "sw_closing w"] unfolding watcher_ok_def by auto
next
  case (close_panic p w)
  then have "sr_room (sw_heap w ! p) = None"
    by (intro close_waited_None [OF watcher_ok_room]) (auto simp: watcher_ok_def)
  with close_panic show ?case
    by (auto simp: watcher_ok_def)
qed

interpretation watching: stable "watch_run n" watcher_ok for n
  by unfold_locales (auto simp: watch_run_def intro: watch_step_ok)

lemma watch_reach_ok: "watch_reach n NewSharedWatcher w \<Longrightarrow> watcher_ok w"
  by (rule watching.always [OF _ watcher_ok_init])

section \<open>Properties\<close>

text \<open>
  The wait group of a shared room is exactly the number of its failed starts, plus the
  number of its aborted iterations, plus one while its iteration runs, and the iteration
  runs exactly while the room is open; so a panic of \<^verbatim>\<open>room.Next\<close> or of \<^verbatim>\<open>Done\<close> is impossible.
\<close>

theorem shared_iterator_exact:
  assumes "watch_reach n NewSharedWatcher w" and "p < length (sw_heap w)"
  shows "let r = sw_heap w ! p in
    sr_iterator r = int (sr_failed r) + int (sr_aborted r) + (if sr_iterating r then 1 else 0) \<and>
    sr_iterating r = (case sr_room r of None \<Rightarrow> False | Some rm \<Rightarrow> \<not> rm_closed rm) \<and>
    (sr_iterating r \<longrightarrow> iterate up r \<noteq> None)"
proof -
  have ok: "sroom_ok (sw_heap w ! p)"
    using watcher_ok_room [OF watch_reach_ok [OF assms(1)] assms(2)] .
  then have "sr_iterating (sw_heap w ! p) \<Longrightarrow> iterate up (sw_heap w ! p) \<noteq> None"
    by (metis iterate_ok option.distinct(1))
  with ok show ?thesis
    by (auto simp: Let_def sroom_ok_def split: option.splits)
qed


text \<open>The heap only grows, and each operation keeps what \<open>op_ok\<close> says.\<close>

lemma heap_updated:
  assumes "op_ok (sw_heap w ! q) r"
  shows "sr_failed (sw_heap w ! p) \<le> sr_failed ((sw_heap w)[q := r] ! p)"
    and "sr_aborted (sw_heap w ! p) \<le> sr_aborted ((sw_heap w)[q := r] ! p)"
  using assms by (cases "p = q"; cases "q < length (sw_heap w)";
      simp add: op_ok_def list_update_beyond)+

definition stuck :: "watcher \<Rightarrow> nat \<Rightarrow> bool" where
  "stuck w p \<longleftrightarrow> p < length (sw_heap w) \<and> 0 < sr_failed (sw_heap w ! p) + sr_aborted (sw_heap w ! p)"

lemma stuck_update: "op_ok (sw_heap w ! q) r \<Longrightarrow> stuck w p \<Longrightarrow>
    p < length ((sw_heap w)[q := r]) \<and> 0 < sr_failed ((sw_heap w)[q := r] ! p) + sr_aborted ((sw_heap w)[q := r] ! p)"
  using heap_updated [of w q r p] by (auto simp: stuck_def)

lemma drop_at_keeps:
  assumes "x \<in> set xs" and "x \<noteq> xs ! i"
  shows "x \<in> set (drop_at i xs)"
proof (cases "i < length xs")
  case True
  then have "set xs = insert (xs ! i) (set (drop_at i xs))"
    using arg_cong [OF id_take_nth_drop [OF True], of set] by (simp add: drop_at_def)
  with assms show ?thesis by simp
next
  case False
  with assms show ?thesis by (simp add: drop_at_def)
qed

text \<open>A stuck room stays stuck, and its closing goroutine never ends.\<close>

lemma stuck_step:
  assumes "watch_step n w w'" and "watcher_ok w" and "stuck w p" and "\<not> sw_crashed w"
  shows "stuck w' p" "p \<in> set (sw_closing w) \<Longrightarrow> p \<in> set (sw_closing w')"
proof -
  have "stuck w' p \<and> (p \<in> set (sw_closing w) \<longrightarrow> p \<in> set (sw_closing w'))"
    using assms
  proof (induction rule: watch_step.induct)
    case (found i w w' q)
    from getOrCreate_ok [OF found(3,2,5)] found(4) show ?case
      by (auto simp: stuck_def nth_append)
  next
    case (watch_failed i w k q up r e)
    then have "sr_key (sw_heap w ! q) = k"
      using nth_mem [OF watch_failed(1)] by (auto simp: watcher_ok_def)
    from stuck_update [OF GetOrStart_ok [OF watch_failed(3) this] watch_failed(5)] show ?case
      by (simp add: stuck_def)
  next
    case (watch_started i w k q up r)
    then have "sr_key (sw_heap w ! q) = k"
      using nth_mem [OF watch_started(1)] by (auto simp: watcher_ok_def)
    from stuck_update [OF GetOrStart_ok [OF watch_started(3) this] watch_started(5)] show ?case
      by (simp add: stuck_def)
  next
    case (opened i w q)
    from stuck_update [OF SharedCursor_ok opened(4), of q] show ?case
      by (simp add: stuck_def)
  next
    case (cursor_closed q w i)
    from stuck_update [OF sroom_cursor_Close_ok cursor_closed(4), of q] show ?case
      by (simp add: stuck_def)
  next
    case (iterated q w up r)
    then have "op_ok (sw_heap w ! q) r"
      using iterate_ok [OF watcher_ok_room] by (metis option.inject)
    from stuck_update [OF this iterated(5)] show ?case
      by (simp add: stuck_def)
  next
    case (close_cancel q w)
    from stuck_update [OF cancel_ok close_cancel(3), of q] show ?case
      by (simp add: stuck_def)
  next
    case (close_done i w q r)
    have "p \<noteq> q"
      using close_done(4,6,7) watcher_ok_room [OF close_done(6), of p]
      by (auto simp: stuck_def sroom_ok_def split: if_splits)
    moreover have "p \<in> set (drop_at i (sw_closing w))" if "p \<in> set (sw_closing w)"
      using drop_at_keeps [OF that] close_done(2) \<open>p \<noteq> q\<close> by blast
    ultimately show ?case
      using stuck_update [OF close_waited_ok [OF close_done(5,4)] close_done(7)] by (simp add: stuck_def)
  qed (auto simp: stuck_def gc_remove_closing)
  then show "stuck w' p" "p \<in> set (sw_closing w) \<Longrightarrow> p \<in> set (sw_closing w')"
    by blast+
qed

text \<open>
  Once an upstream \<^verbatim>\<open>Watch\<close> of a room has failed, or an iteration of it was aborted by an
  unexpected error, the goroutine that closes the room never ends, in any continuation of
  the run: \<^verbatim>\<open>Shutdown\<close>, which waits for it, never returns.
\<close>

theorem failed_watch_blocks_close:
  assumes "watch_reach n NewSharedWatcher w" and "p < length (sw_heap w)"
    and "0 < sr_failed (sw_heap w ! p) + sr_aborted (sw_heap w ! p)" and "p \<in> set (sw_closing w)"
    and "watch_reach n w w'"
  shows "p \<in> set (sw_closing w')"
proof -
  have "stuck w p"
    using assms(2,3) by (simp add: stuck_def)
  moreover have "stuck t p \<and> p \<in> set (sw_closing t)"
    if "watcher_ok s" "stuck s p \<and> p \<in> set (sw_closing s)" "watch_run n s t" for s t
    using stuck_step [of n s t p] that unfolding watch_run_def by blast
  ultimately have "stuck w' p \<and> p \<in> set (sw_closing w')"
    using watching.along [OF _ assms(5) watch_reach_ok [OF assms(1)], of "\<lambda>w. stuck w p \<and> p \<in> set (sw_closing w)"]
      assms(4) by blast
  then show ?thesis by blast
qed

text \<open>
  Outside a shutdown, the GC removes a started room from the map exactly when it was a
  candidate and has no open cursor at the moment of the removal; a room with an open cursor
  keeps its entry.
\<close>

theorem gc_keeps_used_rooms:
  assumes "watch_reach n NewSharedWatcher w" and "\<not> sw_shuttingDown w"
    and "sw_rooms w k = Some p" and "k \<noteq> uuid_Nil"
  shows "sw_rooms (gc_remove (sw_candidates w) w) k =
    (if p \<in> set (sw_candidates w) \<and> OpenedCursors (sw_heap w ! p) = 0 \<and> sr_room (sw_heap w ! p) \<noteq> None
     then None else Some p)"
proof -
  note ok = watch_reach_ok [OF assms(1)]
  have cand: "q < length (sw_heap w) \<and> sw_rooms w (sr_key (sw_heap w ! q)) = Some q"
    if "q \<in> set (sw_candidates w)" for q
    using ok assms(2) that by (auto simp: watcher_ok_def)
  have key: "p < length (sw_heap w)" "sr_key (sw_heap w ! p) = k"
    using ok assms(3) by (auto simp: watcher_ok_def)
  have "sr_roomID (sw_heap w ! q) = k \<longleftrightarrow> q = p \<and> sr_room (sw_heap w ! p) \<noteq> None"
    if "q \<in> set (sw_candidates w)" for q
  proof -
    have "sroom_ok (sw_heap w ! q)"
      using watcher_ok_room [OF ok] cand [OF that] by blast
    then have "sr_roomID (sw_heap w ! q) =
        (if sr_room (sw_heap w ! q) = None then uuid_Nil else sr_key (sw_heap w ! q))"
      by (auto simp: sroom_ok_def split: option.splits)
    with cand [OF that] key assms(3,4) show ?thesis
      by auto
  qed
  then show ?thesis
    using assms(3) by (auto simp: gc_remove_rooms)
qed

section \<open>Runs\<close>

text \<open>A client that found its room, and how the run goes on from there.\<close>

definition demo_found :: watcher where
  "demo_found = NewSharedWatcher\<lparr>sw_heap := [newSharedRoom 5], sw_rooms := (\<lambda>_. None)(5 := Some 0),
     sw_found := [(5, 0)]\<rparr>"

definition demo_started :: watcher where
  "demo_started = demo_found\<lparr>sw_heap := [fst (GetOrStart 5 1 None (newSharedRoom 5))],
     sw_found := [], sw_started := [0]\<rparr>"

definition demo_failed :: watcher where
  "demo_failed = demo_found\<lparr>sw_heap := [fst (GetOrStart 5 1 (Some (Foreign 1)) (newSharedRoom 5))], sw_found := []\<rparr>"

definition close_all :: "watcher \<Rightarrow> watcher" where
  "close_all w = at_room 0 (\<lambda>r. r\<lparr>sr_cancelled := True\<rparr>)
     (w\<lparr>sw_shuttingDown := True, sw_rooms := (\<lambda>_. None), sw_closing := [0]\<rparr>)"

lemmas watch_demo_defs = demo_found_def demo_started_def demo_failed_def NewSharedWatcher_def
  newSharedRoom_def GetOrStart_def drop_at_def at_room_def getOrCreate_def Let_def

lemma demo_found_reach: "watch_reach 1 NewSharedWatcher demo_found"
proof -
  let ?w = "NewSharedWatcher\<lparr>sw_checked := 5 # sw_checked NewSharedWatcher\<rparr>"
  have 1: "watch_step 1 NewSharedWatcher ?w"
    by (rule watch_step.checked) (simp add: NewSharedWatcher_def)
  have 2: "watch_step 1 ?w demo_found"
    using watch_step.found [of 0 ?w _ _ 1] by (simp add: watch_demo_defs)
  show ?thesis
    by (rule watch_more [OF watch_more [OF reach.here _ 1] _ 2])
      (simp_all add: NewSharedWatcher_def)
qed

lemma demo_started_reach: "watch_reach 1 NewSharedWatcher demo_started"
proof (rule watch_more [OF demo_found_reach])
  show "watch_step 1 demo_found demo_started"
    using watch_step.watch_started [of 0 demo_found 5 0 1 None] by (simp add: watch_demo_defs)
qed (simp add: watch_demo_defs)

lemma demo_failed_reach: "watch_reach 1 NewSharedWatcher demo_failed"
proof (rule watch_more [OF demo_found_reach])
  show "watch_step 1 demo_found demo_failed"
    using watch_step.watch_failed [of 0 demo_found 5 0 1 "Some (Foreign 1)"] by (simp add: watch_demo_defs)
qed (simp add: watch_demo_defs)

lemma close_all_reach:
  assumes "watch_reach 1 w0 w" and "sw_rooms w = (\<lambda>_. None)(5 := Some 0)" and "sw_closing w = []" and "\<not> sw_crashed w"
  shows "watch_reach 1 w0 (close_all w)"
proof -
  let ?w = "w\<lparr>sw_shuttingDown := True, sw_rooms := (\<lambda>_. None), sw_closing := [0]\<rparr>"
  have 1: "watch_step 1 w ?w"
    using watch_step.shutdown [of "[0]" w 1] assms(2,3) by simp
  have 2: "watch_step 1 ?w (close_all w)"
    using watch_step.close_cancel [of 0 ?w 1] by (simp add: close_all_def)
  show ?thesis
    by (rule watch_more [OF watch_more [OF assms(1) _ 1] _ 2]) (use assms(4) in simp_all)
qed

theorem shared_iterator_exact_witness:
  "sr_iterator (sw_heap demo_started ! 0) = 1 \<and>
   iterate (Inl (Foreign 1)) (sw_heap demo_started ! 0) \<noteq> None \<and> sr_iterator (sw_heap demo_failed ! 0) = 1"
  using shared_iterator_exact [OF demo_started_reach, of 0 "Inl (Foreign 1)"]
    shared_iterator_exact [OF demo_failed_reach, of 0]
  by (simp add: watch_demo_defs)


theorem failed_watch_blocks_close_witness: "0 \<in> set (sw_closing (close_all demo_failed))"
proof -
  have r: "watch_reach 1 NewSharedWatcher (close_all demo_failed)"
    by (rule close_all_reach [OF demo_failed_reach]) (simp_all add: watch_demo_defs)
  show ?thesis
    by (rule failed_watch_blocks_close [OF r _ _ _ reach.here])
      (simp_all add: close_all_def watch_demo_defs)
qed

theorem gc_keeps_used_rooms_witness:
  "sw_rooms (gc_remove [0] (demo_started\<lparr>sw_candidates := [0]\<rparr>)) 5 = None"
proof -
  have 1: "watch_step 1 demo_started (demo_started\<lparr>sw_candidates := [0]\<rparr>)"
    by (rule watch_step.gc_collect) (auto simp: unused_def OpenedCursors_def NewRoom_def watch_demo_defs)
  have r: "watch_reach 1 NewSharedWatcher (demo_started\<lparr>sw_candidates := [0]\<rparr>)"
    by (rule watch_more [OF demo_started_reach _ 1]) (simp add: watch_demo_defs)
  from gc_keeps_used_rooms [OF r, of 5 0] show ?thesis
    by (simp add: OpenedCursors_def NewRoom_def watch_demo_defs uuid_Nil_def)
qed

end
