(* ===== verification/Session.thy ===== *)
theory Session
  imports Mongo
begin

text \<open>
  Login sessions: \<^verbatim>\<open>services/session/session.go\<close> and \<^verbatim>\<open>services/session/mongo.go\<close>.
  The lemmas say what a lookup selects, what a deletion removes (an empty lookup removes
  every session) and that a created session can be fetched by its key.
\<close>

section \<open>Sessions\<close>

record session =
  ses_Key :: string
  ses_Owner :: uuid
  ses_CreatedAt :: time

definition session_zero :: session where
  "session_zero = \<lparr>ses_Key = '''', ses_Owner = uuid_Nil, ses_CreatedAt = time_zero\<rparr>"

text \<open>\<^verbatim>\<open>base64.StdEncoding.EncodeToString\<close>\<close>

definition b64_alphabet :: string where
  "b64_alphabet = ''ABCDEFGHIJKLMNOPQRSTUVWXYZabcdefghijklmnopqrstuvwxyz0123456789+/''"

definition b64_digit :: "nat \<Rightarrow> char" where
  "b64_digit n = b64_alphabet ! (n mod 64)"

fun b64_Encode :: "byte list \<Rightarrow> string" where
  "b64_Encode [] = ''''"
| "b64_Encode [a] = (let n = unat a * 65536 in [b64_digit (n div 262144), b64_digit (n div 4096), CHR ''='', CHR ''=''])"
| "b64_Encode [a, b] = (let n = unat a * 65536 + unat b * 256 in
     [b64_digit (n div 262144), b64_digit (n div 4096), b64_digit (n div 64), CHR ''=''])"
| "b64_Encode (a # b # c # bs) = (let n = unat a * 65536 + unat b * 256 + unat c in
     [b64_digit (n div 262144), b64_digit (n div 4096), b64_digit (n div 64), b64_digit n] @ b64_Encode bs)"

text \<open>\<^verbatim>\<open>NewKey\<close>, from the 96 bytes the random source delivered; an error of the source panics.\<close>

definition keyLength :: nat where
  "keyLength = 96"

definition NewKey :: "byte list res \<Rightarrow> string option" where
  "NewKey random = (case random of Inl _ \<Rightarrow> None | Inr b \<Rightarrow> Some (b64_Encode b))"

lemma distinct_alphabet: "distinct b64_alphabet" "length b64_alphabet = 64"
  by (simp_all add: b64_alphabet_def)

lemma b64_digit_inj: "b64_digit m = b64_digit n \<longleftrightarrow> m mod 64 = n mod 64"
  using distinct_alphabet by (simp add: b64_digit_def nth_eq_iff_index_eq)

lemma digits_unique:
  assumes "m div 262144 mod 64 = n div 262144 mod 64" "m div 4096 mod 64 = n div 4096 mod 64"
    "m div 64 mod 64 = n div 64 mod 64" "m mod 64 = n mod 64"
    and "m < 16777216" "n < (16777216 :: nat)"
  shows "m = n"
proof -
  have split: "x = ((x div 262144 mod 64 * 64 + x div 4096 mod 64) * 64 + x div 64 mod 64) * 64 + x mod 64"
    if "x < 16777216" for x :: nat
  proof -
    have "x = x div 64 * 64 + x mod 64" "x div 64 = x div 4096 * 64 + x div 64 mod 64"
      "x div 4096 = x div 262144 * 64 + x div 4096 mod 64" "x div 262144 mod 64 = x div 262144"
      using that div_mult_mod_eq [of "x div 64" 64] div_mult_mod_eq [of "x div 4096" 64]
      by (simp_all add: div_mult2_eq [symmetric] less_mult_imp_div_less)
    then show ?thesis by presburger
  qed
  show ?thesis
    by (subst split [OF assms(5)], subst split [OF assms(6)]) (simp only: assms(1-4))
qed

lemma byte_less: "unat (x :: byte) < 256"
  using unsigned_less [of x] by simp

lemma pair_unique: "a * 256 + z = a' * 256 + z' \<Longrightarrow> z < 256 \<Longrightarrow> z' < 256 \<Longrightarrow> a = a' \<and> z = (z' :: nat)"
proof -
  assume *: "a * 256 + z = a' * 256 + z'" "z < 256" "z' < 256"
  then have "z = z'"
    using mod_mult_self3 [of a 256 z] mod_mult_self3 [of a' 256 z'] by (metis mod_less)
  with * show ?thesis by simp
qed

lemma triple_unique:
  assumes "unat a * 65536 + unat b * 256 + unat c = unat a' * 65536 + unat b' * 256 + unat (c' :: byte)"
  shows "(a :: byte) = a' \<and> (b :: byte) = b' \<and> c = c'"
proof -
  have "(unat a * 256 + unat b) * 256 + unat c = (unat a' * 256 + unat b') * 256 + unat c'"
    using assms by simp
  then have "unat a * 256 + unat b = unat a' * 256 + unat b' \<and> unat c = unat c'"
    by (rule pair_unique [OF _ byte_less byte_less])
  with pair_unique [OF _ byte_less byte_less] show ?thesis
    by (metis word_unat_eq_iff)
qed

lemma b64_group_inj:
  assumes "b64_Encode (a # b # c # bs) = b64_Encode (a' # b' # c' # bs')"
  shows "a = a' \<and> b = b' \<and> c = c' \<and> b64_Encode bs = b64_Encode bs'"
proof -
  define n where "n = unat a * 65536 + unat b * 256 + unat c"
  define n' where "n' = unat a' * 65536 + unat b' * 256 + unat c'"
  have "unat x * 65536 + unat y * 256 + unat z < 16777216" for x y z :: byte
    using byte_less [of x] byte_less [of y] byte_less [of z] by linarith
  then have bounds: "n < 16777216" "n' < 16777216"
    unfolding n_def n'_def by blast+
  have digits: "b64_digit (n div 262144) = b64_digit (n' div 262144)"
    "b64_digit (n div 4096) = b64_digit (n' div 4096)" "b64_digit (n div 64) = b64_digit (n' div 64)"
    "b64_digit n = b64_digit n'" and rest: "b64_Encode bs = b64_Encode bs'"
    using assms unfolding b64_Encode.simps Let_def append.simps list.inject n_def n'_def by blast+
  have "n = n'"
    by (rule digits_unique [OF digits [unfolded b64_digit_inj] bounds])
  then show ?thesis
    using triple_unique [OF \<open>n = n'\<close> [unfolded n_def n'_def]] rest by blast
qed

text \<open>Keys are made of whole groups (96 = 3 * 32 bytes), so no padding occurs.\<close>

lemma b64_Encode_inj:
  assumes "length bs = 3 * n" and "length bs' = 3 * n" and "b64_Encode bs = b64_Encode bs'"
  shows "bs = bs'"
  using assms
proof (induction n arbitrary: bs bs')
  case (Suc n)
  then obtain a b c r where bs: "bs = a # b # c # r" "length r = 3 * n"
    by (auto simp: numeral_3_eq_3 length_Suc_conv)
  from Suc obtain a' b' c' r' where bs': "bs' = a' # b' # c' # r'" "length r' = 3 * n"
    by (auto simp: numeral_3_eq_3 length_Suc_conv)
  from Suc.prems(3) show ?case
    unfolding bs(1) bs'(1) using b64_group_inj Suc.IH [OF bs(2) bs'(2)] by blast
qed simp

lemma b64_Encode_length: "length bs = 3 * n \<Longrightarrow> length (b64_Encode bs) = 4 * n"
proof (induction n arbitrary: bs)
  case (Suc n)
  then obtain a b c r where "bs = a # b # c # r" "length r = 3 * n"
    by (auto simp: numeral_3_eq_3 length_Suc_conv)
  with Suc.IH show ?case by (simp add: Let_def)
qed simp

definition session_Validate :: "session \<Rightarrow> err" where
  "session_Validate s =
     (if ses_Owner s = uuid_Nil then Some (New ''owner should not be empty'')
      else if ses_Key s = '''' then Some (New ''session key should not be empty'')
      else None)"

record session_lookup =
  sl_Key :: string
  sl_Owner :: uuid
  sl_Limit :: int

definition session_Lookup_Validate :: "session_lookup \<Rightarrow> err" where
  "session_Lookup_Validate l =
     (if sl_Key l = '''' \<and> sl_Owner l = uuid_Nil then Some (New ''empty lookup not allowed'') else None)"

section \<open>The repository\<close>

abbreviation ses_err :: "ekind \<Rightarrow> go_error" where
  "ses_err \<equiv> Sentinel P_session"

definition session_batchLimit :: int where
  "session_batchLimit = 500"

definition session_enc :: "session \<Rightarrow> bdoc" where
  "session_enc s = [(''_id'', BStr (ses_Key s)), (''owner'', BUuid (ses_Owner s)),
     (''createdAt'', BTime (ses_CreatedAt s))]"

definition session_dec :: "bdoc \<Rightarrow> session res" where
  "session_dec d = bindr (dec_str d ''_id'') (\<lambda>k. bindr (dec_uuid d ''owner'') (\<lambda>o'.
     bindr (dec_time d ''createdAt'') (\<lambda>t.
       Inr \<lparr>ses_Key = k, ses_Owner = o', ses_CreatedAt = t\<rparr>)))"

interpretation sessions: codec session_enc session_dec
  by unfold_locales (simp add: session_dec_def session_enc_def dec_defs)

definition session_Create ::
  "'w mongo \<Rightarrow> time \<Rightarrow> session list \<Rightarrow> 'w \<Rightarrow> 'w \<times> session list res" where
  "session_Create m now = create_batch m ''sessions'' session_enc session_batchLimit
     ''trying to create more than 500''
     (\<lambda>r. case session_Validate r of
         Some e \<Rightarrow> Inl (Wrap ''invalid request'' (WrapS (ses_err ErrValidation) e))
       | None \<Rightarrow> Inr (r\<lparr>ses_CreatedAt := mongoNow now\<rparr>))
     (Some (ses_err ErrDuplicateEntry))"

definition session_filter :: "session_lookup \<Rightarrow> mfilter" where
  "session_filter l =
     (if sl_Key l \<noteq> '''' then [FField ''_id'' (FEq (BStr (sl_Key l)))] else []) @
     (if sl_Owner l \<noteq> uuid_Nil then [FField ''owner'' (FEq (BUuid (sl_Owner l)))] else [])"

text \<open>\<^verbatim>\<open>Delete\<close> computes a limit that \<^verbatim>\<open>DeleteMany\<close> does not take, and validates nothing.\<close>

definition session_Delete :: "'w mongo \<Rightarrow> session_lookup \<Rightarrow> 'w \<Rightarrow> 'w \<times> nat res" where
  "session_Delete m l w = mg_deleteMany m ''sessions'' (session_filter l) w"

definition session_Fetch :: "'w mongo \<Rightarrow> session_lookup \<Rightarrow> 'w \<Rightarrow> 'w \<times> session list res" where
  "session_Fetch m l w = (case session_Lookup_Validate l of
      Some e \<Rightarrow> (w, Inl (WrapS (ses_err ErrValidation) e))
    | None \<Rightarrow> find_decoded m ''sessions'' session_dec (session_filter l) []
        (clamp_limit session_batchLimit (sl_Limit l)) w)"

definition session_FetchOne :: "'w mongo \<Rightarrow> session_lookup \<Rightarrow> 'w \<Rightarrow> 'w \<times> session res" where
  "session_FetchOne m l =
     fetch_one (session_Fetch m l) (ses_err ErrNotFound) (ses_err ErrUnexpectedResult)"

section \<open>Properties\<close>

lemma session_filter_matches:
  "matches (session_filter l) d \<longleftrightarrow>
     (sl_Key l = '''' \<or> bget d ''_id'' = Some (BStr (sl_Key l))) \<and>
     (sl_Owner l = uuid_Nil \<or> bget d ''owner'' = Some (BUuid (sl_Owner l)))"
  by (auto simp: session_filter_def)

lemma session_dec_fields:
  assumes "session_dec d = Inr s"
  shows "bget d ''_id'' = Some (BStr k) \<Longrightarrow> ses_Key s = k"
    "bget d ''owner'' = Some (BUuid u) \<Longrightarrow> ses_Owner s = u"
  using assms by (auto simp: session_dec_def dec_defs bindr_def split: sum.splits)

text \<open>
  A session found by \<^verbatim>\<open>FetchOne\<close> for a key is a stored session with exactly that key (and
  that owner, when one is asked for), and an empty lookup is refused before the store is
  asked: nobody is logged in by a missing cookie.
\<close>

theorem session_FetchOne_sound:
  assumes "mongo_laws m docs" and "session_FetchOne m l w = (w', Inr s)"
  shows "(sl_Key l \<noteq> '''' \<or> sl_Owner l \<noteq> uuid_Nil) \<and>
    (\<exists>d \<in> set (docs w ''sessions''). session_dec d = Inr s) \<and>
    (sl_Key l = '''' \<or> ses_Key s = sl_Key l) \<and> (sl_Owner l = uuid_Nil \<or> ses_Owner s = sl_Owner l)"
proof -
  from assms(2) have v: "session_Lookup_Validate l = None"
    and f: "find_decoded m ''sessions'' session_dec (session_filter l) []
      (clamp_limit session_batchLimit (sl_Limit l)) w = (w', Inr [s])"
    by (auto simp: session_FetchOne_def session_Fetch_def fetch_one_Inr split: option.splits)
  from find_decoded_member [OF assms(1) f] obtain d where "d \<in> set (docs w ''sessions'')"
    "matches (session_filter l) d" "session_dec d = Inr s"
    by auto
  with v show ?thesis
    by (auto simp: session_Lookup_Validate_def session_filter_matches dest: session_dec_fields
        split: if_splits)
qed

text \<open>
  Deleting by key removes the sessions with that key and no other; deleting with an empty
  lookup, which is what a logout request without a session cookie does, removes every
  session of every user.
\<close>

theorem session_Delete_scope:
  assumes "mongo_laws m docs" and "session_Delete m l w = (w', Inr n)"
  shows "(sl_Key l \<noteq> '''' \<longrightarrow> docs w' ''sessions'' = filter (\<lambda>d. \<not> (bget d ''_id'' = Some (BStr (sl_Key l)) \<and>
      (sl_Owner l = uuid_Nil \<or> bget d ''owner'' = Some (BUuid (sl_Owner l))))) (docs w ''sessions'')) \<and>
    (sl_Key l = '''' \<and> sl_Owner l = uuid_Nil \<longrightarrow> docs w' ''sessions'' = [])"
  using delete_lawD(3) [OF assms(1) assms(2) [unfolded session_Delete_def] refl]
  by (auto simp: session_filter_matches)

text \<open>
  A session key is 128 characters of base64, never empty, and different random bytes give
  different keys: the key carries all of its 768 random bits.
\<close>

theorem NewKey_faithful:
  assumes "length b = keyLength" and "length b' = keyLength" and "b \<noteq> b'"
  shows "\<exists>k k'. NewKey (Inr b) = Some k \<and> NewKey (Inr b') = Some k' \<and> k \<noteq> k' \<and> length k = 128"
  using assms b64_Encode_inj [of b 32 b'] b64_Encode_length [of b 32]
  by (auto simp: NewKey_def keyLength_def)

section \<open>Runs\<close>

definition sample_sessions :: mem where
  "sample_sessions = (\<lambda>_. [])(''sessions'' := map session_enc
     [\<lparr>ses_Key = ''k1'', ses_Owner = 1, ses_CreatedAt = 5\<rparr>,
      \<lparr>ses_Key = ''k2'', ses_Owner = 2, ses_CreatedAt = 6\<rparr>])"

theorem session_FetchOne_sound_witness:
  "\<exists>w' s. session_FetchOne mem_mongo \<lparr>sl_Key = ''k2'', sl_Owner = uuid_Nil, sl_Limit = 0\<rparr> sample_sessions
     = (w', Inr s) \<and> ses_Key s = ''k2''"
proof -
  have "session_FetchOne mem_mongo \<lparr>sl_Key = ''k2'', sl_Owner = uuid_Nil, sl_Limit = 0\<rparr> sample_sessions
     = (sample_sessions, Inr \<lparr>ses_Key = ''k2'', ses_Owner = 2, ses_CreatedAt = 6\<rparr>)"
    by (simp add: session_FetchOne_def session_Fetch_def session_Lookup_Validate_def mem_mongo_def
        sample_sessions_def session_filter_def session_enc_def bget_def clamp_limit_def
        session_batchLimit_def take_limit_def exactly_one_def session_dec_def dec_defs
        fetch_one_def find_decoded_def)
  from session_FetchOne_sound [OF mem_mongo_laws this] this show ?thesis
    by simp
qed

theorem session_Delete_scope_witness:
  "\<exists>w'. session_Delete mem_mongo \<lparr>sl_Key = '''', sl_Owner = uuid_Nil, sl_Limit = 0\<rparr> sample_sessions
     = (w', Inr 2) \<and> w' ''sessions'' = []"
proof -
  obtain w' where w': "session_Delete mem_mongo \<lparr>sl_Key = '''', sl_Owner = uuid_Nil, sl_Limit = 0\<rparr>
      sample_sessions = (w', Inr 2)"
    by (simp add: session_Delete_def mem_mongo_def session_filter_def sample_sessions_def)
  from session_Delete_scope [OF mem_mongo_laws this] w' show ?thesis
    by simp
qed

theorem NewKey_faithful_witness:
  "\<exists>k k'. NewKey (Inr (replicate 96 0)) = Some k \<and> NewKey (Inr (replicate 96 1)) = Some k' \<and> k \<noteq> k' \<and>
     length k = 128"
  by (rule NewKey_faithful) (simp_all add: keyLength_def)

end
