(* ===== verification/Wellformed.thy ===== *)
theory Wellformed
  imports Confa
begin

text \<open>
  The conferences that are stored, as a type invariant: every document of the collection reads
  back as a conference that \<^verbatim>\<open>Confa.Validate\<close> accepts, whatever calls of the repository and of
  the user were made before, failed ones included.
\<close>

definition stored_confa :: "unicode \<Rightarrow> bdoc \<Rightarrow> bool" where
  "stored_confa U d \<longleftrightarrow> (case confa_dec d of Inl e \<Rightarrow> False | Inr c \<Rightarrow> Confa_Validate U c = None)"

lemma stored_confa_bget:
  "(\<And>k. bget d' k = bget d k) \<Longrightarrow> stored_confa U d' = stored_confa U d"
  by (simp add: stored_confa_def confa_dec_def dec_uuid_def dec_str_def dec_time_def)

lemma stored_confa_enc: "Confa_Validate U c = None \<Longrightarrow> stored_confa U (confa_enc c)"
  by (simp add: stored_confa_def confas.dec_enc)

text \<open>An accepted update keeps the form: the fields it sets were checked the same way.\<close>

definition confa_updated :: "confa_update \<Rightarrow> confa \<Rightarrow> confa" where
  "confa_updated u c = c\<lparr>
     co_Handle := (case cu_Handle u of None \<Rightarrow> co_Handle c | Some h \<Rightarrow> h),
     co_Title := (case cu_Title u of None \<Rightarrow> co_Title c | Some t \<Rightarrow> t),
     co_Description := (case cu_Description u of None \<Rightarrow> co_Description c | Some x \<Rightarrow> x)\<rparr>"

lemma dec_set_fields:
  "dec_str (set_fields new d) k = (case map_of new k of None \<Rightarrow> dec_str d k | Some v \<Rightarrow> dec_str [(k, v)] k)"
  "dec_uuid (set_fields new d) k = (case map_of new k of None \<Rightarrow> dec_uuid d k | Some v \<Rightarrow> dec_uuid [(k, v)] k)"
  "dec_time (set_fields new d) k = (case map_of new k of None \<Rightarrow> dec_time d k | Some v \<Rightarrow> dec_time [(k, v)] k)"
  by (simp_all add: dec_str_def dec_uuid_def dec_time_def bget_set_fields bget_def [of "[(k, v)]" for v]
      split: option.split)

lemma dec_str_one [simp]: "dec_str [(k, BStr x)] k = Inr x"
  by (simp add: dec_str_def bget_def)

lemma map_of_confa_set:
  "map_of (opt_field ''handle'' a x @ opt_field ''title'' b y @ opt_field ''description'' e z) k =
     (if k = ''handle'' \<and> a then Some x else if k = ''title'' \<and> b then Some y
      else if k = ''description'' \<and> e then Some z else None)"
  by (auto simp: map_add_def)

lemma bindr_Inr: "bindr r f = Inr x \<longleftrightarrow> (\<exists>y. r = Inr y \<and> f y = Inr x)"
  by (cases r) auto

lemma confa_dec_updated:
  "confa_dec d = Inr c \<Longrightarrow> confa_dec (apply_update (confa_set u) d) = Inr (confa_updated u c)"
  by (auto simp: confa_dec_def confa_set_def dec_set_fields map_of_confa_set bindr_Inr confa_updated_def
      split: option.split)

lemma stored_confa_update:
  assumes "stored_confa U d" and "confa_Update_Validate U u = None"
  shows "stored_confa U (apply_update (confa_set u) d)"
proof -
  from assms(1) obtain c where c: "confa_dec d = Inr c" "Confa_Validate U c = None"
    by (auto simp: stored_confa_def split: sum.splits)
  from c(2) assms(2) have "Confa_Validate U (confa_updated u c) = None"
    by (simp add: Confa_Validate_def confa_Update_Validate_def set_and_def confa_updated_def
        split: option.splits if_splits)
  with confa_dec_updated [OF c(1)] show ?thesis by (simp add: stored_confa_def)
qed

section \<open>Operations\<close>

text \<open>The calls that write to the collection, with what they take from outside.\<close>

datatype confa_call =
    CallCreate time uuid uuid confa
  | CallUpdate confa_lookup confa_update
  | CallUserUpdate uuid confa_lookup confa_update
  | CallDelete confa_lookup

fun confa_run :: "unicode \<Rightarrow> 'w mongo \<Rightarrow> confa_call \<Rightarrow> 'w \<Rightarrow> 'w" where
  "confa_run U m (CallCreate now new_id userID request) w =
     (case confa_User_Create (confa_mongo_repo U m now) new_id userID request w of None \<Rightarrow> w | Some (w', _) \<Rightarrow> w')"
| "confa_run U m (CallUpdate l u) w = fst (confa_Update U m l u w)"
| "confa_run U m (CallUserUpdate userID l u) w = fst (confa_User_Update (confa_mongo_repo U m 0) userID l u w)"
| "confa_run U m (CallDelete l) w = fst (confa_Delete m l w)"

definition stored_confas :: "unicode \<Rightarrow> ('w \<Rightarrow> string \<Rightarrow> bdoc list) \<Rightarrow> 'w \<Rightarrow> bool" where
  "stored_confas U docs w \<longleftrightarrow> (\<forall>d \<in> set (docs w confa_collection). stored_confa U d)"

lemma prepared_valid:
  assumes "prepare_all (\<lambda>r. case Confa_Validate U r of Some e \<Rightarrow> Inl (f e)
      | None \<Rightarrow> Inr (r\<lparr>co_CreatedAt := now\<rparr>)) requests = Inr rs"
  shows "\<forall>c \<in> set rs. Confa_Validate U c = None"
  using assms [unfolded prepare_all_Inr]
proof (induction rule: list_all2_induct)
  case (Cons r rs c cs)
  then show ?case by (auto split: option.splits)
qed simp

lemma stored_Create:
  assumes "mongo_laws m docs" and "stored_confas U docs w"
    and "confa_Create U m now requests w = (w', r)"
  shows "stored_confas U docs w'"
  using assms(3) unfolding confa_Create_def
proof (cases rule: create_batch_cases)
  case refused
  with assms(2) show ?thesis by simp
next
  case (failed rs e e')
  from insert_lawD(2) [OF assms(1) failed(3)] obtain k
    where k: "docs w' confa_collection = docs w confa_collection @ take k (map confa_enc rs)" by blast
  note rs = prepared_valid [OF failed(1)]
  from rs have "\<forall>d \<in> set (map confa_enc rs). stored_confa U d" by (simp add: stored_confa_enc)
  with k assms(2) show ?thesis
    by (auto simp: stored_confas_def dest!: in_set_takeD simp del: set_map)
next
  case (created rs)
  note rs = prepared_valid [OF created(1)]
  with insert_lawD(3) [OF assms(1) created(3) refl] assms(2) rs show ?thesis
    by (auto simp: stored_confas_def intro: stored_confa_enc)
qed

lemma stored_changed:
  "stored_confa U d \<Longrightarrow> confa_Update_Validate U u = None \<Longrightarrow>
   (\<And>k. bget d' k = bget (apply_update (confa_set u) d) k) \<Longrightarrow> stored_confa U d'"
  using stored_confa_bget stored_confa_update by blast

lemma stored_UpdateOne:
  assumes "mongo_laws m docs" and "stored_confas U docs w"
    and "confa_UpdateOne U m l u w = (w', r)"
  shows "stored_confas U docs w'"
proof (cases "confa_Update_Validate U u")
  case None
  with assms(3) obtain r' where one:
    "mg_findOneAndUpdate m confa_collection (confa_mongoFilter l) (confa_set u) False w = (w', r')"
    by (auto simp: confa_UpdateOne_def update_decoded_def split: prod.splits sum.splits)
  show ?thesis
  proof (cases r')
    case (Inl e)
    with update_one_lawD(2) [OF assms(1) confa_plain_update one] assms(2) show ?thesis
      by (simp add: stored_confas_def)
  next
    case (Inr d')
    from update_one_lawD(3) [OF assms(1) confa_plain_update one this] obtain as d bs where
      "docs w confa_collection = as @ d # bs" "docs w' confa_collection = as @ d' # bs"
      and "\<And>k. bget d' k = bget (apply_update (confa_set u) d) k" by blast
    with assms(2) stored_changed [OF _ None, of d d'] show ?thesis
      by (auto simp: stored_confas_def)
  qed
qed (use assms(2,3) in \<open>simp add: confa_UpdateOne_def\<close>)

lemma stored_Update:
  assumes "mongo_laws m docs" and "stored_confas U docs w" and "confa_Update U m l u w = (w', r)"
  shows "stored_confas U docs w'"
proof (cases "confa_Update_Validate U u")
  case None
  with assms(3) obtain r' where
    "mg_updateMany m confa_collection (confa_mongoFilter l) (confa_set u) w = (w', r')"
    by (auto simp: confa_Update_def split: prod.splits sum.splits)
  from update_many_lawD(2) [OF assms(1) confa_plain_update this] assms(2) show ?thesis
    by (auto simp: stored_confas_def list_all2_conv_all_nth in_set_conv_nth)
      (metis None nth_mem stored_changed)
qed (use assms(2,3) in \<open>simp add: confa_Update_def\<close>)

lemma stored_run:
  assumes "mongo_laws m docs" and "stored_confas U docs w"
  shows "stored_confas U docs (confa_run U m c w)"
proof (cases c)
  case (CallCreate now new_id userID request)
  then show ?thesis
    using assms stored_Create [OF assms]
    by (auto simp: confa_User_Create_def confa_mongo_repo_def Let_def split: option.split prod.split sum.split list.split)
next
  case (CallUpdate l u)
  then show ?thesis using stored_Update [OF assms] by (cases "confa_Update U m l u w") auto
next
  case (CallUserUpdate userID l u)
  then show ?thesis using stored_UpdateOne [OF assms]
    by (cases "confa_UpdateOne U m (l\<lparr>cl_Owner := userID\<rparr>) u w") (auto simp: confa_User_Update_def confa_mongo_repo_def)
next
  case (CallDelete l)
  have "set (docs (fst (confa_Delete m l w)) confa_collection) \<subseteq> set (docs w confa_collection)"
    using delete_lawD(5) [OF assms(1), of confa_collection "confa_mongoFilter l" w]
    by (auto simp: confa_Delete_def split: prod.split sum.split)
  with CallDelete assms(2) show ?thesis by (auto simp: stored_confas_def)
qed

text \<open>
  C15: Every stored conference reads back as a valid one, after any calls of the repository and of
  users, failed ones included.
\<close>

theorem confas_stay_wellformed:
  assumes "mongo_laws m docs" and "stored_confas U docs w"
  shows "stored_confas U docs (fold (confa_run U m) calls w)"
  using assms(2)
proof (induction calls arbitrary: w)
  case (Cons c cs)
  then show ?case using stored_run [OF assms(1)] by simp
qed simp

lemma confas_stay_wellformed_witness:
  "\<exists>w'. fold (confa_run \<lparr>isL = is_lower, ulower = id\<rparr> mem_mongo)
     [CallCreate 0 8 2 (confa_zero\<lparr>co_Handle := ''second''\<rparr>),
      CallUserUpdate 2 (confa_lookup_zero\<lparr>cl_ID := 8\<rparr>) \<lparr>cu_Handle = Some ''mine'', cu_Title = None, cu_Description = None\<rparr>]
     (\<lambda>_. []) = w' \<and>
     stored_confas \<lparr>isL = is_lower, ulower = id\<rparr> (\<lambda>w. w) w' \<and> length (w' confa_collection) = 1"
proof (intro exI conjI, rule refl)
  show "stored_confas \<lparr>isL = is_lower, ulower = id\<rparr> (\<lambda>w. w) (fold (confa_run \<lparr>isL = is_lower, ulower = id\<rparr> mem_mongo)
     [CallCreate 0 8 2 (confa_zero\<lparr>co_Handle := ''second''\<rparr>),
      CallUserUpdate 2 (confa_lookup_zero\<lparr>cl_ID := 8\<rparr>) \<lparr>cu_Handle = Some ''mine'', cu_Title = None, cu_Description = None\<rparr>]
     (\<lambda>_. []))"
    by (rule confas_stay_wellformed [OF mem_mongo_laws]) (simp add: stored_confas_def)
qed code_simp

end
