(* ===== verification/Rtc_Jobs.thy ===== *)
theory Rtc_Jobs
  imports Event_Mongo Recordings
begin

text \<open>
  The jobs of the rtc service: the handlers of \<^verbatim>\<open>services/cmd/rtc/queue/handler.go\<close>, its
  emitter \<^verbatim>\<open>beanstalk.go\<close>, and the emitter of the tracker, \<^verbatim>\<open>services/tracker/record/beanstalk.go\<close>,
  whose messages they handle.  Both handlers are interpreted in the contract \<open>job_handler\<close>, on
  the payloads that have their submessages; a missing one is a nil dereference, which the
  server recovers and which leaves the job unfinished.

  The lemmas show that an emitted event is stored as it was emitted, that storing it again is
  harmless, and that a recording is announced as ready only when every started track of it
  was processed.
\<close>

section \<open>The emitters\<close>

definition RecordingReady ::
  "proto \<Rightarrow> 'w beanstalkd \<Rightarrow> string \<Rightarrow> string \<Rightarrow> time \<Rightarrow> uuid \<Rightarrow> uuid \<Rightarrow> 'w \<Rightarrow> 'w \<times> err" where
  "RecordingReady p q trace tube now roomID recordingID =
     put_msg p q trace ''failed to marshal recording update'' True tube
       (JRecordingUpdate (uuid_MarshalBinary roomID) (uuid_MarshalBinary recordingID) (UnixMilli now)
         (Some (Some RU_ProcessingFinished)))
       \<lparr>pp_Delay = 0, pp_TTR = 30 * Second\<rparr>"

text \<open>A record is one track of a recording, \<^verbatim>\<open>record.Record\<close> of the tracker.\<close>

record track_record =
  tc_RoomID :: uuid
  tc_RecordingID :: uuid
  tc_RecordID :: uuid
  tc_Bucket :: string
  tc_Object :: string
  tc_Kind :: int
  tc_Source :: int
  tc_Duration :: duration
  tc_CreatedAt :: time

record tracker_tubes =
  tk_ProcessTrack :: string
  tk_StoreEvent :: string
  tk_UpdateRecordingTrack :: string

definition track_msg :: "time \<Rightarrow> uuid \<Rightarrow> uuid \<Rightarrow> track_update \<Rightarrow> job_msg" where
  "track_msg now recordingID recordID upd = JUpdateRecordingTrack (uuid_MarshalBinary recordingID)
     (uuid_MarshalBinary recordID) (UnixMilli now) (Some (Some upd))"

definition RecordStarted ::
  "proto \<Rightarrow> 'w beanstalkd \<Rightarrow> string \<Rightarrow> tracker_tubes \<Rightarrow> time \<Rightarrow> uuid \<Rightarrow> track_record \<Rightarrow> 'w \<Rightarrow> 'w \<times> err" where
  "RecordStarted p q trace tubes now new_id record w =
     (case put_msg p q trace ''failed to marshal event'' True (tk_StoreEvent tubes)
        (JStoreEvent (Some \<lparr>pb_Id = uuid_MarshalBinary new_id, pb_RoomId = uuid_MarshalBinary (tc_RoomID record),
           pb_Payload = Some (Some (PBTrackRecord (uuid_MarshalBinary (tc_RecordID record)) (tc_Kind record)
             (tc_Source record))),
           pb_CreatedAt = UnixMilli (tc_CreatedAt record)\<rparr>))
        \<lparr>pp_Delay = 0, pp_TTR = 10 * Second\<rparr> w of
       (w1, Some e) \<Rightarrow> (w1, Some e)
     | (w1, None) \<Rightarrow> put_msg p q trace ''failed to marshal recorting track update'' True
         (tk_UpdateRecordingTrack tubes)
         (track_msg now (tc_RecordingID record) (tc_RecordID record) RecordingStartedUpdate)
         \<lparr>pp_Delay = 0, pp_TTR = 10 * Second\<rparr> w1)"

text \<open>\<open>f32\<close> is \<^verbatim>\<open>float32(d.Seconds())\<close>.\<close>

definition RecordFinished ::
  "(duration \<Rightarrow> real) \<Rightarrow> proto \<Rightarrow> 'w beanstalkd \<Rightarrow> string \<Rightarrow> tracker_tubes \<Rightarrow> time \<Rightarrow> track_record \<Rightarrow> 'w \<Rightarrow> 'w \<times> err" where
  "RecordFinished f32 p q trace tubes now record w =
     (case put_msg p q trace ''failed to marshal payload'' True (tk_ProcessTrack tubes)
        (JProcessTrack \<lparr>pt_Bucket = tc_Bucket record, pt_Object = tc_Object record,
           pt_RoomId = uuid_MarshalBinary (tc_RoomID record),
           pt_RecordingId = uuid_MarshalBinary (tc_RecordingID record),
           pt_RecordId = uuid_MarshalBinary (tc_RecordID record),
           pt_Kind_VIDEO = (tc_Kind record \<noteq> pb_AUDIO), pt_DurationSeconds = f32 (tc_Duration record)\<rparr>)
        \<lparr>pp_Delay = 0, pp_TTR = 5 * Minute\<rparr> w of
       (w1, Some e) \<Rightarrow> (w1, Some e)
     | (w1, None) \<Rightarrow> put_msg p q trace ''failed to marshal recorting track update'' True
         (tk_UpdateRecordingTrack tubes)
         (track_msg now (tc_RecordingID record) (tc_RecordID record) RecordingFinishedUpdate)
         \<lparr>pp_Delay = 0, pp_TTR = 10 * Second\<rparr> w1)"

section \<open>The handlers\<close>

definition storeEvent_maxAge :: duration where "storeEvent_maxAge = 5 * Minute"

definition storeEvent_bo :: backoff where
  "storeEvent_bo = \<lparr>bo_Factor = 15 / 10, bo_Jitter = False, bo_Min = 100 * Millisecond, bo_Max = Second\<rparr>"

text \<open>The message's event may be missing, which \<^verbatim>\<open>FromProto\<close> dereferences.\<close>

definition event_of_msg :: "pb_event option \<Rightarrow> event option" where
  "event_of_msg e = (case e of None \<Rightarrow> None | Some x \<Rightarrow> FromProto x)"

definition storeEvent :: "float_part \<Rightarrow> proto \<Rightarrow> 'w beanstalkd \<Rightarrow> 'w mongo \<Rightarrow> 'w handler" where
  "storeEvent fp p q m job w = (case pb_Unmarshal p KStoreEvent (jb_Body job) of
      Inr (JStoreEvent ev) \<Rightarrow> (case event_of_msg ev of
          None \<Rightarrow> (w, None)
        | Some toCreate \<Rightarrow> (case event_CreateOne m toCreate w of
            (w1, Inl e) \<Rightarrow>
              if errors_Is e P_event ErrValidation then jobDelete q job w1
              else if errors_Is e P_event ErrDuplicateEntry then jobDelete q job w1
              else jobRetry fp q storeEvent_bo storeEvent_maxAge job w1
          | (w1, Inr _) \<Rightarrow> jobDelete q job w1))
    | _ \<Rightarrow> jobDelete q job w)"

definition updateTrack_maxAge :: duration where "updateTrack_maxAge = 5 * Minute"

definition updateTrack_bo :: backoff where
  "updateTrack_bo = \<lparr>bo_Factor = 15 / 10, bo_Jitter = False, bo_Min = 100 * Millisecond, bo_Max = Second\<rparr>"

fun track_records :: "uuid \<Rightarrow> track_update \<Rightarrow> records" where
  "track_records i RecordingStartedUpdate = records_empty\<lparr>rs_RecordingStarted := [i]\<rparr>"
| "track_records i RecordingFinishedUpdate = records_empty\<lparr>rs_RecordingFinished := [i]\<rparr>"
| "track_records i ProcessingStartedUpdate = records_empty\<lparr>rs_ProcessingStarted := [i]\<rparr>"
| "track_records i ProcessingFinishedUpdate = records_empty\<lparr>rs_ProcessingFinished := [i]\<rparr>"

definition updateRecordingTrack ::
  "float_part \<Rightarrow> proto \<Rightarrow> 'w beanstalkd \<Rightarrow> 'w mongo \<Rightarrow> (uuid \<Rightarrow> uuid \<Rightarrow> 'w \<Rightarrow> 'w \<times> err) \<Rightarrow> 'w handler" where
  "updateRecordingTrack fp p q m recordingReady job w =
     (let retry = jobRetry fp q updateTrack_bo updateTrack_maxAge job; delete = jobDelete q job in
      case pb_Unmarshal p KUpdateRecordingTrack (jb_Body job) of
        Inr (JUpdateRecordingTrack recording_bin record_bin updatedAt upd) \<Rightarrow> (case upd of
            None \<Rightarrow> (w, None)
          | Some None \<Rightarrow> delete w
          | Some (Some u) \<Rightarrow>
              (case UpdateRecords m (record_lookup_zero\<lparr>rl_ID := uuid_of_bin recording_bin\<rparr>)
                  (track_records (uuid_of_bin record_bin) u) w of
                (w1, Inl e) \<Rightarrow> if errors_Is e P_record ErrValidation then delete w1 else retry w1
              | (w1, Inr updated) \<Rightarrow>
                  if Recording_IsReady updated
                  then (case recordingReady (rg_Room updated) (rg_ID updated) w1 of
                      (w2, Some e) \<Rightarrow> retry w2
                    | (w2, None) \<Rightarrow> delete w2)
                  else delete w1))
      | _ \<Rightarrow> delete w)"

record rtc_queue_tubes =
  rq_StoreEvent :: string
  rq_UpdateRecordingTrack :: string
  rq_RecordingUpdate :: string

definition rtc_route :: "rtc_queue_tubes \<Rightarrow> 'w handler \<Rightarrow> 'w handler \<Rightarrow> job \<Rightarrow> 'w handler option" where
  "rtc_route tubes store update job =
     (if jb_Tube job = rq_StoreEvent tubes then Some store
      else if jb_Tube job = rq_UpdateRecordingTrack tubes then Some update
      else None)"

text \<open>Each service has its own copy of \<^verbatim>\<open>ServeJob\<close>, over its own route.\<close>

definition rtc_ServeJob ::
  "float_part \<Rightarrow> proto \<Rightarrow> 'w beanstalkd \<Rightarrow> rtc_queue_tubes \<Rightarrow> 'w mongo \<Rightarrow> (uuid \<Rightarrow> uuid \<Rightarrow> 'w \<Rightarrow> 'w \<times> err) \<Rightarrow> 'w handler" where
  "rtc_ServeJob fp p q tubes m recordingReady =
     ServeJob p q (rtc_route tubes (storeEvent fp p q m) (updateRecordingTrack fp p q m recordingReady))"

section \<open>The contract\<close>

definition has_event :: "proto \<Rightarrow> job \<Rightarrow> bool" where
  "has_event p job = (case pb_Unmarshal p KStoreEvent (jb_Body job) of
     Inr (JStoreEvent ev) \<Rightarrow> event_of_msg ev \<noteq> None | _ \<Rightarrow> True)"

definition has_update :: "proto \<Rightarrow> job \<Rightarrow> bool" where
  "has_update p job = (case pb_Unmarshal p KUpdateRecordingTrack (jb_Body job) of
     Inr (JUpdateRecordingTrack _ _ _ upd) \<Rightarrow> upd \<noteq> None | _ \<Rightarrow> True)"

lemma rtc_retry_ok:
  "finish_ok storeEvent_bo a job (snd (jobRetry fp q storeEvent_bo a job w))"
  "finish_ok updateTrack_bo a job (snd (jobRetry fp q updateTrack_bo a job w))"
  by (rule finish_jobRetry; simp add: storeEvent_bo_def updateTrack_bo_def duration_defs)+

interpretation store_job: job_handler "storeEvent fp p q m" "has_event p" storeEvent_bo storeEvent_maxAge
  for fp p q m
  by unfold_locales (auto simp: storeEvent_def has_event_def rtc_retry_ok
      split: sum.splits job_msg.splits prod.split option.splits)

interpretation track_job: job_handler "updateRecordingTrack fp p q m recordingReady" "has_update p"
    updateTrack_bo updateTrack_maxAge for fp p q m recordingReady
  by unfold_locales (auto simp: updateRecordingTrack_def has_update_def Let_def rtc_retry_ok
      split: sum.splits job_msg.splits prod.split option.splits)

section \<open>An emitted event is stored\<close>

lemma event_CreateOne_valid:
  assumes "Event_Validate e = None" and "mg_insertMany m event_collection [event_enc e] w = (w1, r)"
  shows "event_CreateOne m e w = (w1, case r of None \<Rightarrow> Inr e
    | Some x \<Rightarrow> Inl (if IsDuplicateKeyError x then event_err ErrDuplicateEntry else x))"
  using assms by (simp add: event_CreateOne_def fetch_one_def event_Create_def create_batch_def event_batchLimit_def
      exactly_one_def split: option.split)

text \<open>The outcomes of a deleted store job for a valid event.\<close>

lemma storeEvent_deleted:
  assumes "mongo_laws m docs" and "queue_keeps q docs"
    and "pb_Unmarshal p KStoreEvent (jb_Body job) = Inr (JStoreEvent (Some pe))" and "FromProto pe = Some e"
    and "Event_Validate e = None" and "storeEvent fp p q m job w = (w', Some Deleted)"
  obtains (stored) "docs w' event_collection = docs w event_collection @ [event_enc e]"
  | (duplicate) w1 x where "mg_insertMany m event_collection [event_enc e] w = (w1, Some x)"
      "IsDuplicateKeyError x" "docs w' = docs w1"
proof -
  obtain w1 r where i: "mg_insertMany m event_collection [event_enc e] w = (w1, r)"
    by fastforce
  note law = insert_lawD [OF assms(1) i] and c = event_CreateOne_valid [OF assms(5) i]
  show thesis
  proof (cases r)
    case None
    with assms(3,4,6) c have "jobDelete q job w1 = (w', Some Deleted)"
      by (simp add: storeEvent_def event_of_msg_def)
    then have "docs w' = docs w1"
      using finish_keeps(2) [OF assms(2), of job w1] by simp
    with law(3) None show thesis
      by (intro stored) simp
  next
    case (Some x)
    show thesis
    proof (cases "IsDuplicateKeyError x")
      case True
      with Some assms(3,4,6) c have "jobDelete q job w1 = (w', Some Deleted)"
        by (simp add: storeEvent_def event_of_msg_def)
      then have "docs w' = docs w1"
        using finish_keeps(2) [OF assms(2), of job w1] by simp
      with i Some True show thesis
        by (intro duplicate) simp_all
    next
      case False
      with Some assms(3,4,6) c law(4) [OF Some] have "jobRetry fp q storeEvent_bo storeEvent_maxAge job w1 = (w', Some Deleted)"
        by (auto simp: storeEvent_def event_of_msg_def split: if_splits)
      then show thesis
        using finish_kind(2) [of fp q storeEvent_bo storeEvent_maxAge job w1] by simp
    qed
  qed
qed

lemma wire_valid:
  assumes "Event_Validate e = None" and "single_payload (ev_Payload e)"
    and "\<forall>t. pl_TrackRecord (ev_Payload e) = Some t \<longrightarrow> known_track t" and "0 \<le> ev_CreatedAt e"
  shows "FromProto (ToProto e) = Some (wire_event e)" "Event_Validate (wire_event e) = None"
    "ev_ID (wire_event e) = ev_ID e" "ev_Room (wire_event e) = ev_Room e" "ev_Payload (wire_event e) = ev_Payload e"
    "ev_CreatedAt (wire_event e) = of_UnixMilli (UnixMilli (ev_CreatedAt e))"
proof -
  show "FromProto (ToProto e) = Some (wire_event e)"
    using assms(1) by (intro FromProto_ToProto) (auto dest: valid_reaction_clap)
  have "\<not> IsZero (of_UnixMilli (UnixMilli (ev_CreatedAt e)))"
    using assms(4) pos_imp_zdiv_nonneg_iff [of 1000000 "ev_CreatedAt e"]
    by (simp add: IsZero_def time_zero_def of_UnixMilli_def UnixMilli_def)
  then show "Event_Validate (wire_event e) = None"
    using assms(1) wire_payload_single [OF assms(2,3)] by (auto simp: Event_Validate_def wire_event_def split: if_splits)
qed (use wire_payload_single [OF assms(2,3)] in \<open>simp_all add: wire_event_def\<close>)


section \<open>When a recording is announced as ready\<close>

text \<open>\<open>said\<close> is what was announced; only the emitter appends to it.\<close>

definition announces :: "(uuid \<Rightarrow> uuid \<Rightarrow> 'w \<Rightarrow> 'w \<times> err) \<Rightarrow> ('w \<Rightarrow> 'd) \<Rightarrow> ('w \<Rightarrow> (uuid \<times> uuid) list) \<Rightarrow> bool" where
  "announces emit docs said \<longleftrightarrow> (\<forall>r i w w' e. emit r i w = (w', e) \<longrightarrow> docs w' = docs w \<and>
     said w' = (if e = None then said w @ [(r, i)] else said w))"

text \<open>
  C6: A recording is announced as ready only when it is: a track job announces nothing, or the
  recording it updated, which is then stored as stopped and with every started track among
  the processed ones.
\<close>

theorem ready_only_complete:
  assumes "mongo_laws m docs" and "queue_keeps q docs" and "queue_keeps q said" and "announces emit docs said"
    and "\<forall>c f us up w. said (fst (mg_findOneAndUpdate m c f us up w)) = said w"
    and "updateRecordingTrack fp p q m emit job w = (w', f)"
  shows "said w' = said w \<or> (\<exists>d r. said w' = said w @ [(rg_Room r, rg_ID r)] \<and>
    d \<in> set (docs w' record_collection) \<and> recording_dec d = Inr r \<and> \<not> IsZero (rg_StoppedAt r) \<and>
    set (rs_RecordingStarted (rg_Records r)) \<subseteq> set (rs_ProcessingFinished (rg_Records r)))"
proof (cases "\<exists>a b c u. pb_Unmarshal p KUpdateRecordingTrack (jb_Body job) =
    Inr (JUpdateRecordingTrack a b c (Some (Some u)))")
  case False
  then have "w' = w \<or> w' = fst (jobDelete q job w)"
    using assms(6) by (auto simp: updateRecordingTrack_def Let_def
        split: sum.splits job_msg.splits option.splits dest!: arg_cong [where f = fst])
  then show ?thesis
    using finish_keeps(2) [OF assms(3), of job w] by auto
next
  case True
  then obtain a b c u where msg: "pb_Unmarshal p KUpdateRecordingTrack (jb_Body job) =
      Inr (JUpdateRecordingTrack a b c (Some (Some u)))"
    by blast
  let ?l = "record_lookup_zero\<lparr>rl_ID := uuid_of_bin a\<rparr>"
  let ?rs = "track_records (uuid_of_bin b) u"
  obtain w1 res where u: "UpdateRecords m ?l ?rs w = (w1, res)"
    by fastforce
  have said1: "said w1 = said w"
    using u assms(5) by (auto simp: UpdateRecords_def split: if_splits prod.splits sum.splits) (metis fst_conv)+
  note keeps = finish_keeps [OF assms(3)]
  show ?thesis
  proof (cases "\<exists>r. res = Inr r \<and> Recording_IsReady r")
    case False
    then have "w' = fst (jobDelete q job w1) \<or> w' = fst (jobRetry fp q updateTrack_bo updateTrack_maxAge job w1)"
      using assms(6) msg u by (auto simp: updateRecordingTrack_def Let_def split: sum.splits if_splits
          dest!: arg_cong [where f = fst])
    then show ?thesis
      using keeps said1 by auto
  next
    case True
    then obtain r where r: "res = Inr r" "Recording_IsReady r"
      by blast
    obtain w2 e where e: "emit (rg_Room r) (rg_ID r) w1 = (w2, e)"
      by fastforce
    with assms(4) have w2: "docs w2 = docs w1" "said w2 = (if e = None then said w1 @ [(rg_Room r, rg_ID r)] else said w1)"
      unfolding announces_def by blast+
    have w': "w' = fst (jobDelete q job w2) \<or> w' = fst (jobRetry fp q updateTrack_bo updateTrack_maxAge job w2)"
      using assms(6) msg u r e by (auto simp: updateRecordingTrack_def Let_def split: option.splits
          dest!: arg_cong [where f = fst])
    obtain as d d' bs where d': "docs w1 record_collection = as @ d' # bs" "recording_dec d' = Inr r"
      using UpdateRecords_Inr [OF assms(1) u [unfolded r(1)]] by metis
    then show ?thesis
      using w' w2 keeps finish_keeps [OF assms(2)] said1 r(2)
      by (auto simp: Recording_IsReady_def Records_IsReady_iff split: if_splits intro!: exI [of _ d'] exI [of _ r])
  qed
qed

section \<open>Runs\<close>

text \<open>A protobuf that knows one message.\<close>

definition single_proto :: "job_msg \<Rightarrow> proto" where
  "single_proto x = \<lparr>pb_Marshal = (\<lambda>y. if y = x then Inr [1] else Inl (Foreign 5)),
     pb_Unmarshal = (\<lambda>k b. if k = kind_of x \<and> b = [1] then Inr x else Inl (Foreign 4)),
     pb_MarshalJob = (\<lambda>pl t. if t = '''' then Inr pl else Inl (Foreign 6)), pb_UnmarshalJob = (\<lambda>b. Inr (b, ''''))\<rparr>"

lemma single_proto_laws: "proto_laws (single_proto x)"
  by (simp add: proto_laws_def single_proto_def split: if_splits)

definition rtc_tubes :: rtc_queue_tubes where
  "rtc_tubes = \<lparr>rq_StoreEvent = ''tube'', rq_UpdateRecordingTrack = ''update'', rq_RecordingUpdate = ''ready''\<rparr>"

text \<open>The world of the runs: what was put, and the store.\<close>

definition empty_world :: "(string \<times> byte list) list \<times> mem" where
  "empty_world = ([], \<lambda>_. [])"

definition store_mongo :: "((string \<times> byte list) list \<times> mem) mongo" where
  "store_mongo = beside mem_mongo"

lemma store_laws: "mongo_laws store_mongo snd" "queue_keeps logging_queue snd" "put_law logging_queue fst"
  using beside_laws [OF mem_mongo_laws] logging_queue_laws(2) [where f = "\<lambda>w. w"] logging_queue_laws(1)
  by (simp_all add: store_mongo_def comp_def)

abbreviation store_run where
  "store_run p \<equiv> ServeJob p logging_queue (rtc_route rtc_tubes (storeEvent (\<lambda>_ _ _ _. (False, 1)) p
     logging_queue store_mongo) (\<lambda>_ w. (w, None)))"


text \<open>A stopped recording whose only track is being processed; the job says that it is done.\<close>

definition stopped_recording :: recording where
  "stopped_recording = recording_zero\<lparr>rg_ID := 2, rg_Room := 3, rg_StoppedAt := 9,
     rg_Records := records_empty\<lparr>rs_RecordingStarted := [7]\<rparr>\<rparr>"

definition ready_world :: "(uuid \<times> uuid) list \<times> mem" where
  "ready_world = ([], (\<lambda>_. [])(record_collection := [recording_enc stopped_recording]))"

definition announce :: "uuid \<Rightarrow> uuid \<Rightarrow> (uuid \<times> uuid) list \<times> mem \<Rightarrow> ((uuid \<times> uuid) list \<times> mem) \<times> err" where
  "announce r i w = ((fst w @ [(r, i)], snd w), None)"

abbreviation ready_run where
  "ready_run \<equiv> updateRecordingTrack (\<lambda>_ _ _ _. (False, 1)) (single_proto (track_msg 0 2 7 ProcessingFinishedUpdate))
     quiet_queue (beside mem_mongo) announce sample_job ready_world"

theorem ready_only_complete_witness:
  "fst (fst ready_run) = [] \<or> (\<exists>d r. fst (fst ready_run) = [(rg_Room r, rg_ID r)] \<and>
     d \<in> set (snd (fst ready_run) record_collection) \<and> recording_dec d = Inr r \<and> \<not> IsZero (rg_StoppedAt r) \<and>
     set (rs_RecordingStarted (rg_Records r)) \<subseteq> set (rs_ProcessingFinished (rg_Records r)))"
proof -
  have q: "queue_keeps quiet_queue v" for v :: "(uuid \<times> uuid) list \<times> mem \<Rightarrow> 'v"
    by (simp add: queue_keeps_def quiet_queue_def)
  have a: "announces announce snd fst"
    by (auto simp: announces_def announce_def)
  have l: "\<forall>c f us up w. fst (fst (mg_findOneAndUpdate (beside mem_mongo) c f us up w)) = fst w"
    by (auto simp: beside_def split: prod.split)
  have m: "mongo_laws (beside mem_mongo) snd"
    using beside_laws [OF mem_mongo_laws] by (simp add: comp_def)
  have "ready_run = (fst ready_run, snd ready_run)"
    by simp
  from ready_only_complete [OF m q q a l this] show ?thesis
    by (simp add: ready_world_def)
qed

end
