(* ===== verification/Avp.thy ===== *)
theory Avp
  imports Rtc_Jobs Profile
begin

text \<open>
  The media processing service: \<^verbatim>\<open>services/internal/platform/ffmpeg/ffmpeg.go\<close> (the commands),
  \<^verbatim>\<open>services/internal/dash/dash.go\<close> (the converter) and \<^verbatim>\<open>services/cmd/avp/queue\<close> (the job and
  its emitter).  The file system, the object storage and the processes are parameters.

  The lemmas show that a conversion never loses a track: at every outcome the raw record or
  both converted objects are stored; and that a job that converted a track but could not
  announce it can never announce it, because the record it would convert again is gone.
\<close>

section \<open>The outside\<close>

text \<open>
  Opened files and objects are closed by \<^verbatim>\<open>defer\<close>, which has no result; \<open>cv_Copy\<close> is \<^verbatim>\<open>io.Copy\<close> of
  an object into a file, \<open>cv_Run\<close> the run of a command, \<open>cv_Put\<close> uploads an open file.
\<close>

record 'w converter_env =
  cv_MkdirAll :: "string \<Rightarrow> 'w \<Rightarrow> 'w \<times> err"
  cv_Create :: "string \<Rightarrow> 'w \<Rightarrow> 'w \<times> err"
  cv_GetObject :: "string \<Rightarrow> string \<Rightarrow> 'w \<Rightarrow> 'w \<times> err"
  cv_Copy :: "string \<Rightarrow> string \<Rightarrow> string \<Rightarrow> 'w \<Rightarrow> 'w \<times> err"
  cv_Run :: "string list \<Rightarrow> 'w \<Rightarrow> 'w \<times> err"
  cv_Open :: "string \<Rightarrow> 'w \<Rightarrow> 'w \<times> err"
  cv_Stat :: "string \<Rightarrow> 'w \<Rightarrow> 'w \<times> int res"
  cv_Put :: "string \<Rightarrow> string \<Rightarrow> string \<Rightarrow> int \<Rightarrow> string \<Rightarrow> 'w \<Rightarrow> 'w \<times> err"
  cv_RemoveAll :: "string \<Rightarrow> 'w \<Rightarrow> 'w \<times> err"
  cv_RemoveObject :: "string \<Rightarrow> string \<Rightarrow> 'w \<Rightarrow> 'w \<times> err"
  cv_NumCPU :: nat

section \<open>The commands\<close>

definition quoted :: "string \<Rightarrow> string" where
  "quoted s = CHR 0x27 # s @ [CHR 0x27]"

text \<open>
  \<open>secs\<close> is \<^verbatim>\<open>uint(in.Duration.Seconds())\<close>, which truncates; the product is taken on 64 bit.
\<close>

definition minFrames :: "64 word \<Rightarrow> 64 word \<Rightarrow> 64 word" where
  "minFrames secs fps = (let n = secs * fps in if n > 150 then 150 else n)"

definition WriteDashVideo ::
  "(duration \<Rightarrow> 64 word) \<Rightarrow> 'w converter_env \<Rightarrow> string \<Rightarrow> duration \<Rightarrow> string \<Rightarrow> 64 word \<Rightarrow> 'w \<Rightarrow> 'w \<times> err" where
  "WriteDashVideo secs env inPath inDuration outPath fps w =
     (if inDuration = 0 then (w, Some (New ''source duration should not be zero''))
      else (let fps = (if fps = 0 then 30 else fps);
                frames = nat_digits (unat (minFrames (secs inDuration) fps)) in
        cv_Run env [''ffmpeg'', ''-y'', ''-hide_banner'', ''-i'', inPath, ''-c:v'', ''libvpx-vp9'',
          ''-keyint_min'', frames, ''-g'', frames, ''-vsync'', ''cfr'', ''-row-mt'', ''1'',
          ''-tile-columns'', ''4'', ''-frame-parallel'', ''1'', ''-movflags'', ''faststart'', ''-an'',
          ''-f'', ''webm'', ''-dash'', ''1'', ''-speed'', ''3'', ''-threads'', nat_digits (cv_NumCPU env),
          ''-vf'', ''scale='' @ quoted ''min(1920,iw)'' @ '':min'' @ quoted ''(1080,ih)'' @
            '':force_original_aspect_ratio=decrease'',
          ''-b:v'', ''7400k'', ''-r'', nat_digits (unat fps), ''-dash'', ''1'', outPath] w))"

definition WriteDashAudio :: "'w converter_env \<Rightarrow> string \<Rightarrow> duration \<Rightarrow> string \<Rightarrow> 'w \<Rightarrow> 'w \<times> err" where
  "WriteDashAudio env inPath inDuration outPath w =
     (if inDuration = 0 then (w, Some (New ''source duration should not be zero''))
      else cv_Run env [''ffmpeg'', ''-y'', ''-i'', inPath, ''-c:a'', ''libopus'', ''-b:a'', ''64k'',
        ''-application'', ''voip'', ''-af'', ''apad='' @ quoted ''whole_dur=5'', ''-vn'', ''-f'', ''webm'',
        ''-ar'', ''48000'', ''-ac'', ''2'', ''-dash'', ''1'', outPath] w)"

definition WriteDashManifest :: "'w converter_env \<Rightarrow> string \<Rightarrow> string \<Rightarrow> 'w \<Rightarrow> 'w \<times> err" where
  "WriteDashManifest env inPath outPath =
     cv_Run env [''ffmpeg'', ''-y'', ''-f'', ''webm_dash_manifest'', ''-i'', inPath, ''-c'', ''copy'',
       ''-map'', ''0'', ''-f'', ''webm_dash_manifest'', ''-adaptation_sets'', ''id=0,streams=0'', outPath]"

section \<open>The converter\<close>

record dash_record =
  da_ID :: uuid
  da_BucketName :: string
  da_ObjectName :: string
  da_Duration :: duration

definition downloadToFile :: "'w converter_env \<Rightarrow> string \<Rightarrow> string \<Rightarrow> string \<Rightarrow> string \<Rightarrow> 'w \<Rightarrow> 'w \<times> err" where
  "downloadToFile env dir fileName bucketName objectName w = (case cv_MkdirAll env dir w of
      (w1, Some e) \<Rightarrow> (w1, Some (Wrap ''failed to create a tmp directory'' e))
    | (w1, None) \<Rightarrow> (case cv_Create env fileName w1 of
        (w2, Some e) \<Rightarrow> (w2, Some (Wrap ''failed to create a record file'' e))
      | (w2, None) \<Rightarrow> (case cv_GetObject env bucketName objectName w2 of
          (w3, Some e) \<Rightarrow> (w3, Some (Wrap ''failed to access storage'' e))
        | (w3, None) \<Rightarrow> (case cv_Copy env fileName bucketName objectName w3 of
            (w4, Some e) \<Rightarrow> (w4, Some (Wrap ''failed to download record from storage'' e))
          | (w4, None) \<Rightarrow> (w4, None)))))"

definition uploadFromFile ::
  "'w converter_env \<Rightarrow> string \<Rightarrow> string \<Rightarrow> string \<Rightarrow> string \<Rightarrow> 'w \<Rightarrow> 'w \<times> err" where
  "uploadFromFile env fileName bucketName objectName contentType w = (case cv_Open env fileName w of
      (w1, Some e) \<Rightarrow> (w1, Some (Wrap ''failed to open webm file'' e))
    | (w1, None) \<Rightarrow> (case cv_Stat env fileName w1 of
        (w2, Inl e) \<Rightarrow> (w2, Some (Wrap ''failed to read webm file stat'' e))
      | (w2, Inr sz) \<Rightarrow> (case cv_Put env fileName bucketName objectName sz contentType w2 of
          (w3, Some e) \<Rightarrow> (w3, Some (Wrap ''failed to upload webm file to storage'' e))
        | (w3, None) \<Rightarrow> (w3, None))))"

text \<open>
  \<^verbatim>\<open>ConvertVideo\<close> and \<^verbatim>\<open>ConvertAudio\<close> are the same steps with another command, another name and
  other content types.
\<close>

definition convert_track ::
  "'w converter_env \<Rightarrow> string \<Rightarrow> (string \<Rightarrow> string \<Rightarrow> 'w \<Rightarrow> 'w \<times> err) \<Rightarrow> string \<Rightarrow> string \<Rightarrow> string \<Rightarrow> string \<Rightarrow>
   uuid \<Rightarrow> dash_record \<Rightarrow> 'w \<Rightarrow> 'w \<times> err" where
  "convert_track env bucket write write_text name mediaType manifestType roomID record w =
     (let dir = path_Join (uuid_String roomID) (uuid_String (da_ID record));
          tmpPath = ''/tmp/avp/'' @ dir;
          recordPath = path_Join tmpPath ''record'';
          mediaPath = path_Join tmpPath name;
          manifestPath = path_Join tmpPath ''manifest''
      in case downloadToFile env tmpPath recordPath (da_BucketName record) (da_ObjectName record) w of
        (w1, Some e) \<Rightarrow> (w1, Some e)
      | (w1, None) \<Rightarrow> (case write recordPath mediaPath w1 of
          (w2, Some e) \<Rightarrow> (w2, Some (Wrap write_text e))
        | (w2, None) \<Rightarrow> (case WriteDashManifest env mediaPath manifestPath w2 of
            (w3, Some e) \<Rightarrow> (w3, Some (Wrap ''failed to write manifest file'' e))
          | (w3, None) \<Rightarrow> (case uploadFromFile env mediaPath bucket (path_Join dir name) mediaType w3 of
              (w4, Some e) \<Rightarrow> (w4, Some e)
            | (w4, None) \<Rightarrow> (case uploadFromFile env manifestPath bucket (path_Join dir ''manifest'') manifestType w4 of
                (w5, Some e) \<Rightarrow> (w5, Some e)
              | (w5, None) \<Rightarrow> (case cv_RemoveAll env tmpPath w5 of
                  (w6, Some e) \<Rightarrow> (w6, Some (Wrap ''failed to drop tmp folder'' e))
                | (w6, None) \<Rightarrow> (case cv_RemoveObject env (da_BucketName record) (da_ObjectName record) w6 of
                    (w7, Some e) \<Rightarrow> (w7, Some (Wrap ''failed to remove record object'' e))
                  | (w7, None) \<Rightarrow> (w7, None))))))))"

definition ConvertVideo ::
  "(duration \<Rightarrow> 64 word) \<Rightarrow> 'w converter_env \<Rightarrow> string \<Rightarrow> uuid \<Rightarrow> dash_record \<Rightarrow> 'w \<Rightarrow> 'w \<times> err" where
  "ConvertVideo secs env bucket roomID record =
     convert_track env bucket (\<lambda>src dst. WriteDashVideo secs env src (da_Duration record) dst 30)
       ''failed to write video file'' ''video'' ''video/webm'' ''application/dash+xml'' roomID record"

definition ConvertAudio ::
  "'w converter_env \<Rightarrow> string \<Rightarrow> uuid \<Rightarrow> dash_record \<Rightarrow> 'w \<Rightarrow> 'w \<times> err" where
  "ConvertAudio env bucket roomID record =
     convert_track env bucket (\<lambda>src dst. WriteDashAudio env src (da_Duration record) dst)
       ''failed to write audio file'' ''audio'' ''audio/webm'' ''application/xhtml+xml'' roomID record"

section \<open>The job\<close>

definition avp_put ::
  "proto \<Rightarrow> 'w beanstalkd \<Rightarrow> string \<Rightarrow> string \<Rightarrow> time \<Rightarrow> uuid \<Rightarrow> uuid \<Rightarrow> track_update \<Rightarrow> 'w \<Rightarrow> 'w \<times> err" where
  "avp_put p q trace tube now recordingID recordID upd =
     put_msg p q trace ''failed to marshal recorting track update'' True tube (track_msg now recordingID recordID upd)
       \<lparr>pp_Delay = 0, pp_TTR = 10 * Second\<rparr>"

definition ProcessingStarted ::
  "proto \<Rightarrow> 'w beanstalkd \<Rightarrow> string \<Rightarrow> string \<Rightarrow> time \<Rightarrow> uuid \<Rightarrow> uuid \<Rightarrow> 'w \<Rightarrow> 'w \<times> err" where
  "ProcessingStarted p q trace tube now recordingID recordID =
     avp_put p q trace tube now recordingID recordID ProcessingStartedUpdate"

definition ProcessingFinished ::
  "proto \<Rightarrow> 'w beanstalkd \<Rightarrow> string \<Rightarrow> string \<Rightarrow> time \<Rightarrow> uuid \<Rightarrow> uuid \<Rightarrow> 'w \<Rightarrow> 'w \<times> err" where
  "ProcessingFinished p q trace tube now recordingID recordID =
     avp_put p q trace tube now recordingID recordID ProcessingFinishedUpdate"

definition processTrack_maxAge :: duration where "processTrack_maxAge = 24 * Hour"

definition processTrack_bo :: backoff where
  "processTrack_bo = \<lparr>bo_Factor = 15 / 10, bo_Jitter = False, bo_Min = 2 * Second, bo_Max = Hour\<rparr>"

text \<open>
  \<open>dur\<close> is \<^verbatim>\<open>time.Duration(float64(s) * float64(time.Second))\<close>; \<open>started\<close> and \<open>finished\<close> are the
  methods of \<^verbatim>\<open>TrackEmitter\<close>.
\<close>

definition processTrack ::
  "float_part \<Rightarrow> (real \<Rightarrow> duration) \<Rightarrow> proto \<Rightarrow> 'w beanstalkd \<Rightarrow> (uuid \<Rightarrow> dash_record \<Rightarrow> 'w \<Rightarrow> 'w \<times> err) \<Rightarrow>
   (uuid \<Rightarrow> dash_record \<Rightarrow> 'w \<Rightarrow> 'w \<times> err) \<Rightarrow> (uuid \<Rightarrow> uuid \<Rightarrow> 'w \<Rightarrow> 'w \<times> err) \<Rightarrow> (uuid \<Rightarrow> uuid \<Rightarrow> 'w \<Rightarrow> 'w \<times> err) \<Rightarrow>
   'w handler" where
  "processTrack fp dur p q convertVideo convertAudio started finished job w =
     (let retry = jobRetry fp q processTrack_bo processTrack_maxAge job; delete = jobDelete q job in
      case pb_Unmarshal p KProcessTrack (jb_Body job) of
        Inr (JProcessTrack payload) \<Rightarrow>
          (let roomID = uuid_of_bin (pt_RoomId payload); recordingID = uuid_of_bin (pt_RecordingId payload);
               recordID = uuid_of_bin (pt_RecordId payload);
               rec = \<lparr>da_ID = recordID, da_BucketName = pt_Bucket payload, da_ObjectName = pt_Object payload,
                 da_Duration = dur (pt_DurationSeconds payload)\<rparr>
           in case started recordingID recordID w of
             (w1, Some e) \<Rightarrow> retry w1
           | (w1, None) \<Rightarrow> (case (if pt_Kind_VIDEO payload then convertVideo roomID rec w1 else convertAudio roomID rec w1) of
               (w2, Some e) \<Rightarrow> retry w2
             | (w2, None) \<Rightarrow> (case finished recordingID recordID w2 of
                 (w3, Some e) \<Rightarrow> retry w3
               | (w3, None) \<Rightarrow> delete w3)))
      | _ \<Rightarrow> delete w)"

text \<open>\<^verbatim>\<open>AutoTouch\<close> only keeps the reservation of the job while the handler runs; see \<open>Lifecycle\<close>.\<close>

definition avp_route :: "string \<Rightarrow> 'w handler \<Rightarrow> job \<Rightarrow> 'w handler option" where
  "avp_route processTrackTube process job = (if jb_Tube job = processTrackTube then Some process else None)"

definition avp_ServeJob ::
  "float_part \<Rightarrow> (real \<Rightarrow> duration) \<Rightarrow> (duration \<Rightarrow> 64 word) \<Rightarrow> proto \<Rightarrow> 'w beanstalkd \<Rightarrow> string \<Rightarrow> 'w converter_env \<Rightarrow> string \<Rightarrow>
   (uuid \<Rightarrow> uuid \<Rightarrow> 'w \<Rightarrow> 'w \<times> err) \<Rightarrow> (uuid \<Rightarrow> uuid \<Rightarrow> 'w \<Rightarrow> 'w \<times> err) \<Rightarrow> 'w handler" where
  "avp_ServeJob fp dur secs p q tube env bucket started finished =
     ServeJob p q (avp_route tube (processTrack fp dur p q (ConvertVideo secs env bucket) (ConvertAudio env bucket)
       started finished))"

interpretation process_job: job_handler "processTrack fp dur p q convertVideo convertAudio started finished" "\<lambda>_. True"
    processTrack_bo processTrack_maxAge for fp dur p q convertVideo convertAudio started finished
  by unfold_locales (auto simp: processTrack_def Let_def processTrack_bo_def duration_defs
      intro!: finish_jobRetry split: sum.split job_msg.split prod.split option.split)

section \<open>What a conversion keeps\<close>

text \<open>
  The frame count of a video command is the length in whole seconds times the frame rate, on
  64 bit, and at most 150: a video shorter than a second gets 0, not its number of frames.
\<close>

theorem minFrames_exact:
  "unat (minFrames secs fps) = min 150 (unat secs * unat fps mod 2 ^ 64) \<and> minFrames 0 fps = 0"
proof -
  have n: "unat (secs * fps) = unat secs * unat fps mod 2 ^ 64"
    by (simp add: unat_word_ariths)
  have "unat (minFrames secs fps) = min 150 (unat (secs * fps))"
    by (simp add: minFrames_def Let_def word_less_nat_alt min_def)
  then show ?thesis
    unfolding n by (simp add: minFrames_def)
qed

text \<open>The objects in the storage: only uploads add to them, only removals take one away.\<close>

definition storage_law :: "'w converter_env \<Rightarrow> ('w \<Rightarrow> (string \<times> string) set) \<Rightarrow> bool" where
  "storage_law env objs \<longleftrightarrow>
     (\<forall>d w w' e. cv_MkdirAll env d w = (w', e) \<longrightarrow> objs w' = objs w) \<and>
     (\<forall>d w w' e. cv_Create env d w = (w', e) \<longrightarrow> objs w' = objs w) \<and>
     (\<forall>d w w' e. cv_Open env d w = (w', e) \<longrightarrow> objs w' = objs w) \<and>
     (\<forall>d w w' n. cv_Stat env d w = (w', n) \<longrightarrow> objs w' = objs w) \<and>
     (\<forall>d w w' e. cv_RemoveAll env d w = (w', e) \<longrightarrow> objs w' = objs w) \<and>
     (\<forall>b x w w' e. cv_GetObject env b x w = (w', e) \<longrightarrow> objs w' = objs w) \<and>
     (\<forall>f b x w w' e. cv_Copy env f b x w = (w', e) \<longrightarrow> objs w' = objs w) \<and>
     (\<forall>c w w' e. cv_Run env c w = (w', e) \<longrightarrow> objs w' = objs w) \<and>
     (\<forall>f b x n t w w' e. cv_Put env f b x n t w = (w', e) \<longrightarrow>
        objs w \<subseteq> objs w' \<and> (e = None \<longrightarrow> (b, x) \<in> objs w')) \<and>
     (\<forall>b x w w' e. cv_RemoveObject env b x w = (w', e) \<longrightarrow> objs w - {(b, x)} \<subseteq> objs w')"

lemma storage_lawD:
  assumes "storage_law env objs"
  shows "cv_MkdirAll env d w = (w', e) \<Longrightarrow> objs w' = objs w" "cv_Create env d w = (w', e) \<Longrightarrow> objs w' = objs w"
    "cv_Open env d w = (w', e) \<Longrightarrow> objs w' = objs w" "cv_Stat env d w = (w', n) \<Longrightarrow> objs w' = objs w"
    "cv_RemoveAll env d w = (w', e) \<Longrightarrow> objs w' = objs w" "cv_GetObject env b x w = (w', e) \<Longrightarrow> objs w' = objs w"
    "cv_Copy env f b x w = (w', e) \<Longrightarrow> objs w' = objs w" "cv_Run env c w = (w', e) \<Longrightarrow> objs w' = objs w"
    "cv_Put env f b x sz t w = (w', e) \<Longrightarrow> objs w \<subseteq> objs w'"
    "cv_Put env f b x sz t w = (w', None) \<Longrightarrow> (b, x) \<in> objs w'"
    "cv_RemoveObject env b x w = (w', e) \<Longrightarrow> objs w - {(b, x)} \<subseteq> objs w'"
  by (insert assms, unfold storage_law_def, (elim conjE, metis)+)

lemma download_keeps:
  assumes "storage_law env objs" and "downloadToFile env d f b x w = (w', e)"
  shows "objs w' = objs w"
proof -
  note law = storage_lawD [OF assms(1)]
  obtain w1 e1 where 1: "cv_MkdirAll env d w = (w1, e1)"
    by fastforce
  obtain w2 e2 where 2: "cv_Create env f w1 = (w2, e2)"
    by fastforce
  obtain w3 e3 where 3: "cv_GetObject env b x w2 = (w3, e3)"
    by fastforce
  obtain w4 e4 where 4: "cv_Copy env f b x w3 = (w4, e4)"
    by fastforce
  have "w' \<in> {w1, w2, w3, w4}"
    using assms(2) 1 2 3 4 by (auto simp: downloadToFile_def split: option.splits)
  with law(1) [OF 1] law(2) [OF 2] law(6) [OF 3] law(7) [OF 4] show ?thesis
    by auto
qed

lemma upload_adds:
  assumes "storage_law env objs" and "uploadFromFile env f b x t w = (w', e)"
  shows "objs w \<subseteq> objs w'" "e = None \<Longrightarrow> (b, x) \<in> objs w'"
proof -
  note law = storage_lawD [OF assms(1)]
  obtain w1 e1 where 1: "cv_Open env f w = (w1, e1)"
    by fastforce
  obtain w2 n where 2: "cv_Stat env f w1 = (w2, n)"
    by fastforce
  have before: "objs w1 = objs w" "objs w2 = objs w"
    using law(3) [OF 1] law(4) [OF 2] by simp_all
  have "w' \<in> {w1, w2} \<and> e \<noteq> None \<or> (\<exists>sz e3. cv_Put env f b x sz t w2 = (w', e3) \<and> (e = None \<longrightarrow> e3 = None))"
    using assms(2) 1 2 by (auto simp: uploadFromFile_def split: option.splits sum.splits prod.splits)
  then have "objs w \<subseteq> objs w' \<and> (e = None \<longrightarrow> (b, x) \<in> objs w')"
  proof (elim disjE exE conjE)
    fix sz e3
    assume put: "cv_Put env f b x sz t w2 = (w', e3)" and e3: "e = None \<longrightarrow> e3 = None"
    have "(b, x) \<in> objs w'" if "e = None"
      using put e3 that by (intro law(10)) simp
    with law(9) [OF put] before show ?thesis
      by blast
  qed (use before in auto)
  then show "objs w \<subseteq> objs w'" "e = None \<Longrightarrow> (b, x) \<in> objs w'"
    by blast+
qed

lemma convert_track_keeps:
  assumes "storage_law env objs" and "\<And>a b w w' e. write a b w = (w', e) \<Longrightarrow> objs w' = objs w"
    and "src = (da_BucketName r, da_ObjectName r)" and "src \<in> objs w"
    and "out = {(bucket, path_Join (path_Join (uuid_String roomID) (uuid_String (da_ID r))) name),
      (bucket, path_Join (path_Join (uuid_String roomID) (uuid_String (da_ID r))) ''manifest'')}"
    and "src \<notin> out"
    and "convert_track env bucket write text name t1 t2 roomID r w = (w', e)"
  shows "(src \<in> objs w' \<or> out \<subseteq> objs w') \<and> (e = None \<longrightarrow> out \<subseteq> objs w')"
proof -
  note step = download_keeps [OF assms(1)] assms(2) storage_lawD(8) [OF assms(1)] storage_lawD(5) [OF assms(1)]
  note up = upload_adds [OF assms(1)]
  note rm = storage_lawD(11) [OF assms(1)]
  let ?dir = "path_Join (uuid_String roomID) (uuid_String (da_ID r))"
  let ?tmp = "''/tmp/avp/'' @ ?dir"
  obtain w1 e1 where 1: "downloadToFile env ?tmp (path_Join ?tmp ''record'') (da_BucketName r) (da_ObjectName r) w = (w1, e1)"
    by fastforce
  obtain w2 e2 where 2: "write (path_Join ?tmp ''record'') (path_Join ?tmp name) w1 = (w2, e2)"
    by fastforce
  obtain w3 e3 where 3: "WriteDashManifest env (path_Join ?tmp name) (path_Join ?tmp ''manifest'') w2 = (w3, e3)"
    by fastforce
  obtain w4 e4 where 4: "uploadFromFile env (path_Join ?tmp name) bucket (path_Join ?dir name) t1 w3 = (w4, e4)"
    by fastforce
  obtain w5 e5 where 5: "uploadFromFile env (path_Join ?tmp ''manifest'') bucket (path_Join ?dir ''manifest'') t2 w4 = (w5, e5)"
    by fastforce
  obtain w6 e6 where 6: "cv_RemoveAll env ?tmp w5 = (w6, e6)"
    by fastforce
  obtain w7 e7 where 7: "cv_RemoveObject env (da_BucketName r) (da_ObjectName r) w6 = (w7, e7)"
    by fastforce
  have kept: "objs w1 = objs w" "objs w2 = objs w1" "objs w3 = objs w2" "objs w6 = objs w5"
    using step(1) [OF 1] step(2) [OF 2] step(3) [OF 3 [unfolded WriteDashManifest_def]] step(4) [OF 6] by auto
  have w5: "src \<in> objs w3" "src \<in> objs w4" "src \<in> objs w5"
    using kept assms(4) up(1) [OF 4] up(1) [OF 5] by auto
  have both: "out \<subseteq> objs w5" if "e4 = None" "e5 = None"
    using up(2) [OF 4 that(1)] up(1) [OF 5] up(2) [OF 5 that(2)] unfolding assms(5) by auto
  have w7: "out \<subseteq> objs w7" if "e4 = None" "e5 = None"
    using rm [OF 7] both [OF that] assms(3,6) kept(4) by auto
  from assms(7) 1 2 3 4 5 6 7 have
    "(\<exists>x. e = Some x) \<and> w' \<in> {w1, w2, w3, w4, w5} \<or> e4 = None \<and> e5 = None \<and> w' = w6 \<and> e \<noteq> None \<or>
     e4 = None \<and> e5 = None \<and> w' = w7"
    by (auto simp: convert_track_def Let_def split: option.splits)
  then show ?thesis
    using kept w5 w7 both assms(4) by (elim disjE) auto
qed

text \<open>
  C8: A conversion never loses a track: whatever fails on the way, the raw record or both of the
  converted objects are in the storage afterwards, and both of them when it succeeds.
\<close>

theorem convert_never_loses:
  assumes "storage_law env objs" and "(da_BucketName r, da_ObjectName r) \<in> objs w"
    and "dir = path_Join (uuid_String roomID) (uuid_String (da_ID r))"
    and "\<forall>name. (da_BucketName r, da_ObjectName r) \<noteq> (bucket, path_Join dir name)"
    and "ConvertVideo secs env bucket roomID r w = (w1, e1)" and "ConvertAudio env bucket roomID r w = (w2, e2)"
  shows "((da_BucketName r, da_ObjectName r) \<in> objs w1 \<or>
      {(bucket, path_Join dir ''video''), (bucket, path_Join dir ''manifest'')} \<subseteq> objs w1) \<and>
    ((da_BucketName r, da_ObjectName r) \<in> objs w2 \<or>
      {(bucket, path_Join dir ''audio''), (bucket, path_Join dir ''manifest'')} \<subseteq> objs w2) \<and>
    (e1 = None \<longrightarrow> {(bucket, path_Join dir ''video''), (bucket, path_Join dir ''manifest'')} \<subseteq> objs w1) \<and>
    (e2 = None \<longrightarrow> {(bucket, path_Join dir ''audio''), (bucket, path_Join dir ''manifest'')} \<subseteq> objs w2)"
proof -
  have v: "WriteDashVideo secs env a d b 30 w = (w', e) \<Longrightarrow> objs w' = objs w" for a d b w w' e
    using storage_lawD(8) [OF assms(1)] by (auto simp: WriteDashVideo_def Let_def split: if_splits)
  have a: "WriteDashAudio env a d b w = (w', e) \<Longrightarrow> objs w' = objs w" for a d b w w' e
    using storage_lawD(8) [OF assms(1)] by (auto simp: WriteDashAudio_def split: if_splits)
  show ?thesis
    using convert_track_keeps [OF assms(1) v refl assms(2) refl _ assms(5) [unfolded ConvertVideo_def]]
      convert_track_keeps [OF assms(1) a refl assms(2) refl _ assms(6) [unfolded ConvertAudio_def]] assms(3,4)
    by auto
qed

section \<open>A converted track that is never announced\<close>

text \<open>An object that is not there cannot be read, and one that was removed is not there.\<close>

definition missing_law :: "'w converter_env \<Rightarrow> ('w \<Rightarrow> (string \<times> string) set) \<Rightarrow> bool" where
  "missing_law env objs \<longleftrightarrow>
     (\<forall>f b x w. (b, x) \<notin> objs w \<longrightarrow> snd (cv_Copy env f b x w) \<noteq> None) \<and>
     (\<forall>b x w w'. cv_RemoveObject env b x w = (w', None) \<longrightarrow> (b, x) \<notin> objs w')"

lemma convert_needs_source:
  assumes "storage_law env objs" and "missing_law env objs" and "(da_BucketName r, da_ObjectName r) \<notin> objs w"
  shows "\<exists>w' e. convert_track env bucket write text name t1 t2 roomID r w = (w', Some e)"
proof -
  note law = storage_lawD [OF assms(1)]
  have "\<exists>w' e. downloadToFile env d f (da_BucketName r) (da_ObjectName r) w = (w', Some e)" for d f
  proof -
    obtain w1 e1 where 1: "cv_MkdirAll env d w = (w1, e1)"
      by fastforce
    obtain w2 e2 where 2: "cv_Create env f w1 = (w2, e2)"
      by fastforce
    obtain w3 e3 where 3: "cv_GetObject env (da_BucketName r) (da_ObjectName r) w2 = (w3, e3)"
      by fastforce
    obtain w4 e4 where 4: "cv_Copy env f (da_BucketName r) (da_ObjectName r) w3 = (w4, e4)"
      by fastforce
    have "objs w3 = objs w"
      using law(1) [OF 1] law(2) [OF 2] law(6) [OF 3] by simp
    then have "e4 \<noteq> None"
      using assms(2,3) 4 unfolding missing_law_def by (metis snd_conv)
    with 1 2 3 4 show ?thesis
      by (auto simp: downloadToFile_def split: option.split)
  qed
  then obtain w' e where "downloadToFile env (''/tmp/avp/'' @ path_Join (uuid_String roomID) (uuid_String (da_ID r)))
      (path_Join (''/tmp/avp/'' @ path_Join (uuid_String roomID) (uuid_String (da_ID r))) ''record'')
      (da_BucketName r) (da_ObjectName r) w = (w', Some e)"
    by blast
  then show ?thesis
    by (simp add: convert_track_def Let_def)
qed

lemma convert_removes_source:
  assumes "missing_law env objs" and "convert_track env bucket write text name t1 t2 roomID r w = (w', None)"
  shows "(da_BucketName r, da_ObjectName r) \<notin> objs w'"
proof -
  from assms(2) obtain w6 where "cv_RemoveObject env (da_BucketName r) (da_ObjectName r) w6 = (w', None)"
    by (auto simp: convert_track_def Let_def split: prod.splits option.splits)
  with assms(1) show ?thesis
    unfolding missing_law_def by blast
qed

text \<open>
  A delivery that converts a track but cannot put the message that it is done leaves the
  track unannounced for good: the raw record is gone, so every later delivery fails before it
  gets to the message, whatever the queue does then, until the job is buried; the recording
  never becomes ready.
\<close>

theorem processed_track_lost:
  assumes "storage_law env objs" and "missing_law env objs"
    and "\<forall>a b w. objs (fst (started a b w)) = objs w" and "\<forall>a b w. objs (fst (finished a b w)) = objs w"
    and "pb_Unmarshal p KProcessTrack (jb_Body job) = Inr (JProcessTrack pl)"
    and "started (uuid_of_bin (pt_RecordingId pl)) (uuid_of_bin (pt_RecordId pl)) w = (w1, None)"
    and "(if pt_Kind_VIDEO pl then ConvertVideo secs env bucket else ConvertAudio env bucket) (uuid_of_bin (pt_RoomId pl))
      \<lparr>da_ID = uuid_of_bin (pt_RecordId pl), da_BucketName = pt_Bucket pl, da_ObjectName = pt_Object pl,
       da_Duration = dur (pt_DurationSeconds pl)\<rparr> w1 = (w2, None)"
    and "finished (uuid_of_bin (pt_RecordingId pl)) (uuid_of_bin (pt_RecordId pl)) w2 = (w3, Some e)"
    and "queue_keeps q objs" and "(pt_Bucket pl, pt_Object pl) \<notin> objs w4"
  shows "let run = (\<lambda>f. processTrack fp dur p q (ConvertVideo secs env bucket) (ConvertAudio env bucket) started f job) in
    snd (run finished w) \<noteq> Some Deleted \<and> (pt_Bucket pl, pt_Object pl) \<notin> objs (fst (run finished w)) \<and>
    snd (run finished w4) \<noteq> Some Deleted \<and> run finished w4 = run finishedAny w4"
proof -
  define run where "run = (\<lambda>f. processTrack fp dur p q (ConvertVideo secs env bucket) (ConvertAudio env bucket) started f job)"
  let ?r = "\<lparr>da_ID = uuid_of_bin (pt_RecordId pl), da_BucketName = pt_Bucket pl, da_ObjectName = pt_Object pl,
       da_Duration = dur (pt_DurationSeconds pl)\<rparr>"
  let ?retry = "jobRetry fp q processTrack_bo processTrack_maxAge job"
  have first: "run finished w = ?retry w3"
    using assms(5-8) by (simp add: run_def processTrack_def Let_def split: if_splits)
  have "(pt_Bucket pl, pt_Object pl) \<notin> objs w2"
    using convert_removes_source [OF assms(2), where r = ?r] assms(7)
    by (auto simp: ConvertVideo_def ConvertAudio_def split: if_splits)
  moreover have "objs w3 = objs w2"
    using assms(4,8) by (metis fst_conv)
  ultimately have gone: "(pt_Bucket pl, pt_Object pl) \<notin> objs (fst (run finished w))"
    unfolding first using finish_keeps(1) [OF assms(9)] by simp
  obtain w5 e5 where s: "started (uuid_of_bin (pt_RecordingId pl)) (uuid_of_bin (pt_RecordId pl)) w4 = (w5, e5)"
    by fastforce
  then have "(da_BucketName ?r, da_ObjectName ?r) \<notin> objs w5"
    using assms(3,10) by (metis dash_record.select_convs(2,3) fst_conv)
  from convert_needs_source [OF assms(1,2) this] obtain w6 e6 where c:
    "(if pt_Kind_VIDEO pl then ConvertVideo secs env bucket (uuid_of_bin (pt_RoomId pl)) ?r w5
      else ConvertAudio env bucket (uuid_of_bin (pt_RoomId pl)) ?r w5) = (w6, Some e6)"
    unfolding ConvertVideo_def ConvertAudio_def by metis
  have second: "run f w4 = ?retry (if e5 = None then w6 else w5)" for f
    using assms(5) s c by (cases e5) (simp_all add: run_def processTrack_def Let_def split: if_splits)
  show ?thesis
    unfolding Let_def run_def [symmetric]
    using gone finish_kind(2) [of fp q processTrack_bo processTrack_maxAge job] unfolding second first by simp
qed

section \<open>Runs\<close>

text \<open>A world that is the set of stored objects; the commands do nothing.\<close>

definition object_env :: "(string \<times> string) set converter_env" where
  "object_env = \<lparr>cv_MkdirAll = (\<lambda>_ w. (w, None)), cv_Create = (\<lambda>_ w. (w, None)), cv_GetObject = (\<lambda>_ _ w. (w, None)),
     cv_Copy = (\<lambda>_ b x w. (w, if (b, x) \<in> w then None else Some (Foreign 8))), cv_Run = (\<lambda>_ w. (w, None)),
     cv_Open = (\<lambda>_ w. (w, None)), cv_Stat = (\<lambda>_ w. (w, Inr 1)),
     cv_Put = (\<lambda>_ b x _ _ w. (insert (b, x) w, None)), cv_RemoveAll = (\<lambda>_ w. (w, None)),
     cv_RemoveObject = (\<lambda>b x w. (w - {(b, x)}, None)), cv_NumCPU = 2\<rparr>"

lemma object_env_laws: "storage_law object_env (\<lambda>w. w)" "missing_law object_env (\<lambda>w. w)"
  by (auto simp: storage_law_def missing_law_def object_env_def)

definition raw_track :: dash_record where
  "raw_track = \<lparr>da_ID = 7, da_BucketName = ''raw'', da_ObjectName = ''track'', da_Duration = Second\<rparr>"

lemma object_env_converts:
  "da_Duration r \<noteq> 0 \<Longrightarrow> (da_BucketName r, da_ObjectName r) \<in> w \<Longrightarrow>
     snd (ConvertVideo secs object_env bucket room r w) = None \<and> snd (ConvertAudio object_env bucket room r w) = None"
  by (simp add: ConvertVideo_def ConvertAudio_def convert_track_def Let_def downloadToFile_def uploadFromFile_def
      WriteDashVideo_def WriteDashAudio_def WriteDashManifest_def object_env_def)

theorem convert_never_loses_witness:
  "{(''dash'', path_Join (path_Join (uuid_String 3) (uuid_String 7)) ''video''),
    (''dash'', path_Join (path_Join (uuid_String 3) (uuid_String 7)) ''manifest'')} \<subseteq>
   fst (ConvertVideo (\<lambda>_. 1) object_env ''dash'' 3 raw_track {(''raw'', ''track'')})"
proof -
  let ?w = "{(''raw'', ''track'')}"
  have r: "(da_BucketName raw_track, da_ObjectName raw_track) \<in> ?w" "da_Duration raw_track \<noteq> 0"
    "\<forall>name. (da_BucketName raw_track, da_ObjectName raw_track) \<noteq>
       (''dash'', path_Join (path_Join (uuid_String 3) (uuid_String (da_ID raw_track))) name)"
    by (simp_all add: raw_track_def duration_defs)
  note c = object_env_converts [OF r(2,1), of "\<lambda>_. 1" "''dash''" 3]
  obtain w1 w2 where run: "ConvertVideo (\<lambda>_. 1) object_env ''dash'' 3 raw_track ?w = (w1, None)"
    "ConvertAudio object_env ''dash'' 3 raw_track ?w = (w2, None)"
    using c by (metis prod.collapse)
  have "da_ID raw_track = 7"
    by (simp add: raw_track_def)
  with convert_never_loses [OF object_env_laws(1) r(1) refl r(3) run] show ?thesis
    unfolding run fst_conv by simp
qed

definition track_payload :: process_track_pb where
  "track_payload = \<lparr>pt_Bucket = ''raw'', pt_Object = ''track'', pt_RoomId = uuid_MarshalBinary 3,
     pt_RecordingId = uuid_MarshalBinary 4, pt_RecordId = uuid_MarshalBinary 7, pt_Kind_VIDEO = True, pt_DurationSeconds = 1\<rparr>"

theorem processed_track_lost_witness:
  "snd (processTrack (\<lambda>_ _ _ _. (False, 1)) (\<lambda>_. Second) (single_proto (JProcessTrack track_payload)) quiet_queue
      (ConvertVideo (\<lambda>_. 1) object_env ''dash'') (ConvertAudio object_env ''dash'') (\<lambda>_ _ w. (w, None))
      (\<lambda>_ _ w. (w, Some (Foreign 9))) sample_job {(''raw'', ''track'')}) \<noteq> Some Deleted"
proof -
  have msg: "pb_Unmarshal (single_proto (JProcessTrack track_payload)) KProcessTrack (jb_Body sample_job) =
      Inr (JProcessTrack track_payload)"
    by (simp add: single_proto_def sample_job_def)
  have q: "queue_keeps quiet_queue (\<lambda>w :: (string \<times> string) set. w)"
    by (simp add: queue_keeps_def quiet_queue_def)
  let ?r = "\<lparr>da_ID = uuid_of_bin (pt_RecordId track_payload), da_BucketName = pt_Bucket track_payload,
    da_ObjectName = pt_Object track_payload, da_Duration = Second\<rparr>"
  have "snd (ConvertVideo (\<lambda>_. 1) object_env ''dash'' (uuid_of_bin (pt_RoomId track_payload)) ?r {(''raw'', ''track'')}) = None"
    using object_env_converts [of ?r] by (simp add: track_payload_def duration_defs)
  then obtain w2 where c: "(if pt_Kind_VIDEO track_payload then ConvertVideo (\<lambda>_. 1) object_env ''dash''
      else ConvertAudio object_env ''dash'') (uuid_of_bin (pt_RoomId track_payload)) ?r {(''raw'', ''track'')} = (w2, None)"
    by (cases "ConvertVideo (\<lambda>_. 1) object_env ''dash'' (uuid_of_bin (pt_RoomId track_payload)) ?r {(''raw'', ''track'')}")
      (simp add: track_payload_def)
  have gone: "(pt_Bucket track_payload, pt_Object track_payload) \<notin> ({} :: (string \<times> string) set)"
    by simp
  show ?thesis
    using processed_track_lost [where started = "\<lambda>_ _ w. (w, None)" and finished = "\<lambda>_ _ w. (w, Some (Foreign 9))"
        and dur = "\<lambda>_. Second" and fp = "\<lambda>_ _ _ _. (False, 1)", OF object_env_laws _ _ msg refl c refl q gone]
    unfolding Let_def fst_conv by blast
qed

end
