(* ===== verification/Iam_Web.thy ===== *)
theory Iam_Web
  imports Auth Session Profile User
begin

text \<open>
  The web handlers of the iam service: \<^verbatim>\<open>services/cmd/iam/web\<close> (\<^verbatim>\<open>handler.go\<close>, \<^verbatim>\<open>auth.go\<close>,
  \<^verbatim>\<open>resolver.go\<close>) and the verification of Google identities, \<^verbatim>\<open>services/internal/platform/google/gsi\<close>.
  A handler takes the request, what the JSON decoder makes of its body, the time and the random
  values it draws, and gives the response; \<open>None\<close> is a panic, which \<^verbatim>\<open>ServeHTTP\<close> recovers.

  The lemmas show whose session a login opens, that a token for an account is only handed out
  on a stored session, that a request for a reset does not tell whether the account exists,
  and that a logout request without a session cookie ends every session of every user.
\<close>

section \<open>Cookies and responses\<close>

record cookie =
  ck_Name :: string
  ck_Value :: string
  ck_HttpOnly :: bool
  ck_Secure :: bool
  ck_SameSiteStrict :: bool
  ck_Domain :: string
  ck_Expires :: time
  ck_MaxAge :: int

definition sessionCookie :: string where "sessionCookie = ''session''"
definition guestCookie :: string where "guestCookie = ''guest-token''"
definition web_guestAPIExpire :: duration where "web_guestAPIExpire = 24 * Hour"

text \<open>The body is a token with its validity in seconds, where there is one.\<close>

record response =
  rp_Status :: int
  rp_Cookies :: "cookie list"
  rp_Token :: "(string \<times> int) option"

definition answer :: "int \<Rightarrow> response" where
  "answer s = \<lparr>rp_Status = s, rp_Cookies = [], rp_Token = None\<rparr>"

definition cookie_value :: "string \<Rightarrow> request \<Rightarrow> string" where
  "cookie_value n r = (case map_of (rq_Cookies r) n of None \<Rightarrow> '''' | Some v \<Rightarrow> v)"

definition Auth_Token :: "request \<Rightarrow> string" where
  "Auth_Token r = HTTPContext_Token r"

definition Auth_Session :: "request \<Rightarrow> string" where
  "Auth_Session r = cookie_value sessionCookie r"

definition Auth_GuestToken :: "request \<Rightarrow> string" where
  "Auth_GuestToken r = cookie_value guestCookie r"

definition set_cookie :: "cookie \<Rightarrow> response \<Rightarrow> response" where
  "set_cookie c rp = rp\<lparr>rp_Cookies := rp_Cookies rp @ [c]\<rparr>"

definition SetSession :: "string \<Rightarrow> string \<Rightarrow> response \<Rightarrow> response" where
  "SetSession domain sessionKey = set_cookie \<lparr>ck_Name = sessionCookie, ck_Value = sessionKey, ck_HttpOnly = True,
     ck_Secure = True, ck_SameSiteStrict = True, ck_Domain = domain, ck_Expires = time_zero, ck_MaxAge = 0\<rparr>"

definition expired_cookie :: "string \<Rightarrow> cookie" where
  "expired_cookie n = \<lparr>ck_Name = n, ck_Value = '''', ck_HttpOnly = False, ck_Secure = False,
     ck_SameSiteStrict = False, ck_Domain = '''', ck_Expires = 0, ck_MaxAge = 0\<rparr>"

definition ResetSession :: "response \<Rightarrow> response" where
  "ResetSession = set_cookie (expired_cookie sessionCookie)"

definition SetGuestToken :: "string \<Rightarrow> time \<Rightarrow> string \<Rightarrow> response \<Rightarrow> response" where
  "SetGuestToken domain now token = set_cookie \<lparr>ck_Name = guestCookie, ck_Value = token, ck_HttpOnly = True,
     ck_Secure = True, ck_SameSiteStrict = True, ck_Domain = domain, ck_Expires = now + web_guestAPIExpire,
     ck_MaxAge = web_guestAPIExpire div Second\<rparr>"

definition ResetGuestToken :: "response \<Rightarrow> response" where
  "ResetGuestToken = set_cookie (expired_cookie guestCookie)"

lemmas cookie_defs = SetSession_def ResetSession_def SetGuestToken_def ResetGuestToken_def set_cookie_def
  expired_cookie_def sessionCookie_def guestCookie_def

section \<open>Google identities\<close>

record gsi_claims =
  gc_ExpiresAt :: int
  gc_Audience :: string
  gc_Issuer :: string
  gc_Email :: string
  gc_GivenName :: string
  gc_FamilyName :: string
  gc_Picture :: string

record gsi_id =
  gi_Email :: string
  gi_GivenName :: string
  gi_FamilyName :: string
  gi_Picture :: string

definition idClaims_Valid :: "time \<Rightarrow> gsi_claims \<Rightarrow> err" where
  "idClaims_Valid now c =
     (if gc_Issuer c \<noteq> ''accounts.google.com'' \<and> gc_Issuer c \<noteq> ''https://accounts.google.com''
      then Some (New ''invalid issuer'')
      else if gc_ExpiresAt c < Unix now then Some (New ''token expired'') else None)"

text \<open>
  \<open>gs_Parse\<close> checks the signature of a token with a key and decodes its claims; \<open>gs_KID\<close> decodes
  the first part of a token (base64 and JSON) to its key id; \<open>gs_Get\<close> is the request for the
  certificates, with status and decoded body.
\<close>

record ('w, 'k) gsi =
  gs_Parse :: "'k \<Rightarrow> string \<Rightarrow> gsi_claims res"
  gs_KID :: "string \<Rightarrow> string res"
  gs_Get :: "'w \<Rightarrow> 'w \<times> (int \<times> (string \<times> string) list res) res"
  gs_ParseKey :: "string \<Rightarrow> 'k res"
  gs_ClientID :: string

definition IDAuth_Verify :: "('w, 'k) gsi \<Rightarrow> time \<Rightarrow> 'k \<Rightarrow> string \<Rightarrow> gsi_id res" where
  "IDAuth_Verify g now pk token = (case gs_Parse g pk token of
      Inl e \<Rightarrow> Inl e
    | Inr c \<Rightarrow> (case idClaims_Valid now c of
        Some e \<Rightarrow> Inl e
      | None \<Rightarrow> if gc_Audience c \<noteq> gs_ClientID g then Inl (New ''invalid audience'')
          else Inr \<lparr>gi_Email = gc_Email c, gi_GivenName = gc_GivenName c, gi_FamilyName = gc_FamilyName c,
            gi_Picture = gc_Picture c\<rparr>))"

definition KeyID :: "('w, 'k) gsi \<Rightarrow> string \<Rightarrow> string" where
  "KeyID g token = (let parts = split_on CHR ''.'' token in
     if length parts < 2 then '''' else (case gs_KID g (parts ! 0) of Inl e \<Rightarrow> '''' | Inr kid \<Rightarrow> kid))"

definition PublicKey_PEM :: "('w, 'k) gsi \<Rightarrow> string \<Rightarrow> 'w \<Rightarrow> 'w \<times> 'k res" where
  "PublicKey_PEM g kid w =
     (if kid = '''' then (w, Inl (New ''invalid key id''))
      else (case gs_Get g w of
        (w1, Inl e) \<Rightarrow> (w1, Inl e)
      | (w1, Inr (code, body)) \<Rightarrow>
          if code \<noteq> 200 then (w1, Inl (New ''unexpected status code''))
          else (case body of
            Inl e \<Rightarrow> (w1, Inl e)
          | Inr certs \<Rightarrow> (case map_of certs kid of
              None \<Rightarrow> (w1, Inl (New ''certificate for this key not found''))
            | Some s \<Rightarrow> (w1, gs_ParseKey g s)))))"

section \<open>The handler\<close>

record ('w, 'k) iam =
  ih_SendTube :: string
  ih_UpdateAvatarTube :: string
  ih_Domain :: string
  ih_Key :: jwt
  ih_Login :: "string \<Rightarrow> string \<Rightarrow> string"
  ih_Mongo :: "'w mongo"
  ih_Unicode :: unicode
  ih_Txn :: "'w txn"
  ih_Bcrypt :: "'w bcrypt"
  ih_Proto :: proto
  ih_Producer :: "'w beanstalkd"
  ih_Google :: "('w, 'k) gsi"

text \<open>What a call draws: the time, two identifiers, the bytes of a session key, the trace id.\<close>

record draw =
  dr_Now :: time
  dr_UUID :: uuid
  dr_Key :: "byte list res"
  dr_Trace :: string

type_synonym 'w reply = "'w \<times> response option"

abbreviation iam_users :: "('w, 'k) iam \<Rightarrow> draw \<Rightarrow> 'w user_repo" where
  "iam_users h dr \<equiv> user_mongo_repo (ih_Unicode h) (ih_Mongo h) (ih_Txn h) (dr_Now dr)"

abbreviation (input) email_ident :: "string \<Rightarrow> ident" where
  "email_ident a \<equiv> \<lparr>id_Platform = PlatformEmail, id_Value = a\<rparr>"

definition token_body :: "api_claims \<Rightarrow> string \<Rightarrow> (string \<times> int) option" where
  "token_body claims t = Some (t, APIClaims_ExpiresIn claims div Second)"

definition fetchToken :: "('w, 'k) iam \<Rightarrow> draw \<Rightarrow> request \<Rightarrow> 'w \<Rightarrow> 'w reply" where
  "fetchToken h dr r w =
     (if rq_Method r \<noteq> ''GET'' then (w, Some (answer 405))
      else (case session_FetchOne (ih_Mongo h) \<lparr>sl_Key = Auth_Session r, sl_Owner = uuid_Nil, sl_Limit = 0\<rparr> w of
        (w1, Inl e) \<Rightarrow> (case Verify_api (ih_Key h) (dr_Now dr) (Auth_GuestToken r) of
            Inl e \<Rightarrow> (let guestClaims = NewAPIClaims (dr_Now dr) (dr_UUID dr) AccountGuest in
              case SecretKey_Sign (ih_Key h) (api_claims_json guestClaims) of
                Inl e \<Rightarrow> (w1, Some (answer 500))
              | Inr t \<Rightarrow> (w1, Some ((SetGuestToken (ih_Domain h) (dr_Now dr) t (answer 200))
                  \<lparr>rp_Token := token_body guestClaims t\<rparr>)))
          | Inr claims \<Rightarrow> (w1, Some ((answer 200)\<lparr>rp_Token := token_body claims (Auth_GuestToken r)\<rparr>)))
      | (w1, Inr sess) \<Rightarrow> (let userClaims = NewAPIClaims (dr_Now dr) (ses_Owner sess) AccountUser in
          case SecretKey_Sign (ih_Key h) (api_claims_json userClaims) of
            Inl e \<Rightarrow> (w1, Some (answer 500))
          | Inr t \<Rightarrow> (w1, Some ((answer 200)\<lparr>rp_Token := token_body userClaims t\<rparr>)))))"

text \<open>
  The end the three logins share: a new session for the account, an access token, and then
  (only the Google login has one) \<open>before\<close>, which is run with the token at hand.
\<close>

definition open_session :: "('w, 'k) iam \<Rightarrow> draw \<Rightarrow> uuid \<Rightarrow> ('w \<Rightarrow> 'w) \<Rightarrow> 'w \<Rightarrow> 'w reply" where
  "open_session h dr userID before w = (case NewKey (dr_Key dr) of
      None \<Rightarrow> (w, None)
    | Some key \<Rightarrow> (case session_Create (ih_Mongo h) (dr_Now dr)
          [\<lparr>ses_Key = key, ses_Owner = userID, ses_CreatedAt = time_zero\<rparr>] w of
        (w1, Inl e) \<Rightarrow> (w1, Some (answer 500))
      | (w1, Inr []) \<Rightarrow> (w1, None)
      | (w1, Inr (sess # _)) \<Rightarrow> (let apiClaims = NewAPIClaims (dr_Now dr) (ses_Owner sess) AccountUser in
          case SecretKey_Sign (ih_Key h) (api_claims_json apiClaims) of
            Inl e \<Rightarrow> (w1, Some (answer 500))
          | Inr access \<Rightarrow> (before w1, Some
              ((SetSession (ih_Domain h) (ses_Key sess) (ResetGuestToken (answer 200)))
                \<lparr>rp_Token := token_body apiClaims access\<rparr>)))))"

definition createSessionByEmail :: "('w, 'k) iam \<Rightarrow> draw \<Rightarrow> request \<Rightarrow> string res \<Rightarrow> 'w \<Rightarrow> 'w reply" where
  "createSessionByEmail h dr r body w =
     (if rq_Method r \<noteq> ''POST'' then (w, Some (answer 405))
      else (case body of
        Inl e \<Rightarrow> (w, Some (answer 400))
      | Inr emailToken \<Rightarrow> (case Verify_email (ih_Key h) (dr_Now dr) emailToken of
          Inl e \<Rightarrow> (w, Some (answer 401))
        | Inr claims \<Rightarrow> (case GetOrCreate (iam_users h dr) (dr_UUID dr)
              (user_zero\<lparr>us_Idents := [email_ident (ec_Address claims)]\<rparr>) w of
            (w1, Inl e) \<Rightarrow> (w1, Some (answer 500))
          | (w1, Inr usr) \<Rightarrow> open_session h dr (us_ID usr) id w1))))"

text \<open>The body is the address and the password.\<close>

definition createSessionByCredentials ::
  "('w, 'k) iam \<Rightarrow> draw \<Rightarrow> request \<Rightarrow> (string \<times> string) res \<Rightarrow> 'w \<Rightarrow> 'w reply" where
  "createSessionByCredentials h dr r body w =
     (if rq_Method r \<noteq> ''POST'' then (w, Some (answer 405))
      else (case body of
        Inl e \<Rightarrow> (w, Some (answer 400))
      | Inr (address, password) \<Rightarrow> (case CheckPassword (iam_users h dr) (ih_Bcrypt h) (email_ident address) password w of
          (w1, Inl e) \<Rightarrow> (w1, Some (answer (if errors_Is e P_user ErrNotFound \<or> errors_Is e P_user ErrValidation
            then 404 else 500)))
        | (w1, Inr usr) \<Rightarrow> open_session h dr (us_ID usr) id w1)))"

text \<open>\<^verbatim>\<open>emitUpdateProfile\<close>: an update that is skipped for a user who has a profile.\<close>

definition emitUpdateProfile ::
  "('w, 'k) iam \<Rightarrow> draw \<Rightarrow> uuid \<Rightarrow> string option \<Rightarrow> string option \<Rightarrow> string \<Rightarrow> 'w \<Rightarrow> 'w \<times> err" where
  "emitUpdateProfile h dr userID givenName familyName thumbnailURL =
     put_msg (ih_Proto h) (ih_Producer h) (dr_Trace dr) ''failed to marshal event'' True (ih_UpdateAvatarTube h)
       (JUpdateProfile \<lparr>up_UserId = uuid_MarshalBinary userID,
          up_GivenNameSet = (givenName \<noteq> None), up_GivenName = (case givenName of None \<Rightarrow> '''' | Some n \<Rightarrow> n),
          up_FamilyNameSet = (familyName \<noteq> None), up_FamilyName = (case familyName of None \<Rightarrow> '''' | Some n \<Rightarrow> n),
          up_Thumbnail = (if thumbnailURL \<noteq> '''' then Some \<lparr>fp_Storage = None, fp_PublicUrl = Some thumbnailURL\<rparr>
            else None),
          up_Avatar = None, up_SkipIfExists = True\<rparr>)
       \<lparr>pp_Delay = 2 * Second, pp_TTR = 2 * Minute\<rparr>"

definition createSessionByGoogleSignIn ::
  "('w, 'k) iam \<Rightarrow> draw \<Rightarrow> request \<Rightarrow> string res \<Rightarrow> 'w \<Rightarrow> 'w reply" where
  "createSessionByGoogleSignIn h dr r body w =
     (if rq_Method r \<noteq> ''POST'' then (w, Some (answer 405))
      else (case body of
        Inl e \<Rightarrow> (w, Some (answer 400))
      | Inr token \<Rightarrow> (case PublicKey_PEM (ih_Google h) (KeyID (ih_Google h) token) w of
          (w1, Inl e) \<Rightarrow> (w1, Some (answer 401))
        | (w1, Inr pk) \<Rightarrow> (case IDAuth_Verify (ih_Google h) (dr_Now dr) pk token of
            Inl e \<Rightarrow> (w1, Some (answer 401))
          | Inr gid \<Rightarrow> (case GetOrCreate (iam_users h dr) (dr_UUID dr)
                (user_zero\<lparr>us_Idents := [email_ident (gi_Email gid)]\<rparr>) w1 of
              (w2, Inl e) \<Rightarrow> (w2, Some (answer 500))
            | (w2, Inr usr) \<Rightarrow> open_session h dr (us_ID usr)
                (\<lambda>w3. fst (emitUpdateProfile h dr (us_ID usr)
                   (if gi_GivenName gid \<noteq> '''' then Some (gi_GivenName gid) else None)
                   (if gi_FamilyName gid \<noteq> '''' then Some (gi_FamilyName gid) else None) (gi_Picture gid) w3)) w2)))))"

section \<open>Messages with a token\<close>

text \<open>
  What the three e-mail handlers share: a token for the address, sent to the address in a
  message of the given kind.
\<close>

definition mail_token ::
  "('w, 'k) iam \<Rightarrow> draw \<Rightarrow> (string \<Rightarrow> sender_message) \<Rightarrow> string \<Rightarrow> string \<Rightarrow> 'w \<Rightarrow> 'w reply" where
  "mail_token h dr message action address w =
     (case SecretKey_Sign (ih_Key h) (email_claims_json (NewEmailClaims (dr_UUID dr) (dr_Now dr) address)) of
       Inl e \<Rightarrow> (w, Some (answer 500))
     | Inr token \<Rightarrow> (case put_msg (ih_Proto h) (ih_Producer h) (dr_Trace dr) ''failed to marshal email'' False
           (ih_SendTube h) (JSend (Some (Some (DeliveryEmail address))) (Some (Some (message (ih_Login h action token)))))
           \<lparr>pp_Delay = 0, pp_TTR = Minute\<rparr> w of
         (w1, Some e) \<Rightarrow> (w1, Some (answer 500))
       | (w1, None) \<Rightarrow> (w1, Some (answer 200))))"

definition emailLogin :: "('w, 'k) iam \<Rightarrow> draw \<Rightarrow> request \<Rightarrow> string res \<Rightarrow> 'w \<Rightarrow> 'w reply" where
  "emailLogin h dr r body w =
     (if rq_Method r \<noteq> ''POST'' then (w, Some (answer 405))
      else (case body of
        Inl e \<Rightarrow> (w, Some (answer 400))
      | Inr address \<Rightarrow> (case email_Validate address of
          Some e \<Rightarrow> (w, Some (answer 400))
        | None \<Rightarrow> mail_token h dr Login ''login'' address w)))"

definition emailCreatePassword :: "('w, 'k) iam \<Rightarrow> draw \<Rightarrow> request \<Rightarrow> string res \<Rightarrow> 'w \<Rightarrow> 'w reply" where
  "emailCreatePassword h dr r body w =
     (if rq_Method r \<noteq> ''POST'' then (w, Some (answer 405))
      else (case body of
        Inl e \<Rightarrow> (w, Some (answer 400))
      | Inr address \<Rightarrow> (case email_Validate address of
          Some e \<Rightarrow> (w, Some (answer 400))
        | None \<Rightarrow> mail_token h dr CreatePasswordMsg ''create-password'' address w)))"

definition emailResetPassword :: "('w, 'k) iam \<Rightarrow> draw \<Rightarrow> request \<Rightarrow> string res \<Rightarrow> 'w \<Rightarrow> 'w reply" where
  "emailResetPassword h dr r body w =
     (if rq_Method r \<noteq> ''POST'' then (w, Some (answer 405))
      else (case body of
        Inl e \<Rightarrow> (w, Some (answer 400))
      | Inr address \<Rightarrow> (case email_Validate address of
          Some e \<Rightarrow> (w, Some (answer 400))
        | None \<Rightarrow> (case user_FetchOne (ih_Unicode h) (ih_Mongo h)
              (user_lookup_zero\<lparr>ul_Idents := [email_ident address]\<rparr>) w of
            (w1, Inl e) \<Rightarrow> (w1, Some (answer (if errors_Is e P_user ErrNotFound then 200 else 500)))
          | (w1, Inr _) \<Rightarrow> mail_token h dr ResetPasswordMsg ''reset-password'' address w1))))"

section \<open>Logout and passwords\<close>

definition logout :: "('w, 'k) iam \<Rightarrow> request \<Rightarrow> 'w \<Rightarrow> 'w reply" where
  "logout h r w =
     (if rq_Method r \<noteq> ''POST'' then (w, Some (answer 405))
      else (case session_Delete (ih_Mongo h) \<lparr>sl_Key = Auth_Session r, sl_Owner = uuid_Nil, sl_Limit = 0\<rparr> w of
        (w1, Inl e) \<Rightarrow> (w1, Some (answer 500))
      | (w1, Inr _) \<Rightarrow> (w1, Some (ResetSession (ResetGuestToken (answer 200))))))"

text \<open>The body is the e-mail token and the password.\<close>

definition createPassword :: "('w, 'k) iam \<Rightarrow> draw \<Rightarrow> request \<Rightarrow> (string \<times> string) res \<Rightarrow> 'w \<Rightarrow> 'w reply" where
  "createPassword h dr r body w =
     (if rq_Method r \<noteq> ''POST'' then (w, Some (answer 405))
      else (case body of
        Inl e \<Rightarrow> (w, Some (answer 400))
      | Inr (emailToken, password) \<Rightarrow> (case Verify_email (ih_Key h) (dr_Now dr) emailToken of
          Inl e \<Rightarrow> (w, Some (answer 401))
        | Inr claims \<Rightarrow> (case CreatePassword (iam_users h dr) (ih_Bcrypt h) (email_ident (ec_Address claims)) password w of
            (w1, Inl e) \<Rightarrow> (w1, Some (answer (if errors_Is e P_user ErrValidation then 400
               else if errors_Is e P_user ErrNotFound then 404 else 500)))
          | (w1, Inr _) \<Rightarrow> (w1, Some (answer 200))))))"

text \<open>The sessions of a user, all of them; the body says whether to end them.\<close>

definition end_sessions :: "('w, 'k) iam \<Rightarrow> bool \<Rightarrow> uuid \<Rightarrow> 'w \<Rightarrow> 'w reply" where
  "end_sessions h lo userID w =
     (if lo
      then (case session_Delete (ih_Mongo h) \<lparr>sl_Key = '''', sl_Owner = userID, sl_Limit = 0\<rparr> w of
          (w1, Inl e) \<Rightarrow> (w1, Some (answer 500))
        | (w1, Inr _) \<Rightarrow> (w1, Some (ResetSession (answer 200))))
      else (w, Some (answer 200)))"

text \<open>The body is the old password, the new one and the wish to log out.\<close>

definition updatePassword ::
  "('w, 'k) iam \<Rightarrow> draw \<Rightarrow> request \<Rightarrow> (string \<times> string \<times> bool) res \<Rightarrow> 'w \<Rightarrow> 'w reply" where
  "updatePassword h dr r body w =
     (if rq_Method r \<noteq> ''POST'' then (w, Some (answer 405))
      else (case Verify_api (ih_Key h) (dr_Now dr) (Auth_Token r) of
        Inl e \<Rightarrow> (w, Some (answer 401))
      | Inr claims \<Rightarrow> (case body of
          Inl e \<Rightarrow> (w, Some (answer 400))
        | Inr (old, new, lo) \<Rightarrow> (case UpdatePassword (iam_users h dr) (ih_Bcrypt h) (ac_UserID claims) old new w of
            (w1, Inl e) \<Rightarrow> (w1, Some (answer (if errors_Is e P_user ErrValidation then 400 else 500)))
          | (w1, Inr _) \<Rightarrow> end_sessions h lo (ac_UserID claims) w1))))"

definition resetPassword ::
  "('w, 'k) iam \<Rightarrow> draw \<Rightarrow> request \<Rightarrow> (string \<times> string \<times> bool) res \<Rightarrow> 'w \<Rightarrow> 'w reply" where
  "resetPassword h dr r body w =
     (if rq_Method r \<noteq> ''POST'' then (w, Some (answer 405))
      else (case body of
        Inl e \<Rightarrow> (w, Some (answer 400))
      | Inr (emailToken, password, lo) \<Rightarrow> (case Verify_email (ih_Key h) (dr_Now dr) emailToken of
          Inl e \<Rightarrow> (w, Some (answer 401))
        | Inr claims \<Rightarrow> (case ResetPassword (iam_users h dr) (ih_Bcrypt h) (email_ident (ec_Address claims)) password w of
            (w1, Inl e) \<Rightarrow> (w1, Some (answer (if errors_Is e P_user ErrValidation then 400
               else if errors_Is e P_user ErrNotFound then 404 else 500)))
          | (w1, Inr usr) \<Rightarrow> end_sessions h lo (us_ID usr) w1))))"

text \<open>\<^verbatim>\<open>ServeHTTP\<close> answers 500 for a handler that panics; the world is what it left.\<close>

definition iam_ServeHTTP :: "('w \<Rightarrow> 'w reply) \<Rightarrow> 'w \<Rightarrow> 'w \<times> response" where
  "iam_ServeHTTP handle w = (case handle w of (w1, None) \<Rightarrow> (w1, answer 500) | (w1, Some rp) \<Rightarrow> (w1, rp))"

section \<open>What a login opens\<close>

text \<open>The account of \<^verbatim>\<open>GetOrCreate\<close> is stored and holds the identifier asked for.\<close>

lemma user_GetOrCreate_stored:
  assumes "mongo_laws m docs" and "user_GetOrCreate U m now request w = (w', Inr u)"
    and "us_Idents request = [i]"
  shows "\<exists>d \<in> set (docs w' user_collection). user_dec d = Inr u \<and> Ident_Normalized U i \<in> set (us_Idents u)"
    and "c \<noteq> user_collection \<Longrightarrow> docs w' c = docs w c"
proof -
  let ?f = "[FField ''idents'' (FElemOr (map ident_doc (map (Ident_Normalized U) (us_Idents request))))]"
  obtain r where r: "user_prepare U now request = Inr r"
    using assms(2) by (auto simp: user_GetOrCreate_def split: sum.splits)
  then have ri: "us_Idents r = map (Ident_Normalized U) (us_Idents request)"
    by (auto simp: user_prepare_def Let_def split: option.splits if_splits)
  obtain d' where d': "mg_findOneAndUpdate m user_collection ?f [USetOnInsert (user_enc r)] True w = (w', Inr d')"
    and dec: "user_dec d' = Inr u"
    using assms(2) r ri by (auto simp: user_GetOrCreate_def split: prod.splits sum.splits)
  have match: "matches ?f d \<longleftrightarrow> has_ident d (Ident_Normalized U i)" for d
    using FElemOr_idents [of "map (Ident_Normalized U) (us_Idents request)" d] assms(3) by simp
  note law = upsert_lawD [OF assms(1) _ d']
  show "c \<noteq> user_collection \<Longrightarrow> docs w' c = docs w c"
    using law(1) by simp
  consider (found) as d bs where "matches ?f d" "\<forall>k. bget d' k = bget (apply_update [] d) k"
      "docs w' user_collection = as @ d' # bs"
    | (new) "\<forall>k. bget d' k = bget (upserted ?f (user_enc r) []) k"
      "docs w' user_collection = docs w user_collection @ [d']"
    using law(3) [OF _ refl] by auto
  then show "\<exists>d \<in> set (docs w' user_collection). user_dec d = Inr u \<and> Ident_Normalized U i \<in> set (us_Idents u)"
  proof cases
    case found
    then have "user_dec d = Inr u"
      using dec user_dec_cong [of d' d] by simp
    with found match dec show ?thesis
      using has_ident_decoded by fastforce
  next
    case new
    then have "user_dec d' = user_dec (user_enc r)"
      by (intro user_dec_cong) (simp add: upserted_def)
    then have "u = r"
      using dec by (simp add: users.dec_enc)
    with new dec ri assms(3) show ?thesis
      by simp
  qed
qed

text \<open>What the response of a login shows, and what it leaves in the store.\<close>

definition logged_in :: "('w, 'k) iam \<Rightarrow> draw \<Rightarrow> ('w \<Rightarrow> string \<Rightarrow> bdoc list) \<Rightarrow> uuid \<Rightarrow> response \<Rightarrow> 'w \<Rightarrow> 'w \<Rightarrow> bool" where
  "logged_in h dr docs userID rp w w' \<longleftrightarrow> (\<exists>key t. NewKey (dr_Key dr) = Some key \<and>
     docs w' ''sessions'' = docs w ''sessions'' @
       [session_enc \<lparr>ses_Key = key, ses_Owner = userID, ses_CreatedAt = mongoNow (dr_Now dr)\<rparr>] \<and>
     (\<exists>c \<in> set (rp_Cookies rp). ck_Name c = sessionCookie \<and> ck_Value c = key \<and> ck_HttpOnly c \<and> ck_Secure c) \<and>
     SecretKey_Sign (ih_Key h) (api_claims_json (NewAPIClaims (dr_Now dr) userID AccountUser)) = Inr t \<and>
     rp_Token rp = Some (t, 900))"

lemma open_session_ok:
  assumes "mongo_laws (ih_Mongo h) docs" and "\<forall>w. docs (before w) = docs w"
    and "open_session h dr userID before w = (w', Some rp)" and "rp_Status rp = 200"
  shows "logged_in h dr docs userID rp w w' \<and> (\<forall>c. c \<noteq> ''sessions'' \<longrightarrow> docs w' c = docs w c)"
proof -
  obtain key where k: "NewKey (dr_Key dr) = Some key"
    using assms(3) by (auto simp: open_session_def split: option.splits)
  let ?s = "\<lparr>ses_Key = key, ses_Owner = userID, ses_CreatedAt = time_zero\<rparr>"
  obtain w1 x where c: "session_Create (ih_Mongo h) (dr_Now dr) [?s] w = (w1, x)"
    by fastforce
  then show ?thesis
    unfolding session_Create_def
  proof (cases rule: create_batch_cases)
    case (created rs)
    then have rs: "rs = [?s\<lparr>ses_CreatedAt := mongoNow (dr_Now dr)\<rparr>]"
      by (auto split: option.splits sum.splits)
    obtain t where t: "SecretKey_Sign (ih_Key h) (api_claims_json (NewAPIClaims (dr_Now dr) userID AccountUser)) = Inr t"
      and w': "w' = before w1" and rp: "rp = (SetSession (ih_Domain h) key (ResetGuestToken (answer 200)))
        \<lparr>rp_Token := token_body (NewAPIClaims (dr_Now dr) userID AccountUser) t\<rparr>"
      using assms(3,4) k c created(2) rs by (auto simp: open_session_def answer_def Let_def split: sum.splits)
    have "docs w' ''sessions'' = docs w ''sessions'' @ map session_enc rs"
      using insert_lawD(3) [OF assms(1) created(3)] assms(2) w' by simp
    moreover have "docs w' c = docs w c" if "c \<noteq> ''sessions''" for c
      using insert_lawD(1) [OF assms(1) created(3) that] assms(2) w' by simp
    ultimately show ?thesis
      using k t rs rp by (simp add: logged_in_def cookie_defs answer_def token_body_def APIClaims_ExpiresIn_def
          apiExpire_def duration_defs)
  qed (use assms(3,4) k c in \<open>auto simp: open_session_def answer_def\<close>)
qed

text \<open>
  C20: A login by an e-mail token opens one session, of the stored account that holds the address
  the token proves; the response sets that session's key as its cookie and carries an access
  token for the same account.
\<close>

theorem email_login_own_session:
  assumes "mongo_laws (ih_Mongo h) docs"
    and "createSessionByEmail h dr r body w = (w', Some rp)" and "rp_Status rp = 200"
  shows "\<exists>token c u. body = Inr token \<and> Verify_email (ih_Key h) (dr_Now dr) token = Inr c \<and>
    (\<exists>d \<in> set (docs w' user_collection). user_dec d = Inr u) \<and>
    Ident_Normalized (ih_Unicode h) (email_ident (ec_Address c)) \<in> set (us_Idents u) \<and>
    logged_in h dr docs (us_ID u) rp w w'"
proof -
  obtain token c where t: "body = Inr token" "Verify_email (ih_Key h) (dr_Now dr) token = Inr c"
    using assms(2,3) by (auto simp: createSessionByEmail_def answer_def split: if_splits sum.splits)
  let ?req = "user_zero\<lparr>us_Idents := [email_ident (ec_Address c)], us_ID := dr_UUID dr\<rparr>"
  obtain w1 u where g: "user_GetOrCreate (ih_Unicode h) (ih_Mongo h) (dr_Now dr) ?req w = (w1, Inr u)"
    and o: "open_session h dr (us_ID u) id w1 = (w', Some rp)"
    using assms(2,3) t by (auto simp: createSessionByEmail_def answer_def GetOrCreate_def user_mongo_repo_def
        split: if_splits sum.splits prod.splits)
  note ok = open_session_ok [OF assms(1) _ o assms(3), simplified]
  have "''sessions'' \<noteq> user_collection"
    by (simp add: user_collection_def)
  with user_GetOrCreate_stored [OF assms(1) g, of "email_ident (ec_Address c)"] ok t show ?thesis
    by (auto simp: logged_in_def)
qed

text \<open>
  C21: A login by address and password opens one session, of a stored account that holds the
  address and whose hash bcrypt accepts for the password.
\<close>

theorem credentials_login_own_session:
  assumes "mongo_laws (ih_Mongo h) docs"
    and "createSessionByCredentials h dr r body w = (w', Some rp)" and "rp_Status rp = 200"
  shows "\<exists>address password u. body = Inr (address, password) \<and>
    (\<exists>d \<in> set (docs w' user_collection). user_dec d = Inr u) \<and>
    Ident_Normalized (ih_Unicode h) (email_ident address) \<in> set (us_Idents u) \<and>
    bc_CompareHashAndPassword (ih_Bcrypt h) (us_PasswordHash u) password = None \<and>
    logged_in h dr docs (us_ID u) rp w w'"
proof -
  obtain address password where b: "body = Inr (address, password)"
    using assms(2,3) by (auto simp: createSessionByCredentials_def answer_def split: if_splits sum.splits)
  let ?l = "user_lookup_zero\<lparr>ul_Idents := [email_ident address]\<rparr>" and ?U = "ih_Unicode h"
  obtain w1 u where c: "CheckPassword (iam_users h dr) (ih_Bcrypt h) (email_ident address) password w = (w1, Inr u)"
    and o: "open_session h dr (us_ID u) id w1 = (w', Some rp)"
    using assms(2,3) b by (auto simp: createSessionByCredentials_def answer_def
        split: if_splits sum.splits prod.splits)
  have f: "find_decoded (ih_Mongo h) user_collection user_dec (user_mongoFilter ?U ?l) [] (ul_Limit ?l) w = (w1, Inr [u])"
    and pw: "bc_CompareHashAndPassword (ih_Bcrypt h) (us_PasswordHash u) password = None"
    using c by (auto simp: CheckPassword_def user_mongo_repo_def user_FetchOne_def fetch_one_Inr
        user_Fetch_def Password_Check_def split: prod.splits sum.splits bool.splits option.splits if_splits)
  obtain ds where "mg_find (ih_Mongo h) user_collection (user_mongoFilter ?U ?l) [] (ul_Limit ?l) w = (w1, Inr ds)"
    using f by (rule find_decoded_Inr)
  then have d1: "docs w1 = docs w"
    using find_lawD(1) [OF assms(1)] by metis
  obtain d where d: "d \<in> set (docs w user_collection)" "has_ident d (Ident_Normalized ?U (email_ident address))"
    "user_dec d = Inr u"
    using find_decoded_member [OF assms(1) f, of u] user_filter_one(1) by auto
  have "docs w' user_collection = docs w user_collection" "logged_in h dr docs (us_ID u) rp w w'"
    using open_session_ok [OF assms(1) _ o assms(3)] d1 by (simp_all add: user_collection_def logged_in_def)
  with b pw d has_ident_decoded show ?thesis
    by metis
qed

section \<open>Tokens and logout\<close>

lemma fetchToken_sources:
  assumes "mongo_laws (ih_Mongo h) docs"
    and "fetchToken h dr r w = (w', Some rp)" and "rp_Token rp = Some (t, n)"
  shows "n = 900 \<and>
    ((\<exists>d \<in> set (docs w ''sessions''). \<exists>s. session_dec d = Inr s \<and> ses_Key s = Auth_Session r \<and> Auth_Session r \<noteq> '''' \<and>
        SecretKey_Sign (ih_Key h) (api_claims_json (NewAPIClaims (dr_Now dr) (ses_Owner s) AccountUser)) = Inr t) \<or>
     t = Auth_GuestToken r \<and> is_ok (Verify_api (ih_Key h) (dr_Now dr) t) \<and> rp_Cookies rp = [] \<or>
     SecretKey_Sign (ih_Key h) (api_claims_json (NewAPIClaims (dr_Now dr) (dr_UUID dr) AccountGuest)) = Inr t \<and>
       map (\<lambda>c. (ck_Name c, ck_Value c)) (rp_Cookies rp) = [(guestCookie, t)])"
proof -
  let ?l = "\<lparr>sl_Key = Auth_Session r, sl_Owner = uuid_Nil, sl_Limit = 0\<rparr>"
  obtain w1 x where f: "session_FetchOne (ih_Mongo h) ?l w = (w1, x)"
    by fastforce
  have get: "rq_Method r = ''GET''"
    using assms(2,3) by (auto simp: fetchToken_def answer_def split: if_splits)
  show ?thesis
  proof (cases x)
    case (Inl e)
    with f get assms(2,3) show ?thesis
      by (auto simp: fetchToken_def answer_def token_body_def APIClaims_ExpiresIn_def apiExpire_def duration_defs
          cookie_defs Let_def split: sum.splits)
  next
    case (Inr s)
    with f have v: "session_Lookup_Validate ?l = None"
      and fd: "find_decoded (ih_Mongo h) ''sessions'' session_dec (session_filter ?l) []
        (clamp_limit session_batchLimit (sl_Limit ?l)) w = (w1, Inr [s])"
      by (auto simp: session_FetchOne_def session_Fetch_def fetch_one_Inr split: option.splits)
    from find_decoded_member [OF assms(1) fd] obtain d where d: "d \<in> set (docs w ''sessions'')"
      "matches (session_filter ?l) d" "session_dec d = Inr s"
      by auto
    have "Auth_Session r \<noteq> ''''"
      using v by (auto simp: session_Lookup_Validate_def)
    moreover have "ses_Key s = Auth_Session r"
      using d(2,3) calculation session_dec_fields(1) by (auto simp: session_filter_matches)
    ultimately show ?thesis
      using f get Inr assms(2,3) d(1,3)
      by (auto simp: fetchToken_def answer_def token_body_def APIClaims_ExpiresIn_def apiExpire_def duration_defs
          Let_def split: sum.splits)
  qed
qed

text \<open>
  C18: \<^verbatim>\<open>/token\<close> hands out an access token for an account only on the session cookie of a stored
  session of that account; every other token is the guest cookie's, if it verifies, or a new
  one of a new guest, which is also set as the cookie.
\<close>

theorem token_needs_session:
  assumes "mongo_laws (ih_Mongo h) docs"
    and "fetchToken h dr r w = (w', Some rp)" and "rp_Token rp = Some (t, n)"
  shows "n = 900 \<and>
    ((\<exists>d \<in> set (docs w ''sessions''). \<exists>s. session_dec d = Inr s \<and> ses_Key s = Auth_Session r \<and> Auth_Session r \<noteq> '''' \<and>
        SecretKey_Sign (ih_Key h) (api_claims_json (NewAPIClaims (dr_Now dr) (ses_Owner s) AccountUser)) = Inr t) \<or>
     t = Auth_GuestToken r \<and> is_ok (Verify_api (ih_Key h) (dr_Now dr) t) \<and> rp_Cookies rp = [] \<or>
     SecretKey_Sign (ih_Key h) (api_claims_json (NewAPIClaims (dr_Now dr) (dr_UUID dr) AccountGuest)) = Inr t \<and>
       map (\<lambda>c. (ck_Name c, ck_Value c)) (rp_Cookies rp) = [(guestCookie, t)])"
  by (rule fetchToken_sources [OF assms])

text \<open>
  A logout answered with 200 ends the session of the cookie and no other; without a session
  cookie, which anybody can leave out, it ends every session of every user.
\<close>

theorem logout_without_cookie:
  assumes "mongo_laws (ih_Mongo h) docs"
    and "logout h r w = (w', Some rp)" and "rp_Status rp = 200"
  shows "docs w' ''sessions'' = (if Auth_Session r = '''' then []
      else filter (\<lambda>d. bget d ''_id'' \<noteq> Some (BStr (Auth_Session r))) (docs w ''sessions''))"
proof -
  obtain n where d: "session_Delete (ih_Mongo h) \<lparr>sl_Key = Auth_Session r, sl_Owner = uuid_Nil, sl_Limit = 0\<rparr> w = (w', Inr n)"
    using assms(2,3) by (auto simp: logout_def answer_def split: if_splits sum.splits prod.splits)
  show ?thesis
    using delete_lawD(3) [OF assms(1) d [unfolded session_Delete_def] refl] by (auto simp: session_filter_matches)
qed

section \<open>Passwords\<close>

lemma set_password_keeps:
  assumes "mongo_laws m docs" and "\<forall>p c v. docs (fst (bc_GenerateFromPassword b p c v)) = docs v"
    and "set_password (user_mongo_repo U m t now) b wo ident password w = (w', r)"
    and "d \<in> set (docs w user_collection)" and "\<not> has_ident d (Ident_Normalized U ident)"
  shows "d \<in> set (docs w' user_collection)"
proof -
  let ?l = "user_lookup_zero\<lparr>ul_Idents := [ident], ul_WithoutPassword := wo\<rparr>"
  have nomatch: "\<not> matches (user_mongoFilter U ?l) d"
    using assms(5) user_filter_one(1,2) [of U ident d] by (cases wo) (simp_all add: user_lookup_zero_def)
  have upd: "d \<in> set (docs v' user_collection)"
    if "user_UpdateOne U m ?l req v = (v', r')" "docs v = docs w" for v v' r' req
    using user_UpdateOne_keeps [OF assms(1) that(1) _ nomatch] that(2) assms(4) by simp
  obtain v hr where v: "Password_Hash b password w = (v, hr)"
    by fastforce
  with assms(2) have "docs v = docs w"
    unfolding Password_Hash_def by (metis fst_conv)
  with v assms(3,4) upd show ?thesis
    by (auto simp: set_password_def user_mongo_repo_def split: option.splits sum.splits prod.splits)
qed

text \<open>
  C22: \<^verbatim>\<open>/password-create\<close> and \<^verbatim>\<open>/password-reset\<close> change no account but one that holds the address
  the e-mail token proves: every other account is stored as before.
\<close>

theorem password_needs_address:
  assumes "mongo_laws (ih_Mongo h) docs"
    and "\<forall>p c v. docs (fst (bc_GenerateFromPassword (ih_Bcrypt h) p c v)) = docs v"
    and "createPassword h dr r (Inr (token, password)) w = (w1, x1)"
    and "resetPassword h dr r' (Inr (token, password', lo)) w = (w2, x2)"
    and "d \<in> set (docs w user_collection)"
    and "\<not> (\<exists>c. Verify_email (ih_Key h) (dr_Now dr) token = Inr c \<and>
      has_ident d (Ident_Normalized (ih_Unicode h) (email_ident (ec_Address c))))"
  shows "d \<in> set (docs w1 user_collection) \<and> d \<in> set (docs w2 user_collection)"
proof (cases "Verify_email (ih_Key h) (dr_Now dr) token")
  case (Inl e)
  with assms(3-5) show ?thesis
    by (auto simp: createPassword_def resetPassword_def split: if_splits)
next
  case (Inr c)
  then have no: "\<not> has_ident d (Ident_Normalized (ih_Unicode h) (email_ident (ec_Address c)))"
    using assms(6) by simp
  have keep: "d \<in> set (docs v user_collection)"
    if "set_password (iam_users h dr) (ih_Bcrypt h) wo (email_ident (ec_Address c)) pw w = (v, y)" for wo pw v y
    using set_password_keeps [OF assms(1,2) that assms(5) no] .
  have ended: "docs v' user_collection = docs v user_collection" if "end_sessions h lo u v = (v', y)" for u v v' y
  proof -
    obtain v2 z where d: "session_Delete (ih_Mongo h) \<lparr>sl_Key = '''', sl_Owner = u, sl_Limit = 0\<rparr> v = (v2, z)"
      by fastforce
    have "docs v2 user_collection = docs v user_collection"
      using delete_lawD(1) [OF assms(1) d [unfolded session_Delete_def], of user_collection]
      by (simp add: user_collection_def)
    with d that show ?thesis
      by (auto simp: end_sessions_def split: if_splits sum.splits)
  qed
  obtain v y where c: "set_password (iam_users h dr) (ih_Bcrypt h) True (email_ident (ec_Address c)) password w = (v, y)"
    by fastforce
  obtain v' y' where s: "set_password (iam_users h dr) (ih_Bcrypt h) False (email_ident (ec_Address c)) password' w = (v', y')"
    by fastforce
  have "w1 = w \<or> w1 = v"
    using assms(3) Inr c by (auto simp: createPassword_def CreatePassword_def split: if_splits sum.splits)
  moreover have "w2 = w \<or> w2 = v' \<or> (\<exists>u x. end_sessions h lo u v' = (w2, x))"
    using assms(4) Inr s by (auto simp: resetPassword_def ResetPassword_def split: if_splits sum.splits)
  ultimately show ?thesis
    using keep [OF c] keep [OF s] ended assms(5) by auto
qed

section \<open>The resolver\<close>

record api_user =
  au_ID :: string
  au_Identifiers :: "(string \<times> string) list"
  au_HasPassword :: bool

text \<open>\<^verbatim>\<open>strings.ToUpper\<close>; the platforms are ASCII.\<close>

definition upper_char :: "char \<Rightarrow> char" where
  "upper_char c = (let n = (of_char c :: nat) in if 97 \<le> n \<and> n \<le> 122 then char_of (n - 32) else c)"

definition iam_Resolver_User :: "('w, 'k) iam \<Rightarrow> time \<Rightarrow> request \<Rightarrow> 'w \<Rightarrow> 'w \<times> api_user gql" where
  "iam_Resolver_User h now r w = (case Verify_api (ih_Key h) now (HTTPContext_Token r) of
      Inl e \<Rightarrow> (w, Inl (NewResolverError CodeUnauthorized ''Invalid access token.''))
    | Inr claims \<Rightarrow> (case user_FetchOne (ih_Unicode h) (ih_Mongo h) (user_lookup_zero\<lparr>ul_ID := ac_UserID claims\<rparr>) w of
        (w1, Inl e) \<Rightarrow> (w1, Inl (if errors_Is e P_user ErrNotFound
           then NewResolverError CodeNotFound ''User does not exist.'' else NewInternalError))
      | (w1, Inr usr) \<Rightarrow> (w1, Inr \<lparr>au_ID = uuid_String (us_ID usr),
          au_Identifiers = map (\<lambda>i. (map upper_char (id_Platform i), id_Value i)) (us_Idents usr),
          au_HasPassword = (length (us_PasswordHash usr) \<noteq> 0)\<rparr>)))"

section \<open>Runs\<close>

text \<open>A key whose only token is \<open>mail\<close>, for the claims given; it signs everything as \<open>access\<close>.\<close>

definition one_token :: "jobj \<Rightarrow> jwt" where
  "one_token d = \<lparr>jw_Sign = (\<lambda>_. Inr ''access''), jw_Parse = (\<lambda>t. if t = ''mail'' then Inr d else Inl (Foreign 1))\<rparr>"

definition mail_claims :: email_claims where
  "mail_claims = NewEmailClaims 5 1000000000 ''a@b''"

definition demo_iam :: "(mem, unit) iam" where
  "demo_iam = \<lparr>ih_SendTube = ''send'', ih_UpdateAvatarTube = ''avatar'', ih_Domain = ''confa.io'',
     ih_Key = one_token (email_claims_json mail_claims), ih_Login = Pages_Login ''https'' ''confa.io'',
     ih_Mongo = mem_mongo, ih_Unicode = ascii_unicode, ih_Txn = toy_txn, ih_Bcrypt = toy_bcrypt,
     ih_Proto = toy_proto (\<lambda>_ _. Inl (Foreign 4)), ih_Producer = quiet_queue,
     ih_Google = \<lparr>gs_Parse = (\<lambda>_ _. Inl (Foreign 1)), gs_KID = (\<lambda>_. Inl (Foreign 1)),
       gs_Get = (\<lambda>w. (w, Inl (Foreign 1))), gs_ParseKey = (\<lambda>_. Inl (Foreign 1)), gs_ClientID = ''''\<rparr>\<rparr>"

definition demo_draw :: draw where
  "demo_draw = \<lparr>dr_Now = 1000000000, dr_UUID = 9, dr_Key = Inr (replicate 96 7), dr_Trace = ''t''\<rparr>"

definition post :: "(string \<times> string) list \<Rightarrow> request" where
  "post cookies = \<lparr>rq_Method = ''POST'', rq_Authorization = '''', rq_Cookies = cookies, rq_T = None\<rparr>"

text \<open>The user \<open>ann\<close> holds the address \<open>a@b\<close> and the password \<open>sesame street\<close>.\<close>

definition web_user :: user where
  "web_user = \<lparr>us_ID = 7, us_CreatedAt = 0, us_Idents = [\<lparr>id_Platform = ''email'', id_Value = ''a@b''\<rparr>],
     us_PasswordHash = 12 # map of_char ''sesame street''\<rparr>"

definition web_mem :: mem where
  "web_mem = (\<lambda>_. [])(''users'' := [user_enc web_user],
     ''sessions'' := map session_enc [\<lparr>ses_Key = ''k1'', ses_Owner = 7, ses_CreatedAt = 5\<rparr>,
       \<lparr>ses_Key = ''k2'', ses_Owner = 8, ses_CreatedAt = 6\<rparr>])"

lemma mail_token_valid: "Verify_email (ih_Key demo_iam) 1000000000 ''mail'' = Inr mail_claims"
proof -
  have "MatchString emailPattern ''a@b''"
    by code_simp
  then show ?thesis
    by (simp add: demo_iam_def one_token_def Verify_email_def PublicKey_Verify_def mail_claims_def NewEmailClaims_def
        EmailClaims_Valid_def StandardClaims_Valid_def expires_def email_Validate_def Unix_def emailExpire_def Hour_def)
qed

lemma demo_key: "NewKey (dr_Key demo_draw) = Some (b64_Encode (replicate 96 7))" "b64_Encode (replicate 96 7) \<noteq> ''''"
  using b64_Encode_length [of "replicate 96 7" 32] by (auto simp: demo_draw_def NewKey_def)

lemma demo_open_session:
  "\<exists>w' rp. open_session demo_iam demo_draw 7 id w = (w', Some rp) \<and> rp_Status rp = 200"
  using demo_key by (simp add: open_session_def session_Create_def create_batch_def demo_iam_def mem_mongo_def
      session_Validate_def session_batchLimit_def one_token_def SecretKey_Sign_def Let_def cookie_defs answer_def uuid_Nil_def)

theorem logout_without_cookie_witness:
  "\<exists>w' rp. logout demo_iam (post []) web_mem = (w', Some rp) \<and> rp_Status rp = 200 \<and> w' ''sessions'' = []"
proof -
  obtain w' rp where l: "logout demo_iam (post []) web_mem = (w', Some rp)" "rp_Status rp = 200"
    by (simp add: logout_def post_def demo_iam_def session_Delete_def mem_mongo_def cookie_defs answer_def)
  have "mongo_laws (ih_Mongo demo_iam) (\<lambda>w. w)"
    by (simp add: demo_iam_def mem_mongo_laws)
  from logout_without_cookie [OF this l] have "w' ''sessions'' = []"
    by (simp add: Auth_Session_def cookie_value_def post_def)
  with l show ?thesis
    by blast
qed

lemma demo_laws: "mongo_laws (ih_Mongo demo_iam) (\<lambda>w. w)"
  by (simp add: demo_iam_def mem_mongo_laws)

lemma demo_ident:
  "Ident_Normalized ascii_unicode (email_ident ''a@b'') = email_ident ''a@b''"
  "Ident_Validate (email_ident ''a@b'') = None"
  by code_simp+

theorem credentials_login_own_session_witness:
  "\<exists>w' rp key. createSessionByCredentials demo_iam demo_draw (post []) (Inr (''a@b'', ''sesame street'')) web_mem =
     (w', Some rp) \<and> w' ''sessions'' = web_mem ''sessions'' @
       [session_enc \<lparr>ses_Key = key, ses_Owner = 7, ses_CreatedAt = mongoNow 1000000000\<rparr>]"
proof -
  have "CheckPassword (iam_users demo_iam demo_draw) (ih_Bcrypt demo_iam) (email_ident ''a@b'') ''sesame street'' web_mem =
      (web_mem, Inr web_user)"
    using demo_ident by (simp add: CheckPassword_def demo_iam_def web_mem_def web_user_def user_run_defs Password_Check_def
        toy_bcrypt_def PlatformEmail_def)
  then obtain w' rp where run: "createSessionByCredentials demo_iam demo_draw (post []) (Inr (''a@b'', ''sesame street''))
      web_mem = (w', Some rp)" "rp_Status rp = 200"
    using demo_open_session [of web_mem] by (auto simp: createSessionByCredentials_def post_def web_user_def)
  from credentials_login_own_session [OF demo_laws run] obtain u where u:
    "\<exists>d \<in> set (w' user_collection). user_dec d = Inr u" "logged_in demo_iam demo_draw (\<lambda>w. w) (us_ID u) rp web_mem w'"
    by blast
  have "w' user_collection = [user_enc web_user]"
  proof -
    have "open_session demo_iam demo_draw 7 id web_mem = (w', Some rp)"
      using run \<open>CheckPassword _ _ _ _ _ = _\<close> by (simp add: createSessionByCredentials_def post_def web_user_def)
    from open_session_ok [OF demo_laws _ this run(2)] show ?thesis
      by (simp add: user_collection_def web_mem_def)
  qed
  with u(1) have "us_ID u = us_ID web_user"
    by (auto simp: users.dec_enc)
  then have "us_ID u = 7"
    by (simp add: web_user_def)
  with u(2) run(1) show ?thesis
    by (auto simp: logged_in_def demo_draw_def)
qed

theorem email_login_own_session_witness:
  "\<exists>w' rp (u :: user). createSessionByEmail demo_iam demo_draw (post []) (Inr ''mail'') web_mem = (w', Some rp) \<and>
     email_ident ''a@b'' \<in> set (us_Idents u) \<and> logged_in demo_iam demo_draw (\<lambda>w. w) (us_ID u) rp web_mem w'"
proof -
  have "\<exists>w1. user_GetOrCreate ascii_unicode mem_mongo 1000000000
      (user_zero\<lparr>us_Idents := [email_ident ''a@b''], us_ID := 9\<rparr>) web_mem = (w1, Inr web_user)"
    using demo_ident by (simp add: user_GetOrCreate_def user_prepare_def User_Validate_def user_zero_def
        web_mem_def web_user_def user_run_defs PlatformEmail_def)
  then obtain w1 where "user_GetOrCreate ascii_unicode mem_mongo 1000000000
      (user_zero\<lparr>us_Idents := [email_ident ''a@b''], us_ID := 9\<rparr>) web_mem = (w1, Inr web_user)"
    by blast
  then have g: "GetOrCreate (iam_users demo_iam demo_draw) (dr_UUID demo_draw)
      (user_zero\<lparr>us_Idents := [email_ident (ec_Address mail_claims)]\<rparr>) web_mem = (w1, Inr web_user)"
    by (simp add: GetOrCreate_def user_mongo_repo_def demo_iam_def demo_draw_def mail_claims_def NewEmailClaims_def)
  have v: "Verify_email (ih_Key demo_iam) (dr_Now demo_draw) ''mail'' = Inr mail_claims"
    using mail_token_valid by (simp add: demo_draw_def)
  obtain w' rp where run: "createSessionByEmail demo_iam demo_draw (post []) (Inr ''mail'') web_mem = (w', Some rp)"
    "rp_Status rp = 200"
    using demo_open_session [of w1] g v by (auto simp: createSessionByEmail_def post_def web_user_def)
  have a: "ec_Address mail_claims = ''a@b''" "ih_Unicode demo_iam = ascii_unicode"
    by (simp_all add: mail_claims_def NewEmailClaims_def demo_iam_def)
  obtain u :: user where "Ident_Normalized (ih_Unicode demo_iam) (email_ident (ec_Address mail_claims)) \<in> set (us_Idents u)"
    "logged_in demo_iam demo_draw (\<lambda>w. w) (us_ID u) rp web_mem w'"
    using email_login_own_session [OF demo_laws run] v by auto
  with run(1) show ?thesis
    unfolding a demo_ident(1) by blast
qed

theorem token_needs_session_witness:
  "\<exists>w' rp t. fetchToken demo_iam demo_draw ((post [(''session'', ''k1'')])\<lparr>rq_Method := ''GET''\<rparr>) web_mem = (w', Some rp) \<and>
     rp_Token rp = Some (t, 900)"
proof -
  let ?r = "(post [(''session'', ''k1'')])\<lparr>rq_Method := ''GET''\<rparr>"
  have key: "Auth_Session ?r = ''k1''"
    by (simp add: Auth_Session_def cookie_value_def post_def sessionCookie_def)
  have f: "session_FetchOne mem_mongo \<lparr>sl_Key = ''k1'', sl_Owner = uuid_Nil, sl_Limit = 0\<rparr> web_mem =
      (web_mem, Inr \<lparr>ses_Key = ''k1'', ses_Owner = 7, ses_CreatedAt = 5\<rparr>)"
    by (simp add: session_FetchOne_def session_Fetch_def session_Lookup_Validate_def mem_mongo_def
        web_mem_def session_filter_def session_enc_def bget_def clamp_limit_def
        session_batchLimit_def take_limit_def exactly_one_def session_dec_def dec_defs
        fetch_one_def find_decoded_def)
  obtain w' rp t n where run: "fetchToken demo_iam demo_draw ?r web_mem = (w', Some rp)" "rp_Token rp = Some (t, n)"
    using f key by (simp add: fetchToken_def post_def demo_iam_def one_token_def SecretKey_Sign_def Let_def token_body_def)
  from token_needs_session [OF demo_laws run] run show ?thesis
    by blast
qed

theorem password_needs_address_witness:
  "user_enc octo \<in> set (fst (createPassword demo_iam demo_draw (post []) (Inr (''mail'', ''open sesame!''))
     (web_mem(user_collection := [user_enc web_user, user_enc octo]))) user_collection)"
proof -
  let ?w = "web_mem(user_collection := [user_enc web_user, user_enc octo])"
  have hash: "\<forall>p c v. fst (bc_GenerateFromPassword (ih_Bcrypt demo_iam) p c v) = v"
    using toy_bcrypt_docs by (simp add: demo_iam_def)
  have "\<not> has_ident (user_enc octo) (email_ident ''a@b'')"
    by (simp add: has_ident_def user_enc_def octo_def bget_def elem_matches_def ident_doc_def platform_defs)
  then have "\<not> (\<exists>c. Verify_email (ih_Key demo_iam) (dr_Now demo_draw) ''mail'' = Inr c \<and>
      has_ident (user_enc octo) (Ident_Normalized (ih_Unicode demo_iam) (email_ident (ec_Address c))))"
    using mail_token_valid demo_ident(1) by (simp add: demo_draw_def demo_iam_def mail_claims_def NewEmailClaims_def)
  from password_needs_address [OF demo_laws hash prod.collapse [symmetric] prod.collapse [symmetric] _ this,
      where w = ?w] show ?thesis
    by simp
qed

end
