(* ===== verification/Listing.thy ===== *)
theory Listing
  imports Auth Confa
begin

text \<open>
  What the listings of the GraphQL services share (\<^verbatim>\<open>cmd/confa/web/graph.go\<close> and
  \<^verbatim>\<open>cmd/rtc/web/graph.go\<close>): the page with its cursor, the reading of a cursor, and the client
  that follows the cursors.  The lemma of the walk says what the resolver has to provide for
  such a client to end and to see everything once.
\<close>

text \<open>\<^verbatim>\<open>ConfaCursor\<close> and \<^verbatim>\<open>TalkCursor\<close>; a listing is \<^verbatim>\<open>Confas\<close> or \<^verbatim>\<open>Talks\<close>.\<close>

record api_cursor =
  xu_ID :: "string option"
  xu_CreatedAt :: "string option"
  xu_Asc :: "bool option"

record ('x, 'c) listing =
  ls_Items :: "'x list"
  ls_Limit :: int
  ls_Next :: "'c option"

text \<open>An optional identifier; and the cursor, where an id that does not parse is ignored.\<close>

definition parse_opt :: "string option \<Rightarrow> uuid res" where
  "parse_opt s = (case s of None \<Rightarrow> Inr uuid_Nil | Some x \<Rightarrow> uuid_Parse x)"

definition parse_cursor :: "api_cursor option \<Rightarrow> (from_cursor \<times> bool) res" where
  "parse_cursor cursor = (case cursor of
      None \<Rightarrow> Inr (from_zero, False)
    | Some c \<Rightarrow> (case (case xu_CreatedAt c of None \<Rightarrow> Inr time_zero
          | Some s \<Rightarrow> (case ParseInt64 s of Inl e \<Rightarrow> Inl e | Inr ms \<Rightarrow> Inr (of_UnixMilli ms))) of
        Inl e \<Rightarrow> Inl (New ''Invalid cursor.createdAt'')
      | Inr t \<Rightarrow> Inr (\<lparr>fr_ID = (case xu_ID c of None \<Rightarrow> uuid_Nil
            | Some s \<Rightarrow> (case uuid_Parse s of Inl e \<Rightarrow> uuid_Nil | Inr i \<Rightarrow> i)), fr_CreatedAt = t\<rparr>,
          xu_Asc c = Some True)))"

definition opt_text :: "string option \<Rightarrow> string" where
  "opt_text s = (case s of None \<Rightarrow> '''' | Some x \<Rightarrow> x)"

text \<open>
  A client that follows the cursors: it asks again with the next cursor, \<open>again\<close> adds what
  the cursor does not carry, until there is none; \<open>None\<close> is fuel that ran out.
\<close>

fun api_walk ::
  "nat \<Rightarrow> ('c option \<Rightarrow> 'w \<Rightarrow> 'w \<times> ('x, 'c) listing gql) \<Rightarrow> ('c \<Rightarrow> 'c) \<Rightarrow> 'c option \<Rightarrow> 'w \<Rightarrow> 'x list list gql option" where
  "api_walk 0 fetch again cur w = None"
| "api_walk (Suc n) fetch again cur w = (case fetch cur w of
      (w', Inl e) \<Rightarrow> Some (Inl e)
    | (w', Inr page) \<Rightarrow> (case ls_Next page of
        None \<Rightarrow> Some (Inr [ls_Items page])
      | Some c \<Rightarrow> map_option (map_sum id ((#) (ls_Items page))) (api_walk n fetch again (Some (again c)) w')))"

lemma api_walk_rest:
  assumes fetch: "\<And>k cur v. P v \<Longrightarrow> K k cur \<Longrightarrow>
      (case fetch cur v of
        (v', Inl e) \<Rightarrow> Q e
      | (v', Inr page) \<Rightarrow> (let ys = take l (selected asc key k all) in
          P v' \<and> ls_Items page = map f ys \<and>
          (case ls_Next page of None \<Rightarrow> length ys < l | Some c \<Rightarrow> ys \<noteq> [] \<and> K (key (last ys)) (Some (again c)))))"
    and all: "sorted_wrt (\<lambda>a b. key_less asc (key a) (key b)) all" "\<forall>x \<in> set all. key x \<noteq> zero_key"
    and l: "0 < l"
    and w: "P w" "K k cur" "length rest < n"
    and rest: "selected asc key k all = rest" "\<exists>as. all = as @ rest"
  shows "\<exists>r. api_walk n fetch again cur w = Some r \<and>
    (case r of Inl e \<Rightarrow> Q e | Inr ps \<Rightarrow> concat ps = map f rest)"
  using w rest
proof (induction n arbitrary: k cur w rest)
  case (Suc n)
  obtain w' x where f: "fetch cur w = (w', x)"
    by fastforce
  note step = fetch [OF Suc.prems(1,2), unfolded f]
  show ?case
  proof (cases x)
    case (Inl e)
    with step f show ?thesis by simp
  next
    case (Inr page)
    let ?ys = "take l rest"
    have P: "P w'" and items: "ls_Items page = map f ?ys"
      and nxt: "case ls_Next page of None \<Rightarrow> length ?ys < l | Some c \<Rightarrow> ?ys \<noteq> [] \<and> K (key (last ?ys)) (Some (again c))"
      using step Inr Suc.prems(4) by (simp_all add: Let_def)
    show ?thesis
    proof (cases "ls_Next page")
      case None
      with nxt have "?ys = rest" by simp
      with None f Inr items show ?thesis by simp
    next
      case (Some c)
      with nxt have ne: "?ys \<noteq> []" and K: "K (key (last ?ys)) (Some (again c))"
        by simp_all
      obtain as where as: "all = as @ rest"
        using Suc.prems(5) by blast
      have split: "all = (as @ butlast ?ys) @ last ?ys # drop l rest"
        using as ne append_take_drop_id [of l rest]
        by (metis append.assoc append_Cons append_Nil append_butlast_last_id)
      then have "selected asc key (key (last ?ys)) all = drop l rest"
        using selected_append_sorted [of asc key "as @ butlast ?ys" "last ?ys" "drop l rest"] all
        by simp
      moreover have "\<exists>as'. all = as' @ drop l rest"
        using split by (metis append.assoc append_Cons append_Nil)
      moreover have "length (drop l rest) < n"
        using Suc.prems(3) ne l by (cases rest) auto
      ultimately obtain r where r: "api_walk n fetch again (Some (again c)) w' = Some r"
        "case r of Inl e \<Rightarrow> Q e | Inr ps \<Rightarrow> concat ps = map f (drop l rest)"
        using Suc.IH [OF P K] by blast
      have "map f ?ys @ map f (drop l rest) = map f rest"
        by (metis append_take_drop_id map_append)
      with r f Inr Some items show ?thesis
        by (auto split: sum.splits)
    qed
  qed
qed simp

text \<open>The cursor of a page reads back as the key of its last document.\<close>

definition api_time :: "time \<Rightarrow> bool" where
  "api_time t \<longleftrightarrow> t = of_UnixMilli (UnixMilli t) \<and> - (2 ^ 63) \<le> UnixMilli t \<and> UnixMilli t < 2 ^ 63"

lemma parse_next:
  assumes "api_time t"
  shows "parse_cursor (Some \<lparr>xu_ID = Some (uuid_String i), xu_CreatedAt = Some (Sprint_int (UnixMilli t)), xu_Asc = Some asc\<rparr>)
    = Inr (from_key (t, i), asc)"
  using assms by (simp add: parse_cursor_def from_key_def api_time_def)

end
