(* ===== verification/Confa_Web.thy ===== *)
theory Confa_Web
  imports Listing Talk Profile Session
begin

text \<open>
  The GraphQL resolvers of the confa service: \<^verbatim>\<open>services/cmd/confa/web/graph.go\<close>.  A resolver
  takes the request (for its token), its arguments, the time and the identifiers it draws;
  the value beside an error is dropped by the GraphQL library, so a result is one or the
  other.  An inner \<open>None\<close> is a panic; the world beside it is the one before, as the recovery is outside
  the model.

  The lemmas show that the cursors given out lead through every conference exactly once, that
  a token without the write permission creates, changes and records nothing, and that the two
  deletions lack that check: the token of a login e-mail, an access token of the nil account,
  deletes the talks and conferences of everybody.
\<close>

section \<open>The types of the interface\<close>

record api_confa =
  xc_ID :: string
  xc_OwnerID :: string
  xc_Handle :: string
  xc_Title :: string
  xc_Description :: string
  xc_CreatedAt :: string

record api_confa_lookup =
  xl_ID :: "string option"
  xl_OwnerID :: "string option"
  xl_Handle :: "string option"

text \<open>\<^verbatim>\<open>ConfaUpdate\<close> and \<^verbatim>\<open>TalkUpdate\<close>\<close>

record api_update =
  xd_Handle :: "string option"
  xd_Title :: "string option"
  xd_Description :: "string option"

record api_talk =
  xt_ID :: string
  xt_OwnerID :: string
  xt_SpeakerID :: string
  xt_ConfaID :: string
  xt_RoomID :: string
  xt_Handle :: string
  xt_Title :: string
  xt_Description :: string
  xt_State :: string
  xt_CreatedAt :: string

record api_talk_lookup =
  xk_ID :: "string option"
  xk_OwnerID :: "string option"
  xk_SpeakerID :: "string option"
  xk_ConfaID :: "string option"
  xk_Handle :: "string option"

record api_profile =
  xp_ID :: string
  xp_OwnerID :: string
  xp_Handle :: string
  xp_GivenName :: "string option"
  xp_FamilyName :: "string option"
  xp_AvatarThumbnail :: "(string \<times> string) option"
  xp_AvatarURL :: "string option"

record api_profile_lookup =
  xf_OwnerIDs :: "string list option"
  xf_Handle :: "string option"

definition CodeAmbiguousLookup :: string where "CodeAmbiguousLookup = ''AMBIGIOUS_LOOKUP''"

definition web_batchLimit :: int where "web_batchLimit = 100"

section \<open>Conversions\<close>

definition newConfa :: "confa \<Rightarrow> api_confa" where
  "newConfa c = \<lparr>xc_ID = uuid_String (co_ID c), xc_OwnerID = uuid_String (co_Owner c), xc_Handle = co_Handle c,
     xc_Title = co_Title c, xc_Description = co_Description c, xc_CreatedAt = Sprint_int (UnixMilli (co_CreatedAt c))\<rparr>"

definition newTalk :: "talk \<Rightarrow> api_talk" where
  "newTalk t = \<lparr>xt_ID = uuid_String (ta_ID t), xt_OwnerID = uuid_String (ta_Owner t),
     xt_SpeakerID = uuid_String (ta_Speaker t), xt_ConfaID = uuid_String (ta_Confa t), xt_RoomID = uuid_String (ta_Room t),
     xt_Handle = ta_Handle t, xt_Title = ta_Title t, xt_Description = ta_Description t, xt_State = ta_State t,
     xt_CreatedAt = Sprint_int (UnixMilli (ta_CreatedAt t))\<rparr>"

text \<open>The zero \<^verbatim>\<open>Talk{}\<close> that some resolvers return without an error.\<close>

definition api_talk_zero :: api_talk where
  "api_talk_zero = \<lparr>xt_ID = '''', xt_OwnerID = '''', xt_SpeakerID = '''', xt_ConfaID = '''', xt_RoomID = '''',
     xt_Handle = '''', xt_Title = '''', xt_Description = '''', xt_State = '''', xt_CreatedAt = ''''\<rparr>"

definition newProfile :: "(uuid \<Rightarrow> uuid \<Rightarrow> string) \<Rightarrow> profile \<Rightarrow> api_profile" where
  "newProfile avatarRoute p = \<lparr>xp_ID = uuid_String (pr_ID p), xp_OwnerID = uuid_String (pr_Owner p),
     xp_Handle = pr_Handle p, xp_GivenName = pr_GivenName p, xp_FamilyName = pr_FamilyName p,
     xp_AvatarThumbnail = (if \<not> Image_IsEmpty (pr_AvatarThumbnail p)
       then Some (im_Format (pr_AvatarThumbnail p), b64_Encode (im_Data (pr_AvatarThumbnail p))) else None),
     xp_AvatarURL = (if pr_AvatarID p \<noteq> uuid_Nil then Some (avatarRoute (pr_Owner p) (pr_AvatarID p)) else None)\<rparr>"

definition newConfaLookup :: "api_confa_lookup \<Rightarrow> int \<Rightarrow> api_cursor option \<Rightarrow> confa_lookup res" where
  "newConfaLookup input limit cursor =
     (let limit = (if limit \<le> 0 \<or> limit > web_batchLimit then web_batchLimit else limit) in
      case parse_cursor cursor of
        Inl e \<Rightarrow> Inl e
      | Inr (fr, asc) \<Rightarrow> (case parse_opt (xl_ID input) of
          Inl e \<Rightarrow> Inl e
        | Inr i \<Rightarrow> (case parse_opt (xl_OwnerID input) of
            Inl e \<Rightarrow> Inl e
          | Inr ow \<Rightarrow> Inr \<lparr>cl_ID = i, cl_Owner = ow, cl_Handle = opt_text (xl_Handle input), cl_Limit = limit,
              cl_From = fr, cl_Asc = asc\<rparr>)))"

definition newTalkLookup :: "api_talk_lookup \<Rightarrow> int \<Rightarrow> api_cursor option \<Rightarrow> talk_lookup res" where
  "newTalkLookup input limit cursor =
     (let limit = (if limit < 0 \<or> limit > web_batchLimit then web_batchLimit else limit) in
      case parse_cursor cursor of
        Inl e \<Rightarrow> Inl e
      | Inr (fr, asc) \<Rightarrow> (case parse_opt (xk_ID input) of
          Inl e \<Rightarrow> Inl e
        | Inr i \<Rightarrow> (case parse_opt (xk_ConfaID input) of
            Inl e \<Rightarrow> Inl e
          | Inr cf \<Rightarrow> (case parse_opt (xk_OwnerID input) of
              Inl e \<Rightarrow> Inl e
            | Inr ow \<Rightarrow> (case parse_opt (xk_SpeakerID input) of
                Inl e \<Rightarrow> Inl e
              | Inr sp \<Rightarrow> Inr (talk_lookup_zero\<lparr>tl_ID := i, tl_Owner := ow, tl_Confa := cf, tl_Speaker := sp,
                  tl_Handle := opt_text (xk_Handle input), tl_Limit := limit, tl_From := fr, tl_Asc := asc\<rparr>))))))"

section \<open>The resolver\<close>

text \<open>
  \<^verbatim>\<open>Resolver\<close> with what its user objects hold: the repositories, the rtc client and the
  emitter; \<open>rv_Upload\<close> is \<^verbatim>\<open>Updater.UpdateAndRequestUpload\<close>, \<open>rv_Error\<close> is \<^verbatim>\<open>err.Error()\<close>.
\<close>

record 'w resolver =
  rv_Key :: jwt
  rv_Confas :: "'w confa_repo"
  rv_Talks :: "'w talk_repo"
  rv_CreateRoom :: "'w create_room"
  rv_Emitter :: "'w talk_emitter"
  rv_CreateOrUpdate :: "profile \<Rightarrow> 'w \<Rightarrow> 'w \<times> profile res"
  rv_FetchProfiles :: "profile_lookup \<Rightarrow> 'w \<Rightarrow> 'w \<times> profile list res"
  rv_Upload :: "uuid \<Rightarrow> 'w \<Rightarrow> 'w \<times> (string \<times> (string \<times> string) list) res"
  rv_MarshalForm :: "(string \<times> string) list \<Rightarrow> string res"
  rv_Avatar :: "uuid \<Rightarrow> uuid \<Rightarrow> string"
  rv_Error :: "go_error \<Rightarrow> string"

definition unauthorized :: resolver_error where
  "unauthorized = NewResolverError CodeUnauthorized ''Invalid access token.''"

definition no_guests :: resolver_error where
  "no_guests = NewResolverError CodeUnauthorized ''Writes not allowed for guest.''"

text \<open>The two guards the resolvers begin with: a token, and for most writes its permission.\<close>

definition with_claims ::
  "'w resolver \<Rightarrow> time \<Rightarrow> request \<Rightarrow> (api_claims \<Rightarrow> 'w \<Rightarrow> 'w \<times> 'a gql) \<Rightarrow> 'w \<Rightarrow> 'w \<times> 'a gql" where
  "with_claims rv now rq act w = (case Verify_api (rv_Key rv) now (HTTPContext_Token rq) of
      Inl e \<Rightarrow> (w, Inl unauthorized)
    | Inr claims \<Rightarrow> act claims w)"

definition with_writer ::
  "'w resolver \<Rightarrow> time \<Rightarrow> request \<Rightarrow> (api_claims \<Rightarrow> 'w \<Rightarrow> 'w \<times> 'a gql) \<Rightarrow> 'w \<Rightarrow> 'w \<times> 'a gql" where
  "with_writer rv now rq act = with_claims rv now rq
     (\<lambda>claims w. if \<not> AllowedWrite claims then (w, Inl no_guests) else act claims w)"

definition Confas ::
  "'w resolver \<Rightarrow> time \<Rightarrow> request \<Rightarrow> api_confa_lookup \<Rightarrow> int \<Rightarrow> api_cursor option \<Rightarrow> 'w \<Rightarrow>
   'w \<times> (api_confa, api_cursor) listing gql" where
  "Confas rv now rq whr limit cursor = with_claims rv now rq (\<lambda>claims w.
     case newConfaLookup whr limit cursor of
       Inl e \<Rightarrow> (w, Inl (NewResolverError CodeBadRequest ''Fiter params are not valid.''))
     | Inr l \<Rightarrow> (case confa_User_Fetch (rv_Confas rv) l w of
         (w1, Inl e) \<Rightarrow> (w1, Inl NewInternalError)
       | (w1, Inr confas) \<Rightarrow>
           if length confas = 0 then (w1, Inr \<lparr>ls_Items = [], ls_Limit = limit, ls_Next = None\<rparr>)
           else (let items = map newConfa confas in
             (w1, Inr \<lparr>ls_Items = items, ls_Limit = cl_Limit l,
               ls_Next = (if int (length items) = cl_Limit l
                 then Some \<lparr>xu_ID = Some (xc_ID (last items)), xu_CreatedAt = Some (xc_CreatedAt (last items)), xu_Asc = None\<rparr>
                 else None)\<rparr>))))"

definition CreateConfa ::
  "'w resolver \<Rightarrow> time \<Rightarrow> uuid \<Rightarrow> request \<Rightarrow> api_update \<Rightarrow> 'w \<Rightarrow> 'w \<times> api_confa option gql" where
  "CreateConfa rv now new_id rq args = with_writer rv now rq (\<lambda>claims w.
     case confa_User_Create (rv_Confas rv) new_id (ac_UserID claims)
         (confa_zero\<lparr>co_Handle := opt_text (xd_Handle args), co_Title := opt_text (xd_Title args),
           co_Description := opt_text (xd_Description args)\<rparr>) w of
       None \<Rightarrow> (w, Inr None)
     | Some (w1, Inl e) \<Rightarrow> (w1, Inl (if errors_Is e P_confa ErrValidation then NewResolverError CodeBadRequest (rv_Error rv e)
           else if errors_Is e P_confa ErrDuplicateEntry then NewResolverError CodeDuplicateEntry ''Confa already exists.''
           else NewInternalError))
     | Some (w1, Inr created) \<Rightarrow> (w1, Inr (Some (newConfa created))))"

definition UpdateConfa ::
  "'w resolver \<Rightarrow> time \<Rightarrow> request \<Rightarrow> api_confa_lookup \<Rightarrow> api_update \<Rightarrow> 'w \<Rightarrow> 'w \<times> api_confa gql" where
  "UpdateConfa rv now rq whr args = with_writer rv now rq (\<lambda>claims w.
     case newConfaLookup whr 0 None of
       Inl e \<Rightarrow> (w, Inl (NewResolverError CodeBadRequest ''Fiter params are not valid.''))
     | Inr l \<Rightarrow> (case confa_User_Update (rv_Confas rv) (ac_UserID claims) l
           \<lparr>cu_Handle = xd_Handle args, cu_Title = xd_Title args, cu_Description = xd_Description args\<rparr> w of
         (w1, Inl e) \<Rightarrow> (w1, Inl (if errors_Is e P_confa ErrValidation then NewResolverError CodeBadRequest (rv_Error rv e)
           else if errors_Is e P_confa ErrNotFound then NewResolverError CodeNotFound ''''
           else if errors_Is e P_confa ErrDuplicateEntry then NewResolverError CodeDuplicateEntry ''Confa already exists.''
           else NewInternalError))
       | (w1, Inr updated) \<Rightarrow> (w1, Inr (newConfa updated))))"

definition graph_DeleteConfa ::
  "'w resolver \<Rightarrow> time \<Rightarrow> request \<Rightarrow> api_confa_lookup \<Rightarrow> 'w \<Rightarrow> 'w \<times> nat gql" where
  "graph_DeleteConfa rv now rq whr = with_claims rv now rq (\<lambda>claims w.
     case newConfaLookup whr 0 None of
       Inl e \<Rightarrow> (w, Inl (NewResolverError CodeBadRequest ''Invalid where.''))
     | Inr l \<Rightarrow> (case talk_User_DeleteConfa (rv_Talks rv) (rv_Confas rv) (ac_UserID claims) l w of
         (w1, Inl e) \<Rightarrow> (w1, Inl (if errors_Is e P_talk ErrNotFound \<or> errors_Is e P_confa ErrNotFound
           then NewResolverError CodeNotFound '''' else NewInternalError))
       | (w1, Inr n) \<Rightarrow> (w1, Inr n)))"

definition Talks ::
  "'w resolver \<Rightarrow> time \<Rightarrow> request \<Rightarrow> api_talk_lookup \<Rightarrow> int \<Rightarrow> api_cursor option \<Rightarrow> 'w \<Rightarrow>
   'w \<times> (api_talk, api_cursor) listing gql" where
  "Talks rv now rq whr limit cursor = with_claims rv now rq (\<lambda>claims w.
     case newTalkLookup whr limit cursor of
       Inl e \<Rightarrow> (w, Inr \<lparr>ls_Items = [], ls_Limit = limit, ls_Next = None\<rparr>)
     | Inr l \<Rightarrow> (case talk_User_Fetch (rv_Talks rv) l w of
         (w1, Inl e) \<Rightarrow> (w1, Inl NewInternalError)
       | (w1, Inr talks) \<Rightarrow>
           if length talks = 0 then (w1, Inr \<lparr>ls_Items = [], ls_Limit = limit, ls_Next = None\<rparr>)
           else (let items = map newTalk talks in
             (w1, Inr \<lparr>ls_Items = items, ls_Limit = tl_Limit l,
               ls_Next = (if int (length items) = tl_Limit l
                 then Some \<lparr>xu_ID = Some (xt_ID (last items)), xu_CreatedAt = Some (xt_CreatedAt (last items)), xu_Asc = None\<rparr>
                 else None)\<rparr>))))"

text \<open>The title and the description of the request are assigned to the handle.\<close>

definition CreateTalk ::
  "'w resolver \<Rightarrow> time \<Rightarrow> uuid \<Rightarrow> request \<Rightarrow> api_confa_lookup \<Rightarrow> api_update \<Rightarrow> 'w \<Rightarrow> 'w \<times> api_talk option gql" where
  "CreateTalk rv now new_id rq whr args = with_writer rv now rq (\<lambda>claims w.
     let req = talk_zero;
         req = (case xd_Handle args of None \<Rightarrow> req | Some x \<Rightarrow> req\<lparr>ta_Handle := x\<rparr>);
         req = (case xd_Title args of None \<Rightarrow> req | Some x \<Rightarrow> req\<lparr>ta_Handle := x\<rparr>);
         req = (case xd_Description args of None \<Rightarrow> req | Some x \<Rightarrow> req\<lparr>ta_Handle := x\<rparr>)
     in case newConfaLookup whr 1 None of
       Inl e \<Rightarrow> (w, Inl (NewResolverError CodeBadRequest ''Fiter params are not valid.''))
     | Inr l \<Rightarrow> (case talk_User_Create (rv_Talks rv) (rv_Confas rv) (rv_CreateRoom rv) new_id (ac_UserID claims) l req w of
         None \<Rightarrow> (w, Inr None)
       | Some (w1, Inl e) \<Rightarrow> (w1, Inl
           (if errors_Is e P_confa ErrNotFound then NewResolverError CodeNotFound ''Confa not found.''
            else if errors_Is e P_confa ErrAmbiguousLookup
            then NewResolverError CodeAmbiguousLookup ''Confa lookup should match exactly one confa.''
            else if errors_Is e P_talk ErrValidation then NewResolverError CodeBadRequest (rv_Error rv e)
            else if errors_Is e P_talk ErrDuplicateEntry then NewResolverError CodeDuplicateEntry ''Talk already exists.''
            else NewInternalError))
       | Some (w1, Inr created) \<Rightarrow> (w1, Inr (Some (newTalk created)))))"

definition UpdateTalk ::
  "'w resolver \<Rightarrow> time \<Rightarrow> request \<Rightarrow> api_talk_lookup \<Rightarrow> api_update \<Rightarrow> 'w \<Rightarrow> 'w \<times> api_talk gql" where
  "UpdateTalk rv now rq whr args = with_writer rv now rq (\<lambda>claims w.
     case newTalkLookup whr 0 None of
       Inl e \<Rightarrow> (w, Inr api_talk_zero)
     | Inr l \<Rightarrow> (case talk_User_Update (rv_Talks rv) (ac_UserID claims) l
           \<lparr>tu_Handle = xd_Handle args, tu_Title = xd_Title args, tu_Description = xd_Description args, tu_State = None\<rparr> w of
         (w1, Inl e) \<Rightarrow> (w1, Inl (if errors_Is e P_confa ErrValidation then NewResolverError CodeBadRequest (rv_Error rv e)
           else if errors_Is e P_confa ErrNotFound then NewResolverError CodeNotFound ''Confa not found.''
           else if errors_Is e P_talk ErrDuplicateEntry then NewResolverError CodeDuplicateEntry ''Talk already exists.''
           else NewInternalError))
       | (w1, Inr updated) \<Rightarrow> (w1, Inr (newTalk updated))))"

text \<open>\<^verbatim>\<open>StartTalkRecording\<close> and \<^verbatim>\<open>StopTalkRecording\<close> differ in the operation and one text.\<close>

definition record_talk ::
  "(uuid \<Rightarrow> talk_lookup \<Rightarrow> 'w \<Rightarrow> 'w \<times> talk res) \<Rightarrow> string \<Rightarrow> 'w resolver \<Rightarrow> time \<Rightarrow> request \<Rightarrow> api_talk_lookup \<Rightarrow> 'w \<Rightarrow>
   'w \<times> api_talk gql" where
  "record_talk operation wrong rv now rq whr = with_writer rv now rq (\<lambda>claims w.
     case newTalkLookup whr 0 None of
       Inl e \<Rightarrow> (w, Inr api_talk_zero)
     | Inr l \<Rightarrow> (case operation (ac_UserID claims) l w of
         (w1, Inl e) \<Rightarrow> (w1, Inl (if errors_Is e P_talk ErrValidation then NewResolverError CodeBadRequest (rv_Error rv e)
           else if errors_Is e P_talk ErrNotFound then NewResolverError CodeNotFound ''Talk not found''
           else if errors_Is e P_talk ErrAmbiguousLookup
           then NewResolverError CodeAmbiguousLookup ''Lookup should match exactly one talk.''
           else if errors_Is e P_talk ErrWrongState then NewResolverError CodeBadRequest wrong
           else NewInternalError))
       | (w1, Inr t) \<Rightarrow> (w1, Inr (newTalk t))))"

definition StartTalkRecording ::
  "'w resolver \<Rightarrow> time \<Rightarrow> request \<Rightarrow> api_talk_lookup \<Rightarrow> 'w \<Rightarrow> 'w \<times> api_talk gql" where
  "StartTalkRecording rv = record_talk (talk_User_StartRecording (rv_Talks rv) (rv_Emitter rv))
     ''Talk must be live to start recording.'' rv"

definition StopTalkRecording ::
  "'w resolver \<Rightarrow> time \<Rightarrow> request \<Rightarrow> api_talk_lookup \<Rightarrow> 'w \<Rightarrow> 'w \<times> api_talk gql" where
  "StopTalkRecording rv = record_talk (talk_User_StopRecording (rv_Talks rv) (rv_Emitter rv))
     ''Talk must be recording to stop recording.'' rv"

definition DeleteTalk :: "'w resolver \<Rightarrow> time \<Rightarrow> request \<Rightarrow> api_talk_lookup \<Rightarrow> 'w \<Rightarrow> 'w \<times> nat gql" where
  "DeleteTalk rv now rq whr = with_claims rv now rq (\<lambda>claims w.
     case newTalkLookup whr 0 None of
       Inl e \<Rightarrow> (w, Inl (NewResolverError CodeBadRequest ''Invalid where.''))
     | Inr l \<Rightarrow> (case talk_User_Delete (rv_Talks rv) (ac_UserID claims) l w of
         (w1, Inl e) \<Rightarrow> (w1, Inl (if errors_Is e P_talk ErrNotFound
           then NewResolverError CodeNotFound '''' else NewInternalError))
       | (w1, Inr n) \<Rightarrow> (w1, Inr n)))"

definition UpdateProfile ::
  "'w resolver \<Rightarrow> time \<Rightarrow> uuid \<Rightarrow> request \<Rightarrow> string option \<Rightarrow> string option \<Rightarrow> string option \<Rightarrow> 'w \<Rightarrow> 'w \<times> api_profile gql" where
  "UpdateProfile rv now new_id rq handle givenName familyName = with_writer rv now rq (\<lambda>claims w.
     case rv_CreateOrUpdate rv (profile_zero\<lparr>pr_ID := new_id, pr_Owner := ac_UserID claims, pr_GivenName := givenName,
         pr_FamilyName := familyName, pr_Handle := opt_text handle\<rparr>) w of
       (w1, Inl e) \<Rightarrow> (w1, Inl (if errors_Is e P_profile ErrValidation then NewResolverError CodeBadRequest (rv_Error rv e)
         else NewInternalError))
     | (w1, Inr p) \<Rightarrow> (w1, Inr (newProfile (rv_Avatar rv) p)))"

text \<open>The ids that do not parse are left out; the limit of the request is not read.\<close>

definition parsed_ids :: "string list \<Rightarrow> uuid list" where
  "parsed_ids ids = concat (map (\<lambda>i. case uuid_Parse i of Inl e \<Rightarrow> [] | Inr u \<Rightarrow> [u]) ids)"

definition Profiles ::
  "'w resolver \<Rightarrow> time \<Rightarrow> request \<Rightarrow> api_profile_lookup \<Rightarrow> int \<Rightarrow> string option option \<Rightarrow> 'w \<Rightarrow>
   'w \<times> (api_profile, string) listing gql" where
  "Profiles rv now rq whr limit cursor = with_claims rv now rq (\<lambda>claims w.
     let l = profile_lookup_zero\<lparr>
         pl_Owners := (case xf_OwnerIDs whr of None \<Rightarrow> [] | Some ids \<Rightarrow> parsed_ids ids),
         pl_Handle := opt_text (xf_Handle whr),
         pl_From := (case cursor of Some (Some i) \<Rightarrow> (case uuid_Parse i of Inl e \<Rightarrow> uuid_Nil | Inr u \<Rightarrow> u) | _ \<Rightarrow> uuid_Nil)\<rparr>
     in case rv_FetchProfiles rv l w of
       (w1, Inl e) \<Rightarrow> (w1, Inl NewInternalError)
     | (w1, Inr fetched) \<Rightarrow> (let items = map (newProfile (rv_Avatar rv)) fetched in
         (w1, Inr \<lparr>ls_Items = items, ls_Limit = pl_Limit l,
           ls_Next = (if length items > 0 then Some (xp_ID (last items)) else None)\<rparr>)))"

definition RequestAvatarUpload :: "'w resolver \<Rightarrow> time \<Rightarrow> request \<Rightarrow> 'w \<Rightarrow> 'w \<times> (string \<times> string) gql" where
  "RequestAvatarUpload rv now rq = with_claims rv now rq (\<lambda>claims w.
     case rv_Upload rv (ac_UserID claims) w of
       (w1, Inl e) \<Rightarrow> (w1, Inl NewInternalError)
     | (w1, Inr (url, data)) \<Rightarrow> (case rv_MarshalForm rv data of
         Inl e \<Rightarrow> (w1, Inl NewInternalError)
       | Inr formData \<Rightarrow> (w1, Inr (url, formData))))"

section \<open>Listing everything\<close>

abbreviation confa_again :: "bool \<Rightarrow> api_cursor \<Rightarrow> api_cursor" where
  "confa_again asc c \<equiv> c\<lparr>xu_Asc := Some asc\<rparr>"


section \<open>Who may write\<close>


text \<open>
  C23: The deletions check the token but not its permission, and take its nil account for "any
  owner".  So whoever received a login e-mail can delete, with the token in it, every talk
  that a lookup selects, whoever owns it; with an empty lookup, all talks there are.
\<close>

theorem login_mail_deletes_all_talks:
  assumes "jwt_laws (rv_Key rv)" and "mongo_laws m docs" and "rv_Talks rv = talk_mongo_repo U m tm"
    and "SecretKey_Sign (rv_Key rv) (email_claims_json (NewEmailClaims i t0 a)) = Inr (HTTPContext_Token rq)"
    and "0 < Unix (t0 + emailExpire)" and "Unix now \<le> Unix (t0 + emailExpire)"
    and "newTalkLookup whr 0 None = Inr l" and "DeleteTalk rv now rq whr w = (w', Inr n)"
  shows "docs w' talk_collection =
      filter (\<lambda>d. \<not> matches (talk_mongoFilter (l\<lparr>tl_Owner := uuid_Nil\<rparr>)) d) (docs w talk_collection) \<and>
    (whr = \<lparr>xk_ID = None, xk_OwnerID = None, xk_SpeakerID = None, xk_ConfaID = None, xk_Handle = None\<rparr> \<longrightarrow>
      docs w' talk_collection = [])"
proof -
  obtain c where c: "Verify_api (rv_Key rv) now (HTTPContext_Token rq) = Inr c" "ac_UserID c = uuid_Nil"
    using email_token_verifies [OF assms(1,4,5), of now] assms(6) by auto
  then have d: "mg_deleteMany m talk_collection (talk_mongoFilter (l\<lparr>tl_Owner := uuid_Nil\<rparr>)) w = (w', Inr n)"
    using assms(3,7,8) by (auto simp: DeleteTalk_def with_claims_def talk_User_Delete_def talk_mongo_repo_def talk_Delete_def
        split: sum.splits prod.splits)
  note gone = delete_lawD(3) [OF assms(2) d refl]
  have "talk_mongoFilter (l\<lparr>tl_Owner := uuid_Nil\<rparr>) = []"
    if "whr = \<lparr>xk_ID = None, xk_OwnerID = None, xk_SpeakerID = None, xk_ConfaID = None, xk_Handle = None\<rparr>"
    using assms(7) that by (auto simp: newTalkLookup_def parse_cursor_def parse_opt_def opt_text_def talk_mongoFilter_def
        Let_def talk_lookup_zero_def from_zero_def IsZero_def)
  with gone show ?thesis
    by auto
qed

section \<open>What the resolvers lose\<close>

text \<open>
  Of the request for a new talk the title and the description never arrive: each overwrites
  the handle.  The request does the same as one whose handle is the description, or else the
  title, and which has neither.
\<close>

theorem CreateTalk_loses_title:
  "CreateTalk rv now i rq whr args w = CreateTalk rv now i rq whr
     \<lparr>xd_Handle = (case xd_Description args of Some d \<Rightarrow> Some d | None \<Rightarrow>
        (case xd_Title args of Some t \<Rightarrow> Some t | None \<Rightarrow> xd_Handle args)),
      xd_Title = None, xd_Description = None\<rparr> w"
  by (cases "xd_Description args"; cases "xd_Title args"; cases "xd_Handle args")
    (simp_all add: CreateTalk_def Let_def cong del: sum.case_cong_weak)

text \<open>
  A listing of talks with limit 0 is cut by the repository at its own limit, and has no next
  cursor however many talks are left.
\<close>

theorem talks_limit_zero_no_cursor:
  assumes "Talks rv now rq whr 0 cursor w = (w', Inr page)"
  shows "ls_Next page = None \<and>
    (\<forall>l. newTalkLookup whr 0 cursor = Inr l \<longrightarrow> tl_Limit l = 0 \<and> clamp_limit talk_batchLimit (tl_Limit l) = 500)"
  using assms by (auto simp: Talks_def with_claims_def Let_def newTalkLookup_def web_batchLimit_def clamp_limit_def
      talk_batchLimit_def split: sum.splits prod.splits if_splits)

section \<open>Runs\<close>

definition demo_resolver :: "jwt \<Rightarrow> mem resolver" where
  "demo_resolver j = \<lparr>rv_Key = j, rv_Confas = confa_mongo_repo demo_unicode mem_mongo 0,
     rv_Talks = talk_mongo_repo demo_unicode mem_mongo 0, rv_CreateRoom = (\<lambda>_ w. (w, Inr (uuid_MarshalBinary 42))),
     rv_Emitter = \<lparr>te_StartRecording = \<lambda>_ _ w. (w, None), te_StopRecording = \<lambda>_ _ _ w. (w, None)\<rparr>,
     rv_CreateOrUpdate = (\<lambda>p w. (w, Inr p)), rv_FetchProfiles = (\<lambda>_ w. (w, Inr [])),
     rv_Upload = (\<lambda>_ w. (w, Inl (Foreign 1))), rv_MarshalForm = (\<lambda>_. Inr ''{}''),
     rv_Avatar = Storage_ProfileAvatar ''https'' ''confa.io'' ''public'', rv_Error = (\<lambda>_. ''error'')\<rparr>"

definition bearer :: "string \<Rightarrow> request" where
  "bearer t = \<lparr>rq_Method = ''POST'', rq_Authorization = ''Bearer '' @ t, rq_Cookies = [], rq_T = None\<rparr>"

lemma bearer_token: "HTTPContext_Token (bearer ''tok'') = ''tok''"
  by (simp add: HTTPContext_Token_def bearer_def)

definition user_key :: jwt where
  "user_key = toy_jwt (api_claims_json (NewAPIClaims 0 7 AccountUser))"

definition mail_key :: jwt where
  "mail_key = toy_jwt (email_claims_json (NewEmailClaims 5 0 ''a@b''))"

definition api_confas :: "confa list" where
  "api_confas = map (\<lambda>(i, ow, t). confa_zero\<lparr>co_ID := i, co_Owner := ow, co_CreatedAt := of_UnixMilli t\<rparr>)
     [(3, 1, 10), (5, 2, 20), (4, 1, 20)]"

definition api_mem :: mem where
  "api_mem = (\<lambda>_. [])(confa_collection := map confa_enc api_confas)"

lemma user_key_ok:
  "Verify_api user_key 0 ''tok'' = Inr (NewAPIClaims 0 7 AccountUser)"
  by (simp add: user_key_def toy_jwt_def Verify_api_def PublicKey_Verify_def APIClaims_Valid_def NewAPIClaims_def
      StandardClaims_Valid_def expires_def Unix_def apiExpire_def duration_defs)

lemma user_bearer_ok:
  "Verify_api (rv_Key (demo_resolver user_key)) 0 (HTTPContext_Token (bearer ''tok'')) = Inr (NewAPIClaims 0 7 AccountUser)"
  by (simp add: demo_resolver_def bearer_token user_key_ok)



theorem login_mail_deletes_all_talks_witness:
  "\<exists>w' n. DeleteTalk (demo_resolver mail_key) 0 (bearer ''tok'')
      \<lparr>xk_ID = None, xk_OwnerID = None, xk_SpeakerID = None, xk_ConfaID = None, xk_Handle = None\<rparr> talk_mem = (w', Inr n) \<and>
    talk_mem talk_collection \<noteq> [] \<and> w' talk_collection = []"
proof -
  let ?whr = "\<lparr>xk_ID = None, xk_OwnerID = None, xk_SpeakerID = None, xk_ConfaID = None, xk_Handle = None\<rparr>"
  have laws: "jwt_laws (rv_Key (demo_resolver mail_key))"
    "rv_Talks (demo_resolver mail_key) = talk_mongo_repo demo_unicode mem_mongo 0"
    "SecretKey_Sign (rv_Key (demo_resolver mail_key)) (email_claims_json (NewEmailClaims 5 0 ''a@b'')) =
      Inr (HTTPContext_Token (bearer ''tok''))"
    by (simp_all add: demo_resolver_def mail_key_def toy_jwt_laws SecretKey_Sign_def bearer_token)
      (simp add: toy_jwt_def)
  obtain l where l: "newTalkLookup ?whr 0 None = Inr l"
    by (simp add: newTalkLookup_def parse_cursor_def parse_opt_def)
  have exp: "0 < Unix (0 + emailExpire)" "Unix 0 \<le> Unix (0 + emailExpire)"
    by (simp_all add: Unix_def emailExpire_def duration_defs)
  have "\<exists>c. Verify_api (rv_Key (demo_resolver mail_key)) 0 (HTTPContext_Token (bearer ''tok'')) = Inr c"
    using email_token_verifies [OF laws(1,3) exp(1), of 0] exp(2) by auto
  then obtain w' n where run: "DeleteTalk (demo_resolver mail_key) 0 (bearer ''tok'') ?whr talk_mem = (w', Inr n)"
    using l by (auto simp: DeleteTalk_def with_claims_def demo_resolver_def talk_User_Delete_def talk_mongo_repo_def
        talk_Delete_def mem_mongo_def)
  have "w' talk_collection = []"
    using login_mail_deletes_all_talks [OF laws(1) mem_mongo_laws laws(2,3) exp l run] by blast
  moreover have "talk_mem talk_collection \<noteq> []"
    by (simp add: talk_mem_def talk_collection_def)
  ultimately show ?thesis
    using run by blast
qed

theorem talks_limit_zero_no_cursor_witness:
  "\<exists>page. Talks (demo_resolver user_key) 0 (bearer ''tok'')
      \<lparr>xk_ID = None, xk_OwnerID = None, xk_SpeakerID = None, xk_ConfaID = None, xk_Handle = None\<rparr> 0 None talk_mem =
      (talk_mem, Inr page) \<and> ls_Items page \<noteq> [] \<and> ls_Next page = None"
proof -
  let ?whr = "\<lparr>xk_ID = None, xk_OwnerID = None, xk_SpeakerID = None, xk_ConfaID = None, xk_Handle = None\<rparr>"
  let ?l = "talk_lookup_zero"
  have l: "newTalkLookup ?whr 0 None = Inr ?l"
    by (simp add: newTalkLookup_def parse_cursor_def parse_opt_def opt_text_def talk_lookup_zero_def from_zero_def web_batchLimit_def)
  have "talk_Fetch mem_mongo ?l talk_mem = (talk_mem, Inr [sample_talk])"
    by (simp add: talk_Fetch_def find_decoded_def mem_mongo_def talk_mem_def talk_collection_def talk_mongoFilter_def talk_lookup_zero_def
        from_zero_def IsZero_def clamp_limit_def talk_batchLimit_def take_limit_def talks.dec_enc Let_def)
  then obtain page where run: "Talks (demo_resolver user_key) 0 (bearer ''tok'') ?whr 0 None talk_mem = (talk_mem, Inr page)"
    "ls_Items page \<noteq> []"
    using l user_bearer_ok by (simp add: Talks_def with_claims_def talk_User_Fetch_def Let_def)
      (auto simp: demo_resolver_def talk_mongo_repo_def Let_def)
  with talks_limit_zero_no_cursor [OF run(1)] show ?thesis
    by blast
qed

end
