(* ===== verification/Rtc_Web.thy ===== *)
theory Rtc_Web
  imports Listing Event_Mongo Recordings
begin

text \<open>
  The web interface of the rtc service: the GraphQL resolvers of
  \<^verbatim>\<open>services/cmd/rtc/web/graph.go\<close>, the events as browsers get them (\<^verbatim>\<open>web.go\<close>, with the types of
  \<^verbatim>\<open>schema.go\<close>), the web socket of a room (\<^verbatim>\<open>handler.go\<close>) and the peer behind it (\<^verbatim>\<open>peer.go\<close>).
  JSON, the web socket and the LiveKit token are parameters; a millisecond count written as
  \<^verbatim>\<open>float64\<close> is the integer it is, which is exact below 2 to the power of 53.

  The lemmas show that the cursors lead through the whole history of a room, what limits the
  size of a page, and what a socket makes its peer say: it announces itself, speaks under the
  user of its token in the room of its path only, and announces that it left; and that no
  worker of a socket outlives the first that ends by more than one turn.
\<close>

section \<open>Events for browsers\<close>

record web_peer_state =
  wp_PeerID :: string
  wp_SessionID :: string
  wp_Status :: "string option"

record web_text =
  wt_FromID :: string
  wt_Text :: string

record web_track_record =
  wk_RecordID :: string
  wk_Kind :: string
  wk_Source :: string

text \<open>\<^verbatim>\<open>Reaction\<close> is its clap, and the clap whether it starts.\<close>

type_synonym web_reaction = "bool option"

record web_payload =
  wl_PeerState :: "web_peer_state option"
  wl_Message :: "web_text option"
  wl_Recording :: "string option"
  wl_TrackRecord :: "web_track_record option"
  wl_Reaction :: "(string \<times> web_reaction) option"

definition web_payload_empty :: web_payload where
  "web_payload_empty = \<lparr>wl_PeerState = None, wl_Message = None, wl_Recording = None, wl_TrackRecord = None,
     wl_Reaction = None\<rparr>"

record room_event =
  we_ID :: string
  we_RoomID :: string
  we_CreatedAt :: int
  we_Payload :: web_payload

text \<open>The first payload that is set, in the order of the \<^verbatim>\<open>switch\<close>.\<close>

definition web_payload_of :: "payload \<Rightarrow> web_payload" where
  "web_payload_of p = (case pl_PeerState p of
      Some s \<Rightarrow> web_payload_empty\<lparr>wl_PeerState := Some \<lparr>wp_PeerID = uuid_String (ps_Peer s),
        wp_SessionID = uuid_String (ps_SessionID s),
        wp_Status = (if ps_Status s \<noteq> '''' then Some (ps_Status s) else None)\<rparr>\<rparr>
    | None \<Rightarrow> (case pl_Message p of
      Some m \<Rightarrow> web_payload_empty\<lparr>wl_Message := Some \<lparr>wt_FromID = uuid_String (pm_From m), wt_Text = pm_Text m\<rparr>\<rparr>
    | None \<Rightarrow> (case pl_Recording p of
      Some r \<Rightarrow> web_payload_empty\<lparr>wl_Recording := Some (prec_Status r)\<rparr>
    | None \<Rightarrow> (case pl_TrackRecord p of
      Some t \<Rightarrow> web_payload_empty\<lparr>wl_TrackRecord := Some \<lparr>wk_RecordID = uuid_String (ptr_RecordID t),
        wk_Kind = ptr_Kind t, wk_Source = ptr_Source t\<rparr>\<rparr>
    | None \<Rightarrow> (case pl_Reaction p of
      Some r \<Rightarrow> web_payload_empty\<lparr>wl_Reaction :=
        Some (uuid_String (pre_From r), map_option rc_IsStarting (re_Clap (pre_Reaction r)))\<rparr>
    | None \<Rightarrow> web_payload_empty)))))"

definition NewRoomEvent :: "event \<Rightarrow> room_event" where
  "NewRoomEvent ev = \<lparr>we_ID = uuid_String (ev_ID ev), we_RoomID = uuid_String (ev_Room ev),
     we_CreatedAt = UnixMilli (ev_CreatedAt ev), we_Payload = web_payload_of (ev_Payload ev)\<rparr>"

section \<open>The resolvers\<close>

record graph_event =
  ge_ID :: string
  ge_RoomID :: string
  ge_CreatedAt :: string
  ge_Payload :: string

text \<open>\<open>json\<close> is \<^verbatim>\<open>json.Marshal\<close> of a payload, whose error is dropped.\<close>

definition newGraphEvent :: "(web_payload \<Rightarrow> string) \<Rightarrow> event \<Rightarrow> graph_event" where
  "newGraphEvent json ev = (let roomEvent = NewRoomEvent ev in
     \<lparr>ge_ID = we_ID roomEvent, ge_RoomID = we_RoomID roomEvent, ge_CreatedAt = Sprint_int (UnixMilli (ev_CreatedAt ev)),
      ge_Payload = json (we_Payload roomEvent)\<rparr>)"

definition RecordingStatusRecording :: string where "RecordingStatusRecording = ''RECORDING''"
definition RecordingStatusProcessing :: string where "RecordingStatusProcessing = ''PROCESSING''"
definition RecordingStatusReady :: string where "RecordingStatusReady = ''READY''"

record api_recording =
  xr_Key :: string
  xr_RoomID :: string
  xr_Status :: string
  xr_CreatedAt :: int
  xr_StartedAt :: int
  xr_StoppedAt :: "int option"

definition newRecording :: "recording \<Rightarrow> api_recording" where
  "newRecording rec =
     (let api = \<lparr>xr_Key = rg_Key rec, xr_RoomID = uuid_String (rg_Room rec), xr_Status = RecordingStatusRecording,
            xr_CreatedAt = UnixMilli (rg_CreatedAt rec), xr_StartedAt = UnixMilli (rg_StartedAt rec), xr_StoppedAt = None\<rparr>
      in if \<not> IsZero (rg_StoppedAt rec)
         then api\<lparr>xr_StoppedAt := Some (UnixMilli (rg_StoppedAt rec)),
           xr_Status := (if Recording_IsReady rec then RecordingStatusReady else RecordingStatusProcessing)\<rparr>
         else api)"

text \<open>
  \<^verbatim>\<open>NewInternalError\<close> of this package passes its code and its message in each other's place.
\<close>

definition rtc_NewInternalError :: resolver_error where
  "rtc_NewInternalError = NewResolverError ''internal system error'' CodeUnknown"

text \<open>What \<^verbatim>\<open>lkauth.NewAccessToken\<close> and its setters collect before \<^verbatim>\<open>ToJWT\<close>.\<close>

record sfu_access =
  sf_Key :: string
  sf_Secret :: string
  sf_RoomJoin :: bool
  sf_Room :: string
  sf_Identity :: string
  sf_ValidFor :: duration

record 'w rtc_resolver =
  rr_Key :: jwt
  rr_LiveKit :: "string \<times> string"
  rr_ToJWT :: "sfu_access \<Rightarrow> string res"
  rr_Events :: "event_lookup \<Rightarrow> 'w \<Rightarrow> 'w \<times> event list res"
  rr_Recordings :: "record_lookup \<Rightarrow> 'w \<Rightarrow> 'w \<times> recording list res"
  rr_Json :: "web_payload \<Rightarrow> string"

definition rtc_unauthorized :: resolver_error where
  "rtc_unauthorized = NewResolverError CodeUnauthorized ''Invalid access token.''"

definition events_batchLimit :: int where "events_batchLimit = 3000"
definition recordings_batchLimit :: int where "recordings_batchLimit = 100"

definition graph_Events ::
  "'w rtc_resolver \<Rightarrow> time \<Rightarrow> request \<Rightarrow> string \<Rightarrow> int \<Rightarrow> api_cursor option \<Rightarrow> 'w \<Rightarrow>
   'w \<times> (graph_event, api_cursor) listing gql" where
  "graph_Events rr now rq roomID limit cursor w = (case Verify_api (rr_Key rr) now (HTTPContext_Token rq) of
      Inl e \<Rightarrow> (w, Inl rtc_unauthorized)
    | Inr claims \<Rightarrow>
       (let limit = (if limit < 0 \<or> limit > events_batchLimit then events_batchLimit else limit) in
        case uuid_Parse roomID of
          Inl e \<Rightarrow> (w, Inr \<lparr>ls_Items = [], ls_Limit = 0, ls_Next = None\<rparr>)
        | Inr rm \<Rightarrow> (case parse_cursor cursor of
            Inl e \<Rightarrow> (w, Inl (NewResolverError CodeBadRequest ''Invalid filter params.''))
          | Inr (fr, asc) \<Rightarrow> (case rr_Events rr (event_lookup_zero\<lparr>el_Room := rm, el_Limit := limit, el_From := fr, el_Asc := asc\<rparr>) w of
              (w1, Inl e) \<Rightarrow> (w1, Inl rtc_NewInternalError)
            | (w1, Inr events) \<Rightarrow> (let items = map (newGraphEvent (rr_Json rr)) events in
                (w1, Inr \<lparr>ls_Items = items, ls_Limit = limit,
                  ls_Next = (if length items \<noteq> 0
                    then Some \<lparr>xu_ID = Some (ge_ID (last items)), xu_CreatedAt = Some (ge_CreatedAt (last items)), xu_Asc = None\<rparr>
                    else None)\<rparr>))))))"

definition graph_Recordings ::
  "'w rtc_resolver \<Rightarrow> time \<Rightarrow> request \<Rightarrow> string \<Rightarrow> string option \<Rightarrow> int \<Rightarrow> string option \<Rightarrow> 'w \<Rightarrow>
   'w \<times> (api_recording, string) listing gql" where
  "graph_Recordings rr now rq roomID key limit fr w = (case Verify_api (rr_Key rr) now (HTTPContext_Token rq) of
      Inl e \<Rightarrow> (w, Inl rtc_unauthorized)
    | Inr claims \<Rightarrow>
       (let limit = (if limit < 0 \<or> limit > recordings_batchLimit then recordings_batchLimit else limit) in
        case uuid_Parse roomID of
          Inl e \<Rightarrow> (w, Inr \<lparr>ls_Items = [], ls_Limit = limit, ls_Next = None\<rparr>)
        | Inr rm \<Rightarrow> (case rr_Recordings rr (record_lookup_zero\<lparr>rl_Room := rm, rl_Limit := limit,
              rl_Key := opt_text key, rl_FromKey := opt_text fr\<rparr>) w of
            (w1, Inl e) \<Rightarrow> (w1, Inl rtc_NewInternalError)
          | (w1, Inr recordings) \<Rightarrow> (w1, Inr \<lparr>ls_Items = map newRecording recordings, ls_Limit = limit,
              ls_Next = (if length recordings \<noteq> 0 then Some (rg_Key (last recordings)) else None)\<rparr>))))"

definition sfu_validFor :: duration where "sfu_validFor = 2 * Hour"

definition RequestSFUAccess :: "'w rtc_resolver \<Rightarrow> time \<Rightarrow> request \<Rightarrow> string \<Rightarrow> string gql" where
  "RequestSFUAccess rr now rq roomID = (case Verify_api (rr_Key rr) now (HTTPContext_Token rq) of
      Inl e \<Rightarrow> Inl rtc_unauthorized
    | Inr claims \<Rightarrow> (case rr_ToJWT rr \<lparr>sf_Key = fst (rr_LiveKit rr), sf_Secret = snd (rr_LiveKit rr), sf_RoomJoin = True,
          sf_Room = roomID, sf_Identity = uuid_String (ac_UserID claims), sf_ValidFor = sfu_validFor\<rparr> of
        Inl e \<Rightarrow> Inl rtc_NewInternalError
      | Inr token \<Rightarrow> Inr token))"

section \<open>The socket of a room\<close>

record ws_message =
  wm_Event :: "room_event option"
  wm_PeerMessage :: "string option"
  wm_Reaction :: "web_reaction option"
  wm_RequestID :: "string option"
  wm_ResponseID :: "string option"

definition ws_reply :: "string option \<Rightarrow> event \<Rightarrow> ws_message" where
  "ws_reply responseID ev = \<lparr>wm_Event = Some (NewRoomEvent ev), wm_PeerMessage = None, wm_Reaction = None,
     wm_RequestID = None, wm_ResponseID = responseID\<rparr>"

abbreviation web_ErrClosed :: go_error where
  "web_ErrClosed \<equiv> Sentinel P_web ErrClosed"

text \<open>
  The web socket library and the cursor of the room.  The operations take whether the context
  they are given is cancelled; \<open>so_Wait\<close> is the \<^verbatim>\<open>select\<close> of \<^verbatim>\<open>ping\<close> and tells whether the context
  ended first; \<open>so_IsCloseError\<close> and \<open>so_IsEOF\<close> are \<^verbatim>\<open>errors.As\<close> and \<^verbatim>\<open>errors.Is\<close> for errors of
  other packages.
\<close>

record 'w socket =
  so_Read :: "bool \<Rightarrow> 'w \<Rightarrow> 'w \<times> ws_message res"
  so_Write :: "bool \<Rightarrow> ws_message \<Rightarrow> 'w \<Rightarrow> 'w \<times> err"
  so_Ping :: "bool \<Rightarrow> 'w \<Rightarrow> 'w \<times> err"
  so_Wait :: "bool \<Rightarrow> 'w \<Rightarrow> 'w \<times> bool"
  so_Close :: "'w \<Rightarrow> 'w"
  so_Next :: "bool \<Rightarrow> 'w \<Rightarrow> 'w \<times> event res"
  so_CloseCursor :: "'w \<Rightarrow> 'w \<times> err"
  so_IsCloseError :: "go_error \<Rightarrow> bool"
  so_IsEOF :: "go_error \<Rightarrow> bool"

text \<open>One message of the browser; the identifier and the time are those of the event it makes.\<close>

definition receiveWebsocket ::
  "'w socket \<Rightarrow> 'w emitter \<Rightarrow> uuid \<Rightarrow> time \<Rightarrow> peer \<Rightarrow> bool \<Rightarrow> 'w \<Rightarrow> 'w \<times> err" where
  "receiveWebsocket s emit new_id now p cancelled w = (case so_Read s cancelled w of
      (w1, Inl e) \<Rightarrow> (w1, Some (if errors_Is e P_context Canceled \<or> so_IsCloseError s e then web_ErrClosed else e))
    | (w1, Inr msg) \<Rightarrow> (case wm_PeerMessage msg of
        Some text \<Rightarrow> (case SendMessage emit new_id now p text w1 of
          (w2, Inl e) \<Rightarrow> (w2, Some e)
        | (w2, Inr ev) \<Rightarrow> so_Write s cancelled (ws_reply (wm_RequestID msg) ev) w2)
      | None \<Rightarrow> (case wm_Reaction msg of
          Some clap \<Rightarrow> (case SendReaction emit new_id now p
                \<lparr>re_Clap = map_option (\<lambda>b. \<lparr>rc_IsStarting = b\<rparr>) clap\<rparr> w1 of
            (w2, Inl e) \<Rightarrow> (w2, Some e)
          | (w2, Inr ev) \<Rightarrow> so_Write s cancelled (ws_reply (wm_RequestID msg) ev) w2)
        | None \<Rightarrow> (w1, None))))"

definition ping :: "'w socket \<Rightarrow> bool \<Rightarrow> 'w \<Rightarrow> 'w \<times> err" where
  "ping s cancelled w = (case so_Ping s cancelled w of
      (w1, Some e) \<Rightarrow> (w1, Some e)
    | (w1, None) \<Rightarrow> (case so_Wait s cancelled w1 of
        (w2, True) \<Rightarrow> (w2, Some web_ErrClosed)
      | (w2, False) \<Rightarrow> (w2, None)))"

text \<open>
  The three loops of \<^verbatim>\<open>Serve\<close>, one turn each; the result is whether the loop goes on.  The
  branches of each \<^verbatim>\<open>switch\<close> that only log differently are one.
\<close>

datatype worker = Receiver | Pinger | Forwarder

definition receive_turn ::
  "'w socket \<Rightarrow> 'w emitter \<Rightarrow> uuid \<Rightarrow> time \<Rightarrow> peer \<Rightarrow> bool \<Rightarrow> 'w \<Rightarrow> 'w \<times> bool" where
  "receive_turn s emit new_id now p cancelled w = (case receiveWebsocket s emit new_id now p cancelled w of
      (w1, None) \<Rightarrow> (w1, True)
    | (w1, Some e) \<Rightarrow> (w1, errors_Is e P_peer ErrValidation))"

definition ping_turn :: "'w socket \<Rightarrow> bool \<Rightarrow> 'w \<Rightarrow> 'w \<times> bool" where
  "ping_turn s cancelled w = (case ping s cancelled w of (w1, None) \<Rightarrow> (w1, True) | (w1, Some e) \<Rightarrow> (w1, False))"

definition forward_turn :: "'w socket \<Rightarrow> bool \<Rightarrow> 'w \<Rightarrow> 'w \<times> bool" where
  "forward_turn s cancelled w = (case RecieveEvent (so_Next s cancelled) w of
      (w1, Inl e) \<Rightarrow> (w1, errors_Is e P_peer ErrUnknownMessage)
    | (w1, Inr ev) \<Rightarrow> (case so_Write s cancelled (ws_reply None ev) w1 of
        (w2, Some e) \<Rightarrow> (w2, False)
      | (w2, None) \<Rightarrow> (w2, True)))"

text \<open>
  \<^verbatim>\<open>workers\<close>: a loop that ends cancels the context of all.  A schedule is the order in which
  the loops take their turns, each with the identifier and the time it may draw.
\<close>

record 'w serving =
  sv_World :: 'w
  sv_Cancelled :: bool
  sv_Running :: "worker list"

definition serve_turn ::
  "'w socket \<Rightarrow> 'w emitter \<Rightarrow> peer \<Rightarrow> worker \<times> uuid \<times> time \<Rightarrow> 'w serving \<Rightarrow> 'w serving" where
  "serve_turn s emit p t sv = (case t of (k, new_id, now) \<Rightarrow>
     if k \<notin> set (sv_Running sv) then sv
     else (case (case k of
           Receiver \<Rightarrow> receive_turn s emit new_id now p (sv_Cancelled sv) (sv_World sv)
         | Pinger \<Rightarrow> ping_turn s (sv_Cancelled sv) (sv_World sv)
         | Forwarder \<Rightarrow> forward_turn s (sv_Cancelled sv) (sv_World sv)) of
       (w1, True) \<Rightarrow> sv\<lparr>sv_World := w1\<rparr>
     | (w1, False) \<Rightarrow> \<lparr>sv_World = w1, sv_Cancelled = True, sv_Running = removeAll k (sv_Running sv)\<rparr>))"

definition Serve ::
  "'w socket \<Rightarrow> 'w emitter \<Rightarrow> peer \<Rightarrow> (worker \<times> uuid \<times> time) list \<Rightarrow> 'w \<Rightarrow> 'w serving" where
  "Serve s emit p schedule w =
     fold (serve_turn s emit p) schedule \<lparr>sv_World = w, sv_Cancelled = False, sv_Running = [Receiver, Pinger, Forwarder]\<rparr>"

text \<open>
  \<open>accept\<close> is \<^verbatim>\<open>websocket.Accept\<close>, \<open>watch\<close> the watcher of the room; the socket is what they
  return together.
\<close>

definition NewSocketPeer ::
  "('w \<Rightarrow> 'w \<times> err) \<Rightarrow> (uuid \<Rightarrow> 'w \<Rightarrow> 'w \<times> 'w socket res) \<Rightarrow> 'w emitter \<Rightarrow> uuid \<Rightarrow> uuid \<Rightarrow> time \<Rightarrow> uuid \<Rightarrow> uuid \<Rightarrow> 'w \<Rightarrow>
   'w \<times> ('w socket \<times> peer) res" where
  "NewSocketPeer accept watch emit session new_id now userID roomID w = (case accept w of
      (w1, Some e) \<Rightarrow> (w1, Inl (Wrap ''failed to accept websocket connection'' e))
    | (w1, None) \<Rightarrow> (case watch roomID w1 of
        (w2, Inl e) \<Rightarrow> (w2, Inl e)
      | (w2, Inr s) \<Rightarrow> (case NewPeer emit session new_id now userID roomID w2 of (w3, p) \<Rightarrow> (w3, Inr (s, p)))))"

definition SocketPeer_Close :: "'w socket \<Rightarrow> 'w emitter \<Rightarrow> uuid \<Rightarrow> time \<Rightarrow> peer \<Rightarrow> 'w \<Rightarrow> 'w" where
  "SocketPeer_Close s emit new_id now p w = so_Close s (peer_Close (so_CloseCursor s) emit new_id now p w)"

text \<open>What a request draws: the session, and identifier and time of joining and leaving.\<close>

record socket_draw =
  sd_Session :: uuid
  sd_Join :: "uuid \<times> time"
  sd_Leave :: "uuid \<times> time"

definition socket_room :: "string \<Rightarrow> uuid res" where
  "socket_room path = (let parts = split_on CHR ''/'' path in
     if length parts \<noteq> 4 then Inl (New ''Unexpected URL pattern'') else uuid_Parse (parts ! 3))"

text \<open>The number is the status written before the connection is taken over, if any.\<close>

definition roomWebSocket ::
  "jwt \<Rightarrow> 'w mongo \<Rightarrow> ('w \<Rightarrow> 'w \<times> err) \<Rightarrow> (uuid \<Rightarrow> 'w \<Rightarrow> 'w \<times> 'w socket res) \<Rightarrow> 'w emitter \<Rightarrow> time \<Rightarrow> socket_draw \<Rightarrow>
   request \<Rightarrow> string \<Rightarrow> (worker \<times> uuid \<times> time) list \<Rightarrow> 'w \<Rightarrow> 'w \<times> nat option" where
  "roomWebSocket key m accept watch emit now d rq path schedule w = (case Verify_api key now (WSockContext_Token rq) of
      Inl e \<Rightarrow> (w, Some 401)
    | Inr claims \<Rightarrow> (case socket_room path of
        Inl e \<Rightarrow> (w, Some 404)
      | Inr roomID \<Rightarrow> (case room_FetchOne m (room_lookup_zero\<lparr>rol_ID := roomID\<rparr>) w of
          (w1, Inl e) \<Rightarrow> (w1, Some (if errors_Is e P_room ErrNotFound then 404 else 500))
        | (w1, Inr rm) \<Rightarrow> (case NewSocketPeer accept watch emit (sd_Session d) (fst (sd_Join d)) (snd (sd_Join d))
              (ac_UserID claims) (ro_ID rm) w1 of
            (w2, Inl e) \<Rightarrow> (w2, None)
          | (w2, Inr (s, p)) \<Rightarrow> (SocketPeer_Close s emit (fst (sd_Leave d)) (snd (sd_Leave d)) p
              (sv_World (Serve s emit p schedule w2)), None)))))"

section \<open>What a socket makes its peer say\<close>

text \<open>
  \<open>said\<close> observes the events given to the emitter; the web socket, the cursor, the watcher and
  the store of rooms have no part in it.
\<close>

definition quiet :: "('w \<Rightarrow> 'x) \<Rightarrow> 'w socket \<Rightarrow> bool" where
  "quiet obs s \<longleftrightarrow> (\<forall>c v. obs (fst (so_Read s c v)) = obs v \<and> obs (fst (so_Ping s c v)) = obs v \<and>
      obs (fst (so_Wait s c v)) = obs v \<and> obs (so_Close s v) = obs v \<and> obs (fst (so_Next s c v)) = obs v \<and>
      obs (fst (so_CloseCursor s v)) = obs v) \<and>
    (\<forall>c g v. obs (fst (so_Write s c g v)) = obs v)"

lemma quietD:
  assumes "quiet obs s"
  shows "so_Read s c v = (v1, a) \<Longrightarrow> obs v1 = obs v" "so_Ping s c v = (v1, b) \<Longrightarrow> obs v1 = obs v"
    "so_Wait s c v = (v1, d) \<Longrightarrow> obs v1 = obs v" "so_Write s c g v = (v1, b) \<Longrightarrow> obs v1 = obs v"
    "so_Next s c v = (v1, ev) \<Longrightarrow> obs v1 = obs v" "obs (so_Close s v) = obs v"
    "obs (fst (so_CloseCursor s v)) = obs v"
  using assms unfolding quiet_def by (metis fst_conv)+

definition records_said :: "('w \<Rightarrow> event list) \<Rightarrow> 'w emitter \<Rightarrow> bool" where
  "records_said said emit \<longleftrightarrow> (\<forall>e v. said (fst (emit e v)) = said v @ [e])"

text \<open>A message or a reaction of user \<open>u\<close> in room \<open>r\<close>.\<close>

definition spoken :: "uuid \<Rightarrow> uuid \<Rightarrow> event \<Rightarrow> bool" where
  "spoken u r e \<longleftrightarrow> ev_Room e = r \<and>
    ((\<exists>t. t \<noteq> '''' \<and> ev_Payload e = payload_empty\<lparr>pl_Message := Some \<lparr>pm_From = u, pm_Text = t\<rparr>\<rparr>) \<or>
     (\<exists>c. ev_Payload e = payload_empty\<lparr>pl_Reaction := Some \<lparr>pre_From = u, pre_Reaction = c\<rparr>\<rparr>))"

lemma peer_emit_said:
  assumes "records_said said emit" and "peer_emit emit i now p pl v = (v1, x)"
  shows "said v1 = said v @ [\<lparr>ev_ID = i, ev_Room = pe_RoomID p, ev_CreatedAt = now, ev_Payload = pl\<rparr>]"
  using assms unfolding records_said_def peer_emit_def Let_def
  by (auto split: prod.splits option.splits) (metis fst_conv)+

definition says :: "peer \<Rightarrow> ('w \<Rightarrow> event list) \<Rightarrow> 'w \<Rightarrow> 'w \<Rightarrow> bool" where
  "says p said v v1 \<longleftrightarrow> (\<exists>mid. said v1 = said v @ mid \<and> list_all (spoken (pe_UserID p) (pe_RoomID p)) mid)"

lemma says_nothing: "said v1 = said v \<Longrightarrow> says p said v v1"
  unfolding says_def by (intro exI [of _ "[]"]) simp

lemma says_trans:
  assumes "says p said a b" and "says p said b c"
  shows "says p said a c"
proof -
  from assms obtain m n where "said b = said a @ m" "said c = said b @ n"
    "list_all (spoken (pe_UserID p) (pe_RoomID p)) m" "list_all (spoken (pe_UserID p) (pe_RoomID p)) n"
    by (auto simp: says_def)
  then show ?thesis
    unfolding says_def by (intro exI [of _ "m @ n"]) simp
qed

lemma says_one: "said v1 = said v @ [e] \<Longrightarrow> spoken (pe_UserID p) (pe_RoomID p) e \<Longrightarrow> says p said v v1"
  unfolding says_def by (intro exI [of _ "[e]"]) simp

lemma SendMessage_says:
  assumes "records_said said emit" and "SendMessage emit i now p text v = (v1, x)"
  shows "says p said v v1"
proof (cases "PayloadMessage_Validate \<lparr>pm_From = pe_UserID p, pm_Text = text\<rparr>")
  case None
  with assms have "said v1 = said v @ [\<lparr>ev_ID = i, ev_Room = pe_RoomID p, ev_CreatedAt = now,
      ev_Payload = payload_empty\<lparr>pl_Message := Some \<lparr>pm_From = pe_UserID p, pm_Text = text\<rparr>\<rparr>\<rparr>]"
    by (auto simp: SendMessage_def Let_def dest: peer_emit_said)
  moreover have "text \<noteq> ''''"
    using None by (auto simp: PayloadMessage_Validate_def split: if_splits)
  ultimately show ?thesis
    by (intro says_one [OF _ iffD2 [OF spoken_def]]) auto
qed (use assms in \<open>auto simp: SendMessage_def Let_def says_nothing\<close>)

lemma SendReaction_says:
  assumes "records_said said emit" and "SendReaction emit i now p c v = (v1, x)"
  shows "says p said v v1"
proof -
  have "said v1 = said v @ [\<lparr>ev_ID = i, ev_Room = pe_RoomID p, ev_CreatedAt = now,
      ev_Payload = payload_empty\<lparr>pl_Reaction := Some \<lparr>pre_From = pe_UserID p, pre_Reaction = c\<rparr>\<rparr>\<rparr>]"
    using assms by (auto simp: SendReaction_def Reaction_Validate_def dest: peer_emit_said)
  then show ?thesis
    by (intro says_one [OF _ iffD2 [OF spoken_def]]) auto
qed

lemma receive_says:
  assumes "quiet said s" and "records_said said emit" and "receiveWebsocket s emit i now p c v = (v', x)"
  shows "says p said v v'"
proof -
  obtain v1 a where r: "so_Read s c v = (v1, a)"
    by fastforce
  then have q: "said v1 = said v"
    by (rule quietD [OF assms(1)])
  then have q': "says p said v v1"
    by (rule says_nothing)
  have reply: "says p said v v'" if "says p said v1 v2" "so_Write s c g v2 = (v', b)" for v2 g b
    using says_trans [OF q' says_trans [OF that(1) says_nothing [where said = said, OF quietD(4) [OF assms(1) that(2)]]]] .
  show ?thesis
  proof (cases a)
    case (Inl e)
    with r assms(3) q show ?thesis
      by (auto simp: receiveWebsocket_def intro: says_nothing)
  next
    case (Inr msg)
    show ?thesis
    proof (cases "wm_PeerMessage msg")
      case (Some tx)
      obtain v2 y where m: "SendMessage emit i now p tx v1 = (v2, y)"
        by fastforce
      note s = SendMessage_says [OF assms(2) m]
      show ?thesis
      proof (cases y)
        case (Inl e)
        with m r Inr Some assms(3) have "v' = v2"
          by (simp add: receiveWebsocket_def)
        with s says_trans [OF q'] show ?thesis by blast
      next
        case (Inr ev)
        with m r \<open>a = Inr msg\<close> Some assms(3) reply [OF s] show ?thesis
          by (simp add: receiveWebsocket_def)
      qed
    next
      case None
      show ?thesis
      proof (cases "wm_Reaction msg")
        case (Some clap)
        obtain v2 y where m: "SendReaction emit i now p \<lparr>re_Clap = map_option (\<lambda>b. \<lparr>rc_IsStarting = b\<rparr>) clap\<rparr> v1 = (v2, y)"
          by fastforce
        note s = SendReaction_says [OF assms(2) m]
        show ?thesis
        proof (cases y)
          case (Inl e)
          with m r Inr None Some assms(3) have "v' = v2"
            by (simp add: receiveWebsocket_def)
          with s says_trans [OF q'] show ?thesis by blast
        next
          case (Inr ev)
          with m r \<open>a = Inr msg\<close> None Some assms(3) reply [OF s] show ?thesis
            by (simp add: receiveWebsocket_def)
        qed
      qed (use r Inr None assms(3) q in \<open>auto simp: receiveWebsocket_def intro: says_nothing\<close>)
    qed
  qed
qed

lemma ping_quiet:
  assumes "quiet said s" and "ping_turn s c v = (v', x)"
  shows "said v' = said v"
proof -
  obtain v1 a where p: "so_Ping s c v = (v1, a)"
    by fastforce
  obtain v2 b where t: "so_Wait s c v1 = (v2, b)"
    by fastforce
  show ?thesis
    using assms(2) quietD(2) [OF assms(1) p] quietD(3) [OF assms(1) t] p t
    by (auto simp: ping_turn_def ping_def split: option.splits bool.splits)
qed

lemma forward_quiet:
  assumes "quiet said s" and "forward_turn s c v = (v', x)"
  shows "said v' = said v"
proof -
  obtain v1 a where n: "so_Next s c v = (v1, a)"
    by fastforce
  obtain v2 b where t: "so_Write s c (ws_reply None (projr a)) v1 = (v2, b)"
    by fastforce
  show ?thesis
    using assms(2) quietD(5) [OF assms(1) n] quietD(4) [OF assms(1) t] n t
    by (auto simp: forward_turn_def RecieveEvent_def split: option.splits sum.splits)
qed

lemma turn_says:
  assumes "quiet said s" and "records_said said emit"
  shows "says p said (sv_World sv) (sv_World (serve_turn s emit p t sv))"
proof -
  obtain k i now where t: "t = (k, i, now)"
    by (cases t)
  show ?thesis
  proof (cases k)
    case Receiver
    obtain v' x where r: "receiveWebsocket s emit i now p (sv_Cancelled sv) (sv_World sv) = (v', x)"
      by fastforce
    from receive_says [OF assms r] r Receiver t show ?thesis
      by (auto simp: serve_turn_def receive_turn_def says_nothing split: option.split bool.split)
  next
    case Pinger
    obtain v' x where "ping_turn s (sv_Cancelled sv) (sv_World sv) = (v', x)"
      by fastforce
    with ping_quiet [OF assms(1) this] Pinger t show ?thesis
      by (auto simp: serve_turn_def says_nothing split: bool.split)
  next
    case Forwarder
    obtain v' x where "forward_turn s (sv_Cancelled sv) (sv_World sv) = (v', x)"
      by fastforce
    with forward_quiet [OF assms(1) this] Forwarder t show ?thesis
      by (auto simp: serve_turn_def says_nothing split: bool.split)
  qed
qed

lemma Serve_says:
  assumes "quiet said s" and "records_said said emit"
  shows "says p said w (sv_World (Serve s emit p schedule w))"
proof -
  have "says p said (sv_World sv) (sv_World (fold (serve_turn s emit p) ts sv))" for ts sv
    by (induction ts arbitrary: sv) (auto intro: says_nothing says_trans [OF turn_says [OF assms]])
  then show ?thesis
    by (metis Serve_def serving.select_convs(1))
qed

definition peer_state_event :: "peer \<Rightarrow> string \<Rightarrow> uuid \<times> time \<Rightarrow> event" where
  "peer_state_event p st d = \<lparr>ev_ID = fst d, ev_Room = pe_RoomID p, ev_CreatedAt = snd d,
     ev_Payload = peer_state_payload p st\<rparr>"

lemma room_by_id:
  assumes "mongo_laws m docs" and "room_FetchOne m (room_lookup_zero\<lparr>rol_ID := i\<rparr>) w = (w1, Inr rm)"
  shows "\<exists>d \<in> set (docs w ''rooms''). room_dec d = Inr rm \<and> (i = uuid_Nil \<or> ro_ID rm = i)"
proof -
  have "room_Fetch m (room_lookup_zero\<lparr>rol_ID := i\<rparr>) w = (w1, Inr [rm])"
    using assms(2) by (simp add: room_FetchOne_def fetch_one_Inr)
  then obtain d where d: "d \<in> set (docs w ''rooms'')" "room_dec d = Inr rm"
    "i \<noteq> uuid_Nil \<Longrightarrow> bget d ''_id'' = Some (BUuid i)"
    using find_decoded_member [OF assms(1)] by (fastforce simp: room_Fetch_def room_lookup_zero_def)
  moreover have "ro_ID rm = i" if "bget d ''_id'' = Some (BUuid i)"
    using d(2) that by (auto simp: room_dec_def dec_defs bindr_def split: sum.splits)
  ultimately show ?thesis by blast
qed

text \<open>
  C29: Whatever the browser sends and however the loops interleave, a request for a room socket
  either has nothing said, or its token verifies, the room of its path is stored (the nil path
  finds the only room there is), and what is said is: the user of the token joined under the
  new session, then messages and reactions of that user in that room, then the same session
  left.
\<close>

theorem socket_speaks_as_itself:
  assumes "mongo_laws m docs" and "records_said said emit"
    and "\<forall>l v. said (fst (room_FetchOne m l v)) = said v" and "\<forall>v. said (fst (accept v)) = said v"
    and "\<forall>r v. said (fst (watch r v)) = said v" and "\<forall>r v v1 s. watch r v = (v1, Inr s) \<longrightarrow> quiet said s"
    and "roomWebSocket key m accept watch emit now d rq path schedule w = (w', x)"
  shows "said w' = said w \<or>
    (\<exists>claims i rm p mid. Verify_api key now (WSockContext_Token rq) = Inr claims \<and> socket_room path = Inr i \<and>
      (\<exists>dc \<in> set (docs w ''rooms''). room_dec dc = Inr rm) \<and> (i = uuid_Nil \<or> ro_ID rm = i) \<and>
      p = \<lparr>pe_UserID = ac_UserID claims, pe_RoomID = ro_ID rm, pe_SessionID = sd_Session d\<rparr> \<and>
      list_all (spoken (ac_UserID claims) (ro_ID rm)) mid \<and>
      said w' = said w @ peer_state_event p PeerJoined (sd_Join d) # mid @ [peer_state_event p PeerLeft (sd_Leave d)])"
proof (cases "Verify_api key now (WSockContext_Token rq)")
  case (Inl e)
  with assms(7) show ?thesis by (simp add: roomWebSocket_def)
next
  case claims: (Inr claims)
  show ?thesis
  proof (cases "socket_room path")
    case (Inl e)
    with claims assms(7) show ?thesis by (simp add: roomWebSocket_def)
  next
    case i: (Inr i)
    obtain w1 y where f: "room_FetchOne m (room_lookup_zero\<lparr>rol_ID := i\<rparr>) w = (w1, y)"
      by fastforce
    then have w1: "said w1 = said w"
      using assms(3) by (metis fst_conv)
    show ?thesis
    proof (cases y)
      case (Inl e)
      with f w1 claims i assms(7) show ?thesis by (auto simp: roomWebSocket_def)
    next
      case rm: (Inr rm)
      obtain w2 a where a: "accept w1 = (w2, a)"
        by fastforce
      then have w2: "said w2 = said w"
        using assms(4) w1 by (metis fst_conv)
      obtain w3 b where b: "watch (ro_ID rm) w2 = (w3, b)"
        by fastforce
      then have w3: "said w3 = said w"
        using assms(5) w2 by (metis fst_conv)
      show ?thesis
      proof (cases "a = None \<and> is_ok b")
        case False
        then have "w' = w2 \<or> w' = w3"
          using assms(7) claims i f rm a b by (cases a; cases b) (auto simp: roomWebSocket_def NewSocketPeer_def)
        with w2 w3 show ?thesis by blast
      next
        case True
        then obtain s where s: "a = None" "b = Inr s"
          by (auto simp: is_ok_iff)
        have q: "quiet said s"
          using assms(6) b s(2) by blast
        let ?p = "\<lparr>pe_UserID = ac_UserID claims, pe_RoomID = ro_ID rm, pe_SessionID = sd_Session d\<rparr>"
        obtain w4 where j: "NewPeer emit (sd_Session d) (fst (sd_Join d)) (snd (sd_Join d)) (ac_UserID claims) (ro_ID rm) w3
            = (w4, ?p)"
          by (simp add: NewPeer_def Let_def)
        then have w4: "said w4 = said w @ [peer_state_event ?p PeerJoined (sd_Join d)]"
          using peer_emit_said [OF assms(2) prod.collapse [symmetric]] w3
          by (auto simp: NewPeer_def Let_def peer_state_event_def)
        obtain mid where mid: "said (sv_World (Serve s emit ?p schedule w4)) = said w4 @ mid"
          "list_all (spoken (ac_UserID claims) (ro_ID rm)) mid"
          using Serve_says [OF q assms(2), of ?p w4 schedule] by (auto simp: says_def)
        have "w' = SocketPeer_Close s emit (fst (sd_Leave d)) (snd (sd_Leave d)) ?p (sv_World (Serve s emit ?p schedule w4))"
          using assms(7) claims i f rm a b s j by (auto simp: roomWebSocket_def NewSocketPeer_def)
        then have "said w' = said w4 @ mid @ [peer_state_event ?p PeerLeft (sd_Leave d)]"
          using peer_emit_said [OF assms(2) prod.collapse [symmetric]] mid(1)
          by (simp add: SocketPeer_Close_def peer_Close_def quietD [OF q] peer_state_event_def)
        with w4 mid(2) claims i room_by_id [OF assms(1) f [unfolded rm]] show ?thesis
          by (intro disjI2 exI [of _ claims] exI [of _ i] exI [of _ rm] exI [of _ ?p] exI [of _ mid]) auto
      qed
    qed
  qed
qed

text \<open>
  The library on a cancelled context: reading and pinging fail with it, nothing is written, and
  the cursor does not call an event unknown.
\<close>

definition cancel_laws :: "'w socket \<Rightarrow> bool" where
  "cancel_laws s \<longleftrightarrow> (\<forall>v. \<exists>v1 e. so_Read s True v = (v1, Inl e) \<and> errors_Is e P_context Canceled) \<and>
     (\<forall>v. snd (so_Ping s True v) \<noteq> None) \<and> (\<forall>g v. snd (so_Write s True g v) \<noteq> None) \<and>
     (\<forall>v v1 e. so_Next s True v = (v1, Inl e) \<longrightarrow> \<not> errors_Is e P_event ErrUnknownEvent \<and> \<not> errors_Is e P_peer ErrUnknownMessage)"

lemma cancelled_turn:
  assumes "cancel_laws s" and "sv_Cancelled sv"
  shows "sv_Running (serve_turn s emit p (k, i, now) sv) = removeAll k (sv_Running sv)" (is ?A)
    and "sv_Cancelled (serve_turn s emit p t sv)" (is ?B)
proof -
  have read: "\<exists>v1. receive_turn s emit i now p True v = (v1, False)" for v
  proof -
    obtain v1 e where "so_Read s True v = (v1, Inl e)" "errors_Is e P_context Canceled"
      using assms(1) unfolding cancel_laws_def by blast
    then show ?thesis
      by (simp add: receive_turn_def receiveWebsocket_def)
  qed
  have png: "\<exists>v1. ping_turn s True v = (v1, False)" for v
  proof -
    obtain v1 a where "so_Ping s True v = (v1, a)"
      by fastforce
    moreover then have "a \<noteq> None"
      using assms(1) unfolding cancel_laws_def by (metis snd_conv)
    ultimately show ?thesis
      by (auto simp: ping_turn_def ping_def)
  qed
  have fwd: "\<exists>v1. forward_turn s True v = (v1, False)" for v
  proof -
    obtain v1 a where a: "so_Next s True v = (v1, a)"
      by fastforce
    obtain v2 b where b: "so_Write s True (ws_reply None (projr a)) v1 = (v2, b)"
      by fastforce
    then have "b \<noteq> None"
      using assms(1) unfolding cancel_laws_def by (metis snd_conv)
    moreover have "a = Inl e \<Longrightarrow> \<not> errors_Is e P_event ErrUnknownEvent \<and> \<not> errors_Is e P_peer ErrUnknownMessage" for e
      using assms(1) a unfolding cancel_laws_def by metis
    ultimately show ?thesis
      using a b by (cases a) (auto simp: forward_turn_def RecieveEvent_def)
  qed
  show ?A
    using assms(2) read [of "sv_World sv"] png [of "sv_World sv"] fwd [of "sv_World sv"]
    by (cases k) (auto simp: serve_turn_def)
  show ?B
    using assms(2) by (cases t) (auto simp: serve_turn_def split: prod.splits bool.splits)
qed

lemma cancelled_turns:
  assumes "cancel_laws s" and "sv_Cancelled sv"
  shows "sv_Running (fold (serve_turn s emit p) ts sv) = filter (\<lambda>k. k \<notin> fst ` set ts) (sv_Running sv)"
  using assms(2)
proof (induction ts arbitrary: sv)
  case (Cons t ts)
  obtain k i now where t: "t = (k, i, now)"
    by (cases t)
  show ?case
    using Cons.IH [OF cancelled_turn(2) [OF assms(1) Cons.prems, of emit p t]] cancelled_turn(1) [OF assms(1) Cons.prems]
    by (simp add: t removeAll_filter_not_eq) (intro filter_cong, auto)
qed simp

lemma not_cancelled:
  "\<not> sv_Cancelled sv \<Longrightarrow> \<not> sv_Cancelled (fold (serve_turn s emit p) ts sv) \<Longrightarrow>
   sv_Running (fold (serve_turn s emit p) ts sv) = sv_Running sv"
proof (induction ts arbitrary: sv)
  case (Cons t ts)
  let ?sv = "serve_turn s emit p t sv"
  have step: "\<not> sv_Cancelled ?sv \<Longrightarrow> sv_Running ?sv = sv_Running sv"
    using Cons.prems(1) by (cases t) (auto simp: serve_turn_def split: prod.splits bool.splits)
  have latch: "sv_Cancelled ?sv \<Longrightarrow> sv_Cancelled (fold (serve_turn s emit p) ts ?sv)" for ts
  proof (induction ts rule: rev_induct)
    case (snoc u us)
    then show ?case
      by (cases u) (auto simp: serve_turn_def split: prod.splits bool.splits)
  qed simp
  then have "\<not> sv_Cancelled ?sv"
    using Cons.prems(2) by auto
  with Cons.IH [OF this] Cons.prems(2) step show ?case by simp
qed simp

text \<open>
  C30: As soon as one loop of a socket has ended, for whatever reason, every other loop ends in its
  next turn, so the peer is closed and its leaving announced.
\<close>

theorem socket_workers_end:
  assumes "cancel_laws s" and "sv_Running (Serve s emit p pre w) \<noteq> [Receiver, Pinger, Forwarder]"
    and "{Receiver, Pinger, Forwarder} \<subseteq> fst ` set post"
  shows "sv_Running (Serve s emit p (pre @ post) w) = []"
proof -
  let ?sv = "Serve s emit p pre w"
  let ?init = "\<lparr>sv_World = w, sv_Cancelled = False, sv_Running = [Receiver, Pinger, Forwarder]\<rparr>"
  have "sv_Cancelled ?sv"
  proof (rule ccontr)
    assume "\<not> sv_Cancelled ?sv"
    then have "sv_Running ?sv = [Receiver, Pinger, Forwarder]"
      using not_cancelled [of ?init s emit p pre] unfolding Serve_def by simp
    with assms(2) show False by contradiction
  qed
  then have "sv_Running (fold (serve_turn s emit p) post ?sv) = filter (\<lambda>k. k \<notin> fst ` set post) (sv_Running ?sv)"
    by (rule cancelled_turns [OF assms(1)])
  moreover have "k \<in> fst ` set post" for k
    using assms(3) by (cases k) auto
  ultimately show ?thesis
    by (simp add: Serve_def)
qed

section \<open>The history of a room\<close>

lemma event_from_filter:
  assumes "k = zero_key \<or> fst k \<noteq> time_zero \<and> snd k \<noteq> uuid_Nil"
  shows "matches (event_mongoFilter (event_lookup_zero\<lparr>el_Room := rm, el_Limit := l, el_From := from_key k, el_Asc := asc\<rparr>))
      (event_enc e) \<longleftrightarrow> (rm = uuid_Nil \<or> ev_Room e = rm) \<and> (k = zero_key \<or> key_less asc k (event_key e))"
proof -
  have "bget (event_enc e) ''roomId'' = Some (BUuid (ev_Room e))"
    by (simp add: event_enc_def bget_def)
  moreover have "k \<noteq> zero_key" if "fst k \<noteq> time_zero"
    using that by (auto simp: zero_key_def)
  ultimately show ?thesis
    using assms
    by (auto simp: event_mongoFilter_def event_lookup_zero_def Let_def from_key_def IsZero_def zero_key_def events.after_both_key)
qed

definition events_limit :: "int \<Rightarrow> int" where
  "events_limit limit = (if limit < 0 \<or> limit > events_batchLimit then events_batchLimit else limit)"

text \<open>The history as it is stored: distinct events with the keys a cursor can carry.\<close>

definition history :: "event list \<Rightarrow> bool" where
  "history evs \<longleftrightarrow> distinct (map ev_ID evs) \<and>
     list_all (\<lambda>e. api_time (ev_CreatedAt e) \<and> ev_CreatedAt e \<noteq> time_zero \<and> ev_ID e \<noteq> uuid_Nil) evs"

definition of_room :: "uuid \<Rightarrow> event \<Rightarrow> bool" where
  "of_room rm e \<longleftrightarrow> rm = uuid_Nil \<or> ev_Room e = rm"

text \<open>What one request answers.\<close>

lemma graph_Events_page:
  assumes "mongo_laws m docs" and "docs v event_collection = map event_enc evs" and "history evs"
    and "rr_Events rr = event_Fetch m" and "Verify_api (rr_Key rr) now (HTTPContext_Token rq) = Inr claims"
    and "uuid_Parse roomID = Inr rm"
    and "k = zero_key \<or> fst k \<noteq> time_zero \<and> snd k \<noteq> uuid_Nil" and "parse_cursor cur = Inr (from_key k, asc)"
    and "graph_Events rr now rq roomID limit cur v = (v', x)"
  shows "case x of
      Inl e \<Rightarrow> e = rtc_NewInternalError
    | Inr page \<Rightarrow> docs v' event_collection = map event_enc evs \<and>
        (let ys = take_limit (events_limit limit) (selected asc event_key k (ordered asc event_key (filter (of_room rm) evs))) in
         ls_Items page = map (newGraphEvent (rr_Json rr)) ys \<and> ls_Limit page = events_limit limit \<and>
         ls_Next page = (if ys = [] then None else Some \<lparr>xu_ID = Some (uuid_String (ev_ID (last ys))),
           xu_CreatedAt = Some (Sprint_int (UnixMilli (ev_CreatedAt (last ys)))), xu_Asc = None\<rparr>))"
proof -
  let ?l = "event_lookup_zero\<lparr>el_Room := rm, el_Limit := events_limit limit, el_From := from_key k, el_Asc := asc\<rparr>"
  obtain v1 y where f: "event_Fetch m ?l v = (v1, y)"
    by fastforce
  show ?thesis
  proof (cases y)
    case (Inl e)
    with f assms(4-6,8,9) show ?thesis
      by (auto simp: graph_Events_def Let_def events_limit_def)
  next
    case (Inr ys)
    have dk: "distinct (map (snd \<circ> event_key) evs)"
      using assms(3) by (simp add: history_def event_key_def comp_def)
    have "find_decoded m event_collection event_dec (event_mongoFilter ?l) (page_sort asc) (events_limit limit) v = (v1, Inr ys)"
      using f Inr by (simp add: event_Fetch_def)
    from events.page_limit [OF assms(1,2) dk _ this, of "of_room rm" k]
    have "docs v1 event_collection = map event_enc evs"
      "ys = take_limit (events_limit limit) (selected asc event_key k (ordered asc event_key (filter (of_room rm) evs)))"
      using event_from_filter [OF assms(7)] by (simp_all add: of_room_def)
    moreover have "v' = v1" "x = Inr \<lparr>ls_Items = map (newGraphEvent (rr_Json rr)) ys, ls_Limit = events_limit limit,
        ls_Next = (if ys = [] then None else Some \<lparr>xu_ID = Some (uuid_String (ev_ID (last ys))),
           xu_CreatedAt = Some (Sprint_int (UnixMilli (ev_CreatedAt (last ys)))), xu_Asc = None\<rparr>)\<rparr>"
      using f Inr assms(4-6,8,9) by (auto simp: graph_Events_def Let_def events_limit_def last_map newGraphEvent_def NewRoomEvent_def)
    ultimately show ?thesis
      by (simp add: Let_def)
  qed
qed

text \<open>
  C26: A client that lists the events of a room by following the cursors, in either order and with
  any limit, ends after at most one request more than there are events; unless the store fails,
  it has seen the whole history of the room, each event once and in order.
\<close>

theorem events_listing_complete:
  assumes "mongo_laws m docs" and "docs w event_collection = map event_enc evs" and "history evs"
    and "rr_Events rr = event_Fetch m" and "Verify_api (rr_Key rr) now (HTTPContext_Token rq) = Inr claims"
    and "uuid_Parse roomID = Inr rm" and "length evs < n"
  shows "\<exists>r. api_walk n (graph_Events rr now rq roomID limit) (\<lambda>c. c\<lparr>xu_Asc := Some asc\<rparr>)
      (Some \<lparr>xu_ID = None, xu_CreatedAt = None, xu_Asc = Some asc\<rparr>) w = Some r \<and>
    (case r of
      Inl e \<Rightarrow> e = rtc_NewInternalError
    | Inr pages \<Rightarrow> concat pages =
        map (newGraphEvent (rr_Json rr)) (ordered asc event_key (filter (of_room rm) evs)))"
proof -
  let ?all = "ordered asc event_key (filter (of_room rm) evs)"
  define K where "K = (\<lambda>k cur. (k = zero_key \<or> fst k \<noteq> time_zero \<and> snd k \<noteq> uuid_Nil) \<and>
    parse_cursor cur = Inr (from_key k, asc))"
  define l where "l = (if events_limit limit = 0 then Suc (length evs) else nat (events_limit limit))"
  have keys: "api_time (ev_CreatedAt e)" "ev_CreatedAt e \<noteq> time_zero" "ev_ID e \<noteq> uuid_Nil" if "e \<in> set evs" for e
    using assms(3) that by (auto simp: history_def list_all_iff)
  have dk: "distinct (map event_key (filter (of_room rm) evs))"
  proof -
    have "distinct (map snd (map event_key (filter (of_room rm) evs)))"
      using assms(3) by (simp add: history_def event_key_def comp_def distinct_map_filter)
    then show ?thesis by (metis distinct_map)
  qed
  have set: "set ?all = {e \<in> set evs. of_room rm e}"
    by (metis mset_ordered set_filter set_mset_mset)
  have len: "length ?all \<le> length evs"
    by (metis length_filter_le mset_ordered size_mset)
  have pos: "0 < l"
    by (auto simp: l_def events_limit_def events_batchLimit_def)
  have limited: "take_limit (events_limit limit) (selected asc event_key k ?all) = take l (selected asc event_key k ?all)" for k
  proof -
    have "length (selected asc event_key k ?all) \<le> length evs"
      using len unfolding selected_def by (meson le_trans length_filter_le)
    then show ?thesis
      by (auto simp: take_limit_def l_def events_limit_def events_batchLimit_def)
  qed
  have step: "case graph_Events rr now rq roomID limit cur v of
        (v', Inl e) \<Rightarrow> e = rtc_NewInternalError
      | (v', Inr page) \<Rightarrow> (let ys = take l (selected asc event_key k ?all) in
          docs v' event_collection = map event_enc evs \<and> ls_Items page = map (newGraphEvent (rr_Json rr)) ys \<and>
          (case ls_Next page of None \<Rightarrow> length ys < l
           | Some c \<Rightarrow> ys \<noteq> [] \<and> K (event_key (last ys)) (Some (c\<lparr>xu_Asc := Some asc\<rparr>))))"
    if v: "docs v event_collection = map event_enc evs" and K: "K k cur" for k cur v
  proof -
    obtain v' x where run: "graph_Events rr now rq roomID limit cur v = (v', x)"
      by fastforce
    let ?ys = "take l (selected asc event_key k ?all)"
    have "last ?ys \<in> set evs" if "?ys \<noteq> []"
      using last_in_set [OF that] set by (auto simp: selected_def dest: in_set_takeD)
    then have "K (event_key (last ?ys)) (Some \<lparr>xu_ID = Some (uuid_String (ev_ID (last ?ys))),
        xu_CreatedAt = Some (Sprint_int (UnixMilli (ev_CreatedAt (last ?ys)))), xu_Asc = Some asc\<rparr>)" if "?ys \<noteq> []"
      using that keys by (auto simp: K_def event_key_def parse_next)
    with graph_Events_page [OF assms(1) v assms(3-6) _ _ run, of k asc] K run pos show ?thesis
      unfolding limited by (auto simp: K_def Let_def split: sum.splits)
  qed
  have "K zero_key (Some \<lparr>xu_ID = None, xu_CreatedAt = None, xu_Asc = Some asc\<rparr>)"
    by (simp add: K_def parse_cursor_def from_key_def zero_key_def)
  moreover have "length ?all < n"
    using assms(7) len by simp
  moreover have "\<forall>e \<in> set ?all. event_key e \<noteq> zero_key"
    using keys set by (auto simp: event_key_def zero_key_def)
  ultimately show ?thesis
    by (intro api_walk_rest [where Q = "\<lambda>e. e = rtc_NewInternalError" and K = K and k = zero_key and l = l and asc = asc and
        key = event_key and P = "\<lambda>v. docs v event_collection = map event_enc evs"])
      (use step ordered_strict [OF dk] pos assms(2) in \<open>auto simp: selected_def intro: exI [of _ "[]"]\<close>)
qed


section \<open>Runs\<close>

definition hello :: ws_message where
  "hello = \<lparr>wm_Event = None, wm_PeerMessage = Some ''hi'', wm_Reaction = None, wm_RequestID = None, wm_ResponseID = None\<rparr>"

definition demo_socket :: "(event list \<times> mem) socket" where
  "demo_socket = \<lparr>so_Read = \<lambda>c w. (w, if c then Inl (Sentinel P_context Canceled) else Inr hello),
     so_Write = \<lambda>c g w. (w, if c then Some (Sentinel P_context Canceled) else None),
     so_Ping = \<lambda>c w. (w, if c then Some (Sentinel P_context Canceled) else None),
     so_Wait = \<lambda>c w. (w, c), so_Close = id, so_Next = \<lambda>c w. (w, Inl (Sentinel P_context Canceled)),
     so_CloseCursor = \<lambda>w. (w, None), so_IsCloseError = \<lambda>_. False, so_IsEOF = \<lambda>_. False\<rparr>"

definition log_event :: "(event list \<times> mem) emitter" where
  "log_event e w = ((fst w @ [e], snd w), None)"

definition peer_key :: jwt where
  "peer_key = toy_jwt (api_claims_json (NewAPIClaims 0 7 AccountUser))"

definition peer_request :: request where
  "peer_request = \<lparr>rq_Method = ''GET'', rq_Authorization = ''Bearer tok'', rq_Cookies = [], rq_T = Some [''tok'']\<rparr>"

lemma peer_key_ok:
  "Verify_api peer_key 0 ''tok'' = Inr (NewAPIClaims 0 7 AccountUser)"
  "WSockContext_Token peer_request = ''tok''" "HTTPContext_Token peer_request = ''tok''"
  by (simp_all add: peer_key_def toy_jwt_def Verify_api_def PublicKey_Verify_def APIClaims_Valid_def NewAPIClaims_def
      StandardClaims_Valid_def expires_def Unix_def apiExpire_def duration_defs WSockContext_Token_def peer_request_def
      HTTPContext_Token_def)

definition room_mem :: mem where
  "room_mem = (\<lambda>_. [])(''rooms'' := [room_enc \<lparr>ro_ID = 3, ro_Owner = 1, ro_CreatedAt = 5\<rparr>])"

lemma demo_socket_laws: "quiet fst demo_socket" "cancel_laws demo_socket" "records_said fst log_event"
  by (simp_all add: quiet_def cancel_laws_def records_said_def demo_socket_def log_event_def)

lemma demo_socket_close: "so_Close demo_socket v = v"
  by (simp add: demo_socket_def)

lemma demo_room_quiet: "fst (fst (room_FetchOne (beside mem_mongo) l v)) = fst v"
proof -
  have "fst (fst (mg_find (beside mem_mongo) c f so k v)) = fst v" for c f so k
    by (simp add: beside_def mem_mongo_def split_beta)
  then show ?thesis
    by (simp add: room_FetchOne_def room_Fetch_def fetch_one_def find_decoded_def prod.case_eq_if split: sum.split)
qed

definition demo_path :: string where
  "demo_path = ''/room/socket/00000000000000000000000000000003''"

lemma demo_path_room: "socket_room demo_path = Inr 3"
  by code_simp

abbreviation demo_run where
  "demo_run schedule \<equiv> roomWebSocket peer_key (beside mem_mongo) (\<lambda>w. (w, None)) (\<lambda>_ w. (w, Inr demo_socket)) log_event 0
     \<lparr>sd_Session = 4, sd_Join = (5, 10), sd_Leave = (6, 20)\<rparr> peer_request demo_path schedule ([], room_mem)"

theorem socket_speaks_as_itself_witness:
  "let p = \<lparr>pe_UserID = 7, pe_RoomID = 3, pe_SessionID = 4\<rparr> in
   \<exists>mid. list_all (spoken 7 3) mid \<and> fst (fst (demo_run [(Receiver, 8, 15)])) =
     peer_state_event p PeerJoined (5, 10) # mid @ [peer_state_event p PeerLeft (6, 20)]"
proof -
  have rm: "room_FetchOne (beside mem_mongo) (room_lookup_zero\<lparr>rol_ID := 3\<rparr>) ([], room_mem) =
      (([], room_mem), Inr \<lparr>ro_ID = 3, ro_Owner = 1, ro_CreatedAt = 5\<rparr>)"
    by (simp add: room_FetchOne_def room_Fetch_def fetch_one_def find_decoded_def beside_def mem_mongo_def room_mem_def
        room_lookup_zero_def uuid_Nil_def clamp_limit_def room_batchLimit_def take_limit_def exactly_one_def
        rooms.dec_enc) (simp add: room_enc_def bget_def)
  obtain w' x where run: "demo_run [(Receiver, 8, 15)] = (w', x)"
    by fastforce
  have "fst w' \<noteq> []"
    using run by (simp add: roomWebSocket_def peer_key_ok demo_path_room rm NewSocketPeer_def NewPeer_def Let_def
        SocketPeer_Close_def peer_Close_def peer_emit_def log_event_def demo_socket_close) auto
  moreover have "\<forall>l v. fst (fst (room_FetchOne (beside mem_mongo) l v)) = fst v"
    using demo_room_quiet by blast
  note socket_speaks_as_itself [OF beside_laws [OF mem_mongo_laws] demo_socket_laws(3) this _ _ _ run]
  ultimately show ?thesis
    using demo_socket_laws(1) peer_key_ok(1,2) demo_path_room run
    by (auto simp: Let_def NewAPIClaims_def uuid_Nil_def)
qed

theorem socket_workers_end_witness:
  "sv_Running (Serve demo_socket log_event \<lparr>pe_UserID = 7, pe_RoomID = 3, pe_SessionID = 4\<rparr>
     ([(Receiver, 8, 15), (Forwarder, 0, 0)] @ [(Pinger, 0, 0), (Forwarder, 0, 0), (Receiver, 9, 16)]) ([], room_mem)) = []"
proof -
  have "sv_Running (Serve demo_socket log_event \<lparr>pe_UserID = 7, pe_RoomID = 3, pe_SessionID = 4\<rparr>
      [(Receiver, 8, 15), (Forwarder, 0, 0)] ([], room_mem)) \<noteq> [Receiver, Pinger, Forwarder]"
    by (simp add: Serve_def serve_turn_def receive_turn_def receiveWebsocket_def demo_socket_def hello_def SendMessage_def
        PayloadMessage_Validate_def uuid_Nil_def Let_def peer_emit_def log_event_def forward_turn_def RecieveEvent_def)
  from socket_workers_end [OF demo_socket_laws(2) this] show ?thesis
    by simp
qed

definition room_history :: "event list" where
  "room_history = map (\<lambda>(i, t). \<lparr>ev_ID = i, ev_Room = 3, ev_CreatedAt = of_UnixMilli t,
     ev_Payload = payload_empty\<lparr>pl_Recording := Some \<lparr>prec_Status = RecordingStarted\<rparr>\<rparr>\<rparr>) [(5, 20), (4, 10), (6, 20)]"

definition history_mem :: mem where
  "history_mem = (\<lambda>_. [])(event_collection := map event_enc room_history)"

definition demo_rtc :: "mem rtc_resolver" where
  "demo_rtc = \<lparr>rr_Key = peer_key, rr_LiveKit = (''key'', ''secret''), rr_ToJWT = \<lambda>_. Inr ''jwt'',
     rr_Events = event_Fetch mem_mongo, rr_Recordings = record_Fetch mem_mongo, rr_Json = \<lambda>_. ''{}''\<rparr>"

lemma room_history_ok: "history room_history"
  by (simp add: history_def room_history_def api_time_def of_UnixMilli_def UnixMilli_def time_zero_def uuid_Nil_def)

abbreviation demo_room_id :: string where
  "demo_room_id \<equiv> ''00000000000000000000000000000003''"

lemma demo_room_id_ok: "uuid_Parse demo_room_id = Inr 3"
  by code_simp

lemma demo_rtc_ok:
  "rr_Events demo_rtc = event_Fetch mem_mongo" "history_mem event_collection = map event_enc room_history"
  "Verify_api (rr_Key demo_rtc) 0 (HTTPContext_Token peer_request) = Inr (NewAPIClaims 0 7 AccountUser)"
  by (simp_all add: demo_rtc_def history_mem_def peer_key_ok)

theorem events_listing_complete_witness:
  "\<exists>r. api_walk 4 (graph_Events demo_rtc 0 peer_request demo_room_id 2) (\<lambda>c. c\<lparr>xu_Asc := Some True\<rparr>)
      (Some \<lparr>xu_ID = None, xu_CreatedAt = None, xu_Asc = Some True\<rparr>) history_mem = Some r \<and>
    (case r of Inl e \<Rightarrow> e = rtc_NewInternalError | Inr pages \<Rightarrow> map ge_CreatedAt (concat pages) = [''10'', ''20'', ''20''])"
proof -
  have "length room_history < 4"
    by (simp add: room_history_def)
  from events_listing_complete [where docs = "\<lambda>w. w" and w = history_mem and n = 4 and asc = True and limit = 2,
      OF mem_mongo_laws demo_rtc_ok(2) room_history_ok demo_rtc_ok(1,3) demo_room_id_ok this]
  obtain r where r: "api_walk 4 (graph_Events demo_rtc 0 peer_request demo_room_id 2) (\<lambda>c. c\<lparr>xu_Asc := Some True\<rparr>)
      (Some \<lparr>xu_ID = None, xu_CreatedAt = None, xu_Asc = Some True\<rparr>) history_mem = Some r"
    "case r of Inl e \<Rightarrow> e = rtc_NewInternalError | Inr pages \<Rightarrow> concat pages =
        map (newGraphEvent (rr_Json demo_rtc)) (ordered True event_key (filter (of_room 3) room_history))"
    by blast
  have "map ge_CreatedAt (map (newGraphEvent (rr_Json demo_rtc)) (ordered True event_key (filter (of_room 3) room_history))) =
      [''10'', ''20'', ''20'']"
    by code_simp
  with r show ?thesis
    by (intro exI [of _ r]) (auto split: sum.splits)
qed


end
