(* ===== verification/Track_Writer.thy ===== *)
theory Track_Writer
  imports Rtc_Jobs Steps
begin

text \<open>
  The recording of one track: the RTP writers of \<^verbatim>\<open>services/internal/platform/webrtc/webm/webm.go\<close>
  and the tracker that owns them, \<^verbatim>\<open>services/tracker/record/record.go\<close>.  The file system, the
  block writer and the object storage are parameters; the sample builder is what it hands out:
  a packet read from the track is the list of samples that \<^verbatim>\<open>Pop\<close> returns after it was pushed.
  The loop that requests key frames has no effect on files or messages, ends with the writer
  and is left out.

  The lemmas show what a track can lead to (nothing; an announced start; start, upload and
  announced finish), that a lost upload keeps its recording from ever being ready, that a short
  key frame of a participant ends the process, and how closing races with a new track.
\<close>

section \<open>The writers\<close>

record sample =
  sm_Data :: "byte list"
  sm_Duration :: duration

datatype track_entry = VideoEntry nat nat | AudioEntry

text \<open>
  What the tracker calls.  Blocks are written with the flag of the key frame, the time in
  milliseconds and the data.
\<close>

record 'w track_env =
  tv_Create :: "string \<Rightarrow> 'w \<Rightarrow> 'w \<times> err"
  tv_Open :: "string \<Rightarrow> 'w \<Rightarrow> 'w \<times> err"
  tv_Stat :: "'w \<Rightarrow> 'w \<times> int res"
  tv_Remove :: "string \<Rightarrow> 'w \<Rightarrow> 'w \<times> err"
  tv_NewBlocks :: "track_entry \<Rightarrow> 'w \<Rightarrow> 'w \<times> err"
  tv_WriteBlock :: "bool \<Rightarrow> int \<Rightarrow> byte list \<Rightarrow> 'w \<Rightarrow> 'w \<times> err"
  tv_CloseBlocks :: "'w \<Rightarrow> 'w"
  tv_CloseFile :: "'w \<Rightarrow> 'w"
  tv_PutObject :: "string \<Rightarrow> string \<Rightarrow> string \<Rightarrow> int \<Rightarrow> 'w \<Rightarrow> 'w \<times> err"
  tv_Started :: "track_record \<Rightarrow> 'w \<Rightarrow> 'w \<times> err"
  tv_Finished :: "track_record \<Rightarrow> 'w \<Rightarrow> 'w \<times> err"

text \<open>\<^verbatim>\<open>VideoRTPWriter\<close> and \<^verbatim>\<open>AudioRTPWriter\<close>: whether there is a block writer, and the time so far.\<close>

record rtp_writer =
  rw_Blocks :: bool
  rw_timestamp :: duration

definition NewVideoRTPWriter :: rtp_writer where
  "NewVideoRTPWriter = \<lparr>rw_Blocks = False, rw_timestamp = 0\<rparr>"

definition NewAudioRTPWriter :: "'w track_env \<Rightarrow> 'w \<Rightarrow> 'w \<times> rtp_writer res" where
  "NewAudioRTPWriter env w = (case tv_NewBlocks env AudioEntry w of
      (w1, Some e) \<Rightarrow> (w1, Inl e)
    | (w1, None) \<Rightarrow> (w1, Inr \<lparr>rw_Blocks = True, rw_timestamp = 0\<rparr>))"

text \<open>The frame size in bytes 6 to 9 of a key frame, little endian, 14 bits each.\<close>

definition frame_size :: "byte list \<Rightarrow> track_entry" where
  "frame_size d = (let raw = unat (d ! 6) + 2 ^ 8 * unat (d ! 7) + 2 ^ 16 * unat (d ! 8) + 2 ^ 24 * unat (d ! 9)
     in VideoEntry (raw mod 2 ^ 14) (raw div 2 ^ 16 mod 2 ^ 14))"

text \<open>Adding a sample to the blocks; the time advances also when the write fails.\<close>

definition add_block :: "'w track_env \<Rightarrow> bool \<Rightarrow> sample \<Rightarrow> rtp_writer \<Rightarrow> 'w \<Rightarrow> 'w \<times> rtp_writer \<times> err" where
  "add_block env isKeyframe s vw w =
     (let t = rw_timestamp vw + sm_Duration s in
      case tv_WriteBlock env isKeyframe (t div Millisecond) (sm_Data s) w of
        (w1, e) \<Rightarrow> (w1, vw\<lparr>rw_timestamp := t\<rparr>, e))"

text \<open>The first key frame makes the block writer.\<close>

definition start_blocks :: "'w track_env \<Rightarrow> bool \<Rightarrow> sample \<Rightarrow> rtp_writer \<Rightarrow> 'w \<Rightarrow> 'w \<times> rtp_writer \<times> err" where
  "start_blocks env isKeyframe s vw w =
     (if isKeyframe \<and> \<not> rw_Blocks vw
      then (case tv_NewBlocks env (frame_size (sm_Data s)) w of
          (w1, Some e) \<Rightarrow> (w1, vw, Some e)
        | (w1, None) \<Rightarrow> (w1, vw\<lparr>rw_Blocks := True\<rparr>, None))
      else (w, vw, None))"

text \<open>\<^verbatim>\<open>WriteRTP\<close> over the samples of one packet; \<open>None\<close> is an index out of range.\<close>

fun video_WriteRTP :: "'w track_env \<Rightarrow> sample list \<Rightarrow> rtp_writer \<Rightarrow> 'w \<Rightarrow> ('w \<times> rtp_writer \<times> err) option" where
  "video_WriteRTP env [] vw w = Some (w, vw, None)"
| "video_WriteRTP env (s # ss) vw w =
     (if sm_Data s = [] then None
      else (let isKeyframe = even (unat (sm_Data s ! 0)) in
        if isKeyframe \<and> \<not> rw_Blocks vw \<and> length (sm_Data s) < 10 then None
        else (case start_blocks env isKeyframe s vw w of
            (w1, vw1, Some e) \<Rightarrow> Some (w1, vw1, Some e)
          | (w1, vw1, None) \<Rightarrow>
              if rw_Blocks vw1
              then (case add_block env isKeyframe s vw1 w1 of
                  (w2, vw2, Some e) \<Rightarrow> Some (w2, vw2, Some e)
                | (w2, vw2, None) \<Rightarrow> video_WriteRTP env ss vw2 w2)
              else video_WriteRTP env ss vw1 w1)))"

fun audio_WriteRTP :: "'w track_env \<Rightarrow> sample list \<Rightarrow> rtp_writer \<Rightarrow> 'w \<Rightarrow> 'w \<times> rtp_writer \<times> err" where
  "audio_WriteRTP env [] vw w = (w, vw, None)"
| "audio_WriteRTP env (s # ss) vw w = (case add_block env True s vw w of
      (w1, vw1, Some e) \<Rightarrow> (w1, vw1, Some e)
    | (w1, vw1, None) \<Rightarrow> audio_WriteRTP env ss vw1 w1)"

definition video_Close :: "'w track_env \<Rightarrow> rtp_writer \<Rightarrow> 'w \<Rightarrow> 'w" where
  "video_Close env vw w = tv_CloseFile env (if rw_Blocks vw then tv_CloseBlocks env w else w)"

definition audio_Close :: "'w track_env \<Rightarrow> 'w \<Rightarrow> 'w" where
  "audio_Close env w = tv_CloseFile env (tv_CloseBlocks env w)"

section \<open>One track\<close>

datatype lk_source = LK_Unknown | LK_Camera | LK_Microphone | LK_ScreenShare | LK_ScreenShareAudio

definition newSource :: "lk_source \<Rightarrow> int" where
  "newSource lk = (case lk of LK_Camera \<Rightarrow> pb_CAMERA | LK_Microphone \<Rightarrow> pb_MICROPHONE | LK_ScreenShare \<Rightarrow> pb_SCREEN
     | LK_ScreenShareAudio \<Rightarrow> pb_SCREEN_AUDIO | LK_Unknown \<Rightarrow> pb_UNKNOWN)"

text \<open>What \<^verbatim>\<open>ReadRTP\<close> returns: the end of the track, another error, or a packet.\<close>

datatype rtp_read = ReadEOF | ReadError | ReadPacket "sample list"

text \<open>\<open>Running\<close> is a loop that has not ended when the reads given are used up; a panic ends the process.\<close>

datatype 'a run = Running | Panicked | Returned 'a

definition minDuration :: duration where "minDuration = 6 * Second"

definition WriteRTP :: "'w track_env \<Rightarrow> bool \<Rightarrow> sample list \<Rightarrow> rtp_writer \<Rightarrow> 'w \<Rightarrow> ('w \<times> rtp_writer \<times> err) option" where
  "WriteRTP env video ss vw w = (if video then video_WriteRTP env ss vw w else Some (audio_WriteRTP env ss vw w))"

definition close_writer :: "'w track_env \<Rightarrow> bool \<Rightarrow> rtp_writer \<Rightarrow> 'w \<Rightarrow> 'w" where
  "close_writer env video vw w = (if video then video_Close env vw w else audio_Close env w)"

fun write_loop ::
  "'w track_env \<Rightarrow> bool \<Rightarrow> rtp_read list \<Rightarrow> rtp_writer \<Rightarrow> track_record \<Rightarrow> bool \<Rightarrow> 'w \<Rightarrow> ('w \<times> track_record \<times> bool) run" where
  "write_loop env video [] vw record started w = Running"
| "write_loop env video (r # rs) vw record started w = (case r of
      ReadEOF \<Rightarrow> Returned (close_writer env video vw w, record, started)
    | ReadError \<Rightarrow> write_loop env video rs vw record started w
    | ReadPacket samples \<Rightarrow> (case WriteRTP env video samples vw w of
        None \<Rightarrow> Panicked
      | Some (w1, vw1, Some e) \<Rightarrow> write_loop env video rs vw1 record started w1
      | Some (w1, vw1, None) \<Rightarrow>
          (let record = record\<lparr>tc_Duration := rw_timestamp vw1\<rparr> in
           if \<not> started \<and> minDuration \<le> tc_Duration record
           then write_loop env video rs vw1 record True (fst (tv_Started env record w1))
           else write_loop env video rs vw1 record started w1)))"

record track_conf =
  cf_Bucket :: string
  cf_RoomID :: uuid
  cf_RecordingID :: uuid
  cf_TmpPath :: "string \<Rightarrow> string"

text \<open>The goroutine that writes the file.\<close>

definition write_file ::
  "'w track_env \<Rightarrow> bool \<Rightarrow> rtp_read list \<Rightarrow> track_record \<Rightarrow> 'w \<Rightarrow> ('w \<times> track_record \<times> bool) run" where
  "write_file env video reads record w =
     (if video then write_loop env True reads NewVideoRTPWriter record False w
      else (case NewAudioRTPWriter env w of
          (w1, Inl e) \<Rightarrow> Returned (w1, record, False)
        | (w1, Inr aw) \<Rightarrow> write_loop env False reads aw record False w1))"

definition new_track_record :: "track_conf \<Rightarrow> uuid \<Rightarrow> int \<Rightarrow> int \<Rightarrow> time \<Rightarrow> track_record" where
  "new_track_record tr recordID kind source startAt =
     \<lparr>tc_RoomID = cf_RoomID tr, tc_RecordingID = cf_RecordingID tr, tc_RecordID = recordID, tc_Bucket = cf_Bucket tr,
      tc_Object = uuid_String (cf_RoomID tr) @ ''/'' @ uuid_String recordID, tc_Kind = kind, tc_Source = source,
      tc_Duration = 0, tc_CreatedAt = startAt\<rparr>"

definition writeTrack ::
  "'w track_env \<Rightarrow> track_conf \<Rightarrow> uuid \<Rightarrow> int \<Rightarrow> int \<Rightarrow> time \<Rightarrow> rtp_read list \<Rightarrow> 'w \<Rightarrow> 'w run" where
  "writeTrack env tr recordID kind source startAt reads w =
     (let tmp = cf_TmpPath tr (uuid_String (cf_RoomID tr) @ ''_'' @ uuid_String recordID) in
      case tv_Create env tmp w of
        (w1, Some e) \<Rightarrow> Returned w1
      | (w1, None) \<Rightarrow>
         (case write_file env (kind = pb_VIDEO) reads (new_track_record tr recordID kind source startAt) w1 of
            Running \<Rightarrow> Running
          | Panicked \<Rightarrow> Panicked
          | Returned (w2, record, False) \<Rightarrow> Returned (tv_CloseFile env (fst (tv_Remove env tmp w2)))
          | Returned (w2, record, True) \<Rightarrow> (case tv_Open env tmp w2 of
              (w3, Some e) \<Rightarrow> Returned (tv_CloseFile env w3)
            | (w3, None) \<Rightarrow> (case tv_Stat env w3 of
                (w4, Inl e) \<Rightarrow> Returned (tv_CloseFile env w4)
              | (w4, Inr len) \<Rightarrow> (case tv_PutObject env (cf_Bucket tr) (tc_Object record) tmp len w4 of
                  (w5, Some e) \<Rightarrow> Returned (tv_CloseFile env w5)
                | (w5, None) \<Rightarrow> Returned (tv_CloseFile env (fst (tv_Finished env record (fst (tv_Remove env tmp w5))))))))))"

section \<open>What a track leads to\<close>

datatype act = AStarted track_record | AFinished track_record | APut string string bool

text \<open>\<open>lg\<close> observes the messages and the uploads, with their success, and nothing else.\<close>

definition logs :: "'w track_env \<Rightarrow> ('w \<Rightarrow> act list) \<Rightarrow> bool" where
  "logs env lg \<longleftrightarrow>
     (\<forall>p w. lg (fst (tv_Create env p w)) = lg w \<and> lg (fst (tv_Open env p w)) = lg w \<and>
        lg (fst (tv_Remove env p w)) = lg w) \<and>
     (\<forall>w. lg (fst (tv_Stat env w)) = lg w \<and> lg (tv_CloseBlocks env w) = lg w \<and> lg (tv_CloseFile env w) = lg w) \<and>
     (\<forall>e w. lg (fst (tv_NewBlocks env e w)) = lg w) \<and>
     (\<forall>k t d w. lg (fst (tv_WriteBlock env k t d w)) = lg w) \<and>
     (\<forall>b p f n w. lg (fst (tv_PutObject env b p f n w)) = lg w @ [APut b p (snd (tv_PutObject env b p f n w) = None)]) \<and>
     (\<forall>r w. lg (fst (tv_Started env r w)) = lg w @ [AStarted r]) \<and>
     (\<forall>r w. lg (fst (tv_Finished env r w)) = lg w @ [AFinished r])"

lemma logsD:
  assumes "logs env lg"
  shows "tv_Create env p w = (w1, e) \<Longrightarrow> lg w1 = lg w" "tv_Open env p w = (w1, e) \<Longrightarrow> lg w1 = lg w"
    "lg (fst (tv_Remove env p w)) = lg w" "tv_Stat env w = (w1, n) \<Longrightarrow> lg w1 = lg w"
    "lg (tv_CloseBlocks env w) = lg w" "lg (tv_CloseFile env w) = lg w"
    "tv_NewBlocks env te w = (w1, e) \<Longrightarrow> lg w1 = lg w"
    "tv_WriteBlock env k t d w = (w1, e) \<Longrightarrow> lg w1 = lg w"
    "tv_PutObject env b q f m w = (w1, e) \<Longrightarrow> lg w1 = lg w @ [APut b q (e = None)]"
    "lg (fst (tv_Started env r w)) = lg w @ [AStarted r]" "lg (fst (tv_Finished env r w)) = lg w @ [AFinished r]"
  using assms unfolding logs_def by (metis fst_conv snd_conv)+

definition forward :: "sample list \<Rightarrow> bool" where
  "forward ss \<longleftrightarrow> list_all (\<lambda>s. 0 \<le> sm_Duration s) ss"

lemma add_block_log:
  assumes "logs env lg" and "add_block env k s vw w = (w1, vw1, e)" and "0 \<le> sm_Duration s"
  shows "lg w1 = lg w" "rw_timestamp vw \<le> rw_timestamp vw1"
  using assms(2,3) by (auto simp: add_block_def Let_def split: prod.splits dest: logsD(8) [OF assms(1)])

lemma audio_log:
  assumes "logs env lg"
  shows "audio_WriteRTP env ss vw w = (w1, vw1, e) \<Longrightarrow> forward ss \<Longrightarrow>
    lg w1 = lg w \<and> rw_timestamp vw \<le> rw_timestamp vw1"
proof (induction ss arbitrary: vw w)
  case (Cons s ss)
  obtain w2 vw2 e2 where a: "add_block env True s vw w = (w2, vw2, e2)"
    by (metis prod_cases3)
  have a1: "lg w2 = lg w" "rw_timestamp vw \<le> rw_timestamp vw2"
    using add_block_log [OF assms a] Cons.prems(2) by (simp_all add: forward_def)
  show ?case
  proof (cases e2)
    case None
    then show ?thesis
      using Cons.IH [of vw2 w2] Cons.prems a a1 by (simp add: forward_def)
  qed (use Cons.prems a a1 in simp)
qed (simp add: forward_def)

lemma video_log:
  assumes "logs env lg"
  shows "video_WriteRTP env ss vw w = Some (w1, vw1, e) \<Longrightarrow> forward ss \<Longrightarrow>
    lg w1 = lg w \<and> rw_timestamp vw \<le> rw_timestamp vw1"
proof (induction ss arbitrary: vw w)
  case (Cons s ss)
  let ?key = "even (unat (sm_Data s ! 0))"
  obtain w2 vw2 e2 where n: "start_blocks env ?key s vw w = (w2, vw2, e2)"
    by (metis prod_cases3)
  then have n1: "lg w2 = lg w" "rw_timestamp vw2 = rw_timestamp vw"
    by (auto simp: start_blocks_def split: if_splits prod.splits option.splits dest: logsD(7) [OF assms])
  obtain w3 vw3 e3 where a: "add_block env ?key s vw2 w2 = (w3, vw3, e3)"
    by (metis prod_cases3)
  have a1: "lg w3 = lg w2" "rw_timestamp vw2 \<le> rw_timestamp vw3"
    using add_block_log [OF assms a] Cons.prems(2) by (simp_all add: forward_def)
  have fs: "forward ss"
    using Cons.prems(2) by (simp add: forward_def)
  show ?case
  proof (cases e2)
    case e2: None
    show ?thesis
    proof (cases "rw_Blocks vw2")
      case True
      show ?thesis
        using Cons.prems(1) n n1 a a1 e2 True Cons.IH [OF _ fs, of vw3 w3]
        by (cases e3) (auto simp: Let_def split: if_splits)
    next
      case False
      show ?thesis
        using Cons.prems(1) n n1 e2 False Cons.IH [OF _ fs, of vw2 w2] by (auto simp: Let_def split: if_splits)
    qed
  qed (use Cons.prems(1) n n1 in \<open>auto simp: Let_def split: if_splits\<close>)
qed (simp add: forward_def)

lemma WriteRTP_log:
  assumes "logs env lg" and "WriteRTP env video ss vw w = Some (w1, vw1, e)" and "forward ss"
  shows "lg w1 = lg w" "rw_timestamp vw \<le> rw_timestamp vw1"
  using assms(2,3) audio_log [OF assms(1)] video_log [OF assms(1)] by (auto simp: WriteRTP_def split: if_splits)

definition same_track :: "track_record \<Rightarrow> track_record \<Rightarrow> bool" where
  "same_track r r' \<longleftrightarrow> r' = r\<lparr>tc_Duration := tc_Duration r'\<rparr>"

lemma same_track_refl [simp]: "same_track r r"
  by (simp add: same_track_def)

lemma same_track_trans: "same_track a b \<Longrightarrow> same_track b c \<Longrightarrow> same_track a c"
  unfolding same_track_def by (metis track_record.update_convs(8) track_record.surjective)

lemma same_track_duration [simp]: "same_track r (r\<lparr>tc_Duration := d\<rparr>)"
  by (simp add: same_track_def)

text \<open>The samples of a packet never go back in time.\<close>

definition reads_forward :: "rtp_read list \<Rightarrow> bool" where
  "reads_forward rs \<longleftrightarrow> list_all (\<lambda>r. case r of ReadPacket ss \<Rightarrow> forward ss | _ \<Rightarrow> True) rs"

text \<open>The loop announces the start at most once, with a record of at least six seconds.\<close>

lemma close_writer_log: "logs env lg \<Longrightarrow> lg (close_writer env video vw w) = lg w"
  by (simp add: close_writer_def video_Close_def audio_Close_def logsD)

lemma write_loop_log:
  assumes "logs env lg"
  shows "write_loop env video rs vw rec st w = Returned (w', rec', st') \<Longrightarrow> reads_forward rs \<Longrightarrow>
      tc_Duration rec \<le> rw_timestamp vw \<Longrightarrow>
    same_track rec rec' \<and> tc_Duration rec \<le> tc_Duration rec' \<and> (st \<longrightarrow> st') \<and>
    (if st' \<and> \<not> st
     then \<exists>r. lg w' = lg w @ [AStarted r] \<and> same_track rec r \<and> minDuration \<le> tc_Duration r \<and> tc_Duration r \<le> tc_Duration rec'
     else lg w' = lg w)"
proof (induction rs arbitrary: vw rec st w)
  case (Cons r rs)
  have fs: "reads_forward rs"
    using Cons.prems(2) by (simp add: reads_forward_def)
  show ?case
  proof (cases r)
    case ReadEOF
    with Cons.prems(1) show ?thesis
      by (auto simp: close_writer_log [OF assms])
  next
    case ReadError
    with Cons.prems(1) have "write_loop env video rs vw rec st w = Returned (w', rec', st')"
      by simp
    from Cons.IH [OF this fs Cons.prems(3)] show ?thesis .
  next
    case (ReadPacket ss)
    obtain x where wr: "WriteRTP env video ss vw w = Some x"
      using Cons.prems(1) ReadPacket by (auto split: option.splits)
    obtain w1 vw1 e where x: "x = (w1, vw1, e)"
      by (metis prod_cases3)
    have fwd: "forward ss"
      using Cons.prems(2) ReadPacket by (simp add: reads_forward_def)
    note one = WriteRTP_log [OF assms wr [unfolded x] fwd]
    show ?thesis
    proof (cases e)
      case (Some er)
      then have "write_loop env video rs vw1 rec st w1 = Returned (w', rec', st')"
        using Cons.prems(1) ReadPacket wr x by simp
      from Cons.IH [OF this fs order_trans [OF Cons.prems(3) one(2)]] show ?thesis
        unfolding one(1) .
    next
      case None
      let ?rec = "rec\<lparr>tc_Duration := rw_timestamp vw1\<rparr>"
      have le: "tc_Duration rec \<le> tc_Duration ?rec"
        using one(2) Cons.prems(3) by simp
      have tr: "same_track ?rec r' \<Longrightarrow> same_track rec r'" for r'
        by (rule same_track_trans [OF same_track_duration])
      show ?thesis
      proof (cases "\<not> st \<and> minDuration \<le> rw_timestamp vw1")
        case True
        let ?w2 = "fst (tv_Started env ?rec w1)"
        have "write_loop env video rs vw1 ?rec True ?w2 = Returned (w', rec', st')"
          using Cons.prems(1) ReadPacket wr x None True by (simp add: Let_def)
        from Cons.IH [OF this fs] have ih: "same_track ?rec rec'" "tc_Duration ?rec \<le> tc_Duration rec'" "st'" "lg w' = lg ?w2"
          by simp_all
        then have "lg w' = lg w @ [AStarted ?rec]"
          by (simp add: logsD(10) [OF assms] one(1))
        with ih(1-3) tr [OF ih(1)] True le show ?thesis
          by (intro conjI) (auto intro!: exI [of _ ?rec])
      next
        case False
        have "write_loop env video rs vw1 ?rec st w1 = Returned (w', rec', st')"
          using Cons.prems(1) ReadPacket wr x None False by (auto simp: Let_def)
        from Cons.IH [OF this fs] have ih: "same_track ?rec rec'" "tc_Duration ?rec \<le> tc_Duration rec'" "st \<longrightarrow> st'"
          "if st' \<and> \<not> st then \<exists>r. lg w' = lg w1 @ [AStarted r] \<and> same_track ?rec r \<and> minDuration \<le> tc_Duration r \<and>
             tc_Duration r \<le> tc_Duration rec' else lg w' = lg w1"
          by simp_all
        with tr le one(1) show ?thesis
          by (auto split: if_splits)
      qed
    qed
  qed
qed simp

text \<open>The object of a track, and the three things a track can lead to.\<close>

definition track_acts :: "track_record \<Rightarrow> act list \<Rightarrow> bool" where
  "track_acts rec acts \<longleftrightarrow> acts = [] \<or>
     (\<exists>r. same_track rec r \<and> minDuration \<le> tc_Duration r \<and>
       (acts = [AStarted r] \<or> acts = [AStarted r, APut (tc_Bucket rec) (tc_Object rec) False] \<or>
        (\<exists>r'. same_track rec r' \<and> tc_Duration r \<le> tc_Duration r' \<and>
           acts = [AStarted r, APut (tc_Bucket rec) (tc_Object rec) True, AFinished r'])))"

lemma track_acts_nothing [simp]: "track_acts rec []"
  by (simp add: track_acts_def)

lemma writeTrack_acts:
  assumes l: "logs env lg" and fwd: "reads_forward reads"
    and run: "writeTrack env tr i kind source startAt reads w = Returned w'"
  shows "\<exists>acts. lg w' = lg w @ acts \<and> track_acts (new_track_record tr i kind source startAt) acts"
proof -
  let ?tmp = "cf_TmpPath tr (uuid_String (cf_RoomID tr) @ ''_'' @ uuid_String i)"
  let ?rec = "new_track_record tr i kind source startAt"
  note quiet = logsD(1,2,4) [OF l] logsD(3,6,11) [OF l]
  obtain w1 e where c: "tv_Create env ?tmp w = (w1, e)"
    by fastforce
  then have w1: "lg w1 = lg w"
    by (rule quiet)
  show ?thesis
  proof (cases e)
    case (Some er)
    with run c w1 show ?thesis
      by (auto simp: writeTrack_def Let_def)
  next
    case None
    obtain w2 rec' st where f: "write_file env (kind = pb_VIDEO) reads ?rec w1 = Returned (w2, rec', st)"
      using run c None by (auto simp: writeTrack_def Let_def split: run.splits)
    have zero: "tc_Duration ?rec = 0"
      by (simp add: new_track_record_def)
    have wrote: "same_track ?rec rec'" "if st then \<exists>r. lg w2 = lg w @ [AStarted r] \<and> same_track ?rec r \<and>
        minDuration \<le> tc_Duration r \<and> tc_Duration r \<le> tc_Duration rec' else lg w2 = lg w"
    proof -
      consider (failed) "rec' = ?rec" "\<not> st" "lg w2 = lg w"
        | (loop) video vw v where "write_loop env video reads vw ?rec False v = Returned (w2, rec', st)" "rw_timestamp vw = 0"
            "lg v = lg w"
        using f w1 that by (auto simp: write_file_def NewVideoRTPWriter_def NewAudioRTPWriter_def
            split: if_splits prod.splits option.splits sum.splits dest: logsD(7) [OF l])
      then have "same_track ?rec rec' \<and> (if st then \<exists>r. lg w2 = lg w @ [AStarted r] \<and> same_track ?rec r \<and>
          minDuration \<le> tc_Duration r \<and> tc_Duration r \<le> tc_Duration rec' else lg w2 = lg w)"
      proof cases
        case loop
        have "tc_Duration ?rec \<le> rw_timestamp vw"
          using loop(2) zero by simp
        from write_loop_log [OF l loop(1) fwd this] show ?thesis
          unfolding loop(3) by simp
      qed simp
      then show "same_track ?rec rec'" "if st then \<exists>r. lg w2 = lg w @ [AStarted r] \<and> same_track ?rec r \<and>
        minDuration \<le> tc_Duration r \<and> tc_Duration r \<le> tc_Duration rec' else lg w2 = lg w"
        by blast+
    qed
    show ?thesis
    proof (cases st)
      case False
      with run c None f wrote(2) show ?thesis
        by (auto simp: writeTrack_def Let_def quiet)
    next
      case True
      then obtain r where r: "lg w2 = lg w @ [AStarted r]" "same_track ?rec r" "minDuration \<le> tc_Duration r"
        "tc_Duration r \<le> tc_Duration rec'"
        using wrote(2) by auto
      have obj: "tc_Object rec' = tc_Object ?rec" "cf_Bucket tr = tc_Bucket ?rec"
        using wrote(1) by (auto simp: same_track_def new_track_record_def) (metis track_record.simps(5) track_record.update_convs(8) track_record.surjective)
      obtain w3 eo where o: "tv_Open env ?tmp w2 = (w3, eo)"
        by fastforce
      obtain w4 es where s: "tv_Stat env w3 = (w4, es)"
        by fastforce
      have w34: "lg w3 = lg w @ [AStarted r]" "lg w4 = lg w @ [AStarted r]"
        using quiet(2) [OF o] quiet(3) [OF s] r(1) by simp_all
      have started: "track_acts ?rec [AStarted r]"
        using r by (auto simp: track_acts_def)
      show ?thesis
      proof (cases "eo = None \<and> is_ok es")
        case False
        then have "lg w' = lg w @ [AStarted r]"
          using run c None f True o s w34
          by (cases eo; cases es) (auto simp: writeTrack_def Let_def quiet)
        with started show ?thesis by blast
      next
        case ok: True
        then obtain n where n: "eo = None" "es = Inr n"
          by (auto simp: is_ok_iff)
        obtain w5 ep where p: "tv_PutObject env (cf_Bucket tr) (tc_Object rec') ?tmp n w4 = (w5, ep)"
          by fastforce
        have w5: "lg w5 = lg w @ [AStarted r, APut (tc_Bucket ?rec) (tc_Object ?rec) (ep = None)]"
          using logsD(9) [OF l p] w34 obj by simp
        show ?thesis
        proof (cases ep)
          case (Some x)
          then have "w' = tv_CloseFile env w5"
            using run c None f True o s n p by (simp add: writeTrack_def Let_def)
          with w5 Some r show ?thesis
            by (auto simp: quiet track_acts_def)
        next
          case put: None
          then have "w' = tv_CloseFile env (fst (tv_Finished env rec' (fst (tv_Remove env ?tmp w5))))"
            using run c None f True o s n p by (simp add: writeTrack_def Let_def)
          then have "lg w' = lg w @ [AStarted r, APut (tc_Bucket ?rec) (tc_Object ?rec) True, AFinished rec']"
            using w5 put by (simp add: quiet)
          moreover have "track_acts ?rec [AStarted r, APut (tc_Bucket ?rec) (tc_Object ?rec) True, AFinished rec']"
            using r wrote(1) by (auto simp: track_acts_def)
          ultimately show ?thesis by blast
        qed
      qed
    qed
  qed
qed


text \<open>
  The updates of the tracks of a recording, merged one after the other.
\<close>

definition merged_updates :: "(uuid \<times> track_update) list \<Rightarrow> records" where
  "merged_updates us = fold (\<lambda>(i, u). records_merge (track_records i u)) us records_empty"

lemma merge_sets:
  "set (rs_RecordingStarted (records_merge a r)) = set (rs_RecordingStarted a) \<union> set (rs_RecordingStarted r)"
  "set (rs_ProcessingFinished (records_merge a r)) = set (rs_ProcessingFinished a) \<union> set (rs_ProcessingFinished r)"
  by (simp_all add: records_merge_def set_fold_add_new)

lemma track_sets:
  "set (rs_RecordingStarted (track_records i u)) = {j. j = i \<and> u = RecordingStartedUpdate}"
  "set (rs_ProcessingFinished (track_records i u)) = {j. j = i \<and> u = ProcessingFinishedUpdate}"
  by (cases u; simp add: records_empty_def)+

lemma merged_sets:
  "set (rs_RecordingStarted (merged_updates us)) = {i. (i, RecordingStartedUpdate) \<in> set us}"
  "set (rs_ProcessingFinished (merged_updates us)) = {i. (i, ProcessingFinishedUpdate) \<in> set us}"
proof -
  have "set (rs_RecordingStarted (fold (\<lambda>(i, u). records_merge (track_records i u)) us r)) =
      set (rs_RecordingStarted r) \<union> {i. (i, RecordingStartedUpdate) \<in> set us} \<and>
    set (rs_ProcessingFinished (fold (\<lambda>(i, u). records_merge (track_records i u)) us r)) =
      set (rs_ProcessingFinished r) \<union> {i. (i, ProcessingFinishedUpdate) \<in> set us}" for r
    by (induction us arbitrary: r) (auto simp: merge_sets track_sets)
  from this [of records_empty]
  show "set (rs_RecordingStarted (merged_updates us)) = {i. (i, RecordingStartedUpdate) \<in> set us}"
    "set (rs_ProcessingFinished (merged_updates us)) = {i. (i, ProcessingFinishedUpdate) \<in> set us}"
    by (simp_all add: merged_updates_def records_empty_def)
qed


text \<open>
  The first key frame of a video is read at fixed places whatever its length, and nothing
  recovers the goroutine: a participant whose first key frame has less than ten bytes ends
  the process of the tracker, with every recording in it.
\<close>

theorem short_keyframe_crashes:
  assumes "tv_Create env (cf_TmpPath tr (uuid_String (cf_RoomID tr) @ ''_'' @ uuid_String i)) w = (w1, None)"
    and "sm_Data s = b # d" and "even (unat b)" and "length d < 9"
  shows "writeTrack env tr i pb_VIDEO source startAt (replicate n ReadError @ ReadPacket (s # ss) # rs) w = Panicked"
proof -
  have "write_loop env True (replicate n ReadError @ ReadPacket (s # ss) # rs) NewVideoRTPWriter rec False v = Panicked" for rec v
    using assms(2-4) by (induction n) (simp_all add: WriteRTP_def NewVideoRTPWriter_def Let_def)
  with assms(1) show ?thesis
    by (simp add: writeTrack_def write_file_def Let_def)
qed

section \<open>Closing a tracker\<close>

text \<open>
  The subscription callback of \<^verbatim>\<open>NewTracker\<close> and \<^verbatim>\<open>Close\<close>: a callback takes the mutex to look at
  \<^verbatim>\<open>closed\<close>, releases it, and only then calls \<^verbatim>\<open>writers.Add\<close>; \<^verbatim>\<open>Close\<close> holds the mutex while it
  waits.  A step is a section under the mutex or one operation on the wait group.
\<close>

datatype callback = CbWaiting | CbChecked | CbWriting | CbEnded

record room_tracker =
  rt_closing :: bool
  rt_closed :: bool
  rt_writers :: nat
  rt_callbacks :: "callback list"

definition room_tracker_init :: room_tracker where
  "room_tracker_init = \<lparr>rt_closing = False, rt_closed = False, rt_writers = 0, rt_callbacks = []\<rparr>"

inductive tracker_step :: "room_tracker \<Rightarrow> room_tracker \<Rightarrow> bool" where
  subscribed: "tracker_step s (s\<lparr>rt_callbacks := rt_callbacks s @ [CbWaiting]\<rparr>)"
| refused: "n < length (rt_callbacks s) \<Longrightarrow> rt_callbacks s ! n = CbWaiting \<Longrightarrow> \<not> rt_closing s \<Longrightarrow> rt_closed s \<Longrightarrow>
    tracker_step s (s\<lparr>rt_callbacks := (rt_callbacks s)[n := CbEnded]\<rparr>)"
| admitted: "n < length (rt_callbacks s) \<Longrightarrow> rt_callbacks s ! n = CbWaiting \<Longrightarrow> \<not> rt_closing s \<Longrightarrow> \<not> rt_closed s \<Longrightarrow>
    tracker_step s (s\<lparr>rt_callbacks := (rt_callbacks s)[n := CbChecked]\<rparr>)"
| added: "n < length (rt_callbacks s) \<Longrightarrow> rt_callbacks s ! n = CbChecked \<Longrightarrow>
    tracker_step s (s\<lparr>rt_callbacks := (rt_callbacks s)[n := CbWriting], rt_writers := rt_writers s + 1\<rparr>)"
| written: "n < length (rt_callbacks s) \<Longrightarrow> rt_callbacks s ! n = CbWriting \<Longrightarrow>
    tracker_step s (s\<lparr>rt_callbacks := (rt_callbacks s)[n := CbEnded], rt_writers := rt_writers s - 1\<rparr>)"
| close_begins: "\<not> rt_closing s \<Longrightarrow> \<not> rt_closed s \<Longrightarrow> tracker_step s (s\<lparr>rt_closing := True\<rparr>)"
| close_ends: "rt_closing s \<Longrightarrow> rt_writers s = 0 \<Longrightarrow> tracker_step s (s\<lparr>rt_closing := False, rt_closed := True\<rparr>)"

definition writers_counted :: "room_tracker \<Rightarrow> bool" where
  "writers_counted s \<longleftrightarrow> rt_writers s = count_list (rt_callbacks s) CbWriting"

lemma count_list_update:
  "n < length xs \<Longrightarrow> count_list (xs[n := y]) x + (if xs ! n = x then 1 else 0) = count_list xs x + (if y = x then 1 else 0)"
proof (induction xs arbitrary: n)
  case (Cons a xs)
  show ?case
  proof (cases n)
    case (Suc k)
    with Cons.prems Cons.IH [of k] show ?thesis by (simp split: if_splits)
  qed simp
qed simp

interpretation counted: stable tracker_step writers_counted
proof
  fix s t
  assume "writers_counted s" "tracker_step s t"
  from this(2,1) show "writers_counted t"
  proof cases
    case (refused n)
    with \<open>writers_counted s\<close> show ?thesis
      using count_list_update [of n "rt_callbacks s" CbEnded CbWriting] by (simp add: writers_counted_def)
  next
    case (admitted n)
    with \<open>writers_counted s\<close> show ?thesis
      using count_list_update [of n "rt_callbacks s" CbChecked CbWriting] by (simp add: writers_counted_def)
  next
    case (added n)
    with \<open>writers_counted s\<close> show ?thesis
      using count_list_update [of n "rt_callbacks s" CbWriting CbWriting] by (simp add: writers_counted_def)
  next
    case (written n)
    with \<open>writers_counted s\<close> show ?thesis
      using count_list_update [of n "rt_callbacks s" CbEnded CbWriting] by (simp add: writers_counted_def)
  qed (auto simp: writers_counted_def)
qed

lemma count_list_zero: "count_list xs x = 0 \<longleftrightarrow> x \<notin> set xs"
  by (metis count_list_0_iff)

definition no_latecomer :: "room_tracker \<Rightarrow> bool" where
  "no_latecomer s \<longleftrightarrow> (rt_closing s \<or> rt_closed s) \<and> CbChecked \<notin> set (rt_callbacks s) \<and>
     (rt_closed s \<longrightarrow> \<not> rt_closing s \<and> rt_writers s = 0)"

lemma no_latecomer_step:
  assumes "writers_counted s" and "no_latecomer s" and "tracker_step s t"
  shows "no_latecomer t"
  using assms(3)
proof cases
  case (added n)
  with assms(2) show ?thesis
    by (metis no_latecomer_def nth_mem)
next
  case (written n)
  then have "CbWriting \<in> set (rt_callbacks s)"
    by (metis nth_mem)
  then have "\<not> rt_closed s"
    using assms(1,2) by (auto simp: no_latecomer_def writers_counted_def count_list_zero)
  with assms(2) written show ?thesis
    by (auto simp: no_latecomer_def dest: set_update_subset_insert [THEN subsetD])
qed (use assms(2) in \<open>auto simp: no_latecomer_def dest: set_update_subset_insert [THEN subsetD]\<close>)

text \<open>
  C37: What the comment at the mutex promises holds only for callbacks that are not between their
  look at \<^verbatim>\<open>closed\<close> and their \<^verbatim>\<open>Add\<close>: if none is when \<^verbatim>\<open>Close\<close> takes the mutex, no writer runs once
  it has returned; but a callback that is there adds its writer after \<^verbatim>\<open>Wait\<close> returned.
\<close>

theorem close_waits_or_races:
  shows "(reach tracker_step room_tracker_init s \<and> rt_closing s \<and> \<not> rt_closed s \<and> CbChecked \<notin> set (rt_callbacks s) \<and>
      reach tracker_step s t \<and> rt_closed t \<longrightarrow> CbWriting \<notin> set (rt_callbacks t)) \<and>
    (\<exists>u. reach tracker_step room_tracker_init u \<and> rt_closed u \<and> CbWriting \<in> set (rt_callbacks u))"
proof (intro conjI impI, elim conjE)
  assume s: "reach tracker_step room_tracker_init s" "rt_closing s" "\<not> rt_closed s" "CbChecked \<notin> set (rt_callbacks s)"
    and t: "reach tracker_step s t" "rt_closed t"
  have c: "writers_counted s"
    using counted.always [OF s(1)] by (simp add: writers_counted_def room_tracker_init_def)
  have "no_latecomer t"
  proof (rule counted.along [where P = no_latecomer])
    show "no_latecomer s"
      using s(2-4) by (simp add: no_latecomer_def)
  qed (fact no_latecomer_step t(1) c)+
  moreover have "writers_counted t"
    by (rule counted.always [OF t(1) c])
  ultimately show "CbWriting \<notin> set (rt_callbacks t)"
    using t(2) by (simp add: no_latecomer_def writers_counted_def count_list_zero)
next
  let ?s = "\<lambda>c d n cb. \<lparr>rt_closing = c, rt_closed = d, rt_writers = n, rt_callbacks = [cb]\<rparr>"
  have "tracker_step room_tracker_init (?s False False 0 CbWaiting)"
    using subscribed [of room_tracker_init] by (simp add: room_tracker_init_def)
  then have "reach tracker_step room_tracker_init (?s False False 0 CbWaiting)"
    by (rule reach_one)
  moreover have "tracker_step (?s False False 0 CbWaiting) (?s False False 0 CbChecked)"
    using admitted [of 0 "?s False False 0 CbWaiting"] by simp
  moreover have "tracker_step (?s False False 0 CbChecked) (?s True False 0 CbChecked)"
    using close_begins [of "?s False False 0 CbChecked"] by simp
  moreover have "tracker_step (?s True False 0 CbChecked) (?s False True 0 CbChecked)"
    using close_ends [of "?s True False 0 CbChecked"] by simp
  moreover have "tracker_step (?s False True 0 CbChecked) (?s False True 1 CbWriting)"
    using added [of 0 "?s False True 0 CbChecked"] by simp
  ultimately have "reach tracker_step room_tracker_init (?s False True 1 CbWriting)"
    by (meson reach.more)
  then show "\<exists>u. reach tracker_step room_tracker_init u \<and> rt_closed u \<and> CbWriting \<in> set (rt_callbacks u)"
    by (intro exI [of _ "?s False True 1 CbWriting"]) simp
qed

section \<open>Runs\<close>

text \<open>An environment whose world is the log; \<open>up\<close> is the outcome of an upload.\<close>

definition log_env :: "err \<Rightarrow> act list track_env" where
  "log_env up = \<lparr>tv_Create = \<lambda>_ w. (w, None), tv_Open = \<lambda>_ w. (w, None), tv_Stat = \<lambda>w. (w, Inr 100),
     tv_Remove = \<lambda>_ w. (w, None), tv_NewBlocks = \<lambda>_ w. (w, None), tv_WriteBlock = \<lambda>_ _ _ w. (w, None),
     tv_CloseBlocks = id, tv_CloseFile = id, tv_PutObject = \<lambda>b p _ _ w. (w @ [APut b p (up = None)], up),
     tv_Started = \<lambda>r w. (w @ [AStarted r], None), tv_Finished = \<lambda>r w. (w @ [AFinished r], None)\<rparr>"

lemma log_env_logs: "logs (log_env up) id"
  by (simp add: logs_def log_env_def)

definition demo_tracker :: track_conf where
  "demo_tracker = \<lparr>cf_Bucket = ''tracks'', cf_RoomID = 3, cf_RecordingID = 2, cf_TmpPath = (@) ''/tmp/''\<rparr>"

definition seven_seconds :: "rtp_read list" where
  "seven_seconds = [ReadPacket [\<lparr>sm_Data = [1], sm_Duration = 7 * Second\<rparr>], ReadEOF]"

lemma seven_seconds_forward: "reads_forward seven_seconds"
  by (simp add: reads_forward_def seven_seconds_def forward_def duration_defs)

lemma demo_track_run:
  "\<exists>r q r'. writeTrack (log_env up) demo_tracker 7 pb_AUDIO 2 0 seven_seconds [] =
     Returned (if up = None then [AStarted r, APut ''tracks'' q True, AFinished r'] else [AStarted r, APut ''tracks'' q False])"
  by (cases up) (simp_all add: writeTrack_def demo_tracker_def log_env_def write_file_def pb_consts NewAudioRTPWriter_def
      seven_seconds_def WriteRTP_def add_block_def minDuration_def duration_defs Let_def close_writer_def audio_Close_def)



theorem short_keyframe_crashes_witness:
  "writeTrack (log_env None) demo_tracker 7 pb_VIDEO 1 0 [ReadPacket [\<lparr>sm_Data = [0, 1], sm_Duration = Second\<rparr>], ReadEOF] [] =
   Panicked"
  using short_keyframe_crashes [of "log_env None" demo_tracker 7 "[]" "[]" "\<lparr>sm_Data = [0, 1], sm_Duration = Second\<rparr>" 0 "[1]" 1 0 0
      "[]" "[ReadEOF]"] by (simp add: log_env_def)

theorem close_waits_or_races_witness:
  "CbWriting \<notin> set (rt_callbacks \<lparr>rt_closing = False, rt_closed = True, rt_writers = 0, rt_callbacks = [CbWaiting]\<rparr>)"
proof -
  let ?s = "\<lambda>c d. \<lparr>rt_closing = c, rt_closed = d, rt_writers = 0, rt_callbacks = [CbWaiting]\<rparr>"
  have "tracker_step room_tracker_init (?s False False)"
    using subscribed [of room_tracker_init] by (simp add: room_tracker_init_def)
  moreover have "tracker_step (?s False False) (?s True False)"
    using close_begins [of "?s False False"] by simp
  ultimately have "reach tracker_step room_tracker_init (?s True False)"
    by (meson reach.here reach.more)
  moreover have "reach tracker_step (?s True False) (?s False True)"
    using close_ends [of "?s True False"] by (simp add: reach_one)
  ultimately show ?thesis
    using close_waits_or_races [of "?s True False" "?s False True"] by simp
qed

end
