(* ===== verification/Completion.thy ===== *)
theory Completion
  imports Rtc_Jobs
begin

text \<open>
  The end of a recording, over the whole sequence of its track updates: when a stopped
  recording gets its last updates, in whatever order and however often they are delivered, it
  is announced as ready (\<^verbatim>\<open>updateRecordingTrack\<close> of \<^verbatim>\<open>cmd/rtc/queue/handler.go\<close> over
  \<^verbatim>\<open>UpdateRecords\<close> of \<^verbatim>\<open>room/record/mongo.go\<close>).
\<close>

text \<open>The one document of a recording.\<close>

definition stored_once :: "('w \<Rightarrow> string \<Rightarrow> bdoc list) \<Rightarrow> 'w \<Rightarrow> uuid \<Rightarrow> recording \<Rightarrow> bool" where
  "stored_once docs w i g \<longleftrightarrow> (\<exists>as d bs. docs w record_collection = as @ d # bs \<and> recording_dec d = Inr g \<and>
     bget d ''_id'' = Some (BUuid i) \<and> (\<forall>x \<in> set as \<union> set bs. bget x ''_id'' \<noteq> Some (BUuid i)))"

definition complete :: "recording \<Rightarrow> bool" where
  "complete g \<longleftrightarrow> set (rs_RecordingStarted (rg_Records g)) \<subseteq> set (rs_ProcessingFinished (rg_Records g))"

text \<open>A job that carries an update of a track of the recording.\<close>

definition carries :: "proto \<Rightarrow> uuid \<Rightarrow> job \<Rightarrow> uuid \<times> track_update \<Rightarrow> bool" where
  "carries p i job x \<longleftrightarrow> (\<exists>a b t. pb_Unmarshal p KUpdateRecordingTrack (jb_Body job) =
     Inr (JUpdateRecordingTrack a b t (Some (Some (snd x)))) \<and> uuid_of_bin a = i \<and> uuid_of_bin b = fst x)"

text \<open>The jobs handled one after the other, as long as each of them is done with.\<close>

fun handle_jobs :: "(job \<Rightarrow> 'w \<Rightarrow> 'w \<times> finish option) \<Rightarrow> job list \<Rightarrow> 'w \<Rightarrow> 'w option" where
  "handle_jobs h [] w = Some w"
| "handle_jobs h (j # js) w = (case h j w of (w', Some Deleted) \<Rightarrow> handle_jobs h js w' | _ \<Rightarrow> None)"

lemma track_records_nonzero: "\<not> Records_IsZero (track_records i u)"
  by (cases u) (simp_all add: Records_IsZero_def records_empty_def)

lemma track_records_sets:
  "set (rs_RecordingStarted (track_records i u)) = (if u = RecordingStartedUpdate then {i} else {})"
  "set (rs_ProcessingFinished (track_records i u)) = (if u = ProcessingFinishedUpdate then {i} else {})"
  by (cases u; simp add: records_empty_def)+

lemma split_unique:
  assumes "as @ d # bs = as' @ d' # bs'" and "P d" and "P d'" and "\<forall>x \<in> set as \<union> set bs. \<not> P x"
  shows "as' = as \<and> d' = d \<and> bs' = bs"
  using assms by (auto simp: append_eq_append_conv2 Cons_eq_append_conv append_eq_Cons_conv)

lemma update_stored_once:
  assumes "mongo_laws m docs" and "stored_once docs w i g" and "i \<noteq> uuid_Nil"
    and "UpdateRecords m (record_lookup_zero\<lparr>rl_ID := i\<rparr>) rs w = (w1, Inr r)"
  shows "stored_once docs w1 i r \<and> rg_StoppedAt r = rg_StoppedAt g \<and> rg_ID r = i \<and>
    records_sets (rg_Records r) = records_sets (records_merge rs (rg_Records g))"
proof -
  let ?P = "\<lambda>x. bget x ''_id'' = Some (BUuid i)"
  have key: "matches (record_mongoFilter (record_lookup_zero\<lparr>rl_ID := i\<rparr>)) d = ?P d" for d
    using assms(3) by (auto simp: record_mongoFilter_def record_lookup_zero_def)
  from assms(2) obtain as d bs where d: "docs w record_collection = as @ d # bs" "recording_dec d = Inr g" "?P d"
    "\<forall>x \<in> set as \<union> set bs. \<not> ?P x"
    by (auto simp: stored_once_def)
  obtain as2 d2 d' bs2 where u: "docs w record_collection = as2 @ d2 # bs2" "docs w1 record_collection = as2 @ d' # bs2"
    "?P d2" "recording_dec d' = Inr r" "\<forall>k. bget d' k = bget (apply_update [UAddToSet (records_adds rs)] d2) k"
    using UpdateRecords_Inr [OF assms(1,4)] key by metis
  from split_unique [of as d bs as2 d2 bs2 ?P] d u have same: "as2 = as" "d2 = d" "bs2 = bs" by auto
  have id': "?P d'" using u(5) stage_arr_adds(2) [of "''_id''"] d(3) same by simp
  obtain as3 d3 d4 bs3 where v: "docs w record_collection = as3 @ d3 # bs3" "docs w1 record_collection = as3 @ d4 # bs3"
    "?P d3" "\<forall>r0. recording_dec d3 = Inr r0 \<longrightarrow>
        records_sets (rg_Records r) = records_sets (records_merge rs (rg_Records r0)) \<and> rg_StoppedAt r = rg_StoppedAt r0"
    using UpdateRecords_unites [OF assms(1,4)] key by metis
  from split_unique [of as d bs as3 d3 bs3 ?P] d v have "d3 = d" by auto
  with v(4) d(2) have sets: "records_sets (rg_Records r) = records_sets (records_merge rs (rg_Records g))"
    "rg_StoppedAt r = rg_StoppedAt g" by auto
  have "rg_ID r = i" using u(4) id' by (auto simp: recording_dec_def dec_uuid_def bindr_def split: sum.splits)
  with sets u(2,4) id' d(4) same show ?thesis by (auto simp: stored_once_def)
qed

lemma uuids_dec_error: "uuids_dec vs = Inl e \<Longrightarrow> e = EDecode"
  by (induction vs rule: uuids_dec.induct) (auto simp: bindr_def split: sum.splits)

lemma field_errors:
  "dec_uuid d k = Inl e \<Longrightarrow> e = EDecode" "dec_str d k = Inl e \<Longrightarrow> e = EDecode"
  "dec_time d k = Inl e \<Longrightarrow> e = EDecode" "dec_bool d k = Inl e \<Longrightarrow> e = EDecode"
  "dec_arr d k = Inl e \<Longrightarrow> e = EDecode"
  by (auto simp: dec_uuid_def dec_str_def dec_time_def dec_bool_def dec_arr_def dest: uuids_dec_error
      split: option.splits bval.splits)

lemma bindr_error: "bindr r f = Inl e \<longleftrightarrow> r = Inl e \<or> (\<exists>x. r = Inr x \<and> f x = Inl e)"
  by (cases r) auto

lemma recording_dec_error: "recording_dec d = Inl e \<Longrightarrow> e = EDecode"
  by (auto simp: recording_dec_def records_dec_def bindr_error dest: field_errors
      split: option.splits bval.splits)

lemma failed_update_not_validation:
  assumes "mongo_laws m docs" and "UpdateRecords m l (track_records i u) w = (w1, Inl e)"
  shows "\<not> errors_Is e P_record ErrValidation"
proof -
  obtain r where run: "mg_findOneAndUpdate m record_collection (record_mongoFilter l)
      [UAddToSet (records_adds (track_records i u))] False w = (w1, r)"
    and e: "case r of Inl e' \<Rightarrow> e = Wrap ''failed to update recording'' e' | Inr d \<Rightarrow> recording_dec d = Inl e"
    using assms(2) track_records_nonzero by (auto simp: UpdateRecords_def split: prod.splits sum.splits if_splits)
  show ?thesis
  proof (cases r)
    case (Inl e')
    with update_one_lawD(5) [OF assms(1) _ run, of e' P_record ErrValidation] e show ?thesis by auto
  next
    case (Inr d)
    with e recording_dec_error [of d e] show ?thesis by (simp add: EDecode_def)
  qed
qed

text \<open>One job that is done with: its update is stored, and a complete recording was announced.\<close>

lemma job_done_with:
  assumes "mongo_laws m docs" and "queue_keeps q docs" and "queue_keeps q said" and "announces emit docs said"
    and "\<forall>c f us up w. said (fst (mg_findOneAndUpdate m c f us up w)) = said w"
    and "stored_once docs w i g" and "i \<noteq> uuid_Nil" and "carries p i job (j, u)"
    and "updateRecordingTrack fp p q m emit job w = (w', Some Deleted)"
  shows "\<exists>g'. stored_once docs w' i g' \<and> rg_StoppedAt g' = rg_StoppedAt g \<and>
    records_sets (rg_Records g') = records_sets (records_merge (track_records j u) (rg_Records g)) \<and>
    set (said w) \<subseteq> set (said w') \<and>
    (\<not> IsZero (rg_StoppedAt g) \<and> complete g' \<longrightarrow> (\<exists>room. (room, i) \<in> set (said w')))"
proof -
  from assms(8) obtain a b t where msg: "pb_Unmarshal p KUpdateRecordingTrack (jb_Body job) =
      Inr (JUpdateRecordingTrack a b t (Some (Some u)))" "uuid_of_bin a = i" "uuid_of_bin b = j"
    by (auto simp: carries_def)
  obtain w1 res where up: "UpdateRecords m (record_lookup_zero\<lparr>rl_ID := i\<rparr>) (track_records j u) w = (w1, res)"
    by fastforce
  have said1: "said w1 = said w"
    using up assms(5) by (auto simp: UpdateRecords_def split: if_splits prod.splits sum.splits) (metis fst_conv)+
  have retry: "snd (jobRetry fp q updateTrack_bo updateTrack_maxAge job v) \<noteq> Some Deleted" for v
    by (simp add: jobRetry_def Let_def)
  obtain g' where g': "res = Inr g'"
  proof (cases res)
    case (Inl e)
    with failed_update_not_validation [OF assms(1) up [unfolded Inl]] assms(9) msg up retry [of w1]
    show ?thesis by (auto simp: updateRecordingTrack_def Let_def)
  qed (use that in blast)
  note st = update_stored_once [OF assms(1,6,7) up [unfolded g']]
  have keeps: "stored_once docs v i g'" "set (said w) \<subseteq> set (said v)"
    if "docs v = docs w1" "set (said w1) \<subseteq> set (said v)" for v
    using that st said1 by (simp_all add: stored_once_def)
  show ?thesis
  proof (cases "Recording_IsReady g'")
    case False
    with assms(9) msg up g' have "w' = fst (jobDelete q job w1)"
      by (auto simp: updateRecordingTrack_def Let_def dest: arg_cong [where f = fst])
    with False keeps [of w'] finish_keeps(2) [OF assms(2)] finish_keeps(2) [OF assms(3)] st show ?thesis
      by (auto simp: Recording_IsReady_def Records_IsReady_iff complete_def)
  next
    case True
    obtain w2 e where e: "emit (rg_Room g') (rg_ID g') w1 = (w2, e)" by fastforce
    with assms(9) msg up g' True retry [of w2] have del: "e = None" "w' = fst (jobDelete q job w2)"
      by (auto simp: updateRecordingTrack_def Let_def split: option.splits dest: arg_cong [where f = fst])
    from e del(1) assms(4) have w2: "docs w2 = docs w1" "said w2 = said w1 @ [(rg_Room g', i)]"
      using st unfolding announces_def by auto
    with del(2) finish_keeps(2) [OF assms(2)] finish_keeps(2) [OF assms(3)] keeps [of w'] st show ?thesis
      by auto
  qed
qed

lemma records_sets_merge:
  assumes "records_sets r = records_sets (records_merge (track_records j u) r0)"
  shows "set (rs_RecordingStarted r) = set (rs_RecordingStarted r0) \<union> {k. (k, RecordingStartedUpdate) = (j, u)}"
    "set (rs_ProcessingFinished r) = set (rs_ProcessingFinished r0) \<union> {k. (k, ProcessingFinishedUpdate) = (j, u)}"
  using assms by (auto simp: records_sets_def records_merge_def set_fold_add_new track_records_sets)

lemma run_announces:
  assumes "mongo_laws m docs" and "queue_keeps q docs" and "queue_keeps q said" and "announces emit docs said"
    and "\<forall>c f us up w. said (fst (mg_findOneAndUpdate m c f us up w)) = said w" and "i \<noteq> uuid_Nil"
  shows "stored_once docs w i g \<Longrightarrow> \<not> IsZero (rg_StoppedAt g) \<Longrightarrow> list_all2 (carries p i) jobs us \<Longrightarrow> jobs \<noteq> [] \<Longrightarrow>
    set (rs_RecordingStarted (rg_Records g)) \<union> {j. (j, RecordingStartedUpdate) \<in> set us} \<subseteq>
      set (rs_ProcessingFinished (rg_Records g)) \<union> {j. (j, ProcessingFinishedUpdate) \<in> set us} \<Longrightarrow>
    handle_jobs (updateRecordingTrack fp p q m emit) jobs w = Some w' \<Longrightarrow> \<exists>room. (room, i) \<in> set (said w')"
proof (induction jobs arbitrary: us w g)
  case (Cons job jobs)
  from Cons.prems(3) obtain j u vs where us: "us = (j, u) # vs" "carries p i job (j, u)" "list_all2 (carries p i) jobs vs"
    by (auto simp: list_all2_Cons1)
  from Cons.prems(6) obtain w1 where w1: "updateRecordingTrack fp p q m emit job w = (w1, Some Deleted)"
    "handle_jobs (updateRecordingTrack fp p q m emit) jobs w1 = Some w'"
    by (auto split: prod.splits option.splits finish.splits)
  from job_done_with [OF assms(1-5) Cons.prems(1) assms(6) us(2) w1(1)] obtain g' where
    g': "stored_once docs w1 i g'" "rg_StoppedAt g' = rg_StoppedAt g"
    "records_sets (rg_Records g') = records_sets (records_merge (track_records j u) (rg_Records g))"
    "\<not> IsZero (rg_StoppedAt g) \<and> complete g' \<longrightarrow> (\<exists>room. (room, i) \<in> set (said w1))" by blast
  have rest: "set (rs_RecordingStarted (rg_Records g')) \<union> {j. (j, RecordingStartedUpdate) \<in> set vs} \<subseteq>
      set (rs_ProcessingFinished (rg_Records g')) \<union> {j. (j, ProcessingFinishedUpdate) \<in> set vs}"
    using Cons.prems(5) unfolding us(1) records_sets_merge [OF g'(3)] by auto
  show ?case
  proof (cases "jobs = []")
    case True
    with us(3) rest have "complete g'" by (simp add: complete_def)
    with g'(4) Cons.prems(2) w1(2) True show ?thesis by auto
  next
    case False
    from Cons.IH [OF g'(1) _ us(3) False rest w1(2)] g'(2) Cons.prems(2) show ?thesis by simp
  qed
qed simp

text \<open>
  C7: A stopped recording is announced: once its last track updates were handled, in any order and
  with any repetitions, so that every started track is among the processed ones, the recording
  was announced as ready.  There has to be an update after the stop: the stop itself
  announces nothing.
\<close>

theorem stopped_recording_announced:
  assumes "mongo_laws m docs" and "queue_keeps q docs" and "queue_keeps q said" and "announces emit docs said"
    and "\<forall>c f us up w. said (fst (mg_findOneAndUpdate m c f us up w)) = said w"
    and "i \<noteq> uuid_Nil" and "stored_once docs w i g" and "\<not> IsZero (rg_StoppedAt g)"
    and "list_all2 (carries p i) jobs us" and "jobs \<noteq> []"
    and "set (rs_RecordingStarted (rg_Records g)) \<union> {j. (j, RecordingStartedUpdate) \<in> set us} \<subseteq>
      set (rs_ProcessingFinished (rg_Records g)) \<union> {j. (j, ProcessingFinishedUpdate) \<in> set us}"
    and "handle_jobs (updateRecordingTrack fp p q m emit) jobs w = Some w'"
  shows "\<exists>room. (room, i) \<in> set (said w')"
  by (rule run_announces [OF assms(1-6) assms(7-12)])

text \<open>The recording of \<open>Rtc_Jobs\<close> with one track left to be processed, told so twice.\<close>

lemma stopped_recording_announced_witness:
  "\<exists>w' room. handle_jobs (updateRecordingTrack (\<lambda>_ _ _ _. (False, 1)) (single_proto (track_msg 0 2 7 ProcessingFinishedUpdate))
      quiet_queue (beside mem_mongo) announce) [sample_job, sample_job] ready_world = Some w' \<and> (room, 2) \<in> set (fst w')"
proof -
  let ?p = "single_proto (track_msg 0 2 7 ProcessingFinishedUpdate)"
  let ?h = "updateRecordingTrack (\<lambda>_ _ _ _. (False, 1)) ?p quiet_queue (beside mem_mongo) announce"
  have q: "queue_keeps quiet_queue v" for v :: "(uuid \<times> uuid) list \<times> mem \<Rightarrow> 'v"
    by (simp add: queue_keeps_def quiet_queue_def)
  have a: "announces announce snd fst"
    by (auto simp: announces_def announce_def)
  have l: "\<forall>c f us up w. fst (fst (mg_findOneAndUpdate (beside mem_mongo) c f us up w)) = fst w"
    by (auto simp: beside_def split: prod.split)
  have m: "mongo_laws (beside mem_mongo) snd"
    using beside_laws [OF mem_mongo_laws] by (simp add: comp_def)
  have one: "stored_once snd ready_world 2 stopped_recording"
    unfolding stored_once_def
    by (intro exI [of _ "[]"] exI [of _ "recording_enc stopped_recording"] conjI)
      (simp_all add: ready_world_def recordings.dec_enc, simp add: recording_enc_def stopped_recording_def bget_def)
  have c: "list_all2 (carries ?p 2) [sample_job, sample_job] [(7, ProcessingFinishedUpdate), (7, ProcessingFinishedUpdate)]"
    by (simp add: carries_def single_proto_def track_msg_def sample_job_def)
  obtain w' where run: "handle_jobs ?h [sample_job, sample_job] ready_world = Some w'"
  proof -
    have "case handle_jobs ?h [sample_job, sample_job] ready_world of None \<Rightarrow> False | Some v \<Rightarrow> True"
      by code_simp
    with that show thesis by (auto split: option.splits)
  qed
  from stopped_recording_announced [OF m q q a l _ one _ c _ _ run] have "\<exists>room. (room, 2) \<in> set (fst w')"
    by (simp add: stopped_recording_def recording_zero_def records_empty_def IsZero_def time_zero_def uuid_Nil_def)
  with run show ?thesis by blast
qed

end
