(* ===== verification/Config.thy ===== *)
theory Config
  imports Rtc_Jobs Event
begin

text \<open>
  The configurations of the services, \<^verbatim>\<open>services/cmd/*/config.go\<close>: the fields in the order of the
  code, each \<^verbatim>\<open>Validate\<close> as the sequence of its checks, and the tubes \<^verbatim>\<open>cmd/rtc/main.go\<close> takes from
  them.  Reading the environment and decoding the keys are not part of the model.

  The lemmas show that a configuration is accepted exactly when every field it checks is set,
  and what that means for the routing of jobs: the tubes are set, not distinct.
\<close>

section \<open>Checks in sequence\<close>

text \<open>A field with the name in its error; the first that is empty is reported.\<close>

fun first_unset :: "(string \<times> string) list \<Rightarrow> err" where
  "first_unset [] = None"
| "first_unset ((v, name) # vs) = (if v = '''' then Some (New (name @ '' not set'')) else first_unset vs)"

text \<open>The first error of several checks.\<close>

fun first_err :: "err list \<Rightarrow> err" where
  "first_err [] = None"
| "first_err (e # es) = (case e of Some x \<Rightarrow> Some x | None \<Rightarrow> first_err es)"

definition part_err :: "string \<Rightarrow> err \<Rightarrow> err" where
  "part_err what e = (case e of Some x \<Rightarrow> Some (Wrap (''invalid '' @ what @ '' config'') x) | None \<Rightarrow> None)"

definition LevelDebug :: string where "LevelDebug = ''debug''"
definition LevelInfo :: string where "LevelInfo = ''info''"
definition LevelError :: string where "LevelError = ''error''"
definition LevelWarn :: string where "LevelWarn = ''warn''"

definition log_levels :: "string set" where
  "log_levels = {LevelDebug, LevelInfo, LevelWarn, LevelError}"

definition check_level :: "string \<Rightarrow> err" where
  "check_level l = (if l \<in> log_levels then None else Some (New ''LOG_LEVEL is not valid''))"

text \<open>\<^verbatim>\<open>ParsePool\<close> and \<^verbatim>\<open>ParseServices\<close>\<close>

definition ParsePool :: "string \<Rightarrow> string list" where
  "ParsePool pool = split_on CHR '','' pool"

lemma first_unset_None: "first_unset vs = None \<longleftrightarrow> list_all (\<lambda>(v, n). v \<noteq> '''') vs"
  by (induction vs rule: first_unset.induct) auto

lemma first_err_None: "first_err es = None \<longleftrightarrow> list_all (\<lambda>e. e = None) es"
  by (induction es) (auto split: option.splits)

lemma part_err_None: "part_err w e = None \<longleftrightarrow> e = None"
  by (simp add: part_err_def split: option.split)

lemma check_level_None: "check_level l = None \<longleftrightarrow> l \<in> log_levels"
  by (simp add: check_level_def)

lemmas checks = first_unset_None first_err_None part_err_None check_level_None

section \<open>The parts\<close>

record mongo_config =
  mc_Hosts :: string
  mc_User :: string
  mc_Password :: string
  mc_Database :: string

definition MongoConfig_Validate :: "mongo_config \<Rightarrow> err" where
  "MongoConfig_Validate c = first_unset [(mc_Hosts c, ''MONGO_HOSTS''), (mc_User c, ''MONGO_USER''), (mc_Password c, ''MONGO_PASSWORD''), (mc_Database c, ''MONGO_DATABASE'')]"

text \<open>The account service spells one name differently.\<close>

definition iam_MongoConfig_Validate :: "mongo_config \<Rightarrow> err" where
  "iam_MongoConfig_Validate c = first_unset [(mc_Hosts c, ''MONGO_HOSTS''), (mc_User c, ''iMONGO_USER''), (mc_Password c, ''MONGO_PASSWORD''), (mc_Database c, ''MONGO_DATABASE'')]"

record confa_storage_config =
  cs_Host :: string
  cs_AccessKey :: string
  cs_SecretKey :: string
  cs_PublicDomain :: string
  cs_PublicScheme :: string
  cs_BucketUserUploads :: string
  cs_BucketUserPublic :: string

definition confa_storage_config_Validate :: "confa_storage_config \<Rightarrow> err" where
  "confa_storage_config_Validate c = first_unset [(cs_Host c, ''STORAGE_HOST''), (cs_AccessKey c, ''STORAGE_ACCESS_KEY''),
     (cs_SecretKey c, ''STORAGE_SECRET_KEY''), (cs_PublicDomain c, ''STORAGE_PUBLIC_DOMAIN''),
     (cs_PublicScheme c, ''STORAGE_PUBLIC_SCHEME''),
     (cs_BucketUserUploads c, ''STORAGE_BUCKET_USER_UPLOADS''),
     (cs_BucketUserPublic c, ''STORAGE_BUCKET_USER_PUBLIC'')]"

record confa_beanstalk_config =
  cb_Pool :: string
  cb_TubeUpdateAvatar :: string
  cb_TubeStartRecording :: string
  cb_TubeStopRecording :: string
  cb_TubeRecordingUpdate :: string
  cb_TubeSend :: string

definition confa_beanstalk_config_Validate :: "confa_beanstalk_config \<Rightarrow> err" where
  "confa_beanstalk_config_Validate c = first_unset [(cb_Pool c, ''BEANSTALK_POOL''), (cb_TubeUpdateAvatar c, ''BEANSTALK_TUBE_UPDATE_AVATAR''),
     (cb_TubeStartRecording c, ''BEANSTALK_TUBE_START_RECORDING''),
     (cb_TubeStopRecording c, ''BEANSTALK_TUBE_STOP_RECORDING''),
     (cb_TubeRecordingUpdate c, ''BEANSTALK_TUBE_RECORDING_UPDATE''),
     (cb_TubeSend c, ''BEANSTALK_TUBE_SEND'')]"

record iam_beanstalk_config =
  ib_Pool :: string
  ib_TubeSend :: string
  ib_TubeUpdateAvatar :: string

definition iam_beanstalk_config_Validate :: "iam_beanstalk_config \<Rightarrow> err" where
  "iam_beanstalk_config_Validate c = first_unset [(ib_Pool c, ''BEANSTALK_POOL''), (ib_TubeSend c, ''BEANSTALK_TUBE_SEND''),
     (ib_TubeUpdateAvatar c, ''BEANSTALK_TUBE_UPDATE_AVATAR'')]"

record google_config =
  gg_APIBaseURL :: string
  gg_ClientID :: string
  gg_ClientSecret :: string

definition google_config_Validate :: "google_config \<Rightarrow> err" where
  "google_config_Validate c = first_unset [(gg_APIBaseURL c, ''GOOGLE_API_BASE_URL''), (gg_ClientID c, ''GOOGLE_CLIENT_ID''),
     (gg_ClientSecret c, ''GOOGLE_CLIENT_SECRET'')]"

record rtc_beanstalk_config =
  rb_Pool :: string
  rb_TubeStoreEvent :: string
  rb_TubeUpdateRecordingTrack :: string
  rb_TubeRecordingUpdate :: string

definition rtc_beanstalk_config_Validate :: "rtc_beanstalk_config \<Rightarrow> err" where
  "rtc_beanstalk_config_Validate c = first_unset [(rb_Pool c, ''BEANSTALK_POOL''), (rb_TubeStoreEvent c, ''BEANSTALK_TUBE_STORE_EVENT''),
     (rb_TubeUpdateRecordingTrack c, ''BEANSTALK_TUBE_UPDATE_RECORDING_TRACK''),
     (rb_TubeRecordingUpdate c, ''BEANSTALK_TUBE_RECORDING_UPDATE'')]"

record rtc_livekit_config =
  rk_Key :: string
  rk_Secret :: string

definition rtc_livekit_config_Validate :: "rtc_livekit_config \<Rightarrow> err" where
  "rtc_livekit_config_Validate c = first_unset [(rk_Key c, ''LIVEKIT_KEY''), (rk_Secret c, ''LIVEKIT_KEY'')]"

record tracker_beanstalk_config =
  kb_Pool :: string
  kb_TubeProcessTrack :: string
  kb_TubeStoreEvent :: string
  kb_TubeUpdateRecordingTrack :: string

definition tracker_beanstalk_config_Validate :: "tracker_beanstalk_config \<Rightarrow> err" where
  "tracker_beanstalk_config_Validate c = first_unset [(kb_Pool c, ''BEANSTALK_POOL''), (kb_TubeProcessTrack c, ''BEANSTALK_TUBE_PROCESS_TRACK''),
     (kb_TubeStoreEvent c, ''BEANSTALK_TUBE_STORE_EVENT''),
     (kb_TubeUpdateRecordingTrack c, ''BEANSTALK_TUBE_UPDATE_RECORDING_TRACK'')]"

record tracker_storage_config =
  ks_Host :: string
  ks_Scheme :: string
  ks_Region :: string
  ks_AccessKey :: string
  ks_SecretKey :: string
  ks_BucketTrackRecords :: string

definition tracker_storage_config_Validate :: "tracker_storage_config \<Rightarrow> err" where
  "tracker_storage_config_Validate c = first_unset [(ks_Host c, ''STORAGE_HOST''), (ks_Scheme c, ''STORAGE_SCHEME''),
     (ks_Region c, ''STORAGE_REGION''), (ks_AccessKey c, ''STORAGE_ACCESS_KEY''),
     (ks_SecretKey c, ''STORAGE_SECRET_KEY''),
     (ks_BucketTrackRecords c, ''STORAGE_BUCKET_TRACK_RECORDS'')]"

record tracker_livekit_config =
  kk_URL :: string
  kk_Key :: string
  kk_Secret :: string

definition tracker_livekit_config_Validate :: "tracker_livekit_config \<Rightarrow> err" where
  "tracker_livekit_config_Validate c = first_unset [(kk_URL c, ''LIVEKIT_URL''), (kk_Key c, ''LIVEKIT_KEY''), (kk_Secret c, ''LIVEKIT_KEY'')]"

record avp_beanstalk_config =
  vb_Pool :: string
  vb_TubeProcessTrack :: string
  vb_TubeUpdateRecordingTrack :: string

definition avp_beanstalk_config_Validate :: "avp_beanstalk_config \<Rightarrow> err" where
  "avp_beanstalk_config_Validate c = first_unset [(vb_Pool c, ''BEANSTALK_POOL''), (vb_TubeProcessTrack c, ''BEANSTALK_TUBE_PROCESS_TRACK''),
     (vb_TubeUpdateRecordingTrack c, ''BEANSTALK_TUBE_UPDATE_RECORDING_TRACK'')]"

record avp_storage_config =
  vs_Host :: string
  vs_Scheme :: string
  vs_Region :: string
  vs_AccessKey :: string
  vs_SecretKey :: string
  vs_BucketTrackRecords :: string
  vs_BucketTrackPublic :: string

definition avp_storage_config_Validate :: "avp_storage_config \<Rightarrow> err" where
  "avp_storage_config_Validate c = first_unset [(vs_Host c, ''STORAGE_HOST''), (vs_Scheme c, ''STORAGE_SCHEME''),
     (vs_Region c, ''STORAGE_REGION''), (vs_AccessKey c, ''STORAGE_ACCESS_KEY''),
     (vs_SecretKey c, ''STORAGE_SECRET_KEY''),
     (vs_BucketTrackRecords c, ''STORAGE_BUCKET_TRACK_RECORDS''),
     (vs_BucketTrackPublic c, ''STORAGE_BUCKET_TRACK_PUBLIC'')]"

record email_config =
  ec_MailersendBaseURL :: string
  ec_MailersendToken :: string
  ec_MailersendFromEmail :: string

definition email_config_Validate :: "email_config \<Rightarrow> err" where
  "email_config_Validate c = first_unset [(ec_MailersendBaseURL c, ''MAILERSEND_BASE_URL''), (ec_MailersendToken c, ''MAILERSEND_TOKEN''),
     (ec_MailersendFromEmail c, ''MAILERSEND_FROM_EMAIL'')]"

record sender_beanstalk_config =
  sb_Pool :: string
  sb_TubeSend :: string

definition sender_beanstalk_config_Validate :: "sender_beanstalk_config \<Rightarrow> err" where
  "sender_beanstalk_config_Validate c = first_unset [(sb_Pool c, ''BEANSTALK_POOL''), (sb_TubeSend c, ''BEANSTALK_TUBE_SEND'')]"

section \<open>The tubes from the environment\<close>

text \<open>
  The tags of the fields name the variables \<^verbatim>\<open>envconfig.Process\<close> fills them from; \<open>env\<close> is the
  environment.
\<close>

definition confa_beanstalk_config_env :: "(string \<Rightarrow> string) \<Rightarrow> confa_beanstalk_config" where
  "confa_beanstalk_config_env env = \<lparr>cb_Pool = env ''BEANSTALK_POOL'',
     cb_TubeUpdateAvatar = env ''BEANSTALK_TUBE_UPDATE_AVATAR'',
     cb_TubeStartRecording = env ''BEANSTALK_TUBE_START_RECORDING'',
     cb_TubeStopRecording = env ''BEANSTALK_TUBE_STOP_RECORDING'',
     cb_TubeRecordingUpdate = env ''BEANSTALK_TUBE_RECORDING_UPDATE'',
     cb_TubeSend = env ''BEANSTALK_TUBE_SEND''\<rparr>"

definition iam_beanstalk_config_env :: "(string \<Rightarrow> string) \<Rightarrow> iam_beanstalk_config" where
  "iam_beanstalk_config_env env = \<lparr>ib_Pool = env ''BEANSTALK_POOL'',
     ib_TubeSend = env ''BEANSTALK_TUBE_SEND'',
     ib_TubeUpdateAvatar = env ''BEANSTALK_TUBE_UPDATE_AVATAR''\<rparr>"

definition rtc_beanstalk_config_env :: "(string \<Rightarrow> string) \<Rightarrow> rtc_beanstalk_config" where
  "rtc_beanstalk_config_env env = \<lparr>rb_Pool = env ''BEANSTALK_POOL'',
     rb_TubeStoreEvent = env ''BEANSTALK_TUBE_STORE_EVENT'',
     rb_TubeUpdateRecordingTrack = env ''BEANSTALK_TUBE_UPDATE_RECORDING_TRACK'',
     rb_TubeRecordingUpdate = env ''BEANSTALK_TUBE_RECORDING_UPDATE''\<rparr>"

definition tracker_beanstalk_config_env :: "(string \<Rightarrow> string) \<Rightarrow> tracker_beanstalk_config" where
  "tracker_beanstalk_config_env env = \<lparr>kb_Pool = env ''BEANSTALK_POOL'',
     kb_TubeProcessTrack = env ''BEANSTALK_TUBE_PROCESS_TRACK'',
     kb_TubeStoreEvent = env ''BEANSTALK_TUBE_STORE_EVENT'',
     kb_TubeUpdateRecordingTrack = env ''BEANSTALK_TUBE_UPDATE_RECORDING_TRACK''\<rparr>"

definition avp_beanstalk_config_env :: "(string \<Rightarrow> string) \<Rightarrow> avp_beanstalk_config" where
  "avp_beanstalk_config_env env = \<lparr>vb_Pool = env ''BEANSTALK_POOL'',
     vb_TubeProcessTrack = env ''BEANSTALK_TUBE_PROCESS_TRACK'',
     vb_TubeUpdateRecordingTrack = env ''BEANSTALK_TUBE_UPDATE_RECORDING_TRACK''\<rparr>"

definition sender_beanstalk_config_env :: "(string \<Rightarrow> string) \<Rightarrow> sender_beanstalk_config" where
  "sender_beanstalk_config_env env = \<lparr>sb_Pool = env ''BEANSTALK_POOL'',
     sb_TubeSend = env ''BEANSTALK_TUBE_SEND''\<rparr>"

section \<open>The services\<close>

record confa_config =
  cc_WebHost :: string
  cc_WebScheme :: string
  cc_ListenWebAddress :: string
  cc_RTCRPCAddress :: string
  cc_LogFormat :: string
  cc_LogLevel :: string
  cc_PublicKey :: string
  cc_Mongo :: mongo_config
  cc_Storage :: confa_storage_config
  cc_Beanstalk :: confa_beanstalk_config

definition confa_config_Validate :: "confa_config \<Rightarrow> err" where
  "confa_config_Validate c = first_err [
     first_unset [(cc_ListenWebAddress c, ''LISTEN_WEB_ADDRESS''), (cc_PublicKey c, ''PUBLIC_KEY''), (cc_RTCRPCAddress c, ''RTC_RPC_ADDRESS''), (cc_WebScheme c, ''WEB_SCHEME''), (cc_WebHost c, ''WEB_HOST'')],
     check_level (cc_LogLevel c),
     part_err ''mongo'' (MongoConfig_Validate (cc_Mongo c)),
     part_err ''storage'' (confa_storage_config_Validate (cc_Storage c)),
     part_err ''beanstalk'' (confa_beanstalk_config_Validate (cc_Beanstalk c))]"

record iam_config =
  ic_ListenWebAddress :: string
  ic_ListenRPCAddress :: string
  ic_WebHost :: string
  ic_WebScheme :: string
  ic_LogFormat :: string
  ic_LogLevel :: string
  ic_SecretKey :: string
  ic_PublicKey :: string
  ic_Mongo :: mongo_config
  ic_Beanstalk :: iam_beanstalk_config
  ic_Google :: google_config

definition iam_config_Validate :: "iam_config \<Rightarrow> err" where
  "iam_config_Validate c = first_err [
     check_level (ic_LogLevel c),
     first_unset [(ic_ListenWebAddress c, ''ADDRESS''), (ic_WebHost c, ''WEB_HOST''), (ic_WebScheme c, ''WEB_SCHEME''), (ic_SecretKey c, ''SECRET_KEY''), (ic_PublicKey c, ''PUBLIC_KEY'')],
     part_err ''mongo'' (iam_MongoConfig_Validate (ic_Mongo c)),
     part_err ''beanstalk'' (iam_beanstalk_config_Validate (ic_Beanstalk c)),
     part_err ''google'' (google_config_Validate (ic_Google c))]"

record rtc_config =
  rf_ListenWebAddress :: string
  rf_ListenRPCAddress :: string
  rf_TrackerRPCAddress :: string
  rf_LogFormat :: string
  rf_LogLevel :: string
  rf_PublicKey :: string
  rf_Mongo :: mongo_config
  rf_Beanstalk :: rtc_beanstalk_config
  rf_LiveKit :: rtc_livekit_config

definition rtc_config_Validate :: "rtc_config \<Rightarrow> err" where
  "rtc_config_Validate c = first_err [
     check_level (rf_LogLevel c),
     first_unset [(rf_ListenWebAddress c, ''LISTEN_WEB_ADDRESS''), (rf_ListenRPCAddress c, ''LISTEN_RPC_ADDRESS''), (rf_TrackerRPCAddress c, ''TRACKER_RPC_ADDRESS''), (rf_PublicKey c, ''PUBLIC_KEY'')],
     part_err ''mongo'' (MongoConfig_Validate (rf_Mongo c)),
     part_err ''beanstalk'' (rtc_beanstalk_config_Validate (rf_Beanstalk c)),
     part_err ''livekit'' (rtc_livekit_config_Validate (rf_LiveKit c))]"

record tracker_config =
  kc_ListenRPCAddress :: string
  kc_LogFormat :: string
  kc_LogLevel :: string
  kc_PublicKey :: string
  kc_TmpDir :: string
  kc_Beanstalk :: tracker_beanstalk_config
  kc_Storage :: tracker_storage_config
  kc_Livekit :: tracker_livekit_config

definition tracker_config_Validate :: "tracker_config \<Rightarrow> err" where
  "tracker_config_Validate c = first_err [
     check_level (kc_LogLevel c),
     first_unset [(kc_ListenRPCAddress c, ''LISTEN_RPC_ADDRESS''), (kc_PublicKey c, ''PUBLIC_KEY''), (kc_TmpDir c, ''TMP_DIR'')],
     part_err ''storage'' (tracker_storage_config_Validate (kc_Storage c)),
     part_err ''beanstalk'' (tracker_beanstalk_config_Validate (kc_Beanstalk c)),
     part_err ''livekit'' (tracker_livekit_config_Validate (kc_Livekit c))]"

record avp_config =
  vc_LogFormat :: string
  vc_LogLevel :: string
  vc_Beanstalk :: avp_beanstalk_config
  vc_Storage :: avp_storage_config

definition avp_config_Validate :: "avp_config \<Rightarrow> err" where
  "avp_config_Validate c = first_err [
     check_level (vc_LogLevel c),
     part_err ''storage'' (avp_storage_config_Validate (vc_Storage c)),
     part_err ''beanstalk'' (avp_beanstalk_config_Validate (vc_Beanstalk c))]"

record clients_config =
  nc_ListenWebAddress :: string
  nc_LogFormat :: string
  nc_LogLevel :: string

definition clients_config_Validate :: "clients_config \<Rightarrow> err" where
  "clients_config_Validate c = first_err [
     check_level (nc_LogLevel c),
     first_unset [(nc_ListenWebAddress c, ''LISTEN_WEB_ADDRESS'')]]"

record sender_config =
  sc_LogFormat :: string
  sc_LogLevel :: string
  sc_IAMRPCAddress :: string
  sc_Email :: email_config
  sc_Beanstalk :: sender_beanstalk_config

definition sender_config_Validate :: "sender_config \<Rightarrow> err" where
  "sender_config_Validate c = first_err [
     check_level (sc_LogLevel c),
     first_unset [(sc_IAMRPCAddress c, ''IAM_RPC_ADDRESS'')],
     part_err ''email'' (email_config_Validate (sc_Email c)),
     part_err ''beanstalk'' (sender_beanstalk_config_Validate (sc_Beanstalk c))]"

text \<open>The gateway keeps its interval as a number.\<close>

record gateway_config =
  gc_ListenWebAddress :: string
  gc_LogFormat :: string
  gc_LogLevel :: string
  gc_Services :: string
  gc_SchemaUpdateIntervalS :: int

definition gateway_config_Validate :: "gateway_config \<Rightarrow> err" where
  "gateway_config_Validate c = first_err [
     check_level (gc_LogLevel c),
     first_unset [(gc_ListenWebAddress c, ''LISTEN_WEB_ADDRESS''), (gc_Services c, ''SERVICES'')],
     if gc_SchemaUpdateIntervalS c = 0 then Some (New ''SCHEMA_UPDATE_INTERVAL_S not set'') else None]"


lemmas config_defs = MongoConfig_Validate_def iam_MongoConfig_Validate_def confa_storage_config_Validate_def confa_beanstalk_config_Validate_def
  iam_beanstalk_config_Validate_def google_config_Validate_def
  rtc_beanstalk_config_Validate_def rtc_livekit_config_Validate_def
  tracker_beanstalk_config_Validate_def tracker_storage_config_Validate_def
  tracker_livekit_config_Validate_def avp_beanstalk_config_Validate_def
  avp_storage_config_Validate_def email_config_Validate_def
  sender_beanstalk_config_Validate_def confa_config_Validate_def iam_config_Validate_def
  rtc_config_Validate_def tracker_config_Validate_def avp_config_Validate_def
  clients_config_Validate_def sender_config_Validate_def gateway_config_Validate_def

section \<open>What is accepted\<close>

text \<open>The fields each service checks, as a reference.\<close>

definition confa_checked :: "confa_config \<Rightarrow> string list" where
  "confa_checked c = [cc_ListenWebAddress c, cc_PublicKey c, cc_RTCRPCAddress c, cc_WebScheme c, cc_WebHost c,
     mc_Hosts (cc_Mongo c), mc_User (cc_Mongo c), mc_Password (cc_Mongo c),
     mc_Database (cc_Mongo c), cs_Host (cc_Storage c), cs_AccessKey (cc_Storage c),
     cs_SecretKey (cc_Storage c), cs_PublicDomain (cc_Storage c), cs_PublicScheme (cc_Storage c),
     cs_BucketUserUploads (cc_Storage c), cs_BucketUserPublic (cc_Storage c),
     cb_Pool (cc_Beanstalk c), cb_TubeUpdateAvatar (cc_Beanstalk c),
     cb_TubeStartRecording (cc_Beanstalk c), cb_TubeStopRecording (cc_Beanstalk c),
     cb_TubeRecordingUpdate (cc_Beanstalk c), cb_TubeSend (cc_Beanstalk c)]"

definition iam_checked :: "iam_config \<Rightarrow> string list" where
  "iam_checked c = [ic_ListenWebAddress c, ic_WebHost c, ic_WebScheme c, ic_SecretKey c, ic_PublicKey c,
     mc_Hosts (ic_Mongo c), mc_User (ic_Mongo c), mc_Password (ic_Mongo c),
     mc_Database (ic_Mongo c), ib_Pool (ic_Beanstalk c), ib_TubeSend (ic_Beanstalk c),
     ib_TubeUpdateAvatar (ic_Beanstalk c), gg_APIBaseURL (ic_Google c), gg_ClientID (ic_Google c),
     gg_ClientSecret (ic_Google c)]"

definition rtc_checked :: "rtc_config \<Rightarrow> string list" where
  "rtc_checked c = [rf_ListenWebAddress c, rf_ListenRPCAddress c, rf_TrackerRPCAddress c, rf_PublicKey c,
     mc_Hosts (rf_Mongo c), mc_User (rf_Mongo c), mc_Password (rf_Mongo c),
     mc_Database (rf_Mongo c), rb_Pool (rf_Beanstalk c), rb_TubeStoreEvent (rf_Beanstalk c),
     rb_TubeUpdateRecordingTrack (rf_Beanstalk c), rb_TubeRecordingUpdate (rf_Beanstalk c),
     rk_Key (rf_LiveKit c), rk_Secret (rf_LiveKit c)]"

definition tracker_checked :: "tracker_config \<Rightarrow> string list" where
  "tracker_checked c = [kc_ListenRPCAddress c, kc_PublicKey c, kc_TmpDir c, ks_Host (kc_Storage c),
     ks_Scheme (kc_Storage c), ks_Region (kc_Storage c), ks_AccessKey (kc_Storage c),
     ks_SecretKey (kc_Storage c), ks_BucketTrackRecords (kc_Storage c), kb_Pool (kc_Beanstalk c),
     kb_TubeProcessTrack (kc_Beanstalk c), kb_TubeStoreEvent (kc_Beanstalk c),
     kb_TubeUpdateRecordingTrack (kc_Beanstalk c), kk_URL (kc_Livekit c), kk_Key (kc_Livekit c),
     kk_Secret (kc_Livekit c)]"

definition avp_checked :: "avp_config \<Rightarrow> string list" where
  "avp_checked c = [vs_Host (vc_Storage c), vs_Scheme (vc_Storage c), vs_Region (vc_Storage c),
     vs_AccessKey (vc_Storage c), vs_SecretKey (vc_Storage c),
     vs_BucketTrackRecords (vc_Storage c), vs_BucketTrackPublic (vc_Storage c),
     vb_Pool (vc_Beanstalk c), vb_TubeProcessTrack (vc_Beanstalk c),
     vb_TubeUpdateRecordingTrack (vc_Beanstalk c)]"

definition clients_checked :: "clients_config \<Rightarrow> string list" where
  "clients_checked c = [nc_ListenWebAddress c]"

definition sender_checked :: "sender_config \<Rightarrow> string list" where
  "sender_checked c = [sc_IAMRPCAddress c, ec_MailersendBaseURL (sc_Email c), ec_MailersendToken (sc_Email c),
     ec_MailersendFromEmail (sc_Email c), sb_Pool (sc_Beanstalk c), sb_TubeSend (sc_Beanstalk c)]"

lemmas checked_defs = confa_checked_def iam_checked_def rtc_checked_def tracker_checked_def
  avp_checked_def clients_checked_def sender_checked_def

text \<open>
  A configuration is accepted exactly when its log level is known and no field among those
  listed is empty, in every service; what is not listed may be empty.
\<close>

theorem configs_accepted_exactly:
  "(\<forall>c. confa_config_Validate c = None \<longleftrightarrow> cc_LogLevel c \<in> log_levels \<and> '''' \<notin> set (confa_checked c)) \<and>
   (\<forall>c. iam_config_Validate c = None \<longleftrightarrow> ic_LogLevel c \<in> log_levels \<and> '''' \<notin> set (iam_checked c)) \<and>
   (\<forall>c. rtc_config_Validate c = None \<longleftrightarrow> rf_LogLevel c \<in> log_levels \<and> '''' \<notin> set (rtc_checked c)) \<and>
   (\<forall>c. tracker_config_Validate c = None \<longleftrightarrow> kc_LogLevel c \<in> log_levels \<and> '''' \<notin> set (tracker_checked c)) \<and>
   (\<forall>c. avp_config_Validate c = None \<longleftrightarrow> vc_LogLevel c \<in> log_levels \<and> '''' \<notin> set (avp_checked c)) \<and>
   (\<forall>c. clients_config_Validate c = None \<longleftrightarrow> nc_LogLevel c \<in> log_levels \<and> '''' \<notin> set (clients_checked c)) \<and>
   (\<forall>c. sender_config_Validate c = None \<longleftrightarrow> sc_LogLevel c \<in> log_levels \<and> '''' \<notin> set (sender_checked c))"
  by (intro conjI allI; auto simp: config_defs checked_defs checks simp del: first_unset.simps first_err.simps)

text \<open>The address the account service listens on for calls is not among them.\<close>

lemma iam_rpc_unchecked: "iam_config_Validate (c\<lparr>ic_ListenRPCAddress := a\<rparr>) = iam_config_Validate c"
  by (simp add: iam_config_Validate_def)

end
