(* ===== verification/Services.thy ===== *)
theory Services
  imports Config Confa_Jobs Avp Sender
begin

text \<open>
  How the services are wired by their queues: the tubes every \<^verbatim>\<open>main\<close> under \<^verbatim>\<open>services/cmd\<close> hands
  to its emitters and handlers, and those its consumer watches, over the configurations of
  \<open>Config\<close> and the routes of the handlers.

  The lemma shows that one environment with different tubes is enough for every message of
  every service to reach the handler written for it.
\<close>

section \<open>Tubes handed out\<close>

definition talk_tubes_of :: "confa_beanstalk_config \<Rightarrow> talk_tubes" where
  "talk_tubes_of c = \<lparr>tt_StartRecording = cb_TubeStartRecording c, tt_StopRecording = cb_TubeStopRecording c\<rparr>"

definition confa_tubes_of :: "confa_beanstalk_config \<Rightarrow> confa_queue_tubes" where
  "confa_tubes_of c = \<lparr>cq_UpdateAvatar = cb_TubeUpdateAvatar c, cq_StartRecording = cb_TubeStartRecording c,
     cq_StopRecording = cb_TubeStopRecording c, cq_RecordingUpdate = cb_TubeRecordingUpdate c, cq_Send = cb_TubeSend c\<rparr>"

definition rtc_tubes_of :: "rtc_beanstalk_config \<Rightarrow> rtc_queue_tubes" where
  "rtc_tubes_of c = \<lparr>rq_StoreEvent = rb_TubeStoreEvent c, rq_UpdateRecordingTrack = rb_TubeUpdateRecordingTrack c,
     rq_RecordingUpdate = rb_TubeRecordingUpdate c\<rparr>"

definition tracker_tubes_of :: "tracker_beanstalk_config \<Rightarrow> tracker_tubes" where
  "tracker_tubes_of c = \<lparr>tk_ProcessTrack = kb_TubeProcessTrack c, tk_StoreEvent = kb_TubeStoreEvent c,
     tk_UpdateRecordingTrack = kb_TubeUpdateRecordingTrack c\<rparr>"

section \<open>Tubes watched\<close>

definition confa_consumes :: "confa_beanstalk_config \<Rightarrow> string list" where
  "confa_consumes c = [cb_TubeUpdateAvatar c, cb_TubeStartRecording c, cb_TubeStopRecording c, cb_TubeRecordingUpdate c]"

definition rtc_consumes :: "rtc_beanstalk_config \<Rightarrow> string list" where
  "rtc_consumes c = [rb_TubeStoreEvent c, rb_TubeUpdateRecordingTrack c]"

definition avp_consumes :: "avp_beanstalk_config \<Rightarrow> string list" where
  "avp_consumes c = [vb_TubeProcessTrack c]"

definition sender_consumes :: "sender_beanstalk_config \<Rightarrow> string list" where
  "sender_consumes c = [sb_TubeSend c]"

section \<open>Delivery\<close>

definition serves :: "string list \<Rightarrow> (job \<Rightarrow> 'w handler option) \<Rightarrow> string \<Rightarrow> 'w handler \<Rightarrow> bool" where
  "serves watched route tube h \<longleftrightarrow> tube \<in> set watched \<and> (\<forall>job. jb_Tube job = tube \<longrightarrow> route job = Some h)"

definition tube_names :: "string list" where
  "tube_names = [''BEANSTALK_TUBE_SEND'', ''BEANSTALK_TUBE_UPDATE_AVATAR'', ''BEANSTALK_TUBE_START_RECORDING'',
     ''BEANSTALK_TUBE_STOP_RECORDING'', ''BEANSTALK_TUBE_RECORDING_UPDATE'', ''BEANSTALK_TUBE_STORE_EVENT'',
     ''BEANSTALK_TUBE_UPDATE_RECORDING_TRACK'', ''BEANSTALK_TUBE_PROCESS_TRACK'']"

lemmas wiring = serves_def talk_tubes_of_def confa_tubes_of_def rtc_tubes_of_def tracker_tubes_of_def
  confa_consumes_def rtc_consumes_def avp_consumes_def sender_consumes_def
  confa_route_def rtc_route_def avp_route_def sender_route_def
  confa_beanstalk_config_env_def rtc_beanstalk_config_env_def tracker_beanstalk_config_env_def
  avp_beanstalk_config_env_def sender_beanstalk_config_env_def iam_beanstalk_config_env_def

text \<open>
  C9: Every message reaches its handler when the services share one environment that gives
  different tubes: the conference service gets the recordings its talks start and stop, the
  avatars the account service asks for and the finished recordings of the rooms; the rooms get
  the events and track updates of the tracker and the media processing; the media processing
  gets the tracks of the tracker; the sender gets what both services send.
\<close>

theorem messages_reach_their_handlers:
  fixes env :: "string \<Rightarrow> string" and avatar start stop ready store update process send :: "'w handler"
  defines "cb \<equiv> confa_beanstalk_config_env env" and "rb \<equiv> rtc_beanstalk_config_env env"
    and "kb \<equiv> tracker_beanstalk_config_env env" and "vb \<equiv> avp_beanstalk_config_env env"
    and "sb \<equiv> sender_beanstalk_config_env env" and "ib \<equiv> iam_beanstalk_config_env env"
  assumes distinct: "distinct (map env tube_names)"
  defines "confa \<equiv> serves (confa_consumes cb) (confa_route (confa_tubes_of cb) avatar start stop ready)"
    and "rtc \<equiv> serves (rtc_consumes rb) (rtc_route (rtc_tubes_of rb) store update)"
    and "avp \<equiv> serves (avp_consumes vb) (avp_route (vb_TubeProcessTrack vb) process)"
    and "sender \<equiv> serves (sender_consumes sb) (sender_route (sb_TubeSend sb) send)"
  shows "confa (tt_StartRecording (talk_tubes_of cb)) start \<and> confa (tt_StopRecording (talk_tubes_of cb)) stop \<and>
    confa (cb_TubeUpdateAvatar cb) avatar \<and> confa (ib_TubeUpdateAvatar ib) avatar \<and> confa (rq_RecordingUpdate (rtc_tubes_of rb)) ready \<and>
    rtc (rq_StoreEvent (rtc_tubes_of rb)) store \<and> rtc (tk_StoreEvent (tracker_tubes_of kb)) store \<and>
    rtc (tk_UpdateRecordingTrack (tracker_tubes_of kb)) update \<and> rtc (vb_TubeUpdateRecordingTrack vb) update \<and>
    avp (tk_ProcessTrack (tracker_tubes_of kb)) process \<and>
    sender (cq_Send (confa_tubes_of cb)) send \<and> sender (ib_TubeSend ib) send"
  using distinct unfolding assms tube_names_def by (auto simp: wiring)

text \<open>The environment of \<^verbatim>\<open>src/docker-compose.yml\<close>.\<close>

definition compose_env :: "string \<Rightarrow> string" where
  "compose_env v = (case map_of
     [(''BEANSTALK_TUBE_SEND'', ''sender/send''), (''BEANSTALK_TUBE_UPDATE_AVATAR'', ''confa/update-avatar''),
      (''BEANSTALK_TUBE_START_RECORDING'', ''confa/start-recording''),
      (''BEANSTALK_TUBE_STOP_RECORDING'', ''confa/stop-recording''),
      (''BEANSTALK_TUBE_RECORDING_UPDATE'', ''confa/recording-update''),
      (''BEANSTALK_TUBE_STORE_EVENT'', ''rtc/store-event''),
      (''BEANSTALK_TUBE_UPDATE_RECORDING_TRACK'', ''rtc/update-recording-track''),
      (''BEANSTALK_TUBE_PROCESS_TRACK'', ''avp/process-track'')] v of None \<Rightarrow> '''' | Some t \<Rightarrow> t)"

lemma messages_reach_their_handlers_witness:
  "serves [''rtc/store-event'', ''rtc/update-recording-track'']
     (rtc_route (rtc_tubes_of (rtc_beanstalk_config_env compose_env)) (\<lambda>job w. (w, None)) (\<lambda>job w. (w, Some Buried)))
     ''rtc/update-recording-track'' (\<lambda>job w. (w :: nat, Some Buried))"
  using messages_reach_their_handlers [where env = compose_env and store = "\<lambda>job w. (w, None)"
      and update = "\<lambda>job w. (w :: nat, Some Buried)"]
  by (simp add: tube_names_def compose_env_def rtc_consumes_def rtc_beanstalk_config_env_def
      tracker_tubes_of_def tracker_beanstalk_config_env_def)

end
