(* ===== verification/Lifecycle.thy ===== *)
theory Lifecycle
  imports Steps
begin

text \<open>
  How the services end: the last part of every \<^verbatim>\<open>main\<close> under \<^verbatim>\<open>services/cmd\<close>, statement by statement,
  run beside the requests and jobs of the service, and \<^verbatim>\<open>AutoTouch\<close> of
  \<^verbatim>\<open>cmd/avp/queue/middleware.go\<close> beside the handler it wraps.

  A context is the chain of its ancestors; it is done when one of them was cancelled or timed
  out.  \<^verbatim>\<open>http.Server.Shutdown\<close> refuses new requests and then waits until no request runs or its
  context is done.  A worker is what \<^verbatim>\<open>main\<close> waits for with a \<^verbatim>\<open>WaitGroup\<close>: the consumer of jobs, or
  the runtime of the trackers.  The consumer is a library (\<^verbatim>\<open>prep/beanstalk\<close>): that it returns
  only after the handlers it started is the parameter \<open>drains\<close>, and a handler may still be
  started when its context is just done.

  The lemmas show which of the waits at the end can block, and what runs or is published after
  the service gave up the thing it needs.
\<close>

section \<open>Contexts\<close>

datatype gctx = Background | Child gctx nat

fun ctx_done :: "nat set \<Rightarrow> gctx \<Rightarrow> bool" where
  "ctx_done D Background = False"
| "ctx_done D (Child c i) = (i \<in> D \<or> ctx_done D c)"

lemma ctx_done_mono: "ctx_done D c \<Longrightarrow> D \<subseteq> D' \<Longrightarrow> ctx_done D' c"
  by (induction c) auto

section \<open>The statements of main\<close>

text \<open>
  \<open>SigWait\<close> is \<^verbatim>\<open><-c\<close> for a channel of \<^verbatim>\<open>signal.Notify\<close>, \<open>CtxWait\<close> is \<^verbatim>\<open><-ctx.Done()\<close>, \<open>MkTimeout\<close> is
  \<^verbatim>\<open>ctx, shutdown := context.WithTimeout(ctx, d)\<close> and \<open>FreshTimeout\<close> the same over
  \<^verbatim>\<open>context.Background()\<close>.  \<open>AwaitIdle\<close> is the second half of \<^verbatim>\<open>Shutdown\<close>.  \<open>ListenHere\<close> is
  \<^verbatim>\<open>ListenAndServe\<close> called by \<^verbatim>\<open>main\<close> itself.
\<close>

datatype server = Web | RPC

datatype stmt = SigWait | CtxWait | MkTimeout | FreshTimeout | CancelMain
  | ShutdownSrv server | AwaitIdle server | StopProducer | AwaitWorker | ListenHere server

definition confa_tail :: "stmt list" where
  "confa_tail = [SigWait, MkTimeout, CancelMain, ShutdownSrv Web, StopProducer, AwaitWorker]"

definition iam_tail :: "stmt list" where
  "iam_tail = [SigWait, MkTimeout, CancelMain, ShutdownSrv Web, ShutdownSrv RPC, StopProducer]"

definition rtc_tail :: "stmt list" where
  "rtc_tail = [SigWait, MkTimeout, CancelMain, ShutdownSrv Web, ShutdownSrv RPC, StopProducer, AwaitWorker]"

definition tracker_tail :: "stmt list" where
  "tracker_tail = [SigWait, MkTimeout, CancelMain, ShutdownSrv RPC, StopProducer, AwaitWorker]"

definition avp_tail :: "stmt list" where
  "avp_tail = [SigWait, MkTimeout, CancelMain, AwaitWorker, StopProducer]"

definition sender_tail :: "stmt list" where
  "sender_tail = [CtxWait, CancelMain, AwaitWorker]"

definition clients_tail :: "stmt list" where
  "clients_tail = [CtxWait, FreshTimeout, ShutdownSrv Web]"

definition gateway_tail :: "stmt list" where
  "gateway_tail = [ListenHere Web, CtxWait, CancelMain, MkTimeout, ShutdownSrv Web]"

section \<open>The process\<close>

text \<open>
  \<open>ps_notify\<close>: the first context is one of \<^verbatim>\<open>signal.NotifyContext\<close>, so the signal cancels it.
  \<open>ps_late\<close> counts what was published after the producer stopped.  The first context has the
  number 0 and is the one of the worker.
\<close>

record process =
  ps_todo :: "stmt list"
  ps_ctx :: gctx
  ps_done :: "nat set"
  ps_next :: nat
  ps_timers :: "nat set"
  ps_notify :: bool
  ps_signal :: bool
  ps_servers :: "server set"
  ps_requests :: "server \<Rightarrow> nat"
  ps_down :: "server set"
  ps_jobs :: nat
  ps_working :: bool
  ps_producing :: bool
  ps_late :: nat
  ps_fatal :: bool

definition main_ctx :: gctx where "main_ctx = Child Background 0"

definition started :: "bool \<Rightarrow> server set \<Rightarrow> bool \<Rightarrow> stmt list \<Rightarrow> process" where
  "started notify srv worker prog = \<lparr>ps_todo = prog, ps_ctx = main_ctx, ps_done = {}, ps_next = 1, ps_timers = {},
     ps_notify = notify, ps_signal = False, ps_servers = srv, ps_requests = (\<lambda>_. 0), ps_down = {}, ps_jobs = 0,
     ps_working = worker, ps_producing = True, ps_late = 0, ps_fatal = False\<rparr>"

text \<open>One statement of \<^verbatim>\<open>main\<close>; \<open>None\<close> when it has to wait.\<close>

fun exec_stmt :: "stmt \<Rightarrow> process \<Rightarrow> process option" where
  "exec_stmt SigWait s = (if ps_signal s then Some s else None)"
| "exec_stmt CtxWait s = (if ctx_done (ps_done s) (ps_ctx s) then Some s else None)"
| "exec_stmt MkTimeout s = Some (s\<lparr>ps_ctx := Child (ps_ctx s) (ps_next s),
     ps_timers := insert (ps_next s) (ps_timers s), ps_next := ps_next s + 1\<rparr>)"
| "exec_stmt FreshTimeout s = Some (s\<lparr>ps_ctx := Child Background (ps_next s),
     ps_timers := insert (ps_next s) (ps_timers s), ps_next := ps_next s + 1\<rparr>)"
| "exec_stmt CancelMain s = Some (s\<lparr>ps_done := insert 0 (ps_done s)\<rparr>)"
| "exec_stmt (ShutdownSrv v) s = Some (s\<lparr>ps_down := insert v (ps_down s),
     ps_todo := AwaitIdle v # ps_todo s\<rparr>)"
| "exec_stmt (AwaitIdle v) s =
     (if ps_requests s v = 0 \<or> ctx_done (ps_done s) (ps_ctx s) then Some s else None)"
| "exec_stmt StopProducer s = Some (s\<lparr>ps_producing := False\<rparr>)"
| "exec_stmt AwaitWorker s = (if ps_working s then None else Some s)"
| "exec_stmt (ListenHere v) s = (if v \<in> ps_down s then Some s else None)"

definition main_next :: "process \<Rightarrow> process option" where
  "main_next s = (case ps_todo s of [] \<Rightarrow> None | c # cs \<Rightarrow> exec_stmt c (s\<lparr>ps_todo := cs\<rparr>))"

text \<open>
  The rest of the process.  A failing listener is fatal.  The worker ends once its context is
  done; with \<open>drains\<close>, not before its handlers.  Nothing runs once \<^verbatim>\<open>main\<close> returned.
\<close>

definition alive :: "process \<Rightarrow> bool" where
  "alive s \<longleftrightarrow> \<not> ps_fatal s \<and> ps_todo s \<noteq> []"

definition busy :: "process \<Rightarrow> bool" where
  "busy s \<longleftrightarrow> ps_jobs s > 0 \<or> (\<exists>v \<in> {Web, RPC}. ps_requests s v > 0)"

inductive pstep :: "bool \<Rightarrow> process \<Rightarrow> process \<Rightarrow> bool" for drains where
  main_step: "\<not> ps_fatal s \<Longrightarrow> main_next s = Some t \<Longrightarrow> pstep drains s t"
| interrupt: "alive s \<Longrightarrow> pstep drains s (s\<lparr>ps_signal := True,
     ps_done := (if ps_notify s then insert 0 (ps_done s) else ps_done s)\<rparr>)"
| timed_out: "alive s \<Longrightarrow> i \<in> ps_timers s \<Longrightarrow> pstep drains s (s\<lparr>ps_done := insert i (ps_done s)\<rparr>)"
| request: "alive s \<Longrightarrow> v \<in> ps_servers s - ps_down s \<Longrightarrow>
     pstep drains s (s\<lparr>ps_requests := (ps_requests s)(v := ps_requests s v + 1)\<rparr>)"
| answered: "alive s \<Longrightarrow> ps_requests s v > 0 \<Longrightarrow>
     pstep drains s (s\<lparr>ps_requests := (ps_requests s)(v := ps_requests s v - 1)\<rparr>)"
| listener_fails: "alive s \<Longrightarrow> v \<in> ps_servers s - ps_down s \<Longrightarrow> pstep drains s (s\<lparr>ps_fatal := True\<rparr>)"
| job: "alive s \<Longrightarrow> ps_working s \<Longrightarrow>
     pstep drains s (s\<lparr>ps_jobs := ps_jobs s + 1\<rparr>)"
| job_done: "alive s \<Longrightarrow> ps_jobs s > 0 \<Longrightarrow> pstep drains s (s\<lparr>ps_jobs := ps_jobs s - 1\<rparr>)"
| publish: "alive s \<Longrightarrow> busy s \<Longrightarrow>
     pstep drains s (s\<lparr>ps_late := ps_late s + (if ps_producing s then 0 else 1)\<rparr>)"
| worker_done: "alive s \<Longrightarrow> ps_working s \<Longrightarrow> ctx_done (ps_done s) main_ctx \<Longrightarrow> (drains \<longrightarrow> ps_jobs s = 0) \<Longrightarrow>
     pstep drains s (s\<lparr>ps_working := False\<rparr>)"

lemma main_next_cons:
  "main_next s = Some t \<longleftrightarrow> (\<exists>c cs. ps_todo s = c # cs \<and> exec_stmt c (s\<lparr>ps_todo := cs\<rparr>) = Some t)"
  by (auto simp: main_next_def split: list.splits)

section \<open>The grace period\<close>

text \<open>
  The programs in which the first context is cancelled before the first server is asked to
  stop, and everything that follows is below it.
\<close>

fun cancels_first :: "stmt list \<Rightarrow> bool" where
  "cancels_first [] = True"
| "cancels_first (c # cs) = (case c of
     CancelMain \<Rightarrow> FreshTimeout \<notin> set cs
   | ShutdownSrv v \<Rightarrow> False
   | AwaitIdle v \<Rightarrow> False
   | FreshTimeout \<Rightarrow> False
   | _ \<Rightarrow> cancels_first cs)"

fun below_main :: "gctx \<Rightarrow> bool" where
  "below_main Background = False"
| "below_main (Child c i) = (i = 0 \<or> below_main c)"

lemma below_main_done: "below_main c \<Longrightarrow> 0 \<in> D \<Longrightarrow> ctx_done D c"
  by (induction c) auto

definition cancelled_in_time :: "process \<Rightarrow> bool" where
  "cancelled_in_time s \<longleftrightarrow> below_main (ps_ctx s) \<and> FreshTimeout \<notin> set (ps_todo s) \<and>
     (0 \<in> ps_done s \<or> cancels_first (ps_todo s))"

lemma cancels_first_no_fresh: "cancels_first cs \<Longrightarrow> FreshTimeout \<notin> set cs"
  by (induction cs rule: cancels_first.induct) (auto split: stmt.splits)

lemma cancelled_in_time_exec:
  "cancelled_in_time s \<Longrightarrow> main_next s = Some t \<Longrightarrow> cancelled_in_time t"
  unfolding main_next_cons
proof (elim exE conjE)
  fix c cs assume "cancelled_in_time s" "ps_todo s = c # cs" "exec_stmt c (s\<lparr>ps_todo := cs\<rparr>) = Some t"
  then show ?thesis by (cases c) (auto simp: cancelled_in_time_def split: if_splits)
qed

interpretation grace: stable "pstep drains" cancelled_in_time for drains
proof unfold_locales
  show "cancelled_in_time t" if "cancelled_in_time s" "pstep drains s t" for s t
    using that(2)
  proof cases
    case main_step
    with that(1) show ?thesis by (blast intro: cancelled_in_time_exec)
  qed (use that(1) in \<open>simp_all add: cancelled_in_time_def\<close>)
qed

definition impatient :: "stmt list list" where
  "impatient = [confa_tail, iam_tail, rtc_tail, tracker_tail]"

lemmas tails = confa_tail_def iam_tail_def rtc_tail_def tracker_tail_def avp_tail_def sender_tail_def
  clients_tail_def gateway_tail_def

lemma impatient_cancelled: "prog \<in> set impatient \<Longrightarrow> cancelled_in_time (started notify srv worker prog)"
  by (auto simp: impatient_def tails cancelled_in_time_def started_def main_ctx_def)

text \<open>
  C38: When the services of the conferences, accounts, rooms and trackers wait for the running
  requests of a server, their context is done already: the sixty seconds were derived from the
  context just cancelled.  The wait never blocks, whatever still runs.
\<close>

theorem grace_never_granted:
  assumes "prog \<in> set impatient"
    and "reach (pstep drains) (started False srv worker prog) s"
    and "ps_todo s = AwaitIdle v # rest"
  shows "main_next s = Some (s\<lparr>ps_todo := rest\<rparr>)"
proof -
  have "cancelled_in_time s"
    by (rule grace.always [OF assms(2) impatient_cancelled [OF assms(1)]])
  then have "ctx_done (ps_done s) (ps_ctx s)"
    using assms(3) by (auto simp: cancelled_in_time_def intro: below_main_done)
  with assms(3) show ?thesis by (simp add: main_next_def)
qed

section \<open>A server that is waited for\<close>

text \<open>The clients of the senders: a fresh context, done only when its own timer fired.\<close>

definition clients_inv :: "process \<Rightarrow> bool" where
  "clients_inv s \<longleftrightarrow> ps_next s > 0 \<and>
     (ps_todo s = clients_tail \<and> ps_ctx s = main_ctx \<or> ps_todo s = tl clients_tail \<and> ps_ctx s = main_ctx \<or>
      (\<exists>i > 0. ps_ctx s = Child Background i \<and>
        ps_todo s \<in> set [[ShutdownSrv Web], [AwaitIdle Web], []]))"

interpretation clients_run: stable "pstep drains" clients_inv for drains
proof unfold_locales
  show "clients_inv t" if "clients_inv s" "pstep drains s t" for s t
    using that(2)
  proof cases
    case main_step
    with that(1) show ?thesis
      by (auto simp: clients_inv_def clients_tail_def main_next_def split: if_splits)
  qed (use that(1) in \<open>simp_all add: clients_inv_def\<close>)
qed

text \<open>\<^verbatim>\<open>main\<close> goes on only when no request runs or the fresh timer fired.\<close>

theorem clients_wait_for_requests:
  assumes "reach (pstep drains) (started True {Web} False clients_tail) s"
    and "ps_todo s = AwaitIdle Web # rest"
    and "main_next s = Some t"
  shows "ps_requests s Web = 0 \<or> (\<exists>i \<in> ps_done s. i \<noteq> 0 \<and> ps_ctx s = Child Background i)"
proof -
  have "clients_inv s"
    by (rule clients_run.always [OF assms(1)]) (simp add: clients_inv_def started_def)
  with assms(2,3) show ?thesis
    by (auto simp: clients_inv_def clients_tail_def main_next_def split: if_splits)
qed

section \<open>The gateway\<close>

text \<open>
  \<^verbatim>\<open>ListenAndServe\<close> is called by \<^verbatim>\<open>main\<close> itself and the signal only cancels the context: nothing
  asks the server to stop, so \<^verbatim>\<open>main\<close> never comes to the statements after it.
\<close>

definition listening :: "process \<Rightarrow> bool" where
  "listening s \<longleftrightarrow> ps_todo s = gateway_tail \<and> ps_down s = {}"

interpretation gateway_run: stable "pstep drains" listening for drains
proof unfold_locales
  show "listening t" if "listening s" "pstep drains s t" for s t
    using that(2)
  proof cases
    case main_step
    with that(1) show ?thesis by (auto simp: listening_def gateway_tail_def main_next_def)
  qed (use that(1) in \<open>simp_all add: listening_def\<close>)
qed

theorem gateway_never_shuts_down:
  assumes "reach (pstep drains) (started True {Web} False gateway_tail) s"
  shows "ps_todo s = gateway_tail \<and> ps_down s = {} \<and> main_next s = None"
proof -
  have "listening s"
    by (rule gateway_run.always [OF assms]) (simp add: listening_def started_def)
  then show ?thesis by (simp add: listening_def main_next_def gateway_tail_def)
qed

section \<open>What is published at the end\<close>

definition avp_inv :: "process \<Rightarrow> bool" where
  "avp_inv s \<longleftrightarrow> ps_servers s = {} \<and> ps_requests s = (\<lambda>_. 0) \<and> ps_late s = 0 \<and>
     (if ps_todo s \<in> set [[StopProducer], []] then \<not> ps_working s \<and> ps_jobs s = 0
      else ps_producing s \<and> ps_todo s \<in> set [avp_tail, tl avp_tail, tl (tl avp_tail), [AwaitWorker, StopProducer]]) \<and>
     (\<not> ps_working s \<longrightarrow> ps_jobs s = 0)"

lemma avp_inv_exec: "avp_inv s \<Longrightarrow> main_next s = Some t \<Longrightarrow> avp_inv t"
  by (auto simp: avp_inv_def avp_tail_def main_next_def split: if_splits)

interpretation avp_run: stable "pstep True" avp_inv
proof unfold_locales
  show "avp_inv t" if "avp_inv s" "pstep True s t" for s t
    using that(2)
  proof cases
    case main_step
    with that(1) show ?thesis by (blast intro: avp_inv_exec)
  next
    case publish
    with that(1) show ?thesis by (auto simp: avp_inv_def busy_def split: if_splits)
  qed (use that(1) in \<open>auto simp: avp_inv_def split: if_splits\<close>)
qed

text \<open>
  The media processing waits for its consumer before it stops the producer: with a consumer
  that drains nothing is published after the stop.
\<close>

theorem avp_publishes_everything:
  assumes "reach (pstep True) (started False {} True avp_tail) s"
  shows "ps_late s = 0 \<and> (ps_todo s = [] \<longrightarrow> ps_jobs s = 0)"
proof -
  have "avp_inv s"
    by (rule avp_run.always [OF assms]) (simp add: avp_inv_def started_def avp_tail_def)
  then show ?thesis by (auto simp: avp_inv_def)
qed

lemma reach_next: "step s t \<Longrightarrow> reach step t u \<Longrightarrow> reach step s u"
  by (blast intro: reach_trans reach_one)

text \<open>Several statements of \<^verbatim>\<open>main\<close> in a row.\<close>

fun mains :: "nat \<Rightarrow> process \<Rightarrow> process option" where
  "mains 0 s = Some s"
| "mains (Suc n) s = (case main_next s of None \<Rightarrow> None | Some t \<Rightarrow> mains n t)"

lemma main_next_fatal: "main_next s = Some t \<Longrightarrow> ps_fatal t = ps_fatal s"
  unfolding main_next_cons
proof (elim exE conjE)
  fix c cs assume "exec_stmt c (s\<lparr>ps_todo := cs\<rparr>) = Some t"
  then show ?thesis by (cases c) (auto split: if_splits)
qed

lemma mains_reach: "mains n s = Some t \<Longrightarrow> \<not> ps_fatal s \<Longrightarrow> reach (pstep drains) s t"
proof (induction n s rule: mains.induct)
  case (2 n s)
  then show ?case
    by (auto split: option.splits simp: main_next_fatal intro: reach_next main_step)
qed (simp add: reach.here)

lemma mains_fatal: "mains n s = Some t \<Longrightarrow> ps_fatal t = ps_fatal s"
  by (induction n s rule: mains.induct) (auto split: option.splits simp: main_next_fatal)

definition early_stop :: "stmt list list" where
  "early_stop = [confa_tail, rtc_tail, tracker_tail]"

lemma early_stop_mains:
  "prog \<in> set early_stop \<Longrightarrow> ps_todo s = prog \<Longrightarrow> ps_signal s \<Longrightarrow> ps_ctx s = main_ctx \<Longrightarrow>
   \<exists>n t. mains n s = Some t \<and> ps_todo t = [AwaitWorker] \<and> \<not> ps_producing t \<and> ps_jobs t = ps_jobs s \<and> ps_late t = ps_late s"
  by (rule exI [of _ "if ShutdownSrv Web \<in> set prog \<and> ShutdownSrv RPC \<in> set prog then 8 else 6"])
    (auto simp: early_stop_def tails numeral_eq_Suc main_next_def main_ctx_def)

text \<open>
  The services of the conferences, rooms and trackers stop their producer before they wait for
  what still works: a job (a track being finished) can publish after the stop, even when the
  consumer drains.
\<close>

theorem jobs_publish_too_late:
  "\<forall>prog \<in> set early_stop. \<exists>s. reach (pstep True) (started False srv True prog) s \<and> ps_late s = 1"
proof
  fix prog assume p: "prog \<in> set early_stop"
  let ?s = "started False srv True prog"
  let ?t = "(?s\<lparr>ps_jobs := ps_jobs ?s + 1\<rparr>)"
  let ?u = "?t\<lparr>ps_signal := True, ps_done := (if ps_notify ?t then insert 0 (ps_done ?t) else ps_done ?t)\<rparr>"
  have a: "prog \<noteq> []" using p by (auto simp: early_stop_def tails)
  have "pstep True ?s ?t" by (rule job) (use a in \<open>simp_all add: started_def alive_def main_ctx_def\<close>)
  moreover have "pstep True ?t ?u" by (rule interrupt) (use a in \<open>simp add: started_def alive_def\<close>)
  ultimately have u: "reach (pstep True) ?s ?u" by (rule reach_next [OF _ reach_one])
  obtain n t where t: "mains n ?u = Some t" "ps_todo t = [AwaitWorker]" "\<not> ps_producing t" "ps_jobs t = 1" "ps_late t = 0"
    using early_stop_mains [OF p, of ?u] by (auto simp: started_def)
  have f: "\<not> ps_fatal t"
    using mains_fatal [OF t(1)] by (simp add: started_def)
  have "reach (pstep True) ?u t"
    by (rule mains_reach [OF t(1)]) (simp add: started_def)
  with u have "reach (pstep True) ?s t" by (rule reach_trans [rotated])
  moreover have "pstep True t (t\<lparr>ps_late := ps_late t + (if ps_producing t then 0 else 1)\<rparr>)"
    by (rule publish) (use t f in \<open>simp_all add: alive_def busy_def\<close>)
  ultimately show "\<exists>s. reach (pstep True) ?s s \<and> ps_late s = 1"
    using t by (auto intro!: exI [of _ "t\<lparr>ps_late := Suc 0\<rparr>"] intro: reach.more)
qed

section \<open>Runs in which the hypotheses hold\<close>

lemma jobs_publish_too_late_witness:
  "\<exists>s. reach (pstep True) (started False {RPC} True tracker_tail) s \<and> ps_late s = 1"
  using bspec [OF jobs_publish_too_late, of tracker_tail "{RPC}"] by (simp add: early_stop_def)

lemma run_one_request:
  fixes notify worker :: bool
  assumes "v \<in> srv" "prog \<noteq> []"
  defines "s \<equiv> started notify srv worker prog"
  defines "t \<equiv> s\<lparr>ps_requests := (ps_requests s)(v := ps_requests s v + 1)\<rparr>"
  shows "reach (pstep drains) s (t\<lparr>ps_signal := True,
     ps_done := (if ps_notify t then insert 0 (ps_done t) else ps_done t)\<rparr>)"
proof (rule reach_next [OF _ reach_one])
  show "pstep drains s t"
    unfolding t_def by (rule request) (use assms in \<open>simp_all add: s_def started_def alive_def\<close>)
  show "pstep drains t (t\<lparr>ps_signal := True, ps_done := (if ps_notify t then insert 0 (ps_done t) else ps_done t)\<rparr>)"
    by (rule interrupt) (use assms(2) in \<open>simp add: t_def s_def started_def alive_def\<close>)
qed

lemma run_mains:
  "reach (pstep drains) s t \<Longrightarrow> \<not> ps_fatal t \<Longrightarrow> mains n t = Some u \<Longrightarrow> reach (pstep drains) s u"
  by (blast intro: reach_trans mains_reach)

lemma grace_never_granted_witness:
  "\<exists>s. ps_requests s Web = 1 \<and> reach (pstep True) (started False {Web, RPC} True rtc_tail) s \<and>
       main_next s = Some (s\<lparr>ps_todo := [ShutdownSrv RPC, StopProducer, AwaitWorker]\<rparr>)"
proof -
  let ?s = "started False {Web, RPC} True rtc_tail"
  let ?u = "?s\<lparr>ps_requests := (\<lambda>_. 0)(Web := 1), ps_signal := True\<rparr>"
  have "reach (pstep True) ?s ?u"
    using run_one_request [of Web "{Web, RPC}" rtc_tail True False True]
    by (simp add: started_def rtc_tail_def)
  then have r: "reach (pstep True) ?s (the (mains 4 ?u))"
    by (rule run_mains [where n = 4]) (simp_all add: started_def rtc_tail_def numeral_eq_Suc main_next_def)
  have "main_next (the (mains 4 ?u)) = Some ((the (mains 4 ?u))\<lparr>ps_todo := [ShutdownSrv RPC, StopProducer, AwaitWorker]\<rparr>)"
    by (rule grace_never_granted [OF _ r, of Web])
      (simp_all add: impatient_def started_def rtc_tail_def numeral_eq_Suc main_next_def)
  moreover have "ps_requests (the (mains 4 ?u)) Web = 1"
    by (simp add: started_def rtc_tail_def numeral_eq_Suc main_next_def)
  ultimately show ?thesis using r by blast
qed

lemma clients_wait_for_requests_witness:
  "\<exists>s t. reach (pstep True) (started True {Web} False clients_tail) s \<and> main_next s = Some t \<and>
     (ps_requests s Web = 0 \<or> (\<exists>i \<in> ps_done s. i \<noteq> 0 \<and> ps_ctx s = Child Background i))"
proof -
  let ?s = "started True {Web} False clients_tail"
  let ?t = "?s\<lparr>ps_signal := True, ps_done := {0}\<rparr>"
  let ?u = "the (mains 3 ?t)"
  have "pstep True ?s (?s\<lparr>ps_signal := True, ps_done := (if ps_notify ?s then insert 0 (ps_done ?s) else ps_done ?s)\<rparr>)"
    by (rule interrupt) (simp add: alive_def started_def clients_tail_def)
  then have "reach (pstep True) ?s ?t" by (auto simp: started_def intro: reach_one)
  then have r: "reach (pstep True) ?s ?u"
    by (rule run_mains [where n = 3])
      (simp_all add: started_def clients_tail_def numeral_eq_Suc main_next_def main_ctx_def)
  have n: "main_next ?u = Some (?u\<lparr>ps_todo := []\<rparr>)"
    by (simp add: started_def clients_tail_def numeral_eq_Suc main_next_def main_ctx_def)
  have "ps_requests ?u Web = 0 \<or> (\<exists>i \<in> ps_done ?u. i \<noteq> 0 \<and> ps_ctx ?u = Child Background i)"
    by (rule clients_wait_for_requests [OF r _ n, of "[]"])
      (simp add: started_def clients_tail_def numeral_eq_Suc main_next_def main_ctx_def)
  with r n show ?thesis by blast
qed

lemma gateway_never_shuts_down_witness:
  "\<exists>s. reach (pstep True) (started True {Web} False gateway_tail) s \<and> ps_signal s \<and> main_next s = None"
proof -
  let ?s = "started True {Web} False gateway_tail"
  have "reach (pstep True) ?s (?s\<lparr>ps_signal := True, ps_done := (if ps_notify ?s then insert 0 (ps_done ?s) else ps_done ?s)\<rparr>)"
    by (rule reach_one, rule interrupt) (simp add: alive_def started_def gateway_tail_def)
  from this gateway_never_shuts_down [OF this] show ?thesis by fastforce
qed

lemma avp_publishes_everything_witness:
  "\<exists>s. reach (pstep True) (started False {} True avp_tail) s \<and> ps_jobs s = 1 \<and> ps_late s = 0"
proof -
  let ?s = "started False {} True avp_tail"
  have "reach (pstep True) ?s (?s\<lparr>ps_jobs := ps_jobs ?s + 1\<rparr>)"
    by (rule reach_one, rule job) (simp_all add: alive_def started_def avp_tail_def main_ctx_def)
  from this avp_publishes_everything [OF this] show ?thesis
    by (intro exI [of _ "?s\<lparr>ps_jobs := ps_jobs ?s + 1\<rparr>"]) (simp add: started_def)
qed

section \<open>AutoTouch\<close>

text \<open>
  The wrapper of a handler and the goroutine that touches the job beside it.  \<open>tc_cancelled\<close> is
  the state of \<^verbatim>\<open>touchCtx\<close>: cancelled after the handler, by the deferred \<^verbatim>\<open>cancel\<close> when it panics, or
  with its parent.  Whether \<^verbatim>\<open>Touch\<close> fails on a cancelled context is the parameter \<open>honours\<close>.
\<close>

datatype wrapper = Handling | Waiting_touch | Returned | Panicked
datatype toucher = Selecting | Touching | Stopped

record touch_state =
  tc_wrapper :: wrapper
  tc_toucher :: toucher
  tc_cancelled :: bool
  tc_touches :: nat
  tc_after :: nat

definition touch_init :: touch_state where
  "touch_init = \<lparr>tc_wrapper = Handling, tc_toucher = Selecting, tc_cancelled = False, tc_touches = 0, tc_after = 0\<rparr>"

inductive touch_step :: "bool \<Rightarrow> touch_state \<Rightarrow> touch_state \<Rightarrow> bool" for honours where
  handled: "tc_wrapper s = Handling \<Longrightarrow>
     touch_step honours s (s\<lparr>tc_wrapper := Waiting_touch, tc_cancelled := True\<rparr>)"
| handler_panic: "tc_wrapper s = Handling \<Longrightarrow>
     touch_step honours s (s\<lparr>tc_wrapper := Panicked, tc_cancelled := True\<rparr>)"
| parent_cancelled: "touch_step honours s (s\<lparr>tc_cancelled := True\<rparr>)"
| tick: "tc_toucher s = Selecting \<Longrightarrow> touch_step honours s (s\<lparr>tc_toucher := Touching\<rparr>)"
| touched: "tc_toucher s = Touching \<Longrightarrow> \<not> (honours \<and> tc_cancelled s) \<Longrightarrow>
     touch_step honours s (s\<lparr>tc_toucher := Selecting, tc_touches := tc_touches s + 1,
       tc_after := tc_after s + (if tc_wrapper s = Handling then 0 else 1)\<rparr>)"
| touch_fails: "tc_toucher s = Touching \<Longrightarrow> touch_step honours s (s\<lparr>tc_toucher := Stopped\<rparr>)"
| touch_ctx_done: "tc_toucher s = Selecting \<Longrightarrow> tc_cancelled s \<Longrightarrow> touch_step honours s (s\<lparr>tc_toucher := Stopped\<rparr>)"
| touch_waited: "tc_wrapper s = Waiting_touch \<Longrightarrow> tc_toucher s = Stopped \<Longrightarrow>
     touch_step honours s (s\<lparr>tc_wrapper := Returned\<rparr>)"

definition touch_inv :: "bool \<Rightarrow> touch_state \<Rightarrow> bool" where
  "touch_inv honours s \<longleftrightarrow> (tc_wrapper s \<noteq> Handling \<longrightarrow> tc_cancelled s) \<and>
     (tc_wrapper s = Returned \<longrightarrow> tc_toucher s = Stopped) \<and> (honours \<longrightarrow> tc_after s = 0)"

interpretation touching: stable "touch_step honours" "touch_inv honours" for honours
proof unfold_locales
  show "touch_inv honours t" if "touch_inv honours s" "touch_step honours s t" for s t
    using that(2,1) by cases (auto simp: touch_inv_def)
qed

lemma touch_ends:
  "tc_wrapper s = Waiting_touch \<Longrightarrow> tc_cancelled s \<Longrightarrow>
   \<exists>t. reach (touch_step honours) s t \<and> tc_wrapper t = Returned"
proof (cases "tc_toucher s")
  case Stopped
  assume "tc_wrapper s = Waiting_touch"
  from touch_waited [OF this Stopped] show ?thesis by (fastforce intro: reach_one)
next
  case Selecting
  assume w: "tc_wrapper s = Waiting_touch" and c: "tc_cancelled s"
  from touch_ctx_done [OF Selecting c] have "reach (touch_step honours) s (s\<lparr>tc_toucher := Stopped\<rparr>)"
    by (rule reach_one)
  from reach.more [OF this touch_waited] w show ?thesis by fastforce
next
  case Touching
  assume w: "tc_wrapper s = Waiting_touch"
  from touch_fails [OF Touching] have "reach (touch_step honours) s (s\<lparr>tc_toucher := Stopped\<rparr>)"
    by (rule reach_one)
  from reach.more [OF this touch_waited] w show ?thesis by fastforce
qed

text \<open>
  Once the wrapped handler returned, nothing touches the job any more: the goroutine has
  stopped, and after the handler itself returned no touch went through when \<^verbatim>\<open>Touch\<close> honours its
  context; and from wherever the wrapper waits it can return.
\<close>

theorem AutoTouch_stops:
  assumes "reach (touch_step honours) touch_init s"
  shows "(tc_wrapper s = Returned \<longrightarrow> tc_toucher s = Stopped) \<and> (honours \<longrightarrow> tc_after s = 0) \<and>
    (tc_wrapper s = Waiting_touch \<longrightarrow> (\<exists>t. reach (touch_step honours) s t \<and> tc_wrapper t = Returned))"
proof -
  have "touch_inv honours s"
    by (rule touching.always [OF assms]) (simp add: touch_inv_def touch_init_def)
  then show ?thesis by (auto simp: touch_inv_def intro: touch_ends)
qed

lemma AutoTouch_stops_witness:
  "\<exists>s t. reach (touch_step True) touch_init s \<and> tc_toucher s = Touching \<and> tc_wrapper s = Waiting_touch \<and>
     reach (touch_step True) s t \<and> tc_wrapper t = Returned"
proof -
  let ?s = "touch_init\<lparr>tc_toucher := Touching\<rparr>"
  let ?t = "?s\<lparr>tc_wrapper := Waiting_touch, tc_cancelled := True\<rparr>"
  have "touch_step True touch_init ?s" by (rule tick) (simp add: touch_init_def)
  moreover have "touch_step True ?s ?t" by (rule handled) (simp add: touch_init_def)
  ultimately have r: "reach (touch_step True) touch_init ?t" by (rule reach_next [OF _ reach_one])
  from AutoTouch_stops [OF r] obtain u where "reach (touch_step True) ?t u" "tc_wrapper u = Returned"
    by auto
  with r show ?thesis by (intro exI [of _ ?t] exI [of _ u]) simp
qed

end
