(* ===== verification/Spec2Isabelle.thy ===== *)
theory Spec2Isabelle
  imports Remote Web_Entry Event_Room Shared_Watcher Tracker Session Wellformed Confa_Jobs Avp Sender Rpc Iam_Web Confa_Web Rtc_Web
    Track_Writer Completion Services Lifecycle
begin

text \<open>
  \<^bold>\<open>Confa\<close>: conferences with talks, rooms and recordings.  The sources are the Go services under
  \<^verbatim>\<open>src/services\<close>; every path below is relative to it.

  \<^bold>\<open>The program.\<close>  Six services share MongoDB, a beanstalkd queue, an object store and LiveKit.
  \<^verbatim>\<open>iam\<close> keeps accounts and sessions and signs access tokens.  \<^verbatim>\<open>confa\<close> keeps conferences, talks and
  profiles behind a GraphQL interface, and runs the jobs that start and stop the recording of a
  talk.  \<^verbatim>\<open>rtc\<close> keeps rooms, their events and recordings, serves events to browsers over sockets and
  stores the events and track updates other services publish.  \<^verbatim>\<open>tracker\<close> records the tracks of a
  room, \<^verbatim>\<open>avp\<close> converts recorded tracks, \<^verbatim>\<open>sender\<close> sends e-mails.  A talk is recorded by a chain of jobs
  and calls: \<^verbatim>\<open>confa\<close> asks \<^verbatim>\<open>rtc\<close>, \<^verbatim>\<open>rtc\<close> asks \<^verbatim>\<open>tracker\<close>, the tracker publishes events and tracks, \<^verbatim>\<open>avp\<close>
  publishes processed tracks, \<^verbatim>\<open>rtc\<close> tells \<^verbatim>\<open>confa\<close> when the recording is complete.

  \<^bold>\<open>Theories and code.\<close>
  \<^item> \<open>Prelude\<close>: errors with \<^verbatim>\<open>errors.Is\<close>, UUIDs as 128-bit words and their text, time in nanoseconds.
    \<open>Regexp\<close>: the patterns of the validators.  \<open>Mongo\<close>: documents, filters, updates and the driver
    as a record of functions, with the laws the repositories rely on, and a store in memory that
    satisfies them.  \<open>Paging\<close>: paging by key.  \<open>Queue\<close>: \<^verbatim>\<open>internal/platform/backoff\<close>, the messages
    (\<^verbatim>\<open>internal/proto/queue\<close> and the payloads), \<^verbatim>\<open>ServeJob\<close> and the contract \<open>job_handler\<close>.
    \<open>Steps\<close>: runs of step relations and the contract \<open>stable\<close> of an invariant.
  \<^item> \<open>Event\<close>, \<open>Event_Room\<close>, \<open>Shared_Watcher\<close>, \<open>Event_Mongo\<close>: \<^verbatim>\<open>event/\<close> and \<^verbatim>\<open>event/peer\<close>.  A room is a heap of
    linked nodes with the upstream cursor, its readers hold positions in it; \<open>room_step\<close> is one visible
    step of \<^verbatim>\<open>Room.Next\<close>, of a cursor or of a close.  A watcher is the map of rooms with their iterations.
  \<^item> \<open>Email\<close>, \<open>Session\<close>, \<open>User\<close>, \<open>Auth\<close>, \<open>Iam_Web\<close>: \<^verbatim>\<open>internal/platform/email\<close>, \<^verbatim>\<open>session/\<close>, \<^verbatim>\<open>user/\<close>,
    \<^verbatim>\<open>internal/auth\<close>, \<^verbatim>\<open>internal/routes\<close>, \<^verbatim>\<open>internal/platform/google/gsi\<close> and \<^verbatim>\<open>cmd/iam/web\<close>.
  \<^item> \<open>Confa\<close>, \<open>Wellformed\<close>, \<open>Talk\<close>, \<open>Profile\<close>, \<open>Listing\<close>, \<open>Confa_Web\<close>, \<open>Confa_Jobs\<close>: \<^verbatim>\<open>confa/\<close>, \<^verbatim>\<open>confa/talk\<close>, \<^verbatim>\<open>profile/\<close>,
    \<^verbatim>\<open>cmd/confa/web/graph.go\<close>, \<^verbatim>\<open>cmd/confa/queue\<close>.
  \<^item> \<open>Recordings\<close>, \<open>Rpc\<close>, \<open>Rtc_Jobs\<close>, \<open>Completion\<close>, \<open>Rtc_Web\<close>: \<^verbatim>\<open>room/\<close>, \<^verbatim>\<open>room/record\<close>, \<^verbatim>\<open>cmd/*/rpc\<close>, \<^verbatim>\<open>cmd/rtc/queue\<close>, \<^verbatim>\<open>cmd/rtc/web\<close>.
  \<^item> \<open>Tracker\<close>, \<open>Track_Writer\<close>: \<^verbatim>\<open>tracker/tracker.go\<close>, \<^verbatim>\<open>tracker/record\<close>, \<^verbatim>\<open>internal/platform/webrtc/webm\<close>.
    \<open>Avp\<close>: \<^verbatim>\<open>internal/dash\<close>, \<^verbatim>\<open>internal/platform/ffmpeg\<close>, \<^verbatim>\<open>cmd/avp/queue\<close>.  \<open>Sender\<close>: \<^verbatim>\<open>sender/\<close>, \<^verbatim>\<open>cmd/sender/queue\<close>
    and the two mailers.
  \<^item> \<open>Wire_Json\<close>, \<open>Twirp\<close>, \<open>Twirp_Services\<close>, \<open>Remote\<close>: \<^verbatim>\<open>internal/proto/*/*.twirp.go\<close>.  \<open>Wire_Json\<close> is
    \<^verbatim>\<open>encoding/json\<close> for the one object the errors travel in, \<open>Twirp\<close> the routines the generated files
    share, each with a copy of its own (errors, hooks, interceptors, bodies, the steps of a server and
    of a client), \<open>Twirp_Services\<close> the servers and clients of \<^verbatim>\<open>RTC\<close>, \<^verbatim>\<open>Registry\<close> and \<^verbatim>\<open>IAM\<close>, and
    \<open>Remote\<close> puts the handlers of \<open>Rpc\<close> behind a server and gives the jobs a client that talks to it.
  \<^item> \<open>Web_Entry\<close>: \<^verbatim>\<open>internal/platform/trace\<close>, the routers, wrappers and recovery of \<^verbatim>\<open>cmd/*/web\<close>,
    \<^verbatim>\<open>cmd/gateway/plugins.go\<close> and the context \<^verbatim>\<open>cmd/*/queue\<close> gives a job.
  \<^item> \<open>Config\<close>, \<open>Services\<close>, \<open>Lifecycle\<close>: \<^verbatim>\<open>cmd/*/config.go\<close>, the queues \<^verbatim>\<open>cmd/*/main.go\<close> wires together, and
    how each \<^verbatim>\<open>main\<close> ends; \<^verbatim>\<open>AutoTouch\<close> of \<^verbatim>\<open>cmd/avp/queue/middleware.go\<close>.

  \<^bold>\<open>Correspondence.\<close>  A struct is a record, an operation a function from the outside world \<open>'w\<close> to the
  world after it and a result: \<open>Inl\<close> an error, \<open>Inr\<close> a value; where the code can panic, an outer
  \<open>None\<close>.  Whatever a call draws (time, identifiers, random bytes) is an argument.  Concurrent parts
  are step relations, one step for each stretch of code between two points at which another
  goroutine can interfere, usually a critical section.

  \<^bold>\<open>What the lemmas show.\<close>  Of the data: validation, round trips of documents and messages, which
  documents an operation can change, and that stored conferences stay valid.  Of a room: it refines
  an append-only log with readers that see every event in order or learn that they fell behind, it
  never panics, and no reader waits for ever for an event that is there.  Of the watcher and the
  tracker runtime: what their counters count, and which histories make a close wait for ever.  Of
  the jobs: they end, only a complete recording is announced, and a stopped one is once its last track is processed,
  a conversion that failed is retried,
  the state of a talk only advances.  Of the tokens and logins: a session belongs to the account
  whose secret was shown, a token names the owner of its session until it expires, guests write
  nothing.  Of the sockets: a peer speaks as itself and both its workers end.  Of the listings: a
  client that follows the cursors sees every item once, and stops.  Of the ends of the services:
  what is waited for and what is lost.  Of the calls between services: an error keeps its code over
  the wire, a call through client, network and server yields what the handler yields when called
  directly, and whatever else a network answers is an error for which a job is put back.  Of the
  entries: where a trace comes from, and which handler a request reaches.  The last section below joins the account and the conference
  service.

  \<^bold>\<open>Bounds.\<close>  Client loops over pages take fuel; the listing theorems ask for more pages than items
  and then return a value.  Regular expressions, the parsing of identifiers and the folds over jobs
  are total functions.  Integers keep their width where it matters (the attempts of a backoff, the
  parsed limits, the words of identifiers); durations and times are unbounded integers.

  \<^bold>\<open>Parameters, with laws as hypotheses.\<close>  The MongoDB server (\<open>mongo_laws\<close>), protobuf (\<open>proto\<close>), JSON Web
  Tokens (\<open>jwt_laws\<close>), bcrypt, the transactions, the queue server, the object store, ffmpeg, LiveKit, the sample
  builder and WebM writer, HTTP clients, the network under them, the codecs and URLs of the generated
  clients (\<open>rpc_lib\<close>), floating point parts and the letters of Unicode.  Every law has
  an instance, used in the witnesses.

  \<^bold>\<open>Not modelled.\<close>  The generated messages (\<^verbatim>\<open>*.pb.go\<close>) and the vendored libraries, among them the
  engine of GraphQL; of \<^verbatim>\<open>net/http\<close> only the routing is written out.  Building clients in \<^verbatim>\<open>main\<close>;
  logging; the loop that asks for key frames; the page of \<^verbatim>\<open>cmd/sender-clients\<close> that lists mails; test
  doubles; the front end.  The context of an rpc is part of its state.  Of the
  codes of an error that crossed the wire the callers tell only \<^verbatim>\<open>not_found\<close> apart, and so does the
  model.  A turn of a loop of a socket is atomic.  After a panic that nothing recovers from, the model
  says nothing of the world.
\<close>

section \<open>From a login to a conference\<close>

text \<open>
  C3: The account service and the conference service share the key.  An access token the first
  hands out for a request without a usable guest token makes the second store a conference
  only for the owner of the session the request named, and only until the token expires.
\<close>

theorem session_owner_owns_conference:
  assumes "jwt_laws (ih_Key h)" and "mongo_laws (ih_Mongo h) docs" and "mongo_laws m docs'"
    and "rv_Key rv = ih_Key h" and "rv_Confas rv = confa_mongo_repo U m tm"
    and "fetchToken h dr r w = (w1, Some rp)" and "rp_Token rp = Some (HTTPContext_Token rq, n)"
    and "\<not> is_ok (Verify_api (ih_Key h) (dr_Now dr) (Auth_GuestToken r))"
    and "0 < Unix (dr_Now dr + apiExpire)"
    and "CreateConfa rv now i rq args v = (v', Inr c)"
  shows "Unix now \<le> Unix (dr_Now dr + apiExpire) \<and>
    (\<exists>d \<in> set (docs w ''sessions''). \<exists>s confa. session_dec d = Inr s \<and> ses_Key s = Auth_Session r \<and>
      co_ID confa = i \<and> co_Owner confa = ses_Owner s \<and>
      docs' v' confa_collection = docs' v confa_collection @ [confa_enc confa])"
proof -
  let ?t = "HTTPContext_Token rq"
  obtain claims where cl: "Verify_api (ih_Key h) now ?t = Inr claims" "AllowedWrite claims"
    using assms(4,10) by (auto simp: CreateConfa_def with_writer_def with_claims_def split: sum.splits if_splits)
  have ver: "case Verify_api (ih_Key h) now ?t of
      Inr c \<Rightarrow> Unix now \<le> Unix (dr_Now dr + apiExpire) \<and> ac_UserID c = u \<and> ac_Account c = acc \<and>
        (AllowedWrite c \<longleftrightarrow> acc \<in> {AccountUser, AccountAdmin})
    | Inl _ \<Rightarrow> Unix (dr_Now dr + apiExpire) < Unix now"
    if "SecretKey_Sign (ih_Key h) (api_claims_json (NewAPIClaims (dr_Now dr) u acc)) = Inr ?t" for u acc
    by (rule api_token_verifies [OF assms(1) that assms(9)])
  have guest: "SecretKey_Sign (ih_Key h) (api_claims_json (NewAPIClaims (dr_Now dr) (dr_UUID dr) AccountGuest)) \<noteq> Inr ?t"
    using ver [of "dr_UUID dr" AccountGuest] cl by (auto simp: account_defs)
  from fetchToken_sources [OF assms(2,6,7)] guest assms(8) obtain d s where
    s: "d \<in> set (docs w ''sessions'')" "session_dec d = Inr s" "ses_Key s = Auth_Session r"
    "SecretKey_Sign (ih_Key h) (api_claims_json (NewAPIClaims (dr_Now dr) (ses_Owner s) AccountUser)) = Inr ?t"
    by auto
  from ver [OF s(4)] cl have owner: "Unix now \<le> Unix (dr_Now dr + apiExpire)" "ac_UserID claims = ses_Owner s"
    by simp_all
  let ?q = "confa_zero\<lparr>co_Handle := opt_text (xd_Handle args), co_Title := opt_text (xd_Title args),
    co_Description := opt_text (xd_Description args)\<rparr>"
  from confa_create_run [OF assms(3), of U tm i "ac_UserID claims" ?q v] obtain v1 x where
    x: "confa_User_Create (confa_mongo_repo U m tm) i (ac_UserID claims) ?q v = Some (v1, x)"
    "\<And>c. x = Inr c \<Longrightarrow> docs' v1 confa_collection = docs' v confa_collection @ [confa_enc c] \<and>
       co_ID c = i \<and> co_Owner c = ac_UserID claims" by fastforce
  with assms(4,5,10) cl obtain confa where "x = Inr confa" "v1 = v'"
    by (cases x) (auto simp: CreateConfa_def with_writer_def with_claims_def)
  with x(2) [of confa] owner s show ?thesis by (intro conjI) (auto intro!: bexI [OF _ s(1)])
qed

theorem session_owner_owns_conference_witness:
  "\<exists>v' c. CreateConfa (demo_resolver (toy_jwt (api_claims_json (NewAPIClaims 1000000000 7 AccountUser)))) 1000000000 8
      (bearer ''tok'') \<lparr>xd_Handle = Some ''mine'', xd_Title = None, xd_Description = None\<rparr> api_mem = (v', Inr c) \<and>
    (\<exists>confa. co_Owner confa = 7 \<and> v' confa_collection = api_mem confa_collection @ [confa_enc confa])"
proof -
  let ?k = "toy_jwt (api_claims_json (NewAPIClaims 1000000000 7 AccountUser))"
  let ?h = "demo_iam\<lparr>ih_Key := ?k\<rparr>" and ?rv = "demo_resolver ?k"
  let ?r = "(post [(''session'', ''k1'')])\<lparr>rq_Method := ''GET''\<rparr>"
  let ?a = "\<lparr>xd_Handle = Some ''mine'', xd_Title = None, xd_Description = None\<rparr>"
  have key: "Auth_Session ?r = ''k1''" "Auth_GuestToken ?r = ''''"
    by (simp_all add: Auth_Session_def Auth_GuestToken_def cookie_value_def post_def sessionCookie_def guestCookie_def)
  have f: "session_FetchOne mem_mongo \<lparr>sl_Key = ''k1'', sl_Owner = uuid_Nil, sl_Limit = 0\<rparr> web_mem =
      (web_mem, Inr \<lparr>ses_Key = ''k1'', ses_Owner = 7, ses_CreatedAt = 5\<rparr>)"
    by (simp add: session_FetchOne_def session_Fetch_def session_Lookup_Validate_def mem_mongo_def
        web_mem_def session_filter_def session_enc_def bget_def clamp_limit_def
        session_batchLimit_def take_limit_def exactly_one_def session_dec_def dec_defs
        fetch_one_def find_decoded_def)
  obtain w1 rp n where run: "fetchToken ?h demo_draw ?r web_mem = (w1, Some rp)" "rp_Token rp = Some (HTTPContext_Token (bearer ''tok''), n)"
    using f key by (simp add: fetchToken_def post_def demo_iam_def demo_draw_def toy_jwt_def SecretKey_Sign_def Let_def token_body_def bearer_token)
  have no_guest: "\<not> is_ok (Verify_api (ih_Key ?h) (dr_Now demo_draw) (Auth_GuestToken ?r))"
    by (simp add: key toy_jwt_def Verify_api_def PublicKey_Verify_def)
  have "Verify_api ?k 1000000000 ''tok'' = Inr (NewAPIClaims 1000000000 7 AccountUser)"
    by (simp add: toy_jwt_def Verify_api_def PublicKey_Verify_def APIClaims_Valid_def NewAPIClaims_def
        StandardClaims_Valid_def expires_def Unix_def apiExpire_def duration_defs)
  moreover have "case confa_User_Create (confa_mongo_repo demo_unicode mem_mongo 0) 8 7
      (confa_zero\<lparr>co_Handle := opt_text (xd_Handle ?a), co_Title := opt_text (xd_Title ?a),
        co_Description := opt_text (xd_Description ?a)\<rparr>) api_mem of Some (v, Inr c) \<Rightarrow> True | _ \<Rightarrow> False"
    by code_simp
  moreover have "ac_UserID (NewAPIClaims 1000000000 7 AccountUser) = 7" "AllowedWrite (NewAPIClaims 1000000000 7 AccountUser)"
    by (simp_all add: NewAPIClaims_def AllowedWrite_def)
  ultimately obtain v' c where made: "CreateConfa ?rv 1000000000 8 (bearer ''tok'') ?a api_mem = (v', Inr c)"
    unfolding CreateConfa_def with_writer_def with_claims_def
    by (auto simp: demo_resolver_def bearer_token split: option.splits prod.splits sum.splits)
  have laws: "jwt_laws (ih_Key ?h)" "mongo_laws (ih_Mongo ?h) (\<lambda>w. w)" "rv_Key ?rv = ih_Key ?h"
    "rv_Confas ?rv = confa_mongo_repo demo_unicode mem_mongo 0" "0 < Unix (dr_Now demo_draw + apiExpire)"
    using mem_mongo_laws by (simp_all add: toy_jwt_laws demo_iam_def demo_resolver_def demo_draw_def Unix_def apiExpire_def duration_defs)
  from session_owner_owns_conference [OF laws(1,2) mem_mongo_laws laws(3,4) run no_guest laws(5) made] obtain d s confa where
    s: "d \<in> set (web_mem ''sessions'')" "session_dec d = Inr s" "ses_Key s = Auth_Session ?r" "co_Owner confa = ses_Owner s"
    "v' confa_collection = api_mem confa_collection @ [confa_enc confa]" by blast
  have "ses_Owner s = 7"
    using s(1-3) by (auto simp: key web_mem_def session_enc_def session_dec_def dec_defs bget_def)
  with s(4) have "co_Owner confa = 7" by simp
  with s(5) made show ?thesis by (intro exI conjI)
qed

end
